(* ===== verification/Go_Prelude.thy ===== *)
theory Go_Prelude
  imports Main "HOL-Library.Word" "HOL-Library.AList" "HOL-Library.Multiset"
begin

text \<open>
  The Go values and library functions that every component of the engine uses.

  \<^item> A Go map is an association list with distinct keys. The order of the list is the order in
    which a \<open>range\<close> loop yields the entries (Go leaves it open), so a loop over a map is a
    recursion over the list; lookup and store are \<open>map_of\<close> and \<open>AList.update\<close>.
  \<^item> \<open>uint32\<close> is \<open>32 word\<close>; \<open>int32\<close> is the same word type read by \<open>sint\<close>; the 64-bit \<open>int\<close> of
    the platform is \<open>int\<close>.
  \<^item> An \<open>error\<close> is its message; \<open>nil\<close> is \<open>None\<close>. A call that can fail or panic returns a \<open>res\<close>.
  \<^item> A string is a list of bytes, as in Go.
\<close>

named_theorems gomap \<comment> \<open>rewrite rules for Go maps held as association lists\<close>
named_theorems res_simps \<comment> \<open>inversion rules for the result type\<close>

type_synonym u32 = "32 word"
type_synonym i32 = "32 word"
type_synonym error = string
type_synonym ('k, 'v) gomap = "('k \<times> 'v) list"

section \<open>Results: a value, an error, or a panic\<close>

datatype 'a res = Ok 'a | Err error | Panic

fun res_bind :: "'a res \<Rightarrow> ('a \<Rightarrow> 'b res) \<Rightarrow> 'b res" where
  "res_bind (Ok a) f = f a"
| "res_bind (Err e) f = Err e"
| "res_bind Panic f = Panic"

fun is_Ok :: "'a res \<Rightarrow> bool" where
  "is_Ok (Ok a) = True"
| "is_Ok (Err e) = False"
| "is_Ok Panic = False"

lemma res_bind_eq_Ok [res_simps]: "res_bind m f = Ok b \<longleftrightarrow> (\<exists>a. m = Ok a \<and> f a = Ok b)"
  by (cases m) auto

lemma res_bind_eq_Err [res_simps]:
  "res_bind m f = Err e \<longleftrightarrow> m = Err e \<or> (\<exists>a. m = Ok a \<and> f a = Err e)"
  by (cases m) auto

lemma res_bind_eq_Panic [res_simps]:
  "res_bind m f = Panic \<longleftrightarrow> m = Panic \<or> (\<exists>a. m = Ok a \<and> f a = Panic)"
  by (cases m) auto

lemma is_Ok_iff [res_simps]: "is_Ok m \<longleftrightarrow> (\<exists>a. m = Ok a)"
  by (cases m) auto

lemma res_bind_cong [fundef_cong]:
  "m = m' \<Longrightarrow> (\<And>a. m' = Ok a \<Longrightarrow> f a = f' a) \<Longrightarrow> res_bind m f = res_bind m' f'"
  by (cases m') auto

section \<open>Go maps\<close>

abbreviation wf_map :: "('k, 'v) gomap \<Rightarrow> bool" where
  "wf_map m \<equiv> distinct (map fst m)"

lemma wf_map_update [gomap]: "wf_map m \<Longrightarrow> wf_map (AList.update k v m)"
  by (rule distinct_update)

lemma map_of_update [gomap]: "map_of (AList.update k v m) = (map_of m)(k \<mapsto> v)"
  by (rule update_conv')

lemma keys_update [gomap]: "fst ` set (AList.update k v m) = insert k (fst ` set m)"
  by (simp add: dom_update)

lemma wf_map_delete [gomap]: "wf_map m \<Longrightarrow> wf_map (AList.delete k m)"
  by (rule distinct_delete)

lemma map_of_delete_eq [gomap]: "map_of (AList.delete k m) = (map_of m)(k := None)"
  by (rule delete_conv')

text \<open>A store loop: every entry of a list written into a map, the last write of a key winning.\<close>

fun put_all :: "('k, 'v) gomap \<Rightarrow> ('k, 'v) gomap \<Rightarrow> ('k, 'v) gomap" where
  "put_all [] m = m"
| "put_all ((k, v) # kvs) m = put_all kvs (AList.update k v m)"

lemma wf_map_put_all [gomap]: "wf_map m \<Longrightarrow> wf_map (put_all kvs m)"
  by (induction kvs m rule: put_all.induct) (auto simp: gomap)

lemma list_all_put_all: "list_all P kvs \<Longrightarrow> list_all P m \<Longrightarrow> list_all P (put_all kvs m)"
proof (induction kvs arbitrary: m)
  case (Cons kv kvs)
  have "list_all P (AList.update (fst kv) (snd kv) m)"
    using Cons.prems by (induction m) auto
  then show ?case using Cons by (cases kv) simp
qed simp

lemma keys_put_all [gomap]: "fst ` set (put_all kvs m) = fst ` set kvs \<union> fst ` set m"
  by (induction kvs m rule: put_all.induct) (auto simp: gomap)

lemma map_of_put_all: "map_of (put_all kvs m) = map_of m ++ map_of (rev kvs)"
  by (induction kvs m rule: put_all.induct) (auto simp: gomap map_add_def fun_eq_iff split: option.splits)

lemma map_of_put_all_distinct [gomap]:
  "wf_map kvs \<Longrightarrow> map_of (put_all kvs m) = map_of m ++ map_of kvs"
proof (induction kvs m rule: put_all.induct)
  case (2 k v kvs m)
  have "map_of kvs k = None"
    using "2.prems" by (simp add: map_of_eq_None_iff)
  then show ?case
    using 2 by (auto simp: gomap map_add_def fun_eq_iff split: option.splits)
qed simp

lemma put_all_update_new:
  "wf_map kvs \<Longrightarrow> fst ` set kvs \<inter> fst ` set m = {} \<Longrightarrow> put_all kvs m = m @ kvs"
proof (induction kvs m rule: put_all.induct)
  case (2 k v kvs m)
  have new: "AList.update k v m = m @ [(k, v)]"
    using "2.prems"(2) by (induction m) auto
  have "fst ` set kvs \<inter> fst ` set (AList.update k v m) = {}"
    using "2.prems" by (auto simp: gomap)
  then show ?case
    using 2 by (simp add: new)
qed simp

lemma put_all_Nil [simp]: "wf_map kvs \<Longrightarrow> put_all kvs [] = kvs"
  using put_all_update_new [of kvs "[]"] by simp

lemma map_of_mset_eq:
  assumes "wf_map m" and "mset m' = mset m"
  shows "map_of m' = map_of m"
proof -
  have "mset (map fst m') = mset (map fst m)"
    using assms(2) by (metis mset_map)
  then have "wf_map m'"
    using assms(1) by (metis mset_eq_imp_distinct_iff)
  moreover have "set m' = set m"
    using assms(2) by (rule mset_eq_setD)
  ultimately show ?thesis
    using assms(1) by (metis map_of_inject_set)
qed

end
