(* ===== verification/Go_Strings.thy ===== *)
theory Go_Strings
  imports Go_Prelude
begin

text \<open>
  The functions of Go's \<open>strings\<close> and \<open>strconv\<close> that the engine calls, on byte strings:
  \<open>strconv.Itoa\<close>, \<open>strconv.FormatUint\<close> (\<open>nat_str\<close>, \<open>int_str\<close>), \<open>strconv.ParseUint(s, 10, 32)\<close>,
  \<open>strconv.Atoi\<close>, \<open>strings.ToLower\<close>, \<open>strings.ReplaceAll\<close>, \<open>strings.TrimSuffix\<close> and
  \<open>strings.TrimSpace\<close>. Case mapping and white space are those of ASCII; the bytes above 127 are
  left as they are.
\<close>

section \<open>Decimal numbers\<close>

definition digit_char :: "nat \<Rightarrow> char" where
  "digit_char d = char_of (48 + d)"

definition is_digit :: "char \<Rightarrow> bool" where
  "is_digit c \<longleftrightarrow> 48 \<le> (of_char c :: nat) \<and> (of_char c :: nat) \<le> 57"

definition digit_val :: "char \<Rightarrow> nat" where
  "digit_val c = of_char c - 48"

fun nat_str :: "nat \<Rightarrow> string" where
  "nat_str n = (if n < 10 then [digit_char n] else nat_str (n div 10) @ [digit_char (n mod 10)])"

declare nat_str.simps [simp del]

definition int_str :: "int \<Rightarrow> string" where
  "int_str i = (if i < 0 then CHR ''-'' # nat_str (nat (- i)) else nat_str (nat i))"

definition u32_str :: "u32 \<Rightarrow> string" where
  "u32_str w = nat_str (unat w)"

lemma digit_char_digit [simp]: "d < 10 \<Longrightarrow> is_digit (digit_char d)"
  by (simp add: is_digit_def digit_char_def)

lemma digit_val_char [simp]: "d < 10 \<Longrightarrow> digit_val (digit_char d) = d"
  by (simp add: digit_val_def digit_char_def)

lemma nat_str_not_Nil [simp]: "nat_str n \<noteq> []"
  by (subst nat_str.simps) simp

lemma nat_str_digits: "list_all is_digit (nat_str n)"
  by (induction n rule: nat_str.induct) (subst nat_str.simps, auto)

text \<open>The value of a digit string, read from the left.\<close>

fun dec_val :: "nat \<Rightarrow> string \<Rightarrow> nat" where
  "dec_val n [] = n"
| "dec_val n (c # cs) = dec_val (10 * n + digit_val c) cs"

lemma dec_val_append: "dec_val n (s @ t) = dec_val (dec_val n s) t"
  by (induction n s rule: dec_val.induct) auto

lemma dec_val_mono: "n \<le> dec_val n s"
  by (induction n s rule: dec_val.induct) (auto intro: order_trans)

lemma dec_val_nat_str [simp]: "dec_val 0 (nat_str n) = n"
proof (induction n rule: nat_str.induct)
  case (1 n)
  show ?case
  proof (cases "n < 10")
    case False
    then have "dec_val 0 (nat_str (n div 10)) = n div 10"
      using "1.IH" by simp
    with False show ?thesis
      by (subst nat_str.simps) (simp add: dec_val_append)
  qed (subst nat_str.simps, simp)
qed

lemma nat_str_inject [simp]: "nat_str m = nat_str n \<longleftrightarrow> m = n"
  by (metis dec_val_nat_str)

lemma u32_str_inject [simp]: "u32_str v = u32_str w \<longleftrightarrow> v = w"
  by (simp add: u32_str_def word_unat_eq_iff)

section \<open>Parsing numbers\<close>

definition quoted :: "string \<Rightarrow> string" where
  "quoted s = CHR 0x22 # s @ [CHR 0x22]"

definition err_syntax :: "string \<Rightarrow> string \<Rightarrow> error" where
  "err_syntax fn s = ''strconv.'' @ fn @ '': parsing '' @ quoted s @ '': invalid syntax''"

definition err_range :: "string \<Rightarrow> string \<Rightarrow> error" where
  "err_range fn s = ''strconv.'' @ fn @ '': parsing '' @ quoted s @ '': value out of range''"

text \<open>\<open>strconv.ParseUint(s, 10, bits)\<close>: the first offending character decides the error.\<close>

fun parse_uint_loop :: "string \<Rightarrow> string \<Rightarrow> nat \<Rightarrow> nat \<Rightarrow> string \<Rightarrow> nat res" where
  "parse_uint_loop fn s0 mx n [] = Ok n"
| "parse_uint_loop fn s0 mx n (c # cs) =
    (if \<not> is_digit c then Err (err_syntax fn s0)
     else let n1 = 10 * n + digit_val c in
          if mx < n1 then Err (err_range fn s0) else parse_uint_loop fn s0 mx n1 cs)"

definition ParseUint :: "nat \<Rightarrow> string \<Rightarrow> nat res" where
  "ParseUint bits s =
    (if s = [] then Err (err_syntax ''ParseUint'' s)
     else parse_uint_loop ''ParseUint'' s (2 ^ bits - 1) 0 s)"

definition Atoi :: "string \<Rightarrow> int res" where
  "Atoi s =
    (let neg = (s \<noteq> [] \<and> hd s = CHR ''-'');
         body = (if s \<noteq> [] \<and> (hd s = CHR ''-'' \<or> hd s = CHR ''+'') then tl s else s) in
     if body = [] then Err (err_syntax ''Atoi'' s)
     else res_bind (parse_uint_loop ''Atoi'' s (if neg then 2 ^ 63 else 2 ^ 63 - 1) 0 body)
            (\<lambda>n. Ok (if neg then - int n else int n)))"

lemma parse_uint_loop_Ok:
  "n \<le> mx \<Longrightarrow> parse_uint_loop fn s0 mx n s = Ok r \<longleftrightarrow>
     list_all is_digit s \<and> dec_val n s \<le> mx \<and> r = dec_val n s"
proof (induction fn s0 mx n s rule: parse_uint_loop.induct)
  case (2 fn s0 mx n c cs)
  have "dec_val n (c # cs) \<ge> 10 * n + digit_val c"
    using dec_val_mono [of "10 * n + digit_val c" cs] by simp
  with 2 show ?case
    by (auto simp: Let_def)
qed auto

lemma parse_uint_loop_digits:
  "n \<le> mx \<Longrightarrow> list_all is_digit s \<Longrightarrow> parse_uint_loop fn s0 mx n s =
     (if dec_val n s \<le> mx then Ok (dec_val n s) else Err (err_range fn s0))"
proof (induction fn s0 mx n s rule: parse_uint_loop.induct)
  case (2 fn s0 mx n c cs)
  have "dec_val n (c # cs) \<ge> 10 * n + digit_val c"
    using dec_val_mono [of "10 * n + digit_val c" cs] by simp
  with 2 show ?case
    by (auto simp: Let_def)
qed auto

lemma parse_uint_loop_no_panic [simp]: "parse_uint_loop fn s0 mx n s \<noteq> Panic"
  by (induction fn s0 mx n s rule: parse_uint_loop.induct) (auto simp: Let_def)

lemma ParseUint_Ok:
  "ParseUint bits s = Ok r \<longleftrightarrow>
     s \<noteq> [] \<and> list_all is_digit s \<and> dec_val 0 s \<le> 2 ^ bits - 1 \<and> r = dec_val 0 s"
  by (auto simp: ParseUint_def parse_uint_loop_Ok)

lemma ParseUint_no_panic [simp]: "ParseUint bits s \<noteq> Panic"
  by (simp add: ParseUint_def)

lemma ParseUint_u32_str [simp]: "ParseUint 32 (u32_str w) = Ok (unat w)"
  using unsigned_less [of w, where ?'a = nat] by (simp add: ParseUint_Ok u32_str_def nat_str_digits)

lemma is_digit_not_sign [simp]: "is_digit c \<Longrightarrow> c \<noteq> CHR ''-'' \<and> c \<noteq> CHR ''+''"
  by (auto simp: is_digit_def)

lemma Atoi_digits:
  "s \<noteq> [] \<Longrightarrow> list_all is_digit s \<Longrightarrow>
     Atoi s = (if dec_val 0 s < 2 ^ 63 then Ok (int (dec_val 0 s)) else Err (err_range ''Atoi'' s))"
proof -
  assume s: "s \<noteq> []" "list_all is_digit s"
  then have "hd s \<noteq> CHR ''-''" "hd s \<noteq> CHR ''+''"
    by (cases s; auto)+
  with s show ?thesis
    by (auto simp: Atoi_def Let_def parse_uint_loop_digits)
qed

section \<open>String functions\<close>

definition lower_char :: "char \<Rightarrow> char" where
  "lower_char c = (let n = of_char c :: nat in if 65 \<le> n \<and> n \<le> 90 then char_of (n + 32) else c)"

definition ToLower :: "string \<Rightarrow> string" where
  "ToLower s = map lower_char s"

text \<open>\<open>strings.ReplaceAll\<close> for a non-empty pattern (the engine uses no other).\<close>

function ReplaceAll :: "string \<Rightarrow> string \<Rightarrow> string \<Rightarrow> string" where
  "ReplaceAll s old new =
    (if s = [] \<or> old = [] then s
     else if take (length old) s = old then new @ ReplaceAll (drop (length old) s) old new
     else hd s # ReplaceAll (tl s) old new)"
  by pat_completeness auto
termination
  by (relation "measure (\<lambda>(s, old, new). length s)") (auto simp: neq_Nil_conv)

declare ReplaceAll.simps [simp del]

lemma ReplaceAll_Nil [simp]: "ReplaceAll [] old new = []"
  by (simp add: ReplaceAll.simps)

lemma ReplaceAll_char [simp]:
  "ReplaceAll (c # s) [d] new = (if c = d then new @ ReplaceAll s [d] new else c # ReplaceAll s [d] new)"
  by (subst ReplaceAll.simps) simp

lemma ReplaceAll_delete_char: "ReplaceAll s [d] [] = filter (\<lambda>c. c \<noteq> d) s"
  by (induction s) auto

definition TrimSuffix :: "string \<Rightarrow> string \<Rightarrow> string" where
  "TrimSuffix s suf =
    (if length suf \<le> length s \<and> drop (length s - length suf) s = suf
     then take (length s - length suf) s else s)"

lemma TrimSuffix_append [simp]: "TrimSuffix (s @ suf) suf = s"
  by (simp add: TrimSuffix_def)

definition is_space :: "char \<Rightarrow> bool" where
  "is_space c \<longleftrightarrow> c \<in> {CHR '' '', CHR 0x09, CHR 0x0A, CHR 0x0B, CHR 0x0C, CHR 0x0D}"

definition TrimSpace :: "string \<Rightarrow> string" where
  "TrimSpace s = rev (dropWhile is_space (rev (dropWhile is_space s)))"

end
