(* ===== verification/Go_Json.thy ===== *)
theory Go_Json
  imports Go_Strings "HOL-Library.List_Lexorder" "HOL-Library.Char_ord"
begin

text \<open>
  Go's \<open>encoding/json\<close> as far as the engine uses it: the text syntax (\<open>json_parse\<close>, which is
  \<open>json.Valid\<close> and the first half of \<open>json.Unmarshal\<close>), the compact printer of \<open>json.Marshal\<close>
  with its HTML escaping (\<open>json_print\<close>), and \<open>Unmarshal\<close> into the Go types of the engine
  (\<open>map[string]uint32\<close>, \<open>map[string]string\<close>, \<open>[]string\<close>), including the entries a failed
  \<open>Unmarshal\<close> leaves behind. A number keeps its literal, as Go converts it only for its target
  type. Go replaces invalid UTF-8 by U+FFFD and escapes U+2028 and U+2029; both are left out, so
  the model is exact on strings without them.

  The parser spends one unit of fuel per nested call and \<open>json_parse\<close> gives it twice the length
  of the text; \<open>json_print_parse\<close> shows that this is enough for every printed value.
\<close>

datatype json =
    JNull
  | JBool bool
  | JNum string
  | JStr string
  | JArr "json list"
  | JObj "(string \<times> json) list"

section \<open>Strings\<close>

abbreviation dquote :: char where "dquote \<equiv> CHR 0x22"
abbreviation bslash :: char where "bslash \<equiv> CHR 0x5C"

definition hex_char :: "nat \<Rightarrow> char" where
  "hex_char d = char_of (if d < 10 then 48 + d else 87 + d)"

definition hex_val :: "char \<Rightarrow> nat option" where
  "hex_val c =
    (let n = of_char c :: nat in
     if 48 \<le> n \<and> n \<le> 57 then Some (n - 48)
     else if 97 \<le> n \<and> n \<le> 102 then Some (n - 87)
     else if 65 \<le> n \<and> n \<le> 70 then Some (n - 55)
     else None)"

lemma hex_val_char [simp]: "d < 16 \<Longrightarrow> hex_val (hex_char d) = Some d"
  by (auto simp: hex_val_def hex_char_def Let_def)

fun hex4 :: "string \<Rightarrow> (nat \<times> string) option" where
  "hex4 (a # b # c # d # r) =
    (case (hex_val a, hex_val b, hex_val c, hex_val d) of
       (Some x, Some y, Some z, Some w) \<Rightarrow> Some (4096 * x + 256 * y + 16 * z + w, r)
     | _ \<Rightarrow> None)"
| "hex4 _ = None"

definition utf8 :: "nat \<Rightarrow> string" where
  "utf8 u =
    (if u < 0x80 then [char_of u]
     else if u < 0x800 then [char_of (0xC0 + u div 64), char_of (0x80 + u mod 64)]
     else if u < 0x10000 then
       [char_of (0xE0 + u div 4096), char_of (0x80 + u div 64 mod 64), char_of (0x80 + u mod 64)]
     else
       [char_of (0xF0 + u div 262144), char_of (0x80 + u div 4096 mod 64),
        char_of (0x80 + u div 64 mod 64), char_of (0x80 + u mod 64)])"

definition simple_escape :: "char \<Rightarrow> char option" where
  "simple_escape e =
    (if e = dquote \<or> e = bslash \<or> e = CHR ''/'' then Some e
     else if e = CHR ''b'' then Some (CHR 0x08)
     else if e = CHR ''f'' then Some (CHR 0x0C)
     else if e = CHR ''n'' then Some (CHR 0x0A)
     else if e = CHR ''r'' then Some (CHR 0x0D)
     else if e = CHR ''t'' then Some (CHR 0x09)
     else None)"

text \<open>One escape sequence, after its backslash: what it stands for and the rest of the text.\<close>

definition unescape_u :: "string \<Rightarrow> (string \<times> string) option" where
  "unescape_u r =
    (case hex4 r of
       None \<Rightarrow> None
     | Some (u, r1) \<Rightarrow>
         if u < 0xD800 \<or> 0xE000 \<le> u then Some (utf8 u, r1)
         else
           (case (if take 2 r1 = [bslash, CHR ''u''] then hex4 (drop 2 r1) else None) of
              None \<Rightarrow> Some (utf8 0xFFFD, r1)
            | Some (v, r2) \<Rightarrow>
                if u < 0xDC00 \<and> 0xDC00 \<le> v \<and> v < 0xE000
                then Some (utf8 (0x10000 + (u - 0xD800) * 1024 + (v - 0xDC00)), r2)
                else Some (utf8 0xFFFD, r1)))"

fun unescape :: "string \<Rightarrow> (string \<times> string) option" where
  "unescape [] = None"
| "unescape (e # r) =
    (if e = CHR ''u'' then unescape_u r
     else map_option (\<lambda>c. ([c], r)) (simple_escape e))"

lemma hex4_length: "hex4 s = Some (u, r) \<Longrightarrow> length r < length s"
  by (cases s rule: hex4.cases) (auto split: option.splits)

lemma unescape_length: "unescape s = Some (t, r) \<Longrightarrow> length r < length s"
  by (cases s)
    (auto simp: unescape_u_def dest!: hex4_length split: if_splits option.splits prod.splits)

function parse_str :: "string \<Rightarrow> (string \<times> string) option" where
  "parse_str [] = None"
| "parse_str (c # cs) =
    (if c = dquote then Some ([], cs)
     else if c = bslash then
       (case unescape cs of
          None \<Rightarrow> None
        | Some (t, r) \<Rightarrow> map_option (\<lambda>(u, r'). (t @ u, r')) (parse_str r))
     else if (of_char c :: nat) < 32 then None
     else map_option (\<lambda>(u, r'). (c # u, r')) (parse_str cs))"
  by pat_completeness auto
termination
  by (relation "measure length") (auto dest: unescape_length)

definition esc_char :: "char \<Rightarrow> string" where
  "esc_char c =
    (let n = of_char c :: nat in
     if c = dquote \<or> c = bslash then [bslash, c]
     else if c = CHR 0x08 then [bslash, CHR ''b'']
     else if c = CHR 0x0C then [bslash, CHR ''f'']
     else if c = CHR 0x0A then [bslash, CHR ''n'']
     else if c = CHR 0x0D then [bslash, CHR ''r'']
     else if c = CHR 0x09 then [bslash, CHR ''t'']
     else if n < 32 \<or> c \<in> {CHR ''<'', CHR ''>'', CHR ''&''}
       then [bslash, CHR ''u'', CHR ''0'', CHR ''0'', hex_char (n div 16), hex_char (n mod 16)]
     else [c])"

definition print_str :: "string \<Rightarrow> string" where
  "print_str s = dquote # concat (map esc_char s) @ [dquote]"

lemma hex_char_0: "hex_val (CHR ''0'') = Some 0"
  by (simp add: hex_val_def)

definition short_escape :: "char \<Rightarrow> bool" where
  "short_escape c \<longleftrightarrow>
    c \<in> {dquote, bslash, CHR 0x08, CHR 0x0C, CHR 0x0A, CHR 0x0D, CHR 0x09}"

definition long_escape :: "char \<Rightarrow> bool" where
  "long_escape c \<longleftrightarrow>
    \<not> short_escape c \<and> ((of_char c :: nat) < 32 \<or> c \<in> {CHR ''<'', CHR ''>'', CHR ''&''})"

lemma esc_char_short:
  "short_escape c \<Longrightarrow> \<exists>e. esc_char c = [bslash, e] \<and> e \<noteq> CHR ''u'' \<and> simple_escape e = Some c"
  unfolding short_escape_def
  by (elim insertE emptyE; simp add: esc_char_def simple_escape_def)

lemma esc_char_long:
  assumes "long_escape c"
  shows "\<exists>h l. esc_char c = [bslash, CHR ''u'', CHR ''0'', CHR ''0'', h, l] \<and>
           unescape_u (CHR ''0'' # CHR ''0'' # h # l # r) = Some ([c], r)"
proof -
  define n :: nat where "n = of_char c"
  have n: "n < 128" and c: "char_of n = c"
    using assms by (auto simp: long_escape_def n_def)
  have "esc_char c =
      [bslash, CHR ''u'', CHR ''0'', CHR ''0'', hex_char (n div 16), hex_char (n mod 16)]"
    using assms by (simp add: long_escape_def short_escape_def esc_char_def n_def Let_def)
  moreover have "unescape_u (CHR ''0'' # CHR ''0'' # hex_char (n div 16) # hex_char (n mod 16) # r) =
      Some ([c], r)"
    using n c by (simp add: unescape_u_def hex_char_0 utf8_def)
  ultimately show ?thesis by blast
qed

lemma esc_char_plain:
  "\<not> short_escape c \<Longrightarrow> \<not> long_escape c \<Longrightarrow>
     esc_char c = [c] \<and> c \<noteq> dquote \<and> c \<noteq> bslash \<and> \<not> (of_char c :: nat) < 32"
  by (simp add: long_escape_def short_escape_def esc_char_def Let_def)

lemma parse_str_esc: "parse_str (esc_char c @ r) = map_option (\<lambda>(u, r'). (c # u, r')) (parse_str r)"
proof -
  consider "short_escape c" | "long_escape c" | "\<not> short_escape c" "\<not> long_escape c"
    by blast
  then show ?thesis
  proof cases
    case 1
    then show ?thesis using esc_char_short [OF 1] by auto
  next
    case 2
    then show ?thesis using esc_char_long [OF 2, of r] by auto
  next
    case 3
    then show ?thesis using esc_char_plain [OF 3] by auto
  qed
qed

lemma parse_str_print [simp]:
  "parse_str (concat (map esc_char s) @ dquote # r) = Some (s, r)"
  by (induction s) (auto simp: parse_str_esc)

section \<open>Numbers\<close>

definition scan_digits :: "string \<Rightarrow> (string \<times> string) option" where
  "scan_digits s =
    (if takeWhile is_digit s = [] then None else Some (takeWhile is_digit s, dropWhile is_digit s))"

definition scan_int :: "string \<Rightarrow> (string \<times> string) option" where
  "scan_int s =
    (case s of [] \<Rightarrow> None | c # cs \<Rightarrow> if c = CHR ''0'' then Some ([c], cs) else scan_digits s)"

definition scan_frac :: "string \<Rightarrow> (string \<times> string) option" where
  "scan_frac s =
    (case s of
       [] \<Rightarrow> Some ([], s)
     | c # cs \<Rightarrow>
         if c = CHR ''.'' then map_option (\<lambda>(ds, r). (c # ds, r)) (scan_digits cs) else Some ([], s))"

definition scan_exp :: "string \<Rightarrow> (string \<times> string) option" where
  "scan_exp s =
    (case s of
       [] \<Rightarrow> Some ([], s)
     | c # cs \<Rightarrow>
         if c = CHR ''e'' \<or> c = CHR ''E'' then
           (case cs of
              [] \<Rightarrow> None
            | d # ds \<Rightarrow>
                if d = CHR ''+'' \<or> d = CHR ''-''
                then map_option (\<lambda>(t, r). (c # d # t, r)) (scan_digits ds)
                else map_option (\<lambda>(t, r). (c # t, r)) (scan_digits cs))
         else Some ([], s))"

definition scan_number :: "string \<Rightarrow> (string \<times> string) option" where
  "scan_number s =
    (let (sign, s0) = (if s \<noteq> [] \<and> hd s = CHR ''-'' then (''-'', tl s) else ([], s)) in
     case scan_int s0 of None \<Rightarrow> None | Some (a, s1) \<Rightarrow>
     case scan_frac s1 of None \<Rightarrow> None | Some (b, s2) \<Rightarrow>
     case scan_exp s2 of None \<Rightarrow> None | Some (c, s3) \<Rightarrow> Some (sign @ a @ b @ c, s3))"

text \<open>What may follow a number without being read as part of it.\<close>

definition ends_number :: "string \<Rightarrow> bool" where
  "ends_number r \<longleftrightarrow>
    (case r of [] \<Rightarrow> True | c # _ \<Rightarrow> \<not> is_digit c \<and> c \<notin> {CHR ''.'', CHR ''e'', CHR ''E''})"

lemma ends_number_simps [simp]:
  "ends_number []" "ends_number (CHR '','' # r)" "ends_number (CHR '']'' # r)"
  "ends_number (CHR ''}'' # r)"
  by (simp_all add: ends_number_def is_digit_def)

lemma nat_str_hd_zero: "hd (nat_str n) = CHR ''0'' \<Longrightarrow> n = 0"
proof (induction n rule: nat_str.induct)
  case (1 n)
  show ?case
  proof (cases "n < 10")
    case True
    then have "digit_val (digit_char n) = n" by simp
    moreover have "nat_str n = [digit_char n]" using True by (simp add: nat_str.simps)
    ultimately show ?thesis using "1.prems" by (simp add: digit_val_def)
  next
    case False
    moreover have "hd (nat_str n) = hd (nat_str (n div 10))"
      using False by (subst nat_str.simps) simp
    ultimately have "n div 10 = 0" using 1 by simp
    with False show ?thesis by simp
  qed
qed

lemma takeWhile_digits:
  "list_all is_digit s \<Longrightarrow> ends_number r \<Longrightarrow>
     takeWhile is_digit (s @ r) = s \<and> dropWhile is_digit (s @ r) = r"
  by (induction s) (auto simp: ends_number_def split: list.splits)

lemma scan_frac_exp_end: "ends_number r \<Longrightarrow> scan_frac r = Some ([], r) \<and> scan_exp r = Some ([], r)"
  by (auto simp: ends_number_def scan_frac_def scan_exp_def split: list.splits)

lemma scan_number_nat_str:
  assumes "ends_number r"
  shows "scan_number (nat_str n @ r) = Some (nat_str n, r)"
proof -
  obtain c cs where n: "nat_str n = c # cs" and c: "is_digit c"
    using nat_str_digits [of n] nat_str_not_Nil [of n] by (cases "nat_str n") auto
  have "scan_int (nat_str n @ r) = Some (nat_str n, r)"
  proof (cases "c = CHR ''0''")
    case True
    then have "n = 0" using nat_str_hd_zero [of n] n by simp
    then have "nat_str n = [c]" using n by (simp add: nat_str.simps)
    with True show ?thesis by (simp add: scan_int_def)
  next
    case False
    then show ?thesis
      using takeWhile_digits [OF nat_str_digits assms, of n] n
      by (simp add: scan_int_def scan_digits_def)
  qed
  moreover have "hd (nat_str n @ r) \<noteq> CHR ''-''"
    using n c by auto
  ultimately show ?thesis
    using scan_frac_exp_end [OF assms] by (simp add: scan_number_def Let_def)
qed

lemma scan_number_nat_str_end [simp]: "scan_number (nat_str n) = Some (nat_str n, [])"
  using scan_number_nat_str [of "[]" n] by simp

lemma scan_number_digit: "is_digit c \<Longrightarrow> scan_number [c] = Some ([c], [])"
  by (auto simp: scan_number_def scan_int_def scan_digits_def scan_frac_def scan_exp_def is_digit_def)

text \<open>A number that has been read is read again from its own text, whatever ends it there.\<close>

definition no_digit :: "string \<Rightarrow> bool" where
  "no_digit r \<longleftrightarrow> (case r of [] \<Rightarrow> True | c # _ \<Rightarrow> \<not> is_digit c)"

lemma no_digit_simps [simp]: "no_digit []" "no_digit (c # r) \<longleftrightarrow> \<not> is_digit c"
  by (simp_all add: no_digit_def)

lemma scan_digitsD: "scan_digits s = Some (t, r) \<Longrightarrow> t \<noteq> [] \<and> list_all is_digit t"
  by (auto simp: scan_digits_def list_all_iff dest: set_takeWhileD split: if_splits)

lemma scan_digitsI: "t \<noteq> [] \<Longrightarrow> list_all is_digit t \<Longrightarrow> no_digit r \<Longrightarrow> scan_digits (t @ r) = Some (t, r)"
proof -
  assume t: "t \<noteq> []" "list_all is_digit t" "no_digit r"
  have "takeWhile is_digit (t @ r) = t \<and> dropWhile is_digit (t @ r) = r"
    using t(2,3) by (induction t) (auto simp: no_digit_def split: list.splits)
  then show ?thesis using t by (simp add: scan_digits_def)
qed

lemma scan_int_again:
  assumes "scan_int s = Some (t, r0)" and "no_digit r"
  shows "scan_int (t @ r) = Some (t, r) \<and> (\<exists>c cs. t = c # cs \<and> is_digit c)"
proof (cases s)
  case (Cons c cs)
  show ?thesis
  proof (cases "c = CHR ''0''")
    case True
    then have "t = [CHR ''0'']" using assms(1) Cons by (simp add: scan_int_def)
    moreover have "is_digit (CHR ''0'')" by (simp add: is_digit_def)
    ultimately show ?thesis by (simp add: scan_int_def)
  next
    case False
    then have d: "scan_digits s = Some (t, r0)" using assms Cons by (simp add: scan_int_def)
    then obtain u where "t = c # u" using Cons by (auto simp: scan_digits_def split: if_splits)
    then show ?thesis
      using scan_digitsD [OF d] scan_digitsI [of t r] assms False by (auto simp: scan_int_def)
  qed
qed (use assms in \<open>simp add: scan_int_def\<close>)

lemma scan_frac_again:
  assumes "scan_frac s = Some (t, r0)" and "no_digit r" and "r = [] \<or> hd r \<noteq> CHR ''.''"
  shows "scan_frac (t @ r) = Some (t, r) \<and> no_digit (t @ r)"
proof (cases "t = []")
  case True
  then show ?thesis using assms by (cases r) (auto simp: scan_frac_def)
next
  case False
  then obtain cs ds where "s = CHR ''.'' # cs" "scan_digits cs = Some (ds, r0)" "t = CHR ''.'' # ds"
    using assms by (auto simp: scan_frac_def split: list.splits if_splits)
  then show ?thesis
    using scan_digitsD [of cs ds r0] scan_digitsI [of ds r] assms by (simp add: scan_frac_def is_digit_def)
qed

lemma scan_exp_again:
  assumes "scan_exp s = Some (t, r0)" and "ends_number r"
  shows "scan_exp (t @ r) = Some (t, r) \<and> no_digit (t @ r) \<and> (t @ r = [] \<or> hd (t @ r) \<noteq> CHR ''.'')"
proof (cases "t = []")
  case True
  then show ?thesis using assms scan_frac_exp_end [of r] by (cases r) (auto simp: ends_number_def)
next
  case False
  have r: "no_digit r" using assms by (auto simp: ends_number_def no_digit_def split: list.splits)
  from False assms obtain c cs where s: "s = c # cs" "c = CHR ''e'' \<or> c = CHR ''E''"
    by (auto simp: scan_exp_def split: list.splits if_splits)
  then consider
      d ds u where "d = CHR ''+'' \<or> d = CHR ''-''" "scan_digits ds = Some (u, r0)" "t = c # d # u"
    | u where "scan_digits cs = Some (u, r0)" "t = c # u"
    using assms by (auto simp: scan_exp_def split: list.splits if_splits)
  then show ?thesis
  proof cases
    case 1
    then show ?thesis using scan_digitsD [OF 1(2)] scan_digitsI [of u r] s r by (auto simp: scan_exp_def is_digit_def)
  next
    case 2
    then obtain d v where u: "u = d # v" "is_digit d" "list_all is_digit u"
      using scan_digitsD [OF 2(1)] by (cases u) auto
    then have "d \<noteq> CHR ''+''" "d \<noteq> CHR ''-''" by (auto simp: is_digit_def)
    then show ?thesis using scan_digitsI [of u r] u 2 s r by (auto simp: scan_exp_def is_digit_def)
  qed
qed

lemma scan_number_again:
  assumes "scan_number s = Some (t, r0)" and r: "ends_number r"
  shows "scan_number (t @ r) = Some (t, r) \<and> (\<exists>c cs. t = c # cs \<and> (is_digit c \<or> c = CHR ''-''))"
proof -
  obtain sign s0 where sg: "(sign, s0) = (if s \<noteq> [] \<and> hd s = CHR ''-'' then (''-'', tl s) else ([], s))"
    by (metis surj_pair)
  then obtain a s1 b s2 c where n: "scan_int s0 = Some (a, s1)" "scan_frac s1 = Some (b, s2)"
      "scan_exp s2 = Some (c, r0)" "t = sign @ a @ b @ c"
    using assms(1) unfolding scan_number_def sg [symmetric] by (auto split: option.splits)
  have e: "scan_exp (c @ r) = Some (c, r)" "no_digit (c @ r)" "c @ r = [] \<or> hd (c @ r) \<noteq> CHR ''.''"
    using scan_exp_again [OF n(3) r] by auto
  have f: "scan_frac (b @ c @ r) = Some (b, c @ r)" "no_digit (b @ c @ r)"
    using scan_frac_again [OF n(2) e(2,3)] by auto
  obtain d ds where i: "scan_int (a @ b @ c @ r) = Some (a, b @ c @ r)" "a = d # ds" "is_digit d"
    using scan_int_again [OF n(1) f(2)] by auto
  have "d \<noteq> CHR ''-''" using i(3) by (auto simp: is_digit_def)
  then show ?thesis
    using e f i n(4) sg by (auto simp: scan_number_def split: if_splits)
qed

section \<open>Values\<close>

definition skip_ws :: "string \<Rightarrow> string" where
  "skip_ws s = dropWhile (\<lambda>c. c \<in> {CHR '' '', CHR 0x09, CHR 0x0A, CHR 0x0D}) s"

definition strip_prefix :: "string \<Rightarrow> string \<Rightarrow> string option" where
  "strip_prefix p s = (if take (length p) s = p then Some (drop (length p) s) else None)"

fun json_value :: "nat \<Rightarrow> string \<Rightarrow> (json \<times> string) option"
  and json_elems :: "nat \<Rightarrow> string \<Rightarrow> (json list \<times> string) option"
  and json_members :: "nat \<Rightarrow> string \<Rightarrow> ((string \<times> json) list \<times> string) option" where
  "json_value 0 s = None"
| "json_value (Suc n) s =
    (case skip_ws s of
       [] \<Rightarrow> None
     | c # cs \<Rightarrow>
         if c = dquote then map_option (\<lambda>(t, r). (JStr t, r)) (parse_str cs)
         else if c = CHR ''['' then
           (case skip_ws cs of
              d # r \<Rightarrow> if d = CHR '']'' then Some (JArr [], r)
                       else map_option (\<lambda>(js, r'). (JArr js, r')) (json_elems n cs)
            | [] \<Rightarrow> None)
         else if c = CHR ''{'' then
           (case skip_ws cs of
              d # r \<Rightarrow> if d = CHR ''}'' then Some (JObj [], r)
                       else map_option (\<lambda>(kvs, r'). (JObj kvs, r')) (json_members n cs)
            | [] \<Rightarrow> None)
         else if c = CHR ''n'' then map_option (\<lambda>r. (JNull, r)) (strip_prefix ''null'' (c # cs))
         else if c = CHR ''t'' then map_option (\<lambda>r. (JBool True, r)) (strip_prefix ''true'' (c # cs))
         else if c = CHR ''f'' then map_option (\<lambda>r. (JBool False, r)) (strip_prefix ''false'' (c # cs))
         else map_option (\<lambda>(t, r). (JNum t, r)) (scan_number (c # cs)))"
| "json_elems 0 s = None"
| "json_elems (Suc n) s =
    (case json_value n s of
       None \<Rightarrow> None
     | Some (j, r) \<Rightarrow>
         (case skip_ws r of
            [] \<Rightarrow> None
          | c # r' \<Rightarrow>
              if c = CHR '','' then map_option (\<lambda>(js, r''). (j # js, r'')) (json_elems n r')
              else if c = CHR '']'' then Some ([j], r')
              else None))"
| "json_members 0 s = None"
| "json_members (Suc n) s =
    (case skip_ws s of
       [] \<Rightarrow> None
     | q # s1 \<Rightarrow>
         if q \<noteq> dquote then None
         else
           (case parse_str s1 of
              None \<Rightarrow> None
            | Some (k, s2) \<Rightarrow>
                (case skip_ws s2 of
                   [] \<Rightarrow> None
                 | col # s3 \<Rightarrow>
                     if col \<noteq> CHR '':'' then None
                     else
                       (case json_value n s3 of
                          None \<Rightarrow> None
                        | Some (v, s4) \<Rightarrow>
                            (case skip_ws s4 of
                               [] \<Rightarrow> None
                             | c # s5 \<Rightarrow>
                                 if c = CHR '','' then
                                   map_option (\<lambda>(kvs, r). ((k, v) # kvs, r)) (json_members n s5)
                                 else if c = CHR ''}'' then Some ([(k, v)], s5)
                                 else None)))))"

definition json_parse :: "string \<Rightarrow> json option" where
  "json_parse s =
    (case json_value (2 * length s + 2) s of
       None \<Rightarrow> None
     | Some (j, r) \<Rightarrow> if skip_ws r = [] then Some j else None)"

definition json_valid :: "string \<Rightarrow> bool" where
  "json_valid s \<longleftrightarrow> json_parse s \<noteq> None"

fun join_comma :: "string list \<Rightarrow> string" where
  "join_comma [] = []"
| "join_comma [x] = x"
| "join_comma (x # y # ys) = x @ CHR '','' # join_comma (y # ys)"

fun json_print :: "json \<Rightarrow> string" where
  "json_print JNull = ''null''"
| "json_print (JBool b) = (if b then ''true'' else ''false'')"
| "json_print (JNum t) = t"
| "json_print (JStr s) = print_str s"
| "json_print (JArr js) = CHR ''['' # join_comma (map json_print js) @ '']''"
| "json_print (JObj kvs) =
    CHR ''{'' # join_comma (map (\<lambda>(k, v). print_str k @ CHR '':'' # json_print v) kvs) @ ''}''"

text \<open>The values that can be printed: every number is a JSON literal.\<close>

fun plain_json :: "json \<Rightarrow> bool" where
  "plain_json (JNum t) \<longleftrightarrow> scan_number t = Some (t, [])"
| "plain_json (JArr js) \<longleftrightarrow> list_all plain_json js"
| "plain_json (JObj kvs) \<longleftrightarrow> list_all (\<lambda>(k, v). plain_json v) kvs"
| "plain_json _ \<longleftrightarrow> True"

section \<open>Printing and parsing again\<close>

lemma skip_ws_simps [simp]:
  "skip_ws [] = []"
  "c \<notin> {CHR '' '', CHR 0x09, CHR 0x0A, CHR 0x0D} \<Longrightarrow> skip_ws (c # s) = c # s"
  by (auto simp: skip_ws_def)

fun json_size :: "json \<Rightarrow> nat" where
  "json_size (JArr js) = 1 + length js + sum_list (map json_size js)"
| "json_size (JObj kvs) = 1 + length kvs + sum_list (map (\<lambda>(k, v). json_size v) kvs)"
| "json_size _ = 1"

lemma json_size_pos [simp]: "0 < json_size j"
  by (cases j) auto

lemma plain_num:
  assumes "plain_json (JNum t)"
  shows "\<exists>c cs. t = c # cs \<and> (is_digit c \<or> c = CHR ''-'')"
    and "ends_number r \<Longrightarrow> scan_number (t @ r) = Some (t, r)"
  using scan_number_again [of t t "[]" "[]"] scan_number_again [of t t "[]" r] assms by auto

lemma json_print_hd:
  assumes "plain_json j"
  shows "\<exists>c s. json_print j = c # s \<and>
    c \<notin> {CHR '' '', CHR 0x09, CHR 0x0A, CHR 0x0D, CHR '']'', CHR ''}''}"
proof (cases j)
  case (JNum t)
  then obtain c s where "t = c # s" "is_digit c \<or> c = CHR ''-''" using assms plain_num(1) by blast
  with JNum show ?thesis by (auto simp: is_digit_def)
qed (simp_all add: print_str_def)

lemma json_value_num:
  assumes "plain_json (JNum t)" and "ends_number r"
  shows "json_value (Suc n) (t @ r) = Some (JNum t, r)"
proof -
  obtain c s where cs: "t = c # s" "is_digit c \<or> c = CHR ''-''" using plain_num(1) [OF assms(1)] by blast
  moreover have "c \<notin> {CHR '' '', CHR 0x09, CHR 0x0A, CHR 0x0D, dquote, CHR ''['', CHR ''{'',
      CHR ''n'', CHR ''t'', CHR ''f''}"
    using cs(2) by (auto simp: is_digit_def)
  ultimately show ?thesis
    using plain_num(2) [OF assms] by simp
qed

lemma json_elems_print:
  assumes "\<And>j n r. j \<in> set js \<Longrightarrow> json_size j \<le> n \<Longrightarrow> ends_number r \<Longrightarrow>
             json_value n (json_print j @ r) = Some (j, r)"
    and "js \<noteq> []" and "length js + sum_list (map json_size js) \<le> n"
  shows "json_elems n (join_comma (map json_print js) @ CHR '']'' # r) = Some (js, r)"
  using assms
proof (induction js arbitrary: n rule: induct_list012)
  case (2 x)
  then show ?case by (cases n) auto
next
  case (3 x y zs)
  then obtain m where n: "n = Suc m" by (cases n) auto
  have "json_elems m (join_comma (map json_print (y # zs)) @ CHR '']'' # r) = Some (y # zs, r)"
    by (rule "3.IH"(2)) (use 3 n json_size_pos [of x] in \<open>auto simp del: json_size_pos\<close>)
  moreover have "json_value m (json_print x @ CHR '','' # s) = Some (x, CHR '','' # s)" for s
    using 3 n by simp
  ultimately show ?case by (simp add: n)
qed simp

abbreviation print_member :: "string \<times> json \<Rightarrow> string" where
  "print_member \<equiv> \<lambda>(k, v). print_str k @ CHR '':'' # json_print v"

lemma json_members_print:
  assumes "\<And>k v n r. (k, v) \<in> set kvs \<Longrightarrow> json_size v \<le> n \<Longrightarrow> ends_number r \<Longrightarrow>
             json_value n (json_print v @ r) = Some (v, r)"
    and "kvs \<noteq> []" and "length kvs + sum_list (map (\<lambda>(k, v). json_size v) kvs) \<le> n"
  shows "json_members n (join_comma (map print_member kvs) @ CHR ''}'' # r) = Some (kvs, r)"
  using assms
proof (induction kvs arbitrary: n rule: induct_list012)
  case (2 x)
  then show ?case by (cases n; cases x) (auto simp: print_str_def)
next
  case (3 x y zs)
  then obtain m where n: "n = Suc m" by (cases n) auto
  obtain k v where x: "x = (k, v)" by (cases x)
  have "json_members m (join_comma (map print_member (y # zs)) @ CHR ''}'' # r) = Some (y # zs, r)"
  proof (rule "3.IH"(2))
    show "json_value n (json_print v @ r) = Some (v, r)"
      if "(k, v) \<in> set (y # zs)" "json_size v \<le> n" "ends_number r" for k v n r
      using that by (intro "3.prems"(1)) auto
  qed (use "3.prems"(3) n x in auto)
  moreover have "json_value m (json_print v @ CHR '','' # s) = Some (v, CHR '','' # s)" for s
    using "3.prems"(3) n x by (intro "3.prems"(1) [of k]) auto
  ultimately show ?case by (simp add: n x print_str_def)
qed simp

lemma join_comma_hd: "x = c # s \<Longrightarrow> \<exists>t. join_comma (x # xs) = c # t"
  by (cases xs) auto

lemma json_value_print:
  "plain_json j \<Longrightarrow> json_size j \<le> n \<Longrightarrow> ends_number r \<Longrightarrow>
     json_value n (json_print j @ r) = Some (j, r)"
proof (induction j arbitrary: n r)
  case (JArr js)
  then obtain m where n: "n = Suc m" by (cases n) auto
  show ?case
  proof (cases js)
    case (Cons j js')
    then have "plain_json j" using JArr.prems by simp
    then obtain c s where j: "json_print j = c # s" and
        c: "c \<notin> {CHR '' '', CHR 0x09, CHR 0x0A, CHR 0x0D, CHR '']''}"
      using json_print_hd by blast
    obtain t where t: "join_comma (map json_print js) = c # t"
      using join_comma_hd [OF j, of "map json_print js'"] Cons by auto
    have "json_elems m (join_comma (map json_print js) @ CHR '']'' # r) = Some (js, r)"
      using JArr n Cons by (intro json_elems_print) (auto simp: list_all_iff)
    with c t show ?thesis by (simp add: n)
  qed (simp add: n)
next
  case (JObj kvs)
  then obtain m where n: "n = Suc m" by (cases n) auto
  show ?case
  proof (cases kvs)
    case (Cons kv kvs')
    have "print_member kv = dquote # tl (print_member kv)"
      by (auto simp: print_str_def split: prod.splits)
    from join_comma_hd [OF this, of "map print_member kvs'"]
    obtain s where s: "join_comma (print_member kv # map print_member kvs') = dquote # s"
      by blast
    have c: "join_comma (map print_member kvs) = dquote # s"
      unfolding Cons list.map by (rule s)
    have "json_members m (join_comma (map print_member kvs) @ CHR ''}'' # r) = Some (kvs, r)"
      using JObj n Cons by (intro json_members_print) (fastforce simp: list_all_iff)+
    with c show ?thesis by (simp add: n)
  qed (simp add: n)
next
  case (JNum t)
  then show ?case by (cases n) (auto simp del: plain_json.simps json_value.simps intro: json_value_num)
qed (case_tac n; simp add: print_str_def strip_prefix_def split: if_splits)+


text \<open>The fuel of the parser covers every printed value: its size is bounded by its text.\<close>

lemma join_comma_length: "length (join_comma xs) + 1 \<ge> length xs + sum_list (map length xs)"
  by (induction xs rule: join_comma.induct) auto

lemma sum_sizes:
  assumes "\<And>x. x \<in> set xs \<Longrightarrow> f x \<le> 2 * length (p x :: string)"
  shows "1 + length xs + sum_list (map f xs) \<le> 2 * (2 + length (join_comma (map p xs)))"
proof -
  have "sum_list (map f xs) \<le> sum_list (map (\<lambda>x. 2 * length (p x)) xs)"
    using assms by (intro sum_list_mono)
  also have "\<dots> = 2 * sum_list (map length (map p xs))"
    by (simp add: sum_list_const_mult comp_def)
  finally show ?thesis
    using join_comma_length [of "map p xs"] by simp
qed

lemma json_size_print: "plain_json j \<Longrightarrow> json_size j \<le> 2 * length (json_print j)"
proof (induction j)
  case (JArr js)
  have "1 + length js + sum_list (map json_size js) \<le> 2 * (2 + length (join_comma (map json_print js)))"
    using JArr by (intro sum_sizes) (auto simp: list_all_iff)
  then show ?case by simp
next
  case (JObj kvs)
  have "1 + length kvs + sum_list (map (\<lambda>(k, v). json_size v) kvs) \<le>
      2 * (2 + length (join_comma (map print_member kvs)))"
    using JObj by (intro sum_sizes) (fastforce simp: list_all_iff)
  then show ?case by simp
next
  case (JNum t)
  then show ?case using plain_num(1) [of t] by auto
qed (auto simp: print_str_def)

theorem json_print_parse: "plain_json j \<Longrightarrow> json_parse (json_print j) = Some j"
  using json_value_print [of j "2 * length (json_print j) + 2" "[]"] json_size_print [of j]
  by (simp add: json_parse_def)

text \<open>What has been parsed can be printed and is parsed again.\<close>

lemma parsed_plain:
  "json_value n s = Some (j, r) \<Longrightarrow> plain_json j"
  "json_elems n s = Some (js, r) \<Longrightarrow> list_all plain_json js"
  "json_members n s = Some (kvs, r) \<Longrightarrow> list_all (\<lambda>(k, v). plain_json v) kvs"
proof (induction n s and n s and n s arbitrary: j r and js r and kvs r rule: json_value_json_elems_json_members.induct)
  case (2 n s)
  then show ?case
    using scan_number_again [of "skip_ws s" _ _ "[]"]
    by (auto simp del: scan_number_nat_str_end split: list.splits if_splits)
next
  case (4 n s)
  then show ?case by (auto split: option.splits list.splits if_splits)
next
  case (6 n s)
  then show ?case by (auto split: option.splits list.splits if_splits)
qed simp_all

theorem json_parse_print: "json_parse s = Some j \<Longrightarrow> json_parse (json_print j) = Some j"
  by (auto simp: json_parse_def [of s] simp del: json_value.simps intro!: json_print_parse dest: parsed_plain(1)
      split: option.splits if_splits)

section \<open>Unmarshal and Marshal\<close>

text \<open>
  \<open>json.Unmarshal\<close> into a map: an element whose JSON type does not fit is stored as the zero value
  and the first such mismatch is reported after the rest has been decoded; \<open>null\<close> elements are
  zero values without an error; the last of two equal keys wins.
\<close>

definition err_json :: error where
  "err_json = ''json: invalid text''"

definition err_json_type :: error where
  "err_json_type = ''json: cannot unmarshal value into Go type''"

fun unmarshal_elem :: "(json \<Rightarrow> 'v option) \<Rightarrow> 'v \<Rightarrow> json \<Rightarrow> 'v" where
  "unmarshal_elem dec zero j = (case dec j of Some v \<Rightarrow> v | None \<Rightarrow> zero)"

definition elem_fits :: "(json \<Rightarrow> 'v option) \<Rightarrow> json \<Rightarrow> bool" where
  "elem_fits dec j \<longleftrightarrow> j = JNull \<or> dec j \<noteq> None"

definition Unmarshal_map ::
  "(json \<Rightarrow> 'v option) \<Rightarrow> 'v \<Rightarrow> string \<Rightarrow> (string, 'v) gomap \<times> error option" where
  "Unmarshal_map dec zero s =
    (case json_parse s of
       None \<Rightarrow> ([], Some err_json)
     | Some JNull \<Rightarrow> ([], None)
     | Some (JObj kvs) \<Rightarrow>
         (put_all (map (\<lambda>(k, j). (k, unmarshal_elem dec zero j)) kvs) [],
          if list_all (\<lambda>(k, j). elem_fits dec j) kvs then None else Some err_json_type)
     | Some _ \<Rightarrow> ([], Some err_json_type))"

definition Unmarshal_slice :: "(json \<Rightarrow> 'v option) \<Rightarrow> 'v \<Rightarrow> string \<Rightarrow> 'v list \<times> error option" where
  "Unmarshal_slice dec zero s =
    (case json_parse s of
       None \<Rightarrow> ([], Some err_json)
     | Some JNull \<Rightarrow> ([], None)
     | Some (JArr js) \<Rightarrow>
         (map (unmarshal_elem dec zero) js,
          if list_all (elem_fits dec) js then None else Some err_json_type)
     | Some _ \<Rightarrow> ([], Some err_json_type))"

fun dec_u32 :: "json \<Rightarrow> u32 option" where
  "dec_u32 (JNum t) = (case ParseUint 32 t of Ok n \<Rightarrow> Some (of_nat n) | _ \<Rightarrow> None)"
| "dec_u32 _ = None"

fun dec_str :: "json \<Rightarrow> string option" where
  "dec_str (JStr s) = Some s"
| "dec_str _ = None"

text \<open>\<open>json.Marshal\<close> of a map prints the entries sorted by key.\<close>

definition Marshal_map :: "('v \<Rightarrow> json) \<Rightarrow> (string, 'v) gomap \<Rightarrow> string" where
  "Marshal_map enc m = json_print (JObj (map (\<lambda>(k, v). (k, enc v)) (sort_key fst m)))"

definition Marshal_slice :: "('v \<Rightarrow> json) \<Rightarrow> 'v list \<Rightarrow> string" where
  "Marshal_slice enc vs = json_print (JArr (map enc vs))"

definition enc_u32 :: "u32 \<Rightarrow> json" where
  "enc_u32 w = JNum (u32_str w)"

lemma dec_enc_u32 [simp]: "dec_u32 (enc_u32 w) = Some w" "plain_json (enc_u32 w)"
  by (simp_all add: enc_u32_def) (simp add: u32_str_def)

lemma map_of_sort_key [simp]: "wf_map m \<Longrightarrow> map_of (sort_key fst m) = map_of m"
  by (rule map_of_mset_eq) simp_all

lemma wf_map_sort_key [simp]: "wf_map (sort_key fst m) \<longleftrightarrow> wf_map m"
proof -
  have "mset (map fst (sort_key fst m)) = mset (map fst m)" by simp
  then show ?thesis by (rule mset_eq_imp_distinct_iff)
qed

text \<open>A map that is marshalled and unmarshalled again is the same map.\<close>

theorem Unmarshal_Marshal_map:
  assumes "wf_map m" and "\<And>v. dec (enc v) = Some v" and "\<And>v. plain_json (enc v)"
  shows "Unmarshal_map dec zero (Marshal_map enc m) = (sort_key fst m, None)"
proof -
  let ?kvs = "map (\<lambda>(k, v). (k, enc v)) (sort_key fst m)"
  have "json_parse (Marshal_map enc m) = Some (JObj ?kvs)"
    unfolding Marshal_map_def
    by (rule json_print_parse) (auto simp: list_all_iff assms(3))
  moreover have "map (\<lambda>(k, j). (k, unmarshal_elem dec zero j)) ?kvs = sort_key fst m"
    by (simp add: comp_def case_prod_beta assms(2))
  moreover have "list_all (\<lambda>(k, j). elem_fits dec j) ?kvs"
    by (auto simp: list_all_iff elem_fits_def assms(2))
  ultimately show ?thesis
    using assms(1) by (simp add: Unmarshal_map_def)
qed

lemma Unmarshal_Marshal_slice:
  assumes "\<And>v. dec (enc v) = Some v" and "\<And>v. plain_json (enc v)"
  shows "Unmarshal_slice dec zero (Marshal_slice enc vs) = (vs, None)"
proof -
  have "json_parse (Marshal_slice enc vs) = Some (JArr (map enc vs))"
    unfolding Marshal_slice_def
    by (rule json_print_parse) (auto simp: list_all_iff assms(2))
  moreover have "list_all (elem_fits dec) (map enc vs)"
    by (auto simp: list_all_iff elem_fits_def assms(1))
  ultimately show ?thesis
    by (simp add: Unmarshal_slice_def comp_def assms(1))
qed

lemma wf_map_Unmarshal_map: "wf_map (fst (Unmarshal_map dec zero s))"
  by (simp add: Unmarshal_map_def gomap split: option.split json.split)

section \<open>Unmarshal into a struct\<close>

text \<open>
  \<open>json.Unmarshal\<close> into a struct: members are matched without regard to case, the last of several
  matching members counts, a missing or \<open>null\<close> member leaves the zero value, and a member of the wrong
  type is an error. A \<open>json.RawMessage\<close> keeps the text of the member, here up to white space and the
  choice of escapes.
\<close>

definition jfield :: "string \<Rightarrow> (string \<times> json) list \<Rightarrow> json option" where
  "jfield n kvs = map_of (rev (map (\<lambda>(k, v). (ToLower k, v)) kvs)) n"

fun jstring :: "json option \<Rightarrow> string res" where
  "jstring None = Ok []"
| "jstring (Some JNull) = Ok []"
| "jstring (Some (JStr s)) = Ok s"
| "jstring (Some _) = Err err_json_type"

fun jstring_ptr :: "json option \<Rightarrow> string option res" where
  "jstring_ptr None = Ok None"
| "jstring_ptr (Some JNull) = Ok None"
| "jstring_ptr (Some (JStr s)) = Ok (Some s)"
| "jstring_ptr (Some _) = Err err_json_type"

fun jint :: "json option \<Rightarrow> int res" where
  "jint None = Ok 0"
| "jint (Some JNull) = Ok 0"
| "jint (Some (JNum t)) = (case Atoi t of Ok n \<Rightarrow> Ok n | _ \<Rightarrow> Err err_json_type)"
| "jint (Some _) = Err err_json_type"

fun jobject :: "json option \<Rightarrow> (string \<times> json) list res" where
  "jobject None = Ok []"
| "jobject (Some JNull) = Ok []"
| "jobject (Some (JObj kvs)) = Ok kvs"
| "jobject (Some _) = Err err_json_type"

fun jstrings :: "json option \<Rightarrow> string list res" where
  "jstrings None = Ok []"
| "jstrings (Some JNull) = Ok []"
| "jstrings (Some (JArr js)) =
    (if list_all (elem_fits dec_str) js then Ok (map (unmarshal_elem dec_str []) js) else Err err_json_type)"
| "jstrings (Some _) = Err err_json_type"

definition jraw :: "json option \<Rightarrow> string option" where
  "jraw m = map_option json_print m"

text \<open>
  A member of a map type: every matching member is decoded into the same map, \<open>null\<close> makes it nil.
\<close>

fun jmap_loop ::
  "(json \<Rightarrow> 'v option) \<Rightarrow> 'v \<Rightarrow> string \<Rightarrow> (string \<times> json) list \<Rightarrow> (string, 'v) gomap option \<Rightarrow>
   (string, 'v) gomap option res" where
  "jmap_loop dec zero n [] m = Ok m"
| "jmap_loop dec zero n ((k, j) # kvs) m =
    (if ToLower k = n then
       (case j of
          JNull \<Rightarrow> jmap_loop dec zero n kvs None
        | JObj es \<Rightarrow>
            if list_all (\<lambda>(k, j). elem_fits dec j) es
            then jmap_loop dec zero n kvs
              (Some (put_all (map (\<lambda>(k, j). (k, unmarshal_elem dec zero j)) es) (case m of None \<Rightarrow> [] | Some m \<Rightarrow> m)))
            else Err err_json_type
        | _ \<Rightarrow> Err err_json_type)
     else jmap_loop dec zero n kvs m)"

fun dec_int :: "json \<Rightarrow> int option" where
  "dec_int (JNum t) = (case Atoi t of Ok n \<Rightarrow> Some n | _ \<Rightarrow> None)"
| "dec_int _ = None"

definition enc_int :: "int \<Rightarrow> json" where
  "enc_int n = JNum (int_str n)"

definition enc_nat :: "nat \<Rightarrow> json" where
  "enc_nat n = JNum (nat_str n)"

end
