(* ===== verification/Core_Data.thy ===== *)
theory Core_Data
  imports Go_Json
begin

text \<open>
  The job data of \<open>coreapp/core/data.go\<close>: statuses, results, transpiler information, the copy
  functions and the conversion of the virtual-physical mapping between its raw JSON and its map
  form. A pointer is an option (\<open>nil\<close> is \<open>None\<close>), and following a nil pointer or writing to a nil
  map is \<open>Panic\<close>. A \<open>float32\<close> is its bit pattern: the engine only passes such values on. Instants
  and durations are integers (nanoseconds); reading the clock is an argument \<open>now\<close>.
\<close>

type_synonym float32 = "32 word"
type_synonym float64 = "64 word"
type_synonym datetime = int
type_synonym duration = int

section \<open>Data\<close>

text \<open>\<open>Status\<close> is an integer type with six named values; \<open>OtherStatus\<close> stands for the rest.\<close>

datatype Status = SUBMITTED | READY | RUNNING | SUCCEEDED | FAILED | CANCELLED | OtherStatus int

type_synonym Counts = "(string, u32) gomap"
type_synonym DividedResult = "(u32, Counts) gomap"
type_synonym VirtualPhysicalMappingMap = "(u32, u32) gomap"
type_synonym VirtualPhysicalMappingRaw = "string option"

record TranspilerConfig =
  tc_TranspilerLib :: "string option"
  tc_TranspilerOptions :: "string option"
  tc_UseDefault :: bool

record TranspilerInfo =
  ti_StatsRaw :: "string option"
  ti_PhysicalVirtualMapping :: "(u32, u32) gomap"
  ti_VirtualPhysicalMappingRaw :: VirtualPhysicalMappingRaw
  ti_VirtualPhysicalMappingMap :: "VirtualPhysicalMappingMap option"

record Estimation =
  es_Exp_value :: float32
  es_Stds :: float32

record Result =
  rs_Counts :: Counts
  rs_DividedResult :: "DividedResult option"
  rs_TranspilerInfo :: "TranspilerInfo option"
  rs_Estimation :: "Estimation option"
  rs_Message :: string
  rs_ExecutionTime :: duration

record JobData =
  jd_ID :: string
  jd_Status :: Status
  jd_Shots :: int
  jd_Transpiler :: "TranspilerConfig option"
  jd_QASM :: string
  jd_TranspiledQASM :: string
  jd_Result :: "Result option"
  jd_JobType :: string
  jd_Created :: datetime
  jd_Ended :: datetime
  jd_Info :: string
  jd_MitigationInfo :: string
  jd_UseJobInfoUpdate :: bool
  jd_NeedsUpdateTranspilerInfo :: bool

section \<open>Statuses and their names\<close>

definition ToStatus :: "string \<Rightarrow> Status \<times> error option" where
  "ToStatus s =
    (if s = ''submitted'' then (SUBMITTED, None)
     else if s = ''ready'' then (READY, None)
     else if s = ''running'' then (RUNNING, None)
     else if s = ''succeeded'' then (SUCCEEDED, None)
     else if s = ''failed'' then (FAILED, None)
     else if s = ''cancelled'' then (CANCELLED, None)
     else (SUBMITTED, Some (''unknown status: '' @ s)))"

fun Status_String :: "Status \<Rightarrow> string" where
  "Status_String SUBMITTED = ''submitted''"
| "Status_String READY = ''ready''"
| "Status_String RUNNING = ''running''"
| "Status_String SUCCEEDED = ''succeeded''"
| "Status_String FAILED = ''failed''"
| "Status_String CANCELLED = ''cancelled''"
| "Status_String (OtherStatus n) = ''unknown''"

section \<open>Constructors and copies\<close>

definition empty_TranspilerInfo :: TranspilerInfo where
  "empty_TranspilerInfo =
    \<lparr>ti_StatsRaw = None, ti_PhysicalVirtualMapping = [], ti_VirtualPhysicalMappingRaw = None,
     ti_VirtualPhysicalMappingMap = None\<rparr>"

definition NewResult :: Result where
  "NewResult =
    \<lparr>rs_Counts = [], rs_DividedResult = None, rs_TranspilerInfo = Some empty_TranspilerInfo,
     rs_Estimation = None, rs_Message = [], rs_ExecutionTime = 0\<rparr>"

definition NewJobData :: "datetime \<Rightarrow> JobData" where
  "NewJobData now =
    \<lparr>jd_ID = [], jd_Status = SUBMITTED, jd_Shots = 0, jd_Transpiler = None, jd_QASM = [],
     jd_TranspiledQASM = [], jd_Result = Some NewResult, jd_JobType = [], jd_Created = now,
     jd_Ended = 0, jd_Info = [], jd_MitigationInfo = [], jd_UseJobInfoUpdate = False,
     jd_NeedsUpdateTranspilerInfo = False\<rparr>"

definition cloneCounts :: "Counts \<Rightarrow> Counts" where
  "cloneCounts counts = put_all counts []"

text \<open>
  The copy of \<open>VirtualPhysicalMappingMap\<close> stores into the nil map of the fresh struct, which panics
  as soon as there is an entry to copy.
\<close>

definition cloneTranspilerInfo :: "TranspilerInfo \<Rightarrow> TranspilerInfo res" where
  "cloneTranspilerInfo info =
    (case ti_VirtualPhysicalMappingMap info of
       Some (e # es) \<Rightarrow> Panic
     | _ \<Rightarrow>
         Ok \<lparr>ti_StatsRaw = None,
             ti_PhysicalVirtualMapping = put_all (ti_PhysicalVirtualMapping info) [],
             ti_VirtualPhysicalMappingRaw =
               (case ti_VirtualPhysicalMappingRaw info of
                  None \<Rightarrow> None
                | Some raw \<Rightarrow> if raw = [] then None else Some raw),
             ti_VirtualPhysicalMappingMap = None\<rparr>)"

definition cloneEstimation :: "Estimation \<Rightarrow> Estimation" where
  "cloneEstimation e = \<lparr>es_Exp_value = es_Exp_value e, es_Stds = es_Stds e\<rparr>"

text \<open>Following a pointer.\<close>

definition deref :: "'a option \<Rightarrow> 'a res" where
  "deref p = (case p of None \<Rightarrow> Panic | Some a \<Rightarrow> Ok a)"

definition CloneJobData :: "datetime \<Rightarrow> JobData \<Rightarrow> JobData res" where
  "CloneJobData now i =
    res_bind (deref (jd_Result i)) (\<lambda>r.
    res_bind (deref (rs_TranspilerInfo r)) (\<lambda>info.
    res_bind (cloneTranspilerInfo info) (\<lambda>ti.
    res_bind
      (if jd_JobType i = ''estimation''
       then res_bind (deref (rs_Estimation r)) (\<lambda>e. Ok (Some (cloneEstimation e)))
       else Ok None) (\<lambda>est.
      Ok ((NewJobData now)
        \<lparr>jd_ID := jd_ID i, jd_Status := jd_Status i, jd_Shots := jd_Shots i,
         jd_Transpiler := jd_Transpiler i, jd_QASM := jd_QASM i,
         jd_TranspiledQASM := jd_TranspiledQASM i,
         jd_Result := Some (NewResult\<lparr>rs_Counts := cloneCounts (rs_Counts r),
           rs_TranspilerInfo := Some ti, rs_Estimation := est\<rparr>),
         jd_JobType := jd_JobType i, jd_Created := jd_Created i, jd_Ended := jd_Ended i\<rparr>)))))"

text \<open>
  \<open>JobData.Clone\<close> goes through the package \<open>deepcopy\<close>, an argument here, and then copies the
  three fields that package cannot be relied on for.
\<close>

definition JobData_Clone :: "(JobData \<Rightarrow> JobData) \<Rightarrow> JobData \<Rightarrow> JobData" where
  "JobData_Clone deepcopy jd =
    (deepcopy jd)\<lparr>jd_Created := jd_Created jd, jd_Ended := jd_Ended jd,
      jd_UseJobInfoUpdate := jd_UseJobInfoUpdate jd\<rparr>"

text \<open>What is documented of \<open>deepcopy.Copy\<close>: exported fields are copied; the dates, whose type has
  unexported fields only, may come out as anything.\<close>

definition deepcopy_ok :: "(JobData \<Rightarrow> JobData) \<Rightarrow> bool" where
  "deepcopy_ok deepcopy \<longleftrightarrow>
    (\<forall>jd. \<exists>c e. deepcopy jd = jd\<lparr>jd_Created := c, jd_Ended := e\<rparr>)"

definition JobData_NeedTranspiling :: "JobData \<Rightarrow> bool res" where
  "JobData_NeedTranspiling jd =
    res_bind (deref (jd_Transpiler jd)) (\<lambda>tc. Ok (tc_TranspilerLib tc \<noteq> None))"

definition TranspilerConfig_NeedTranspiling :: "TranspilerConfig \<Rightarrow> bool" where
  "TranspilerConfig_NeedTranspiling c \<longleftrightarrow> tc_TranspilerLib c \<noteq> None"

section \<open>The virtual-physical mapping\<close>

fun ToMap_loop :: "(string, u32) gomap \<Rightarrow> VirtualPhysicalMappingMap \<Rightarrow> VirtualPhysicalMappingMap res" where
  "ToMap_loop [] result = Ok result"
| "ToMap_loop ((k, v) # temp) result =
    (case ParseUint 32 k of
       Ok key \<Rightarrow> ToMap_loop temp (AList.update (of_nat key) v result)
     | Err e \<Rightarrow> Err e
     | Panic \<Rightarrow> Panic)"

text \<open>The error of \<open>json.Unmarshal\<close> is only logged; what it stored before is used.\<close>

definition ToMap :: "VirtualPhysicalMappingRaw \<Rightarrow> VirtualPhysicalMappingMap res" where
  "ToMap v =
    (let raw = (case v of None \<Rightarrow> [] | Some s \<Rightarrow> s);
         (temp, _) = Unmarshal_map dec_u32 0 raw
     in ToMap_loop temp [])"

definition ToRaw :: "VirtualPhysicalMappingMap \<Rightarrow> VirtualPhysicalMappingRaw" where
  "ToRaw v = Some (Marshal_map enc_u32 (map (\<lambda>(k, p). (u32_str k, p)) v))"

section \<open>Properties\<close>

lemma deref_simps [simp]: "deref (Some a) = Ok a" "deref None = Panic"
  by (simp_all add: deref_def)

text \<open>
  \<open>ToStatus\<close> accepts exactly the names that \<open>Status.String\<close> prints for the six named statuses,
  and gives back the status printed.
\<close>

theorem ToStatus_Status_String:
  "ToStatus s = (st, None) \<longleftrightarrow> s = Status_String st \<and> (\<forall>n. st \<noteq> OtherStatus n)"
  by (cases st) (auto simp: ToStatus_def)

lemma JobData_Clone_id: "deepcopy_ok deepcopy \<Longrightarrow> JobData_Clone deepcopy jd = jd"
  unfolding deepcopy_ok_def JobData_Clone_def
  by (drule spec [of _ jd]) auto

lemma cloneCounts_id [simp]: "wf_map c \<Longrightarrow> cloneCounts c = c"
  by (simp add: cloneCounts_def)

lemma cloneTranspilerInfo_Panic:
  "cloneTranspilerInfo info = Panic \<longleftrightarrow>
     (\<exists>m. ti_VirtualPhysicalMappingMap info = Some m \<and> m \<noteq> [])"
  by (auto simp: cloneTranspilerInfo_def split: option.splits list.splits)

lemma cloneTranspilerInfo_Err [simp]: "cloneTranspilerInfo info \<noteq> Err e"
  by (auto simp: cloneTranspilerInfo_def split: option.splits list.splits)

text \<open>
  \<open>CloneJobData\<close> panics exactly when the job has no result, no transpiler information or a
  non-empty mapping in map form (the copy stores into a nil map), or is of type \<open>estimation\<close>
  without an estimation result.
\<close>

theorem CloneJobData_Panic_iff:
  "CloneJobData now i = Panic \<longleftrightarrow>
     (case jd_Result i of
        None \<Rightarrow> True
      | Some r \<Rightarrow>
          (case rs_TranspilerInfo r of
             None \<Rightarrow> True
           | Some info \<Rightarrow> (\<exists>m. ti_VirtualPhysicalMappingMap info = Some m \<and> m \<noteq> [])) \<or>
          jd_JobType i = ''estimation'' \<and> rs_Estimation r = None)"
proof (cases "jd_Result i")
  case (Some r)
  note r = this
  show ?thesis
  proof (cases "rs_TranspilerInfo r")
    case (Some info)
    then show ?thesis
      using r cloneTranspilerInfo_Panic [of info]
      by (cases "cloneTranspilerInfo info"; cases "rs_Estimation r") (auto simp: CloneJobData_def)
  qed (simp add: CloneJobData_def r)
qed (simp add: CloneJobData_def)

lemma CloneJobData_keeps:
  assumes "CloneJobData now i = Ok c" and "jd_Result i = Some r" and "wf_map (rs_Counts r)"
  shows "jd_ID c = jd_ID i \<and> jd_Status c = jd_Status i \<and> jd_Shots c = jd_Shots i \<and>
    jd_Transpiler c = jd_Transpiler i \<and> jd_QASM c = jd_QASM i \<and>
    jd_TranspiledQASM c = jd_TranspiledQASM i \<and> jd_JobType c = jd_JobType i \<and>
    jd_Created c = jd_Created i \<and> jd_Ended c = jd_Ended i \<and>
    map_option rs_Counts (jd_Result c) = Some (rs_Counts r) \<and>
    jd_Info c = [] \<and> jd_MitigationInfo c = [] \<and> \<not> jd_UseJobInfoUpdate c"
  using assms by (auto simp: CloneJobData_def NewJobData_def res_simps)

lemma ToMap_loop_u32:
  "ToMap_loop (map (\<lambda>(k, p). (u32_str k, p)) xs) acc = Ok (put_all xs acc)"
  by (induction xs acc rule: put_all.induct) auto

definition u32_key :: "string \<times> u32 \<Rightarrow> u32 \<times> u32" where
  "u32_key e = (of_nat (dec_val 0 (fst e)), snd e)"

lemma u32_key_str [simp]: "u32_key (u32_str k, p) = (k, p)"
  by (simp add: u32_key_def u32_str_def)

lemma wf_map_u32_str: "wf_map v \<Longrightarrow> wf_map (map (\<lambda>(k, p). (u32_str k, p)) v)"
  by (induction v) (auto simp: rev_image_eqI)

lemma ToMap_ToRaw_mset:
  assumes "wf_map v"
  shows "\<exists>r. ToMap (ToRaw v) = Ok r \<and> wf_map r \<and> mset r = mset v"
proof -
  let ?f = "\<lambda>(k, p :: u32). (u32_str k, p)"
  let ?s = "sort_key fst (map ?f v)"
  define xs where "xs = map u32_key ?s"
  have in_f: "e \<in> set ?s \<Longrightarrow> ?f (u32_key e) = e" for e
    by auto
  have s: "?s = map ?f xs"
    unfolding xs_def map_map by (rule map_idI [symmetric]) (use in_f in \<open>simp add: comp_def\<close>)
  have "mset xs = image_mset u32_key (image_mset ?f (mset v))"
    by (simp add: xs_def)
  also have "\<dots> = mset v"
    by (simp add: image_mset.compositionality comp_def case_prod_beta')
  finally have mset: "mset xs = mset v" .
  have "Unmarshal_map dec_u32 0 (Marshal_map enc_u32 (map ?f v)) = (?s, None)"
    by (rule Unmarshal_Marshal_map [OF wf_map_u32_str [OF assms]]) simp_all
  then have "ToMap (ToRaw v) = Ok (put_all xs [])"
    by (simp add: ToMap_def ToRaw_def s ToMap_loop_u32)
  moreover have "wf_map xs"
    using mset assms by (metis mset_eq_imp_distinct_iff mset_map)
  ultimately show ?thesis
    using mset by simp
qed

text \<open>
  A virtual-physical mapping written with \<open>ToRaw\<close> and read back with \<open>ToMap\<close> is the same
  mapping.
\<close>

theorem ToMap_ToRaw:
  assumes "wf_map v"
  shows "\<exists>r. ToMap (ToRaw v) = Ok r \<and> wf_map r \<and> map_of r = map_of v"
  using ToMap_ToRaw_mset [OF assms] map_of_mset_eq [OF assms] by blast

lemma ToMap_loop_no_panic [simp]: "ToMap_loop temp acc \<noteq> Panic"
  by (induction temp acc rule: ToMap_loop.induct) (auto split: res.split)

lemma ToMap_loop_wf: "ToMap_loop temp acc = Ok r \<Longrightarrow> wf_map acc \<Longrightarrow> wf_map r"
  by (induction temp acc rule: ToMap_loop.induct) (auto simp: gomap split: res.splits)

lemma ToMap_no_panic: "ToMap v \<noteq> Panic"
  by (simp add: ToMap_def Let_def split: prod.split)

lemma ToMap_wf: "ToMap v = Ok r \<Longrightarrow> wf_map r"
  by (auto simp: ToMap_def Let_def dest: ToMap_loop_wf split: prod.splits)

theorem ToMap_ToRaw_witness:
  "\<exists>r. ToMap (ToRaw [(0, 2), (1, 0)]) = Ok r \<and> wf_map r \<and> map_of r = map_of [(0, 2), (1, 0)]"
  by (rule ToMap_ToRaw) simp

end
