(* ===== verification/Go_Proc.thy ===== *)
theory Go_Proc
  imports Core_Data
begin

text \<open>
  Methods that mutate the object they are called on. A call ends either by returning a value or by
  panicking, and in both cases the object keeps what was written to it: the recovery handlers of the
  scheduler go on with the object as the panic left it. \<open>Ret a s\<close> is a return of \<open>a\<close> with the object
  in state \<open>s\<close>, \<open>Pan s\<close> a panic with the object in state \<open>s\<close>.
\<close>

datatype ('s, 'a) outcome = Ret 'a 's | Pan 's

fun bindP :: "('s, 'a) outcome \<Rightarrow> ('a \<Rightarrow> 's \<Rightarrow> ('s, 'b) outcome) \<Rightarrow> ('s, 'b) outcome" where
  "bindP (Ret a s) f = f a s"
| "bindP (Pan s) f = Pan s"

fun final :: "('s, 'a) outcome \<Rightarrow> 's" where
  "final (Ret a s) = s"
| "final (Pan s) = s"

fun panics :: "('s, 'a) outcome \<Rightarrow> bool" where
  "panics (Ret a s) = False"
| "panics (Pan s) = True"

text \<open>Following a pointer inside a method.\<close>

definition derefP :: "'p option \<Rightarrow> 's \<Rightarrow> ('s, 'p) outcome" where
  "derefP p s = (case p of None \<Rightarrow> Pan s | Some a \<Rightarrow> Ret a s)"

text \<open>A method of a part of the object: \<open>put\<close> stores the new state of the part.\<close>

fun on_part :: "('p \<Rightarrow> 's \<Rightarrow> 's) \<Rightarrow> 's \<Rightarrow> ('p, 'a) outcome \<Rightarrow> ('s, 'a) outcome" where
  "on_part put s (Ret a p) = Ret a (put p s)"
| "on_part put s (Pan p) = Pan (put p s)"

lemma derefP_simps [simp]: "derefP (Some a) s = Ret a s" "derefP None s = Pan s"
  by (simp_all add: derefP_def)

lemma derefP_eq_Ret [res_simps]: "derefP p s = Ret a t \<longleftrightarrow> p = Some a \<and> t = s"
  by (cases p) auto

lemma bindP_eq_Ret [res_simps]:
  "bindP m f = Ret b t \<longleftrightarrow> (\<exists>a s. m = Ret a s \<and> f a s = Ret b t)"
  by (cases m) auto

lemma bindP_eq_Pan [res_simps]:
  "bindP m f = Pan t \<longleftrightarrow> m = Pan t \<or> (\<exists>a s. m = Ret a s \<and> f a s = Pan t)"
  by (cases m) auto

lemma on_part_eq_Ret [res_simps]:
  "on_part put s m = Ret a t \<longleftrightarrow> (\<exists>p. m = Ret a p \<and> t = put p s)"
  by (cases m) auto

lemma on_part_eq_Pan [res_simps]:
  "on_part put s m = Pan t \<longleftrightarrow> (\<exists>p. m = Pan p \<and> t = put p s)"
  by (cases m) auto

lemma bindP_cong [fundef_cong]:
  "m = m' \<Longrightarrow> (\<And>a s. m' = Ret a s \<Longrightarrow> f a s = f' a s) \<Longrightarrow> bindP m f = bindP m' f'"
  by (cases m') auto

text \<open>
  Frame reasoning: \<open>keeps v s m\<close> says that the call \<open>m\<close>, started with the object in state \<open>s\<close>, leaves
  the view \<open>v\<close> of the object as it was, whether it returns or panics.
\<close>

definition keeps :: "('s \<Rightarrow> 'v) \<Rightarrow> 's \<Rightarrow> ('s, 'a) outcome \<Rightarrow> bool" where
  "keeps v s m \<longleftrightarrow> v (final m) = v s"

named_theorems keep_rules \<comment> \<open>introduction rules for \<open>keeps\<close>\<close>

lemma keeps_Ret [keep_rules]: "v t = v s \<Longrightarrow> keeps v s (Ret a t)"
  by (simp add: keeps_def)

lemma keeps_Pan [keep_rules]: "v t = v s \<Longrightarrow> keeps v s (Pan t)"
  by (simp add: keeps_def)

lemma keeps_bindP [keep_rules]:
  assumes "keeps v s m" and "\<And>a t. m = Ret a t \<Longrightarrow> v t = v s \<Longrightarrow> keeps v s (f a t)"
  shows "keeps v s (bindP m f)"
  using assms by (cases m) (auto simp: keeps_def)

lemma keeps_derefP [keep_rules]: "v t = v s \<Longrightarrow> keeps v s (derefP p t)"
  by (cases p) (auto simp: keeps_def)

lemma keeps_if [keep_rules]: "(b \<Longrightarrow> keeps v s m) \<Longrightarrow> (\<not> b \<Longrightarrow> keeps v s n) \<Longrightarrow> keeps v s (if b then m else n)"
  by simp

lemma keepsD: "keeps v s m \<Longrightarrow> v (final m) = v s"
  by (simp add: keeps_def)

section \<open>The result and the failure of a job\<close>

definition set_result :: "(Result \<Rightarrow> Result) \<Rightarrow> JobData \<Rightarrow> (JobData, unit) outcome" where
  "set_result f jd =
    bindP (derefP (jd_Result jd) jd) (\<lambda>r jd. Ret () (jd\<lparr>jd_Result := Some (f r)\<rparr>))"

definition SetFailureWithErrorToJobData :: "datetime \<Rightarrow> error \<Rightarrow> JobData \<Rightarrow> (JobData, string) outcome" where
  "SetFailureWithErrorToJobData now err jd =
    bindP (set_result (rs_Message_update (\<lambda>_. err)) jd) (\<lambda>_ jd.
      Ret err (jd\<lparr>jd_Status := FAILED, jd_Ended := now\<rparr>))"

lemma SetFailure_Ret:
  "SetFailureWithErrorToJobData now err jd = Ret m jd' \<longleftrightarrow>
    (\<exists>r. jd_Result jd = Some r \<and> m = err \<and>
      jd' = jd\<lparr>jd_Result := Some (r\<lparr>rs_Message := err\<rparr>), jd_Status := FAILED, jd_Ended := now\<rparr>)"
  by (cases "jd_Result jd") (auto simp: SetFailureWithErrorToJobData_def set_result_def)

lemma SetFailure_Pan:
  "SetFailureWithErrorToJobData now err jd = Pan jd' \<longleftrightarrow> jd_Result jd = None \<and> jd' = jd"
  by (cases "jd_Result jd") (auto simp: SetFailureWithErrorToJobData_def set_result_def)

end
