(* ===== verification/Common_Util.thy ===== *)
theory Common_Util
  imports Go_Strings
begin

text \<open>
  The helpers of \<open>coreapp/common/util.go\<close>: statement-name comparison, address validation, the clean-up
  of JSON text for logging, and the helpers for files and connections, for which the file system, gRPC
  and the generated API client are arguments.
\<close>

section \<open>Statement names\<close>

definition NormalizeStatementName :: "string \<Rightarrow> string" where
  "NormalizeStatementName s =
    (let s1 = ToLower s;
         s2 = ReplaceAll s1 ''_'' [];
         s3 = ReplaceAll s2 ''-'' []
     in TrimSuffix s3 ''statement'')"

fun contains_loop :: "string \<Rightarrow> string list \<Rightarrow> bool" where
  "contains_loop s [] = False"
| "contains_loop s (c # list) = (if s = NormalizeStatementName c then True else contains_loop s list)"

definition ContainsStatementName :: "string \<Rightarrow> string list \<Rightarrow> bool" where
  "ContainsStatementName s list = contains_loop (NormalizeStatementName s) list"

section \<open>Addresses\<close>

definition is_letter :: "char \<Rightarrow> bool" where
  "is_letter c \<longleftrightarrow>
    (let n = of_char c :: nat in 65 \<le> n \<and> n \<le> 90 \<or> 97 \<le> n \<and> n \<le> 122)"

text \<open>The character class of the host pattern, \<open>[0-9a-zA-Z_-]|\.\<close>\<close>

definition host_char :: "char \<Rightarrow> bool" where
  "host_char c \<longleftrightarrow> is_digit c \<or> is_letter c \<or> c \<in> {CHR ''_'', CHR ''-'', CHR ''.''}"

definition ValidAddress :: "string \<Rightarrow> string \<Rightarrow> string res" where
  "ValidAddress host port =
    (if \<not> (host \<noteq> [] \<and> list_all host_char host) then Err (host @ '' is an invalid host name'')
     else if \<not> (port \<noteq> [] \<and> list_all is_digit port) then Err (port @ '' is an invalid port number'')
     else
       res_bind (Atoi port) (\<lambda>num.
         if num < 0 \<or> num > 65535
         then Err (int_str num @ '' is not a port number within the allowed range'')
         else Ok (host @ '':'' @ port)))"

section \<open>Files and connections\<close>

record file_env =
  fi_Caller :: "string option"
  fi_Stat :: "string \<Rightarrow> error option"
  fi_ReadFile :: "string \<Rightarrow> string res"

text \<open>\<open>filepath.Dir\<close> of a path that is already clean, as the one of \<open>runtime.Caller\<close>.\<close>

definition Dir :: "string \<Rightarrow> string" where
  "Dir path =
    (let d = rev (dropWhile (\<lambda>c. c \<noteq> CHR ''/'') (rev path)) in
     if d = [] then ''.'' else if butlast d = [] then d else butlast d)"

definition GetAbsPath :: "file_env \<Rightarrow> string \<Rightarrow> string \<Rightarrow> string res" where
  "GetAbsPath e fileName dirName =
    (case fi_Caller e of
       None \<Rightarrow> Err ''runtime.Caller error''
     | Some cFilePath \<Rightarrow>
         (let path = Dir cFilePath @ ''/'' @ dirName @ ''/'' @ fileName in
          case fi_Stat e path of Some er \<Rightarrow> Err er | None \<Rightarrow> Ok path))"

definition GetAssetAbsPath :: "file_env \<Rightarrow> string \<Rightarrow> string res" where
  "GetAssetAbsPath e fileName = GetAbsPath e fileName ''assets''"

definition ReadFile :: "file_env \<Rightarrow> string \<Rightarrow> string res" where
  "ReadFile e filepath = fi_ReadFile e filepath"

definition GetAsset :: "file_env \<Rightarrow> string \<Rightarrow> string res" where
  "GetAsset e filename = res_bind (GetAssetAbsPath e filename) (ReadFile e)"

text \<open>\<open>ReadSettingsFile\<close> also logs the absolute path of a file that cannot be read.\<close>

definition ReadSettingsFile :: "file_env \<Rightarrow> string \<Rightarrow> string res" where
  "ReadSettingsFile e settingsPath = fi_ReadFile e settingsPath"

record SecuritySource =
  ss_apiKey :: string

definition NewSecuritySource :: "string \<Rightarrow> SecuritySource" where
  "NewSecuritySource apiKey = \<lparr>ss_apiKey = apiKey\<rparr>"

definition SecuritySource_ApiKeyAuth :: "SecuritySource \<Rightarrow> string \<Rightarrow> string res" where
  "SecuritySource_ApiKeyAuth p operation = Ok (ss_apiKey p)"

definition NewAPIClient :: "(string \<Rightarrow> SecuritySource \<Rightarrow> 'c res) \<Rightarrow> string \<Rightarrow> string \<Rightarrow> 'c res" where
  "NewAPIClient newClient endpoint apiKey = newClient endpoint \<lparr>ss_apiKey = apiKey\<rparr>"

datatype dial_option = WithTransportCredentials | WithBlock | WithInsecure

definition common_GRPCConnection ::
  "(string \<Rightarrow> int \<Rightarrow> dial_option list \<Rightarrow> 'c res) \<Rightarrow> string \<Rightarrow> int \<Rightarrow> bool \<Rightarrow> 'c res" where
  "common_GRPCConnection dial address timeout useCred =
    dial address timeout (if useCred then [WithTransportCredentials, WithBlock] else [WithInsecure])"

section \<open>Log output\<close>

definition strip_first_quote :: "string \<Rightarrow> string res" where
  "strip_first_quote s =
    (case s of [] \<Rightarrow> Panic | c # cs \<Rightarrow> Ok (if c = CHR 0x22 then cs else s))"

definition strip_last_quote :: "string \<Rightarrow> string res" where
  "strip_last_quote s =
    (if s = [] then Panic else Ok (if last s = CHR 0x22 then butlast s else s))"

definition PlainJsonString :: "string \<Rightarrow> string res" where
  "PlainJsonString jsonInput =
    res_bind (strip_first_quote jsonInput) (\<lambda>s1.
    res_bind (strip_last_quote s1) (\<lambda>s2.
      Ok (ReplaceAll
           (ReplaceAll (ReplaceAll s2 [CHR 0x0A] []) [CHR 0x5C, CHR 0x22] [CHR 0x22])
           '' '' [])))"

section \<open>Properties\<close>

lemma contains_loop_iff: "contains_loop s list \<longleftrightarrow> s \<in> NormalizeStatementName ` set list"
  by (induction s list rule: contains_loop.induct) auto

lemma lower_char_idem [simp]: "lower_char (lower_char c) = lower_char c"
  by (auto simp: lower_char_def Let_def)

lemma NormalizeStatementName_alt:
  "NormalizeStatementName s =
     TrimSuffix (filter (\<lambda>c. c \<noteq> CHR ''_'' \<and> c \<noteq> CHR ''-'') (map lower_char s)) ''statement''"
  by (simp add: NormalizeStatementName_def ToLower_def ReplaceAll_delete_char conj_commute)

text \<open>
  Statement names are compared without regard to case, underscores and hyphens: two names
  whose letters agree up to case once separators are dropped are found in the same lists.
\<close>

theorem ContainsStatementName_normal_form:
  assumes "filter (\<lambda>c. c \<noteq> CHR ''_'' \<and> c \<noteq> CHR ''-'') (map lower_char s) =
           filter (\<lambda>c. c \<noteq> CHR ''_'' \<and> c \<noteq> CHR ''-'') (map lower_char t)"
  shows "ContainsStatementName s list = ContainsStatementName t list \<and>
    (t \<in> set list \<longrightarrow> ContainsStatementName s list)"
proof -
  have "NormalizeStatementName s = NormalizeStatementName t"
    using assms by (simp add: NormalizeStatementName_alt)
  then show ?thesis
    by (auto simp: ContainsStatementName_def contains_loop_iff)
qed

theorem ContainsStatementName_normal_form_witness:
  "ContainsStatementName ''GateCall'' [''gate_call'']"
proof -
  have "filter (\<lambda>c. c \<noteq> CHR ''_'' \<and> c \<noteq> CHR ''-'') (map lower_char ''GateCall'') =
      filter (\<lambda>c. c \<noteq> CHR ''_'' \<and> c \<noteq> CHR ''-'') (map lower_char ''gate_call'')"
    by code_simp
  from ContainsStatementName_normal_form [OF this, of "[''gate_call'']"] show ?thesis
    by (metis list.set_intros(1))
qed

text \<open>
  An address is accepted exactly when the host is a non-empty string of letters, digits,
  underscores, hyphens and dots and the port is a decimal number of at most 65535; the address is
  then the host and the port joined by a colon, and every other input is an error.
\<close>

theorem ValidAddress_iff:
  "ValidAddress host port = Ok a \<longleftrightarrow>
     host \<noteq> [] \<and> list_all host_char host \<and> port \<noteq> [] \<and> list_all is_digit port \<and>
     dec_val 0 port \<le> 65535 \<and> a = host @ '':'' @ port"
proof (cases "port \<noteq> [] \<and> list_all is_digit port")
  case True
  then show ?thesis
    by (auto simp: ValidAddress_def Atoi_digits res_simps split: if_splits)
qed (auto simp: ValidAddress_def)

lemma Atoi_no_panic [simp]: "Atoi s \<noteq> Panic"
  by (auto simp: Atoi_def Let_def res_simps)

lemma ValidAddress_no_panic: "ValidAddress host port \<noteq> Panic"
  by (auto simp: ValidAddress_def res_simps split: if_splits)

lemma PlainJsonString_Panic: "PlainJsonString s = Panic \<longleftrightarrow> s = [] \<or> s = [CHR 0x22]"
  by (cases s) (auto simp: PlainJsonString_def strip_first_quote_def strip_last_quote_def)

text \<open>An asset is read from the directory \<open>assets\<close> beside the source file, if it is there and can be read.\<close>

lemma Dir_file: "CHR ''/'' \<notin> set f \<Longrightarrow> d \<noteq> [] \<Longrightarrow> Dir (d @ ''/'' @ f) = d"
proof -
  assume "CHR ''/'' \<notin> set f" and "d \<noteq> []"
  then have "dropWhile (\<lambda>c. c \<noteq> CHR ''/'') (rev (d @ ''/'' @ f)) = CHR ''/'' # rev d"
    by (subst rev_append, subst rev_append, subst append_assoc, subst dropWhile_append2) auto
  then show ?thesis
    using \<open>d \<noteq> []\<close> by (simp add: Dir_def Let_def)
qed

lemma GetAsset_Ok:
  assumes "fi_Caller e = Some (d @ ''/'' @ f)" and "d \<noteq> []" and "CHR ''/'' \<notin> set f"
  shows "GetAsset e name = Ok s \<longleftrightarrow>
    fi_Stat e (d @ ''/assets/'' @ name) = None \<and> fi_ReadFile e (d @ ''/assets/'' @ name) = Ok s"
  using assms Dir_file [OF assms(3,2)]
  by (auto simp: GetAsset_def GetAssetAbsPath_def GetAbsPath_def ReadFile_def Let_def res_simps split: option.splits)

end
