(* ===== verification/Core_Setting.thy ===== *)
theory Core_Setting
  imports Go_Strings
begin

text \<open>
  Settings and start-up information of \<open>coreapp/core\<close>: \<open>setting.go\<close> (the component settings, read
  from a TOML file over registered defaults), \<open>version.go\<close> and \<open>info.go\<close>.

  A setting value has Go type \<open>interface{}\<close>; \<open>tval\<close> has one constructor per dynamic type that
  matters: the types the TOML package produces (an array is an \<open>[]interface{}\<close>), a \<open>[]string\<close>,
  which only program code can produce, and \<open>TStruct\<close> for the struct values that the program registers
  as defaults. The TOML decoder is an argument: it gives the entries of the tables \<open>com\<close> and
  \<open>run_group\<close>, or an error.
\<close>

datatype tval =
    TString string
  | TInt int
  | TBool bool
  | TFloat "64 word"
  | TArray "tval list"
  | TStrings "string list"
  | TTable "(string \<times> tval) list"
  | TStruct

type_synonym table = "(string, tval) gomap"

section \<open>Type assertions\<close>

fun as_string :: "tval option \<Rightarrow> string option" where
  "as_string (Some (TString s)) = Some s"
| "as_string _ = None"

fun as_strings :: "tval option \<Rightarrow> string list option" where
  "as_strings (Some (TStrings ss)) = Some ss"
| "as_strings _ = None"

fun as_table :: "tval option \<Rightarrow> table option" where
  "as_table (Some (TTable t)) = Some t"
| "as_table _ = None"

section \<open>The global setting\<close>

record Setting =
  ComponentSetting :: table
  RunGroupSetting :: table

definition newSetting :: Setting where
  "newSetting = \<lparr>ComponentSetting = [], RunGroupSetting = []\<rparr>"

definition ResetSetting :: "Setting option" where
  "ResetSetting = Some newSetting"

definition registerSetting :: "string \<Rightarrow> tval \<Rightarrow> Setting \<Rightarrow> Setting" where
  "registerSetting settingName settingVal s =
    s\<lparr>ComponentSetting := AList.update settingName settingVal (ComponentSetting s)\<rparr>"

text \<open>\<open>RegisterSetting\<close> writes through the global pointer, which is nil before \<open>ResetSetting\<close>.\<close>

definition RegisterSetting :: "string \<Rightarrow> tval \<Rightarrow> Setting option \<Rightarrow> Setting option res" where
  "RegisterSetting settingName settingVal g =
    (case g of None \<Rightarrow> Panic | Some s \<Rightarrow> Ok (Some (registerSetting settingName settingVal s)))"

definition parseSetting ::
  "(string \<Rightarrow> (table \<times> table) res) \<Rightarrow> string \<Rightarrow> Setting \<Rightarrow> Setting \<times> error option" where
  "parseSetting decode tomlString s =
    (case decode tomlString of
       Ok (com, run_group) \<Rightarrow>
         (s\<lparr>ComponentSetting := put_all com (ComponentSetting s),
            RunGroupSetting := put_all run_group (RunGroupSetting s)\<rparr>, None)
     | Err e \<Rightarrow> (s, Some e)
     | Panic \<Rightarrow> (s, Some ''toml: panic''))"

definition ParseSettingFromPath ::
  "(string \<Rightarrow> string res) \<Rightarrow> (string \<Rightarrow> (table \<times> table) res) \<Rightarrow> string \<Rightarrow> Setting option \<Rightarrow>
   (Setting option \<times> error option) res" where
  "ParseSettingFromPath readFile decode settingsPath g =
    (case readFile settingsPath of
       Panic \<Rightarrow> Panic
     | Err e \<Rightarrow> Ok (g, Some e)
     | Ok tomlString \<Rightarrow>
         (case g of
            None \<Rightarrow> Panic
          | Some s \<Rightarrow> (case parseSetting decode tomlString s of (s', e) \<Rightarrow> Ok (Some s', e))))"

definition GetComponentSetting :: "string \<Rightarrow> Setting option \<Rightarrow> tval option" where
  "GetComponentSetting name g =
    (case g of None \<Rightarrow> None | Some s \<Rightarrow> map_of (ComponentSetting s) name)"

record MitigatorSetting =
  ms_Host :: string
  ms_Port :: string

definition NewMitigatorSetting :: MitigatorSetting where
  "NewMitigatorSetting = \<lparr>ms_Host = ''localhost'', ms_Port = ''5011''\<rparr>"

section \<open>Version and public configuration\<close>

definition NoVersion :: string where
  "NoVersion = ''no_version_info''"

record NonSecretConf =
  nc_DevMode :: bool
  nc_DisableStdoutLog :: bool
  nc_EnableFileLog :: bool
  nc_LogDir :: string
  nc_LogLevel :: string
  nc_LogRotationMaxDays :: int
  nc_UseDummyDevice :: bool
  nc_DeviceSettingsPath :: string
  nc_QueueMaxSize :: int
  nc_QueueRefillThreshold :: int
  nc_GRPCTranspilerHost :: string
  nc_GRPCTranspilerPort :: string
  nc_TranspilerPluginPath :: string
  nc_ServiceDBEndpoint :: string
  nc_ServiceDBRegion :: string
  nc_DisableStartDevicePolling :: bool

text \<open>The command-line and environment configuration, \<open>conf.go\<close>.\<close>

record Conf =
  cf_Version :: string
  cf_DevMode :: bool
  cf_DisableStdoutLog :: bool
  cf_EnableFileLog :: bool
  cf_LogDir :: string
  cf_LogLevel :: string
  cf_LogRotationMaxDays :: int
  cf_UseDummyDevice :: bool
  cf_DeviceSettingPath :: string
  cf_QueueMaxSize :: int
  cf_QueueRefillThreshold :: int
  cf_GRPCTranspilerHost :: string
  cf_GRPCTranspilerPort :: string
  cf_TranspilerPluginPath :: string
  cf_EnableDummyQPUTimeInsertion :: bool
  cf_DummyQPUTime :: int
  cf_ServiceDBEndpoint :: string
  cf_ServiceDBAPIKey :: string
  cf_DisableStartDevicePolling :: bool
  cf_SettingPath :: string

definition SetVersion :: "Conf \<Rightarrow> string \<Rightarrow> string" where
  "SetVersion c versionByBuildFlag =
    (if versionByBuildFlag \<noteq> [] then versionByBuildFlag
     else if cf_Version c \<noteq> [] then cf_Version c
     else NoVersion)"

definition SetInfo :: "Conf \<Rightarrow> NonSecretConf" where
  "SetInfo c =
    \<lparr>nc_DevMode = cf_DevMode c, nc_DisableStdoutLog = cf_DisableStdoutLog c,
     nc_EnableFileLog = cf_EnableFileLog c, nc_LogDir = cf_LogDir c, nc_LogLevel = cf_LogLevel c,
     nc_LogRotationMaxDays = cf_LogRotationMaxDays c, nc_UseDummyDevice = cf_UseDummyDevice c,
     nc_DeviceSettingsPath = cf_DeviceSettingPath c, nc_QueueMaxSize = cf_QueueMaxSize c,
     nc_QueueRefillThreshold = cf_QueueRefillThreshold c,
     nc_GRPCTranspilerHost = cf_GRPCTranspilerHost c,
     nc_GRPCTranspilerPort = cf_GRPCTranspilerPort c,
     nc_TranspilerPluginPath = cf_TranspilerPluginPath c,
     nc_ServiceDBEndpoint = cf_ServiceDBEndpoint c, nc_ServiceDBRegion = [],
     nc_DisableStartDevicePolling = cf_DisableStartDevicePolling c\<rparr>"

section \<open>Properties\<close>

text \<open>
  After the defaults are registered and the file is decoded, a component's setting is the one of
  the file if the file has it and the registered default otherwise; a file that does not decode
  leaves every default in place.
\<close>

theorem GetComponentSetting_parse:
  "GetComponentSetting name (Some (fst (parseSetting decode toml s))) =
    (case decode toml of
       Ok (com, _) \<Rightarrow>
         (case map_of (rev com) name of
            Some v \<Rightarrow> Some v
          | None \<Rightarrow> GetComponentSetting name (Some s))
     | _ \<Rightarrow> GetComponentSetting name (Some s))"
  by (auto simp: GetComponentSetting_def parseSetting_def map_of_put_all map_add_def
      split: res.splits option.splits)

lemma GetComponentSetting_register:
  "GetComponentSetting name (Some (registerSetting n v s)) =
    (if name = n then Some v else GetComponentSetting name (Some s))"
  by (simp add: GetComponentSetting_def registerSetting_def gomap)

lemma SetInfo_no_secret: "SetInfo (c\<lparr>cf_ServiceDBAPIKey := k\<rparr>) = SetInfo c"
  by (simp add: SetInfo_def)

lemma SetVersion_nonempty: "SetVersion v b \<noteq> []"
  by (simp add: SetVersion_def NoVersion_def)

end
