(* ===== verification/Mitigation.thy ===== *)
theory Mitigation
  imports Go_Proc Common_Util Core_Setting
begin

text \<open>
  Readout-error mitigation, \<open>coreapp/mitig/mitig.go\<close>: which jobs are to be mitigated, and the call of
  the mitigation service that replaces a job's counts.

  The gRPC service and the device topology sent to it (floating-point calibration data of the device)
  are arguments, collected in \<open>mitig_env\<close>: the setting of the component, the error of dialling an
  address, the error of building the topology, and the answer to a request.
\<close>

section \<open>Which jobs are mitigated\<close>

record MitigationInfo =
  mi_NeedToBeMitigated :: bool
  mi_Mitigated :: bool
  mi_PropertyRaw :: "string option"

definition quoted_pseudo_inverse :: string where
  "quoted_pseudo_inverse = dquote # ''pseudo_inverse'' @ [dquote]"

text \<open>The test of the property \<open>ro_error_mitigation\<close>: present, and \<open>P\<close> of its value.\<close>

definition ro_property :: "(string \<Rightarrow> bool) \<Rightarrow> string \<Rightarrow> bool" where
  "ro_property P raw =
    (case Unmarshal_map dec_str [] raw of
       (props, None) \<Rightarrow> (case map_of props ''ro_error_mitigation'' of Some v \<Rightarrow> P v | None \<Rightarrow> False)
     | (props, Some _) \<Rightarrow> False)"

definition NewMitigationInfoFromJobData :: "JobData \<Rightarrow> MitigationInfo" where
  "NewMitigationInfoFromJobData jd =
    (let inputBytes = jd_MitigationInfo jd in
     if length inputBytes > 0 \<and> json_valid inputBytes then
       \<lparr>mi_NeedToBeMitigated = ro_property (\<lambda>v. TrimSpace v = quoted_pseudo_inverse) inputBytes,
        mi_Mitigated = False, mi_PropertyRaw = Some inputBytes\<rparr>
     else \<lparr>mi_NeedToBeMitigated = False, mi_Mitigated = False, mi_PropertyRaw = None\<rparr>)"

section \<open>The call of the service\<close>

fun getNumOfQubits_loop :: "nat \<Rightarrow> Counts \<Rightarrow> nat res" where
  "getNumOfQubits_loop candidateNum [] = Ok candidateNum"
| "getNumOfQubits_loop candidateNum ((k, _) # counts) =
    (if candidateNum = 0 then getNumOfQubits_loop (length k) counts
     else if candidateNum \<noteq> length k then Err ''different length of keys in counts''
     else getNumOfQubits_loop candidateNum counts)"

definition getNumOfQubits :: "Counts \<Rightarrow> nat res" where
  "getNumOfQubits counts =
    (if length counts = 0 then Err ''counts is empty'' else getNumOfQubits_loop 0 counts)"

definition getLowerBits :: "string \<Rightarrow> nat \<Rightarrow> string" where
  "getLowerBits binStr n =
    (if n \<ge> length binStr then binStr else drop (length binStr - n) binStr)"

definition mitigatorSetting :: "tval option \<Rightarrow> MitigatorSetting" where
  "mitigatorSetting s =
    (case as_table s of
       None \<Rightarrow> NewMitigatorSetting
     | Some mapped \<Rightarrow>
         (case (as_string (map_of mapped ''host''), as_string (map_of mapped ''port'')) of
            (Some h, Some p) \<Rightarrow> \<lparr>ms_Host = h, ms_Port = p\<rparr>
          | _ \<Rightarrow> NewMitigatorSetting))"

record mitig_env =
  mv_setting :: "tval option"
  mv_Dial :: "string \<Rightarrow> error option"
  mv_deviceTopology :: "error option"
  mv_ReqMitigation :: "(string, i32) gomap \<Rightarrow> string \<Rightarrow> (string, i32) gomap res"

definition PseudoInverseMitigation :: "mitig_env \<Rightarrow> JobData \<Rightarrow> (JobData, unit) outcome" where
  "PseudoInverseMitigation e jd =
    bindP (derefP (jd_Result jd) jd) (\<lambda>r jd.
      let failed = Ret () (jd\<lparr>jd_Status := FAILED\<rparr>) in
      case getNumOfQubits (rs_Counts r) of
        Panic \<Rightarrow> Pan jd
      | Err _ \<Rightarrow> failed
      | Ok numOfQubits \<Rightarrow>
          (let setting = mitigatorSetting (mv_setting e) in
           case ValidAddress (ms_Host setting) (ms_Port setting) of
             Panic \<Rightarrow> Pan jd
           | Err _ \<Rightarrow> failed
           | Ok target \<Rightarrow>
               (case mv_Dial e target of
                  Some _ \<Rightarrow> Ret () jd
                | None \<Rightarrow>
                    (case mv_deviceTopology e of
                       Some _ \<Rightarrow> failed
                     | None \<Rightarrow>
                         (let cts = put_all (rs_Counts r) [];
                              prg = (if jd_TranspiledQASM jd = [] then jd_QASM jd else jd_TranspiledQASM jd) in
                          case mv_ReqMitigation e cts prg of
                            Panic \<Rightarrow> Pan jd
                          | Err _ \<Rightarrow> failed
                          | Ok counts \<Rightarrow>
                              Ret () (jd\<lparr>jd_Result := Some (r\<lparr>rs_Counts :=
                                  put_all (map (\<lambda>(k, v). (getLowerBits k numOfQubits, v)) counts) []\<rparr>),
                                jd_Status := SUCCEEDED\<rparr>))))))"

section \<open>Properties\<close>

lemma getNumOfQubits_loop_pos:
  "0 < c \<Longrightarrow> getNumOfQubits_loop c counts =
    (if \<forall>(k, v) \<in> set counts. length k = c then Ok c else Err ''different length of keys in counts'')"
  by (induction c counts rule: getNumOfQubits_loop.induct) fastforce+

lemma getNumOfQubits_no_panic: "getNumOfQubits cs \<noteq> Panic"
proof -
  have "getNumOfQubits_loop c cs \<noteq> Panic" for c
    by (induction c cs rule: getNumOfQubits_loop.induct) auto
  then show ?thesis
    by (simp add: getNumOfQubits_def)
qed

text \<open>
  On counts without an empty key \<open>getNumOfQubits\<close> answers \<open>n\<close> exactly when there is a key and all
  keys have length \<open>n\<close>, whatever the order in which the map is traversed; otherwise it is an error.
\<close>

theorem getNumOfQubits_iff:
  assumes "\<forall>(k, v) \<in> set counts. k \<noteq> []"
  shows "(getNumOfQubits counts = Ok n \<longleftrightarrow> counts \<noteq> [] \<and> (\<forall>(k, v) \<in> set counts. length k = n)) \<and>
    (mset counts' = mset counts \<longrightarrow> getNumOfQubits counts' = getNumOfQubits counts)"
proof -
  have main: "getNumOfQubits cs =
      (if cs = [] then Err ''counts is empty''
       else if \<exists>n. \<forall>(k, v) \<in> set cs. length k = n then Ok (length (fst (hd cs)))
       else Err ''different length of keys in counts'')"
    if "\<forall>(k, v) \<in> set cs. k \<noteq> []" for cs :: Counts
  proof (cases cs)
    case (Cons e es)
    then show ?thesis
      using that getNumOfQubits_loop_pos [of "length (fst e)" es]
      by (cases e) (fastforce simp: getNumOfQubits_def)
  qed (simp add: getNumOfQubits_def)
  have iff: "getNumOfQubits cs = Ok n \<longleftrightarrow> cs \<noteq> [] \<and> (\<forall>(k, v) \<in> set cs. length k = n)"
    if "\<forall>(k, v) \<in> set cs. k \<noteq> []" for cs n
    using main [OF that] by (cases cs) (auto split: if_splits)
  have "getNumOfQubits counts' = getNumOfQubits counts" if "mset counts' = mset counts"
  proof -
    have eq: "set counts' = set counts" "counts' = [] \<longleftrightarrow> counts = []"
      using that mset_eq_setD mset_zero_iff by metis+
    then have same: "getNumOfQubits counts' = Ok n \<longleftrightarrow> getNumOfQubits counts = Ok n" for n
      using iff assms by auto
    show ?thesis
    proof (cases "\<exists>n. getNumOfQubits counts = Ok n")
      case False
      then show ?thesis
        using same main [OF assms] main [of counts'] eq assms by (auto split: if_splits)
    qed (use same in auto)
  qed
  then show ?thesis
    using iff [OF assms] by blast
qed

theorem getNumOfQubits_iff_witness:
  "getNumOfQubits [(''01'', 3), (''10'', 4)] = Ok 2 \<and>
   getNumOfQubits [(''10'', 4), (''01'', 3)] = getNumOfQubits [(''01'', 3), (''10'', 4)]"
  using getNumOfQubits_iff [of "[(''01'', 3), (''10'', 4)]" 2 "[(''10'', 4), (''01'', 3)]"] by simp

lemma length_getLowerBits: "length (getLowerBits s n) = min n (length s)"
  by (simp add: getLowerBits_def)

lemma PseudoInverseMitigation_keeps:
  "keeps (\<lambda>jd. jd\<lparr>jd_Result := None, jd_Status := SUBMITTED\<rparr>) jd (PseudoInverseMitigation e jd)"
  unfolding PseudoInverseMitigation_def Let_def
  by (auto intro!: keep_rules split: res.split option.split)

text \<open>
  Mitigation ends with status \<open>SUCCEEDED\<close> and the answered counts, each key cut to the width of
  the measured keys, or with status \<open>FAILED\<close> and the counts unchanged; only when dialling the service
  fails does it leave the job exactly as it was. It never panics on a job that has a result, provided
  the service call itself does not.
\<close>

theorem PseudoInverseMitigation_outcome:
  assumes "jd_Result jd = Some r" and "\<forall>c p. mv_ReqMitigation e c p \<noteq> Panic"
  shows "\<exists>jd'. PseudoInverseMitigation e jd = Ret () jd' \<and>
    (jd' = jd\<lparr>jd_Status := FAILED\<rparr> \<or>
     (jd' = jd \<and> (\<exists>target. mv_Dial e target \<noteq> None)) \<or>
     (\<exists>n counts.
        getNumOfQubits (rs_Counts r) = Ok n \<and>
        jd' = jd\<lparr>jd_Result := Some (r\<lparr>rs_Counts := counts\<rparr>), jd_Status := SUCCEEDED\<rparr> \<and>
        (\<forall>k \<in> fst ` set counts. length k \<le> n) \<and> wf_map counts))"
proof (cases "getNumOfQubits (rs_Counts r)")
  case (Ok n)
  note n = this
  let ?s = "mitigatorSetting (mv_setting e)"
  show ?thesis
  proof (cases "ValidAddress (ms_Host ?s) (ms_Port ?s)")
    case (Ok target)
    note target = this
    show ?thesis
    proof (cases "mv_Dial e target = None \<and> mv_deviceTopology e = None")
      case True
      let ?prg = "if jd_TranspiledQASM jd = [] then jd_QASM jd else jd_TranspiledQASM jd"
      show ?thesis
      proof (cases "mv_ReqMitigation e (put_all (rs_Counts r) []) ?prg")
        case (Ok counts)
        let ?counts = "put_all (map (\<lambda>(k, v). (getLowerBits k n, v)) counts) []"
        have "PseudoInverseMitigation e jd =
          Ret () (jd\<lparr>jd_Result := Some (r\<lparr>rs_Counts := ?counts\<rparr>), jd_Status := SUCCEEDED\<rparr>)"
          using assms(1) n target True Ok by (simp add: PseudoInverseMitigation_def Let_def)
        moreover have "\<forall>k \<in> fst ` set ?counts. length k \<le> n" "wf_map ?counts"
          by (auto simp: gomap length_getLowerBits simp del: image_iff)
        ultimately show ?thesis
          using n by blast
      qed (use assms n target True in \<open>auto simp: PseudoInverseMitigation_def Let_def\<close>)
    next
      case False
      then have "PseudoInverseMitigation e jd = Ret () (jd\<lparr>jd_Status := FAILED\<rparr>) \<or>
          PseudoInverseMitigation e jd = Ret () jd \<and> mv_Dial e target \<noteq> None"
        using assms(1) n target
        by (cases "mv_Dial e target"; cases "mv_deviceTopology e")
          (simp_all add: PseudoInverseMitigation_def Let_def)
      then show ?thesis
        by blast
    qed
  qed (use assms n ValidAddress_no_panic in \<open>auto simp: PseudoInverseMitigation_def Let_def\<close>)
qed (use assms getNumOfQubits_no_panic in \<open>auto simp: PseudoInverseMitigation_def Let_def\<close>)

text \<open>A job whose counts come back from the service with one more classical bit.\<close>

definition example_mitig_env :: mitig_env where
  "example_mitig_env = \<lparr>mv_setting = None, mv_Dial = (\<lambda>_. None), mv_deviceTopology = None,
     mv_ReqMitigation = (\<lambda>c p. Ok [(''000'', 6), (''011'', 4)])\<rparr>"

theorem PseudoInverseMitigation_outcome_witness:
  "\<exists>jd'. PseudoInverseMitigation example_mitig_env
      ((NewJobData 0)\<lparr>jd_Result := Some (NewResult\<lparr>rs_Counts := [(''00'', 5), (''11'', 5)]\<rparr>)\<rparr>) = Ret () jd' \<and>
    jd_Status jd' \<in> {SUBMITTED, SUCCEEDED, FAILED}"
  using PseudoInverseMitigation_outcome
    [of "(NewJobData 0)\<lparr>jd_Result := Some (NewResult\<lparr>rs_Counts := [(''00'', 5), (''11'', 5)]\<rparr>)\<rparr>"
      "NewResult\<lparr>rs_Counts := [(''00'', 5), (''11'', 5)]\<rparr>" example_mitig_env]
  by (auto simp: example_mitig_env_def NewJobData_def)

end
