(* ===== verification/Core_Job.thy ===== *)
theory Core_Job
  imports Mitigation
begin

text \<open>
  The job interface of \<open>coreapp/core/job.go\<close>, with \<open>NormalJob\<close> and \<open>UnknownJob\<close>.

  A job method reaches the rest of the system through the dependency-injection container: the
  transpiler, the QPU, the database, the device information and the clock. These are the fields of
  \<open>core_env\<close>, one value of which holds the answers that one method call gets; the scheduler model
  lets every call see a different environment. \<open>ev_Send\<close> and \<open>ev_mitig\<close> are indexed by the position of
  the call where a method calls the service in a loop. An error of \<open>container.Invoke\<close> itself is one of
  the errors the fields may return. A service answers a call by the job data it leaves and an error: what
  \<open>DummyQPU.Send\<close> itself puts on the DB channel (\<open>DummyQPU_Send\<close> in \<open>Qpu\<close>) is not one of the messages here, so
  what the scheduler's theorems say of the messages is about the messages of the engine's handlers, and about an
  engine with another QPU than the dummy.

  Every job holds its context, through which it only reaches the one DB channel of the system; that
  channel is part of the scheduler's state, so the context is left out of the job records.
\<close>

record core_env =
  ev_now :: datetime
  ev_deepcopy :: "JobData \<Rightarrow> JobData"
  ev_MaxShots :: int
  ev_MaxQubits :: int
  ev_Insert :: "JobData \<Rightarrow> error option"
  ev_IsAcceptableTranspilerLib :: "string \<Rightarrow> bool"
  ev_Transpile :: "JobData \<Rightarrow> (JobData, error option) outcome"
  ev_Send :: "nat \<Rightarrow> JobData \<Rightarrow> (JobData, error option) outcome"
  ev_mitig :: "nat \<Rightarrow> mitig_env"

text \<open>
  What the jobs rely on: the transpiler and the QPU write into the job data but never change the
  job's ID, and the copies of \<open>deepcopy\<close> are copies.
\<close>

definition env_ok :: "'a core_env_scheme \<Rightarrow> bool" where
  "env_ok e \<longleftrightarrow> deepcopy_ok (ev_deepcopy e) \<and>
    (\<forall>jd. keeps jd_ID jd (ev_Transpile e jd)) \<and> (\<forall>i jd. keeps jd_ID jd (ev_Send e i jd))"

section \<open>The interface of a job\<close>

record ('e, 'j) JobOps =
  jo_JobData :: "'j \<Rightarrow> JobData"
  jo_put :: "JobData \<Rightarrow> 'j \<Rightarrow> 'j"
  jo_PreProcess :: "'e \<Rightarrow> 'j \<Rightarrow> ('j, unit) outcome"
  jo_Process :: "'e \<Rightarrow> 'j \<Rightarrow> ('j, unit) outcome"
  jo_PostProcess :: "'e \<Rightarrow> 'j \<Rightarrow> ('j, unit) outcome"
  jo_IsFinished :: "'j \<Rightarrow> bool res"
  jo_Clone :: "'e \<Rightarrow> 'j \<Rightarrow> 'j"

text \<open>
  What the scheduler relies on: the job data can be read and written, a clone carries the same job
  data, whether a job is finished does not depend on the flag \<open>UseJobInfoUpdate\<close> that the scheduler
  sets, and no method changes the ID under which the scheduler keeps the job's history.
\<close>

locale job_contract =
  fixes ops :: "('e, 'j) JobOps" and ok :: "'e \<Rightarrow> bool"
  assumes data_put: "jo_JobData ops (jo_put ops d j) = d"
    and clone_data: "ok e \<Longrightarrow> jo_JobData ops (jo_Clone ops e j) = jo_JobData ops j"
    and finished_flag: "jo_IsFinished ops (jo_put ops ((jo_JobData ops j)\<lparr>jd_UseJobInfoUpdate := b\<rparr>) j) =
      jo_IsFinished ops j"
    and pre_id: "ok e \<Longrightarrow> keeps (\<lambda>j. jd_ID (jo_JobData ops j)) j (jo_PreProcess ops e j)"
    and proc_id: "ok e \<Longrightarrow> keeps (\<lambda>j. jd_ID (jo_JobData ops j)) j (jo_Process ops e j)"
    and post_id: "ok e \<Longrightarrow> keeps (\<lambda>j. jd_ID (jo_JobData ops j)) j (jo_PostProcess ops e j)"
begin

definition job_id :: "'j \<Rightarrow> string" where
  "job_id j = jd_ID (jo_JobData ops j)"

lemma job_id_put: "jd_ID d = job_id j \<Longrightarrow> job_id (jo_put ops d j) = job_id j"
  by (simp add: job_id_def data_put)

lemma job_id_clone: "ok e \<Longrightarrow> job_id (jo_Clone ops e j) = job_id j"
  by (simp add: job_id_def clone_data)

lemma job_id_methods:
  assumes "ok e"
  shows "job_id (final (jo_PreProcess ops e j)) = job_id j"
    and "job_id (final (jo_Process ops e j)) = job_id j"
    and "job_id (final (jo_PostProcess ops e j)) = job_id j"
  using pre_id [OF assms] proc_id [OF assms] post_id [OF assms] by (simp_all add: keeps_def job_id_def)

end

lemma keeps_on_part:
  "keeps v (g s) m \<Longrightarrow> (\<And>p. g (put p s) = p) \<Longrightarrow> keeps (\<lambda>s. v (g s)) s (on_part put s m)"
  by (cases m) (simp_all add: keeps_def)

lemma keeps_trans:
  assumes "keeps v s m" and "\<And>a t. m = Ret a t \<Longrightarrow> keeps v t (f a t)"
  shows "keeps v s (bindP m f)"
  using assms by (cases m) (auto simp: keeps_def)

lemma keeps_SetFailure: "keeps jd_ID jd (SetFailureWithErrorToJobData now err jd)"
  by (cases "jd_Result jd") (simp_all add: keeps_def SetFailureWithErrorToJobData_def set_result_def)

section \<open>NormalJob\<close>

definition NORMAL_JOB :: string where
  "NORMAL_JOB = ''normal''"

record NormalJob =
  nj_jobData :: JobData

definition nj_put :: "JobData \<Rightarrow> NormalJob \<Rightarrow> NormalJob" where
  "nj_put jd j = j\<lparr>nj_jobData := jd\<rparr>"

definition NormalJob_New :: "JobData \<Rightarrow> NormalJob" where
  "NormalJob_New jd = \<lparr>nj_jobData = jd\<rparr>"

definition NormalJob_preProcessImpl :: "'a core_env_scheme \<Rightarrow> NormalJob \<Rightarrow> (NormalJob, error option) outcome" where
  "NormalJob_preProcessImpl e j =
    (case JobData_NeedTranspiling (nj_jobData j) of
       Ok need \<Rightarrow> if need then on_part nj_put j (ev_Transpile e (nj_jobData j)) else Ret None j
     | _ \<Rightarrow> Pan j)"

definition NormalJob_PreProcess :: "'a core_env_scheme \<Rightarrow> NormalJob \<Rightarrow> (NormalJob, unit) outcome" where
  "NormalJob_PreProcess e j =
    bindP (NormalJob_preProcessImpl e j) (\<lambda>err j.
      case err of
        None \<Rightarrow> Ret () j
      | Some er \<Rightarrow>
          bindP (on_part nj_put j (SetFailureWithErrorToJobData (ev_now e) er (nj_jobData j)))
            (\<lambda>_ j. Ret () j))"

definition NormalJob_Process :: "'a core_env_scheme \<Rightarrow> NormalJob \<Rightarrow> (NormalJob, unit) outcome" where
  "NormalJob_Process e j =
    bindP (on_part nj_put j (ev_Send e 0 (nj_jobData j))) (\<lambda>err j.
      case err of
        None \<Rightarrow> Ret () j
      | Some er \<Rightarrow> Ret () (j\<lparr>nj_jobData := (nj_jobData j)\<lparr>jd_Status := FAILED\<rparr>\<rparr>))"

definition NormalJob_PostProcess :: "'a core_env_scheme \<Rightarrow> NormalJob \<Rightarrow> (NormalJob, unit) outcome" where
  "NormalJob_PostProcess e j = Ret () j"

definition NormalJob_IsFinished :: "NormalJob \<Rightarrow> bool res" where
  "NormalJob_IsFinished j =
    Ok (jd_Status (nj_jobData j) = SUCCEEDED \<or> jd_Status (nj_jobData j) = FAILED)"

definition NormalJob_Clone :: "'a core_env_scheme \<Rightarrow> NormalJob \<Rightarrow> NormalJob" where
  "NormalJob_Clone e j = \<lparr>nj_jobData = JobData_Clone (ev_deepcopy e) (nj_jobData j)\<rparr>"

definition normal_ops :: "('a core_env_scheme, NormalJob) JobOps" where
  "normal_ops =
    \<lparr>jo_JobData = nj_jobData, jo_put = nj_put, jo_PreProcess = NormalJob_PreProcess,
     jo_Process = NormalJob_Process, jo_PostProcess = NormalJob_PostProcess,
     jo_IsFinished = NormalJob_IsFinished, jo_Clone = NormalJob_Clone\<rparr>"

lemma nj_put_simps [simp]: "nj_jobData (nj_put jd j) = jd" "nj_put jd (nj_put jd' j) = nj_put jd j"
  by (simp_all add: nj_put_def)

lemma keeps_nj: "keeps jd_ID (nj_jobData j) m \<Longrightarrow>
    keeps (\<lambda>j. jd_ID (nj_jobData j)) j (on_part nj_put j m)"
  by (rule keeps_on_part) simp_all

lemma NormalJob_keeps_id:
  assumes "env_ok e"
  shows "keeps (\<lambda>j. jd_ID (nj_jobData j)) j (NormalJob_PreProcess e j)"
    and "keeps (\<lambda>j. jd_ID (nj_jobData j)) j (NormalJob_Process e j)"
proof -
  have svc: "keeps jd_ID jd (ev_Transpile e jd)" "keeps jd_ID jd (ev_Send e i jd)" for jd i
    using assms by (auto simp: env_ok_def)
  have "keeps (\<lambda>j. jd_ID (nj_jobData j)) j (NormalJob_preProcessImpl e j)"
    unfolding NormalJob_preProcessImpl_def
    by (auto intro!: keeps_nj keep_rules svc split: res.split)
  then show "keeps (\<lambda>j. jd_ID (nj_jobData j)) j (NormalJob_PreProcess e j)"
    unfolding NormalJob_PreProcess_def
    by (rule keeps_trans)
      (auto intro!: keeps_trans [OF keeps_nj] keeps_Ret keeps_SetFailure split: option.split)
  show "keeps (\<lambda>j. jd_ID (nj_jobData j)) j (NormalJob_Process e j)"
    unfolding NormalJob_Process_def
    by (rule keeps_trans)
      (auto intro!: keeps_nj keeps_Ret svc split: option.split)
qed

interpretation normal_job: job_contract normal_ops env_ok
proof (unfold_locales, goal_cases)
  case (2 e j)
  then show ?case
    by (simp add: normal_ops_def NormalJob_Clone_def env_ok_def JobData_Clone_id)
qed (auto simp: normal_ops_def NormalJob_IsFinished_def NormalJob_PostProcess_def nj_put_def
      keeps_Ret NormalJob_keeps_id)

section \<open>UnknownJob\<close>

record UnknownJob =
  uj_jobData :: JobData

definition uj_put :: "JobData \<Rightarrow> UnknownJob \<Rightarrow> UnknownJob" where
  "uj_put jd j = j\<lparr>uj_jobData := jd\<rparr>"

definition UnknownJob_New :: "JobData \<Rightarrow> UnknownJob" where
  "UnknownJob_New jd = \<lparr>uj_jobData = jd\<rparr>"

text \<open>\<open>PreProcess\<close>, \<open>Process\<close> and \<open>PostProcess\<close> of an unknown job do nothing.\<close>

definition UnknownJob_noop :: "'a core_env_scheme \<Rightarrow> UnknownJob \<Rightarrow> (UnknownJob, unit) outcome" where
  "UnknownJob_noop e j = Ret () j"

definition UnknownJob_IsFinished :: "UnknownJob \<Rightarrow> bool res" where
  "UnknownJob_IsFinished j =
    Ok (jd_Status (uj_jobData j) = SUCCEEDED \<or> jd_Status (uj_jobData j) = FAILED)"

definition UnknownJob_Clone :: "'a core_env_scheme \<Rightarrow> UnknownJob \<Rightarrow> UnknownJob" where
  "UnknownJob_Clone e j = \<lparr>uj_jobData = JobData_Clone (ev_deepcopy e) (uj_jobData j)\<rparr>"

definition unknown_ops :: "('a core_env_scheme, UnknownJob) JobOps" where
  "unknown_ops =
    \<lparr>jo_JobData = uj_jobData, jo_put = uj_put, jo_PreProcess = UnknownJob_noop,
     jo_Process = UnknownJob_noop, jo_PostProcess = UnknownJob_noop,
     jo_IsFinished = UnknownJob_IsFinished, jo_Clone = UnknownJob_Clone\<rparr>"

interpretation unknown_job: job_contract unknown_ops env_ok
proof (unfold_locales, goal_cases)
  case (2 e j)
  then show ?case
    by (simp add: unknown_ops_def UnknownJob_Clone_def env_ok_def JobData_Clone_id)
qed (auto simp: unknown_ops_def UnknownJob_IsFinished_def UnknownJob_noop_def uj_put_def keeps_Ret)

section \<open>Job parameters\<close>

record JobParam =
  jp_JobID :: string
  jp_QASM :: string
  jp_Shots :: int
  jp_Transpiler :: "TranspilerConfig option"
  jp_JobType :: string

text \<open>The check of the transpiler library, inside \<open>container.Invoke\<close>; a nil configuration panics.\<close>

definition check_transpiler_lib :: "'a core_env_scheme \<Rightarrow> JobParam \<Rightarrow> error option res" where
  "check_transpiler_lib e p =
    res_bind (deref (jp_Transpiler p)) (\<lambda>tc.
      Ok (case tc_TranspilerLib tc of
            None \<Rightarrow> None
          | Some lib \<Rightarrow>
              if ev_IsAcceptableTranspilerLib e lib then None
              else Some (''transpiler lib '' @ lib @ '' is not acceptable'')))"

definition err_shots_zero :: "int \<Rightarrow> error" where
  "err_shots_zero n = ''shots('' @ int_str n @ '') must be greater than 0''"

definition err_shots_limit :: "int \<Rightarrow> int \<Rightarrow> error" where
  "err_shots_limit n limit = ''shots('' @ int_str n @ '') is over the limit('' @ int_str limit @ '')''"

definition validateJobParam :: "'a core_env_scheme \<Rightarrow> JobParam \<Rightarrow> error option res" where
  "validateJobParam e p =
    (if jp_JobID p = [] then Ok (Some ''jobID is empty'')
     else if jp_JobType p = NORMAL_JOB \<and> jp_Shots p \<le> 0 then Ok (Some (err_shots_zero (jp_Shots p)))
     else if jp_JobType p = NORMAL_JOB \<and> jp_Shots p > ev_MaxShots e
       then Ok (Some (err_shots_limit (jp_Shots p) (ev_MaxShots e)))
     else check_transpiler_lib e p)"

definition param_of :: "JobData \<Rightarrow> JobParam" where
  "param_of jd =
    \<lparr>jp_JobID = jd_ID jd, jp_QASM = jd_QASM jd, jp_Shots = jd_Shots jd,
     jp_Transpiler = jd_Transpiler jd, jp_JobType = jd_JobType jd\<rparr>"

text \<open>
  Job parameters pass the validation exactly when the ID is not empty, the shots of a normal job
  are between one and the limit of the device, and the transpiler library is absent or acceptable;
  parameters of any other job type pass with any number of shots.
\<close>

theorem validateJobParam_ok:
  "validateJobParam e p = Ok None \<longleftrightarrow>
    jp_JobID p \<noteq> [] \<and>
    (if jp_JobType p = NORMAL_JOB then 0 < jp_Shots p \<and> jp_Shots p \<le> ev_MaxShots e else True) \<and>
    (\<exists>tc. jp_Transpiler p = Some tc \<and>
      (case tc_TranspilerLib tc of None \<Rightarrow> True | Some lib \<Rightarrow> ev_IsAcceptableTranspilerLib e lib))"
  by (cases "jp_Transpiler p")
    (auto simp: validateJobParam_def check_transpiler_lib_def split: option.splits)

end
