(* ===== verification/Sampling_Job.thy ===== *)
theory Sampling_Job
  imports Core_Job
begin

text \<open>\<open>coreapp/sampling/job.go\<close>: a sampling job, which is mitigated after it ran if it asks for it.\<close>

definition SAMPLING_JOB :: string where
  "SAMPLING_JOB = ''sampling''"

record SamplingJob =
  sj_jobData :: JobData
  sj_mitigationInfo :: "MitigationInfo option"

definition sj_put :: "JobData \<Rightarrow> SamplingJob \<Rightarrow> SamplingJob" where
  "sj_put jd j = j\<lparr>sj_jobData := jd\<rparr>"

definition SamplingJob_New :: "JobData \<Rightarrow> SamplingJob" where
  "SamplingJob_New jd = \<lparr>sj_jobData = jd, sj_mitigationInfo = None\<rparr>"

definition SamplingJob_preProcessImpl ::
  "'a core_env_scheme \<Rightarrow> SamplingJob \<Rightarrow> (SamplingJob, error option) outcome" where
  "SamplingJob_preProcessImpl e j =
    (case JobData_NeedTranspiling (sj_jobData j) of
       Ok need \<Rightarrow> if need then on_part sj_put j (ev_Transpile e (sj_jobData j)) else Ret None j
     | _ \<Rightarrow> Pan j)"

definition SamplingJob_PreProcess :: "'a core_env_scheme \<Rightarrow> SamplingJob \<Rightarrow> (SamplingJob, unit) outcome" where
  "SamplingJob_PreProcess e j =
    bindP (SamplingJob_preProcessImpl e j) (\<lambda>err j.
      case err of
        Some er \<Rightarrow>
          bindP (on_part sj_put j (SetFailureWithErrorToJobData (ev_now e) er (sj_jobData j)))
            (\<lambda>_ j. Ret () j)
      | None \<Rightarrow>
          Ret () (j\<lparr>sj_mitigationInfo := Some (NewMitigationInfoFromJobData (sj_jobData j))\<rparr>))"

definition SamplingJob_Process :: "'a core_env_scheme \<Rightarrow> SamplingJob \<Rightarrow> (SamplingJob, unit) outcome" where
  "SamplingJob_Process e j =
    bindP (on_part sj_put j (ev_Send e 0 (sj_jobData j))) (\<lambda>err j.
      case err of
        None \<Rightarrow> Ret () j
      | Some er \<Rightarrow> Ret () (j\<lparr>sj_jobData := (sj_jobData j)\<lparr>jd_Status := FAILED\<rparr>\<rparr>))"

definition SamplingJob_shouldMitigate :: "MitigationInfo \<Rightarrow> bool" where
  "SamplingJob_shouldMitigate m =
    (case mi_PropertyRaw m of
       None \<Rightarrow> False
     | Some raw \<Rightarrow> json_valid raw \<and> ro_property (\<lambda>v. TrimSpace v = quoted_pseudo_inverse) raw)"

definition SamplingJob_PostProcess :: "'a core_env_scheme \<Rightarrow> SamplingJob \<Rightarrow> (SamplingJob, unit) outcome" where
  "SamplingJob_PostProcess e j =
    bindP (derefP (sj_mitigationInfo j) j) (\<lambda>m j.
      let j' = j\<lparr>sj_mitigationInfo := Some (m\<lparr>mi_Mitigated := True\<rparr>)\<rparr> in
      if SamplingJob_shouldMitigate m
      then on_part sj_put j' (PseudoInverseMitigation (ev_mitig e 0) (sj_jobData j'))
      else Ret () j')"

definition SamplingJob_IsFinished :: "SamplingJob \<Rightarrow> bool res" where
  "SamplingJob_IsFinished j =
    (if jd_Status (sj_jobData j) = FAILED then Ok True
     else
       res_bind (deref (sj_mitigationInfo j)) (\<lambda>m.
         if mi_NeedToBeMitigated m then Ok (mi_Mitigated m)
         else Ok (jd_Status (sj_jobData j) = SUCCEEDED)))"

definition SamplingJob_Clone :: "'a core_env_scheme \<Rightarrow> SamplingJob \<Rightarrow> SamplingJob" where
  "SamplingJob_Clone e j =
    \<lparr>sj_jobData = JobData_Clone (ev_deepcopy e) (sj_jobData j), sj_mitigationInfo = None\<rparr>"

definition sampling_ops :: "('a core_env_scheme, SamplingJob) JobOps" where
  "sampling_ops =
    \<lparr>jo_JobData = sj_jobData, jo_put = sj_put, jo_PreProcess = SamplingJob_PreProcess,
     jo_Process = SamplingJob_Process, jo_PostProcess = SamplingJob_PostProcess,
     jo_IsFinished = SamplingJob_IsFinished, jo_Clone = SamplingJob_Clone\<rparr>"

section \<open>The contract\<close>

lemma sj_put_simps [simp]:
  "sj_jobData (sj_put jd j) = jd" "sj_mitigationInfo (sj_put jd j) = sj_mitigationInfo j"
  by (simp_all add: sj_put_def)

lemma keeps_sj: "keeps jd_ID (sj_jobData j) m \<Longrightarrow>
    keeps (\<lambda>j. jd_ID (sj_jobData j)) j (on_part sj_put j m)"
  by (rule keeps_on_part) simp_all

lemma keeps_id_mitigation: "keeps jd_ID jd (PseudoInverseMitigation e jd)"
  using PseudoInverseMitigation_keeps [of jd e]
  by (auto simp: keeps_def dest: arg_cong [where f = jd_ID])

lemma SamplingJob_keeps_id:
  assumes "env_ok e"
  shows "keeps (\<lambda>j. jd_ID (sj_jobData j)) j (SamplingJob_PreProcess e j)"
    and "keeps (\<lambda>j. jd_ID (sj_jobData j)) j (SamplingJob_Process e j)"
    and "keeps (\<lambda>j. jd_ID (sj_jobData j)) j (SamplingJob_PostProcess e j)"
proof -
  have svc: "keeps jd_ID jd (ev_Transpile e jd)" "keeps jd_ID jd (ev_Send e i jd)" for jd i
    using assms by (auto simp: env_ok_def)
  have "keeps (\<lambda>j. jd_ID (sj_jobData j)) j (SamplingJob_preProcessImpl e j)"
    unfolding SamplingJob_preProcessImpl_def
    by (auto intro!: keeps_sj keep_rules svc split: res.split)
  then show "keeps (\<lambda>j. jd_ID (sj_jobData j)) j (SamplingJob_PreProcess e j)"
    unfolding SamplingJob_PreProcess_def
    by (rule keeps_trans)
      (auto intro!: keeps_trans [OF keeps_sj] keeps_Ret keeps_SetFailure split: option.split)
  show "keeps (\<lambda>j. jd_ID (sj_jobData j)) j (SamplingJob_Process e j)"
    unfolding SamplingJob_Process_def
    by (rule keeps_trans) (auto intro!: keeps_sj keeps_Ret svc split: option.split)
  show "keeps (\<lambda>j. jd_ID (sj_jobData j)) j (SamplingJob_PostProcess e j)"
    unfolding SamplingJob_PostProcess_def
    using keeps_id_mitigation [of "sj_jobData j" "ev_mitig e 0"]
    by (cases "sj_mitigationInfo j"; cases "PseudoInverseMitigation (ev_mitig e 0) (sj_jobData j)")
      (auto simp: Let_def keeps_def)
qed

interpretation sampling_job: job_contract sampling_ops env_ok
proof (unfold_locales, goal_cases)
  case (2 e j)
  then show ?case
    by (simp add: sampling_ops_def SamplingJob_Clone_def env_ok_def JobData_Clone_id)
next
  case (3 b j)
  then show ?case
    by (cases "sj_mitigationInfo j") (simp_all add: sampling_ops_def SamplingJob_IsFinished_def)
qed (auto simp: sampling_ops_def SamplingJob_keeps_id)

section \<open>Properties\<close>

text \<open>
  A sampling job that was pre-processed without an error is mitigated by \<open>PostProcess\<close> exactly
  when its mitigation information asks for it, and is finished after \<open>PostProcess\<close> exactly when it
  was mitigated, has succeeded or has failed; neither test ever reads a missing mitigation record.
\<close>

theorem SamplingJob_mitigation:
  assumes "SamplingJob_PreProcess e j = Ret () j1" and "jd_Status (sj_jobData j1) \<noteq> FAILED"
  shows "\<exists>m. sj_mitigationInfo j1 = Some m \<and>
    (SamplingJob_shouldMitigate m \<longleftrightarrow> mi_NeedToBeMitigated m) \<and>
    SamplingJob_IsFinished j1 \<noteq> Panic \<and>
    (SamplingJob_PostProcess e' j1 = Ret () j2 \<longrightarrow>
       SamplingJob_IsFinished j2 =
         Ok (mi_NeedToBeMitigated m \<or> jd_Status (sj_jobData j2) \<in> {SUCCEEDED, FAILED}))"
proof -
  let ?m = "NewMitigationInfoFromJobData (sj_jobData j1)"
  have m: "sj_mitigationInfo j1 = Some ?m"
    using assms
    by (auto simp: SamplingJob_PreProcess_def res_simps SetFailure_Ret split: option.splits)
  have should: "SamplingJob_shouldMitigate ?m \<longleftrightarrow> mi_NeedToBeMitigated ?m"
    by (simp add: SamplingJob_shouldMitigate_def NewMitigationInfoFromJobData_def Let_def)
  have "SamplingJob_IsFinished j2 =
      Ok (mi_NeedToBeMitigated ?m \<or> jd_Status (sj_jobData j2) \<in> {SUCCEEDED, FAILED})"
    if "SamplingJob_PostProcess e' j1 = Ret () j2"
  proof -
    have "sj_mitigationInfo j2 = Some (?m\<lparr>mi_Mitigated := True\<rparr>)"
      using that m by (auto simp: SamplingJob_PostProcess_def Let_def res_simps split: if_splits)
    then show ?thesis
      by (auto simp: SamplingJob_IsFinished_def)
  qed
  then show ?thesis
    using m should by (auto simp: SamplingJob_IsFinished_def)
qed

definition example_env :: core_env where
  "example_env =
    \<lparr>ev_now = 0, ev_deepcopy = id, ev_MaxShots = 1000, ev_MaxQubits = 4, ev_Insert = (\<lambda>_. None),
     ev_IsAcceptableTranspilerLib = (\<lambda>lib. lib = ''qiskit''), ev_Transpile = Ret None,
     ev_Send = (\<lambda>i jd. Ret None (jd\<lparr>jd_Status := SUCCEEDED\<rparr>)), ev_mitig = (\<lambda>_. example_mitig_env)\<rparr>"

definition no_transpiler :: TranspilerConfig where
  "no_transpiler = \<lparr>tc_TranspilerLib = None, tc_TranspilerOptions = None, tc_UseDefault = False\<rparr>"

definition example_job :: JobData where
  "example_job = (NewJobData 0)\<lparr>jd_ID := ''id'', jd_Status := READY, jd_Transpiler := Some no_transpiler\<rparr>"

theorem SamplingJob_mitigation_witness:
  "\<exists>j1 m. SamplingJob_PreProcess example_env (SamplingJob_New example_job) = Ret () j1 \<and>
     sj_mitigationInfo j1 = Some m \<and> SamplingJob_IsFinished j1 \<noteq> Panic"
proof -
  let ?j1 = "(SamplingJob_New example_job)\<lparr>sj_mitigationInfo :=
      Some (NewMitigationInfoFromJobData example_job)\<rparr>"
  have "SamplingJob_PreProcess example_env (SamplingJob_New example_job) = Ret () ?j1"
    by (simp add: SamplingJob_PreProcess_def SamplingJob_preProcessImpl_def SamplingJob_New_def
        example_job_def JobData_NeedTranspiling_def no_transpiler_def)
  then show ?thesis
    using SamplingJob_mitigation [of example_env "SamplingJob_New example_job" ?j1]
    by (auto simp: SamplingJob_New_def example_job_def)
qed

end
