(* ===== verification/Result_Divider.thy ===== *)
theory Result_Divider
  imports Go_Proc
begin

text \<open>
  \<open>coreapp/multiprog/manual/resultdivider/result_divider.go\<close>: the counts of a combined circuit are
  brought from physical to virtual qubit order and split into the counts of the circuits it was
  combined from. Counts and mappings are Go maps, so every loop follows an order the runtime
  chooses; the specifications below mention the maps only through \<open>map_of\<close>.

  The qubit lengths are \<open>int32\<close>: positions wrap at 32 bits and the bounds of a slice are checked at
  run time (\<open>slice\<close>).
\<close>

section \<open>Physical to virtual qubits\<close>

text \<open>Go's conversion \<open>string(b)\<close> of a byte.\<close>

definition byte_string :: "char \<Rightarrow> string" where
  "byte_string c = utf8 (of_char c)"

fun max_physical :: "int list \<Rightarrow> int \<Rightarrow> int" where
  "max_physical [] m = m"
| "max_physical (p # ps) m = max_physical ps (if m < p then p else m)"

fun fill_loop :: "string \<Rightarrow> int list \<Rightarrow> nat \<Rightarrow> nat list \<Rightarrow> int \<Rightarrow> string list \<Rightarrow> string list res" where
  "fill_loop input phys mx [] cursor filled = Ok filled"
| "fill_loop input phys mx (i # is) cursor filled =
    (if int i \<in> set phys then
       (if cursor < 0 \<or> int (length input) \<le> cursor then Panic
        else fill_loop input phys mx is (cursor - 1)
               (filled[mx - i := byte_string (input ! nat cursor)]))
     else fill_loop input phys mx is cursor (filled[mx - i := ''0'']))"

definition fillMissingDigits :: "string \<Rightarrow> int list \<Rightarrow> string list res" where
  "fillMissingDigits input phys =
    (if length phys \<noteq> length input then
       Err (''The length of the physical qubit list '' @ nat_str (length phys) @
            '' is not equal to the length of the input bit string '' @ nat_str (length input))
     else
       (let mx = nat (max_physical phys 0) in
        fill_loop input phys mx [0..<Suc mx] (int (length input) - 1) (replicate (Suc mx) [])))"

definition extractVirtualPhysicalMapping ::
  "Counts \<Rightarrow> VirtualPhysicalMappingMap \<Rightarrow> VirtualPhysicalMappingMap" where
  "extractVirtualPhysicalMapping counts vpm =
    (let n_cbits = (case counts of [] \<Rightarrow> 0 | (k, _) # _ \<Rightarrow> length k) in
     if n_cbits < length vpm
     then put_all (filter (\<lambda>(virtual, physical). virtual < of_nat n_cbits) vpm) []
     else vpm)"

fun swap_loop :: "string list \<Rightarrow> (u32 \<times> u32) list \<Rightarrow> string list \<Rightarrow> string list res" where
  "swap_loop filled [] swapped = Ok swapped"
| "swap_loop filled ((virtual, physical) # vpm) swapped =
    (if length swapped \<le> unat virtual then
       Err (''virtual qubit number is out of range. virtual: '' @ u32_str virtual @
            '', length: '' @ nat_str (length swapped))
     else if length filled \<le> unat physical then
       Err (''physical qubit number is out of range. physical: '' @ u32_str physical @
            '', length: '' @ nat_str (length filled))
     else swap_loop filled vpm
            (swapped[length swapped - unat virtual - 1 := filled ! (length filled - unat physical - 1)]))"

definition swap_key :: "VirtualPhysicalMappingMap \<Rightarrow> string \<Rightarrow> string res" where
  "swap_key vpm key =
    res_bind (fillMissingDigits key (map (\<lambda>(_, physical). uint physical) vpm)) (\<lambda>filled.
    res_bind (swap_loop filled vpm (replicate (length key) [])) (\<lambda>swapped.
      Ok (concat swapped)))"

fun swap_counts :: "VirtualPhysicalMappingMap \<Rightarrow> Counts \<Rightarrow> Counts \<Rightarrow> Counts res" where
  "swap_counts vpm [] result = Ok result"
| "swap_counts vpm ((key, cnt) # counts) result =
    res_bind (swap_key vpm key) (\<lambda>key'. swap_counts vpm counts (AList.update key' cnt result))"

definition swapVirtualPhysical :: "Counts \<Rightarrow> VirtualPhysicalMappingMap \<Rightarrow> Counts res" where
  "swapVirtualPhysical counts vpm =
    (if length vpm = 0 then Ok counts
     else swap_counts (extractVirtualPhysicalMapping counts vpm) counts [])"

section \<open>Splitting the keys\<close>

definition slice :: "string \<Rightarrow> int \<Rightarrow> int \<Rightarrow> string res" where
  "slice s lo hi =
    (if 0 \<le> lo \<and> lo \<le> hi \<and> hi \<le> int (length s)
     then Ok (take (nat (hi - lo)) (drop (nat lo) s)) else Panic)"

fun divide_loop :: "string \<Rightarrow> i32 list \<Rightarrow> i32 \<Rightarrow> string list \<Rightarrow> (string list \<times> i32) res" where
  "divide_loop input [] currentPos result = Ok (result, currentPos)"
| "divide_loop input (len # lengths) currentPos result =
    (if sint (currentPos + len) > sint (of_nat (length input) :: i32)
     then Err ''inconsistent qubits''
     else
       res_bind (slice input (sint currentPos) (sint (currentPos + len))) (\<lambda>piece.
         divide_loop input lengths (currentPos + len) (result @ [piece])))"

definition divideStringByLengths :: "string \<Rightarrow> i32 list \<Rightarrow> string list res" where
  "divideStringByLengths input lengths =
    res_bind (divide_loop input lengths 0 []) (\<lambda>(result, currentPos).
      if currentPos \<noteq> of_nat (length input) then Err ''inconsistent qubits'' else Ok result)"

text \<open>\<open>m[i][k] += v\<close> with the inner map created on demand; \<open>uint32\<close> addition wraps.\<close>

definition add_count :: "u32 \<Rightarrow> string \<Rightarrow> u32 \<Rightarrow> DividedResult \<Rightarrow> DividedResult" where
  "add_count ith key v divided =
    (let inner = (case map_of divided ith of None \<Rightarrow> [] | Some m \<Rightarrow> m);
         old = (case map_of inner key of None \<Rightarrow> 0 | Some c \<Rightarrow> c)
     in AList.update ith (AList.update key (old + v) inner) divided)"

fun divide_key :: "nat \<Rightarrow> nat \<Rightarrow> u32 \<Rightarrow> string list \<Rightarrow> DividedResult \<Rightarrow> DividedResult" where
  "divide_key n i v [] divided = divided"
| "divide_key n i v (key # keys) divided =
    divide_key n (Suc i) v keys (add_count (of_int (int n - int i) - 1) key v divided)"

fun divide_counts :: "i32 list \<Rightarrow> Counts \<Rightarrow> DividedResult \<Rightarrow> DividedResult res" where
  "divide_counts lengths [] divided = Ok divided"
| "divide_counts lengths ((k, v) # counts) divided =
    res_bind (divideStringByLengths k lengths) (\<lambda>divided_keys.
      divide_counts lengths counts (divide_key (length lengths) 0 v divided_keys divided))"

text \<open>
  \<open>DivideResult\<close> returns its error; the swapped counts stay in the job data when the splitting of a
  key fails, or panics, afterwards.
\<close>

definition DivideResult :: "JobData \<Rightarrow> i32 list \<Rightarrow> (JobData, error option) outcome" where
  "DivideResult jd combinedQubitsList =
    bindP (derefP (jd_Result jd) jd) (\<lambda>r jd.
      if length (rs_Counts r) = 0 then Ret (Some ''inconsistent qubit property'') jd
      else
        bindP (derefP (rs_TranspilerInfo r) jd) (\<lambda>info jd.
          case ToMap (ti_VirtualPhysicalMappingRaw info) of
            Panic \<Rightarrow> Pan jd
          | Err e \<Rightarrow> Ret (Some e) jd
          | Ok vpmMap \<Rightarrow>
              (case swapVirtualPhysical (rs_Counts r) vpmMap of
                 Panic \<Rightarrow> Pan jd
               | Err e \<Rightarrow> Ret (Some e) jd
               | Ok counts \<Rightarrow>
                   (let r' = r\<lparr>rs_Counts := counts\<rparr>; jd' = jd\<lparr>jd_Result := Some r'\<rparr> in
                    case divide_counts combinedQubitsList counts [] of
                      Panic \<Rightarrow> Pan jd'
                    | Err e \<Rightarrow> Ret (Some e) jd'
                    | Ok divided \<Rightarrow>
                        Ret None (jd\<lparr>jd_Result := Some (r'\<lparr>rs_DividedResult := Some divided\<rparr>)\<rparr>)))))"

section \<open>Splitting is exact\<close>

lemma sint_of_nat_small [simp]: "k < 2147483648 \<Longrightarrow> sint (of_nat k :: i32) = int k"
  by (simp add: signed_of_nat signed_take_bit_int_eq_self)

lemma of_nat_i32_inj:
  "a < 2147483648 \<Longrightarrow> b < 2147483648 \<Longrightarrow> (of_nat a :: i32) = of_nat b \<longleftrightarrow> a = b"
  by (auto dest: arg_cong [where f = sint] simp del: word_of_nat_eq_iff)

text \<open>The pieces of a list: of the given lengths, from the front.\<close>

fun pieces :: "nat list \<Rightarrow> 'a list \<Rightarrow> 'a list list" where
  "pieces [] xs = []"
| "pieces (n # ns) xs = take n xs # pieces ns (drop n xs)"

lemma pieces_spec:
  "sum_list ns \<le> length xs \<Longrightarrow>
    concat (pieces ns xs) = take (sum_list ns) xs \<and> map length (pieces ns xs) = ns"
  by (induction ns xs rule: pieces.induct) (auto simp: take_add)

lemma length_pieces [simp]: "length (pieces ns xs) = length ns"
  by (induction ns xs rule: pieces.induct) auto

text \<open>Lengths for which no \<open>int32\<close> position overflows on an input of length \<open>n\<close>.\<close>

definition small_lengths :: "nat \<Rightarrow> i32 list \<Rightarrow> bool" where
  "small_lengths n lengths \<longleftrightarrow> (\<forall>l \<in> set lengths. n + unat l < 2147483648)"

lemma slice_nat [simp]:
  "p + l \<le> length s \<Longrightarrow> slice s (int p) (int (p + l)) = Ok (take l (drop p s))"
  by (simp add: slice_def)

lemma divide_loop_eq:
  assumes "small_lengths (length input) lengths" and "p \<le> length input"
    and "length input < 2147483648"
  shows "divide_loop input lengths (of_nat p) acc =
    (if p + sum_list (map unat lengths) \<le> length input
     then Ok (acc @ pieces (map unat lengths) (drop p input),
              of_nat (p + sum_list (map unat lengths)))
     else Err ''inconsistent qubits'')"
  using assms
proof (induction lengths arbitrary: p acc)
  case (Cons l lengths)
  define m where "m = unat l"
  have l: "l = of_nat m" and small: "length input + m < 2147483648"
    and rest: "small_lengths (length input) lengths"
    using Cons.prems(1) by (auto simp: small_lengths_def m_def)
  have pos: "of_nat p + l = (of_nat (p + m) :: i32)"
    by (simp add: l)
  have u: "unat (of_nat m :: i32) = m"
    using l m_def by simp
  have s1: "sint (of_nat (p + m) :: i32) = int (p + m)"
    using small Cons.prems(2) by (intro sint_of_nat_small) simp
  have s2: "sint (of_nat p :: i32) = int p"
    using small Cons.prems(2) by (intro sint_of_nat_small) simp
  have s3: "sint (of_nat (length input) :: i32) = int (length input)"
    using small by (intro sint_of_nat_small) simp
  show ?case
  proof (cases "p + m \<le> length input")
    case True
    have "divide_loop input (l # lengths) (of_nat p) acc =
      divide_loop input lengths (of_nat (p + m)) (acc @ [take m (drop p input)])"
      using True by (simp only: divide_loop.simps pos s1 s2 s3 slice_nat res_bind.simps) simp
    also have "\<dots> = (if p + m + sum_list (map unat lengths) \<le> length input
     then Ok ((acc @ [take m (drop p input)]) @ pieces (map unat lengths) (drop (p + m) input),
              of_nat (p + m + sum_list (map unat lengths)))
     else Err ''inconsistent qubits'')"
      by (rule Cons.IH [OF rest True Cons.prems(3)])
    finally show ?thesis
      by (simp add: m_def add.assoc add.commute)
  next
    case False
    then show ?thesis
      by (simp only: divide_loop.simps pos s1 s2 s3) (simp add: flip: m_def)
  qed
qed auto

text \<open>
  On lengths for which no \<open>int32\<close> position overflows, \<open>divideStringByLengths\<close> never panics; it
  succeeds exactly when the lengths sum to the length of the input, and then its pieces have the
  given lengths and concatenate to the input.
\<close>

theorem divideStringByLengths_exact:
  assumes "small_lengths (length input) lengths" and "length input < 2147483648"
  shows "(if sum_list (map unat lengths) = length input
      then \<exists>parts. divideStringByLengths input lengths = Ok parts \<and> concat parts = input \<and>
             map length parts = map unat lengths
      else divideStringByLengths input lengths = Err ''inconsistent qubits'')"
proof -
  let ?n = "sum_list (map unat lengths)"
  have inj: "(of_nat ?n :: i32) = of_nat (length input) \<longleftrightarrow> ?n = length input"
    if "?n \<le> length input"
    using that assms(2) by (intro of_nat_i32_inj) simp_all
  have loop: "divide_loop input lengths 0 [] =
    (if ?n \<le> length input then Ok (pieces (map unat lengths) input, of_nat ?n)
     else Err ''inconsistent qubits'')"
    using divide_loop_eq [OF assms(1) _ assms(2), of 0 "[]"] by simp
  show ?thesis
    using inj pieces_spec [of "map unat lengths" input]
    by (simp add: divideStringByLengths_def loop)
qed

theorem divideStringByLengths_exact_witness:
  "\<exists>parts. divideStringByLengths ''101011011'' [2, 3, 4] = Ok parts \<and> concat parts = ''101011011'' \<and>
     map length parts = [2, 3, 4]"
  using divideStringByLengths_exact [of "''101011011''" "[2, 3, 4]"]
  by (simp add: small_lengths_def)

section \<open>The divided result holds the marginal counts\<close>

definition get_count :: "DividedResult \<Rightarrow> u32 \<Rightarrow> string \<Rightarrow> u32" where
  "get_count divided i key =
    (case map_of divided i of None \<Rightarrow> 0
     | Some m \<Rightarrow> (case map_of m key of None \<Rightarrow> 0 | Some c \<Rightarrow> c))"

definition total_counts :: "Counts \<Rightarrow> u32" where
  "total_counts m = sum_list (map snd m)"

definition circuit_total :: "DividedResult \<Rightarrow> u32 \<Rightarrow> u32" where
  "circuit_total divided i = (case map_of divided i of None \<Rightarrow> 0 | Some m \<Rightarrow> total_counts m)"

lemma get_count_add_count:
  "get_count (add_count i key v d) j k = get_count d j k + (if i = j \<and> key = k then v else 0)"
  by (auto simp: get_count_def add_count_def Let_def gomap split: option.splits)

lemma total_counts_update:
  "total_counts (AList.update k ((case map_of m k of None \<Rightarrow> 0 | Some c \<Rightarrow> c) + v) m) =
    total_counts m + v"
  by (induction m) (auto simp: total_counts_def)

lemma circuit_total_add_count:
  "circuit_total (add_count i key v d) j = circuit_total d j + (if i = j then v else 0)"
  using total_counts_update [of key "[]" v]
  by (auto simp: circuit_total_def add_count_def Let_def gomap total_counts_update
      split: option.splits) (simp add: total_counts_def)

lemma circuit_index:
  assumes "i < n" shows "of_int (int n - int i) - 1 = (of_nat (n - 1 - i) :: u32)"
proof -
  have "int n - int i = int (n - 1 - i) + 1"
    using assms by linarith
  then show ?thesis
    by (simp only: of_int_add of_int_of_nat_eq of_int_1 add_diff_cancel)
qed

lemma of_nat_u32_inj:
  assumes "a < 4294967296" and "b < 4294967296"
  shows "(of_nat a :: u32) = of_nat b \<longleftrightarrow> a = b"
proof -
  have "unat (of_nat a :: u32) = a" "unat (of_nat b :: u32) = b"
    using assms by (simp_all add: unsigned_of_nat take_bit_nat_eq_self)
  then show ?thesis
    by metis
qed

lemma circuit_index_eq:
  assumes "i < n" and "j < n" and "n < 4294967296"
  shows "of_int (int n - int i) - 1 = (of_nat j :: u32) \<longleftrightarrow> n - 1 - j = i"
  using assms by (subst circuit_index, simp, subst of_nat_u32_inj) auto

lemma get_count_divide_key:
  assumes "i + length keys = n" and "j < n" and "n < 4294967296"
  shows "get_count (divide_key n i v keys d) (of_nat j) k = get_count d (of_nat j) k +
      (if i \<le> n - 1 - j \<and> keys ! (n - 1 - j - i) = k then v else 0)"
  using assms
proof (induction n i v keys d rule: divide_key.induct)
  case (2 n i v key keys d)
  have "n - 1 - j - i = Suc (n - 1 - j - Suc i)" if "Suc i \<le> n - 1 - j"
    using that by simp
  then show ?case
    using 2 circuit_index_eq [of i n j]
    by (simp only: divide_key.simps get_count_add_count) auto
qed auto

lemma circuit_total_divide_key:
  assumes "i + length keys = n" and "j < n" and "n < 4294967296"
  shows "circuit_total (divide_key n i v keys d) (of_nat j) = circuit_total d (of_nat j) +
      (if i \<le> n - 1 - j then v else 0)"
  using assms
proof (induction n i v keys d rule: divide_key.induct)
  case (2 n i v key keys d)
  then show ?case
    using circuit_index_eq [of i n j]
    by (simp only: divide_key.simps circuit_total_add_count) auto
qed auto

text \<open>The counts a circuit should get: those of the keys whose piece it owns, added up.\<close>

definition marginal :: "i32 list \<Rightarrow> Counts \<Rightarrow> nat \<Rightarrow> string \<Rightarrow> u32" where
  "marginal lengths counts j key =
    (\<Sum>(k, v) \<leftarrow> counts. if pieces (map unat lengths) k ! (length lengths - 1 - j) = key then v else 0)"

text \<open>Keys that split into the given lengths, with positions in the \<open>int32\<close> range.\<close>

definition divisible :: "i32 list \<Rightarrow> Counts \<Rightarrow> bool" where
  "divisible lengths counts \<longleftrightarrow> sum_list (map unat lengths) < 1073741824 \<and>
    length lengths < 4294967296 \<and>
    (\<forall>(k, v) \<in> set counts. length k = sum_list (map unat lengths))"

lemma divideStringByLengths_pieces:
  assumes "length k = sum_list (map unat lengths)" and "sum_list (map unat lengths) < 1073741824"
  shows "divideStringByLengths k lengths = Ok (pieces (map unat lengths) k)"
proof -
  have "small_lengths (length k) lengths"
    unfolding small_lengths_def
  proof
    fix l assume "l \<in> set lengths"
    then have "unat l \<le> sum_list (map unat lengths)"
      by (simp add: member_le_sum_list)
    then show "length k + unat l < 2147483648"
      using assms by simp
  qed
  then have "divide_loop k lengths 0 [] =
      Ok (pieces (map unat lengths) k, of_nat (sum_list (map unat lengths)))"
    using divide_loop_eq [of k lengths 0 "[]"] assms by simp
  then show ?thesis
    by (simp add: divideStringByLengths_def assms(1))
qed

lemma divide_counts_spec:
  assumes "divisible lengths counts"
  shows "\<exists>d'. divide_counts lengths counts d = Ok d' \<and>
    (\<forall>j < length lengths. circuit_total d' (of_nat j) = circuit_total d (of_nat j) + total_counts counts \<and>
      (\<forall>key. get_count d' (of_nat j) key = get_count d (of_nat j) key + marginal lengths counts j key))"
  using assms
proof (induction lengths counts d rule: divide_counts.induct)
  case (2 lengths k v counts d)
  let ?ps = "pieces (map unat lengths) k"
  have ok: "divideStringByLengths k lengths = Ok ?ps"
    using "2.prems" by (intro divideStringByLengths_pieces) (auto simp: divisible_def)
  have rest: "divisible lengths counts" and n: "length lengths < 4294967296"
    using "2.prems" by (auto simp: divisible_def)
  have "get_count (divide_key (length lengths) 0 v ?ps d) (of_nat j) key =
      get_count d (of_nat j) key + (if ?ps ! (length lengths - 1 - j) = key then v else 0)"
    if "j < length lengths" for j key
    using that n by (subst get_count_divide_key) auto
  moreover have "circuit_total (divide_key (length lengths) 0 v ?ps d) (of_nat j) =
      circuit_total d (of_nat j) + v" if "j < length lengths" for j
    using that n by (subst circuit_total_divide_key) auto
  ultimately show ?case
    using "2.IH" [OF ok rest] by (auto simp: ok marginal_def total_counts_def algebra_simps)
qed (simp add: marginal_def total_counts_def)

text \<open>
  C31: When every key of the counts splits into the combined circuits' lengths, dividing succeeds, the
  count of a key for circuit \<open>j\<close> is the sum of the counts of all combined keys whose piece for
  circuit \<open>j\<close> (the pieces are stored last circuit first) is that key, and each circuit keeps the
  total number of shots, all modulo the width of \<open>uint32\<close>.
\<close>

theorem divide_counts_marginal:
  assumes "divisible lengths counts"
  shows "\<exists>divided. divide_counts lengths counts [] = Ok divided \<and>
    (\<forall>j < length lengths. circuit_total divided (of_nat j) = total_counts counts \<and>
      (\<forall>key. get_count divided (of_nat j) key = marginal lengths counts j key))"
  using divide_counts_spec [OF assms, of "[]"] by (simp add: get_count_def circuit_total_def)

theorem divide_counts_marginal_witness:
  "\<exists>divided. divide_counts [1, 2] [(''110'', 5), (''010'', 6)] [] = Ok divided \<and>
     circuit_total divided 0 = 11 \<and> get_count divided 0 ''10'' = 11 \<and> get_count divided 1 ''1'' = 5"
proof -
  have "divisible [1, 2] [(''110'', 5), (''010'', 6)]"
    by (simp add: divisible_def)
  from divide_counts_marginal [OF this] obtain d where
    d: "divide_counts [1, 2] [(''110'', 5), (''010'', 6)] [] = Ok d"
    and *: "\<forall>j < 2. circuit_total d (of_nat j) = total_counts [(''110'', 5), (''010'', 6)] \<and>
      (\<forall>key. get_count d (of_nat j) key = marginal [1, 2] [(''110'', 5), (''010'', 6)] j key)"
    by auto
  have m: "marginal [1, 2] [(''110'', 5), (''010'', 6)] 0 ''10'' = 11"
    "marginal [1, 2] [(''110'', 5), (''010'', 6)] 1 ''1'' = 5"
    "total_counts [(''110'', 5), (''010'', 6)] = 11"
    by code_simp+
  show ?thesis
    using * [rule_format, of 0] * [rule_format, of 1] m
    by (intro exI [of _ d] conjI d) simp_all
qed

section \<open>The swap is a renaming of keys\<close>

lemma byte_string_ascii: "of_char c < (128::nat) \<Longrightarrow> byte_string c = [c]"
  by (simp add: byte_string_def utf8_def)

text \<open>The number of measured physical qubits below \<open>k\<close>.\<close>

definition rank :: "int list \<Rightarrow> nat \<Rightarrow> nat" where
  "rank phys k = card {p \<in> set phys. p < int k}"

lemma rank_Suc:
  "rank phys (Suc k) = (if int k \<in> set phys then Suc (rank phys k) else rank phys k)"
proof -
  have "{p \<in> set phys. p < int (Suc k)} =
      (if int k \<in> set phys then insert (int k) {p \<in> set phys. p < int k}
       else {p \<in> set phys. p < int k})"
    by (auto simp: less_le)
  then show ?thesis
    by (simp add: rank_def)
qed

lemma rank_less:
  assumes "int k \<in> set phys" shows "rank phys k < card (set phys)"
  unfolding rank_def using assms by (intro psubset_card_mono) auto

lemma rank_mono_strict:
  assumes "int k \<in> set phys" and "k < l" shows "rank phys k < rank phys l"
proof -
  let ?S = "\<lambda>k. {p \<in> set phys. p < int k}"
  have "?S k \<subseteq> ?S l" "int k \<in> ?S l" "int k \<notin> ?S k"
    using assms by auto
  then have "?S k \<subset> ?S l"
    by blast
  then show ?thesis
    unfolding rank_def by (intro psubset_card_mono) simp_all
qed

lemma rank_inj:
  assumes "int k \<in> set phys" "int l \<in> set phys" "rank phys k = rank phys l" shows "k = l"
  using assms rank_mono_strict [of k phys l] rank_mono_strict [of l phys k]
  by (cases k l rule: linorder_cases) auto

definition physical_bit :: "string \<Rightarrow> int list \<Rightarrow> nat \<Rightarrow> string" where
  "physical_bit input phys k =
    (if int k \<in> set phys then byte_string (input ! (length input - 1 - rank phys k)) else ''0'')"

lemma fill_loop_spec:
  assumes "card (set phys) \<le> length input" and "length filled = Suc mx" and "a \<le> Suc mx"
    and "cursor = int (length input) - 1 - int (rank phys a)"
  shows "\<exists>f. fill_loop input phys mx [a..<Suc mx] cursor filled = Ok f \<and> length f = Suc mx \<and>
    (\<forall>k \<le> mx. f ! (mx - k) = (if a \<le> k then physical_bit input phys k else filled ! (mx - k)))"
  using assms
proof (induction "Suc mx - a" arbitrary: a cursor filled)
  case (Suc d)
  have upt: "[a..<Suc mx] = a # [Suc a..<Suc mx]" and a: "a \<le> mx"
    using Suc.hyps(2) by (simp_all add: upt_conv_Cons del: upt_Suc)
  let ?filled = "filled[mx - a := physical_bit input phys a]"
  let ?cursor = "int (length input) - 1 - int (rank phys (Suc a))"
  have step: "fill_loop input phys mx [a..<Suc mx] cursor filled =
      fill_loop input phys mx [Suc a..<Suc mx] ?cursor ?filled"
  proof (cases "int a \<in> set phys")
    case True
    then have r: "rank phys a < length input"
      using rank_less Suc.prems(1) by (meson le_trans not_le)
    have "nat cursor = length input - 1 - rank phys a"
      using r Suc.prems(4) by linarith
    then show ?thesis
      using True r Suc.prems(4) by (simp add: upt physical_bit_def rank_Suc del: upt_Suc)
  next
    case False
    then show ?thesis
      using Suc.prems(4) by (simp add: upt physical_bit_def rank_Suc del: upt_Suc)
  qed
  have "\<exists>f. fill_loop input phys mx [Suc a..<Suc mx] ?cursor ?filled = Ok f \<and> length f = Suc mx \<and>
    (\<forall>k \<le> mx. f ! (mx - k) = (if Suc a \<le> k then physical_bit input phys k else ?filled ! (mx - k)))"
    using Suc.hyps(2) Suc.prems a by (intro Suc.hyps(1)) auto
  moreover have "(if Suc a \<le> k then physical_bit input phys k else ?filled ! (mx - k)) =
      (if a \<le> k then physical_bit input phys k else filled ! (mx - k))" if "k \<le> mx" for k
    using that a Suc.prems(2) by (auto simp: nth_list_update le_antisym not_less_eq_eq)
  ultimately show ?case
    by (simp only: step) force
qed auto

lemma max_physical_ge: "m \<le> max_physical ps m \<and> (\<forall>p \<in> set ps. p \<le> max_physical ps m)"
  by (induction ps m rule: max_physical.induct) force+

lemma rank_0 [simp]: "\<forall>p \<in> set phys. 0 \<le> p \<Longrightarrow> rank phys 0 = 0"
  by (auto simp: rank_def)

lemma fillMissingDigits_spec:
  assumes "length phys = length input" and "\<forall>p \<in> set phys. 0 \<le> p"
  shows "\<exists>f. fillMissingDigits input phys = Ok f \<and> (\<forall>p \<in> set phys. p < int (length f)) \<and>
    (\<forall>k < length f. f ! (length f - k - 1) = physical_bit input phys k)"
proof -
  let ?mx = "nat (max_physical phys 0)"
  have "\<exists>f. fill_loop input phys ?mx [0..<Suc ?mx] (int (length input) - 1)
      (replicate (Suc ?mx) []) = Ok f \<and> length f = Suc ?mx \<and>
    (\<forall>k \<le> ?mx. f ! (?mx - k) =
       (if 0 \<le> k then physical_bit input phys k else replicate (Suc ?mx) [] ! (?mx - k)))"
    using assms card_length [of phys] by (intro fill_loop_spec) auto
  moreover have "p < int (Suc ?mx)" if "p \<in> set phys" for p
    using max_physical_ge [of 0 phys] that by auto
  ultimately show ?thesis
    using assms(1) by (auto simp: fillMissingDigits_def Let_def less_Suc_eq_le)
qed

text \<open>
  \<open>fillMissingDigits\<close> never indexes out of range: for a list of (non-negative) physical qubits
  of the length of the bit string it returns one digit per qubit up to the largest, each either
  \<open>0\<close> for a missing qubit or the next unread digit from the right; otherwise it reports an error.
\<close>

theorem fillMissingDigits_no_panic:
  assumes "\<forall>p \<in> set phys. 0 \<le> p"
  shows "if length phys = length input
    then \<exists>f. fillMissingDigits input phys = Ok f \<and> length f = Suc (nat (max_physical phys 0)) \<and>
           (\<forall>k < length f. f ! (length f - k - 1) =
             (if int k \<in> set phys
              then byte_string (input ! (length input - 1 - card {p \<in> set phys. p < int k}))
              else ''0''))
    else \<exists>e. fillMissingDigits input phys = Err e"
proof (cases "length phys = length input")
  case True
  have "length f = Suc (nat (max_physical phys 0))" if "fillMissingDigits input phys = Ok f" for f
    using that True fill_loop_spec [of phys input "replicate (Suc (nat (max_physical phys 0))) []"
        "nat (max_physical phys 0)" 0 "int (length input) - 1"] assms card_length [of phys]
    by (auto simp: fillMissingDigits_def Let_def)
  then show ?thesis
    using True fillMissingDigits_spec [OF True assms] by (auto simp: physical_bit_def rank_def)
qed (simp add: fillMissingDigits_def)

theorem fillMissingDigits_no_panic_witness:
  "\<exists>f. fillMissingDigits ''111'' [0, 2, 4] = Ok f \<and> length f = 5 \<and> f ! 1 = ''0''"
proof -
  obtain f where f: "fillMissingDigits ''111'' [0, 2, 4] = Ok f" "length f = 5"
    and bit: "\<forall>k < length f. f ! (length f - k - 1) =
      (if int k \<in> set [0, 2, 4]
       then byte_string (''111'' ! (length ''111'' - 1 - card {p \<in> set [0, 2, 4]. p < int k}))
       else ''0'')"
    using fillMissingDigits_no_panic [of "[0, 2, 4]" "''111''"] by auto
  show ?thesis
    using f bit [rule_format, of 3] by auto
qed

lemma swap_loop_spec:
  assumes "wf_map vpm" and "\<forall>(v, p) \<in> set vpm. unat v < length sw \<and> unat p < length filled"
  shows "\<exists>s. swap_loop filled vpm sw = Ok s \<and> length s = length sw \<and>
    (\<forall>i < length sw. s ! (length sw - i - 1) =
      (case map_of (map (\<lambda>(v, p). (unat v, p)) vpm) i of
         None \<Rightarrow> sw ! (length sw - i - 1)
       | Some p \<Rightarrow> filled ! (length filled - unat p - 1)))"
  using assms
proof (induction filled vpm sw rule: swap_loop.induct)
  case (2 filled v p vpm sw)
  let ?sw = "sw[length sw - unat v - 1 := filled ! (length filled - unat p - 1)]"
  have v: "unat v < length sw" and p: "unat p < length filled"
    and rest: "wf_map vpm" "\<forall>(v, p) \<in> set vpm. unat v < length ?sw \<and> unat p < length filled"
    using "2.prems" by auto
  have new: "map_of (map (\<lambda>(v, p). (unat v, p)) vpm) (unat v) = None"
    using "2.prems"(1) by (force simp: map_of_eq_None_iff simp flip: word_unat_eq_iff)
  have upd: "?sw ! (length sw - i - 1) =
      (if i = unat v then filled ! (length filled - unat p - 1) else sw ! (length sw - i - 1))"
    if "i < length sw" for i
    using that v by (auto simp: nth_list_update)
  obtain s where s: "swap_loop filled vpm ?sw = Ok s" "length s = length sw"
    "\<And>i. i < length sw \<Longrightarrow> s ! (length sw - i - 1) =
      (case map_of (map (\<lambda>(v, p). (unat v, p)) vpm) i of
         None \<Rightarrow> ?sw ! (length sw - i - 1)
       | Some p \<Rightarrow> filled ! (length filled - unat p - 1))"
    using "2.IH" [OF _ _ rest] v p unfolding length_list_update not_le by blast
  have "swap_loop filled ((v, p) # vpm) sw = Ok s"
    using s(1) v p by (simp add: not_le)
  moreover have "s ! (length sw - i - 1) =
      (case map_of (map (\<lambda>(v, p). (unat v, p)) ((v, p) # vpm)) i of
         None \<Rightarrow> sw ! (length sw - i - 1)
       | Some p \<Rightarrow> filled ! (length filled - unat p - 1))" if "i < length sw" for i
    using s(3) [OF that] upd [OF that] new by (auto split: option.split)
  ultimately show ?case
    using s(2) by blast
qed auto

text \<open>A mapping of exactly the \<open>n\<close> measured virtual qubits onto different physical qubits.\<close>

definition measured_vpm :: "nat \<Rightarrow> VirtualPhysicalMappingMap \<Rightarrow> bool" where
  "measured_vpm n vpm \<longleftrightarrow> wf_map vpm \<and> distinct (map snd vpm) \<and> (unat \<circ> fst) ` set vpm = {..<n}"

abbreviation physicals :: "VirtualPhysicalMappingMap \<Rightarrow> int list" where
  "physicals vpm \<equiv> map (\<lambda>(_, physical). uint physical) vpm"

definition physical_of :: "VirtualPhysicalMappingMap \<Rightarrow> nat \<Rightarrow> nat" where
  "physical_of vpm i = unat (the (map_of (map (\<lambda>(v, p). (unat v, p)) vpm) i))"

text \<open>
  The key in virtual order: the digit of virtual qubit \<open>i\<close> (counted from the right) is the digit of
  its physical qubit, whose position is its rank among the measured physical qubits.
\<close>

definition virtual_key :: "VirtualPhysicalMappingMap \<Rightarrow> string \<Rightarrow> string" where
  "virtual_key vpm key =
    map (\<lambda>i. key ! (length key - 1 - rank (physicals vpm) (physical_of vpm (length key - i - 1))))
      [0..<length key]"

lemma measured_vpm_length: "measured_vpm n vpm \<Longrightarrow> length vpm = n"
proof -
  assume m: "measured_vpm n vpm"
  then have "distinct (map (unat \<circ> fst) vpm)"
    by (auto simp: measured_vpm_def distinct_map inj_on_def simp flip: word_unat_eq_iff)
  then have "card ((unat \<circ> fst) ` set vpm) = length vpm"
    using distinct_card by fastforce
  then show ?thesis
    using m by (simp add: measured_vpm_def)
qed

lemma measured_vpm_lookup:
  assumes "measured_vpm n vpm" and "i < n"
  shows "\<exists>v p. (v, p) \<in> set vpm \<and> unat v = i \<and>
    map_of (map (\<lambda>(v, p). (unat v, p)) vpm) i = Some p \<and> physical_of vpm i = unat p"
proof -
  obtain v p where vp: "(v, p) \<in> set vpm" "unat v = i"
  proof -
    have "i \<in> (unat \<circ> fst) ` set vpm"
      using assms by (simp add: measured_vpm_def)
    then show ?thesis
      using that by auto
  qed
  have "map fst (map (\<lambda>(v, p). (unat v, p)) vpm) = map unat (map fst vpm)"
    by (auto simp: comp_def case_prod_beta)
  then have "wf_map (map (\<lambda>(v, p). (unat v, p)) vpm)"
    using assms(1) by (auto simp: measured_vpm_def distinct_map inj_on_def simp flip: word_unat_eq_iff)
  then have "map_of (map (\<lambda>(v, p). (unat v, p)) vpm) i = Some p"
    using vp by (intro map_of_is_SomeI) force+
  then show ?thesis
    using vp by (auto simp: physical_of_def)
qed

lemma swap_key_virtual_key:
  assumes "measured_vpm (length key) vpm" and "\<forall>c \<in> set key. of_char c < (128::nat)"
  shows "swap_key vpm key = Ok (virtual_key vpm key)"
proof -
  let ?n = "length key" and ?P = "physicals vpm"
  have nonneg: "\<forall>p \<in> set ?P. 0 \<le> p"
    by auto
  have len: "length ?P = ?n"
    using measured_vpm_length [OF assms(1)] by simp
  obtain f where f: "fillMissingDigits key ?P = Ok f" "\<forall>p \<in> set ?P. p < int (length f)"
    "\<forall>k < length f. f ! (length f - k - 1) = physical_bit key ?P k"
    using fillMissingDigits_spec [OF len nonneg] by blast
  have range: "\<forall>(v, p) \<in> set vpm. unat v < length (replicate ?n []) \<and> unat p < length f"
  proof clarify
    fix v p assume vp: "(v, p) \<in> set vpm"
    have "unat v \<in> (unat \<circ> fst) ` set vpm" "uint p \<in> set ?P"
      using vp by force+
    then have v: "unat v \<in> {..<?n}" and "uint p < int (length f)"
      using f(2) assms(1) unfolding measured_vpm_def by blast+
    then have "int (unat p) < int (length f)"
      by simp
    then show "unat v < length (replicate ?n []) \<and> unat p < length f"
      using v by (simp only: of_nat_less_iff) simp
  qed
  obtain s where s: "swap_loop f vpm (replicate ?n []) = Ok s" "length s = ?n"
    "\<And>i. i < ?n \<Longrightarrow> s ! (?n - i - 1) =
      (case map_of (map (\<lambda>(v, p). (unat v, p)) vpm) i of
         None \<Rightarrow> replicate ?n [] ! (?n - i - 1)
       | Some p \<Rightarrow> f ! (length f - unat p - 1))"
    using swap_loop_spec [OF _ range] assms(1) unfolding length_replicate measured_vpm_def by blast
  have bit: "s ! (?n - i - 1) = [key ! (?n - 1 - rank ?P (physical_of vpm i))]" if i: "i < ?n" for i
  proof -
    obtain v p where vp: "(v, p) \<in> set vpm" "physical_of vpm i = unat p"
      "map_of (map (\<lambda>(v, p). (unat v, p)) vpm) i = Some p"
      using measured_vpm_lookup [OF assms(1) i] by blast
    have p: "int (unat p) \<in> set ?P" "unat p < length f"
      using vp(1) range by (force, force)
    have "rank ?P (unat p) < ?n"
      using rank_less [OF p(1)] card_length [of ?P] len by simp
    then have "byte_string (key ! (?n - 1 - rank ?P (unat p))) = [key ! (?n - 1 - rank ?P (unat p))]"
      using assms(2) i by (intro byte_string_ascii) simp
    then show ?thesis
      using s(3) [OF i] vp f(3) p by (simp add: physical_bit_def)
  qed
  have "s = map (\<lambda>c. [c]) (virtual_key vpm key)"
  proof (rule nth_equalityI)
    fix j assume "j < length s"
    then show "s ! j = map (\<lambda>c. [c]) (virtual_key vpm key) ! j"
      using bit [of "?n - j - 1"] s(2) by (simp add: virtual_key_def)
  qed (simp add: virtual_key_def s(2))
  then show ?thesis
    using f(1) s(1) by (simp add: swap_key_def concat_map_singleton)
qed

lemma virtual_key_length [simp]: "length (virtual_key vpm key) = length key"
  by (simp add: virtual_key_def)

lemma virtual_key_inj:
  assumes m: "measured_vpm n vpm" and len: "length a = n" "length b = n"
    and eq: "virtual_key vpm a = virtual_key vpm b"
  shows "a = b"
proof -
  let ?r = "\<lambda>i. rank (physicals vpm) (physical_of vpm i)"
  have phys: "\<exists>v p. (v, p) \<in> set vpm \<and> unat v = i \<and> physical_of vpm i = unat p" if "i < n" for i
    using measured_vpm_lookup [OF m that] by blast
  have mem: "int (physical_of vpm i) \<in> set (physicals vpm)" if "i < n" for i
    using phys [OF that] by force
  have "inj_on ?r {..<n}"
  proof (rule inj_onI)
    fix i j assume ij: "i \<in> {..<n}" "j \<in> {..<n}" "?r i = ?r j"
    then have "i < n" "j < n"
      by simp_all
    then have "physical_of vpm i = physical_of vpm j"
      by (rule rank_inj [OF mem mem ij(3)])
    moreover have "v = w" if "(v, p) \<in> set vpm" "(w, q) \<in> set vpm" "unat p = unat q" for v p w q
    proof -
      have "p = q" "inj_on snd (set vpm)"
        using m that(3) by (simp_all add: measured_vpm_def distinct_map word_unat_eq_iff)
      then show ?thesis
        using inj_onD [of snd "set vpm" "(v, p)" "(w, q)"] that by simp
    qed
    moreover obtain v p w q where "(v, p) \<in> set vpm" "unat v = i" "physical_of vpm i = unat p"
      and "(w, q) \<in> set vpm" "unat w = j" "physical_of vpm j = unat q"
      using phys [of i] phys [of j] ij by blast
    ultimately show "i = j"
      by metis
  qed
  moreover have "?r ` {..<n} \<subseteq> {..<n}"
    using rank_less [OF mem] card_length [of "physicals vpm"] measured_vpm_length [OF m]
    by fastforce
  ultimately have surj: "?r ` {..<n} = {..<n}"
    by (simp add: endo_inj_surj)
  have pos: "a ! (n - 1 - ?r i) = b ! (n - 1 - ?r i)" if "i < n" for i
    using arg_cong [OF eq, of "\<lambda>s. s ! (n - 1 - i)"] that len by (simp add: virtual_key_def)
  show ?thesis
  proof (rule nth_equalityI)
    fix j assume j: "j < length a"
    have "n - 1 - j \<in> ?r ` {..<n}"
      using j len surj by simp
    then obtain i where "i < n" "?r i = n - 1 - j"
      by auto
    then show "a ! j = b ! j"
      using pos [of i] j len by simp
  qed (simp add: len)
qed

lemma swap_counts_spec:
  assumes "\<forall>(k, v) \<in> set counts. swap_key vpm k = Ok (g k)"
  shows "swap_counts vpm counts acc = Ok (put_all (map (\<lambda>(k, v). (g k, v)) counts) acc)"
  using assms by (induction vpm counts acc rule: swap_counts.induct) auto

lemma extract_measured:
  assumes "wf_map vpm" and "distinct (map snd vpm)" and "{..<n} \<subseteq> (unat \<circ> fst) ` set vpm"
    and "counts \<noteq> []" and "\<forall>(k, v) \<in> set counts. length k = n" and "n < 4294967296"
  shows "measured_vpm n (extractVirtualPhysicalMapping counts vpm)"
proof -
  have n: "(case counts of [] \<Rightarrow> 0 | (k, _) # _ \<Rightarrow> length k) = n"
    using assms(4,5) by (auto split: list.split)
  have u: "unat (of_nat n :: u32) = n"
    using assms(6) by (simp add: unsigned_of_nat take_bit_nat_eq_self)
  show ?thesis
  proof (cases "n < length vpm")
    case True
    let ?f = "filter (\<lambda>(virtual, physical). virtual < of_nat n) vpm"
    have wf: "wf_map ?f" "distinct (map snd ?f)"
      using assms(1,2) by (auto intro: distinct_map_filter)
    moreover have "(unat \<circ> fst) ` set ?f = {..<n}"
    proof
      show "{..<n} \<subseteq> (unat \<circ> fst) ` set ?f"
        using assms(3) by (force simp: word_less_nat_alt u subset_iff image_iff)
    qed (auto simp: word_less_nat_alt u)
    ultimately show ?thesis
      using True n by (simp add: extractVirtualPhysicalMapping_def measured_vpm_def)
  next
    case False
    have "card {..<n} = card ((unat \<circ> fst) ` set vpm)"
      using False assms(3) card_mono [OF _ assms(3)] card_image_le [of "set vpm" "unat \<circ> fst"]
        card_length [of vpm] by simp
    then have "{..<n} = (unat \<circ> fst) ` set vpm"
      using assms(3) by (intro card_subset_eq) auto
    then show ?thesis
      using False n assms(1,2) by (simp add: extractVirtualPhysicalMapping_def measured_vpm_def)
  qed
qed

lemma swapVirtualPhysical_eq:
  assumes "wf_map counts" and "counts \<noteq> []"
    and "\<forall>(k, v) \<in> set counts. length k = n \<and> (\<forall>c \<in> set k. of_char c < (128::nat))"
    and "wf_map vpm" and "distinct (map snd vpm)" and "{..<n} \<subseteq> (unat \<circ> fst) ` set vpm"
    and "vpm \<noteq> []" and "n < 4294967296"
  defines "r \<equiv> map (\<lambda>(k, v). (virtual_key (extractVirtualPhysicalMapping counts vpm) k, v)) counts"
  shows "swapVirtualPhysical counts vpm = Ok r \<and> wf_map r"
proof -
  let ?e = "extractVirtualPhysicalMapping counts vpm"
  have m: "measured_vpm n ?e"
    using assms by (intro extract_measured) auto
  have "inj_on (virtual_key ?e) (fst ` set counts)"
    using assms(3) virtual_key_inj [OF m] by (intro inj_onI) fastforce
  moreover have "map fst r = map (virtual_key ?e) (map fst counts)"
    by (auto simp: r_def)
  ultimately have wf: "wf_map r"
    using assms(1) by (simp only: distinct_map [of _ "map fst counts"] set_map)
  have "swap_counts ?e counts [] = Ok (put_all r [])"
    unfolding r_def using assms(3) m by (intro swap_counts_spec) (auto intro: swap_key_virtual_key)
  then show ?thesis
    using wf assms(7) by (simp add: swapVirtualPhysical_def)
qed

text \<open>
  For counts over bit strings of one length \<open>n\<close> and a mapping that sends at least the virtual
  qubits below \<open>n\<close> to different physical qubits, \<open>swapVirtualPhysical\<close> succeeds, renames every key to
  its virtual order, a permutation of the digits (no two keys collide), and keeps every count.
\<close>

theorem swapVirtualPhysical_renames:
  assumes "wf_map counts" and "counts \<noteq> []"
    and "\<forall>(k, v) \<in> set counts. length k = n \<and> (\<forall>c \<in> set k. of_char c < (128::nat))"
    and "wf_map vpm" and "distinct (map snd vpm)" and "{..<n} \<subseteq> (unat \<circ> fst) ` set vpm"
    and "vpm \<noteq> []" and "n < 4294967296"
  shows "\<exists>r. swapVirtualPhysical counts vpm = Ok r \<and> length r = length counts \<and>
    (\<forall>(k, v) \<in> set counts.
       map_of r (virtual_key (extractVirtualPhysicalMapping counts vpm) k) = Some v)"
  using swapVirtualPhysical_eq [OF assms] by (force intro!: map_of_is_SomeI)

theorem swapVirtualPhysical_renames_witness:
  "\<exists>r. swapVirtualPhysical [(''010'', 10), (''101'', 30)] [(0, 1), (1, 0), (2, 2)] = Ok r \<and>
     length r = 2"
proof -
  have "{..<3} \<subseteq> (unat \<circ> fst) ` set [(0 :: u32, 1 :: u32), (1, 0), (2, 2)]"
    by (auto simp: less_Suc_eq numeral_3_eq_3)
  from swapVirtualPhysical_renames [OF _ _ _ _ _ this, of "[(''010'', 10), (''101'', 30)]"]
  show ?thesis
    by auto
qed

section \<open>DivideResult\<close>

lemma divisible_virtual_key:
  "divisible lengths counts \<Longrightarrow> divisible lengths (map (\<lambda>(k, v). (virtual_key e k, v)) counts)"
  by (auto simp: divisible_def)

lemma total_counts_virtual_key:
  "total_counts (map (\<lambda>(k, v). (virtual_key e k, v)) counts) = total_counts counts"
  by (simp add: total_counts_def comp_def case_prod_beta)

text \<open>
  The situation in which a combined job is divided: counts over bit strings of the summed lengths,
  and a mapping that gives every measured virtual qubit its own physical qubit.
\<close>

definition dividable :: "i32 list \<Rightarrow> Counts \<Rightarrow> VirtualPhysicalMappingMap \<Rightarrow> bool" where
  "dividable lengths counts vpm \<longleftrightarrow>
    divisible lengths counts \<and> wf_map counts \<and> counts \<noteq> [] \<and>
    (\<forall>(k, v) \<in> set counts. \<forall>c \<in> set k. of_char c < (128::nat)) \<and>
    wf_map vpm \<and> distinct (map snd vpm) \<and> vpm \<noteq> [] \<and>
    (\<forall>i < sum_list (map unat lengths). i \<in> set (map (unat \<circ> fst) vpm))"

lemma dividable_swap:
  assumes "dividable lengths counts vpm"
  shows "swapVirtualPhysical counts vpm =
    Ok (map (\<lambda>(k, v). (virtual_key (extractVirtualPhysicalMapping counts vpm) k, v)) counts)"
proof -
  have "\<forall>(k, v) \<in> set counts. length k = sum_list (map unat lengths) \<and>
      (\<forall>c \<in> set k. of_char c < (128::nat))"
    and "{..<sum_list (map unat lengths)} \<subseteq> (unat \<circ> fst) ` set vpm"
    and "sum_list (map unat lengths) < 4294967296"
    using assms by (auto simp: dividable_def divisible_def)
  then show ?thesis
    using assms swapVirtualPhysical_eq [of counts "sum_list (map unat lengths)" vpm]
    by (auto simp: dividable_def)
qed

text \<open>
  C30: \<open>DivideResult\<close> on the result of a combined job brings the keys to virtual order and stores,
  for each combined circuit, the marginal counts of its qubits: every circuit gets the full number of
  shots, and nothing else of the job data changes.
\<close>

theorem DivideResult_correct:
  assumes "jd_Result jd = Some r" and "rs_TranspilerInfo r = Some info"
    and "ToMap (ti_VirtualPhysicalMappingRaw info) = Ok vpm"
    and "dividable lengths (rs_Counts r) vpm"
  defines "counts \<equiv> map (\<lambda>(k, v).
      (virtual_key (extractVirtualPhysicalMapping (rs_Counts r) vpm) k, v)) (rs_Counts r)"
  shows "\<exists>divided. DivideResult jd lengths =
      Ret None (jd\<lparr>jd_Result := Some (r\<lparr>rs_Counts := counts, rs_DividedResult := Some divided\<rparr>)\<rparr>) \<and>
    (\<forall>j < length lengths. circuit_total divided (of_nat j) = total_counts (rs_Counts r) \<and>
      (\<forall>key. get_count divided (of_nat j) key = marginal lengths counts j key))"
proof -
  have "divisible lengths counts"
    using assms(4) by (simp add: counts_def dividable_def divisible_virtual_key)
  from divide_counts_spec [OF this, of "[]"] obtain d where
    d: "divide_counts lengths counts [] = Ok d"
    and spec: "\<forall>j < length lengths. circuit_total d (of_nat j) = total_counts counts \<and>
      (\<forall>key. get_count d (of_nat j) key = marginal lengths counts j key)"
    by (auto simp: get_count_def circuit_total_def)
  have "total_counts counts = total_counts (rs_Counts r)"
    by (simp add: counts_def total_counts_virtual_key)
  moreover have "rs_Counts r \<noteq> []"
    using assms(4) by (simp add: dividable_def)
  ultimately show ?thesis
    using d spec dividable_swap [OF assms(4)] assms(1-3)
    by (auto simp: DivideResult_def Let_def simp flip: counts_def)
qed

text \<open>A combined job of two circuits, of one and two qubits, and its division.\<close>

definition combined_info :: TranspilerInfo where
  "combined_info = empty_TranspilerInfo\<lparr>ti_VirtualPhysicalMappingRaw := ToRaw [(0, 1), (1, 0), (2, 2)]\<rparr>"

definition combined_result :: Result where
  "combined_result = NewResult\<lparr>rs_Counts := [(''010'', 10), (''101'', 30)],
     rs_TranspilerInfo := Some combined_info\<rparr>"

theorem DivideResult_correct_witness:
  "\<exists>jd divided. DivideResult (NewJobData 0\<lparr>jd_Result := Some combined_result\<rparr>) [1, 2] = Ret None jd \<and>
     circuit_total divided 0 = 40 \<and> map_option rs_DividedResult (jd_Result jd) = Some (Some divided)"
proof -
  let ?jd = "NewJobData 0\<lparr>jd_Result := Some combined_result\<rparr>"
  obtain vpm where vpm: "ToMap (ti_VirtualPhysicalMappingRaw combined_info) = Ok vpm"
    and wf: "wf_map vpm" and mset: "mset vpm = mset [(0, 1), (1, 0), (2, 2)]"
    using ToMap_ToRaw_mset [of "[(0, 1), (1, 0), (2, 2)]"] by (auto simp: combined_info_def)
  have "mset (map snd vpm) = mset [1, 0, 2]"
    by (simp add: mset)
  then have "distinct (map snd vpm)"
    using mset_eq_imp_distinct_iff [of "map snd vpm" "[1, 0, 2]"] by simp
  moreover have "set vpm = {(0, 1), (1, 0), (2, 2)}"
    using mset_eq_setD [OF mset] by simp
  ultimately have ok: "dividable [1, 2] (rs_Counts combined_result) vpm"
    using wf by (auto simp: dividable_def divisible_def combined_result_def less_Suc_eq numeral_3_eq_3)
  have total: "total_counts (rs_Counts combined_result) = 40"
    by code_simp
  have "jd_Result ?jd = Some combined_result" "rs_TranspilerInfo combined_result = Some combined_info"
    by (simp_all add: combined_result_def)
  from DivideResult_correct [OF this vpm ok] show ?thesis
    by (force simp: total)
qed

text \<open>
  The \<open>int32\<close> arithmetic of the positions: a length that overflows, or a negative one, passes the
  guard and the slice expression panics.
\<close>

lemma divideStringByLengths_overflow:
  "divideStringByLengths ''111'' [2, 2147483647] = Panic" "divideStringByLengths ''1'' [-1] = Panic"
  by code_simp+

end
