(* ===== verification/Manual_Job.thy ===== *)
theory Manual_Job
  imports Core_Job Result_Divider
begin

text \<open>
  \<open>coreapp/multiprog/manual/job.go\<close>: a multi-programming job, whose circuits are combined into one by
  the circuit-combiner service before it runs and whose result is divided again afterwards.

  \<open>manual_env\<close> adds to the environment the combiner's address, the error of creating a client for an
  address, and the combiner's answer. A failed \<open>grpc.NewClient\<close> is only logged: the nil connection is
  then used, which panics.
\<close>

definition MULTIPROG_MANUAL_JOB :: string where
  "MULTIPROG_MANUAL_JOB = ''multi_manual''"

record CombineResponse =
  cr_CombinedStatus :: int
  cr_CombinedQasm :: string
  cr_CombinedQubitsList :: "i32 list"

record manual_env = core_env +
  ev_CombinerPort :: string
  ev_CombinerHost :: string
  ev_CombinerClient :: "string \<Rightarrow> error option"
  ev_Combine :: "string \<Rightarrow> i32 \<Rightarrow> CombineResponse res"

record ManualJob =
  mj_jobData :: JobData
  mj_combinedQubitsList :: "i32 list"
  mj_combinedQASM :: string
  mj_originalQASMs :: string
  mj_postProcessed :: bool

definition mj_put :: "JobData \<Rightarrow> ManualJob \<Rightarrow> ManualJob" where
  "mj_put jd j = j\<lparr>mj_jobData := jd\<rparr>"

definition ManualJob_New :: "JobData \<Rightarrow> ManualJob" where
  "ManualJob_New jd =
    \<lparr>mj_jobData = jd, mj_combinedQubitsList = [], mj_combinedQASM = [], mj_originalQASMs = [],
     mj_postProcessed = False\<rparr>"

definition ManualJob_IsFinished :: "ManualJob \<Rightarrow> bool res" where
  "ManualJob_IsFinished j = Ok (mj_postProcessed j \<or> jd_Status (mj_jobData j) = FAILED)"

section \<open>Pre-processing\<close>

definition ManualJob_validateJobParam :: "'a core_env_scheme \<Rightarrow> JobParam \<Rightarrow> error option res" where
  "ManualJob_validateJobParam e p =
    (if jp_Shots p \<le> 0 then Ok (Some (err_shots_zero (jp_Shots p)))
     else if jp_Shots p > ev_MaxShots e then Ok (Some (err_shots_limit (jp_Shots p) (ev_MaxShots e)))
     else check_transpiler_lib e p)"

definition sendJobdata :: "'a manual_env_scheme \<Rightarrow> JobData \<Rightarrow> (string \<times> i32 list) res" where
  "sendJobdata e jd =
    (let port = (if ev_CombinerPort e = [] then ''5002'' else ev_CombinerPort e);
         host = (if ev_CombinerHost e = [] then ''localhost'' else ev_CombinerHost e) in
     case ev_CombinerClient e (host @ '':'' @ port) of
       Some _ \<Rightarrow> Panic
     | None \<Rightarrow>
         res_bind (CloneJobData (ev_now e) jd) (\<lambda>outputJobData.
           let qasm_str_without_newline = ReplaceAll (jd_QASM outputJobData) [CHR 0x0A] [];
               qasm_str_processed = ReplaceAll qasm_str_without_newline [dquote] [bslash, dquote] in
           res_bind (ev_Combine e qasm_str_processed (of_int (ev_MaxQubits e))) (\<lambda>r.
             if cr_CombinedStatus r \<noteq> 0 then Err ''circuit combine failed''
             else Ok (cr_CombinedQasm r, cr_CombinedQubitsList r))))"

definition ManualJob_rollbackQASM :: "ManualJob \<Rightarrow> ManualJob" where
  "ManualJob_rollbackQASM j = j\<lparr>mj_jobData := (mj_jobData j)\<lparr>jd_QASM := mj_originalQASMs j\<rparr>\<rparr>"

definition ManualJob_preProcessImpl ::
  "'a manual_env_scheme \<Rightarrow> ManualJob \<Rightarrow> (ManualJob, error option) outcome" where
  "ManualJob_preProcessImpl e j =
    (case ev_Insert e (mj_jobData j) of
       Some er \<Rightarrow> Ret (Some er) j
     | None \<Rightarrow>
         (case sendJobdata e (mj_jobData j) of
            Panic \<Rightarrow> Pan j
          | Err er \<Rightarrow>
              bindP (on_part mj_put j (set_result (rs_Message_update (\<lambda>_. er)) (mj_jobData j)))
                (\<lambda>_ j. Ret (Some er) j)
          | Ok (combined_qasm, combined_qubits_list) \<Rightarrow>
              (let j' = j\<lparr>mj_combinedQubitsList := combined_qubits_list,
                          mj_jobData := (mj_jobData j)\<lparr>jd_QASM := combined_qasm\<rparr>,
                          mj_combinedQASM := combined_qasm\<rparr> in
               on_part mj_put j' (ev_Transpile e (mj_jobData j')))))"

definition ManualJob_PreProcess :: "'a manual_env_scheme \<Rightarrow> ManualJob \<Rightarrow> (ManualJob, unit) outcome" where
  "ManualJob_PreProcess e j =
    (case ManualJob_validateJobParam e (param_of (mj_jobData j)) of
       Ok (Some er) \<Rightarrow>
         bindP (on_part mj_put j (SetFailureWithErrorToJobData (ev_now e) er (mj_jobData j)))
           (\<lambda>_ j. Ret () j)
     | Ok None \<Rightarrow>
         bindP (ManualJob_preProcessImpl e (j\<lparr>mj_originalQASMs := jd_QASM (mj_jobData j)\<rparr>)) (\<lambda>err j.
           case err of
             None \<Rightarrow> Ret () j
           | Some er \<Rightarrow>
               (let j' = ManualJob_rollbackQASM j in
                bindP (on_part mj_put j' (SetFailureWithErrorToJobData (ev_now e) er (mj_jobData j')))
                  (\<lambda>_ j. Ret () (j\<lparr>mj_jobData := (mj_jobData j)\<lparr>jd_UseJobInfoUpdate := True\<rparr>\<rparr>))))
     | _ \<Rightarrow> Pan j)"

section \<open>Processing and post-processing\<close>

definition ManualJob_Process :: "'a core_env_scheme \<Rightarrow> ManualJob \<Rightarrow> (ManualJob, unit) outcome" where
  "ManualJob_Process e j =
    bindP (on_part mj_put j (ev_Send e 0 (mj_jobData j))) (\<lambda>err j.
      case err of
        None \<Rightarrow> Ret () j
      | Some er \<Rightarrow>
          Ret () (ManualJob_rollbackQASM (j\<lparr>mj_jobData := (mj_jobData j)\<lparr>jd_Status := FAILED\<rparr>\<rparr>)))"

definition ManualJob_setQASMJson :: "ManualJob \<Rightarrow> ManualJob \<times> error option" where
  "ManualJob_setQASMJson j =
    (case Unmarshal_slice dec_str [] (mj_originalQASMs j) of
       (_, Some er) \<Rightarrow> (ManualJob_rollbackQASM j, Some er)
     | (_, None) \<Rightarrow>
         (let allQasmMap = AList.update ''original_qasms'' (mj_originalQASMs j)
                (AList.update ''combined_qasm'' (mj_combinedQASM j) []) in
          (j\<lparr>mj_jobData := (mj_jobData j)\<lparr>jd_QASM := Marshal_map JStr allQasmMap\<rparr>\<rparr>, None)))"

definition ManualJob_PostProcess :: "'a core_env_scheme \<Rightarrow> ManualJob \<Rightarrow> (ManualJob, unit) outcome" where
  "ManualJob_PostProcess e j =
    (let fail = (\<lambda>j. on_part mj_put j
          (SetFailureWithErrorToJobData (ev_now e) ''Post-process failed'' (mj_jobData j))) in
     case ManualJob_setQASMJson (j\<lparr>mj_postProcessed := True\<rparr>) of
       (j, Some er) \<Rightarrow> bindP (fail j) (\<lambda>_ j. Ret () (ManualJob_rollbackQASM j))
     | (j, None) \<Rightarrow>
         bindP (on_part mj_put j (DivideResult (mj_jobData j) (mj_combinedQubitsList j))) (\<lambda>err j.
           case err of
             Some er \<Rightarrow> bindP (fail j) (\<lambda>_ j. Ret () j)
           | None \<Rightarrow>
               Ret () (j\<lparr>mj_jobData := (mj_jobData j)\<lparr>jd_Status := SUCCEEDED, jd_Ended := ev_now e\<rparr>\<rparr>)))"

definition ManualJob_Clone :: "'a core_env_scheme \<Rightarrow> ManualJob \<Rightarrow> ManualJob" where
  "ManualJob_Clone e j =
    \<lparr>mj_jobData = JobData_Clone (ev_deepcopy e) (mj_jobData j),
     mj_combinedQubitsList = mj_combinedQubitsList j, mj_combinedQASM = mj_combinedQASM j,
     mj_originalQASMs = mj_originalQASMs j, mj_postProcessed = False\<rparr>"

definition manual_ops :: "('a manual_env_scheme, ManualJob) JobOps" where
  "manual_ops =
    \<lparr>jo_JobData = mj_jobData, jo_put = mj_put, jo_PreProcess = ManualJob_PreProcess,
     jo_Process = ManualJob_Process, jo_PostProcess = ManualJob_PostProcess,
     jo_IsFinished = ManualJob_IsFinished, jo_Clone = ManualJob_Clone\<rparr>"

section \<open>The contract\<close>

lemma mj_put_simps [simp]:
  "mj_jobData (mj_put jd j) = jd" "mj_postProcessed (mj_put jd j) = mj_postProcessed j"
  "mj_originalQASMs (mj_put jd j) = mj_originalQASMs j" "mj_combinedQASM (mj_put jd j) = mj_combinedQASM j"
  by (simp_all add: mj_put_def)

lemma keeps_mj: "keeps jd_ID (mj_jobData j) m \<Longrightarrow>
    keeps (\<lambda>j. jd_ID (mj_jobData j)) j (on_part mj_put j m)"
  by (rule keeps_on_part) simp_all

lemma keeps_mj_at:
  "keeps jd_ID (mj_jobData j') m \<Longrightarrow> jd_ID (mj_jobData j') = jd_ID (mj_jobData j) \<Longrightarrow>
    keeps (\<lambda>j. jd_ID (mj_jobData j)) j (on_part mj_put j' m)"
  by (cases m) (simp_all add: keeps_def)

lemma keeps_set_result: "keeps jd_ID jd (set_result f jd)"
  by (cases "jd_Result jd") (simp_all add: keeps_def set_result_def)

lemma keeps_DivideResult: "keeps jd_ID jd (DivideResult jd ls)"
  unfolding DivideResult_def Let_def by (auto intro!: keep_rules split: res.split)

lemma ManualJob_setQASMJson_id:
  "ManualJob_setQASMJson j = (j', e) \<Longrightarrow> jd_ID (mj_jobData j') = jd_ID (mj_jobData j)"
  by (auto simp: ManualJob_setQASMJson_def ManualJob_rollbackQASM_def Let_def split: prod.splits option.splits)

lemma ManualJob_keeps_id:
  assumes "env_ok e"
  shows "keeps (\<lambda>j. jd_ID (mj_jobData j)) j (ManualJob_PreProcess e j)"
    and "keeps (\<lambda>j. jd_ID (mj_jobData j)) j (ManualJob_Process e j)"
    and "keeps (\<lambda>j. jd_ID (mj_jobData j)) j (ManualJob_PostProcess e j)"
proof -
  have svc: "keeps jd_ID jd (ev_Transpile e jd)" "keeps jd_ID jd (ev_Send e i jd)" for jd i
    using assms by (auto simp: env_ok_def)
  have "keeps (\<lambda>j. jd_ID (mj_jobData j)) j (ManualJob_preProcessImpl e j)" for j
    unfolding ManualJob_preProcessImpl_def Let_def
    by (auto intro!: keeps_trans [OF keeps_mj] keeps_mj_at keep_rules svc keeps_set_result
        split: option.split res.split)
  then have impl: "keeps (\<lambda>j. jd_ID (mj_jobData j)) j
      (ManualJob_preProcessImpl e (j\<lparr>mj_originalQASMs := q\<rparr>))" for q
    by (simp add: keeps_def)
  show "keeps (\<lambda>j. jd_ID (mj_jobData j)) j (ManualJob_PreProcess e j)"
    unfolding ManualJob_PreProcess_def Let_def
    by (auto intro!: keeps_trans [OF keeps_mj] keeps_trans [OF impl] keeps_trans [OF keeps_mj_at]
        keeps_Ret keeps_Pan keeps_SetFailure simp: ManualJob_rollbackQASM_def
        split: option.split res.split)
  show "keeps (\<lambda>j. jd_ID (mj_jobData j)) j (ManualJob_Process e j)"
    unfolding ManualJob_Process_def
    by (rule keeps_trans)
      (auto intro!: keeps_mj keeps_Ret svc simp: ManualJob_rollbackQASM_def split: option.split)
  obtain j1 er where j1: "ManualJob_setQASMJson (j\<lparr>mj_postProcessed := True\<rparr>) = (j1, er)"
    by fastforce
  have id: "jd_ID (mj_jobData j1) = jd_ID (mj_jobData j)"
    using ManualJob_setQASMJson_id [OF j1] by simp
  have "keeps (\<lambda>j. jd_ID (mj_jobData j)) j1 (ManualJob_PostProcess e j)"
    unfolding ManualJob_PostProcess_def Let_def
    by (cases er) (auto simp: j1 ManualJob_rollbackQASM_def intro!: keeps_trans [OF keeps_mj]
        keeps_Ret keeps_SetFailure keeps_DivideResult split: option.split)
  then show "keeps (\<lambda>j. jd_ID (mj_jobData j)) j (ManualJob_PostProcess e j)"
    using id by (simp add: keeps_def)
qed

interpretation manual_job: job_contract manual_ops env_ok
proof (unfold_locales, goal_cases)
  case (2 e j)
  then show ?case
    by (simp add: manual_ops_def ManualJob_Clone_def env_ok_def JobData_Clone_id)
qed (auto simp: manual_ops_def ManualJob_keeps_id ManualJob_IsFinished_def)

section \<open>Properties\<close>

text \<open>
  When a step of the pre-processing reports an error: the parameters are invalid, the job cannot be
  inserted, the combiner refuses the programs, or the transpiler refuses the combined program (its answer
  leaves the job a result).
\<close>

inductive preprocess_error :: "'a manual_env_scheme \<Rightarrow> JobData \<Rightarrow> error \<Rightarrow> bool" for e jd where
  invalid: "ManualJob_validateJobParam e (param_of jd) = Ok (Some er) \<Longrightarrow> preprocess_error e jd er"
| insert: "ManualJob_validateJobParam e (param_of jd) = Ok None \<Longrightarrow> ev_Insert e jd = Some er \<Longrightarrow>
    preprocess_error e jd er"
| combine: "ManualJob_validateJobParam e (param_of jd) = Ok None \<Longrightarrow> ev_Insert e jd = None \<Longrightarrow>
    sendJobdata e jd = Err er \<Longrightarrow> preprocess_error e jd er"
| transpile: "ManualJob_validateJobParam e (param_of jd) = Ok None \<Longrightarrow> ev_Insert e jd = None \<Longrightarrow>
    sendJobdata e jd = Ok (qasm, qubits) \<Longrightarrow> ev_Transpile e (jd\<lparr>jd_QASM := qasm\<rparr>) = Ret (Some er) jd' \<Longrightarrow>
    jd_Result jd' \<noteq> None \<Longrightarrow> preprocess_error e jd er"

lemma preProcessImpl_error:
  assumes "preprocess_error e (mj_jobData j) er" and "jd_Result (mj_jobData j) = Some r"
    and "ManualJob_validateJobParam e (param_of (mj_jobData j)) = Ok None"
  shows "\<exists>j' r'. ManualJob_preProcessImpl e (j\<lparr>mj_originalQASMs := q\<rparr>) = Ret (Some er) j' \<and>
    mj_originalQASMs j' = q \<and> jd_Result (mj_jobData j') = Some r'"
  using assms
  by cases (auto simp: ManualJob_preProcessImpl_def set_result_def Let_def mj_put_def)

lemma PreProcess_error:
  assumes "preprocess_error e (mj_jobData j) er" and "jd_Result (mj_jobData j) = Some r"
  shows "\<exists>j' r'. ManualJob_PreProcess e j = Ret () j' \<and> jd_Status (mj_jobData j') = FAILED \<and>
    jd_QASM (mj_jobData j') = jd_QASM (mj_jobData j) \<and> jd_Ended (mj_jobData j') = ev_now e \<and>
    jd_Result (mj_jobData j') = Some r' \<and> rs_Message r' = er"
proof (cases "ManualJob_validateJobParam e (param_of (mj_jobData j)) = Ok None")
  case True
  then obtain j1 r1 where "ManualJob_preProcessImpl e (j\<lparr>mj_originalQASMs := jd_QASM (mj_jobData j)\<rparr>) = Ret (Some er) j1"
    "mj_originalQASMs j1 = jd_QASM (mj_jobData j)" "jd_Result (mj_jobData j1) = Some r1"
    using preProcessImpl_error [OF assms] by blast
  then show ?thesis
    using True by (simp add: ManualJob_PreProcess_def Let_def ManualJob_rollbackQASM_def SetFailureWithErrorToJobData_def
        set_result_def)
next
  case False
  then have "ManualJob_validateJobParam e (param_of (mj_jobData j)) = Ok (Some er)"
    using assms(1) by (auto elim: preprocess_error.cases)
  then show ?thesis
    using assms(2) by (simp add: ManualJob_PreProcess_def SetFailureWithErrorToJobData_def set_result_def)
qed

text \<open>
  C32: When a step of the pre-processing of a combined job reports an error (invalid parameters, the
  insertion, the combiner or the transpiler), pre-processing returns with the job finished and \<open>FAILED\<close>;
  its data hold the program the user submitted, not the combined one, the error as the message and the
  time of the failure. A panic of the transpiler is not caught there: pre-processing panics, and the job
  keeps the data that the transpiler left, with the combined program.
\<close>

theorem ManualJob_PreProcess_rollback:
  assumes "jd_Result (mj_jobData j) \<noteq> None"
  shows "(preprocess_error e (mj_jobData j) er \<longrightarrow>
      (\<exists>j' r. ManualJob_PreProcess e j = Ret () j' \<and> ManualJob_IsFinished j' = Ok True \<and>
        jd_Status (mj_jobData j') = FAILED \<and> jd_QASM (mj_jobData j') = jd_QASM (mj_jobData j) \<and>
        jd_Result (mj_jobData j') = Some r \<and> rs_Message r = er \<and> jd_Ended (mj_jobData j') = ev_now e)) \<and>
    (ManualJob_validateJobParam e (param_of (mj_jobData j)) = Ok None \<and> ev_Insert e (mj_jobData j) = None \<and>
      sendJobdata e (mj_jobData j) = Ok (qasm, qubits) \<and>
      ev_Transpile e ((mj_jobData j)\<lparr>jd_QASM := qasm\<rparr>) = Pan jd' \<longrightarrow>
      (\<exists>j'. ManualJob_PreProcess e j = Pan j' \<and> mj_jobData j' = jd'))"
proof (intro conjI impI, goal_cases)
  case 1
  then show ?case
    using PreProcess_error [OF 1] assms by (fastforce simp: ManualJob_IsFinished_def)
next
  case 2
  then show ?case
    by (simp add: ManualJob_PreProcess_def ManualJob_preProcessImpl_def Let_def)
qed

text \<open>
  Post-processing ends a combined job: it has either failed, with the message
  \<open>Post-process failed\<close>, or succeeded, and then it carries a divided result and its program is a JSON
  object from which both the combined program and the submitted programs can be read back.
\<close>

theorem ManualJob_PostProcess_ends:
  assumes "ManualJob_PostProcess e j = Ret () j'"
  shows "ManualJob_IsFinished j' = Ok True \<and>
    (\<exists>r. jd_Result (mj_jobData j') = Some r \<and>
      (jd_Status (mj_jobData j') = FAILED \<and> rs_Message r = ''Post-process failed'' \<or>
       jd_Status (mj_jobData j') = SUCCEEDED \<and> rs_DividedResult r \<noteq> None \<and>
         Unmarshal_map dec_str [] (jd_QASM (mj_jobData j')) =
           ([(''combined_qasm'', mj_combinedQASM j), (''original_qasms'', mj_originalQASMs j)], None)))"
proof -
  have json: "Unmarshal_map dec_str [] (Marshal_map JStr [(''combined_qasm'', c), (''original_qasms'', q)]) =
      ([(''combined_qasm'', c), (''original_qasms'', q)], None)" for c q
    by (subst Unmarshal_Marshal_map) (simp_all add: sort_key_def)
  obtain j1 er where j1: "ManualJob_setQASMJson (j\<lparr>mj_postProcessed := True\<rparr>) = (j1, er)"
    by fastforce
  have post: "mj_postProcessed j1"
    using j1 by (auto simp: ManualJob_setQASMJson_def ManualJob_rollbackQASM_def Let_def split: prod.splits option.splits)
  show ?thesis
  proof (cases er)
    case (Some er')
    then show ?thesis
      using assms j1 post
      by (auto simp: ManualJob_PostProcess_def Let_def res_simps SetFailure_Ret
          ManualJob_rollbackQASM_def ManualJob_IsFinished_def)
  next
    case None
    have qasm: "jd_QASM (mj_jobData j1) =
        Marshal_map JStr [(''combined_qasm'', mj_combinedQASM j), (''original_qasms'', mj_originalQASMs j)]"
      using j1 None by (auto simp: ManualJob_setQASMJson_def Let_def split: prod.splits option.splits)
    have divide: "jd_QASM jd' = jd_QASM jd \<and> (\<exists>r d. jd_Result jd' = Some r \<and> rs_DividedResult r = Some d)"
      if "DivideResult jd ls = Ret None jd'" for jd ls jd'
      using that
      by (cases "jd_Result jd"; cases "rs_TranspilerInfo (the (jd_Result jd))")
        (auto simp: DivideResult_def Let_def split: if_splits res.splits)
    from assms j1 None have "(\<exists>er jd. DivideResult (mj_jobData j1) (mj_combinedQubitsList j1) = Ret (Some er) jd \<and>
        (\<exists>r. jd_Result (mj_jobData j') = Some r \<and> rs_Message r = ''Post-process failed'' \<and>
          jd_Status (mj_jobData j') = FAILED \<and> mj_postProcessed j' = mj_postProcessed j1)) \<or>
      (\<exists>jd. DivideResult (mj_jobData j1) (mj_combinedQubitsList j1) = Ret None jd \<and>
        j' = mj_put (jd\<lparr>jd_Status := SUCCEEDED, jd_Ended := ev_now e\<rparr>) j1)"
      by (auto simp: ManualJob_PostProcess_def Let_def res_simps SetFailure_Ret mj_put_def split: option.splits)
    then show ?thesis
      using post qasm json by (auto simp: ManualJob_IsFinished_def mj_put_def dest!: divide)
  qed
qed

text \<open>A combined job whose division succeeds, and one whose combiner reports a failure.\<close>

definition example_manual_env :: manual_env where
  "example_manual_env = core_env.extend
    \<lparr>ev_now = 7, ev_deepcopy = id, ev_MaxShots = 1000, ev_MaxQubits = 4, ev_Insert = (\<lambda>_. None),
     ev_IsAcceptableTranspilerLib = (\<lambda>lib. lib = ''qiskit''), ev_Transpile = Ret None,
     ev_Send = (\<lambda>i. Ret None), ev_mitig = (\<lambda>_. example_mitig_env)\<rparr>
    (manual_env.fields [] [] (\<lambda>_. None)
      (\<lambda>q n. Ok \<lparr>cr_CombinedStatus = 1, cr_CombinedQasm = [], cr_CombinedQubitsList = []\<rparr>))"

definition example_manual_job :: ManualJob where
  "example_manual_job = ManualJob_New ((NewJobData 0)\<lparr>jd_ID := ''id'', jd_Status := READY, jd_Shots := 10,
     jd_QASM := ''[]'', jd_Transpiler := Some \<lparr>tc_TranspilerLib = Some ''qiskit'',
       tc_TranspilerOptions = None, tc_UseDefault = False\<rparr>\<rparr>)"

definition panicking_manual_env :: manual_env where
  "panicking_manual_env = example_manual_env\<lparr>ev_Transpile := Pan,
     ev_Combine := (\<lambda>q n. Ok \<lparr>cr_CombinedStatus = 0, cr_CombinedQasm = ''both'', cr_CombinedQubitsList = [1]\<rparr>)\<rparr>"

lemmas example_manual_defs = ManualJob_validateJobParam_def check_transpiler_lib_def sendJobdata_def CloneJobData_def
  cloneTranspilerInfo_def example_manual_env_def example_manual_job_def ManualJob_New_def param_of_def NewJobData_def
  NewResult_def empty_TranspilerInfo_def core_env.defs manual_env.defs panicking_manual_env_def

lemma example_manual_steps:
  "jd_Result (mj_jobData example_manual_job) \<noteq> None" "jd_QASM (mj_jobData example_manual_job) = ''[]''"
  "preprocess_error example_manual_env (mj_jobData example_manual_job) ''circuit combine failed''"
  "ManualJob_validateJobParam panicking_manual_env (param_of (mj_jobData example_manual_job)) = Ok None"
  "ev_Insert panicking_manual_env (mj_jobData example_manual_job) = None"
  "sendJobdata panicking_manual_env (mj_jobData example_manual_job) = Ok (''both'', [1])"
  "ev_Transpile panicking_manual_env = Pan"
  by (simp_all add: preprocess_error.simps Let_def example_manual_defs)

theorem ManualJob_PreProcess_rollback_witness:
  "(\<exists>j'. ManualJob_PreProcess example_manual_env example_manual_job = Ret () j' \<and>
     jd_QASM (mj_jobData j') = ''[]'' \<and> jd_Status (mj_jobData j') = FAILED) \<and>
   (\<exists>j'. ManualJob_PreProcess panicking_manual_env example_manual_job = Pan j' \<and> jd_QASM (mj_jobData j') = ''both'')"
  using ManualJob_PreProcess_rollback [OF example_manual_steps(1), of example_manual_env "''circuit combine failed''"]
    ManualJob_PreProcess_rollback [OF example_manual_steps(1), of panicking_manual_env _ "''both''" "[1]"
      "(mj_jobData example_manual_job)\<lparr>jd_QASM := ''both''\<rparr>"] example_manual_steps
  by fastforce

theorem ManualJob_PostProcess_ends_witness:
  "\<exists>j'. ManualJob_PostProcess example_manual_env example_manual_job = Ret () j' \<and>
     ManualJob_IsFinished j' = Ok True"
proof -
  have "Unmarshal_slice dec_str [] [] = ([], Some err_json)"
    by code_simp
  then obtain j' where j': "ManualJob_PostProcess example_manual_env example_manual_job = Ret () j'"
    by (simp add: ManualJob_PostProcess_def ManualJob_rollbackQASM_def ManualJob_setQASMJson_def example_manual_job_def ManualJob_New_def
        NewJobData_def NewResult_def DivideResult_def SetFailureWithErrorToJobData_def set_result_def
        mj_put_def Let_def)
  then show ?thesis
    using ManualJob_PostProcess_ends [OF j'] by auto
qed

end
