(* ===== verification/Estimation_Job.thy ===== *)
theory Estimation_Job
  imports Manual_Job
begin

text \<open>
  \<open>coreapp/estimation/job.go\<close>: an expectation-value job. The estimator service turns the program and
  the operators into several programs, which are sent to the QPU one after the other, and computes the
  expectation value from their counts.

  \<open>estim_env\<close> adds the setting of the estimator, the error of creating a client for an address (only
  logged, after which the nil connection panics), the two answers of the service, and \<open>ev_fmt_g\<close>, the
  text that the verb \<open>%g\<close> prints for a JSON number, or \<open>None\<close> for a number outside \<open>float64\<close>.
\<close>

definition ESTIMATION_JOB :: string where
  "ESTIMATION_JOB = ''estimation_job''"

definition DEFAULT_BASIS_GATES :: "string list" where
  "DEFAULT_BASIS_GATES = [''sx'', ''rz'', ''cx'']"

record EstimationSetting =
  et_Host :: string
  et_Port :: string
  et_BasisGates :: "string list"

record estim_env = manual_env +
  ev_EstimationSetting :: "tval option"
  ev_EstimatorClient :: "string \<Rightarrow> error option"
  ev_ReqEstimationPreProcess :: "string \<Rightarrow> string \<Rightarrow> string list \<Rightarrow> u32 list \<Rightarrow> (string list \<times> string) res"
  ev_ReqEstimationPostProcess :: "Counts list \<Rightarrow> string \<Rightarrow> (float32 \<times> float32) res"
  ev_fmt_g :: "string \<Rightarrow> string option"

definition NewEstimationSetting :: EstimationSetting where
  "NewEstimationSetting =
    \<lparr>et_Host = ''localhost'', et_Port = ''5012'', et_BasisGates = DEFAULT_BASIS_GATES\<rparr>"

record EstimationJob =
  ej_setting :: EstimationSetting
  ej_jobData :: JobData
  ej_preprocessedQASMs :: "string list"
  ej_origOperators :: string
  ej_groupedOperators :: string
  ej_countsList :: "Counts list"
  ej_useTranspiler :: bool
  ej_usedQASM :: string
  ej_finished :: bool

definition ej_put :: "JobData \<Rightarrow> EstimationJob \<Rightarrow> EstimationJob" where
  "ej_put jd j = j\<lparr>ej_jobData := jd\<rparr>"

abbreviation or_default :: "'a option \<Rightarrow> 'a \<Rightarrow> 'a" where
  "or_default p d \<equiv> (case p of Some a \<Rightarrow> a | None \<Rightarrow> d)"

definition estimation_setting :: "tval option \<Rightarrow> EstimationSetting" where
  "estimation_setting s =
    (case as_table s of
       None \<Rightarrow> NewEstimationSetting
     | Some mapped \<Rightarrow>
         \<lparr>et_Host = or_default (as_string (map_of mapped ''host'')) ''localhost'',
          et_Port = or_default (as_string (map_of mapped ''port'')) ''5012'',
          et_BasisGates = or_default (as_strings (map_of mapped ''basis_gates'')) DEFAULT_BASIS_GATES\<rparr>)"

definition EstimationJob_New :: "tval option \<Rightarrow> JobData \<Rightarrow> EstimationJob" where
  "EstimationJob_New s jd =
    \<lparr>ej_setting = estimation_setting s, ej_jobData = jd, ej_preprocessedQASMs = [],
     ej_origOperators = [], ej_groupedOperators = [], ej_countsList = [], ej_useTranspiler = False,
     ej_usedQASM = [], ej_finished = False\<rparr>"

section \<open>Operators\<close>

text \<open>
  An operator is the pair of its Pauli string and the literal of its coefficient (zero where the JSON
  object has no such member). Members are matched without regard to case, as \<open>encoding/json\<close> does.
\<close>

type_synonym operator = "string \<times> string"

fun dec_operator_fields :: "(string \<Rightarrow> string option) \<Rightarrow> (string \<times> json) list \<Rightarrow> operator \<Rightarrow> operator option" where
  "dec_operator_fields fmt [] op = Some op"
| "dec_operator_fields fmt ((k, v) # kvs) (pauli, coeff) =
    (if ToLower k = ''pauli'' then
       (case v of
          JStr s \<Rightarrow> dec_operator_fields fmt kvs (s, coeff)
        | JNull \<Rightarrow> dec_operator_fields fmt kvs (pauli, coeff)
        | _ \<Rightarrow> None)
     else if ToLower k = ''coeff'' then
       (case v of
          JNum t \<Rightarrow> (if fmt t = None then None else dec_operator_fields fmt kvs (pauli, t))
        | JNull \<Rightarrow> dec_operator_fields fmt kvs (pauli, coeff)
        | _ \<Rightarrow> None)
     else dec_operator_fields fmt kvs (pauli, coeff))"

fun dec_operator :: "(string \<Rightarrow> string option) \<Rightarrow> json \<Rightarrow> operator option" where
  "dec_operator fmt (JObj kvs) = dec_operator_fields fmt kvs ([], ''0'')"
| "dec_operator fmt JNull = Some ([], ''0'')"
| "dec_operator fmt _ = None"

definition print_operator :: "(string \<Rightarrow> string option) \<Rightarrow> operator \<Rightarrow> string" where
  "print_operator fmt op =
    ''['' @ [dquote] @ fst op @ [dquote] @ '', '' @ or_default (fmt (snd op)) [] @ '']''"

fun print_operators :: "(string \<Rightarrow> string option) \<Rightarrow> operator list \<Rightarrow> string" where
  "print_operators fmt [] = []"
| "print_operators fmt [op] = print_operator fmt op"
| "print_operators fmt (op # ops) = print_operator fmt op @ '', '' @ print_operators fmt ops"

definition serializeOperators :: "(string \<Rightarrow> string option) \<Rightarrow> string \<Rightarrow> string res" where
  "serializeOperators fmt jinfo =
    (case Unmarshal_slice (dec_operator fmt) ([], ''0'') jinfo of
       (_, Some er) \<Rightarrow> Err er
     | (operators, None) \<Rightarrow> Ok (''['' @ print_operators fmt operators @ '']''))"

section \<open>Pre-processing\<close>

text \<open>The physical qubits in the order of their virtual qubits.\<close>

definition mapping_list :: "VirtualPhysicalMappingMap \<Rightarrow> u32 list" where
  "mapping_list mapping = map (\<lambda>key. or_default (map_of mapping key) 0) (sort (map fst mapping))"

definition estimationPreProcess ::
  "'a estim_env_scheme \<Rightarrow> EstimationJob \<Rightarrow> (EstimationJob, (string list \<times> string) \<times> error option) outcome" where
  "estimationPreProcess e j =
    (let jd = ej_jobData j in
     if ev_EstimatorClient e (et_Host (ej_setting j) @ '':'' @ et_Port (ej_setting j)) \<noteq> None then Pan j
     else
       bindP (derefP (jd_Transpiler jd) j) (\<lambda>tc j.
       bindP (derefP (jd_Result jd) j) (\<lambda>r j.
       bindP (derefP (rs_TranspilerInfo r) j) (\<lambda>info j.
         case (if tc_TranspilerLib tc \<noteq> None then ToMap (ti_VirtualPhysicalMappingRaw info) else Ok []) of
           Panic \<Rightarrow> Pan j
         | Err er \<Rightarrow> Ret (([], []), Some er) j
         | Ok mapping \<Rightarrow>
             (case ev_ReqEstimationPreProcess e (ej_usedQASM j) (ej_origOperators j)
                     (et_BasisGates (ej_setting j)) (mapping_list mapping) of
                Panic \<Rightarrow> Pan j
              | Err er \<Rightarrow> Ret (([], []), Some er) (ej_put (jd\<lparr>jd_Status := FAILED\<rparr>) j)
              | Ok (QasmCodes, GroupedOperators) \<Rightarrow> Ret ((QasmCodes, GroupedOperators), None) j)))))"

definition EstimationJob_transpile ::
  "'a core_env_scheme \<Rightarrow> EstimationJob \<Rightarrow> (EstimationJob, error option) outcome" where
  "EstimationJob_transpile e j =
    (case JobData_NeedTranspiling (ej_jobData j) of
       Ok need \<Rightarrow>
         if need then
           (let j = j\<lparr>ej_useTranspiler := True\<rparr> in
            bindP (on_part ej_put j (ev_Transpile e (ej_jobData j))) (\<lambda>err j.
              case err of
                Some er \<Rightarrow> Ret (Some er) j
              | None \<Rightarrow> Ret None (j\<lparr>ej_usedQASM := jd_TranspiledQASM (ej_jobData j)\<rparr>)))
         else Ret None (j\<lparr>ej_usedQASM := jd_QASM (ej_jobData j)\<rparr>)
     | _ \<Rightarrow> Pan j)"

definition EstimationJob_preProcessImpl ::
  "'a estim_env_scheme \<Rightarrow> EstimationJob \<Rightarrow> (EstimationJob, error option) outcome" where
  "EstimationJob_preProcessImpl e j =
    (case ev_Insert e (ej_jobData j) of
       Some er \<Rightarrow> Ret (Some er) j
     | None \<Rightarrow>
         bindP (EstimationJob_transpile e j) (\<lambda>err j.
           case err of
             Some er \<Rightarrow> Ret (Some er) j
           | None \<Rightarrow>
               (case serializeOperators (ev_fmt_g e) (jd_Info (ej_jobData j)) of
                  Panic \<Rightarrow> Pan j
                | Err er \<Rightarrow> Ret (Some er) j
                | Ok sj \<Rightarrow>
                    bindP (estimationPreProcess e (j\<lparr>ej_origOperators := sj\<rparr>))
                      (\<lambda>((qasmCodes, groupedOperators), err) j.
                        Ret err (j\<lparr>ej_preprocessedQASMs := qasmCodes,
                                   ej_groupedOperators := groupedOperators\<rparr>)))))"

definition EstimationJob_PreProcess ::
  "'a estim_env_scheme \<Rightarrow> EstimationJob \<Rightarrow> (EstimationJob, unit) outcome" where
  "EstimationJob_PreProcess e j =
    bindP (EstimationJob_preProcessImpl e j) (\<lambda>err j.
      case err of
        None \<Rightarrow> Ret () j
      | Some er \<Rightarrow>
          bindP (on_part ej_put j (SetFailureWithErrorToJobData (ev_now e) er (ej_jobData j)))
            (\<lambda>_ j. Ret () (j\<lparr>ej_finished := True\<rparr>)))"

section \<open>Processing\<close>

fun EstimationJob_Process_loop ::
  "'a core_env_scheme \<Rightarrow> nat \<Rightarrow> string list \<Rightarrow> EstimationJob \<Rightarrow> (EstimationJob, unit) outcome" where
  "EstimationJob_Process_loop e i [] j = Ret () j"
| "EstimationJob_Process_loop e i (qasm # qasms) j =
    (let jd = (if ej_useTranspiler j then (ej_jobData j)\<lparr>jd_TranspiledQASM := qasm\<rparr>
               else (ej_jobData j)\<lparr>jd_QASM := qasm\<rparr>) in
     bindP (on_part ej_put j (ev_Send e i jd)) (\<lambda>err j.
       case err of
         Some er \<Rightarrow>
           Ret () (j\<lparr>ej_jobData := (ej_jobData j)\<lparr>jd_Status := FAILED\<rparr>, ej_finished := True\<rparr>)
       | None \<Rightarrow>
           if jd_Status (ej_jobData j) = FAILED then Ret () (j\<lparr>ej_finished := True\<rparr>)
           else
             bindP (derefP (jd_Result (ej_jobData j)) j) (\<lambda>r j.
               EstimationJob_Process_loop e (Suc i) qasms
                 (j\<lparr>ej_countsList := ej_countsList j @ [rs_Counts r]\<rparr>))))"

definition EstimationJob_Process :: "'a core_env_scheme \<Rightarrow> EstimationJob \<Rightarrow> (EstimationJob, unit) outcome" where
  "EstimationJob_Process e j = EstimationJob_Process_loop e 0 (ej_preprocessedQASMs j) j"

section \<open>Post-processing\<close>

definition EstimationJob_shouldMitigate :: "MitigationInfo \<Rightarrow> bool" where
  "EstimationJob_shouldMitigate m =
    (case mi_PropertyRaw m of
       None \<Rightarrow> False
     | Some raw \<Rightarrow> json_valid raw \<and> ro_property (\<lambda>v. v = ''pseudo_inverse'') raw)"

text \<open>The counts sent to the service; a mitigated list is computed on a clone of the job data.\<close>

fun estimation_counts ::
  "'a core_env_scheme \<Rightarrow> MitigationInfo \<Rightarrow> nat \<Rightarrow> JobData \<Rightarrow> Counts list \<Rightarrow> Counts list res" where
  "estimation_counts e m i jd [] = Ok []"
| "estimation_counts e m i jd (counts # rest) =
    res_bind
      (if EstimationJob_shouldMitigate m then
         (let temp = JobData_Clone (ev_deepcopy e) jd in
          res_bind (deref (jd_Result temp)) (\<lambda>r.
            case PseudoInverseMitigation (ev_mitig e i) (temp\<lparr>jd_Result := Some (r\<lparr>rs_Counts := counts\<rparr>)\<rparr>) of
              Pan _ \<Rightarrow> Panic
            | Ret _ temp' \<Rightarrow> res_bind (deref (jd_Result temp')) (\<lambda>r'. Ok (rs_Counts r'))))
       else Ok counts) (\<lambda>c.
    res_bind (estimation_counts e m (Suc i) jd rest) (\<lambda>cs. Ok (c # cs)))"

definition EstimationPostProcess :: "'a estim_env_scheme \<Rightarrow> EstimationJob \<Rightarrow> Counts list \<Rightarrow> (float32 \<times> float32) res" where
  "EstimationPostProcess e j countsList =
    (if ev_EstimatorClient e (et_Host (ej_setting j) @ '':'' @ et_Port (ej_setting j)) \<noteq> None then Panic
     else ev_ReqEstimationPostProcess e countsList (ej_groupedOperators j))"

definition EstimationJob_PostProcess ::
  "'a estim_env_scheme \<Rightarrow> EstimationJob \<Rightarrow> (EstimationJob, unit) outcome" where
  "EstimationJob_PostProcess e j =
    (let j = j\<lparr>ej_finished := True\<rparr>;
         m = NewMitigationInfoFromJobData (ej_jobData j) in
     case estimation_counts e m 0 (ej_jobData j) (ej_countsList j) of
       Ok countsList \<Rightarrow>
         (case EstimationPostProcess e j countsList of
            Panic \<Rightarrow> Pan j
          | Err er \<Rightarrow>
              bindP (on_part ej_put j (SetFailureWithErrorToJobData (ev_now e) er (ej_jobData j)))
                (\<lambda>_ j. Ret () j)
          | Ok (exp_value, stds) \<Rightarrow>
              bindP (on_part ej_put j (set_result (rs_Estimation_update
                  (\<lambda>_. Some \<lparr>es_Exp_value = exp_value, es_Stds = stds\<rparr>)) (ej_jobData j)))
                (\<lambda>_ j. Ret () (j\<lparr>ej_jobData := (ej_jobData j)\<lparr>jd_Status := SUCCEEDED\<rparr>\<rparr>)))
     | _ \<Rightarrow> Pan j)"

definition EstimationJob_IsFinished :: "EstimationJob \<Rightarrow> bool res" where
  "EstimationJob_IsFinished j = Ok (ej_finished j)"

text \<open>A clone carries only the job data; its other fields have their zero values.\<close>

definition EstimationJob_Clone :: "'a core_env_scheme \<Rightarrow> EstimationJob \<Rightarrow> EstimationJob" where
  "EstimationJob_Clone e j =
    \<lparr>ej_setting = \<lparr>et_Host = [], et_Port = [], et_BasisGates = []\<rparr>,
     ej_jobData = JobData_Clone (ev_deepcopy e) (ej_jobData j), ej_preprocessedQASMs = [],
     ej_origOperators = [], ej_groupedOperators = [], ej_countsList = [], ej_useTranspiler = False,
     ej_usedQASM = [], ej_finished = False\<rparr>"

definition estimation_ops :: "('a estim_env_scheme, EstimationJob) JobOps" where
  "estimation_ops =
    \<lparr>jo_JobData = ej_jobData, jo_put = ej_put, jo_PreProcess = EstimationJob_PreProcess,
     jo_Process = EstimationJob_Process, jo_PostProcess = EstimationJob_PostProcess,
     jo_IsFinished = EstimationJob_IsFinished, jo_Clone = EstimationJob_Clone\<rparr>"

section \<open>The contract\<close>

lemma ej_put_simps [simp]:
  "ej_jobData (ej_put jd j) = jd" "ej_finished (ej_put jd j) = ej_finished j"
  "ej_countsList (ej_put jd j) = ej_countsList j"
  by (simp_all add: ej_put_def)

lemma keeps_ej:
  "keeps jd_ID jd m \<Longrightarrow> jd_ID jd = jd_ID (ej_jobData j) \<Longrightarrow> jd_ID (ej_jobData j') = jd_ID (ej_jobData j) \<Longrightarrow>
    keeps (\<lambda>j. jd_ID (ej_jobData j)) j (on_part ej_put j' m)"
  by (cases m) (simp_all add: keeps_def)

lemma estimationPreProcess_id:
  "keeps (\<lambda>j. jd_ID (ej_jobData j)) j (estimationPreProcess e j)"
  unfolding estimationPreProcess_def Let_def
  by (auto intro!: keep_rules split: res.split)

lemma EstimationJob_transpile_id:
  assumes "env_ok e"
  shows "keeps (\<lambda>j. jd_ID (ej_jobData j)) j (EstimationJob_transpile e j)"
  unfolding EstimationJob_transpile_def Let_def
  using assms by (auto intro!: keep_rules keeps_ej simp: env_ok_def split: res.split option.split)

lemma EstimationJob_preProcessImpl_id:
  assumes "env_ok e"
  shows "keeps (\<lambda>j. jd_ID (ej_jobData j)) j (EstimationJob_preProcessImpl e j)"
proof -
  have pre: "keeps (\<lambda>j. jd_ID (ej_jobData j)) j (estimationPreProcess e (j\<lparr>ej_origOperators := q\<rparr>))" for j q
    using estimationPreProcess_id [of "j\<lparr>ej_origOperators := q\<rparr>" e] by (simp add: keeps_def)
  show ?thesis
    unfolding EstimationJob_preProcessImpl_def
    by (auto intro!: keeps_trans [OF EstimationJob_transpile_id [OF assms]] keeps_trans [OF pre] keeps_Ret
        keeps_Pan split: option.split res.split)
qed

lemma EstimationJob_Process_loop_id:
  assumes "env_ok e"
  shows "keeps (\<lambda>j. jd_ID (ej_jobData j)) j (EstimationJob_Process_loop e i qasms j)"
proof (induction qasms arbitrary: i j)
  case (Cons qasm qasms)
  have send: "keeps jd_ID jd (ev_Send e i jd)" for jd
    using assms by (simp add: env_ok_def)
  have rec: "keeps (\<lambda>j. jd_ID (ej_jobData j)) j
      (EstimationJob_Process_loop e (Suc i) qasms (j\<lparr>ej_countsList := cs\<rparr>))" for j cs
    using Cons.IH [where j = "j\<lparr>ej_countsList := cs\<rparr>" and i = "Suc i"] by (simp add: keeps_def)
  show ?case
    unfolding EstimationJob_Process_loop.simps Let_def
    by (rule keeps_trans)
      (auto intro!: keeps_ej send keeps_trans [OF keeps_derefP] rec keeps_Ret simp: res_simps
        split: option.split)
qed (simp add: keeps_def)

lemma EstimationJob_keeps_id:
  assumes "env_ok e"
  shows "keeps (\<lambda>j. jd_ID (ej_jobData j)) j (EstimationJob_PreProcess e j)"
    and "keeps (\<lambda>j. jd_ID (ej_jobData j)) j (EstimationJob_PostProcess e j)"
proof -
  show "keeps (\<lambda>j. jd_ID (ej_jobData j)) j (EstimationJob_PreProcess e j)"
    unfolding EstimationJob_PreProcess_def
    by (rule keeps_trans [OF EstimationJob_preProcessImpl_id [OF assms]])
      (auto intro!: keeps_trans [OF keeps_ej] keeps_Ret keeps_SetFailure split: option.split)
  show "keeps (\<lambda>j. jd_ID (ej_jobData j)) j (EstimationJob_PostProcess e j)"
    unfolding EstimationJob_PostProcess_def Let_def
    by (auto intro!: keep_rules keeps_ej keeps_SetFailure keeps_set_result split: res.split)
qed

interpretation estimation_job: job_contract estimation_ops env_ok
proof (unfold_locales, goal_cases)
  case (2 e j)
  then show ?case
    by (simp add: estimation_ops_def EstimationJob_Clone_def env_ok_def JobData_Clone_id)
qed (auto simp: estimation_ops_def EstimationJob_keeps_id EstimationJob_Process_def
      EstimationJob_Process_loop_id EstimationJob_IsFinished_def)

section \<open>Properties\<close>

lemma Process_loop_spec:
  assumes "EstimationJob_Process_loop e i qasms j = Ret () j'" and "\<not> ej_finished j"
  shows "(if ej_finished j' then jd_Status (ej_jobData j') = FAILED \<and>
        length (ej_countsList j') < length (ej_countsList j) + length qasms
     else length (ej_countsList j') = length (ej_countsList j) + length qasms) \<and>
    take (length (ej_countsList j)) (ej_countsList j') = ej_countsList j"
  using assms
proof (induction qasms arbitrary: i j)
  case (Cons qasm qasms)
  let ?jd = "if ej_useTranspiler j then (ej_jobData j)\<lparr>jd_TranspiledQASM := qasm\<rparr>
    else (ej_jobData j)\<lparr>jd_QASM := qasm\<rparr>"
  obtain err jd where send: "ev_Send e i ?jd = Ret err jd"
    using Cons.prems(1) by (cases "ev_Send e i ?jd") (auto simp: Let_def)
  show ?case
  proof (cases "err = None \<and> jd_Status jd \<noteq> FAILED")
    case True
    then obtain r where r: "jd_Result jd = Some r"
      using Cons.prems(1) send by (cases "jd_Result jd") (auto simp: Let_def)
    let ?j = "(ej_put jd j)\<lparr>ej_countsList := ej_countsList j @ [rs_Counts r]\<rparr>"
    have "EstimationJob_Process_loop e (Suc i) qasms ?j = Ret () j'"
      using Cons.prems(1) send True r by (simp add: Let_def)
    from Cons.IH [OF this] Cons.prems(2) show ?thesis
      by (auto simp: take_Suc_conv_app_nth dest: arg_cong [where f = "take (length (ej_countsList j))"]
          split: if_splits)
  next
    case False
    then show ?thesis
      using Cons.prems send by (cases err) (auto simp: Let_def)
  qed
qed simp

text \<open>
  If \<open>Process\<close> returns, an estimation job is either marked finished with status \<open>FAILED\<close>, or it
  holds one list of counts for each of its pre-processed programs.
\<close>

theorem EstimationJob_Process_counts:
  assumes "EstimationJob_Process e j = Ret () j'" and "\<not> ej_finished j" and "ej_countsList j = []"
  shows "if ej_finished j' then jd_Status (ej_jobData j') = FAILED
    else length (ej_countsList j') = length (ej_preprocessedQASMs j)"
  using Process_loop_spec [OF assms(1) [unfolded EstimationJob_Process_def] assms(2)] assms(3)
  by (auto split: if_splits)

theorem EstimationJob_Process_counts_witness:
  "\<exists>j'. EstimationJob_Process example_manual_env
      ((EstimationJob_New None (mj_jobData example_manual_job))\<lparr>ej_preprocessedQASMs := [''a'', ''b'']\<rparr>) = Ret () j' \<and>
     length (ej_countsList j') = 2"
proof -
  let ?j = "(EstimationJob_New None (mj_jobData example_manual_job))\<lparr>ej_preprocessedQASMs := [''a'', ''b'']\<rparr>"
  obtain j' where j': "EstimationJob_Process example_manual_env ?j = Ret () j'" "\<not> ej_finished j'"
    by (simp add: EstimationJob_Process_def EstimationJob_New_def example_manual_env_def core_env.defs
        manual_env.defs example_manual_job_def ManualJob_New_def NewJobData_def ej_put_def)
  then show ?thesis
    using EstimationJob_Process_counts [OF j'(1)] by (auto simp: EstimationJob_New_def)
qed

text \<open>
  The list sent to the estimator has the physical qubits in the order of their virtual qubits: for
  a mapping of the virtual qubits \<open>0..n-1\<close>, its \<open>i\<close>-th entry is the physical qubit of \<open>i\<close>, whatever the
  order in which the map is traversed.
\<close>

theorem mapping_list_nth:
  assumes "wf_map m" and "fst ` set m = of_nat ` {..<n}" and "n < 4294967296" and "i < n"
  shows "length (mapping_list m) = n \<and> map_of m (of_nat i) = Some (mapping_list m ! i)"
proof -
  have mono: "sorted_wrt (<) (map (of_nat :: nat \<Rightarrow> u32) [0..<n])"
    using assms(3) by (auto simp: sorted_wrt_iff_nth_less word_less_nat_alt unsigned_of_nat take_bit_nat_eq_self)
  have "sort (map fst m) = map of_nat [0..<n]"
  proof (rule sorted_distinct_set_unique)
    show "sorted (map (of_nat :: nat \<Rightarrow> u32) [0..<n])" "distinct (map (of_nat :: nat \<Rightarrow> u32) [0..<n])"
      using mono by (simp_all add: strict_sorted_iff)
  qed (use assms(1,2) in \<open>auto simp: lessThan_atLeast0\<close>)
  moreover have "map_of m (of_nat i) \<noteq> None"
    using assms(2,4) by (auto simp: map_of_eq_None_iff)
  ultimately show ?thesis
    using assms(4) by (auto simp: mapping_list_def)
qed

theorem mapping_list_nth_witness:
  "length (mapping_list [(1, 3), (0, 2)]) = 2 \<and> mapping_list [(1, 3), (0, 2)] ! 1 = 3"
  using mapping_list_nth [of "[(1, 3), (0, 2)]" 2 1] by (auto simp: lessThan_Suc numeral_2_eq_2)

text \<open>
  C37: The two tests of the mitigation property exclude each other: whenever the shared test (used to
  mark a job as one to be mitigated, and by sampling jobs) asks for mitigation, the test of estimation
  jobs does not, so an estimation job whose property comes in the accepted form is never mitigated.
\<close>

theorem estimation_never_mitigates:
  assumes "mi_NeedToBeMitigated (NewMitigationInfoFromJobData jd)"
  shows "\<not> EstimationJob_shouldMitigate (NewMitigationInfoFromJobData jd) \<and>
    estimation_counts e (NewMitigationInfoFromJobData jd) i jd' cs = Ok cs"
proof -
  have "\<not> EstimationJob_shouldMitigate (NewMitigationInfoFromJobData jd)"
    using assms
    by (auto simp: EstimationJob_shouldMitigate_def NewMitigationInfoFromJobData_def Let_def ro_property_def
        quoted_pseudo_inverse_def TrimSpace_def is_space_def split: prod.splits option.splits if_splits)
  moreover from this have "estimation_counts e (NewMitigationInfoFromJobData jd) i jd' cs = Ok cs"
    by (induction cs arbitrary: i) simp_all
  ultimately show ?thesis ..
qed

lemma estimation_gates_from_file:
  assumes "as_strings (map_of mapped ''basis_gates'') = None"
  shows "et_BasisGates (ej_setting (EstimationJob_New (Some (TTable mapped)) jd)) = DEFAULT_BASIS_GATES"
  using assms by (simp add: EstimationJob_New_def estimation_setting_def)

text \<open>A job that asks for mitigation.\<close>

definition mitigated_job :: JobData where
  "mitigated_job = (NewJobData 0)\<lparr>jd_MitigationInfo :=
     Marshal_map JStr [(''ro_error_mitigation'', quoted_pseudo_inverse)]\<rparr>"

lemma mitigated_job_needs: "mi_NeedToBeMitigated (NewMitigationInfoFromJobData mitigated_job)"
proof -
  let ?s = "Marshal_map JStr [(''ro_error_mitigation'', quoted_pseudo_inverse)]"
  have "Unmarshal_map dec_str [] ?s = ([(''ro_error_mitigation'', quoted_pseudo_inverse)], None)"
    by (subst Unmarshal_Marshal_map) (simp_all add: sort_key_def)
  moreover have "json_parse ?s = Some (JObj [(''ro_error_mitigation'', JStr quoted_pseudo_inverse)])"
    unfolding Marshal_map_def by (subst json_print_parse) (simp_all add: sort_key_def)
  moreover have "?s \<noteq> []"
    by (simp add: Marshal_map_def)
  moreover have "TrimSpace quoted_pseudo_inverse = quoted_pseudo_inverse"
    by code_simp
  ultimately show ?thesis
    by (simp add: mitigated_job_def NewMitigationInfoFromJobData_def Let_def ro_property_def json_valid_def)
qed

theorem estimation_never_mitigates_witness:
  "\<not> EstimationJob_shouldMitigate (NewMitigationInfoFromJobData mitigated_job) \<and>
   estimation_counts example_manual_env (NewMitigationInfoFromJobData mitigated_job) 0 mitigated_job
     [[(''0'', 1)]] = Ok [[(''0'', 1)]]"
  by (rule estimation_never_mitigates [OF mitigated_job_needs])

end
