(* ===== verification/SSE_Run.thy ===== *)
theory SSE_Run
  imports Estimation_Job
begin

text \<open>
  \<open>coreapp/sse/sserun.go\<close> and \<open>coreapp/sse/apiclient/apiclient.go\<close>: running a user program in a
  container.

  Docker, the file system and the provider's API are not part of the repository. A call to them is
  named by a value of \<open>call\<close>; \<open>ev_fault\<close> says which error, if any, the call returns, and a call that
  returns no error has its documented effect on \<open>host\<close>: what the job owns outside the engine, its
  tmpfs volume, its container and its temporary directory, all of which are named by the job ID. There is
  one of each per job, so the model keeps only whether it exists; the names and IDs that the calls pass
  are the subject of \<open>SSE_Container\<close> for the calls up to the user program. The
  configured names of the input and output directories are the default ones, which are the ones that
  \<open>makeTmpDir\<close> creates. The argument \<open>True\<close> of an exec call is the initialisation command, \<open>False\<close> the
  user program.
\<close>

datatype call =
    NewClientWithOpts | MarshalJob | VolumeCreate | VolumeRemove | ContainerCreate | ContainerStart
  | ContainerExecCreate bool | ContainerExecAttach bool | ExecOutput bool | ContainerExecInspect bool
  | CopyToContainer | CopyFromContainer | TarNext | CreateResultFile | CopyResultFile
  | ContainerLogs | CreateLogFile | CopyLogFile | OpenLogFile | StatLogFile | CopyLogBody | PatchSselog
  | StopInspect | ContainerStop | RemoveInspect | ContainerRemove | RemoveAll
  | MkdirIn | MkdirOut | WriteUserProgram | NewApiClient | GetSsesrc | ReadAllSsesrc

record SSEConf =
  sc_SSEResultFileName :: string
  sc_SSELogFileName :: string
  sc_SSETimeout :: int
  sc_MaxFileSize :: int
  sc_UserProgramName :: string

record sse_env = estim_env +
  ev_SSEConf :: SSEConf
  ev_Setting :: "Setting option"
  ev_fault :: "call \<Rightarrow> error option"
  ev_TimedOut :: "bool \<Rightarrow> bool"
  ev_ExitCode :: "bool \<Rightarrow> int"
  ev_ResultTar :: "(string \<times> string) list"
  ev_ContainerLog :: string
  ev_ContainerStatus :: string
  ev_SsesrcBody :: string
  ev_Elapsed :: duration

record host =
  ho_volume :: bool
  ho_container :: bool
  ho_dir :: bool
  ho_in :: "(string, string) gomap"
  ho_out :: "(string, string) gomap"

definition no_host :: host where
  "no_host = \<lparr>ho_volume = False, ho_container = False, ho_dir = False, ho_in = [], ho_out = []\<rparr>"

section \<open>The API client\<close>

definition getParamsFromSetting :: "Setting option \<Rightarrow> (string \<times> string) res" where
  "getParamsFromSetting g =
    (case g of
       None \<Rightarrow> Err ''failed to get setting: group setting is nil.''
     | Some setting \<Rightarrow>
    (case as_table (map_of (RunGroupSetting setting) ''periodic_tasks'') of
       None \<Rightarrow> Err ''failed to get setting: periodic_tasks is nil.''
     | Some periodic_task \<Rightarrow>
    (case as_table (map_of periodic_task ''poller'') of
       None \<Rightarrow> Err ''failed to get setting: periodic_tasks.poller is nil.''
     | Some poller \<Rightarrow>
    (case as_table (map_of poller ''params'') of
       None \<Rightarrow> Err ''failed to get setting: periodic_tasks.poller.params is nil.''
     | Some params \<Rightarrow>
    (case as_string (map_of params ''api_key'') of
       None \<Rightarrow> Err ''failed to get setting: periodic_tasks.poller.params.api_key is nil.''
     | Some apiKey \<Rightarrow>
    (case as_string (map_of params ''endpoint'') of
       None \<Rightarrow> Err ''failed to get setting: periodic_tasks.poller.params.endpoint is nil.''
     | Some endpoint \<Rightarrow> Ok (apiKey, endpoint)))))))"

definition NewSseApiClient :: "'a sse_env_scheme \<Rightarrow> error option" where
  "NewSseApiClient e =
    (case getParamsFromSetting (ev_Setting e) of
       Err er \<Rightarrow> Some er
     | Panic \<Rightarrow> Some ''panic''
     | Ok (apiKey, endpoint) \<Rightarrow> ev_fault e NewApiClient)"

definition SseApiClient_GetSsesrc :: "'a sse_env_scheme \<Rightarrow> string res" where
  "SseApiClient_GetSsesrc e =
    (case ev_fault e GetSsesrc of
       Some er \<Rightarrow> Err (''failed to get the source file of SSE: '' @ er)
     | None \<Rightarrow>
         (case ev_fault e ReadAllSsesrc of
            Some er \<Rightarrow> Err (''failed to read response body. Reason: '' @ er)
          | None \<Rightarrow> Ok (ev_SsesrcBody e)))"

section \<open>Steps\<close>

text \<open>
  \<open>makeErrMsg\<close> logs the cause and returns the message alone. Each step returns the changed host and
  its error.
\<close>

fun makeErrMsg :: "string \<Rightarrow> error option \<Rightarrow> error" where
  "makeErrMsg msg err = msg"

definition guarded :: "string \<Rightarrow> error option \<Rightarrow> error option \<Rightarrow> error option" where
  "guarded msg fault next = (case fault of Some er \<Rightarrow> Some (makeErrMsg msg (Some er)) | None \<Rightarrow> next)"

definition delDirectory :: "'a sse_env_scheme \<Rightarrow> host \<Rightarrow> host \<times> error option" where
  "delDirectory e h =
    (case ev_fault e RemoveAll of
       Some er \<Rightarrow> (h, Some (makeErrMsg ''failed to delete tmp directory'' (Some er)))
     | None \<Rightarrow> (h\<lparr>ho_dir := False, ho_in := [], ho_out := []\<rparr>, None))"

definition delVolume :: "'a sse_env_scheme \<Rightarrow> host \<Rightarrow> host \<times> error option" where
  "delVolume e h =
    (case ev_fault e VolumeRemove of
       Some er \<Rightarrow> (h, Some (makeErrMsg ''failed to delete volume'' (Some er)))
     | None \<Rightarrow> (h\<lparr>ho_volume := False\<rparr>, None))"

definition createVolume :: "'a sse_env_scheme \<Rightarrow> host \<Rightarrow> host \<times> error option" where
  "createVolume e h =
    (case ev_fault e VolumeCreate of
       Some er \<Rightarrow> (h, Some (makeErrMsg ''failed to create volume'' (Some er)))
     | None \<Rightarrow> (h\<lparr>ho_volume := True\<rparr>, None))"

definition startContainer :: "'a sse_env_scheme \<Rightarrow> host \<Rightarrow> host \<times> error option" where
  "startContainer e h =
    (case ev_fault e ContainerCreate of
       Some er \<Rightarrow> (h, Some (makeErrMsg ''failed to start container'' (Some er)))
     | None \<Rightarrow>
         (let h' = h\<lparr>ho_container := True\<rparr> in
          (h', guarded ''failed to start container'' (ev_fault e ContainerStart) None)))"

definition copyUserProgramIntoContainer :: "'a sse_env_scheme \<Rightarrow> host \<Rightarrow> error option" where
  "copyUserProgramIntoContainer e h =
    (case map_of (ho_in h) (sc_UserProgramName (ev_SSEConf e)) of
       None \<Rightarrow> Some ''no such file or directory''
     | Some content \<Rightarrow>
         guarded ''failed to copy user program into container'' (ev_fault e CopyToContainer) None)"

definition msg_timeout :: "'a sse_env_scheme \<Rightarrow> string" where
  "msg_timeout e =
    ''The SSE execution has timed out after '' @ int_str (sc_SSETimeout (ev_SSEConf e)) @ '' seconds.''"

definition execCommandInContainer :: "'a sse_env_scheme \<Rightarrow> bool \<Rightarrow> error option \<times> string" where
  "execCommandInContainer e b =
    (let msg = ''failed to exec command in container''; msgExitCode = ''exit code is not 0'' in
     if ev_fault e (ContainerExecCreate b) \<noteq> None then (Some msg, [])
     else if ev_fault e (ContainerExecAttach b) \<noteq> None then (Some msg, [])
     else if ev_TimedOut e b then (Some (msg_timeout e), msg_timeout e)
     else if ev_fault e (ExecOutput b) \<noteq> None then (Some msg, [])
     else if ev_fault e (ContainerExecInspect b) \<noteq> None then (Some msg, [])
     else if ev_ExitCode e b \<noteq> 0 then (Some msgExitCode, msgExitCode)
     else (None, []))"

text \<open>The files of the archive are written one after the other until one cannot be created or copied.\<close>

fun extract_loop :: "'a sse_env_scheme \<Rightarrow> (string \<times> string) list \<Rightarrow> host \<Rightarrow> host \<times> error option" where
  "extract_loop e [] h = (h, guarded ''failed to copy result from container'' (ev_fault e TarNext) None)"
| "extract_loop e ((name, content) # files) h =
    (if ev_fault e CreateResultFile \<noteq> None then (h, Some ''failed to copy result from container'')
     else if ev_fault e CopyResultFile \<noteq> None
       then (h\<lparr>ho_out := AList.update name [] (ho_out h)\<rparr>, Some ''failed to copy result from container'')
     else extract_loop e files (h\<lparr>ho_out := AList.update name content (ho_out h)\<rparr>))"

definition copyResultFromContainer :: "'a sse_env_scheme \<Rightarrow> host \<Rightarrow> host \<times> error option" where
  "copyResultFromContainer e h =
    (if ev_fault e CopyFromContainer \<noteq> None then (h, Some ''failed to copy result from container'')
     else extract_loop e (ev_ResultTar e) h)"

text \<open>
  When the log is also printed to the engine's log it is read to its end first, so that the copy to
  the file gets nothing of it.
\<close>

definition saveContainerLog :: "'a sse_env_scheme \<Rightarrow> bool \<Rightarrow> host \<Rightarrow> host \<times> error option" where
  "saveContainerLog e printToEngineLog h =
    (let msg = ''failed to get container log''; name = sc_SSELogFileName (ev_SSEConf e) in
     if ev_fault e ContainerLogs \<noteq> None then (h, Some msg)
     else if ev_fault e CreateLogFile \<noteq> None then (h, Some msg)
     else if ev_fault e CopyLogFile \<noteq> None then (h\<lparr>ho_out := AList.update name [] (ho_out h)\<rparr>, Some msg)
     else (h\<lparr>ho_out := AList.update name
             (if printToEngineLog then [] else ev_ContainerLog e) (ho_out h)\<rparr>, None))"

definition stopContainer :: "'a sse_env_scheme \<Rightarrow> error option" where
  "stopContainer e =
    guarded ''failed to stop container'' (ev_fault e StopInspect)
      (guarded ''failed to stop container'' (ev_fault e ContainerStop) None)"

definition removeContainer :: "'a sse_env_scheme \<Rightarrow> host \<Rightarrow> host \<times> error option" where
  "removeContainer e h =
    (let msgStopErr = ''failed to remove container'' in
     if ev_fault e RemoveInspect \<noteq> None then (h, Some msgStopErr)
     else if ev_ContainerStatus e \<noteq> ''exited'' then (h, Some msgStopErr)
     else if ev_fault e ContainerRemove \<noteq> None then (h, Some msgStopErr)
     else
       (case delVolume e (h\<lparr>ho_container := False\<rparr>) of
          (h, Some er) \<Rightarrow> (h, Some (makeErrMsg ''failed to remove volume'' (Some er)))
        | (h, None) \<Rightarrow> (h, None)))"

definition checkFileSize :: "'a sse_env_scheme \<Rightarrow> string \<Rightarrow> error option" where
  "checkFileSize e content =
    (case ev_fault e StatLogFile of
       Some er \<Rightarrow> Some er
     | None \<Rightarrow>
         if int (length content) > sc_MaxFileSize (ev_SSEConf e)
         then Some (makeErrMsg (''The file size is larger than MaxFileSize:'' @
                int_str (sc_MaxFileSize (ev_SSEConf e))) None)
         else None)"

definition s3Upload :: "'a sse_env_scheme \<Rightarrow> host \<Rightarrow> error option" where
  "s3Upload e h =
    (let msg = ''failed to upload file to S3'' in
     case map_of (ho_out h) (sc_SSELogFileName (ev_SSEConf e)) of
       None \<Rightarrow> Some msg
     | Some content \<Rightarrow>
         guarded msg (ev_fault e OpenLogFile)
           (guarded msg (checkFileSize e content)
             (guarded msg (ev_fault e CopyLogBody)
               (guarded msg (ev_fault e PatchSselog) None))))"

section \<open>Clean-up after an error\<close>

definition errBeforeContainerMake :: "'a sse_env_scheme \<Rightarrow> error \<Rightarrow> host \<Rightarrow> host \<times> error" where
  "errBeforeContainerMake e err h = (fst (delDirectory e h), err)"

definition errAfterContainerMake :: "'a sse_env_scheme \<Rightarrow> host \<Rightarrow> host" where
  "errAfterContainerMake e h =
    (let h1 = (if ev_fault e ContainerRemove = None then h\<lparr>ho_container := False\<rparr> else h);
         h2 = fst (delVolume e h1)
     in fst (delDirectory e h2))"

end
