(* ===== verification/SSE_Job.thy ===== *)
theory SSE_Job
  imports SSE_Run
begin

text \<open>
  The rest of \<open>coreapp/sse/sserun.go\<close> (reading the result file, \<open>RunSSE\<close>) and \<open>coreapp/sse/job.go\<close>.
  The state of \<open>RunSSE\<close> is the job data and the host; the host is kept in the job record, since
  everything in it belongs to this job alone.
\<close>

section \<open>The result file\<close>

fun jcounts :: "json option \<Rightarrow> Counts res" where
  "jcounts None = Ok []"
| "jcounts (Some JNull) = Ok []"
| "jcounts (Some (JObj kvs)) =
    (if list_all (\<lambda>(k, j). elem_fits dec_u32 j) kvs
     then Ok (put_all (map (\<lambda>(k, j). (k, unmarshal_elem dec_u32 0 j)) kvs) []) else Err err_json_type)"
| "jcounts (Some _) = Err err_json_type"

record ResultFileContents =
  rf_Status :: string
  rf_JobMessage :: string
  rf_TranspiledProgram :: string
  rf_StatsRaw :: "string option"
  rf_VirtualPhysicalMappingRaw :: "string option"
  rf_Counts :: Counts
  rf_TranspilerInfo :: TranspilerConfig

definition dec_ResultFileContents :: "(string \<times> json) list \<Rightarrow> ResultFileContents res" where
  "dec_ResultFileContents tp =
    res_bind (jstring (jfield ''job_id'' tp)) (\<lambda>_.
    res_bind (jstring (jfield ''status'' tp)) (\<lambda>status.
    res_bind (jstring (jfield ''message'' tp)) (\<lambda>_.
    res_bind (jint (jfield ''shots'' tp)) (\<lambda>_.
    res_bind (jobject (jfield ''transpiler_info'' tp)) (\<lambda>ti.
    res_bind (jstring_ptr (jfield ''transpiler_lib'' ti)) (\<lambda>lib.
    res_bind (jobject (jfield ''job_info'' tp)) (\<lambda>info.
    res_bind (jstrings (jfield ''program'' info)) (\<lambda>_.
    res_bind (jstring (jfield ''message'' info)) (\<lambda>jobMessage.
    res_bind (jobject (jfield ''transpile_result'' info)) (\<lambda>tr.
    res_bind (jstring (jfield ''transpiled_program'' tr)) (\<lambda>program.
    res_bind (jobject (jfield ''result'' info)) (\<lambda>result.
    res_bind (jobject (jfield ''sampling'' result)) (\<lambda>sampling.
    res_bind (jcounts (jfield ''counts'' sampling)) (\<lambda>counts.
      Ok \<lparr>rf_Status = status, rf_JobMessage = jobMessage, rf_TranspiledProgram = program,
          rf_StatsRaw = jraw (jfield ''stats'' tr),
          rf_VirtualPhysicalMappingRaw = jraw (jfield ''virtual_physical_mapping'' tr),
          rf_Counts = counts,
          rf_TranspilerInfo = \<lparr>tc_TranspilerLib = lib,
            tc_TranspilerOptions = jraw (jfield ''transpiler_options'' ti), tc_UseDefault = False\<rparr>\<rparr>))))))))))))))"

definition Unmarshal_ResultFileContents :: "string \<Rightarrow> ResultFileContents res" where
  "Unmarshal_ResultFileContents s =
    (case json_parse s of
       None \<Rightarrow> Err err_json
     | Some j \<Rightarrow> res_bind (jobject (Some j)) dec_ResultFileContents)"

definition setResultToOutputJob :: "'a sse_env_scheme \<Rightarrow> host \<Rightarrow> JobData \<Rightarrow> JobData \<times> error option" where
  "setResultToOutputJob e h jd =
    (let msg = ''Unable to get the result'' in
     case map_of (ho_out h) (sc_SSEResultFileName (ev_SSEConf e)) of
       None \<Rightarrow> (jd, Some msg)
     | Some bytes \<Rightarrow>
         (case Unmarshal_ResultFileContents bytes of
            Err er \<Rightarrow> (jd, Some er)
          | Panic \<Rightarrow> (jd, Some err_json)
          | Ok contents \<Rightarrow>
              (let vpmRaw = rf_VirtualPhysicalMappingRaw contents in
               case ToMap vpmRaw of
                 Err er \<Rightarrow> (jd, Some er)
               | Panic \<Rightarrow> (jd, Some err_json)
               | Ok vpmMap \<Rightarrow>
                   (let r = \<lparr>rs_Counts = rf_Counts contents, rs_DividedResult = None,
                          rs_TranspilerInfo = Some \<lparr>ti_StatsRaw = rf_StatsRaw contents,
                            ti_PhysicalVirtualMapping = [], ti_VirtualPhysicalMappingRaw = vpmRaw,
                            ti_VirtualPhysicalMappingMap = Some vpmMap\<rparr>,
                          rs_Estimation = None, rs_Message = rf_JobMessage contents, rs_ExecutionTime = 0\<rparr>;
                        jd' = jd\<lparr>jd_Result := Some r, jd_TranspiledQASM := rf_TranspiledProgram contents,
                          jd_Transpiler := Some (rf_TranspilerInfo contents)\<rparr> in
                    case ToStatus (rf_Status contents) of
                      (status, None) \<Rightarrow> (jd'\<lparr>jd_Status := status\<rparr>, None)
                    | (_, Some er) \<Rightarrow> (jd', Some (makeErrMsg msg (Some er)))))))"

section \<open>RunSSE\<close>

text \<open>The pattern \<open>if err != nil { ...; return err }\<close>, after a step on the host and after a plain call.\<close>

definition step :: "'h \<times> error option \<Rightarrow> ('h \<Rightarrow> error \<Rightarrow> 'r) \<Rightarrow> ('h \<Rightarrow> 'r) \<Rightarrow> 'r" where
  "step m fail next = (case m of (h, Some er) \<Rightarrow> fail h er | (h, None) \<Rightarrow> next h)"

definition call_step :: "error option \<Rightarrow> (error \<Rightarrow> 'r) \<Rightarrow> 'r \<Rightarrow> 'r" where
  "call_step m fail next = (case m of Some er \<Rightarrow> fail er | None \<Rightarrow> next)"

text \<open>The part after the user program ran: log, result, stopping and removing.\<close>

definition finishSSE ::
  "'a sse_env_scheme \<Rightarrow> bool \<Rightarrow> bool \<Rightarrow> string \<Rightarrow> JobData \<Rightarrow> host \<Rightarrow> (JobData \<times> host) \<times> error option" where
  "finishSSE e execErr copyErr errMsgToReturn jd h =
    (let cleanup = (\<lambda>jd h er. ((jd, errAfterContainerMake e h), Some er)) in
     step (saveContainerLog e execErr h) (cleanup jd) (\<lambda>h.
     call_step (NewSseApiClient e) (cleanup jd h) (
     call_step (s3Upload e h) (cleanup jd h) (
     step (setResultToOutputJob e h jd) (\<lambda>jd. cleanup jd h) (\<lambda>jd.
     call_step (stopContainer e) (\<lambda>er. ((jd, h), Some er)) (
     step (removeContainer e h) (\<lambda>h er. ((jd, h), Some er)) (\<lambda>h.
     step (delDirectory e h) (\<lambda>h er. ((jd, h), Some er)) (\<lambda>h.
       ((jd, h), if \<not> execErr \<and> \<not> copyErr then None else Some errMsgToReturn)))))))))"

definition RunSSE :: "'a sse_env_scheme \<Rightarrow> JobData \<Rightarrow> host \<Rightarrow> (JobData \<times> host) \<times> error option" where
  "RunSSE e jd h =
    (let fail = (\<lambda>er. ((jd, fst (errBeforeContainerMake e er h)), Some (snd (errBeforeContainerMake e er h))));
         cleanup = (\<lambda>h er. ((jd, errAfterContainerMake e h), Some er)) in
     call_step (guarded ''failed to marshal json'' (ev_fault e MarshalJob) None) fail (
     call_step (guarded ''Failed to init container'' (ev_fault e NewClientWithOpts) None) fail (
     step (createVolume e h) cleanup (\<lambda>h.
     step (startContainer e h) cleanup (\<lambda>h.
     call_step (fst (execCommandInContainer e True)) (cleanup h) (
     call_step (copyUserProgramIntoContainer e h) (cleanup h) (
       (let (execErr, errMsgToReturn) = execCommandInContainer e False;
            (h, copyErr) = copyResultFromContainer e h
        in finishSSE e (execErr \<noteq> None) (copyErr \<noteq> None) errMsgToReturn jd h))))))))"

lemma stepI:
  "(\<And>h er. m = (h, Some er) \<Longrightarrow> Q (fail h er)) \<Longrightarrow> (\<And>h. m = (h, None) \<Longrightarrow> Q (next h)) \<Longrightarrow>
    Q (step m fail next)"
  by (simp add: step_def split: prod.split option.split)

lemma call_stepI:
  "(\<And>er. m = Some er \<Longrightarrow> Q (fail er)) \<Longrightarrow> (m = None \<Longrightarrow> Q next) \<Longrightarrow> Q (call_step m fail next)"
  by (simp add: call_step_def split: option.split)

lemma step_None [res_simps]:
  "(\<And>h er. snd (fail h er) \<noteq> None) \<Longrightarrow> step m fail next = (r, None) \<longleftrightarrow> (\<exists>h. m = (h, None) \<and> next h = (r, None))"
  by (cases m; cases "snd m") (simp_all add: step_def, metis option.distinct(1) snd_conv)

lemma call_step_None [res_simps]:
  "(\<And>er. snd (fail er) \<noteq> None) \<Longrightarrow> call_step m fail next = (r, None) \<longleftrightarrow> m = None \<and> next = (r, None)"
  by (cases m) (simp_all add: call_step_def, metis option.distinct(1) snd_conv)

section \<open>Base64\<close>

text \<open>\<open>base64.StdEncoding.DecodeString\<close>: line breaks are skipped, groups of four digits, padding at the end.\<close>

definition b64_digit :: "char \<Rightarrow> nat option" where
  "b64_digit c =
    (let n = of_char c in
     if 65 \<le> n \<and> n \<le> 90 then Some (n - 65)
     else if 97 \<le> n \<and> n \<le> 122 then Some (n - 71)
     else if 48 \<le> n \<and> n \<le> 57 then Some (n + 4)
     else if n = 43 then Some 62
     else if n = 47 then Some 63
     else None)"

fun b64_groups :: "string \<Rightarrow> string option" where
  "b64_groups [] = Some []"
| "b64_groups (a # b # c # d # rest) =
    (case (b64_digit a, b64_digit b) of
       (Some x, Some y) \<Rightarrow>
         (case (b64_digit c, b64_digit d) of
            (Some z, Some w) \<Rightarrow>
              map_option (\<lambda>r. char_of (x * 4 + y div 16) # char_of ((y mod 16) * 16 + z div 4) #
                char_of ((z mod 4) * 64 + w) # r) (b64_groups rest)
          | (Some z, None) \<Rightarrow>
              if d = CHR ''='' \<and> rest = []
              then Some [char_of (x * 4 + y div 16), char_of ((y mod 16) * 16 + z div 4)] else None
          | (None, _) \<Rightarrow>
              if c = CHR ''='' \<and> d = CHR ''='' \<and> rest = [] then Some [char_of (x * 4 + y div 16)] else None)
     | _ \<Rightarrow> None)"
| "b64_groups _ = None"

definition DecodeString :: "string \<Rightarrow> string res" where
  "DecodeString s =
    (case b64_groups (filter (\<lambda>c. c \<noteq> CHR 0x0A \<and> c \<noteq> CHR 0x0D) s) of
       Some t \<Rightarrow> Ok t | None \<Rightarrow> Err ''illegal base64 data'')"

section \<open>The job\<close>

definition SSE_JOB :: string where
  "SSE_JOB = ''sse''"

record SSEJob =
  ss_jobData :: JobData
  ss_UserProgramData :: string
  ss_host :: host

definition ss_put :: "JobData \<Rightarrow> SSEJob \<Rightarrow> SSEJob" where
  "ss_put jd j = j\<lparr>ss_jobData := jd\<rparr>"

definition SSEJob_New :: "JobData \<Rightarrow> SSEJob" where
  "SSEJob_New jd = \<lparr>ss_jobData = jd, ss_UserProgramData = [], ss_host = no_host\<rparr>"

definition makeTmpDir :: "'a sse_env_scheme \<Rightarrow> host \<Rightarrow> host \<times> error option" where
  "makeTmpDir e h =
    (case ev_fault e MkdirIn of
       Some er \<Rightarrow> (h, Some (''failed to make temp directory for input. Reason:'' @ er))
     | None \<Rightarrow>
         (case ev_fault e MkdirOut of
            Some er \<Rightarrow> (h\<lparr>ho_dir := True\<rparr>, Some (''failed to make temp directory for output. Reason:'' @ er))
          | None \<Rightarrow> (h\<lparr>ho_dir := True\<rparr>, None)))"

definition makeUserProgramFile :: "'a sse_env_scheme \<Rightarrow> string \<Rightarrow> host \<Rightarrow> host \<times> error option" where
  "makeUserProgramFile e userprogramData h =
    (case DecodeString userprogramData of
       Err er \<Rightarrow> (h, Some (''failed to decode user program. Reason:'' @ er))
     | Panic \<Rightarrow> (h, Some ''panic'')
     | Ok decoded \<Rightarrow>
         (case ev_fault e WriteUserProgram of
            Some er \<Rightarrow> (h, Some (''failed to write user program to file. Reason:'' @ er))
          | None \<Rightarrow>
              (h\<lparr>ho_in := AList.update (sc_UserProgramName (ev_SSEConf e)) decoded (ho_in h)\<rparr>, None)))"

definition deleteTmpDir :: "'a sse_env_scheme \<Rightarrow> host \<Rightarrow> host" where
  "deleteTmpDir e h = fst (delDirectory e h)"

definition SSEJob_preProcessImpl :: "'a sse_env_scheme \<Rightarrow> SSEJob \<Rightarrow> SSEJob \<times> error option" where
  "SSEJob_preProcessImpl e j =
    (case ev_Insert e (ss_jobData j) of
       Some er \<Rightarrow> (j, Some er)
     | None \<Rightarrow>
    (case NewSseApiClient e of
       Some er \<Rightarrow> (j, Some er)
     | None \<Rightarrow>
    (case SseApiClient_GetSsesrc e of
       Err er \<Rightarrow> (j, Some er)
     | Panic \<Rightarrow> (j, Some ''panic'')
     | Ok userprogramData \<Rightarrow>
         (let j = j\<lparr>ss_UserProgramData := userprogramData\<rparr> in
          case makeTmpDir e (ss_host j) of
            (h, Some er) \<Rightarrow> (j\<lparr>ss_host := h\<rparr>, Some er)
          | (h, None) \<Rightarrow>
              (case makeUserProgramFile e (ss_UserProgramData j) h of
                 (h, Some er) \<Rightarrow> (j\<lparr>ss_host := deleteTmpDir e h\<rparr>, Some er)
               | (h, None) \<Rightarrow> (j\<lparr>ss_host := h\<rparr>, None))))))"

definition SSEJob_fail :: "'a core_env_scheme \<Rightarrow> error \<Rightarrow> SSEJob \<Rightarrow> (SSEJob, unit) outcome" where
  "SSEJob_fail e er j =
    bindP (on_part ss_put j (SetFailureWithErrorToJobData (ev_now e) er (ss_jobData j))) (\<lambda>_ j. Ret () j)"

definition SSEJob_PreProcess :: "'a sse_env_scheme \<Rightarrow> SSEJob \<Rightarrow> (SSEJob, unit) outcome" where
  "SSEJob_PreProcess e j =
    (case SSEJob_preProcessImpl e j of
       (j, Some er) \<Rightarrow> SSEJob_fail e er j
     | (j, None) \<Rightarrow> Ret () j)"

definition SSEJob_Process :: "'a sse_env_scheme \<Rightarrow> SSEJob \<Rightarrow> (SSEJob, unit) outcome" where
  "SSEJob_Process e j =
    (case RunSSE e (ss_jobData j) (ss_host j) of
       ((jd, h), err) \<Rightarrow>
         (let j = j\<lparr>ss_jobData := jd, ss_host := h\<rparr> in
          case err of
            Some er \<Rightarrow> SSEJob_fail e er j
          | None \<Rightarrow>
              bindP (on_part ss_put j (set_result (rs_ExecutionTime_update (\<lambda>_. ev_Elapsed e)) (ss_jobData j)))
                (\<lambda>_ j. Ret () (j\<lparr>ss_jobData := (ss_jobData j)\<lparr>jd_Ended := ev_now e\<rparr>\<rparr>))))"

definition SSEJob_PostProcess :: "'a core_env_scheme \<Rightarrow> SSEJob \<Rightarrow> (SSEJob, unit) outcome" where
  "SSEJob_PostProcess e j = Ret () j"

definition SSEJob_IsFinished :: "SSEJob \<Rightarrow> bool res" where
  "SSEJob_IsFinished j =
    Ok (jd_Status (ss_jobData j) = SUCCEEDED \<or> jd_Status (ss_jobData j) = FAILED)"

definition SSEJob_Clone :: "'a core_env_scheme \<Rightarrow> SSEJob \<Rightarrow> SSEJob" where
  "SSEJob_Clone e j =
    \<lparr>ss_jobData = JobData_Clone (ev_deepcopy e) (ss_jobData j), ss_UserProgramData = [], ss_host = ss_host j\<rparr>"

definition sse_ops :: "('a sse_env_scheme, SSEJob) JobOps" where
  "sse_ops =
    \<lparr>jo_JobData = ss_jobData, jo_put = ss_put, jo_PreProcess = SSEJob_PreProcess,
     jo_Process = SSEJob_Process, jo_PostProcess = SSEJob_PostProcess,
     jo_IsFinished = SSEJob_IsFinished, jo_Clone = SSEJob_Clone\<rparr>"

section \<open>The contract\<close>

lemma ss_put_simps [simp]: "ss_jobData (ss_put jd j) = jd" "ss_host (ss_put jd j) = ss_host j"
  by (simp_all add: ss_put_def)

lemma setResultToOutputJob_id: "jd_ID (fst (setResultToOutputJob e h jd)) = jd_ID jd"
  by (simp add: setResultToOutputJob_def Let_def split: option.split res.split prod.split)

lemma finishSSE_id: "jd_ID (fst (fst (finishSSE e b c msg jd h))) = jd_ID jd"
proof -
  let ?Q = "\<lambda>r :: (JobData \<times> host) \<times> error option. jd_ID (fst (fst r)) = jd_ID jd"
  have "jd_ID jd' = jd_ID jd" if "setResultToOutputJob e h' jd = (jd', er)" for h' jd' er
    using setResultToOutputJob_id [of e h' jd] that by simp
  then show ?thesis
    unfolding finishSSE_def Let_def
    by (intro stepI [where Q = ?Q] call_stepI [where Q = ?Q]) simp_all
qed

lemma RunSSE_id: "jd_ID (fst (fst (RunSSE e jd h))) = jd_ID jd"
proof -
  let ?Q = "\<lambda>r :: (JobData \<times> host) \<times> error option. jd_ID (fst (fst r)) = jd_ID jd"
  show ?thesis
    unfolding RunSSE_def Let_def
    by (intro stepI [where Q = ?Q] call_stepI [where Q = ?Q]) (simp_all add: finishSSE_id split: prod.split)
qed

lemma SSEJob_fail_id: "jd_ID (ss_jobData (final (SSEJob_fail e er j))) = jd_ID (ss_jobData j)"
  by (cases "jd_Result (ss_jobData j)")
    (simp_all add: SSEJob_fail_def SetFailureWithErrorToJobData_def set_result_def)

lemma SSEJob_preProcessImpl_data: "ss_jobData (fst (SSEJob_preProcessImpl e j)) = ss_jobData j"
  by (simp add: SSEJob_preProcessImpl_def Let_def split: option.split res.split prod.split)

lemma SSEJob_keeps_id:
  "keeps (\<lambda>j. jd_ID (ss_jobData j)) j (SSEJob_PreProcess e j)"
  "keeps (\<lambda>j. jd_ID (ss_jobData j)) j (SSEJob_Process e j)"
proof -
  obtain j1 er where j1: "SSEJob_preProcessImpl e j = (j1, er)"
    by fastforce
  show "keeps (\<lambda>j. jd_ID (ss_jobData j)) j (SSEJob_PreProcess e j)"
    using SSEJob_preProcessImpl_data [of e j] SSEJob_fail_id [of e _ j1]
    by (cases er) (simp_all add: keeps_def SSEJob_PreProcess_def j1)
  obtain jd h err where run: "RunSSE e (ss_jobData j) (ss_host j) = ((jd, h), err)"
    by (metis prod.collapse)
  have id: "jd_ID jd = jd_ID (ss_jobData j)"
    using RunSSE_id [of e "ss_jobData j" "ss_host j"] run by simp
  show "keeps (\<lambda>j. jd_ID (ss_jobData j)) j (SSEJob_Process e j)"
    using id SSEJob_fail_id [of e _ "j\<lparr>ss_jobData := jd, ss_host := h\<rparr>"]
    by (cases err; cases "jd_Result jd") (simp_all add: keeps_def SSEJob_Process_def run set_result_def)
qed

interpretation sse_job: job_contract sse_ops env_ok
proof (unfold_locales, goal_cases)
  case (2 e j)
  then show ?case
    by (simp add: sse_ops_def SSEJob_Clone_def env_ok_def JobData_Clone_id)
qed (auto simp: sse_ops_def SSEJob_keeps_id SSEJob_PostProcess_def SSEJob_IsFinished_def keeps_Ret)

section \<open>Properties\<close>

text \<open>The clean-up calls themselves work, and a stopped container reports that it exited.\<close>

definition cleanup_ok :: "'a sse_env_scheme \<Rightarrow> bool" where
  "cleanup_ok e \<longleftrightarrow>
    (\<forall>c \<in> {StopInspect, ContainerStop, RemoveInspect, ContainerRemove, VolumeRemove, RemoveAll}.
       ev_fault e c = None) \<and> ev_ContainerStatus e = ''exited''"

lemma errAfterContainerMake_clean: "cleanup_ok e \<Longrightarrow> errAfterContainerMake e h = no_host"
  by (simp add: cleanup_ok_def errAfterContainerMake_def delVolume_def delDirectory_def no_host_def)

lemma finishSSE_clean:
  assumes "cleanup_ok e"
  shows "snd (fst (finishSSE e b c msg jd h)) = no_host"
proof -
  have rm: "removeContainer e h1 = (h1\<lparr>ho_container := False, ho_volume := False\<rparr>, None)"
    and stop: "stopContainer e = None"
    and del: "delDirectory e h1 = (h1\<lparr>ho_dir := False, ho_in := [], ho_out := []\<rparr>, None)" for h1
    using assms by (simp_all add: cleanup_ok_def removeContainer_def delVolume_def stopContainer_def
        delDirectory_def guarded_def)
  let ?Q = "\<lambda>r :: (JobData \<times> host) \<times> error option. snd (fst r) = no_host"
  show ?thesis
    unfolding finishSSE_def Let_def rm stop del errAfterContainerMake_clean [OF assms]
    by (intro stepI [where Q = ?Q] call_stepI [where Q = ?Q]) (auto simp: no_host_def)
qed

lemma finishSSE_None:
  assumes "finishSSE e b c msg jd h = ((jd', h'), None)"
  shows "\<not> b \<and> \<not> c \<and> (\<exists>h2. saveContainerLog e b h = (h2, None) \<and> setResultToOutputJob e h2 jd = (jd', None))"
  using assms by (auto simp: finishSSE_def Let_def res_simps split: if_splits)

text \<open>
  C33: However \<open>RunSSE\<close> ends (an error before or after the container was made, a timeout, a failing
  program, an unreadable result or success), no container, volume or directory of the job is left,
  provided the clean-up calls themselves succeed. When the volume could not be made, nothing is there to remove and
  Docker may answer the clean-up calls with errors: the condition is meant for the failures after that.
\<close>

theorem RunSSE_cleanup:
  assumes "cleanup_ok e" and "\<not> ho_volume h" and "\<not> ho_container h"
  shows "snd (fst (RunSSE e jd h)) = no_host"
proof -
  have before: "errBeforeContainerMake e er h = (no_host, er)" for er
    using assms by (simp add: errBeforeContainerMake_def delDirectory_def cleanup_ok_def no_host_def)
  let ?Q = "\<lambda>r :: (JobData \<times> host) \<times> error option. snd (fst r) = no_host"
  show ?thesis
    unfolding RunSSE_def Let_def before errAfterContainerMake_clean [OF assms(1)]
    by (intro stepI [where Q = ?Q] call_stepI [where Q = ?Q])
      (simp_all add: finishSSE_clean [OF assms(1)] split: prod.split)
qed

text \<open>The output directory as it is read back: the archive of the container and its log.\<close>

definition output_files :: "'a sse_env_scheme \<Rightarrow> host \<Rightarrow> (string, string) gomap" where
  "output_files e h =
    ho_out (fst (saveContainerLog e False
      (fst (copyResultFromContainer e (h\<lparr>ho_volume := True, ho_container := True\<rparr>)))))"

lemma RunSSE_None:
  assumes "RunSSE e jd h = ((jd', h'), None)"
  shows "\<exists>msg copyErr. execCommandInContainer e False = (None, msg) \<and>
    finishSSE e False copyErr msg jd
      (fst (copyResultFromContainer e (h\<lparr>ho_volume := True, ho_container := True\<rparr>))) = ((jd', h'), None)"
proof -
  let ?h = "h\<lparr>ho_volume := True, ho_container := True\<rparr>"
  have host: "h2 = ?h" if "createVolume e h = (h1, None)" "startContainer e h1 = (h2, None)" for h1 h2
    using that by (auto simp: createVolume_def startContainer_def Let_def split: option.splits)
  obtain execErr msg where exec: "execCommandInContainer e False = (execErr, msg)"
    by fastforce
  obtain h1 copyErr where res: "copyResultFromContainer e ?h = (h1, copyErr)"
    by fastforce
  have fin: "finishSSE e (execErr \<noteq> None) (copyErr \<noteq> None) msg jd h1 = ((jd', h'), None)"
    using assms exec res by (auto simp: RunSSE_def Let_def res_simps dest!: host)
  from finishSSE_None [OF this] have "execErr = None"
    by simp
  then show ?thesis
    using fin exec res by auto
qed

text \<open>
  C34: If \<open>RunSSE\<close> reports no error, the user program ended in time with exit code 0 and the job's
  status, counts and message are those of the result file copied from the container.
\<close>

theorem RunSSE_success:
  assumes "RunSSE e jd h = ((jd', h'), None)"
  shows "\<not> ev_TimedOut e False \<and> ev_ExitCode e False = 0 \<and>
    (\<exists>bytes contents r. map_of (output_files e h) (sc_SSEResultFileName (ev_SSEConf e)) = Some bytes \<and>
       Unmarshal_ResultFileContents bytes = Ok contents \<and>
       jd_Result jd' = Some r \<and> rs_Counts r = rf_Counts contents \<and> rs_Message r = rf_JobMessage contents \<and>
       ToStatus (rf_Status contents) = (jd_Status jd', None))"
proof -
  obtain msg copyErr where exec: "execCommandInContainer e False = (None, msg)"
    and fin: "finishSSE e False copyErr msg jd
      (fst (copyResultFromContainer e (h\<lparr>ho_volume := True, ho_container := True\<rparr>))) = ((jd', h'), None)"
    using RunSSE_None [OF assms] by blast
  from finishSSE_None [OF fin] obtain h2 where h2: "output_files e h = ho_out h2"
    and set: "setResultToOutputJob e h2 jd = (jd', None)"
    by (auto simp: output_files_def)
  have "\<exists>bytes contents r. map_of (ho_out h2) (sc_SSEResultFileName (ev_SSEConf e)) = Some bytes \<and>
       Unmarshal_ResultFileContents bytes = Ok contents \<and>
       jd_Result jd' = Some r \<and> rs_Counts r = rf_Counts contents \<and> rs_Message r = rf_JobMessage contents \<and>
       ToStatus (rf_Status contents) = (jd_Status jd', None)"
    using set by (auto simp: setResultToOutputJob_def Let_def split: option.splits res.splits prod.splits)
  then show ?thesis
    using exec h2 by (auto simp: execCommandInContainer_def Let_def split: if_splits)
qed

text \<open>
  When the user program failed, the log file that is uploaded for it is empty: the container's log
  was already read to its end for the engine's own log.
\<close>

theorem saveContainerLog_after_failure:
  assumes "saveContainerLog e True h = (h', None)"
  shows "map_of (ho_out h') (sc_SSELogFileName (ev_SSEConf e)) = Some []"
  using assms by (auto simp: saveContainerLog_def Let_def gomap split: if_splits)

section \<open>An example run\<close>

definition example_result :: json where
  "example_result = JObj [(''status'', JStr ''succeeded''),
     (''job_info'', JObj [(''result'', JObj [(''sampling'', JObj [(''counts'', JObj [(''0'', enc_u32 10)])])])])]"

definition example_setting :: Setting where
  "example_setting = \<lparr>ComponentSetting = [], RunGroupSetting = [(''periodic_tasks'', TTable [(''poller'',
     TTable [(''params'', TTable [(''api_key'', TString ''k''), (''endpoint'', TString ''e'')])])])]\<rparr>"

definition example_sse_env :: sse_env where
  "example_sse_env =
    \<lparr>ev_now = 7, ev_deepcopy = id, ev_MaxShots = 1000, ev_MaxQubits = 4, ev_Insert = (\<lambda>_. None),
     ev_IsAcceptableTranspilerLib = (\<lambda>lib. lib = ''qiskit''), ev_Transpile = Ret None,
     ev_Send = (\<lambda>i jd. Ret None (jd\<lparr>jd_Status := SUCCEEDED\<rparr>)), ev_mitig = (\<lambda>_. example_mitig_env),
     ev_CombinerPort = [], ev_CombinerHost = [], ev_CombinerClient = (\<lambda>_. None),
     ev_Combine = (\<lambda>q n. Ok \<lparr>cr_CombinedStatus = 0, cr_CombinedQasm = q, cr_CombinedQubitsList = []\<rparr>),
     ev_EstimationSetting = None, ev_EstimatorClient = (\<lambda>_. None),
     ev_ReqEstimationPreProcess = (\<lambda>q ops gs m. Ok ([q], ops)),
     ev_ReqEstimationPostProcess = (\<lambda>cs ops. Ok (0, 0)), ev_fmt_g = Some,
     ev_SSEConf = \<lparr>sc_SSEResultFileName = ''result.json'', sc_SSELogFileName = ''ssecontainer.log'',
       sc_SSETimeout = 300, sc_MaxFileSize = 10485760, sc_UserProgramName = ''userprogram.py''\<rparr>,
     ev_Setting = Some example_setting, ev_fault = (\<lambda>_. None), ev_TimedOut = (\<lambda>_. False),
     ev_ExitCode = (\<lambda>_. 0), ev_ResultTar = [(''result.json'', json_print example_result)],
     ev_ContainerLog = ''log'', ev_ContainerStatus = ''exited'', ev_SsesrcBody = ''cHJpbnQ='', ev_Elapsed = 3\<rparr>"

definition example_host :: host where
  "example_host = no_host\<lparr>ho_dir := True, ho_in := [(''userprogram.py'', ''print'')]\<rparr>"

lemma example_RunSSE:
  "\<exists>jd'. RunSSE example_sse_env (NewJobData 0) example_host = ((jd', no_host), None)"
proof -
  have parse: "json_parse (json_print example_result) = Some example_result"
    by (rule json_print_parse) (simp add: example_result_def)
  have lower: "ToLower ''status'' = ''status''" "ToLower ''job_info'' = ''job_info''"
    "ToLower ''result'' = ''result''" "ToLower ''sampling'' = ''sampling''" "ToLower ''counts'' = ''counts''"
    by (simp_all add: ToLower_def lower_char_def)
  have "case res_bind (jobject (Some example_result)) dec_ResultFileContents of
      Ok c \<Rightarrow> rf_Status c = ''succeeded'' \<and> rf_VirtualPhysicalMappingRaw c = None | _ \<Rightarrow> False"
    by (simp add: example_result_def dec_ResultFileContents_def jfield_def lower jraw_def
        elem_fits_def)
  then obtain c where "Unmarshal_ResultFileContents (json_print example_result) = Ok c"
    and "rf_Status c = ''succeeded''" "rf_VirtualPhysicalMappingRaw c = None"
    by (simp add: Unmarshal_ResultFileContents_def parse split: res.splits)
  moreover have "ToMap None = Ok []"
    by code_simp
  ultimately have set: "snd (setResultToOutputJob example_sse_env h jd) = None"
    if "map_of (ho_out h) ''result.json'' = Some (json_print example_result)" for h jd
    using that by (simp add: setResultToOutputJob_def example_sse_env_def ToStatus_def Let_def)
  have exec: "execCommandInContainer example_sse_env b = (None, [])" for b
    by (simp add: execCommandInContainer_def example_sse_env_def)
  have files: "copyResultFromContainer example_sse_env h =
      (h\<lparr>ho_out := AList.update ''result.json'' (json_print example_result) (ho_out h)\<rparr>, None)" for h
    by (simp add: copyResultFromContainer_def example_sse_env_def guarded_def)
  have log: "saveContainerLog example_sse_env False h =
      (h\<lparr>ho_out := AList.update ''ssecontainer.log'' ''log'' (ho_out h)\<rparr>, None)" for h
    by (simp add: saveContainerLog_def example_sse_env_def)
  have fault: "ev_fault example_sse_env c = None" for c
    by (simp add: example_sse_env_def)
  have conf: "sc_SSELogFileName (ev_SSEConf example_sse_env) = ''ssecontainer.log''"
    "sc_MaxFileSize (ev_SSEConf example_sse_env) = 10485760"
    "ev_Setting example_sse_env = Some example_setting" "ev_ContainerStatus example_sse_env = ''exited''"
    by (simp_all add: example_sse_env_def)
  have "finishSSE example_sse_env False False [] jd
      (h\<lparr>ho_out := AList.update ''result.json'' (json_print example_result) (ho_out h)\<rparr>) =
      ((fst (setResultToOutputJob example_sse_env (h\<lparr>ho_out := AList.update ''ssecontainer.log'' ''log''
          (AList.update ''result.json'' (json_print example_result) (ho_out h))\<rparr>) jd), no_host), None)" for jd h
    using set [of "h\<lparr>ho_out := AList.update ''ssecontainer.log'' ''log''
          (AList.update ''result.json'' (json_print example_result) (ho_out h))\<rparr>" jd]
    by (cases "setResultToOutputJob example_sse_env (h\<lparr>ho_out := AList.update ''ssecontainer.log'' ''log''
          (AList.update ''result.json'' (json_print example_result) (ho_out h))\<rparr>) jd")
      (simp add: finishSSE_def log step_def call_step_def NewSseApiClient_def getParamsFromSetting_def
        s3Upload_def checkFileSize_def stopContainer_def removeContainer_def delVolume_def delDirectory_def
        guarded_def fault gomap no_host_def conf example_setting_def Let_def)
  then show ?thesis
    by (simp add: RunSSE_def exec files fault guarded_def step_def call_step_def createVolume_def
        startContainer_def copyUserProgramIntoContainer_def example_host_def, simp add: example_sse_env_def)
qed

theorem RunSSE_success_witness:
  "\<exists>jd' r. RunSSE example_sse_env (NewJobData 0) example_host = ((jd', no_host), None) \<and>
     ev_ExitCode example_sse_env False = 0 \<and> jd_Result jd' = Some r"
  using example_RunSSE RunSSE_success by blast

definition failing_sse_env :: sse_env where
  "failing_sse_env = example_sse_env\<lparr>ev_TimedOut := (\<lambda>_. True)\<rparr>"

theorem RunSSE_cleanup_witness:
  "snd (fst (RunSSE failing_sse_env (NewJobData 0) example_host)) = no_host"
  by (rule RunSSE_cleanup)
    (simp_all add: cleanup_ok_def failing_sse_env_def example_sse_env_def example_host_def no_host_def)

theorem saveContainerLog_after_failure_witness:
  "map_of (ho_out (fst (saveContainerLog failing_sse_env True example_host))) ''ssecontainer.log'' = Some []"
proof -
  have "saveContainerLog failing_sse_env True example_host =
      (fst (saveContainerLog failing_sse_env True example_host), None)"
    "sc_SSELogFileName (ev_SSEConf failing_sse_env) = ''ssecontainer.log''"
    by (simp_all add: saveContainerLog_def failing_sse_env_def example_sse_env_def)
  then show ?thesis
    using saveContainerLog_after_failure [of failing_sse_env example_host] by metis
qed

end
