(* ===== verification/Core_DB.thy ===== *)
theory Core_DB
  imports Go_Prelude
begin

text \<open>
  The job database of \<open>coreapp/core/db.go\<close>: \<open>MemoryDB\<close>, its operations and the goroutine of
  \<open>Setup\<close> that applies the jobs arriving on the DB channel. The type of jobs is a parameter
  \<open>'j\<close> and \<open>jid\<close> reads a job's ID (\<open>j.JobData().ID\<close>). Every operation holds the mutex for its
  whole body, so each is one step. The interface \<open>core.DBManager\<close> is the locale \<open>job_store\<close>.
\<close>

section \<open>The contract of a job store\<close>

locale job_store =
  fixes insert :: "'j \<Rightarrow> 'd \<Rightarrow> 'd \<times> error option"
    and get :: "string \<Rightarrow> 'd \<Rightarrow> 'j option \<times> error option"
    and update :: "'j \<Rightarrow> 'd \<Rightarrow> 'd \<times> error option"
    and delete :: "string \<Rightarrow> 'd \<Rightarrow> 'd \<times> error option"
    and jid :: "'j \<Rightarrow> string"
    and content :: "'d \<Rightarrow> string \<Rightarrow> 'j option"
    and invar :: "'d \<Rightarrow> bool"
  assumes get_content: "invar d \<Longrightarrow> get i d =
      (case content d i of Some j \<Rightarrow> (Some j, None) | None \<Rightarrow> (None, Some (''not found '' @ i)))"
    and insert_content: "invar d \<Longrightarrow> content (fst (insert j d)) = (content d)(jid j \<mapsto> j)"
    and update_content: "invar d \<Longrightarrow> content (fst (update j d)) = (content d)(jid j \<mapsto> j)"
    and delete_content: "invar d \<Longrightarrow> content (fst (delete i d)) = (content d)(i := None)"
    and insert_ok: "snd (insert j d) = None"
    and update_ok: "snd (update j d) = None"
    and delete_ok: "invar d \<Longrightarrow> snd (delete i d) = None \<longleftrightarrow> content d i \<noteq> None"
    and invar_insert: "invar d \<Longrightarrow> invar (fst (insert j d))"
    and invar_update: "invar d \<Longrightarrow> invar (fst (update j d))"
    and invar_delete: "invar d \<Longrightarrow> invar (fst (delete i d))"
begin

text \<open>The updates that arrive on the DB channel, applied in order.\<close>

lemma fold_update_content:
  assumes "invar d"
  shows "invar (fold (\<lambda>j d. fst (update j d)) js d) \<and>
    content (fold (\<lambda>j d. fst (update j d)) js d) = content d ++ map_of (map (\<lambda>j. (jid j, j)) (rev js))"
  using assms
proof (induction js rule: rev_induct)
  case (snoc j js)
  then show ?case
    by (auto simp: update_content invar_update fun_eq_iff map_add_def)
qed simp

lemma get_after_updates:
  assumes "invar d"
  shows "get i (fold (\<lambda>j d. fst (update j d)) js d) =
    (case map_of (map (\<lambda>j. (jid j, j)) (rev js)) i of
       Some j \<Rightarrow> (Some j, None)
     | None \<Rightarrow> get i d)"
  using fold_update_content [OF assms, of js] assms
  by (simp add: get_content map_add_def split: option.splits)

lemma get_after_insert: "invar d \<Longrightarrow> get (jid j) (fst (insert j d)) = (Some j, None)"
  by (simp add: get_content invar_insert insert_content)

lemma get_after_delete: "invar d \<Longrightarrow> get i (fst (delete i d)) = (None, Some (''not found '' @ i))"
  by (simp add: get_content invar_delete delete_content)

end

section \<open>MemoryDB\<close>

record 'j MemoryDB =
  dbMap :: "(string, 'j) gomap"

definition MemoryDB_Setup :: "'j MemoryDB" where
  "MemoryDB_Setup = \<lparr>dbMap = []\<rparr>"

definition MemoryDB_Insert :: "('j \<Rightarrow> string) \<Rightarrow> 'j \<Rightarrow> 'j MemoryDB \<Rightarrow> 'j MemoryDB \<times> error option" where
  "MemoryDB_Insert jid j d = (d\<lparr>dbMap := AList.update (jid j) j (dbMap d)\<rparr>, None)"

text \<open>On a miss the code also returns an empty job, which callers must not use; here \<open>None\<close>.\<close>

definition MemoryDB_Get :: "string \<Rightarrow> 'j MemoryDB \<Rightarrow> 'j option \<times> error option" where
  "MemoryDB_Get i d =
    (case map_of (dbMap d) i of
       Some val \<Rightarrow> (Some val, None)
     | None \<Rightarrow> (None, Some (''not found '' @ i)))"

definition MemoryDB_Update :: "('j \<Rightarrow> string) \<Rightarrow> 'j \<Rightarrow> 'j MemoryDB \<Rightarrow> 'j MemoryDB \<times> error option" where
  "MemoryDB_Update jid j d = (d\<lparr>dbMap := AList.update (jid j) j (dbMap d)\<rparr>, None)"

definition MemoryDB_Delete :: "string \<Rightarrow> 'j MemoryDB \<Rightarrow> 'j MemoryDB \<times> error option" where
  "MemoryDB_Delete i d =
    (case map_of (dbMap d) i of
       Some _ \<Rightarrow> (d\<lparr>dbMap := AList.delete i (dbMap d)\<rparr>, None)
     | None \<Rightarrow> (d, Some (''failed to find '' @ i)))"

text \<open>\<open>UpdateQASM\<close>: a missing job reads as a nil interface, whose \<open>JobData()\<close> panics.\<close>

definition MemoryDB_UpdateQASM ::
  "(string \<Rightarrow> 'j \<Rightarrow> 'j) \<Rightarrow> string \<Rightarrow> string \<Rightarrow> 'j MemoryDB \<Rightarrow> 'j MemoryDB res" where
  "MemoryDB_UpdateQASM set_qasm i qasm_str d =
    (case map_of (dbMap d) i of
       None \<Rightarrow> Panic
     | Some job \<Rightarrow> Ok (d\<lparr>dbMap := AList.update i (set_qasm qasm_str job) (dbMap d)\<rparr>))"

text \<open>The goroutine of \<open>Setup\<close>: it applies each job received, and stops when the channel is closed
  (a nil job).\<close>

fun MemoryDB_loop :: "('j \<Rightarrow> string) \<Rightarrow> 'j option list \<Rightarrow> 'j MemoryDB \<Rightarrow> 'j MemoryDB" where
  "MemoryDB_loop jid [] d = d"
| "MemoryDB_loop jid (None # rest) d = d"
| "MemoryDB_loop jid (Some job # rest) d = MemoryDB_loop jid rest (fst (MemoryDB_Update jid job d))"

definition wf_MemoryDB :: "'j MemoryDB \<Rightarrow> bool" where
  "wf_MemoryDB d \<longleftrightarrow> wf_map (dbMap d)"

interpretation memory_db: job_store
  "MemoryDB_Insert jid" MemoryDB_Get "MemoryDB_Update jid" MemoryDB_Delete jid
  "\<lambda>d. map_of (dbMap d)" wf_MemoryDB
  for jid :: "'j \<Rightarrow> string"
  by unfold_locales
    (auto simp: MemoryDB_Insert_def MemoryDB_Get_def MemoryDB_Update_def MemoryDB_Delete_def
       wf_MemoryDB_def gomap fun_eq_iff split: option.splits)

lemma MemoryDB_loop_Some:
  "MemoryDB_loop jid (map Some js) d = fold (\<lambda>j d. fst (MemoryDB_Update jid j d)) js d"
  by (induction js arbitrary: d) auto

lemma MemoryDB_loop_closed: "MemoryDB_loop jid (xs @ None # ys) d = MemoryDB_loop jid xs d"
  by (induction jid xs d rule: MemoryDB_loop.induct) auto

text \<open>
  after the DB goroutine has applied the jobs received on the channel up to its closing, a
  lookup finds the last job received with that ID, and what was stored before for every other ID.
\<close>

theorem MemoryDB_Get_after_loop:
  assumes "wf_MemoryDB d"
  shows "MemoryDB_Get i (MemoryDB_loop jid (map Some js @ None # late) d) =
    (case map_of (map (\<lambda>j. (jid j, j)) (rev js)) i of
       Some j \<Rightarrow> (Some j, None)
     | None \<Rightarrow> MemoryDB_Get i d)"
  using memory_db.get_after_updates [OF assms]
  by (simp add: MemoryDB_loop_closed MemoryDB_loop_Some)

theorem MemoryDB_Get_after_loop_witness:
  "MemoryDB_Get ''a'' (MemoryDB_loop fst (map Some [(''a'', 1), (''b'', 2), (''a'', 3)] @ None # [Some (''a'', 9)])
      MemoryDB_Setup) = (Some (''a'', 3 :: nat), None)"
  by (subst MemoryDB_Get_after_loop) (simp_all add: wf_MemoryDB_def MemoryDB_Setup_def)

text \<open>
  A job that was inserted is found, a job that was deleted is not found again, and deleting
  succeeds exactly for the IDs that are stored.
\<close>

theorem MemoryDB_insert_delete_get:
  assumes "wf_MemoryDB d"
  shows "MemoryDB_Get (jid j) (fst (MemoryDB_Insert jid j d)) = (Some j, None) \<and>
    MemoryDB_Get i (fst (MemoryDB_Delete i d)) = (None, Some (''not found '' @ i)) \<and>
    (snd (MemoryDB_Delete i d) = None \<longleftrightarrow> fst (MemoryDB_Get i d) \<noteq> None)"
  using memory_db.get_after_insert [OF assms] memory_db.get_after_delete [OF assms]
    memory_db.delete_ok [OF assms]
  by (simp add: MemoryDB_Get_def split: option.splits)

theorem MemoryDB_insert_delete_get_witness:
  "MemoryDB_Get ''a'' (fst (MemoryDB_Insert fst (''a'', 1 :: nat) MemoryDB_Setup)) = (Some (''a'', 1), None)"
  using MemoryDB_insert_delete_get [of MemoryDB_Setup fst "(''a'', 1 :: nat)" "''a''"]
  by (simp add: wf_MemoryDB_def MemoryDB_Setup_def)

end
