(* ===== verification/Queue.thy ===== *)
theory Queue
  imports Go_Prelude
begin

text \<open>
  \<open>coreapp/scheduler/queue.go\<close>: the job queue. The queue it wraps, \<open>goconcurrentqueue.FIFO\<close>, is not
  part of the repository: its operations are an argument of everything that uses the queue, the record
  \<open>FIFO\<close>, and what is documented of them is the locale \<open>fifo_queue\<close>, in which the list \<open>content q\<close> is what
  the queue holds. \<open>Enqueue\<close> may fail, and then leaves the content as it was; the other operations fail
  only where there is nothing to return (nobody locks the queue). Every operation of that package is atomic.
\<close>

record ('q, 'j) FIFO =
  ff_NewFIFO :: 'q
  ff_Enqueue :: "'j \<Rightarrow> 'q \<Rightarrow> 'q \<times> error option"
  ff_Dequeue :: "'q \<Rightarrow> ('q \<times> 'j) res"
  ff_Get :: "nat \<Rightarrow> 'q \<Rightarrow> 'j res"
  ff_GetLen :: "'q \<Rightarrow> nat"
  ff_Remove :: "nat \<Rightarrow> 'q \<Rightarrow> 'q \<times> error option"

record 'q NormalQueue =
  nq_fifo :: 'q
  nq_maxSize :: int
  nq_refillThreshold :: int

section \<open>Operations\<close>

definition NormalQueue_Setup :: "('q, 'j) FIFO \<Rightarrow> int \<Rightarrow> int \<Rightarrow> 'q NormalQueue" where
  "NormalQueue_Setup f queueMaxSize queueRefillThreshold =
    \<lparr>nq_fifo = ff_NewFIFO f, nq_maxSize = queueMaxSize, nq_refillThreshold = queueRefillThreshold\<rparr>"

text \<open>
  The body of the goroutine of \<open>Setup\<close> for one received job; the second component says whether the
  job was put into the queue. A full queue, and a failing \<open>Enqueue\<close>, only write a log entry.
\<close>

definition NormalQueue_put :: "('q, 'j) FIFO \<Rightarrow> 'j \<Rightarrow> 'q NormalQueue \<Rightarrow> 'q NormalQueue \<times> bool" where
  "NormalQueue_put f jis n =
    (if nq_maxSize n \<le> int (ff_GetLen f (nq_fifo n)) then (n, False)
     else
       (case ff_Enqueue f jis (nq_fifo n) of
          (q, None) \<Rightarrow> (n\<lparr>nq_fifo := q\<rparr>, True)
        | (q, Some _) \<Rightarrow> (n\<lparr>nq_fifo := q\<rparr>, False)))"

text \<open>\<open>Dequeue(false)\<close>; \<open>Dequeue(true)\<close> waits until this is not an error.\<close>

definition NormalQueue_Dequeue :: "('q, 'j) FIFO \<Rightarrow> 'q NormalQueue \<Rightarrow> ('q NormalQueue \<times> 'j) res" where
  "NormalQueue_Dequeue f n =
    res_bind (ff_Dequeue f (nq_fifo n)) (\<lambda>(q, jis). Ok (n\<lparr>nq_fifo := q\<rparr>, jis))"

fun getIdx_loop :: "('q, 'j) FIFO \<Rightarrow> ('j \<Rightarrow> string) \<Rightarrow> string \<Rightarrow> 'q \<Rightarrow> nat list \<Rightarrow> nat res" where
  "getIdx_loop f jid jobID q [] = Err ''No entry''"
| "getIdx_loop f jid jobID q (i # is) =
    (case ff_Get f i q of
       Ok js \<Rightarrow> if jid js = jobID then Ok i else getIdx_loop f jid jobID q is
     | _ \<Rightarrow> getIdx_loop f jid jobID q is)"

definition NormalQueue_getIdx :: "('q, 'j) FIFO \<Rightarrow> ('j \<Rightarrow> string) \<Rightarrow> string \<Rightarrow> 'q NormalQueue \<Rightarrow> nat res" where
  "NormalQueue_getIdx f jid jobID n =
    getIdx_loop f jid jobID (nq_fifo n) [0..<ff_GetLen f (nq_fifo n)]"

definition NormalQueue_Delete ::
  "('q, 'j) FIFO \<Rightarrow> ('j \<Rightarrow> string) \<Rightarrow> string \<Rightarrow> 'q NormalQueue \<Rightarrow> 'q NormalQueue \<times> error option" where
  "NormalQueue_Delete f jid jobID n =
    (case NormalQueue_getIdx f jid jobID n of
       Ok idx \<Rightarrow> (case ff_Remove f idx (nq_fifo n) of (q, err) \<Rightarrow> (n\<lparr>nq_fifo := q\<rparr>, err))
     | Err er \<Rightarrow> (n, Some er)
     | Panic \<Rightarrow> (n, Some ''panic''))"

definition NormalQueue_IsOverRefillThreshold :: "('q, 'j) FIFO \<Rightarrow> 'q NormalQueue \<Rightarrow> bool" where
  "NormalQueue_IsOverRefillThreshold f n \<longleftrightarrow> nq_refillThreshold n \<le> int (ff_GetLen f (nq_fifo n))"

definition NormalQueue_GetCurrentSize :: "('q, 'j) FIFO \<Rightarrow> 'q NormalQueue \<Rightarrow> nat" where
  "NormalQueue_GetCurrentSize f n = ff_GetLen f (nq_fifo n)"

section \<open>The contract of the wrapped queue\<close>

lemma filter_upt_split:
  "case filter (\<lambda>i. P (xs ! i)) [0..<length xs] of
     [] \<Rightarrow> filter P xs = []
   | i # _ \<Rightarrow> i < length xs \<and> P (xs ! i) \<and> (\<forall>k < i. \<not> P (xs ! k))"
proof (cases "filter (\<lambda>i. P (xs ! i)) [0..<length xs]")
  case (Cons i r)
  have i: "i \<in> set (filter (\<lambda>i. P (xs ! i)) [0..<length xs])"
    unfolding Cons by simp
  then have "i < length xs" "P (xs ! i)"
    by simp_all
  moreover have "\<not> P (xs ! k)" if "k < i" for k
  proof
    assume "P (xs ! k)"
    then have "k \<in> set (i # r)"
      using that i unfolding Cons [symmetric] by auto
    moreover have "sorted (i # r)"
      unfolding Cons [symmetric] by (intro sorted_wrt_filter) simp
    ultimately show False
      using that by auto
  qed
  ultimately show ?thesis
    using Cons by simp
next
  case Nil
  then show ?thesis
    by (auto simp: filter_empty_conv in_set_conv_nth)
qed

locale fifo_queue =
  fixes f :: "('q, 'j) FIFO" and content :: "'q \<Rightarrow> 'j list"
  assumes new: "content (ff_NewFIFO f) = []"
    and enqueue: "case ff_Enqueue f j q of
        (q', None) \<Rightarrow> content q' = content q @ [j]
      | (q', Some _) \<Rightarrow> content q' = content q"
    and dequeue: "case content q of
        [] \<Rightarrow> (\<exists>er. ff_Dequeue f q = Err er)
      | j # js \<Rightarrow> (\<exists>q'. ff_Dequeue f q = Ok (q', j) \<and> content q' = js)"
    and get: "i < length (content q) \<Longrightarrow> ff_Get f i q = Ok (content q ! i)"
    and getlen: "ff_GetLen f q = length (content q)"
    and remove: "i < length (content q) \<Longrightarrow>
      \<exists>q'. ff_Remove f i q = (q', None) \<and> content q' = take i (content q) @ drop (Suc i) (content q)"
begin

definition items :: "'q NormalQueue \<Rightarrow> 'j list" where
  "items n = content (nq_fifo n)"

lemma put_items:
  "NormalQueue_put f j n = (n', put) \<Longrightarrow>
    nq_maxSize n' = nq_maxSize n \<and> nq_refillThreshold n' = nq_refillThreshold n \<and>
    (put \<longrightarrow> int (length (items n)) < nq_maxSize n) \<and>
    items n' = (if put then items n @ [j] else items n)"
  using enqueue [where j = j and q = "nq_fifo n"]
  by (auto simp: NormalQueue_put_def items_def getlen split: if_splits prod.splits option.splits)

lemma dequeue_items:
  "NormalQueue_Dequeue f n = Ok (n', j) \<Longrightarrow>
    items n = j # items n' \<and> nq_maxSize n' = nq_maxSize n \<and> nq_refillThreshold n' = nq_refillThreshold n"
  using dequeue [of "nq_fifo n"]
  by (auto simp: NormalQueue_Dequeue_def items_def res_simps split: list.splits)

lemma dequeue_ok: "(\<exists>r. NormalQueue_Dequeue f n = Ok r) \<longleftrightarrow> items n \<noteq> []"
  using dequeue [of "nq_fifo n"]
  by (cases "content (nq_fifo n)") (auto simp: NormalQueue_Dequeue_def items_def res_simps)

lemma getIdx_loop_items:
  assumes "list_all (\<lambda>i. i < length (content q)) is"
  shows "getIdx_loop f jid jobID q is =
    (case filter (\<lambda>i. jid (content q ! i) = jobID) is of [] \<Rightarrow> Err ''No entry'' | i # _ \<Rightarrow> Ok i)"
  using assms by (induction "is") (auto simp: get)

lemma delete_items:
  "NormalQueue_Delete f jid jobID n = (n', err) \<Longrightarrow>
    (case err of
       None \<Rightarrow> (\<exists>xs j ys. items n = xs @ j # ys \<and> items n' = xs @ ys \<and> jid j = jobID \<and>
                  (\<forall>k \<in> set xs. jid k \<noteq> jobID))
     | Some _ \<Rightarrow> n' = n \<and> (\<forall>k \<in> set (items n). jid k \<noteq> jobID))"
proof -
  let ?xs = "content (nq_fifo n)"
  let ?P = "\<lambda>j. jid j = jobID"
  assume del: "NormalQueue_Delete f jid jobID n = (n', err)"
  have idx: "NormalQueue_getIdx f jid jobID n =
      (case filter (\<lambda>i. ?P (?xs ! i)) [0..<length ?xs] of [] \<Rightarrow> Err ''No entry'' | i # _ \<Rightarrow> Ok i)"
    unfolding NormalQueue_getIdx_def getlen by (rule getIdx_loop_items) (simp add: list_all_iff)
  show ?thesis
  proof (cases "filter (\<lambda>i. ?P (?xs ! i)) [0..<length ?xs]")
    case Nil
    then show ?thesis
      using del idx filter_upt_split [of ?P ?xs]
      by (auto simp: NormalQueue_Delete_def items_def filter_empty_conv)
  next
    case (Cons i r)
    then have i: "i < length ?xs" "?P (?xs ! i)" "\<forall>k < i. \<not> ?P (?xs ! k)"
      using filter_upt_split [of ?P ?xs] by simp_all
    obtain q' where q': "ff_Remove f i (nq_fifo n) = (q', None)"
      "content q' = take i ?xs @ drop (Suc i) ?xs"
      using remove [OF i(1)] by blast
    have "\<forall>k \<in> set (take i ?xs). jid k \<noteq> jobID"
      using i by (auto simp: in_set_conv_nth)
    moreover have "?xs = take i ?xs @ ?xs ! i # drop (Suc i) ?xs"
      using i(1) by (rule id_take_nth_drop)
    ultimately have "\<exists>xs j ys. ?xs = xs @ j # ys \<and> content q' = xs @ ys \<and> jid j = jobID \<and>
        (\<forall>k \<in> set xs. jid k \<noteq> jobID)"
      using q'(2) i(2) by blast
    moreover have "n' = n\<lparr>nq_fifo := q'\<rparr>" "err = None"
      using del idx Cons q'(1) by (simp_all add: NormalQueue_Delete_def)
    ultimately show ?thesis
      by (simp add: items_def)
  qed
qed

end

text \<open>
  C38: Whatever queue of the package's contract is wrapped: \<open>Delete\<close> removes the first waiting job with the
  given ID and leaves all others in their order; it fails, without changing the queue, exactly when no
  waiting job has that ID.
\<close>

theorem NormalQueue_Delete_first:
  assumes "fifo_queue f content"
  shows "\<exists>n' err. NormalQueue_Delete f jid jobID n = (n', err) \<and>
    (case err of
       None \<Rightarrow> (\<exists>xs j ys. content (nq_fifo n) = xs @ j # ys \<and> content (nq_fifo n') = xs @ ys \<and> jid j = jobID \<and>
                  jobID \<notin> jid ` set xs)
     | Some _ \<Rightarrow> n' = n \<and> jobID \<notin> jid ` set (content (nq_fifo n)))"
proof -
  obtain n' err where "NormalQueue_Delete f jid jobID n = (n', err)"
    by fastforce
  then show ?thesis
    using fifo_queue.delete_items [OF assms, of jid jobID n n' err] fifo_queue.items_def [OF assms]
    by (fastforce split: option.splits)
qed

section \<open>A queue with the contract\<close>

text \<open>
  A list with the contract of the package's queue. Only examples run on it: no definition that models
  code and no theorem about the code depends on it.
\<close>

definition list_fifo :: "('j list, 'j) FIFO" where
  "list_fifo =
    \<lparr>ff_NewFIFO = [],
     ff_Enqueue = (\<lambda>j q. (q @ [j], None)),
     ff_Dequeue = (\<lambda>q. case q of [] \<Rightarrow> Err ''empty queue'' | j # js \<Rightarrow> Ok (js, j)),
     ff_Get = (\<lambda>i q. if i < length q then Ok (q ! i) else Err ''index out of bounds''),
     ff_GetLen = length,
     ff_Remove = (\<lambda>i q. if i < length q then (take i q @ drop (Suc i) q, None)
                         else (q, Some ''index out of bounds''))\<rparr>"

interpretation list_queue: fifo_queue list_fifo "\<lambda>q. q"
  by unfold_locales (auto simp: list_fifo_def split: list.split)

theorem NormalQueue_Delete_first_witness:
  "\<exists>n'. NormalQueue_Delete list_fifo fst ''b'' \<lparr>nq_fifo = [(''a'', 1), (''b'', 2), (''c'', 3), (''b'', 4 :: nat)],
      nq_maxSize = 10, nq_refillThreshold = 5\<rparr> = (n', None) \<and>
    nq_fifo n' = [(''a'', 1), (''c'', 3), (''b'', 4)]"
proof -
  let ?n = "\<lparr>nq_fifo = [(''a'', 1), (''b'', 2), (''c'', 3), (''b'', 4 :: nat)], nq_maxSize = 10, nq_refillThreshold = 5\<rparr>"
  obtain n' err where d: "NormalQueue_Delete list_fifo fst ''b'' ?n = (n', err)"
    and e: "case err of
       None \<Rightarrow> (\<exists>xs j ys. nq_fifo ?n = xs @ j # ys \<and> nq_fifo n' = xs @ ys \<and> fst j = ''b'' \<and> ''b'' \<notin> fst ` set xs)
     | Some _ \<Rightarrow> n' = ?n \<and> ''b'' \<notin> fst ` set (nq_fifo ?n)"
    using NormalQueue_Delete_first [OF list_queue.fifo_queue_axioms, of fst "''b''" ?n] by blast
  then obtain xs j ys where x: "err = None" "nq_fifo ?n = xs @ j # ys" "nq_fifo n' = xs @ ys" "fst j = ''b''"
    "''b'' \<notin> fst ` set xs"
    by (auto split: option.splits)
  then have "xs = [(''a'', 1)] \<and> j = (''b'', 2) \<and> ys = [(''c'', 3), (''b'', 4)]"
    by (auto simp: Cons_eq_append_conv)
  then show ?thesis
    using d x by simp
qed

end
