(* ===== verification/Scheduler.thy ===== *)
theory Scheduler
  imports Core_Job Core_DB Queue
begin

text \<open>
  \<open>coreapp/scheduler/scheduler.go\<close>: the scheduler as a system of goroutines.

  \<^item> One handler per job (\<open>HandleJob\<close>, \<open>handleImpl\<close>): it pre-processes the job, hands it to the queue
    goroutine, waits on a wait group until it was processed, and post-processes it. Its program
    counter \<open>hpc\<close> has one value for each place between two communications (a message on the DB channel
    or the queue channel, an access to the locked status history, waiting).
  \<^item> The queue goroutine (\<open>NormalQueue.Setup\<close>): it receives a job and puts it into the queue.
  \<^item> The executor (\<open>Start\<close>): it takes one job after the other out of the queue and processes it.

  A goroutine's step is a function that gives \<open>None\<close> when the goroutine is blocked; \<open>sched_step\<close>
  interleaves the goroutines and the arrival of new jobs. The job methods get a new environment in
  every step. A pointer to a job is the index of its handler. The queue is any queue of the package that
  \<open>NormalQueue\<close> wraps, the argument \<open>fq\<close>.

  The receiver of the DB channel is always ready (its loop is \<open>Core_DB.MemoryDB_loop\<close>), so that a send is
  one step. Two things are left out by this: the channel is closed when the engine is torn down
  (\<open>Channels.Close\<close>, called after the run group has ended), so that a goroutine still at work would panic
  on its next send, and a database that does not receive would block the sender; the steps here are those
  of a running engine with a receiving database. The messages sent are kept in \<open>sy_db\<close> with the index
  of the job. \<open>sy_enq\<close>, \<open>sy_exec\<close> and \<open>sy_dropped\<close> record which jobs were put into
  the queue, taken out of it and turned away, and \<open>h_unexpected\<close> that a handler gave up because of the
  job's status: they are not part of the code's state.
\<close>

section \<open>State\<close>

datatype hpc =
    H_Loop | H_Pre | H_PreSend | H_PreHist | H_Enq | H_Wait | H_FinSend | H_FinHist | H_FinSend2
  | H_Post | H_PostHist | H_PostSend | H_Recover | H_RecSend | H_Defer | H_Done

datatype epc = E_Run | E_Send | E_Proc | E_RecSend | E_Done

record 'j handler =
  h_pc :: hpc
  h_job :: 'j
  h_wg :: nat
  h_unexpected :: bool

record ('q, 'j) sched =
  sy_handlers :: "'j handler list"
  sy_queue :: "'q NormalQueue"
  sy_received :: "nat option"
  sy_running :: "(nat \<times> epc) option"
  sy_hist :: "(string, Status list) gomap"
  sy_db :: "(nat \<times> 'j) list"
  sy_enq :: "nat list"
  sy_exec :: "nat list"
  sy_dropped :: "nat list"

definition NormalScheduler_Setup :: "('q, nat) FIFO \<Rightarrow> int \<Rightarrow> int \<Rightarrow> ('q, 'j) sched" where
  "NormalScheduler_Setup fq queueMaxSize queueRefillThreshold =
    \<lparr>sy_handlers = [], sy_queue = NormalQueue_Setup fq queueMaxSize queueRefillThreshold,
     sy_received = None, sy_running = None, sy_hist = [], sy_db = [], sy_enq = [], sy_exec = [],
     sy_dropped = []\<rparr>"

definition NormalScheduler_GetCurrentQueueSize :: "('q, nat) FIFO \<Rightarrow> ('q, 'j) sched \<Rightarrow> nat" where
  "NormalScheduler_GetCurrentQueueSize fq s = NormalQueue_GetCurrentSize fq (sy_queue s)"

definition NormalScheduler_IsOverRefillThreshold :: "('q, nat) FIFO \<Rightarrow> ('q, 'j) sched \<Rightarrow> bool" where
  "NormalScheduler_IsOverRefillThreshold fq s = NormalQueue_IsOverRefillThreshold fq (sy_queue s)"

section \<open>Elementary actions\<close>

definition upd :: "nat \<Rightarrow> ('j handler \<Rightarrow> 'j handler) \<Rightarrow> ('q, 'j) sched \<Rightarrow> ('q, 'j) sched" where
  "upd i f s = s\<lparr>sy_handlers := (sy_handlers s)[i := f (sy_handlers s ! i)]\<rparr>"

definition goto :: "nat \<Rightarrow> hpc \<Rightarrow> 'j \<Rightarrow> ('q, 'j) sched \<Rightarrow> ('q, 'j) sched" where
  "goto i pc j s = upd i (\<lambda>h. h\<lparr>h_pc := pc, h_job := j\<rparr>) s"

definition set_status :: "('e, 'j) JobOps \<Rightarrow> Status \<Rightarrow> 'j \<Rightarrow> 'j" where
  "set_status ops st j = jo_put ops ((jo_JobData ops j)\<lparr>jd_Status := st\<rparr>) j"

definition set_flag :: "('e, 'j) JobOps \<Rightarrow> bool \<Rightarrow> 'j \<Rightarrow> 'j" where
  "set_flag ops b j = jo_put ops ((jo_JobData ops j)\<lparr>jd_UseJobInfoUpdate := b\<rparr>) j"

definition add_hist :: "('e, 'j) JobOps \<Rightarrow> 'j \<Rightarrow> Status \<Rightarrow> ('q, 'j) sched \<Rightarrow> ('q, 'j) sched" where
  "add_hist ops j st s =
    (let jid = jd_ID (jo_JobData ops j);
         old = (case map_of (sy_hist s) jid of None \<Rightarrow> [] | Some xs \<Rightarrow> xs)
     in s\<lparr>sy_hist := AList.update jid (old @ [st]) (sy_hist s)\<rparr>)"

definition send_db :: "('e, 'j) JobOps \<Rightarrow> 'e \<Rightarrow> nat \<Rightarrow> ('q, 'j) sched \<Rightarrow> ('q, 'j) sched" where
  "send_db ops e i s = s\<lparr>sy_db := sy_db s @ [(i, jo_Clone ops e (h_job (sy_handlers s ! i)))]\<rparr>"

abbreviation status_of :: "('e, 'j) JobOps \<Rightarrow> 'j \<Rightarrow> Status" where
  "status_of ops j \<equiv> jd_Status (jo_JobData ops j)"

section \<open>The handler\<close>

definition after_loop_head :: "('e, 'j) JobOps \<Rightarrow> nat \<Rightarrow> 'j \<Rightarrow> ('q, 'j) sched \<Rightarrow> ('q, 'j) sched" where
  "after_loop_head ops i j s =
    (let j = set_flag ops False j; st = status_of ops j; s = add_hist ops j st s in
     if st \<noteq> READY then upd i (\<lambda>h. h\<lparr>h_pc := H_Defer, h_job := j, h_unexpected := True\<rparr>) s
     else goto i H_Pre j s)"

definition after_pre :: "('e, 'j) JobOps \<Rightarrow> nat \<Rightarrow> ('j, unit) outcome \<Rightarrow> ('q, 'j) sched \<Rightarrow> ('q, 'j) sched" where
  "after_pre ops i m s =
    (case m of
       Pan j \<Rightarrow> goto i H_Recover j s
     | Ret _ j \<Rightarrow>
         (case jo_IsFinished ops j of
            Ok finished \<Rightarrow> goto i H_PreSend (if finished then set_flag ops True j else j) s
          | _ \<Rightarrow> goto i H_Recover j s))"

definition after_wait :: "('e, 'j) JobOps \<Rightarrow> nat \<Rightarrow> 'j \<Rightarrow> ('q, 'j) sched \<Rightarrow> ('q, 'j) sched" where
  "after_wait ops i j s =
    (let j = set_flag ops True j in
     case jo_IsFinished ops j of
       Ok finished \<Rightarrow> goto i (if finished then H_FinSend else H_Post) j s
     | _ \<Rightarrow> goto i H_Recover j s)"

definition after_post :: "('e, 'j) JobOps \<Rightarrow> nat \<Rightarrow> ('j, unit) outcome \<Rightarrow> ('q, 'j) sched \<Rightarrow> ('q, 'j) sched" where
  "after_post ops i m s =
    (case m of
       Pan j \<Rightarrow> goto i H_Recover j s
     | Ret _ j \<Rightarrow>
         (case jo_IsFinished ops j of
            Ok finished \<Rightarrow> goto i (if finished then H_PostHist else H_Loop) j s
          | _ \<Rightarrow> goto i H_Recover j s))"

definition handler_step :: "('e, 'j) JobOps \<Rightarrow> 'e \<Rightarrow> nat \<Rightarrow> ('q, 'j) sched \<Rightarrow> ('q, 'j) sched option" where
  "handler_step ops e i s =
    (let h = sy_handlers s ! i; j = h_job h in
     case h_pc h of
       H_Loop \<Rightarrow> Some (after_loop_head ops i j s)
     | H_Pre \<Rightarrow> Some (after_pre ops i (jo_PreProcess ops e j) s)
     | H_PreSend \<Rightarrow>
         Some (goto i
           (case jo_IsFinished ops j of Ok finished \<Rightarrow> if finished then H_PreHist else H_Enq | _ \<Rightarrow> H_Recover)
           j (send_db ops e i s))
     | H_PreHist \<Rightarrow> Some (goto i H_Defer j (add_hist ops j (status_of ops j) s))
     | H_Enq \<Rightarrow>
         if sy_received s = None
         then Some (upd i (\<lambda>h. h\<lparr>h_pc := H_Wait, h_wg := 1\<rparr>) (s\<lparr>sy_received := Some i\<rparr>))
         else None
     | H_Wait \<Rightarrow> if h_wg h = 0 then Some (after_wait ops i j s) else None
     | H_FinSend \<Rightarrow> Some (goto i H_FinHist j (send_db ops e i s))
     | H_FinHist \<Rightarrow> Some (goto i H_FinSend2 j (add_hist ops j (status_of ops j) s))
     | H_FinSend2 \<Rightarrow> Some (goto i H_Defer j (send_db ops e i s))
     | H_Post \<Rightarrow> Some (after_post ops i (jo_PostProcess ops e j) s)
     | H_PostHist \<Rightarrow> Some (goto i H_PostSend j (add_hist ops j (status_of ops j) s))
     | H_PostSend \<Rightarrow> Some (goto i H_Defer j (send_db ops e i s))
     | H_Recover \<Rightarrow>
         (let j = set_status ops FAILED j in Some (goto i H_RecSend j (add_hist ops j FAILED s)))
     | H_RecSend \<Rightarrow> Some (goto i H_Defer j (send_db ops e i s))
     | H_Defer \<Rightarrow>
         Some (goto i H_Done j (s\<lparr>sy_hist := AList.delete (jd_ID (jo_JobData ops j)) (sy_hist s)\<rparr>))
     | H_Done \<Rightarrow> None)"

section \<open>Queue goroutine and executor\<close>

definition queue_step :: "('q, nat) FIFO \<Rightarrow> ('q, 'j) sched \<Rightarrow> ('q, 'j) sched option" where
  "queue_step fq s =
    (case sy_received s of
       None \<Rightarrow> None
     | Some i \<Rightarrow>
         (case NormalQueue_put fq i (sy_queue s) of
            (q, put) \<Rightarrow>
              Some (s\<lparr>sy_received := None, sy_queue := q,
                      sy_enq := (if put then sy_enq s @ [i] else sy_enq s),
                      sy_dropped := (if put then sy_dropped s else sy_dropped s @ [i])\<rparr>)))"

definition executor_step :: "('q, nat) FIFO \<Rightarrow> ('e, 'j) JobOps \<Rightarrow> 'e \<Rightarrow> ('q, 'j) sched \<Rightarrow> ('q, 'j) sched option" where
  "executor_step fq ops e s =
    (case sy_running s of
       None \<Rightarrow>
         (case NormalQueue_Dequeue fq (sy_queue s) of
            Ok (q, i) \<Rightarrow> Some (s\<lparr>sy_queue := q, sy_running := Some (i, E_Run), sy_exec := sy_exec s @ [i]\<rparr>)
          | _ \<Rightarrow> None)
     | Some (i, pc) \<Rightarrow>
         (let j = h_job (sy_handlers s ! i);
              to = (\<lambda>pc j s. upd i (\<lambda>h. h\<lparr>h_job := j\<rparr>) (s\<lparr>sy_running := Some (i, pc)\<rparr>)) in
          Some (case pc of
             E_Run \<Rightarrow> to E_Send (set_status ops RUNNING j) (add_hist ops j RUNNING s)
           | E_Send \<Rightarrow> to E_Proc j (send_db ops e i s)
           | E_Proc \<Rightarrow>
               (case jo_Process ops e j of
                  Ret _ j \<Rightarrow> to E_Done j s
                | Pan j \<Rightarrow> to E_RecSend (set_status ops FAILED j) s)
           | E_RecSend \<Rightarrow> to E_Done j (send_db ops e i s)
           | E_Done \<Rightarrow> upd i (\<lambda>h. h\<lparr>h_wg := h_wg h - 1\<rparr>) (s\<lparr>sy_running := None\<rparr>))))"

definition HandleJob :: "'j \<Rightarrow> ('q, 'j) sched \<Rightarrow> ('q, 'j) sched" where
  "HandleJob j s =
    s\<lparr>sy_handlers := sy_handlers s @ [\<lparr>h_pc = H_Loop, h_job = j, h_wg = 0, h_unexpected = False\<rparr>]\<rparr>"

inductive sched_step :: "('q, nat) FIFO \<Rightarrow> ('e, 'j) JobOps \<Rightarrow> ('e \<Rightarrow> bool) \<Rightarrow> ('q, 'j) sched \<Rightarrow> ('q, 'j) sched \<Rightarrow> bool"
  for fq ops ok where
  arrive: "sched_step fq ops ok s (HandleJob j s)"
| handle: "ok e \<Longrightarrow> i < length (sy_handlers s) \<Longrightarrow> handler_step ops e i s = Some s' \<Longrightarrow> sched_step fq ops ok s s'"
| queue: "queue_step fq s = Some s' \<Longrightarrow> sched_step fq ops ok s s'"
| execute: "ok e \<Longrightarrow> executor_step fq ops e s = Some s' \<Longrightarrow> sched_step fq ops ok s s'"

inductive_cases sched_stepE: "sched_step fq ops ok s s'"

inductive reachable :: "('q, nat) FIFO \<Rightarrow> ('e, 'j) JobOps \<Rightarrow> ('e \<Rightarrow> bool) \<Rightarrow> int \<Rightarrow> int \<Rightarrow> ('q, 'j) sched \<Rightarrow> bool"
  for fq ops ok mx th where
  init: "reachable fq ops ok mx th (NormalScheduler_Setup fq mx th)"
| step: "reachable fq ops ok mx th s \<Longrightarrow> sched_step fq ops ok s s' \<Longrightarrow> reachable fq ops ok mx th s'"

section \<open>What the scheduler relies on\<close>

text \<open>
  The queue of the scheduler holds numbers of handlers: any queue with the contract of \<open>Queue\<close>. The second
  locale adds the contract of the job methods.
\<close>

locale job_queue = fifo_queue fq content
  for fq :: "('q, nat) FIFO" and content :: "'q \<Rightarrow> nat list"

locale scheduler = job_contract ops ok + job_queue fq content
  for ops :: "('e, 'j) JobOps" and ok :: "'e \<Rightarrow> bool" and fq :: "('q, nat) FIFO" and content :: "'q \<Rightarrow> nat list"

section \<open>What a step changes\<close>

lemma sched_step_cases [consumes 1, case_names arrive handle queue execute]:
  assumes "sched_step fq ops ok s s'"
  obtains (arrive) j where "s' = HandleJob j s"
    | (handle) e i where "ok e" "i < length (sy_handlers s)" "handler_step ops e i s = Some s'"
    | (queue) "queue_step fq s = Some s'"
    | (execute) e where "ok e" "executor_step fq ops e s = Some s'"
  using assms by (auto elim: sched_stepE)

text \<open>The part of the state that the queue goroutine and the executor own.\<close>

definition same_queue :: "('q, 'j) sched \<Rightarrow> ('q, 'j) sched \<Rightarrow> bool" where
  "same_queue s s' \<longleftrightarrow> sy_queue s' = sy_queue s \<and> sy_received s' = sy_received s \<and>
    sy_running s' = sy_running s \<and> sy_enq s' = sy_enq s \<and> sy_exec s' = sy_exec s \<and>
    sy_dropped s' = sy_dropped s"

lemma upd_simps [simp]:
  "sy_handlers (upd i f s) = (sy_handlers s)[i := f (sy_handlers s ! i)]"
  "sy_queue (upd i f s) = sy_queue s" "sy_received (upd i f s) = sy_received s"
  "sy_running (upd i f s) = sy_running s" "sy_enq (upd i f s) = sy_enq s"
  "sy_exec (upd i f s) = sy_exec s" "sy_dropped (upd i f s) = sy_dropped s"
  "sy_db (upd i f s) = sy_db s" "sy_hist (upd i f s) = sy_hist s"
  by (simp_all add: upd_def)

lemma add_hist_simps [simp]:
  "sy_handlers (add_hist ops j st s) = sy_handlers s"
  "sy_queue (add_hist ops j st s) = sy_queue s" "sy_received (add_hist ops j st s) = sy_received s"
  "sy_running (add_hist ops j st s) = sy_running s" "sy_enq (add_hist ops j st s) = sy_enq s"
  "sy_exec (add_hist ops j st s) = sy_exec s" "sy_dropped (add_hist ops j st s) = sy_dropped s"
  "sy_db (add_hist ops j st s) = sy_db s"
  by (simp_all add: add_hist_def Let_def)

lemma send_db_simps [simp]:
  "sy_handlers (send_db ops e i s) = sy_handlers s"
  "sy_queue (send_db ops e i s) = sy_queue s" "sy_received (send_db ops e i s) = sy_received s"
  "sy_running (send_db ops e i s) = sy_running s" "sy_enq (send_db ops e i s) = sy_enq s"
  "sy_exec (send_db ops e i s) = sy_exec s" "sy_dropped (send_db ops e i s) = sy_dropped s"
  by (simp_all add: send_db_def)

lemmas step_defs = handler_step_def after_loop_head_def after_pre_def after_wait_def after_post_def
  goto_def Let_def

lemma handler_step_frame:
  assumes "handler_step ops e i s = Some s'"
  shows "(\<exists>h'. sy_handlers s' = (sy_handlers s)[i := h'] \<and> same_queue s s' \<and> h_pc h' \<noteq> H_Wait \<and>
      h_wg h' = h_wg (sy_handlers s ! i) \<and>
      (h_pc (sy_handlers s ! i) = H_Wait \<longrightarrow> h_wg (sy_handlers s ! i) = 0)) \<or>
    (h_pc (sy_handlers s ! i) = H_Enq \<and> sy_received s = None \<and>
      s' = upd i (\<lambda>h. h\<lparr>h_pc := H_Wait, h_wg := 1\<rparr>) (s\<lparr>sy_received := Some i\<rparr>))"
  using assms
  by (cases "h_pc (sy_handlers s ! i)")
    (auto simp: step_defs same_queue_def split: if_splits outcome.splits res.splits)

context job_queue
begin

lemma executor_step_frame:
  assumes "executor_step fq ops e s = Some s'"
  shows "(sy_running s = None \<and> (\<exists>i q. content (nq_fifo (sy_queue s)) = i # content q \<and>
      s' = s\<lparr>sy_queue := (sy_queue s)\<lparr>nq_fifo := q\<rparr>, sy_running := Some (i, E_Run),
             sy_exec := sy_exec s @ [i]\<rparr>)) \<or>
    (\<exists>i pc pc' j. sy_running s = Some (i, pc) \<and> sy_running s' = Some (i, pc') \<and>
      sy_handlers s' = (sy_handlers s)[i := (sy_handlers s ! i)\<lparr>h_job := j\<rparr>] \<and>
      same_queue s (s'\<lparr>sy_running := sy_running s\<rparr>)) \<or>
    (\<exists>i. sy_running s = Some (i, E_Done) \<and>
      s' = upd i (\<lambda>h. h\<lparr>h_wg := h_wg h - 1\<rparr>) (s\<lparr>sy_running := None\<rparr>))"
proof (cases "sy_running s")
  case None
  then show ?thesis
    using assms dequeue [of "nq_fifo (sy_queue s)"]
    by (cases "content (nq_fifo (sy_queue s))") (auto simp: executor_step_def NormalQueue_Dequeue_def res_simps)
next
  case (Some r)
  then show ?thesis
    using assms
    by (cases r; cases "snd r")
      (auto simp: executor_step_def Let_def same_queue_def
        intro: exI [of _ "h_job (sy_handlers s ! fst r)"] split: outcome.splits)
qed

lemma queue_step_frame:
  assumes "queue_step fq s = Some s'"
  shows "\<exists>i. sy_received s = Some i \<and> sy_received s' = None \<and> sy_handlers s' = sy_handlers s \<and>
    sy_running s' = sy_running s \<and> sy_exec s' = sy_exec s \<and>
    nq_maxSize (sy_queue s') = nq_maxSize (sy_queue s) \<and>
    (int (length (content (nq_fifo (sy_queue s)))) < nq_maxSize (sy_queue s) \<and>
       content (nq_fifo (sy_queue s')) = content (nq_fifo (sy_queue s)) @ [i] \<and> sy_enq s' = sy_enq s @ [i] \<and>
       sy_dropped s' = sy_dropped s \<or>
     content (nq_fifo (sy_queue s')) = content (nq_fifo (sy_queue s)) \<and> sy_enq s' = sy_enq s \<and>
       sy_dropped s' = sy_dropped s @ [i])"
proof (cases "sy_received s")
  case (Some i)
  obtain q put where put: "NormalQueue_put fq i (sy_queue s) = (q, put)"
    by fastforce
  then show ?thesis
    using assms Some put_items [OF put]
    by (cases put) (auto simp: queue_step_def items_def)
qed (use assms in \<open>simp add: queue_step_def\<close>)

end

section \<open>Ownership of jobs\<close>

definition owned :: "('q \<Rightarrow> nat list) \<Rightarrow> ('q, 'j) sched \<Rightarrow> nat list" where
  "owned content s =
    (case sy_received s of None \<Rightarrow> [] | Some i \<Rightarrow> [i]) @ content (nq_fifo (sy_queue s)) @
    (case sy_running s of None \<Rightarrow> [] | Some (i, _) \<Rightarrow> [i]) @ sy_dropped s"

definition waiting :: "'j handler \<Rightarrow> bool" where
  "waiting h \<longleftrightarrow> h_pc h = H_Wait \<and> h_wg h = 1"

definition wg_ok :: "'j handler \<Rightarrow> bool" where
  "wg_ok h \<longleftrightarrow> h_wg h \<le> 1 \<and> (h_pc h \<noteq> H_Wait \<longrightarrow> h_wg h = 0)"

definition own_inv :: "('q \<Rightarrow> nat list) \<Rightarrow> ('q, 'j) sched \<Rightarrow> bool" where
  "own_inv content s \<longleftrightarrow> distinct (owned content s) \<and>
    set (owned content s) = {i. i < length (sy_handlers s) \<and> waiting (sy_handlers s ! i)} \<and>
    list_all wg_ok (sy_handlers s)"

context job_queue
begin

lemma own_inv_init: "own_inv content (NormalScheduler_Setup fq mx th)"
  by (simp add: own_inv_def owned_def NormalScheduler_Setup_def NormalQueue_Setup_def new)

lemma own_inv_arrive: "own_inv content s \<Longrightarrow> own_inv content (HandleJob j s)"
  by (auto simp: own_inv_def owned_def HandleJob_def nth_append waiting_def wg_ok_def less_Suc_eq)

lemma own_inv_handler:
  assumes "own_inv content s" and "i < length (sy_handlers s)" and "handler_step ops e i s = Some s'"
  shows "own_inv content s'"
  using handler_step_frame [OF assms(3)]
proof (elim disjE exE conjE)
  fix h' assume h': "sy_handlers s' = (sy_handlers s)[i := h']" "same_queue s s'" "h_pc h' \<noteq> H_Wait"
    "h_wg h' = h_wg (sy_handlers s ! i)" "h_pc (sy_handlers s ! i) = H_Wait \<longrightarrow> h_wg (sy_handlers s ! i) = 0"
  have "owned content s' = owned content s"
    using h'(2) by (simp add: owned_def same_queue_def)
  moreover have "{k. k < length (sy_handlers s') \<and> waiting (sy_handlers s' ! k)} =
      {k. k < length (sy_handlers s) \<and> waiting (sy_handlers s ! k)}"
    using h' assms(2) by (auto simp: waiting_def nth_list_update)
  moreover have "wg_ok h'"
    using h' assms(1,2) by (auto simp: wg_ok_def own_inv_def list_all_length)
  ultimately show ?thesis
    using assms(1,2) h'(1) by (auto simp: own_inv_def list_all_length nth_list_update)
next
  assume enq: "h_pc (sy_handlers s ! i) = H_Enq" "sy_received s = None"
    and s': "s' = upd i (\<lambda>h. h\<lparr>h_pc := H_Wait, h_wg := 1\<rparr>) (s\<lparr>sy_received := Some i\<rparr>)"
  have "owned content s' = i # owned content s"
    using enq(2) s' by (simp add: owned_def)
  moreover have "i \<notin> set (owned content s)"
    using assms(1) enq(1) by (simp add: own_inv_def waiting_def)
  moreover have "{k. k < length (sy_handlers s') \<and> waiting (sy_handlers s' ! k)} =
      insert i {k. k < length (sy_handlers s) \<and> waiting (sy_handlers s ! k)}"
    using assms(2) s' by (auto simp: waiting_def nth_list_update)
  ultimately show ?thesis
    using assms(1,2) s' by (auto simp: own_inv_def list_all_length nth_list_update wg_ok_def)
qed

lemma own_inv_queue:
  assumes "own_inv content s" and "queue_step fq s = Some s'"
  shows "own_inv content s'"
proof -
  obtain i where f: "sy_received s = Some i" "sy_received s' = None" "sy_handlers s' = sy_handlers s"
    "sy_running s' = sy_running s"
    "content (nq_fifo (sy_queue s')) = content (nq_fifo (sy_queue s)) @ [i] \<and> sy_dropped s' = sy_dropped s \<or>
     content (nq_fifo (sy_queue s')) = content (nq_fifo (sy_queue s)) \<and> sy_dropped s' = sy_dropped s @ [i]"
    using queue_step_frame [OF assms(2)] by (auto split: if_splits)
  have "mset (owned content s') = mset (owned content s)"
    using f by (auto simp: owned_def)
  then have "distinct (owned content s') = distinct (owned content s)" "set (owned content s') = set (owned content s)"
    by (auto dest: mset_eq_imp_distinct_iff mset_eq_setD)
  then show ?thesis
    using assms(1) f(3) by (simp add: own_inv_def)
qed

lemma own_inv_executor:
  assumes "own_inv content s" and "executor_step fq ops e s = Some s'"
  shows "own_inv content s'"
  using executor_step_frame [OF assms(2)]
proof (elim disjE exE conjE)
  fix i q
  assume d: "sy_running s = None" "content (nq_fifo (sy_queue s)) = i # content q"
    and s': "s' = s\<lparr>sy_queue := (sy_queue s)\<lparr>nq_fifo := q\<rparr>, sy_running := Some (i, E_Run),
      sy_exec := sy_exec s @ [i]\<rparr>"
  have "mset (owned content s') = mset (owned content s)"
    using d s' by (simp add: owned_def)
  then have "distinct (owned content s') = distinct (owned content s)" "set (owned content s') = set (owned content s)"
    by (auto dest: mset_eq_imp_distinct_iff mset_eq_setD)
  then show ?thesis
    using assms(1) s' by (simp add: own_inv_def)
next
  fix i pc pc' j
  assume r: "sy_running s = Some (i, pc)" "sy_running s' = Some (i, pc')"
    "sy_handlers s' = (sy_handlers s)[i := (sy_handlers s ! i)\<lparr>h_job := j\<rparr>]"
    "same_queue s (s'\<lparr>sy_running := sy_running s\<rparr>)"
  have "i < length (sy_handlers s)"
    using assms(1) r(1) by (auto simp: own_inv_def owned_def)
  moreover have "owned content s' = owned content s"
    using r by (simp add: owned_def same_queue_def)
  ultimately show ?thesis
    using assms(1) r(3)
    by (auto simp: own_inv_def list_all_length nth_list_update waiting_def wg_ok_def)
next
  fix i
  assume r: "sy_running s = Some (i, E_Done)"
    and s': "s' = upd i (\<lambda>h. h\<lparr>h_wg := h_wg h - 1\<rparr>) (s\<lparr>sy_running := None\<rparr>)"
  have mset: "mset (owned content s) = add_mset i (mset (owned content s'))"
    using r s' by (simp add: owned_def)
  then have "distinct (owned content s')" "i \<notin> set (owned content s')" "set (owned content s) = insert i (set (owned content s'))"
    using assms(1) mset_eq_imp_distinct_iff [of "owned content s" "i # owned content s'"] mset_eq_setD [of "owned content s" "i # owned content s'"]
    by (auto simp: own_inv_def)
  moreover have i: "i < length (sy_handlers s)" "waiting (sy_handlers s ! i)"
    using assms(1) r by (auto simp: own_inv_def owned_def)
  moreover have "{k. k < length (sy_handlers s') \<and> waiting (sy_handlers s' ! k)} =
      {k. k < length (sy_handlers s) \<and> waiting (sy_handlers s ! k)} - {i}"
    using i s' by (auto simp: waiting_def nth_list_update)
  ultimately show ?thesis
    using assms(1) s' by (auto simp: own_inv_def list_all_length nth_list_update waiting_def wg_ok_def)
qed

lemma own_inv_step: "sched_step fq ops ok s s' \<Longrightarrow> own_inv content s \<Longrightarrow> own_inv content s'"
  by (auto elim!: sched_stepE intro: own_inv_arrive own_inv_handler own_inv_queue own_inv_executor)

lemma own_inv_reachable: "reachable fq ops ok mx th s \<Longrightarrow> own_inv content s"
  by (induction rule: reachable.induct) (auto intro: own_inv_init own_inv_step)

end

section \<open>The queue's bound and order\<close>

definition queue_inv :: "('q \<Rightarrow> nat list) \<Rightarrow> int \<Rightarrow> ('q, 'j) sched \<Rightarrow> bool" where
  "queue_inv content mx s \<longleftrightarrow> nq_maxSize (sy_queue s) = mx \<and> int (length (content (nq_fifo (sy_queue s)))) \<le> max 0 mx \<and>
    sy_enq s = sy_exec s @ content (nq_fifo (sy_queue s))"

context job_queue
begin

lemma queue_inv_step:
  assumes "sched_step fq ops ok s s'" and "queue_inv content mx s"
  shows "queue_inv content mx s'"
  using assms(1)
proof (cases rule: sched_step_cases)
  case (arrive j)
  then show ?thesis
    using assms(2) by (simp add: queue_inv_def HandleJob_def)
next
  case (handle e i)
  then show ?thesis
    using assms(2) handler_step_frame [OF handle(3)] by (auto simp: queue_inv_def same_queue_def)
next
  case queue
  then show ?thesis
    using assms(2) queue_step_frame [OF queue] by (auto simp: queue_inv_def split: if_splits)
next
  case (execute e)
  then show ?thesis
    using assms(2) executor_step_frame [OF execute(2)] by (auto simp: queue_inv_def same_queue_def)
qed

lemma queue_inv_init: "queue_inv content mx (NormalScheduler_Setup fq mx th)"
  by (simp add: queue_inv_def NormalScheduler_Setup_def NormalQueue_Setup_def new)

lemma queue_inv_reachable: "reachable fq ops ok mx th s \<Longrightarrow> queue_inv content mx s"
  by (induction rule: reachable.induct) (auto intro: queue_inv_init queue_inv_step)

end

section \<open>Jobs turned away\<close>

context job_queue
begin

lemma dropped_step:
  assumes "sched_step fq ops ok s s'" and "own_inv content s" and "i \<in> set (sy_dropped s)"
  shows "i \<in> set (sy_dropped s') \<and> sy_handlers s' ! i = sy_handlers s ! i \<and>
    i < length (sy_handlers s) \<and> h_pc (sy_handlers s ! i) = H_Wait"
proof -
  have i: "i < length (sy_handlers s)" "h_pc (sy_handlers s ! i) = H_Wait" "h_wg (sy_handlers s ! i) = 1"
    using assms(2,3) by (auto simp: own_inv_def owned_def waiting_def)
  have run: "k \<noteq> i" if "sy_running s = Some (k, pc)" for k pc
    using assms(2,3) that by (auto simp: own_inv_def owned_def)
  show ?thesis
    using assms(1)
  proof (cases rule: sched_step_cases)
    case (arrive j)
    then show ?thesis
      using assms(3) i by (simp add: HandleJob_def nth_append)
  next
    case (handle e k)
    have "k \<noteq> i"
      using handle(3) i by (auto simp: handler_step_def)
    then show ?thesis
      using assms(3) i handler_step_frame [OF handle(3)] by (auto simp: same_queue_def)
  next
    case queue
    then show ?thesis
      using assms(3) i queue_step_frame [OF queue] by (auto split: if_splits)
  next
    case (execute e)
    then show ?thesis
      using assms(3) i run executor_step_frame [OF execute(2)] by (auto simp: same_queue_def)
  qed
qed

lemma dropped_steps:
  assumes "(sched_step fq ops ok)\<^sup>*\<^sup>* s s'" and "own_inv content s" and "i \<in> set (sy_dropped s)"
  shows "own_inv content s' \<and> i \<in> set (sy_dropped s') \<and> sy_handlers s' ! i = sy_handlers s ! i \<and>
    h_pc (sy_handlers s' ! i) = H_Wait"
  using assms
proof (induction rule: rtranclp_induct)
  case base
  then show ?case
    by (auto simp: own_inv_def owned_def waiting_def)
next
  case (step t u)
  then show ?case
    using dropped_step [OF step(2)] own_inv_step [OF step(2)] by auto
qed

end

section \<open>Progress\<close>

definition enabled :: "('q, nat) FIFO \<Rightarrow> ('e, 'j) JobOps \<Rightarrow> ('e \<Rightarrow> bool) \<Rightarrow> ('q, 'j) sched \<Rightarrow> bool" where
  "enabled fq ops ok s \<longleftrightarrow>
    (\<exists>e k s'. ok e \<and> k < length (sy_handlers s) \<and> handler_step ops e k s = Some s') \<or>
    (\<exists>s'. queue_step fq s = Some s') \<or> (\<exists>e s'. ok e \<and> executor_step fq ops e s = Some s')"

context job_queue
begin

lemma queue_enabled: "sy_received s = Some i \<Longrightarrow> \<exists>s'. queue_step fq s = Some s'"
  by (simp add: queue_step_def split: prod.split)

lemma executor_enabled:
  "sy_running s \<noteq> None \<or> content (nq_fifo (sy_queue s)) \<noteq> [] \<Longrightarrow> \<exists>s'. executor_step fq ops e s = Some s'"
  using dequeue [of "nq_fifo (sy_queue s)"]
  by (cases "sy_running s"; cases "content (nq_fifo (sy_queue s))")
    (auto simp: executor_step_def NormalQueue_Dequeue_def Let_def res_simps)

lemma progress:
  assumes "own_inv content s" and "ok e" and "i < length (sy_handlers s)"
    and "h_pc (sy_handlers s ! i) \<noteq> H_Done" and "i \<notin> set (sy_dropped s)"
  shows "enabled fq ops ok s"
proof (cases "waiting (sy_handlers s ! i)")
  case True
  then have "i \<in> set (owned content s)"
    using assms(1,3) by (simp add: own_inv_def)
  then have "sy_received s = Some i \<or> content (nq_fifo (sy_queue s)) \<noteq> [] \<or> sy_running s \<noteq> None"
    using assms(5) by (cases "sy_received s"; cases "sy_running s") (auto simp: owned_def)
  then show ?thesis
    using assms(2) queue_enabled [of s i] executor_enabled [of s ops e] unfolding enabled_def by auto
next
  case False
  have wg: "h_wg (sy_handlers s ! i) \<le> 1"
    using assms(1,3) by (auto simp: own_inv_def list_all_length wg_ok_def)
  show ?thesis
  proof (cases "h_pc (sy_handlers s ! i) = H_Enq \<and> sy_received s \<noteq> None")
    case True
    then show ?thesis
      using queue_enabled by (auto simp: enabled_def)
  next
    case blocked: False
    have "\<exists>s'. handler_step ops e i s = Some s'"
      using False blocked wg assms(4)
      by (cases "h_pc (sy_handlers s ! i)") (auto simp: handler_step_def Let_def waiting_def)
    then show ?thesis
      using assms(2,3) by (auto simp: enabled_def)
  qed
qed

end

section \<open>How often a goroutine can step\<close>

text \<open>
  A run with its number of steps, of arrivals and of further passes through the loop of \<open>handleImpl\<close>.
\<close>

definition loops :: "nat \<Rightarrow> ('q, 'j) sched \<Rightarrow> ('q, 'j) sched \<Rightarrow> bool" where
  "loops i s s' \<longleftrightarrow> h_pc (sy_handlers s ! i) = H_Post \<and> h_pc (sy_handlers s' ! i) = H_Loop"

inductive run :: "('q, nat) FIFO \<Rightarrow> ('e, 'j) JobOps \<Rightarrow> ('e \<Rightarrow> bool) \<Rightarrow> ('q, 'j) sched \<Rightarrow> nat \<Rightarrow> nat \<Rightarrow> nat \<Rightarrow> ('q, 'j) sched \<Rightarrow> bool"
  for fq ops ok s where
  start: "run fq ops ok s 0 0 0 s"
| arrive: "run fq ops ok s n a l t \<Longrightarrow> run fq ops ok s (Suc n) (Suc a) l (HandleJob j t)"
| handle: "run fq ops ok s n a l t \<Longrightarrow> ok e \<Longrightarrow> i < length (sy_handlers t) \<Longrightarrow>
    handler_step ops e i t = Some u \<Longrightarrow> run fq ops ok s (Suc n) a (if loops i t u then Suc l else l) u"
| queue: "run fq ops ok s n a l t \<Longrightarrow> queue_step fq t = Some u \<Longrightarrow> run fq ops ok s (Suc n) a l u"
| execute: "run fq ops ok s n a l t \<Longrightarrow> ok e \<Longrightarrow> executor_step fq ops e t = Some u \<Longrightarrow> run fq ops ok s (Suc n) a l u"

fun hrank :: "hpc \<Rightarrow> nat" where
  "hrank H_Loop = 19" | "hrank H_Pre = 18" | "hrank H_PreSend = 17" | "hrank H_PreHist = 2"
| "hrank H_Enq = 16" | "hrank H_Wait = 7" | "hrank H_FinSend = 6" | "hrank H_FinHist = 5"
| "hrank H_FinSend2 = 4" | "hrank H_Post = 6" | "hrank H_PostHist = 5" | "hrank H_PostSend = 4"
| "hrank H_Recover = 3" | "hrank H_RecSend = 2" | "hrank H_Defer = 1" | "hrank H_Done = 0"

fun erank :: "epc \<Rightarrow> nat" where
  "erank E_Run = 5" | "erank E_Send = 4" | "erank E_Proc = 3" | "erank E_RecSend = 2" | "erank E_Done = 1"

definition work :: "('q \<Rightarrow> nat list) \<Rightarrow> ('q, 'j) sched \<Rightarrow> nat" where
  "work content s = (\<Sum>h\<leftarrow>sy_handlers s. hrank (h_pc h)) +
    (case sy_received s of None \<Rightarrow> 0 | Some _ \<Rightarrow> 7) + 6 * length (content (nq_fifo (sy_queue s))) +
    (case sy_running s of None \<Rightarrow> 0 | Some (_, pc) \<Rightarrow> erank pc)"

context job_queue
begin

lemma sum_list_upd:
  fixes f :: "'a \<Rightarrow> nat"
  shows "i < length xs \<Longrightarrow> (\<Sum>x\<leftarrow>xs[i := y]. f x) + f (xs ! i) = (\<Sum>x\<leftarrow>xs. f x) + f y"
  by (induction xs arbitrary: i) (auto split: nat.splits)

lemma handler_step_pc:
  assumes "handler_step ops e i s = Some s'" and "i < length (sy_handlers s)"
    and "h_pc (sy_handlers s ! i) \<noteq> H_Enq"
  shows "hrank (h_pc (sy_handlers s' ! i)) + 1 \<le>
    hrank (h_pc (sy_handlers s ! i)) + (if loops i s s' then 14 else 0)"
  using assms
  by (cases "h_pc (sy_handlers s ! i)")
    (auto simp: step_defs loops_def split: if_splits outcome.splits res.splits)

lemma work_handler:
  assumes "handler_step ops e i s = Some s'" and "i < length (sy_handlers s)"
  shows "work content s' + 1 \<le> work content s + (if loops i s s' then 14 else 0)"
  using handler_step_frame [OF assms(1)]
proof (elim disjE exE conjE)
  fix h' assume h': "sy_handlers s' = (sy_handlers s)[i := h']" "same_queue s s'" "h_pc h' \<noteq> H_Wait"
  then have "h_pc (sy_handlers s ! i) \<noteq> H_Enq"
    using assms by (auto simp: handler_step_def Let_def same_queue_def split: if_splits)
  from handler_step_pc [OF assms this] show ?thesis
    using h' assms(2) sum_list_upd [of i "sy_handlers s" "\<lambda>h. hrank (h_pc h)" h']
    by (auto simp: work_def same_queue_def)
next
  assume "h_pc (sy_handlers s ! i) = H_Enq" "sy_received s = None"
    and "s' = upd i (\<lambda>h. h\<lparr>h_pc := H_Wait, h_wg := 1\<rparr>) (s\<lparr>sy_received := Some i\<rparr>)"
  then show ?thesis
    using assms(2) sum_list_upd [of i "sy_handlers s" "\<lambda>h. hrank (h_pc h)" "(sy_handlers s ! i)\<lparr>h_pc := H_Wait, h_wg := 1\<rparr>"]
    by (auto simp: work_def)
qed

lemma work_queue: "queue_step fq s = Some s' \<Longrightarrow> work content s' + 1 \<le> work content s"
  using queue_step_frame [of s s'] by (auto simp: work_def split: if_splits)

lemma executor_step_erank:
  "sy_running s = Some (i, pc) \<Longrightarrow> executor_step fq ops e s = Some s' \<Longrightarrow>
    (case sy_running s' of None \<Rightarrow> 0 | Some (_, pc') \<Rightarrow> erank pc') < erank pc"
  by (cases pc) (auto simp: executor_step_def Let_def split: outcome.splits)

lemma sum_list_same:
  fixes f :: "'a \<Rightarrow> nat"
  shows "f y = f (xs ! i) \<Longrightarrow> (\<Sum>x\<leftarrow>xs[i := y]. f x) = (\<Sum>x\<leftarrow>xs. f x)"
  by (cases "i < length xs") (use sum_list_upd [of i xs f y] in \<open>auto simp: list_update_beyond\<close>)

lemma work_executor:
  assumes "executor_step fq ops e s = Some s'"
  shows "work content s' + 1 \<le> work content s"
proof (cases "sy_running s")
  case None
  then show ?thesis
    using executor_step_frame [OF assms] by (auto simp: work_def)
next
  case (Some r)
  obtain i pc where r: "r = (i, pc)"
    by fastforce
  have "content (nq_fifo (sy_queue s')) = content (nq_fifo (sy_queue s))" "sy_received s' = sy_received s"
    "(\<Sum>h\<leftarrow>sy_handlers s'. hrank (h_pc h)) = (\<Sum>h\<leftarrow>sy_handlers s. hrank (h_pc h))"
    using executor_step_frame [OF assms] Some r
    by (auto simp: same_queue_def intro!: sum_list_same)
  then show ?thesis
    using executor_step_erank [of s i pc ops e s'] assms Some r by (simp add: work_def)
qed

lemma run_work: "run fq ops ok s n a l s' \<Longrightarrow> work content s' + n \<le> work content s + 20 * a + 14 * l"
proof (induction rule: run.induct)
  case (arrive n a l t j)
  then show ?case
    by (simp add: work_def HandleJob_def)
next
  case (handle n a l t e i u)
  then show ?case
    using work_handler [of ops e i t u] by (auto split: if_splits)
next
  case (queue n a l t u)
  then show ?case
    using work_queue [of t u] by simp
next
  case (execute n a l t e u)
  then show ?case
    using work_executor [of ops e t u] by simp
qed simp

end

section \<open>What is written at the end of a job\<close>

definition msgs :: "nat \<Rightarrow> ('q, 'j) sched \<Rightarrow> 'j list" where
  "msgs i s = map snd (filter (\<lambda>m. fst m = i) (sy_db s))"

definition is_saved :: "('e, 'j) JobOps \<Rightarrow> 'j handler \<Rightarrow> 'j list \<Rightarrow> bool" where
  "is_saved ops h ms \<longleftrightarrow> ms \<noteq> [] \<and> jo_JobData ops (last ms) = jo_JobData ops (h_job h)"

definition is_ended :: "('e, 'j) JobOps \<Rightarrow> 'j \<Rightarrow> bool" where
  "is_ended ops j \<longleftrightarrow> jo_IsFinished ops j = Ok True \<or> status_of ops j = FAILED"

definition end_ok :: "('e, 'j) JobOps \<Rightarrow> 'j handler \<Rightarrow> 'j list \<Rightarrow> bool" where
  "end_ok ops h ms \<longleftrightarrow>
    (case h_pc h of
       H_PreHist \<Rightarrow> \<not> h_unexpected h \<and> is_saved ops h ms \<and> is_ended ops (h_job h)
     | H_FinSend \<Rightarrow> \<not> h_unexpected h \<and> is_ended ops (h_job h)
     | H_FinHist \<Rightarrow> \<not> h_unexpected h \<and> is_ended ops (h_job h)
     | H_FinSend2 \<Rightarrow> \<not> h_unexpected h \<and> is_ended ops (h_job h)
     | H_PostHist \<Rightarrow> \<not> h_unexpected h \<and> is_ended ops (h_job h)
     | H_PostSend \<Rightarrow> \<not> h_unexpected h \<and> is_ended ops (h_job h)
     | H_RecSend \<Rightarrow> \<not> h_unexpected h \<and> is_ended ops (h_job h)
     | H_Defer \<Rightarrow>
         if h_unexpected h then status_of ops (h_job h) \<noteq> READY
         else is_saved ops h ms \<and> is_ended ops (h_job h)
     | H_Done \<Rightarrow>
         if h_unexpected h then status_of ops (h_job h) \<noteq> READY
         else is_saved ops h ms \<and> is_ended ops (h_job h)
     | _ \<Rightarrow> \<not> h_unexpected h)"

definition end_inv :: "('e, 'j) JobOps \<Rightarrow> ('q, 'j) sched \<Rightarrow> bool" where
  "end_inv ops s \<longleftrightarrow> (\<forall>i < length (sy_handlers s). end_ok ops (sy_handlers s ! i) (msgs i s))"

lemma msgs_simps [simp]:
  "msgs k (upd i f s) = msgs k s" "msgs k (add_hist ops j st s) = msgs k s"
  "msgs k (goto i pc j s) = msgs k s"
  "msgs k (s\<lparr>sy_received := r\<rparr>) = msgs k s" "msgs k (s\<lparr>sy_running := x\<rparr>) = msgs k s"
  "msgs k (s\<lparr>sy_hist := y\<rparr>) = msgs k s"
  "msgs k (send_db ops e i s) =
    (if k = i then msgs k s @ [jo_Clone ops e (h_job (sy_handlers s ! i))] else msgs k s)"
  by (simp_all add: msgs_def send_db_def goto_def)

lemma handler_step_others:
  assumes "handler_step ops e i s = Some s'" and "k \<noteq> i"
  shows "sy_handlers s' ! k = sy_handlers s ! k \<and> msgs k s' = msgs k s"
  using assms
  by (cases "h_pc (sy_handlers s ! i)")
    (auto simp: step_defs split: if_splits outcome.splits res.splits)

context job_contract
begin

lemma finished_set_flag [simp]: "jo_IsFinished ops (set_flag ops b j) = jo_IsFinished ops j"
  by (simp add: set_flag_def finished_flag)

lemma status_set_status [simp]: "status_of ops (set_status ops st j) = st"
  by (simp add: set_status_def data_put)

lemma status_set_flag [simp]: "status_of ops (set_flag ops b j) = status_of ops j"
  by (simp add: set_flag_def data_put)

lemma end_ok_handler:
  assumes "ok e" and "i < length (sy_handlers s)" and "handler_step ops e i s = Some s'"
    and "end_ok ops (sy_handlers s ! i) (msgs i s)"
  shows "end_ok ops (sy_handlers s' ! i) (msgs i s')"
  using assms
  by (cases "h_pc (sy_handlers s ! i)")
    (auto simp: step_defs end_ok_def is_saved_def is_ended_def clone_data
      split: if_splits outcome.splits res.splits)

end

context job_queue
begin

lemma executor_step_others:
  assumes "executor_step fq ops e s = Some s'" and "\<And>i pc. sy_running s = Some (i, pc) \<Longrightarrow> k \<noteq> i"
  shows "sy_handlers s' ! k = sy_handlers s ! k \<and> msgs k s' = msgs k s"
proof (cases "sy_running s")
  case None
  then show ?thesis
    using executor_step_frame [OF assms(1)] by (auto simp: msgs_def)
next
  case (Some r)
  then show ?thesis
    using assms by (cases r; cases "snd r") (auto simp: executor_step_def Let_def split: outcome.splits)
qed

lemma executor_step_pc:
  assumes "executor_step fq ops e s = Some s'"
  shows "length (sy_handlers s') = length (sy_handlers s) \<and>
    map h_pc (sy_handlers s') = map h_pc (sy_handlers s) \<and>
    map h_unexpected (sy_handlers s') = map h_unexpected (sy_handlers s)"
  using executor_step_frame [OF assms]
proof (elim disjE exE conjE)
  fix i j
  assume "sy_handlers s' = (sy_handlers s)[i := (sy_handlers s ! i)\<lparr>h_job := j\<rparr>]"
  then show ?thesis
    by (cases "i < length (sy_handlers s)") (auto simp: map_update list_update_beyond list_update_same_conv)
next
  fix i
  assume "s' = upd i (\<lambda>h. h\<lparr>h_wg := h_wg h - 1\<rparr>) (s\<lparr>sy_running := None\<rparr>)"
  then show ?thesis
    by (cases "i < length (sy_handlers s)") (auto simp: map_update list_update_beyond list_update_same_conv)
qed simp_all

lemma running_waits:
  assumes "own_inv content s" and "sy_running s = Some (i, pc)"
  shows "i < length (sy_handlers s) \<and> h_pc (sy_handlers s ! i) = H_Wait"
  using assms by (auto simp: own_inv_def owned_def waiting_def)

lemma end_ok_executor:
  assumes "own_inv content s" and "executor_step fq ops e s = Some s'" and "k < length (sy_handlers s)"
    and "end_ok ops (sy_handlers s ! k) (msgs k s)"
  shows "end_ok ops (sy_handlers s' ! k) (msgs k s')"
proof (cases "\<exists>pc. sy_running s = Some (k, pc)")
  case True
  then have pc: "h_pc (sy_handlers s ! k) = H_Wait"
    using running_waits [OF assms(1)] by auto
  have "h_pc (sy_handlers s' ! k) = h_pc (sy_handlers s ! k)"
    "h_unexpected (sy_handlers s' ! k) = h_unexpected (sy_handlers s ! k)"
    using executor_step_pc [OF assms(2)] assms(3) by (metis nth_map)+
  with pc show ?thesis
    using assms(4) by (simp add: end_ok_def)
next
  case False
  then show ?thesis
    using executor_step_others [OF assms(2), of k] assms(4) by force
qed

end

lemma queue_step_db: "queue_step fq s = Some s' \<Longrightarrow> sy_db s' = sy_db s \<and> sy_hist s' = sy_hist s"
  by (auto simp: queue_step_def split: option.splits prod.splits)

lemma handler_step_length: "handler_step ops e i s = Some s' \<Longrightarrow> length (sy_handlers s') = length (sy_handlers s)"
  using handler_step_frame [of ops e i s s'] by auto

lemma end_inv_arrive: "end_inv ops s \<Longrightarrow> end_inv ops (HandleJob j s)"
proof -
  have "msgs i (HandleJob j s) = msgs i s" for i
    by (simp add: msgs_def HandleJob_def)
  moreover have "end_ok ops \<lparr>h_pc = H_Loop, h_job = j, h_wg = 0, h_unexpected = False\<rparr> ms" for ms
    by (simp add: end_ok_def)
  ultimately show "end_inv ops s \<Longrightarrow> end_inv ops (HandleJob j s)"
    by (auto simp: end_inv_def HandleJob_def nth_append less_Suc_eq)
qed

context scheduler
begin

lemma end_inv_handler:
  assumes "ok e" and "i < length (sy_handlers s)" and "handler_step ops e i s = Some s'"
    and "end_inv ops s"
  shows "end_inv ops s'"
  unfolding end_inv_def
proof (intro allI impI)
  fix k assume k: "k < length (sy_handlers s')"
  show "end_ok ops (sy_handlers s' ! k) (msgs k s')"
    using k assms handler_step_length [OF assms(3)] handler_step_others [OF assms(3), of k]
      end_ok_handler [OF assms(1,2,3)] by (cases "k = i") (auto simp: end_inv_def)
qed

lemma end_inv_step:
  assumes "sched_step fq ops ok s s'" and "own_inv content s" and "end_inv ops s"
  shows "end_inv ops s'"
  using assms(1)
proof (cases rule: sched_step_cases)
  case (arrive j)
  then show ?thesis
    using assms(3) end_inv_arrive by simp
next
  case (handle e i)
  then show ?thesis
    using assms(3) end_inv_handler by blast
next
  case queue
  then show ?thesis
    using assms(3) queue_step_db [OF queue] queue_step_frame [OF queue] by (auto simp: msgs_def end_inv_def)
next
  case (execute e)
  then show ?thesis
    using assms(3) end_ok_executor [OF assms(2) execute(2)] executor_step_pc [OF execute(2)]
    by (simp add: end_inv_def)
qed

lemma end_inv_reachable: "reachable fq ops ok mx th s \<Longrightarrow> end_inv ops s"
proof (induction rule: reachable.induct)
  case init
  then show ?case
    by (simp add: end_inv_def NormalScheduler_Setup_def)
next
  case (step s s')
  then show ?case
    using end_inv_step own_inv_reachable by blast
qed

lemma done_saved:
  assumes "reachable fq ops ok mx th s" and "i < length (sy_handlers s)"
    and "h_pc (sy_handlers s ! i) = H_Done"
  shows "if h_unexpected (sy_handlers s ! i) then status_of ops (h_job (sy_handlers s ! i)) \<noteq> READY
    else is_saved ops (sy_handlers s ! i) (msgs i s) \<and> is_ended ops (h_job (sy_handlers s ! i))"
  using end_inv_reachable [OF assms(1)] assms(2,3) by (auto simp: end_ok_def end_inv_def)

end

section \<open>The status history\<close>

definition live_ids :: "('e, 'j) JobOps \<Rightarrow> ('q, 'j) sched \<Rightarrow> string set" where
  "live_ids ops s = {jd_ID (jo_JobData ops (h_job h)) | h. h \<in> set (sy_handlers s) \<and> h_pc h \<noteq> H_Done}"

definition hist_ids :: "('q, 'j) sched \<Rightarrow> string set" where
  "hist_ids s = fst ` set (sy_hist s)"

definition hist_inv :: "('e, 'j) JobOps \<Rightarrow> ('q, 'j) sched \<Rightarrow> bool" where
  "hist_inv ops s \<longleftrightarrow> hist_ids s \<subseteq> live_ids ops s"

lemma live_ids_iff:
  "x \<in> live_ids ops s \<longleftrightarrow> (\<exists>k < length (sy_handlers s). h_pc (sy_handlers s ! k) \<noteq> H_Done \<and>
    x = jd_ID (jo_JobData ops (h_job (sy_handlers s ! k))))"
  by (auto simp: live_ids_def in_set_conv_nth)

lemma hist_ids_simps [simp]:
  "hist_ids (add_hist ops j st s) = insert (jd_ID (jo_JobData ops j)) (hist_ids s)"
  "hist_ids (upd i f s) = hist_ids s" "hist_ids (goto i pc j s) = hist_ids s"
  "hist_ids (send_db ops e i s) = hist_ids s" "hist_ids (s\<lparr>sy_received := r\<rparr>) = hist_ids s"
  "hist_ids (s\<lparr>sy_running := x\<rparr>) = hist_ids s"
  "hist_ids (s\<lparr>sy_hist := AList.delete y (sy_hist s)\<rparr>) = hist_ids s - {y}"
  by (auto simp: hist_ids_def add_hist_def Let_def dom_update goto_def send_db_def AList.delete_eq)

context scheduler
begin

lemma id_set [simp]:
  "jd_ID (jo_JobData ops (set_flag ops b j)) = jd_ID (jo_JobData ops j)"
  "jd_ID (jo_JobData ops (set_status ops st j)) = jd_ID (jo_JobData ops j)"
  by (simp_all add: set_flag_def set_status_def data_put)

lemma method_id:
  assumes "ok e"
  shows "jo_PreProcess ops e j = Ret u j' \<Longrightarrow> jd_ID (jo_JobData ops j') = jd_ID (jo_JobData ops j)"
    and "jo_PreProcess ops e j = Pan j' \<Longrightarrow> jd_ID (jo_JobData ops j') = jd_ID (jo_JobData ops j)"
    and "jo_Process ops e j = Ret u j' \<Longrightarrow> jd_ID (jo_JobData ops j') = jd_ID (jo_JobData ops j)"
    and "jo_Process ops e j = Pan j' \<Longrightarrow> jd_ID (jo_JobData ops j') = jd_ID (jo_JobData ops j)"
    and "jo_PostProcess ops e j = Ret u j' \<Longrightarrow> jd_ID (jo_JobData ops j') = jd_ID (jo_JobData ops j)"
    and "jo_PostProcess ops e j = Pan j' \<Longrightarrow> jd_ID (jo_JobData ops j') = jd_ID (jo_JobData ops j)"
  using job_id_methods [OF assms, of j] by (auto simp: job_id_def)

lemma handler_step_id:
  assumes "ok e" and "i < length (sy_handlers s)" and "handler_step ops e i s = Some s'"
  shows "jd_ID (jo_JobData ops (h_job (sy_handlers s' ! i))) = jd_ID (jo_JobData ops (h_job (sy_handlers s ! i)))"
  using assms
  by (cases "h_pc (sy_handlers s ! i)")
    (auto simp: step_defs method_id split: if_splits outcome.splits res.splits)

lemma handler_step_hist:
  assumes "ok e" and "i < length (sy_handlers s)" and "handler_step ops e i s = Some s'"
  shows "hist_ids s' \<subseteq> (if h_pc (sy_handlers s' ! i) = H_Done
    then hist_ids s - {jd_ID (jo_JobData ops (h_job (sy_handlers s ! i)))}
    else insert (jd_ID (jo_JobData ops (h_job (sy_handlers s ! i)))) (hist_ids s))"
  using assms
  by (cases "h_pc (sy_handlers s ! i)")
    (auto simp: step_defs split: if_splits outcome.splits res.splits)

lemma hist_inv_handler:
  assumes "ok e" and "i < length (sy_handlers s)" and "handler_step ops e i s = Some s'"
    and "hist_inv ops s"
  shows "hist_inv ops s'"
  unfolding hist_inv_def
proof
  fix x assume x: "x \<in> hist_ids s'"
  note H = handler_step_hist [OF assms(1-3)]
  show "x \<in> live_ids ops s'"
  proof (cases "x = jd_ID (jo_JobData ops (h_job (sy_handlers s ! i)))")
    case True
    then have "h_pc (sy_handlers s' ! i) \<noteq> H_Done"
      using x H by (auto split: if_splits)
    then show ?thesis
      using True handler_step_id [OF assms(1-3)] handler_step_length [OF assms(3)] assms(2)
      by (auto simp: live_ids_iff)
  next
    case False
    then have "x \<in> live_ids ops s"
      using x H assms(4) by (auto simp: hist_inv_def split: if_splits)
    then obtain k where k: "k < length (sy_handlers s)" "h_pc (sy_handlers s ! k) \<noteq> H_Done"
        "x = jd_ID (jo_JobData ops (h_job (sy_handlers s ! k)))"
      by (auto simp: live_ids_iff)
    with False have "k \<noteq> i"
      by auto
    with k show ?thesis
      using handler_step_others [OF assms(3)] handler_step_length [OF assms(3)]
      by (auto simp: live_ids_iff intro!: exI [of _ k])
  qed
qed

lemma executor_step_id:
  assumes "ok e" and "executor_step fq ops e s = Some s'" and "k < length (sy_handlers s)"
  shows "jd_ID (jo_JobData ops (h_job (sy_handlers s' ! k))) = jd_ID (jo_JobData ops (h_job (sy_handlers s ! k)))"
proof (cases "\<exists>pc. sy_running s = Some (k, pc)")
  case True
  then obtain pc where "sy_running s = Some (k, pc)" ..
  then show ?thesis
    using assms by (cases pc) (auto simp: executor_step_def Let_def method_id split: outcome.splits)
next
  case False
  then show ?thesis
    using executor_step_others [OF assms(2), of k] by force
qed

lemma executor_step_hist:
  assumes "executor_step fq ops e s = Some s'"
  shows "hist_ids s' \<subseteq> hist_ids s \<union>
    (case sy_running s of None \<Rightarrow> {} | Some (i, _) \<Rightarrow> {jd_ID (jo_JobData ops (h_job (sy_handlers s ! i)))})"
proof (cases "sy_running s")
  case None
  then show ?thesis
    using executor_step_frame [OF assms] by (auto simp: hist_ids_def)
next
  case (Some r)
  then show ?thesis
    using assms by (cases r; cases "snd r") (auto simp: executor_step_def Let_def split: outcome.splits)
qed

lemma hist_inv_executor:
  assumes "ok e" and "executor_step fq ops e s = Some s'" and "own_inv content s" and "hist_inv ops s"
  shows "hist_inv ops s'"
proof -
  have pcs: "h_pc (sy_handlers s' ! k) = h_pc (sy_handlers s ! k)" if "k < length (sy_handlers s)" for k
    using executor_step_pc [OF assms(2)] that by (metis nth_map)
  have "live_ids ops s' = live_ids ops s"
    using executor_step_id [OF assms(1,2)] executor_step_pc [OF assms(2)] pcs
    by (intro set_eqI) (simp add: live_ids_iff cong: conj_cong)
  moreover have "jd_ID (jo_JobData ops (h_job (sy_handlers s ! i))) \<in> live_ids ops s"
    if "sy_running s = Some (i, pc)" for i pc
    using running_waits [OF assms(3) that] by (auto simp: live_ids_iff)
  ultimately show ?thesis
    using executor_step_hist [OF assms(2)] assms(4)
    by (cases "sy_running s") (auto simp: hist_inv_def)
qed

lemma hist_inv_step:
  assumes "sched_step fq ops ok s s'" and "own_inv content s" and "hist_inv ops s"
  shows "hist_inv ops s'"
  using assms(1)
proof (cases rule: sched_step_cases)
  case (arrive j)
  then show ?thesis
    using assms(3) by (auto simp: hist_inv_def live_ids_def hist_ids_def HandleJob_def)
next
  case (handle e i)
  then show ?thesis
    using assms(3) hist_inv_handler by blast
next
  case queue
  then show ?thesis
    using assms(3) queue_step_db [OF queue] queue_step_frame [OF queue]
    by (simp add: hist_inv_def live_ids_def hist_ids_def) force
next
  case (execute e)
  then show ?thesis
    using assms(2,3) hist_inv_executor by blast
qed

lemma hist_inv_reachable: "reachable fq ops ok mx th s \<Longrightarrow> hist_inv ops s"
proof (induction rule: reachable.induct)
  case init
  then show ?case
    by (simp add: hist_inv_def hist_ids_def NormalScheduler_Setup_def)
next
  case (step s s')
  then show ?case
    using hist_inv_step own_inv_reachable by blast
qed

end

section \<open>The messages on the DB channel\<close>

lemma handler_step_sends:
  "handler_step ops e i s = Some s' \<Longrightarrow> sy_db s' = sy_db s \<or>
    sy_db s' = sy_db s @ [(i, jo_Clone ops e (h_job (sy_handlers s ! i)))]"
  by (cases "h_pc (sy_handlers s ! i)")
    (auto simp: step_defs send_db_def split: if_splits outcome.splits res.splits)

context job_queue
begin

lemma executor_step_sends:
  assumes "executor_step fq ops e s = Some s'"
  shows "sy_db s' = sy_db s \<or> (\<exists>i pc. sy_running s = Some (i, pc) \<and>
    sy_db s' = sy_db s @ [(i, jo_Clone ops e (h_job (sy_handlers s ! i)))])"
proof (cases "sy_running s")
  case None
  then show ?thesis
    using executor_step_frame [OF assms] by auto
next
  case (Some r)
  then show ?thesis
    using assms by (cases r; cases "snd r") (auto simp: executor_step_def Let_def send_db_def split: outcome.splits)
qed

end

context scheduler
begin

definition sent_ok :: "('q, 'j) sched \<Rightarrow> bool" where
  "sent_ok s \<longleftrightarrow> (\<forall>(k, m) \<in> set (sy_db s). k < length (sy_handlers s) \<and>
    jd_ID (jo_JobData ops m) = jd_ID (jo_JobData ops (h_job (sy_handlers s ! k))))"

lemma sent_ok_frame:
  assumes "sent_ok s" and "length (sy_handlers s') = length (sy_handlers s)"
    and "\<And>k. k < length (sy_handlers s) \<Longrightarrow>
      jd_ID (jo_JobData ops (h_job (sy_handlers s' ! k))) = jd_ID (jo_JobData ops (h_job (sy_handlers s ! k)))"
    and "sy_db s' = sy_db s \<or> (\<exists>i e. i < length (sy_handlers s) \<and> ok e \<and>
      sy_db s' = sy_db s @ [(i, jo_Clone ops e (h_job (sy_handlers s ! i)))])"
  shows "sent_ok s'"
  using assms(4)
proof (elim disjE exE conjE)
  assume "sy_db s' = sy_db s"
  then show ?thesis
    using assms(1-3) by (fastforce simp: sent_ok_def)
next
  fix i e assume "i < length (sy_handlers s)" "ok e"
    "sy_db s' = sy_db s @ [(i, jo_Clone ops e (h_job (sy_handlers s ! i)))]"
  then show ?thesis
    using assms(1-3) by (fastforce simp: sent_ok_def clone_data)
qed

lemma sent_ok_step:
  assumes "sched_step fq ops ok s s'" and "own_inv content s" and "sent_ok s"
  shows "sent_ok s'"
  using assms(1)
proof (cases rule: sched_step_cases)
  case (arrive j)
  then show ?thesis
    using assms(3) by (fastforce simp: sent_ok_def HandleJob_def nth_append)
next
  case (handle e i)
  have "jd_ID (jo_JobData ops (h_job (sy_handlers s' ! k))) = jd_ID (jo_JobData ops (h_job (sy_handlers s ! k)))" for k
    using handler_step_id [OF handle] handler_step_others [OF handle(3), of k] by (cases "k = i") auto
  then show ?thesis
    using sent_ok_frame [OF assms(3) handler_step_length [OF handle(3)]] handler_step_sends [OF handle(3)]
      handle(1,2) by blast
next
  case queue
  then show ?thesis
    using assms(3) queue_step_db [OF queue] queue_step_frame [OF queue] by (auto simp: sent_ok_def)
next
  case (execute e)
  have "length (sy_handlers s') = length (sy_handlers s)"
    using executor_step_pc [OF execute(2)] by simp
  then show ?thesis
    using sent_ok_frame [OF assms(3) _ executor_step_id [OF execute]] executor_step_sends [OF execute(2)]
      running_waits [OF assms(2)] execute(1) by blast
qed

lemma sent_ok_reachable: "reachable fq ops ok mx th s \<Longrightarrow> sent_ok s"
proof (induction rule: reachable.induct)
  case init
  then show ?case
    by (simp add: sent_ok_def NormalScheduler_Setup_def)
next
  case (step s s')
  then show ?case
    using sent_ok_step own_inv_reachable by blast
qed

lemma msgs_of_id:
  assumes "sent_ok s" and "i < length (sy_handlers s)"
    and "\<And>k. k < length (sy_handlers s) \<Longrightarrow> k \<noteq> i \<Longrightarrow>
      jd_ID (jo_JobData ops (h_job (sy_handlers s ! k))) \<noteq> jd_ID (jo_JobData ops (h_job (sy_handlers s ! i)))"
  shows "filter (\<lambda>m. jd_ID (jo_JobData ops m) = jd_ID (jo_JobData ops (h_job (sy_handlers s ! i))))
      (map snd (sy_db s)) = msgs i s"
proof -
  have "filter (\<lambda>m. jd_ID (jo_JobData ops (snd m)) = jd_ID (jo_JobData ops (h_job (sy_handlers s ! i)))) (sy_db s) =
      filter (\<lambda>m. fst m = i) (sy_db s)"
    using assms by (intro filter_cong) (fastforce simp: sent_ok_def)+
  then show ?thesis
    by (simp add: msgs_def filter_map comp_def)
qed

end

lemma map_of_rev_last:
  "filter (\<lambda>m. f m = x) ms = ys \<Longrightarrow> ys \<noteq> [] \<Longrightarrow> map_of (map (\<lambda>m. (f m, m)) (rev ms)) x = Some (last ys)"
  by (induction ms arbitrary: ys rule: rev_induct) (auto split: if_splits)

context scheduler
begin

lemma done_in_db:
  assumes "reachable fq ops ok mx th s" and "i < length (sy_handlers s)"
    and "h_pc (sy_handlers s ! i) = H_Done" and "\<not> h_unexpected (sy_handlers s ! i)"
    and "\<And>k. k < length (sy_handlers s) \<Longrightarrow> k \<noteq> i \<Longrightarrow>
      jd_ID (jo_JobData ops (h_job (sy_handlers s ! k))) \<noteq> jd_ID (jo_JobData ops (h_job (sy_handlers s ! i)))"
  shows "\<exists>m. MemoryDB_Get (job_id (h_job (sy_handlers s ! i)))
      (MemoryDB_loop job_id (map Some (map snd (sy_db s))) MemoryDB_Setup) = (Some m, None) \<and>
    jo_JobData ops m = jo_JobData ops (h_job (sy_handlers s ! i)) \<and> is_ended ops (h_job (sy_handlers s ! i))"
proof -
  have saved: "is_saved ops (sy_handlers s ! i) (msgs i s)" "is_ended ops (h_job (sy_handlers s ! i))"
    using done_saved [OF assms(1-3)] assms(4) by simp_all
  have "map_of (map (\<lambda>j. (job_id j, j)) (rev (map snd (sy_db s)))) (job_id (h_job (sy_handlers s ! i))) =
      Some (last (msgs i s))"
    using map_of_rev_last [of job_id, OF msgs_of_id [OF sent_ok_reachable [OF assms(1)] assms(2,5), folded job_id_def]]
      saved(1) by (simp add: is_saved_def)
  then show ?thesis
    using memory_db.get_after_updates [of MemoryDB_Setup "job_id (h_job (sy_handlers s ! i))" job_id "map snd (sy_db s)"]
      saved by (auto simp: MemoryDB_loop_Some is_saved_def wf_MemoryDB_def MemoryDB_Setup_def simp del: map_map)
qed

end

end
