(* ===== verification/Jobs.thy ===== *)
theory Jobs
  imports Sampling_Job SSE_Job Scheduler
begin

text \<open>
  All the job types behind the interface \<open>core.Job\<close>, and the job manager of \<open>coreapp/core/job.go\<close>, a
  factory that finds the job type by its name.
\<close>

section \<open>A job of any type\<close>

datatype Job =
    Normal NormalJob
  | Unknown UnknownJob
  | Sampling SamplingJob
  | Estimate EstimationJob
  | Manual ManualJob
  | SSE SSEJob

fun wrap :: "('s \<Rightarrow> 't) \<Rightarrow> ('s, 'a) outcome \<Rightarrow> ('t, 'a) outcome" where
  "wrap f (Ret a s) = Ret a (f s)"
| "wrap f (Pan s) = Pan (f s)"

fun Job_JobData :: "Job \<Rightarrow> JobData" where
  "Job_JobData (Normal j) = nj_jobData j"
| "Job_JobData (Unknown j) = uj_jobData j"
| "Job_JobData (Sampling j) = sj_jobData j"
| "Job_JobData (Estimate j) = ej_jobData j"
| "Job_JobData (Manual j) = mj_jobData j"
| "Job_JobData (SSE j) = ss_jobData j"

fun Job_put :: "JobData \<Rightarrow> Job \<Rightarrow> Job" where
  "Job_put d (Normal j) = Normal (nj_put d j)"
| "Job_put d (Unknown j) = Unknown (uj_put d j)"
| "Job_put d (Sampling j) = Sampling (sj_put d j)"
| "Job_put d (Estimate j) = Estimate (ej_put d j)"
| "Job_put d (Manual j) = Manual (mj_put d j)"
| "Job_put d (SSE j) = SSE (ss_put d j)"

fun Job_PreProcess :: "'a sse_env_scheme \<Rightarrow> Job \<Rightarrow> (Job, unit) outcome" where
  "Job_PreProcess e (Normal j) = wrap Normal (NormalJob_PreProcess e j)"
| "Job_PreProcess e (Unknown j) = wrap Unknown (UnknownJob_noop e j)"
| "Job_PreProcess e (Sampling j) = wrap Sampling (SamplingJob_PreProcess e j)"
| "Job_PreProcess e (Estimate j) = wrap Estimate (EstimationJob_PreProcess e j)"
| "Job_PreProcess e (Manual j) = wrap Manual (ManualJob_PreProcess e j)"
| "Job_PreProcess e (SSE j) = wrap SSE (SSEJob_PreProcess e j)"

fun Job_Process :: "'a sse_env_scheme \<Rightarrow> Job \<Rightarrow> (Job, unit) outcome" where
  "Job_Process e (Normal j) = wrap Normal (NormalJob_Process e j)"
| "Job_Process e (Unknown j) = wrap Unknown (UnknownJob_noop e j)"
| "Job_Process e (Sampling j) = wrap Sampling (SamplingJob_Process e j)"
| "Job_Process e (Estimate j) = wrap Estimate (EstimationJob_Process e j)"
| "Job_Process e (Manual j) = wrap Manual (ManualJob_Process e j)"
| "Job_Process e (SSE j) = wrap SSE (SSEJob_Process e j)"

fun Job_PostProcess :: "'a sse_env_scheme \<Rightarrow> Job \<Rightarrow> (Job, unit) outcome" where
  "Job_PostProcess e (Normal j) = wrap Normal (NormalJob_PostProcess e j)"
| "Job_PostProcess e (Unknown j) = wrap Unknown (UnknownJob_noop e j)"
| "Job_PostProcess e (Sampling j) = wrap Sampling (SamplingJob_PostProcess e j)"
| "Job_PostProcess e (Estimate j) = wrap Estimate (EstimationJob_PostProcess e j)"
| "Job_PostProcess e (Manual j) = wrap Manual (ManualJob_PostProcess e j)"
| "Job_PostProcess e (SSE j) = wrap SSE (SSEJob_PostProcess e j)"

fun Job_IsFinished :: "Job \<Rightarrow> bool res" where
  "Job_IsFinished (Normal j) = NormalJob_IsFinished j"
| "Job_IsFinished (Unknown j) = UnknownJob_IsFinished j"
| "Job_IsFinished (Sampling j) = SamplingJob_IsFinished j"
| "Job_IsFinished (Estimate j) = EstimationJob_IsFinished j"
| "Job_IsFinished (Manual j) = ManualJob_IsFinished j"
| "Job_IsFinished (SSE j) = SSEJob_IsFinished j"

fun Job_Clone :: "'a sse_env_scheme \<Rightarrow> Job \<Rightarrow> Job" where
  "Job_Clone e (Normal j) = Normal (NormalJob_Clone e j)"
| "Job_Clone e (Unknown j) = Unknown (UnknownJob_Clone e j)"
| "Job_Clone e (Sampling j) = Sampling (SamplingJob_Clone e j)"
| "Job_Clone e (Estimate j) = Estimate (EstimationJob_Clone e j)"
| "Job_Clone e (Manual j) = Manual (ManualJob_Clone e j)"
| "Job_Clone e (SSE j) = SSE (SSEJob_Clone e j)"

definition job_ops :: "('a sse_env_scheme, Job) JobOps" where
  "job_ops =
    \<lparr>jo_JobData = Job_JobData, jo_put = Job_put, jo_PreProcess = Job_PreProcess,
     jo_Process = Job_Process, jo_PostProcess = Job_PostProcess,
     jo_IsFinished = Job_IsFinished, jo_Clone = Job_Clone\<rparr>"

lemma keeps_wrap:
  "keeps (\<lambda>j. v (f j)) s m \<Longrightarrow> keeps v (f s) (wrap f m)"
  by (cases m) (simp_all add: keeps_def)

text \<open>The interface of the whole type rests on the contracts of the six implementations.\<close>

lemmas contracts =
  normal_job.data_put normal_job.clone_data normal_job.finished_flag
  normal_job.pre_id normal_job.proc_id normal_job.post_id
  unknown_job.data_put unknown_job.clone_data unknown_job.finished_flag
  unknown_job.pre_id unknown_job.proc_id unknown_job.post_id
  sampling_job.data_put sampling_job.clone_data sampling_job.finished_flag
  sampling_job.pre_id sampling_job.proc_id sampling_job.post_id
  estimation_job.data_put estimation_job.clone_data estimation_job.finished_flag
  estimation_job.pre_id estimation_job.proc_id estimation_job.post_id
  manual_job.data_put manual_job.clone_data manual_job.finished_flag
  manual_job.pre_id manual_job.proc_id manual_job.post_id
  sse_job.data_put sse_job.clone_data sse_job.finished_flag
  sse_job.pre_id sse_job.proc_id sse_job.post_id

lemmas contract_facts = contracts [unfolded normal_ops_def unknown_ops_def sampling_ops_def
    estimation_ops_def manual_ops_def sse_ops_def JobOps.simps]

interpretation job: job_contract job_ops env_ok
proof (unfold_locales, goal_cases)
  case (1 d j)
  show ?case by (cases j) (simp_all add: job_ops_def contract_facts)
next
  case (2 e j)
  then show ?case by (cases j) (simp_all add: job_ops_def contract_facts)
next
  case (3 b j)
  show ?case by (cases j) (simp_all add: job_ops_def contract_facts)
next
  case (4 e j)
  then show ?case
    by (cases j) (simp_all add: job_ops_def contract_facts keeps_wrap)
next
  case (5 e j)
  then show ?case
    by (cases j) (simp_all add: job_ops_def contract_facts keeps_wrap)
next
  case (6 e j)
  then show ?case
    by (cases j) (simp_all add: job_ops_def contract_facts keeps_wrap)
qed

section \<open>The job manager\<close>

text \<open>A registered empty job counts only by its Go type.\<close>

datatype Kind = NormalK | UnknownK | SamplingK | EstimationK | ManualK | SSEK

text \<open>\<open>JobType\<close> of an empty unknown job follows its nil job data.\<close>

fun Kind_JobType :: "Kind \<Rightarrow> string res" where
  "Kind_JobType NormalK = Ok NORMAL_JOB"
| "Kind_JobType UnknownK = Panic"
| "Kind_JobType SamplingK = Ok SAMPLING_JOB"
| "Kind_JobType EstimationK = Ok ESTIMATION_JOB"
| "Kind_JobType ManualK = Ok MULTIPROG_MANUAL_JOB"
| "Kind_JobType SSEK = Ok SSE_JOB"

fun Kind_New :: "'a sse_env_scheme \<Rightarrow> Kind \<Rightarrow> JobData \<Rightarrow> Job" where
  "Kind_New e NormalK jd = Normal (NormalJob_New jd)"
| "Kind_New e UnknownK jd = Unknown (UnknownJob_New jd)"
| "Kind_New e SamplingK jd = Sampling (SamplingJob_New jd)"
| "Kind_New e EstimationK jd = Estimate (EstimationJob_New (ev_EstimationSetting e) jd)"
| "Kind_New e ManualK jd = Manual (ManualJob_New jd)"
| "Kind_New e SSEK jd = SSE (SSEJob_New jd)"

record JobManager =
  acceptableJobs :: "Kind list"

fun RegisterJob :: "Kind list \<Rightarrow> JobManager \<Rightarrow> (JobManager, error option) outcome" where
  "RegisterJob [] m = Ret None m"
| "RegisterJob (job # jobs) m =
    (case Kind_JobType job of
       Ok t \<Rightarrow>
         if job \<in> set (acceptableJobs m) then Ret (Some (''job:'' @ t @ '' is already registered'')) m
         else RegisterJob jobs (m\<lparr>acceptableJobs := acceptableJobs m @ [job]\<rparr>)
     | _ \<Rightarrow> Pan m)"

fun NewJobManager_loop :: "Kind list \<Rightarrow> JobManager \<Rightarrow> JobManager res" where
  "NewJobManager_loop [] jm = Ok jm"
| "NewJobManager_loop (job # jobs) jm =
    (case RegisterJob [job] jm of
       Ret None jm \<Rightarrow> NewJobManager_loop jobs jm
     | Ret (Some er) _ \<Rightarrow> Err er
     | Pan _ \<Rightarrow> Panic)"

definition NewJobManager :: "Kind list \<Rightarrow> JobManager res" where
  "NewJobManager jobs = NewJobManager_loop jobs \<lparr>acceptableJobs = []\<rparr>"

fun AcceptableJobTypes :: "Kind list \<Rightarrow> string list res" where
  "AcceptableJobTypes [] = Ok []"
| "AcceptableJobTypes (job # jobs) =
    res_bind (Kind_JobType job) (\<lambda>t. res_bind (AcceptableJobTypes jobs) (\<lambda>ts. Ok (t # ts)))"

fun find_kind :: "string \<Rightarrow> Kind list \<Rightarrow> Kind option res" where
  "find_kind t [] = Ok None"
| "find_kind t (k # ks) =
    res_bind (Kind_JobType k) (\<lambda>u. if u = t then Ok (Some k) else find_kind t ks)"

definition default_type :: "JobData \<Rightarrow> JobData" where
  "default_type jd = (if jd_JobType jd = [] then jd\<lparr>jd_JobType := NORMAL_JOB\<rparr> else jd)"

definition NewJobFromJobData :: "'a sse_env_scheme \<Rightarrow> JobManager \<Rightarrow> JobData \<Rightarrow> Job res" where
  "NewJobFromJobData e m jd =
    (let jd = default_type jd in
     res_bind (find_kind (jd_JobType jd) (acceptableJobs m)) (\<lambda>k.
       case k of
         Some k \<Rightarrow> Ok (Kind_New e k jd)
       | None \<Rightarrow> Err (''job type '' @ jd_JobType jd @ '' is not registered'')))"

definition NewJobFromJobDataWithValidation :: "'a sse_env_scheme \<Rightarrow> JobManager \<Rightarrow> JobData \<Rightarrow> Job res" where
  "NewJobFromJobDataWithValidation e m jd =
    (let jd = default_type jd in
     res_bind (validateJobParam e (param_of jd)) (\<lambda>err.
       case err of
         Some er \<Rightarrow> Err er
       | None \<Rightarrow> NewJobFromJobData e m jd))"

definition NewJob :: "'a sse_env_scheme \<Rightarrow> JobManager \<Rightarrow> JobParam \<Rightarrow> Job res" where
  "NewJob e m p =
    NewJobFromJobData e m ((NewJobData (ev_now e))
      \<lparr>jd_ID := jp_JobID p, jd_QASM := jp_QASM p, jd_Shots := jp_Shots p,
       jd_Transpiler := jp_Transpiler p, jd_JobType := jp_JobType p\<rparr>)"

definition NewJobWithValidation :: "'a sse_env_scheme \<Rightarrow> JobManager \<Rightarrow> JobParam \<Rightarrow> Job res" where
  "NewJobWithValidation e m p =
    (let p = (if jp_JobType p = [] then p\<lparr>jp_JobType := NORMAL_JOB\<rparr> else p) in
     res_bind (validateJobParam e p) (\<lambda>err.
       case err of Some er \<Rightarrow> Err er | None \<Rightarrow> NewJob e m p))"

text \<open>The registration at start-up, \<open>startCore\<close> of \<open>coreapp/cmd/edge/main.go\<close>.\<close>

definition startCore_jobs :: "JobManager res" where
  "startCore_jobs = NewJobManager [SamplingK, SSEK, ManualK, EstimationK]"

section \<open>Properties\<close>

text \<open>
  Registration succeeds exactly when the jobs are of pairwise different types, none of them
  registered before; the registered types are then appended in order, so that no type is ever
  registered twice.
\<close>

theorem RegisterJob_ok:
  "RegisterJob jobs m = Ret None m' \<longleftrightarrow>
    UnknownK \<notin> set jobs \<and> distinct jobs \<and> set jobs \<inter> set (acceptableJobs m) = {} \<and>
    m' = m\<lparr>acceptableJobs := acceptableJobs m @ jobs\<rparr>"
proof (induction jobs m rule: RegisterJob.induct)
  case (2 job jobs m)
  show ?case
  proof (cases "Kind_JobType job")
    case (Ok t)
    then have "job \<noteq> UnknownK"
      by auto
    then show ?thesis
      using Ok "2.IH" [OF Ok] by auto
  next
    case (Err er)
    then show ?thesis
      by (cases job) auto
  next
    case Panic
    then have "job = UnknownK"
      by (cases job) auto
    then show ?thesis
      by simp
  qed
qed auto

lemma Kind_JobType_simps:
  "NORMAL_JOB = ''normal''" "SAMPLING_JOB = ''sampling''" "ESTIMATION_JOB = ''estimation_job''"
  "MULTIPROG_MANUAL_JOB = ''multi_manual''" "SSE_JOB = ''sse''"
  by (simp_all add: NORMAL_JOB_def SAMPLING_JOB_def ESTIMATION_JOB_def MULTIPROG_MANUAL_JOB_def SSE_JOB_def)

lemma startCore_jobs_eq: "startCore_jobs = Ok \<lparr>acceptableJobs = [SamplingK, SSEK, ManualK, EstimationK]\<rparr>"
  by (simp add: startCore_jobs_def NewJobManager_def)

lemma Kind_New_data: "Job_JobData (Kind_New e k jd) = jd"
  by (cases k) (simp_all add: NormalJob_New_def UnknownJob_New_def SamplingJob_New_def EstimationJob_New_def
      ManualJob_New_def SSEJob_New_def)

lemma Kind_New_unfinished: "jd_Status jd = READY \<Longrightarrow> Job_IsFinished (Kind_New e k jd) \<noteq> Ok True"
  by (cases k) (simp_all add: NormalJob_New_def UnknownJob_New_def SamplingJob_New_def EstimationJob_New_def
      ManualJob_New_def SSEJob_New_def NormalJob_IsFinished_def UnknownJob_IsFinished_def
      SamplingJob_IsFinished_def EstimationJob_IsFinished_def ManualJob_IsFinished_def SSEJob_IsFinished_def)

text \<open>
  With the registration of the start-up code, job data become a job exactly when their type is
  \<open>sampling\<close>, \<open>sse\<close>, \<open>multi_manual\<close> or \<open>estimation_job\<close>, and the job carries the data unchanged. The
  type \<open>normal\<close>, which is also the default for data without a type, is not registered, so such data
  are rejected.
\<close>

theorem NewJobFromJobData_startCore:
  "\<exists>m. startCore_jobs = Ok m \<and>
    (if jd_JobType jd \<in> {''sampling'', ''sse'', ''multi_manual'', ''estimation_job''}
     then \<exists>j. NewJobFromJobData e m jd = Ok j \<and> Job_JobData j = jd
     else \<exists>er. NewJobFromJobData e m jd = Err er)"
  by (auto simp: startCore_jobs_eq NewJobFromJobData_def Let_def default_type_def Kind_JobType_simps
      SamplingJob_New_def EstimationJob_New_def ManualJob_New_def SSEJob_New_def)

lemma NewJobFromJobDataWithValidation_ok:
  assumes "NewJobFromJobDataWithValidation e m jd = Ok j"
  shows "validateJobParam e (param_of (default_type jd)) = Ok None \<and> Job_JobData j = default_type jd"
proof -
  have idem: "default_type (default_type jd) = default_type jd"
    by (simp add: default_type_def NORMAL_JOB_def)
  show ?thesis
    using assms
    by (auto simp: NewJobFromJobDataWithValidation_def NewJobFromJobData_def Let_def res_simps idem Kind_New_data
        split: option.splits)
qed

end
