(* ===== verification/Job_Handling.thy ===== *)
theory Job_Handling
  imports Jobs
begin

text \<open>
  What the scheduler guarantees for the jobs of the program: the theorems of \<open>Scheduler\<close>, for any
  implementation of the job interface or, where the interface's contract is needed, for the six
  implementations together (the interpretation \<open>job\<close> of \<open>Jobs\<close>). A schedule is a list of moves, one for each
  goroutine that steps; \<open>play\<close> runs it, so that concrete runs of the system can be evaluated.
\<close>


section \<open>Schedules\<close>

datatype 'j move = Arrive 'j | Handle nat | Enqueue | Execute

fun play :: "('q, nat) FIFO \<Rightarrow> ('e, 'j) JobOps \<Rightarrow> 'e \<Rightarrow> 'j move list \<Rightarrow> ('q, 'j) sched \<Rightarrow> ('q, 'j) sched option" where
  "play fq ops e [] s = Some s"
| "play fq ops e (Arrive j # ms) s = play fq ops e ms (HandleJob j s)"
| "play fq ops e (Handle i # ms) s =
    (if i < length (sy_handlers s)
     then (case handler_step ops e i s of None \<Rightarrow> None | Some t \<Rightarrow> play fq ops e ms t) else None)"
| "play fq ops e (Enqueue # ms) s = (case queue_step fq s of None \<Rightarrow> None | Some t \<Rightarrow> play fq ops e ms t)"
| "play fq ops e (Execute # ms) s = (case executor_step fq ops e s of None \<Rightarrow> None | Some t \<Rightarrow> play fq ops e ms t)"

lemma play_reachable:
  "play fq ops e ms s = Some t \<Longrightarrow> ok e \<Longrightarrow> reachable fq ops ok mx th s \<Longrightarrow> reachable fq ops ok mx th t"
  by (induction fq ops e ms s rule: play.induct)
    (auto split: if_splits option.splits
      intro: reachable.step sched_step.arrive sched_step.handle sched_step.queue sched_step.execute)

lemma play_run:
  "play fq ops e ms t = Some u \<Longrightarrow> ok e \<Longrightarrow> run fq ops ok s n a l t \<Longrightarrow>
    \<exists>a' l'. run fq ops ok s (n + length ms) a' l' u"
proof (induction fq ops e ms t arbitrary: n a l rule: play.induct)
  case (2 fq ops e j ms t)
  then show ?case
    using run.arrive [OF 2(4)] by fastforce
next
  case (3 fq ops e i ms t)
  then obtain t' where "i < length (sy_handlers t)" "handler_step ops e i t = Some t'" "play fq ops e ms t' = Some u"
    by (auto split: if_splits option.splits)
  then show ?case
    using 3(1) [OF _ _ _ 3(3) run.handle [OF 3(4) 3(3)]] by fastforce
next
  case (4 fq ops e ms t)
  then obtain t' where "queue_step fq t = Some t'" "play fq ops e ms t' = Some u"
    by (auto split: option.splits)
  then show ?case
    using 4(1) [OF _ _ 4(3) run.queue [OF 4(4)]] by fastforce
next
  case (5 fq ops e ms t)
  then obtain t' where "executor_step fq ops e t = Some t'" "play fq ops e ms t' = Some u"
    by (auto split: option.splits)
  then show ?case
    using 5(1) [OF _ _ 5(3) run.execute [OF 5(4) 5(3)]] by fastforce
qed auto

definition sample_job :: Job where
  "sample_job = Sampling (SamplingJob_New example_job)"

definition sample_moves :: "Job move list" where
  "sample_moves = [Arrive sample_job, Handle 0, Handle 0, Handle 0, Handle 0, Enqueue, Execute, Execute,
     Execute, Execute, Execute, Handle 0, Handle 0, Handle 0, Handle 0, Handle 0]"

definition sample_end :: "(nat list, Job) sched" where
  "sample_end = the (play list_fifo job_ops example_sse_env sample_moves (NormalScheduler_Setup list_fifo 5 3))"

definition full_moves :: "Job move list" where
  "full_moves = take 6 sample_moves"

definition full_end :: "(nat list, Job) sched" where
  "full_end = the (play list_fifo job_ops example_sse_env full_moves (NormalScheduler_Setup list_fifo 0 3))"

lemma example_env_ok: "env_ok example_sse_env"
proof -
  have "deepcopy_ok id"
    unfolding deepcopy_ok_def id_apply by (metis JobData.surjective JobData.update_convs(9,10))
  then show ?thesis
    by (simp add: env_ok_def example_sse_env_def keeps_def)
qed

lemma sample_play: "play list_fifo job_ops example_sse_env sample_moves (NormalScheduler_Setup list_fifo 5 3) = Some sample_end"
proof -
  have "play list_fifo job_ops example_sse_env sample_moves (NormalScheduler_Setup list_fifo 5 3) \<noteq> None"
    by code_simp
  then show ?thesis
    by (auto simp: sample_end_def)
qed

lemma full_play: "play list_fifo job_ops example_sse_env full_moves (NormalScheduler_Setup list_fifo 0 3) = Some full_end"
proof -
  have "play list_fifo job_ops example_sse_env full_moves (NormalScheduler_Setup list_fifo 0 3) \<noteq> None"
    by code_simp
  then show ?thesis
    by (auto simp: full_end_def)
qed

lemma sample_reachable: "reachable list_fifo (job_ops :: (sse_env, Job) JobOps) env_ok 5 3 sample_end"
  by (rule play_reachable [OF sample_play, of env_ok]) (auto intro: example_env_ok reachable.init)

lemma full_reachable: "reachable list_fifo (job_ops :: (sse_env, Job) JobOps) env_ok 0 3 full_end"
  by (rule play_reachable [OF full_play, of env_ok]) (auto intro: example_env_ok reachable.init)

lemma sample_facts:
  "length (sy_handlers sample_end) = 1" "h_pc (sy_handlers sample_end ! 0) = H_Done"
  "\<not> h_unexpected (sy_handlers sample_end ! 0)" "sy_exec sample_end = [0]"
  "jd_Status (Job_JobData (h_job (sy_handlers sample_end ! 0))) = SUCCEEDED"
  "jd_ID (Job_JobData (h_job (sy_handlers sample_end ! 0))) = ''id''"
  by code_simp+

lemma full_facts:
  "length (sy_handlers full_end) = 1" "h_pc (sy_handlers full_end ! 0) = H_Wait" "sy_dropped full_end = [0]"
  by code_simp+

section \<open>What the scheduler guarantees\<close>

text \<open>
  The theorems hold for every queue with the contract of the queue package, and the ones about the final
  data of a job for the six implementations of the job interface.
\<close>

lemma queue_contract: "fifo_queue fq content \<Longrightarrow> job_queue fq content"
  by (rule job_queue.intro)

lemma job_scheduler: "fifo_queue fq content \<Longrightarrow> scheduler job_ops env_ok fq content"
  by (intro scheduler.intro job.job_contract_axioms queue_contract)

interpretation list_scheduler: scheduler job_ops env_ok list_fifo "\<lambda>q. q"
  by (rule job_scheduler) (rule list_queue.fifo_queue_axioms)

lemma job_ops_sel: "jo_JobData job_ops = Job_JobData" "jo_IsFinished job_ops = Job_IsFinished"
  by (simp_all add: job_ops_def)

lemma job_id_eq: "job_contract.job_id job_ops = (\<lambda>j. jd_ID (Job_JobData j))"
  by (rule ext) (simp add: job_contract.job_id_def [OF job.job_contract_axioms] job_ops_sel)

text \<open>
  C6: The queue never holds more jobs than its maximal size, and jobs are executed in the order in
  which they were put into it: the jobs put are those executed followed by those still waiting.
\<close>

theorem queue_bounded_in_order:
  assumes "fifo_queue fq content" and "reachable fq ops ok mx th s"
  shows "int (NormalScheduler_GetCurrentQueueSize fq s) \<le> max 0 mx \<and>
    sy_enq s = sy_exec s @ content (nq_fifo (sy_queue s))"
  using job_queue.queue_inv_reachable [OF queue_contract [OF assms(1)] assms(2)]
  by (simp add: queue_inv_def NormalScheduler_GetCurrentQueueSize_def NormalQueue_GetCurrentSize_def
      fifo_queue.getlen [OF assms(1)])

theorem queue_bounded_in_order_witness:
  "int (NormalScheduler_GetCurrentQueueSize list_fifo sample_end) \<le> 5 \<and> sy_enq sample_end = [0]"
proof -
  have "nq_fifo (sy_queue sample_end) = []"
    by code_simp
  then show ?thesis
    using queue_bounded_in_order [OF list_queue.fifo_queue_axioms sample_reachable] sample_facts by simp
qed

text \<open>
  C3: A job is in at most one place: the jobs received by the queue goroutine, in the queue, in
  execution and turned away are all different, and they are exactly the jobs whose handlers wait with
  a wait group of one. So no handler touches a job that the executor processes, and every
  \<open>finished.Done()\<close> meets a counter of one.
\<close>

theorem jobs_exclusive:
  assumes "fifo_queue fq content" and "reachable fq ops ok mx th s"
  shows "distinct (owned content s) \<and>
    set (owned content s) = {i. i < length (sy_handlers s) \<and> h_pc (sy_handlers s ! i) = H_Wait \<and>
      h_wg (sy_handlers s ! i) = 1} \<and>
    (\<forall>h \<in> set (sy_handlers s). h_wg h \<le> 1)"
  using job_queue.own_inv_reachable [OF queue_contract [OF assms(1)] assms(2)]
  by (auto simp: own_inv_def waiting_def wg_ok_def list_all_iff)

theorem jobs_exclusive_witness: "set (owned (\<lambda>q. q) full_end) = {0}"
proof -
  have "sy_received full_end = None \<and> nq_fifo (sy_queue full_end) = [] \<and> sy_running full_end = None"
    by code_simp
  then show ?thesis
    using jobs_exclusive [OF list_queue.fifo_queue_axioms full_reachable] full_facts by (simp add: owned_def)
qed

text \<open>
  C4: The scheduler does not deadlock: while a job that was not turned away by the queue is not
  done, some goroutine can step, without waiting for new jobs.
\<close>

theorem scheduler_progress:
  assumes "fifo_queue fq content" and "reachable fq ops ok mx th s" and "ok e" and "i < length (sy_handlers s)"
    and "h_pc (sy_handlers s ! i) \<noteq> H_Done" and "i \<notin> set (sy_dropped s)"
  shows "(\<exists>k s'. k < length (sy_handlers s) \<and> handler_step ops e k s = Some s') \<or>
    (\<exists>s'. queue_step fq s = Some s') \<or> (\<exists>s'. executor_step fq ops e s = Some s')"
  using job_queue.progress [OF queue_contract [OF assms(1)], of s "\<lambda>e'. e' = e" e i ops]
    job_queue.own_inv_reachable [OF queue_contract [OF assms(1)] assms(2)] assms(4-6)
  by (auto simp: enabled_def)

theorem scheduler_progress_witness:
  "\<exists>(s :: (nat list, Job) sched) k. k < length (sy_handlers s) \<and> (\<exists>s'. handler_step job_ops example_sse_env k s = Some s')"
proof -
  let ?s = "HandleJob sample_job (NormalScheduler_Setup list_fifo 5 3)"
  have "reachable list_fifo (job_ops :: (sse_env, Job) JobOps) env_ok 5 3 ?s"
    by (rule reachable.step [OF reachable.init sched_step.arrive])
  moreover have "queue_step list_fifo ?s = None \<and> executor_step list_fifo job_ops example_sse_env ?s = None"
    by code_simp
  moreover have "length (sy_handlers ?s) = 1 \<and> h_pc (sy_handlers ?s ! 0) \<noteq> H_Done \<and> sy_dropped ?s = []"
    by code_simp
  ultimately show ?thesis
    using scheduler_progress [OF list_queue.fifo_queue_axioms, of job_ops env_ok 5 3 ?s example_sse_env 0] example_env_ok by fastforce
qed

text \<open>
  C5: The scheduler does only a bounded amount of work for a job: in a run from the start with \<open>a\<close> jobs
  arriving and \<open>l\<close> further passes through the loop of \<open>handleImpl\<close>, the goroutines take at most
  \<open>20 * a + 14 * l\<close> steps, arrivals included.
\<close>

theorem scheduler_work_bounded:
  assumes "fifo_queue fq content" and "run fq ops ok (NormalScheduler_Setup fq mx th) n a l s"
  shows "n \<le> 20 * a + 14 * l"
  using job_queue.run_work [OF queue_contract [OF assms(1)] assms(2)]
  by (simp add: work_def NormalScheduler_Setup_def NormalQueue_Setup_def fifo_queue.new [OF assms(1)])

theorem scheduler_work_bounded_witness:
  "\<exists>a l. run list_fifo (job_ops :: (sse_env, Job) JobOps) env_ok (NormalScheduler_Setup list_fifo 5 3) 16 a l sample_end \<and> 16 \<le> 20 * a + 14 * l"
proof -
  have "length sample_moves = 16"
    by (simp add: sample_moves_def)
  then obtain a l where "run list_fifo (job_ops :: (sse_env, Job) JobOps) env_ok (NormalScheduler_Setup list_fifo 5 3) 16 a l sample_end"
    using play_run [OF sample_play, of env_ok, OF example_env_ok run.start] by auto
  then show ?thesis
    using scheduler_work_bounded [OF list_queue.fifo_queue_axioms] by blast
qed

text \<open>
  C7: A job turned away by the queue (it is full, or \<open>Enqueue\<close> fails) is lost: nothing that happens later moves its handler, which
  waits forever, and the job is never executed.
\<close>

theorem dropped_job_waits_forever:
  assumes "fifo_queue fq content" and "reachable fq ops ok mx th s" and "i \<in> set (sy_dropped s)" and "(sched_step fq ops ok)\<^sup>*\<^sup>* s s'"
  shows "sy_handlers s' ! i = sy_handlers s ! i \<and> h_pc (sy_handlers s' ! i) = H_Wait \<and>
    i \<notin> set (content (nq_fifo (sy_queue s'))) \<and> (\<forall>pc. sy_running s' \<noteq> Some (i, pc))"
  using job_queue.dropped_steps [OF queue_contract [OF assms(1)] assms(4)
      job_queue.own_inv_reachable [OF queue_contract [OF assms(1)] assms(2)] assms(3)]
  by (auto simp: own_inv_def owned_def)

theorem dropped_job_waits_forever_witness: "h_pc (sy_handlers full_end ! 0) = H_Wait"
  using dropped_job_waits_forever [OF list_queue.fifo_queue_axioms full_reachable, of 0 full_end] full_facts by simp

text \<open>
  C1: When the handler of a job is done and did not give up because of an unexpected status, the job
  is finished by its own \<open>IsFinished\<close> or has the status \<open>FAILED\<close>, and the last message about it on the
  DB channel carries exactly its final data. A handler that gave up saw a status other than \<open>READY\<close>.
  This holds for all six kinds of jobs, whatever the services answer and however jobs interleave.
\<close>

theorem done_job_is_saved:
  assumes "fifo_queue fq content" and "reachable fq job_ops env_ok mx th s" and "i < length (sy_handlers s)"
    and "h_pc (sy_handlers s ! i) = H_Done"
  shows "if h_unexpected (sy_handlers s ! i) then jd_Status (Job_JobData (h_job (sy_handlers s ! i))) \<noteq> READY
    else msgs i s \<noteq> [] \<and> Job_JobData (last (msgs i s)) = Job_JobData (h_job (sy_handlers s ! i)) \<and>
      (Job_IsFinished (h_job (sy_handlers s ! i)) = Ok True \<or>
       jd_Status (Job_JobData (h_job (sy_handlers s ! i))) = FAILED)"
  using scheduler.done_saved [OF job_scheduler [OF assms(1)] assms(2-4)]
  by (simp add: is_saved_def is_ended_def job_ops_sel split: if_splits)

theorem done_job_is_saved_witness: "jd_Status (Job_JobData (last (msgs 0 sample_end))) = SUCCEEDED"
  using done_job_is_saved [OF list_queue.fifo_queue_axioms sample_reachable, of 0] sample_facts by (simp split: if_splits)

text \<open>
  C2: End to end with the database: if the job's ID is unique, then once the job is done the in-memory
  database, having applied all messages, returns for this ID the job with its final data.
\<close>

theorem done_job_in_database:
  assumes "fifo_queue fq content" and "reachable fq job_ops env_ok mx th s" and "i < length (sy_handlers s)"
    and "h_pc (sy_handlers s ! i) = H_Done" and "\<not> h_unexpected (sy_handlers s ! i)"
    and "\<And>k. k < length (sy_handlers s) \<Longrightarrow> k \<noteq> i \<Longrightarrow>
      jd_ID (Job_JobData (h_job (sy_handlers s ! k))) \<noteq> jd_ID (Job_JobData (h_job (sy_handlers s ! i)))"
  shows "\<exists>m. MemoryDB_Get (jd_ID (Job_JobData (h_job (sy_handlers s ! i))))
      (MemoryDB_loop (\<lambda>j. jd_ID (Job_JobData j)) (map Some (map snd (sy_db s))) MemoryDB_Setup) = (Some m, None) \<and>
    Job_JobData m = Job_JobData (h_job (sy_handlers s ! i))"
  using scheduler.done_in_db [OF job_scheduler [OF assms(1)] assms(2-5)] assms(6) by (auto simp: job_id_eq job_ops_sel simp del: map_map)

theorem done_job_in_database_witness:
  "\<exists>m. MemoryDB_Get ''id''
      (MemoryDB_loop (\<lambda>j. jd_ID (Job_JobData j)) (map Some (map snd (sy_db sample_end))) MemoryDB_Setup) = (Some m, None) \<and>
    jd_Status (Job_JobData m) = SUCCEEDED"
  using done_job_in_database [OF list_queue.fifo_queue_axioms sample_reachable, of 0] sample_facts by (auto simp del: map_map)

text \<open>
  The status history keeps no entry for jobs that are done: every ID in it belongs to a job whose
  handler is still at work. In particular the history is empty when all handlers are done.
\<close>

theorem status_history_live:
  assumes "fifo_queue fq content" and "reachable fq job_ops env_ok mx th s" and "x \<in> fst ` set (sy_hist s)"
  shows "\<exists>h \<in> set (sy_handlers s). h_pc h \<noteq> H_Done \<and> jd_ID (Job_JobData (h_job h)) = x"
  using subsetD [OF scheduler.hist_inv_reachable [OF job_scheduler [OF assms(1)] assms(2),
    unfolded hist_inv_def hist_ids_def live_ids_def job_ops_sel] assms(3)] by auto

theorem status_history_live_witness: "sy_hist sample_end = []"
proof (rule ccontr)
  assume "sy_hist sample_end \<noteq> []"
  then obtain x where "x \<in> fst ` set (sy_hist sample_end)"
    by fastforce
  then show False
    using status_history_live [OF list_queue.fifo_queue_axioms sample_reachable] sample_facts by (force simp: in_set_conv_nth)
qed

end
