(* ===== verification/Qpu.thy ===== *)
theory Qpu
  imports Jobs
begin

text \<open>
  \<open>coreapp/qpu/qpu.go\<close>, \<open>gateway.go\<close> and \<open>device.go\<close>, with the device information of
  \<open>core/syscomponent.go\<close>: the QPU behind a gateway service, its device polling, and the dummy QPU.

  The gateway service and the provider's API are not part of the repository. \<open>gw_env\<close> holds their
  answers to one operation; \<open>gw_Patch\<close> is the error, if any, of one update call. An update call is a
  value of \<open>api_call\<close>; the calls made are collected in a list. Parsing the calibration time is the
  argument \<open>gw_ParseTime\<close>, which gives the error of a text that is not a time.
\<close>

datatype DeviceStatus = Available | Unavailable | QueuePaused

fun DeviceStatus_String :: "DeviceStatus \<Rightarrow> string" where
  "DeviceStatus_String Available = ''Available''"
| "DeviceStatus_String Unavailable = ''Unavailable''"
| "DeviceStatus_String QueuePaused = ''QueuePaused''"

record DeviceInfo =
  di_DeviceName :: string
  di_ProviderName :: string
  di_Type :: string
  di_Status :: DeviceStatus
  di_MaxQubits :: int
  di_MaxShots :: int
  di_DeviceInfoSpecJson :: string
  di_CalibratedAt :: string

definition zero_DeviceInfo :: DeviceInfo where
  "zero_DeviceInfo =
    \<lparr>di_DeviceName = [], di_ProviderName = [], di_Type = [], di_Status = Available, di_MaxQubits = 0,
     di_MaxShots = 0, di_DeviceInfoSpecJson = [], di_CalibratedAt = []\<rparr>"

section \<open>The gateway agent\<close>

datatype ServiceStatus = SERVICE_STATUS_ACTIVE | SERVICE_STATUS_INACTIVE | SERVICE_STATUS_MAINTENANCE
  | OtherServiceStatus int

datatype JobStatus = JOB_STATUS_SUCCESS | JOB_STATUS_FAILURE | JOB_STATUS_INACTIVE | OtherJobStatus int

record GatewayDeviceInfo =
  gd_DeviceId :: string
  gd_ProviderId :: string
  gd_Type :: string
  gd_MaxQubits :: u32
  gd_MaxShots :: u32
  gd_DeviceInfo :: string
  gd_CalibratedAt :: string

record CallJobResponse =
  cj_Status :: JobStatus
  cj_Result :: "(Counts \<times> string) option"

datatype api_call = PatchDeviceStatus string | PatchDeviceInfo string string | PatchDevice int

record gw_env =
  gw_NewClient :: "string \<Rightarrow> error option"
  gw_NewApiClient :: "string \<Rightarrow> error option"
  gw_GetDeviceInfo :: "GatewayDeviceInfo res"
  gw_GetServiceStatus :: "ServiceStatus res"
  gw_CallJob :: "string \<Rightarrow> u32 \<Rightarrow> string \<Rightarrow> CallJobResponse res"
  gw_Patch :: "api_call \<Rightarrow> error option"
  gw_ParseTime :: "string \<Rightarrow> error option"
  gw_Elapsed :: duration
  gw_now :: datetime

record DefaultGatewayAgentSetting =
  gs_GatewayHost :: string
  gs_GatewayPort :: string
  gs_APIEndpoint :: string
  gs_APIKey :: string
  gs_DeviceId :: string

definition NewDefaultGatewayAgentSetting :: DefaultGatewayAgentSetting where
  "NewDefaultGatewayAgentSetting =
    \<lparr>gs_GatewayHost = ''localhost'', gs_GatewayPort = ''50051'', gs_APIEndpoint = ''https://localhost'',
     gs_APIKey = ''your_api_key'', gs_DeviceId = ''your_device_id''\<rparr>"

record DefaultGatewayAgent =
  ga_setting :: DefaultGatewayAgentSetting
  ga_gatewayAddress :: string
  ga_gatewayClient :: bool
  ga_apiClient :: bool
  ga_lastDeviceInfo :: "DeviceInfo option"

definition NewGatewayAgent :: DefaultGatewayAgent where
  "NewGatewayAgent =
    \<lparr>ga_setting = \<lparr>gs_GatewayHost = [], gs_GatewayPort = [], gs_APIEndpoint = [], gs_APIKey = [], gs_DeviceId = []\<rparr>,
     ga_gatewayAddress = [], ga_gatewayClient = False, ga_apiClient = False, ga_lastDeviceInfo = None\<rparr>"

text \<open>\<open>Reset\<close> closes the connection and makes a new one; if that fails the old, closed client stays.\<close>

definition Agent_Reset :: "gw_env \<Rightarrow> DefaultGatewayAgent \<Rightarrow> DefaultGatewayAgent" where
  "Agent_Reset e q =
    (case gw_NewClient e (ga_gatewayAddress q) of
       Some _ \<Rightarrow> q
     | None \<Rightarrow> q\<lparr>ga_gatewayClient := True, ga_lastDeviceInfo := None\<rparr>)"

definition Agent_Setup ::
  "gw_env \<Rightarrow> Setting option \<Rightarrow> DefaultGatewayAgent \<Rightarrow> (DefaultGatewayAgent, error option) outcome" where
  "Agent_Setup e g q =
    (case GetComponentSetting ''gateway'' g of
       None \<Rightarrow> Ret (Some ''gateway setting is not found'') q
     | Some s \<Rightarrow>
         bindP
           (case as_table (Some s) of
              None \<Rightarrow> Ret () (q\<lparr>ga_setting := NewDefaultGatewayAgentSetting\<rparr>)
            | Some mapped \<Rightarrow>
                bindP (derefP (as_string (map_of mapped ''gateway_host'')) q) (\<lambda>host q.
                bindP (derefP (as_string (map_of mapped ''gateway_port'')) q) (\<lambda>port q.
                bindP (derefP (as_string (map_of mapped ''api_endpoint'')) q) (\<lambda>endpoint q.
                bindP (derefP (as_string (map_of mapped ''api_key'')) q) (\<lambda>key q.
                bindP (derefP (as_string (map_of mapped ''device_id'')) q) (\<lambda>dev q.
                  Ret () (q\<lparr>ga_setting := \<lparr>gs_GatewayHost = host, gs_GatewayPort = port,
                    gs_APIEndpoint = endpoint, gs_APIKey = key, gs_DeviceId = dev\<rparr>\<rparr>)))))))
           (\<lambda>_ q.
              case ValidAddress (gs_GatewayHost (ga_setting q)) (gs_GatewayPort (ga_setting q)) of
                Err er \<Rightarrow> Ret (Some er) q
              | Panic \<Rightarrow> Pan q
              | Ok address \<Rightarrow>
                  (let q = q\<lparr>ga_gatewayAddress := address\<rparr> in
                   case gw_NewApiClient e (gs_APIEndpoint (ga_setting q)) of
                     Some er \<Rightarrow> Ret (Some (''failed to create API client: '' @ er)) q
                   | None \<Rightarrow> Ret None (Agent_Reset e (q\<lparr>ga_apiClient := True\<rparr>)))))"

fun mapServiceStatusToDeviceStatus :: "ServiceStatus \<Rightarrow> DeviceStatus" where
  "mapServiceStatusToDeviceStatus SERVICE_STATUS_ACTIVE = Available"
| "mapServiceStatusToDeviceStatus SERVICE_STATUS_INACTIVE = Unavailable"
| "mapServiceStatusToDeviceStatus SERVICE_STATUS_MAINTENANCE = QueuePaused"
| "mapServiceStatusToDeviceStatus (OtherServiceStatus n) = Unavailable"

fun toDeviceDeviceStatusUpdateStatus :: "DeviceStatus \<Rightarrow> string" where
  "toDeviceDeviceStatusUpdateStatus Available = ''available''"
| "toDeviceDeviceStatusUpdateStatus _ = ''unavailable''"

subsection \<open>Reporting changes of the device\<close>

definition hasStatusChanged :: "DeviceInfo option \<Rightarrow> DeviceInfo option \<Rightarrow> bool" where
  "hasStatusChanged oldSt newSt =
    (case oldSt of None \<Rightarrow> True | Some old \<Rightarrow>
    (case newSt of None \<Rightarrow> True | Some new \<Rightarrow> di_Status old \<noteq> di_Status new))"

definition hasDeviceInfoChanged :: "DeviceInfo option \<Rightarrow> DeviceInfo option \<Rightarrow> bool" where
  "hasDeviceInfoChanged oldDI newDI =
    (case oldDI of None \<Rightarrow> True | Some old \<Rightarrow>
    (case newDI of None \<Rightarrow> True | Some new \<Rightarrow>
       di_CalibratedAt old \<noteq> di_CalibratedAt new \<or>
       di_DeviceInfoSpecJson old \<noteq> di_DeviceInfoSpecJson new \<or>
       di_MaxShots old \<noteq> di_MaxShots new \<or>
       di_ProviderName old \<noteq> di_ProviderName new \<or>
       di_DeviceName old \<noteq> di_DeviceName new \<or>
       di_Type old \<noteq> di_Type new))"

definition hasDeviceChanged :: "DeviceInfo option \<Rightarrow> DeviceInfo option \<Rightarrow> bool" where
  "hasDeviceChanged oldDI newDI =
    (case oldDI of None \<Rightarrow> True | Some old \<Rightarrow>
    (case newDI of None \<Rightarrow> True | Some new \<Rightarrow> di_MaxQubits old \<noteq> di_MaxQubits new))"

text \<open>The three updates: the calls made and the error.\<close>

definition updateDeviceStatus :: "gw_env \<Rightarrow> DeviceStatus \<Rightarrow> api_call list \<times> error option" where
  "updateDeviceStatus e st =
    (let c = PatchDeviceStatus (toDeviceDeviceStatusUpdateStatus st) in ([c], gw_Patch e c))"

definition updateDeviceInfo :: "gw_env \<Rightarrow> DeviceInfo \<Rightarrow> api_call list \<times> error option" where
  "updateDeviceInfo e di =
    (case gw_ParseTime e (di_CalibratedAt di) of
       Some er \<Rightarrow> ([], Some er)
     | None \<Rightarrow>
         (let c = PatchDeviceInfo (di_DeviceInfoSpecJson di) (di_CalibratedAt di) in ([c], gw_Patch e c)))"

definition updateDevice :: "gw_env \<Rightarrow> DeviceInfo \<Rightarrow> api_call list \<times> error option" where
  "updateDevice e di = (let c = PatchDevice (di_MaxQubits di) in ([c], gw_Patch e c))"

definition update_if :: "bool \<Rightarrow> api_call list \<times> error option \<Rightarrow> api_call list \<times> bool" where
  "update_if changed u = (if changed then (fst u, snd u = None) else ([], False))"

definition callDeviceAPIOnChange ::
  "gw_env \<Rightarrow> DeviceInfo \<Rightarrow> DefaultGatewayAgent \<Rightarrow> DefaultGatewayAgent \<times> api_call list" where
  "callDeviceAPIOnChange e newDI q =
    (let (cs1, u1) = update_if (hasStatusChanged (ga_lastDeviceInfo q) (Some newDI)) (updateDeviceStatus e (di_Status newDI));
         (cs2, u2) = update_if (hasDeviceInfoChanged (ga_lastDeviceInfo q) (Some newDI)) (updateDeviceInfo e newDI);
         (cs3, u3) = update_if (hasDeviceChanged (ga_lastDeviceInfo q) (Some newDI)) (updateDevice e newDI)
     in (if u1 \<or> u2 \<or> u3 then q\<lparr>ga_lastDeviceInfo := Some newDI\<rparr> else q, cs1 @ cs2 @ cs3))"

definition device_info_of :: "GatewayDeviceInfo \<Rightarrow> ServiceStatus \<Rightarrow> DeviceInfo" where
  "device_info_of di ss =
    \<lparr>di_DeviceName = gd_DeviceId di, di_ProviderName = gd_ProviderId di, di_Type = gd_Type di,
     di_Status = mapServiceStatusToDeviceStatus ss, di_MaxQubits = uint (gd_MaxQubits di),
     di_MaxShots = uint (gd_MaxShots di), di_DeviceInfoSpecJson = gd_DeviceInfo di,
     di_CalibratedAt = gd_CalibratedAt di\<rparr>"

definition CallDeviceInfo ::
  "gw_env \<Rightarrow> DefaultGatewayAgent \<Rightarrow> (DefaultGatewayAgent, DeviceInfo res \<times> api_call list) outcome" where
  "CallDeviceInfo e q =
    (if \<not> ga_gatewayClient q then Pan q
     else
       (case gw_GetDeviceInfo e of
          Panic \<Rightarrow> Pan q
        | Err er \<Rightarrow> Ret (Err er, []) (Agent_Reset e q)
        | Ok di \<Rightarrow>
            (case gw_GetServiceStatus e of
               Panic \<Rightarrow> Pan q
             | Err er \<Rightarrow> Ret (Err er, []) (Agent_Reset e q)
             | Ok ss \<Rightarrow>
                 (case callDeviceAPIOnChange e (device_info_of di ss) q of
                    (q, cs) \<Rightarrow> Ret (Ok (device_info_of di ss), cs) q))))"

subsection \<open>Sending a job\<close>

definition Agent_CallJob :: "gw_env \<Rightarrow> DefaultGatewayAgent \<Rightarrow> JobData \<Rightarrow> (JobData, error option) outcome" where
  "Agent_CallJob e q jd =
    (let qasmToBeSent = (if jd_TranspiledQASM jd = [] then jd_QASM jd else jd_TranspiledQASM jd) in
     if \<not> ga_gatewayClient q then Pan jd
     else
       (case gw_CallJob e (jd_ID jd) (of_int (jd_Shots jd)) qasmToBeSent of
          Panic \<Rightarrow> Pan jd
        | Err er \<Rightarrow> Ret (Some er) jd
        | Ok resp \<Rightarrow>
            bindP
              (case cj_Status resp of
                 JOB_STATUS_SUCCESS \<Rightarrow> Ret None (jd\<lparr>jd_Status := SUCCEEDED\<rparr>)
               | JOB_STATUS_FAILURE \<Rightarrow> Ret None (jd\<lparr>jd_Status := FAILED\<rparr>)
               | JOB_STATUS_INACTIVE \<Rightarrow> Ret None (jd\<lparr>jd_Status := FAILED\<rparr>)
               | OtherJobStatus n \<Rightarrow> Ret (Some (''unknown status '' @ int_str n)) jd)
              (\<lambda>err jd.
                 case err of
                   Some er \<Rightarrow> Ret (Some er) jd
                 | None \<Rightarrow>
                     bindP (derefP (cj_Result resp) jd) (\<lambda>(counts, message) jd.
                     bindP (set_result (\<lambda>r. r\<lparr>rs_Counts := counts, rs_Message := message,
                              rs_ExecutionTime := gw_Elapsed e\<rparr>) jd) (\<lambda>_ jd.
                       Ret None jd)))))"

section \<open>The gateway QPU\<close>

record QASMFilter =
  qf_Enabled :: bool
  qf_Statements :: "string list"
  qf_Gates :: "string list"

record QASMSupport =
  qs_AllowList :: QASMFilter
  qs_DenyList :: QASMFilter

record DeviceSetting =
  ds_DeviceName :: string
  ds_DeviceType :: string
  ds_ProviderName :: string
  ds_MaxShots :: int
  ds_QASMSupport :: QASMSupport
  ds_MachineHost :: string
  ds_MachinePort :: string
  ds_PollingPeriod :: u32
  ds_UseCred :: bool

definition no_filter :: QASMFilter where
  "no_filter = \<lparr>qf_Enabled = False, qf_Statements = [], qf_Gates = []\<rparr>"

definition NewQasmSupport :: QASMSupport where
  "NewQasmSupport = \<lparr>qs_AllowList = no_filter, qs_DenyList = no_filter\<rparr>"

definition NewQasmSupportWithAllowList :: "QASMFilter \<Rightarrow> QASMSupport" where
  "NewQasmSupportWithAllowList q = \<lparr>qs_AllowList = q, qs_DenyList = no_filter\<rparr>"

definition NewQasmSupportWithDenyList :: "QASMFilter \<Rightarrow> QASMSupport" where
  "NewQasmSupportWithDenyList q = \<lparr>qs_AllowList = no_filter, qs_DenyList = q\<rparr>"

definition NewDeviceSetting :: DeviceSetting where
  "NewDeviceSetting =
    \<lparr>ds_DeviceName = [], ds_DeviceType = [], ds_ProviderName = [], ds_MaxShots = 0,
     ds_QASMSupport = NewQasmSupport, ds_MachineHost = ''localhost'', ds_MachinePort = ''50051'',
     ds_PollingPeriod = 60, ds_UseCred = False\<rparr>"

text \<open>A file that cannot be read is only logged; the defaults are used. \<open>decode\<close> stands for TOML decoding.\<close>

definition LoadDeviceSetting ::
  "(string \<Rightarrow> string res) \<Rightarrow> (string \<Rightarrow> DeviceSetting \<Rightarrow> DeviceSetting res) \<Rightarrow> string \<Rightarrow> DeviceSetting res" where
  "LoadDeviceSetting readFile decode path =
    (case readFile path of
       Ok blob \<Rightarrow> decode blob NewDeviceSetting
     | _ \<Rightarrow> Ok NewDeviceSetting)"

record GatewayQPU =
  gq_agent :: DefaultGatewayAgent
  gq_deviceSetting :: DeviceSetting
  gq_connected :: bool
  gq_currentDeviceInfo :: DeviceInfo

definition unavailable_info :: DeviceInfo where
  "unavailable_info = zero_DeviceInfo\<lparr>di_Status := Unavailable\<rparr>"

definition GatewayQPU_Setup ::
  "gw_env \<Rightarrow> Setting option \<Rightarrow> DeviceSetting res \<Rightarrow> GatewayQPU \<Rightarrow> (GatewayQPU, error option) outcome" where
  "GatewayQPU_Setup e g loaded q =
    (case loaded of
       Err er \<Rightarrow> Ret (Some er) q
     | Panic \<Rightarrow> Pan q
     | Ok ds \<Rightarrow>
         if ds_DeviceName ds = ''wako'' \<or> ds_DeviceName ds = ''handai'' then
           bindP (on_part (\<lambda>a q. q\<lparr>gq_agent := a\<rparr>) q (Agent_Setup e g NewGatewayAgent)) (\<lambda>err q.
             case err of
               Some er \<Rightarrow> Ret (Some er) q
             | None \<Rightarrow>
                 Ret None (q\<lparr>gq_deviceSetting := ds, gq_connected := False,
                   gq_currentDeviceInfo := unavailable_info\<rparr>))
         else Ret (Some (''unknown device name:'' @ ds_DeviceName ds)) q)"

definition GatewayQPU_Validate :: "string \<Rightarrow> error option" where
  "GatewayQPU_Validate qasm = None"

definition GatewayQPU_Send :: "gw_env \<Rightarrow> GatewayQPU \<Rightarrow> JobData \<Rightarrow> (JobData, error option) outcome" where
  "GatewayQPU_Send e q jd =
    (if \<not> gq_connected q then
       bindP (SetFailureWithErrorToJobData (gw_now e) ''Gateway QPU is not connected'' jd) (\<lambda>_ jd.
         Ret (Some ''Gateway QPU is not connected'') jd)
     else
       bindP (Agent_CallJob e (gq_agent q) jd) (\<lambda>err jd.
         case err of
           Some er \<Rightarrow> bindP (SetFailureWithErrorToJobData (gw_now e) er jd) (\<lambda>_ jd. Ret (Some er) jd)
         | None \<Rightarrow> Ret None (jd\<lparr>jd_Ended := gw_now e\<rparr>)))"

definition GatewayQPU_GetDeviceInfo :: "GatewayQPU \<Rightarrow> DeviceInfo" where
  "GatewayQPU_GetDeviceInfo q = gq_currentDeviceInfo q"

text \<open>One round of the polling loop of \<open>startDevicePolling\<close>.\<close>

definition device_poll :: "gw_env \<Rightarrow> GatewayQPU \<Rightarrow> (GatewayQPU, api_call list) outcome" where
  "device_poll e q =
    bindP (on_part (\<lambda>a q. q\<lparr>gq_agent := a\<rparr>) q (CallDeviceInfo e (gq_agent q))) (\<lambda>(r, cs) q.
      case r of
        Ok di \<Rightarrow> Ret cs (q\<lparr>gq_currentDeviceInfo := di, gq_connected := True\<rparr>)
      | _ \<Rightarrow> Ret cs (q\<lparr>gq_currentDeviceInfo := unavailable_info, gq_connected := False\<rparr>))"

section \<open>The dummy QPU\<close>

text \<open>
  \<open>Send\<close> copies the job data, writes a message into the copy and sends a new job made from it to the
  database; \<open>success\<close> is the outcome of the random choice. The first component of the result is the
  job sent.
\<close>

definition successOrFailure :: "bool \<Rightarrow> string" where
  "successOrFailure success = (if success then ''dummy success result'' else ''dummy failure result'')"

definition DummyQPU_Send ::
  "'a sse_env_scheme \<Rightarrow> JobManager \<Rightarrow> bool \<Rightarrow> JobData \<Rightarrow> (JobData, Job option \<times> error option) outcome" where
  "DummyQPU_Send e jm success jd =
    (case CloneJobData (ev_now e) jd of
       Ok out \<Rightarrow>
         bindP (set_result (\<lambda>r. r\<lparr>rs_Message := successOrFailure success\<rparr>) out) (\<lambda>_ out.
           case NewJobFromJobData e jm out of
             Ok job \<Rightarrow> Ret (Some job, None) jd
           | Err er \<Rightarrow> Ret (None, Some er) jd
           | Panic \<Rightarrow> Pan jd)
     | _ \<Rightarrow> Pan jd)"

definition DummyQPU_GetDeviceInfo :: DeviceInfo where
  "DummyQPU_GetDeviceInfo = zero_DeviceInfo
    \<lparr>di_DeviceName := ''DummyQPU'', di_ProviderName := ''DummyProvider'', di_Type := ''DummyQPU'',
     di_Status := Available, di_MaxQubits := 10000, di_MaxShots := 10000\<rparr>"

section \<open>Sending a job to the gateway\<close>

lemma CallJob_Ret:
  assumes "Agent_CallJob e q jd = Ret err jd'"
  shows "jd_ID jd' = jd_ID jd \<and> jd_UseJobInfoUpdate jd' = jd_UseJobInfoUpdate jd \<and>
    (case err of
       Some er \<Rightarrow> jd' = jd
     | None \<Rightarrow> (jd_Status jd' = SUCCEEDED \<or> jd_Status jd' = FAILED) \<and> jd_Result jd' \<noteq> None)"
  using assms
  by (auto simp: Agent_CallJob_def Let_def res_simps set_result_def
      split: if_splits res.splits JobStatus.splits option.splits)

lemma CallJob_keeps: "keeps jd_ID jd (Agent_CallJob e q jd)"
  by (cases "jd_Result jd")
    (auto simp: Agent_CallJob_def Let_def keeps_def set_result_def derefP_def
      split: res.split JobStatus.split option.split)

lemma keeps_SetFailure_bind: "keeps jd_ID jd (bindP (SetFailureWithErrorToJobData now er jd) (\<lambda>_ jd. Ret x jd))"
  by (cases "jd_Result jd") (simp_all add: keeps_def SetFailureWithErrorToJobData_def set_result_def)

lemma GatewayQPU_Send_keeps: "keeps jd_ID jd (GatewayQPU_Send e q jd)"
proof (cases "gq_connected q")
  case True
  show ?thesis
  proof (cases "Agent_CallJob e (gq_agent q) jd")
    case (Ret err jd')
    then have "jd_ID jd' = jd_ID jd"
      using CallJob_Ret [OF Ret] by simp
    then show ?thesis
      using True Ret keeps_SetFailure_bind [of jd'] by (cases err) (simp_all add: GatewayQPU_Send_def keeps_def)
  next
    case (Pan jd')
    then show ?thesis
      using True CallJob_keeps [of jd e "gq_agent q"] by (simp add: GatewayQPU_Send_def keeps_def)
  qed
qed (simp add: GatewayQPU_Send_def keeps_SetFailure_bind)

text \<open>
  When \<open>Send\<close> returns, the job is decided and keeps its ID: without an error its status is
  \<open>SUCCEEDED\<close> or \<open>FAILED\<close> as the gateway answered; with an error it is \<open>FAILED\<close> and carries the error as
  its message. In particular a job is never left running.
\<close>

theorem GatewayQPU_Send_decides:
  assumes "GatewayQPU_Send e q jd = Ret err jd'"
  shows "jd_ID jd' = jd_ID jd \<and>
    (case err of
       None \<Rightarrow> gq_connected q \<and> (jd_Status jd' = SUCCEEDED \<or> jd_Status jd' = FAILED)
     | Some er \<Rightarrow> jd_Status jd' = FAILED \<and> map_option rs_Message (jd_Result jd') = Some er)"
  using assms CallJob_Ret [of e "gq_agent q" jd]
  by (fastforce simp: GatewayQPU_Send_def res_simps SetFailure_Ret split: if_splits option.splits)

definition example_gw :: gw_env where
  "example_gw =
    \<lparr>gw_NewClient = (\<lambda>_. None), gw_NewApiClient = (\<lambda>_. None),
     gw_GetDeviceInfo = Ok \<lparr>gd_DeviceId = ''d'', gd_ProviderId = ''p'', gd_Type = ''QPU'', gd_MaxQubits = 4,
       gd_MaxShots = 1000, gd_DeviceInfo = ''{}'', gd_CalibratedAt = ''2024-01-01T00:00:00Z''\<rparr>,
     gw_GetServiceStatus = Ok SERVICE_STATUS_ACTIVE,
     gw_CallJob = (\<lambda>_ _ _. Ok \<lparr>cj_Status = JOB_STATUS_SUCCESS, cj_Result = Some ([(''00'', 5)], ''ok'')\<rparr>),
     gw_Patch = (\<lambda>_. None), gw_ParseTime = (\<lambda>_. None), gw_Elapsed = 3, gw_now = 9\<rparr>"

definition example_qpu :: GatewayQPU where
  "example_qpu = \<lparr>gq_agent = NewGatewayAgent\<lparr>ga_gatewayClient := True\<rparr>, gq_deviceSetting = NewDeviceSetting,
     gq_connected = True, gq_currentDeviceInfo = unavailable_info\<rparr>"

theorem GatewayQPU_Send_decides_witness:
  "\<exists>jd. GatewayQPU_Send example_gw example_qpu example_job = Ret None jd \<and> jd_ID jd = ''id'' \<and>
    jd_Status jd = SUCCEEDED"
proof -
  obtain jd where "GatewayQPU_Send example_gw example_qpu example_job = Ret None jd" and st: "jd_Status jd = SUCCEEDED"
    by (auto simp: GatewayQPU_Send_def Agent_CallJob_def example_gw_def example_qpu_def example_job_def
        NewJobData_def set_result_def NewGatewayAgent_def Let_def)
  from GatewayQPU_Send_decides [OF this(1)] show ?thesis
    using \<open>GatewayQPU_Send example_gw example_qpu example_job = Ret None jd\<close> st
    by (auto simp: example_job_def)
qed

section \<open>Reporting the device\<close>

lemma unchanged [simp]:
  "hasStatusChanged (Some di) (Some di) = False" "hasDeviceInfoChanged (Some di) (Some di) = False"
  "hasDeviceChanged (Some di) (Some di) = False"
  by (simp_all add: hasStatusChanged_def hasDeviceInfoChanged_def hasDeviceChanged_def)

lemma all_parts:
  "\<not> hasStatusChanged (Some old) (Some new) \<Longrightarrow> \<not> hasDeviceInfoChanged (Some old) (Some new) \<Longrightarrow>
    \<not> hasDeviceChanged (Some old) (Some new) \<Longrightarrow> old = new"
  by (cases old; cases new) (simp add: hasStatusChanged_def hasDeviceInfoChanged_def hasDeviceChanged_def)

text \<open>
  If the API accepts the updates, then after a poll the agent has reported exactly the parts of the
  device information that differ from what it reported last (everything, if nothing was reported yet):
  its status, its description and its number of qubits; and polling the same device again reports
  nothing.
\<close>

theorem callDeviceAPIOnChange_reports:
  assumes "\<And>c. gw_Patch e c = None" and "gw_ParseTime e (di_CalibratedAt di) = None"
  shows "\<exists>q' cs. callDeviceAPIOnChange e di q = (q', cs) \<and> ga_lastDeviceInfo q' = Some di \<and>
    cs = (if hasStatusChanged (ga_lastDeviceInfo q) (Some di)
            then [PatchDeviceStatus (toDeviceDeviceStatusUpdateStatus (di_Status di))] else []) @
         (if hasDeviceInfoChanged (ga_lastDeviceInfo q) (Some di)
            then [PatchDeviceInfo (di_DeviceInfoSpecJson di) (di_CalibratedAt di)] else []) @
         (if hasDeviceChanged (ga_lastDeviceInfo q) (Some di) then [PatchDevice (di_MaxQubits di)] else []) \<and>
    callDeviceAPIOnChange e di q' = (q', [])"
proof -
  have "ga_lastDeviceInfo q = Some di" if "\<not> hasStatusChanged (ga_lastDeviceInfo q) (Some di)"
    "\<not> hasDeviceInfoChanged (ga_lastDeviceInfo q) (Some di)" "\<not> hasDeviceChanged (ga_lastDeviceInfo q) (Some di)"
    using that all_parts by (cases "ga_lastDeviceInfo q") (auto simp: hasStatusChanged_def)
  then show ?thesis
    using assms
    by (auto simp: callDeviceAPIOnChange_def update_if_def updateDeviceStatus_def updateDeviceInfo_def
        updateDevice_def Let_def)
qed

theorem callDeviceAPIOnChange_reports_witness:
  "\<exists>q. callDeviceAPIOnChange example_gw zero_DeviceInfo NewGatewayAgent =
    (q, [PatchDeviceStatus ''available'', PatchDeviceInfo [] [], PatchDevice 0]) \<and>
    callDeviceAPIOnChange example_gw zero_DeviceInfo q = (q, [])"
  using callDeviceAPIOnChange_reports [of example_gw zero_DeviceInfo NewGatewayAgent]
  by (auto simp: example_gw_def zero_DeviceInfo_def NewGatewayAgent_def hasStatusChanged_def
      hasDeviceInfoChanged_def hasDeviceChanged_def)

text \<open>
  A failed report is lost when another part of the same poll was reported: the agent then takes the
  whole information as reported, so that polling the unchanged device never sends the failed part again.
\<close>

theorem failed_report_lost:
  assumes "callDeviceAPIOnChange e di q = (q', cs)" and "c \<in> set cs" and "gw_Patch e c = None"
  shows "callDeviceAPIOnChange e' di q' = (q', [])"
proof -
  have "ga_lastDeviceInfo q' = Some di"
    using assms by (auto simp: callDeviceAPIOnChange_def update_if_def updateDeviceStatus_def
        updateDeviceInfo_def updateDevice_def Let_def split: if_splits option.splits)
  then show ?thesis
    by (simp add: callDeviceAPIOnChange_def update_if_def Let_def)
qed

theorem failed_report_lost_witness:
  "\<exists>q. callDeviceAPIOnChange (example_gw\<lparr>gw_Patch := (\<lambda>c. if c = PatchDevice 0 then None else Some ''down'')\<rparr>)
      zero_DeviceInfo NewGatewayAgent =
      (q, [PatchDeviceStatus ''available'', PatchDeviceInfo [] [], PatchDevice 0]) \<and>
    callDeviceAPIOnChange example_gw zero_DeviceInfo q = (q, [])"
proof -
  let ?e = "example_gw\<lparr>gw_Patch := (\<lambda>c. if c = PatchDevice 0 then None else Some ''down'')\<rparr>"
  let ?q = "NewGatewayAgent\<lparr>ga_lastDeviceInfo := Some zero_DeviceInfo\<rparr>"
  have "callDeviceAPIOnChange ?e zero_DeviceInfo NewGatewayAgent =
      (?q, [PatchDeviceStatus ''available'', PatchDeviceInfo [] [], PatchDevice 0])"
    by (simp add: callDeviceAPIOnChange_def update_if_def updateDeviceStatus_def updateDeviceInfo_def
        updateDevice_def Let_def example_gw_def NewGatewayAgent_def zero_DeviceInfo_def
        hasStatusChanged_def hasDeviceInfoChanged_def hasDeviceChanged_def)
  then show ?thesis
    using failed_report_lost [of ?e zero_DeviceInfo NewGatewayAgent ?q _ "PatchDevice 0" example_gw]
    by (auto simp: example_gw_def)
qed

end
