(* ===== verification/Transpiler.thy ===== *)
theory Transpiler
  imports Go_Proc Core_Setting Common_Util
begin

text \<open>
  \<open>coreapp/transpiler/tranqu.go\<close>: the client of the transpiler service.

  The service is not part of the repository: its answer to a request is an argument, and so is the
  error of making a connection. The device description that a request carries comes from the QPU and
  is an argument too. \<open>json.Marshal\<close> of a \<open>json.RawMessage\<close> prints the parsed text again, which is the
  text up to white space and the choice of escapes.
\<close>

record TranquSetting =
  tq_Host :: string
  tq_Port :: string

definition NewTranquSetting :: TranquSetting where
  "NewTranquSetting = \<lparr>tq_Host = ''localhost'', tq_Port = ''50052''\<rparr>"

record Tranqu =
  tq_setting :: TranquSetting
  tq_address :: string
  tq_connected :: bool

definition IsAcceptableTranspilerLib :: "string \<Rightarrow> bool" where
  "IsAcceptableTranspilerLib lib \<longleftrightarrow> lib = ''qiskit''"

text \<open>A missing host or port in the setting is a failing type assertion; an invalid address is only logged.\<close>

definition Tranqu_Setup :: "Setting option \<Rightarrow> (string \<Rightarrow> error option) \<Rightarrow> Tranqu \<Rightarrow> (Tranqu, error option) outcome" where
  "Tranqu_Setup g GRPCConnection t =
    (case GetComponentSetting ''tranqu'' g of
       None \<Rightarrow> Ret (Some ''tranqu setting is not found'') t
     | Some s \<Rightarrow>
         bindP
           (case as_table (Some s) of
              None \<Rightarrow> Ret () (t\<lparr>tq_setting := NewTranquSetting\<rparr>)
            | Some mapped \<Rightarrow>
                bindP (derefP (as_string (map_of mapped ''host'')) t) (\<lambda>host t.
                bindP (derefP (as_string (map_of mapped ''port'')) t) (\<lambda>port t.
                  Ret () (t\<lparr>tq_setting := \<lparr>tq_Host = host, tq_Port = port\<rparr>\<rparr>))))
           (\<lambda>_ t.
              let address = (case ValidAddress (tq_Host (tq_setting t)) (tq_Port (tq_setting t)) of
                               Ok a \<Rightarrow> a | _ \<Rightarrow> []);
                  t = t\<lparr>tq_address := address\<rparr> in
              case GRPCConnection address of
                Some er \<Rightarrow> Ret (Some er) t
              | None \<Rightarrow> Ret None (t\<lparr>tq_connected := True\<rparr>)))"

definition GetHealth :: "error option" where
  "GetHealth = None"

section \<open>Mappings\<close>

record VirtualPhyicalMapping =
  vm_QubitMapping :: "(string, int) gomap option"
  vm_BitMapping :: "(string, int) gomap option"

definition Unmarshal_mapping :: "string \<Rightarrow> VirtualPhyicalMapping res" where
  "Unmarshal_mapping s =
    (case json_parse s of
       None \<Rightarrow> Err err_json
     | Some j \<Rightarrow>
         res_bind (jobject (Some j)) (\<lambda>kvs.
         res_bind (jmap_loop dec_int 0 ''qubit_mapping'' kvs None) (\<lambda>qm.
         res_bind (jmap_loop dec_int 0 ''bit_mapping'' kvs None) (\<lambda>bm.
           Ok \<lparr>vm_QubitMapping = qm, vm_BitMapping = bm\<rparr>))))"

definition toVirtualPhysicalMappingFromString :: "string \<Rightarrow> VirtualPhysicalMappingRaw res" where
  "toVirtualPhysicalMappingFromString virtualPhysicalMapping =
    res_bind (Unmarshal_mapping virtualPhysicalMapping) (\<lambda>m.
      Ok (Some (case vm_QubitMapping m of None \<Rightarrow> ''null'' | Some qm \<Rightarrow> Marshal_map enc_int qm)))"

fun pvm_loop :: "(string, int) gomap \<Rightarrow> (u32, u32) gomap \<Rightarrow> (u32, u32) gomap res" where
  "pvm_loop [] pvm = Ok pvm"
| "pvm_loop ((k, v) # m) pvm =
    res_bind (ParseUint 32 k) (\<lambda>num. pvm_loop m (AList.update (of_int v) (of_nat num) pvm))"

definition toPhysicalVirtualMappingFromString :: "string \<Rightarrow> (u32, u32) gomap res" where
  "toPhysicalVirtualMappingFromString virtualPhysicalMapping =
    res_bind (Unmarshal_mapping virtualPhysicalMapping) (\<lambda>m.
      pvm_loop (case vm_QubitMapping m of None \<Rightarrow> [] | Some qm \<Rightarrow> qm) [])"

section \<open>Transpiling\<close>

record TranspileRequest =
  tr_RequestId :: string
  tr_Program :: string
  tr_ProgramLib :: string
  tr_TranspilerLib :: string
  tr_TranspilerOptions :: string
  tr_Device :: string
  tr_DeviceLib :: string

record TranspileResponse =
  tp_Status :: int
  tp_TranspiledProgram :: string
  tp_VirtualPhysicalMapping :: string
  tp_Stats :: string

definition Marshal_raw :: "string option \<Rightarrow> string res" where
  "Marshal_raw raw =
    (case raw of
       None \<Rightarrow> Ok ''null''
     | Some s \<Rightarrow> (case json_parse s of None \<Rightarrow> Err err_json | Some j \<Rightarrow> Ok (json_print j)))"

definition set_info :: "(TranspilerInfo \<Rightarrow> TranspilerInfo) \<Rightarrow> JobData \<Rightarrow> (JobData, unit) outcome" where
  "set_info f jd =
    bindP (derefP (jd_Result jd) jd) (\<lambda>r jd.
    bindP (derefP (rs_TranspilerInfo r) jd) (\<lambda>info jd.
      Ret () (jd\<lparr>jd_Result := Some (r\<lparr>rs_TranspilerInfo := Some (f info)\<rparr>)\<rparr>)))"

definition store_answer :: "TranspileResponse \<Rightarrow> JobData \<Rightarrow> (JobData, error option) outcome" where
  "store_answer res jd =
    (let jd = jd\<lparr>jd_TranspiledQASM := tp_TranspiledProgram res\<rparr>; vpmStr = tp_VirtualPhysicalMapping res in
     case toVirtualPhysicalMappingFromString vpmStr of
       Err er \<Rightarrow> Ret (Some er) jd
     | Panic \<Rightarrow> Pan jd
     | Ok vpm \<Rightarrow>
         bindP (set_info (ti_VirtualPhysicalMappingRaw_update (\<lambda>_. vpm)) jd) (\<lambda>_ jd.
           case toPhysicalVirtualMappingFromString vpmStr of
             Err er \<Rightarrow> Ret (Some er) jd
           | Panic \<Rightarrow> Pan jd
           | Ok pvm \<Rightarrow>
               bindP (set_info (ti_PhysicalVirtualMapping_update (\<lambda>_. pvm)) jd) (\<lambda>_ jd.
               bindP (set_info (ti_StatsRaw_update (\<lambda>_. Some (tp_Stats res))) jd) (\<lambda>_ jd.
                 Ret None jd))))"

definition Tranqu_Transpile ::
  "string \<Rightarrow> (TranspileRequest \<Rightarrow> TranspileResponse res) \<Rightarrow> JobData \<Rightarrow> (JobData, error option) outcome" where
  "Tranqu_Transpile device service jd =
    bindP (derefP (jd_Transpiler jd) jd) (\<lambda>tc jd.
    bindP (derefP (tc_TranspilerLib tc) jd) (\<lambda>lib jd.
      case Marshal_raw (tc_TranspilerOptions tc) of
        Err er \<Rightarrow> Ret (Some er) jd
      | Panic \<Rightarrow> Pan jd
      | Ok options \<Rightarrow>
          (case service \<lparr>tr_RequestId = jd_ID jd, tr_Program = jd_QASM jd, tr_ProgramLib = ''openqasm3'',
                  tr_TranspilerLib = lib, tr_TranspilerOptions = options, tr_Device = device,
                  tr_DeviceLib = ''oqtopus''\<rparr> of
             Err er \<Rightarrow> Ret (Some er) jd
           | Panic \<Rightarrow> Pan jd
           | Ok res \<Rightarrow>
               if tp_Status res = 1 then Ret (Some ''transpile failed'') jd else store_answer res jd)))"

section \<open>What the jobs rely on\<close>

lemma keeps_set_info: "(\<And>r. v (jd\<lparr>jd_Result := r\<rparr>) = v jd) \<Longrightarrow> keeps v jd (set_info f jd)"
  unfolding set_info_def
  by (cases "jd_Result jd"; cases "rs_TranspilerInfo (the (jd_Result jd))") (simp_all add: keeps_def)

lemma set_info_ok:
  "jd_Result jd = Some r \<Longrightarrow> rs_TranspilerInfo r = Some info \<Longrightarrow>
    set_info f jd = Ret () (jd\<lparr>jd_Result := Some (r\<lparr>rs_TranspilerInfo := Some (f info)\<rparr>)\<rparr>)"
  by (simp add: set_info_def)

lemma keeps_store_answer:
  assumes "\<And>r q jd. v (jd\<lparr>jd_Result := r\<rparr>) = v jd" and "\<And>q jd. v (jd\<lparr>jd_TranspiledQASM := q\<rparr>) = v jd"
  shows "keeps v jd (store_answer res jd)"
proof -
  have k: "v t = v jd \<Longrightarrow> keeps v jd (set_info f t)" for f t
    using keeps_set_info [of v t f] assms(1) by (simp add: keeps_def)
  show ?thesis
    unfolding store_answer_def Let_def
    by (auto intro!: keep_rules k simp: assms split: res.split)
qed

lemma keeps_Transpile:
  assumes "\<And>r q jd. v (jd\<lparr>jd_Result := r\<rparr>) = v jd" and "\<And>q jd. v (jd\<lparr>jd_TranspiledQASM := q\<rparr>) = v jd"
  shows "keeps v jd (Tranqu_Transpile device service jd)"
proof -
  have k: "v t = v jd \<Longrightarrow> keeps v jd (store_answer res t)" for res t
    using keeps_store_answer [of v t res] assms by (simp add: keeps_def)
  show ?thesis
    unfolding Tranqu_Transpile_def by (auto intro!: keep_rules k split: res.split)
qed

text \<open>The two mappings.\<close>

lemma enc_int_u32: "enc_int (uint p) = enc_u32 p"
  by (simp add: enc_int_def enc_u32_def int_str_def u32_str_def)

lemma insort_key_map: "insort_key f (g x) (map g xs) = map g (insort_key (\<lambda>x. f (g x)) x xs)"
  by (induction xs) auto

lemma sort_key_map: "sort_key f (map g xs) = map g (sort_key (\<lambda>x. f (g x)) xs)"
  by (induction xs) (simp_all add: insort_key_map)

lemma Marshal_qubit_mapping:
  "Marshal_map enc_int (map (\<lambda>(v, p). (u32_str v, uint p)) vpm) =
   Marshal_map enc_u32 (map (\<lambda>(v, p). (u32_str v, p)) vpm)"
  by (simp add: Marshal_map_def sort_key_map comp_def case_prod_beta enc_int_u32)

lemma pvm_loop_u32:
  "pvm_loop (map (\<lambda>(v, p). (u32_str v, uint p)) vpm) acc = Ok (put_all (map prod.swap vpm) acc)"
  by (induction vpm arbitrary: acc) auto

lemma map_of_swap:
  "distinct (map fst m) \<Longrightarrow> distinct (map snd m) \<Longrightarrow> map_of (map prod.swap m) p = Some v \<longleftrightarrow> map_of m v = Some p"
  by (auto simp: map_of_eq_Some_iff comp_def)

text \<open>
  When the service answers with an injective assignment of physical to virtual qubits, \<open>Transpile\<close>
  succeeds, stores the transpiled program, and the two mappings it stores are that assignment and its
  inverse: the raw mapping reads back as the assignment, and the physical-virtual mapping sends a
  physical qubit to the virtual qubit assigned to it.
\<close>

theorem Transpile_mappings:
  assumes "jd_Transpiler jd = Some tc" and "tc_TranspilerLib tc = Some lib" and "Marshal_raw (tc_TranspilerOptions tc) = Ok options"
    and "jd_Result jd = Some r" and "rs_TranspilerInfo r = Some info"
    and "\<And>rq. tr_RequestId rq = jd_ID jd \<Longrightarrow> tr_Program rq = jd_QASM jd \<Longrightarrow> tr_TranspilerLib rq = lib \<Longrightarrow>
      service rq = Ok res" and "tp_Status res = 0"
    and "Unmarshal_mapping (tp_VirtualPhysicalMapping res) = Ok m"
    and "vm_QubitMapping m = Some (map (\<lambda>(v, p). (u32_str v, uint p)) vpm)"
    and "distinct (map fst vpm)" and "distinct (map snd vpm)"
  shows "\<exists>r' info' raw. Tranqu_Transpile device service jd =
      Ret None (jd\<lparr>jd_TranspiledQASM := tp_TranspiledProgram res, jd_Result := Some r'\<rparr>) \<and>
    rs_TranspilerInfo r' = Some info' \<and> rs_Counts r' = rs_Counts r \<and>
    ToMap (ti_VirtualPhysicalMappingRaw info') = Ok raw \<and> map_of raw = map_of vpm \<and>
    (\<forall>v p. (map_of (ti_PhysicalVirtualMapping info') p = Some v) = (map_of vpm v = Some p))"
proof -
  have vpm: "toVirtualPhysicalMappingFromString (tp_VirtualPhysicalMapping res) = Ok (ToRaw vpm)"
    using assms(8,9) by (simp add: toVirtualPhysicalMappingFromString_def ToRaw_def Marshal_qubit_mapping)
  have pvm: "toPhysicalVirtualMappingFromString (tp_VirtualPhysicalMapping res) = Ok (map prod.swap vpm)"
    using assms(8,9,11)
    by (simp add: toPhysicalVirtualMappingFromString_def pvm_loop_u32 comp_def)
  let ?info = "info\<lparr>ti_VirtualPhysicalMappingRaw := ToRaw vpm, ti_PhysicalVirtualMapping := map prod.swap vpm,
    ti_StatsRaw := Some (tp_Stats res)\<rparr>"
  have "Tranqu_Transpile device service jd =
      Ret None (jd\<lparr>jd_TranspiledQASM := tp_TranspiledProgram res,
        jd_Result := Some (r\<lparr>rs_TranspilerInfo := Some ?info\<rparr>)\<rparr>)"
    using assms(1-7)
    by (simp add: Tranqu_Transpile_def store_answer_def Let_def vpm pvm set_info_ok)
  moreover obtain raw where "ToMap (ToRaw vpm) = Ok raw" "map_of raw = map_of vpm"
    using ToMap_ToRaw_mset [OF assms(10)] map_of_mset_eq [OF assms(10)] by blast
  ultimately show ?thesis
    using map_of_swap [OF assms(10,11)] by auto
qed

definition example_answer :: TranspileResponse where
  "example_answer =
    \<lparr>tp_Status = 0, tp_TranspiledProgram = ''program'',
     tp_VirtualPhysicalMapping = json_print (JObj [(''qubit_mapping'', JObj [(''0'', JNum ''2''), (''1'', JNum ''0'')])]),
     tp_Stats = ''{}''\<rparr>"

definition example_assignment :: "(u32 \<times> u32) list" where
  "example_assignment = [(0, 2), (1, 0)]"

lemma example_answer_mapping:
  "Unmarshal_mapping (tp_VirtualPhysicalMapping example_answer) =
    Ok \<lparr>vm_QubitMapping = Some (map (\<lambda>(v, p). (u32_str v, uint p)) example_assignment), vm_BitMapping = None\<rparr>"
proof -
  let ?j = "JObj [(''qubit_mapping'', JObj [(''0'', JNum ''2''), (''1'', JNum ''0'')])]"
  have num: "nat_str 2 = ''2''" "nat_str 0 = ''0''" "nat_str (Suc 0) = ''1''"
    by code_simp+
  have "json_parse (tp_VirtualPhysicalMapping example_answer) = Some ?j"
    unfolding example_answer_def TranspileResponse.simps
    by (rule json_print_parse) (simp add: scan_number_digit is_digit_def)
  moreover have "Atoi ''2'' = Ok 2" "Atoi ''0'' = Ok 0"
    by (simp_all add: Atoi_digits is_digit_def digit_val_def)
  moreover have "ToLower ''qubit_mapping'' = ''qubit_mapping''"
    by (simp add: ToLower_def lower_char_def)
  ultimately show ?thesis
    by (simp add: Unmarshal_mapping_def example_assignment_def u32_str_def num elem_fits_def)
qed

definition example_transpiled :: JobData where
  "example_transpiled = (NewJobData 0)\<lparr>jd_Transpiler := Some \<lparr>tc_TranspilerLib = Some ''qiskit'',
     tc_TranspilerOptions = None, tc_UseDefault = True\<rparr>\<rparr>"

theorem Transpile_mappings_witness:
  "\<exists>jd r info raw. Tranqu_Transpile [] (\<lambda>_. Ok example_answer) example_transpiled = Ret None jd \<and>
    jd_Result jd = Some r \<and> rs_TranspilerInfo r = Some info \<and>
    ToMap (ti_VirtualPhysicalMappingRaw info) = Ok raw \<and> map_of raw 0 = Some 2 \<and>
    map_of (ti_PhysicalVirtualMapping info) 2 = Some 0"
proof -
  obtain tc r info where jd: "jd_Transpiler example_transpiled = Some tc" "tc_TranspilerLib tc = Some ''qiskit''"
      "Marshal_raw (tc_TranspilerOptions tc) = Ok ''null''" "jd_Result example_transpiled = Some r"
      "rs_TranspilerInfo r = Some info"
    by (simp add: example_transpiled_def NewJobData_def NewResult_def Marshal_raw_def)
  have "tp_Status example_answer = 0"
    by (simp add: example_answer_def)
  moreover have "distinct (map fst example_assignment)" "distinct (map snd example_assignment)"
    by (simp_all add: example_assignment_def)
  ultimately
  obtain r' info' raw where "Tranqu_Transpile [] (\<lambda>_. Ok example_answer) example_transpiled =
      Ret None (example_transpiled\<lparr>jd_TranspiledQASM := tp_TranspiledProgram example_answer, jd_Result := Some r'\<rparr>)"
    "rs_TranspilerInfo r' = Some info'" "ToMap (ti_VirtualPhysicalMappingRaw info') = Ok raw"
    "map_of raw = map_of example_assignment"
    "\<forall>v p. (map_of (ti_PhysicalVirtualMapping info') p = Some v) = (map_of example_assignment v = Some p)"
    using Transpile_mappings [OF jd, where service = "\<lambda>_. Ok example_answer" and device = "[]" and
        vpm = example_assignment, OF _ _ example_answer_mapping]
    by auto
  then show ?thesis
    by (auto simp: example_assignment_def)
qed

end
