(* ===== verification/Cloud_Job.thy ===== *)
theory Cloud_Job
  imports Qpu Transpiler
begin

text \<open>
  \<open>coreapp/oas/converter.go\<close>: job data from and to the job definitions of the provider's API, with the
  default transpiler configuration of \<open>core/syscomponent.go\<close>.

  The types of the API are generated code; of a job definition only the fields that the engine reads or
  writes are kept. An optional nullable value is \<open>Unset\<close>, \<open>Null\<close> or \<open>Val v\<close>; a nullable value is an
  option. A raw JSON text (\<open>jx.Raw\<close>) is \<open>None\<close> when it is nil; the text of a
  member of a JSON object is kept up to white space and the choice of escapes. An execution time is the duration itself
  instead of its seconds.

  Decoding into \<open>interface{}\<close> turns numbers into \<open>float64\<close>; \<open>fmt\<close> is the text that \<open>encoding/json\<close>
  prints for the number read from a text, or \<open>None\<close> for a number outside \<open>float64\<close>. Marshalling the
  operators goes through generated code and is an argument.
\<close>

datatype 'a optnil = Unset | Null | Val 'a

fun optnil_Get :: "'a optnil \<Rightarrow> 'a option" where
  "optnil_Get (Val a) = Some a"
| "optnil_Get _ = None"

type_synonym raw_map = "(string, string option) gomap"

record JobsSamplingResult =
  sr_Counts :: "(string, string) gomap"
  sr_DividedCounts :: "(string, string) gomap optnil"

record JobsJobResult =
  jr_Sampling :: "JobsSamplingResult optnil"
  jr_Estimation :: "(float32 \<times> float32) optnil"

record JobsTranspileResult =
  jt_TranspiledProgram :: "string option"
  jt_Stats :: "raw_map option"
  jt_VirtualPhysicalMapping :: "raw_map option"

record JobsJobInfo =
  ji_Program :: "string list"
  ji_CombinedProgram :: "string optnil"
  ji_Operator :: "(string \<times> string option) list optnil"
  ji_Result :: "JobsJobResult optnil"
  ji_TranspileResult :: "JobsTranspileResult optnil"
  ji_Message :: "string optnil"

datatype JobsJobStatus = SubmittedS | ReadyS | RunningS | SucceededS | FailedS | CancelledS | OtherS string

datatype JobsJobType = SamplingT | EstimationT | MultiManualT | SseT | OtherT string

record JobsJobDef =
  df_JobID :: string
  df_Shots :: int
  df_JobType :: JobsJobType
  df_JobInfo :: JobsJobInfo
  df_TranspilerInfo :: "raw_map optnil"
  df_MitigationInfo :: "raw_map optnil"
  df_Status :: JobsJobStatus
  df_ExecutionTime :: "duration optnil"
  df_SubmittedAt :: "datetime optnil"

section \<open>Statuses and counts\<close>

fun convertFromCloudStatus :: "JobsJobStatus \<Rightarrow> Status" where
  "convertFromCloudStatus SubmittedS = SUBMITTED"
| "convertFromCloudStatus ReadyS = READY"
| "convertFromCloudStatus RunningS = RUNNING"
| "convertFromCloudStatus SucceededS = SUCCEEDED"
| "convertFromCloudStatus FailedS = FAILED"
| "convertFromCloudStatus _ = FAILED"

fun convertToAPIStatus :: "Status \<Rightarrow> JobsJobStatus" where
  "convertToAPIStatus SUBMITTED = SubmittedS"
| "convertToAPIStatus READY = ReadyS"
| "convertToAPIStatus RUNNING = RunningS"
| "convertToAPIStatus SUCCEEDED = SucceededS"
| "convertToAPIStatus FAILED = FailedS"
| "convertToAPIStatus _ = FailedS"

definition convertToAPICounts :: "Counts \<Rightarrow> (string, string) gomap" where
  "convertToAPICounts counts = put_all (map (\<lambda>(k, v). (k, u32_str v)) counts) []"

definition convertToAPIDividedCounts :: "DividedResult \<Rightarrow> (string, string) gomap" where
  "convertToAPIDividedCounts dividedCounts =
    put_all (map (\<lambda>(k, v). (u32_str k,
      json_print (JObj (map (\<lambda>(k, c). (k, JNum c)) (convertToAPICounts v))))) dividedCounts) []"

section \<open>Transpiler configuration\<close>

definition DEFAULT_TRANSPILER_CONFIG :: TranspilerConfig where
  "DEFAULT_TRANSPILER_CONFIG =
    \<lparr>tc_TranspilerLib = Some ''qiskit'',
     tc_TranspilerOptions = Some (json_print (JObj [(''optimization_level'', JNum ''1'')])),
     tc_UseDefault = True\<rparr>"

definition no_TranspilerConfig :: TranspilerConfig where
  "no_TranspilerConfig = \<lparr>tc_TranspilerLib = None, tc_TranspilerOptions = None, tc_UseDefault = False\<rparr>"

definition useTranspiler :: "raw_map optnil \<Rightarrow> bool" where
  "useTranspiler ti =
    (case optnil_Get ti of
       None \<Rightarrow> True
     | Some t \<Rightarrow>
         (case map_of t ''transpiler_lib'' of
            None \<Rightarrow> True
          | Some lib_raw \<Rightarrow> \<not> (lib_raw = None \<or> lib_raw = Some ''null'')))"

definition useDefaultTranspiler :: "raw_map optnil \<Rightarrow> bool" where
  "useDefaultTranspiler ti =
    (case optnil_Get ti of
       None \<Rightarrow> True
     | Some t \<Rightarrow> map_of t ''transpiler_lib'' = None)"

text \<open>
  A JSON value decoded into \<open>interface{}\<close> and marshalled again: numbers are printed as \<open>float64\<close>,
  objects with their keys sorted and the last of several equal keys.
\<close>

fun all_some :: "'a option list \<Rightarrow> 'a list option" where
  "all_some [] = Some []"
| "all_some (None # xs) = None"
| "all_some (Some x # xs) = map_option ((#) x) (all_some xs)"

fun remarshal :: "(string \<Rightarrow> string option) \<Rightarrow> json \<Rightarrow> json option" where
  "remarshal fmt (JNum t) = map_option JNum (fmt t)"
| "remarshal fmt (JArr js) = map_option JArr (all_some (map (remarshal fmt) js))"
| "remarshal fmt (JObj kvs) =
    map_option (\<lambda>kvs. JObj (sort_key fst (put_all kvs [])))
      (all_some (map (\<lambda>(k, v). map_option (Pair k) (remarshal fmt v)) kvs))"
| "remarshal fmt j = Some j"

definition remarshal_raw :: "(string \<Rightarrow> string option) \<Rightarrow> string option \<Rightarrow> json option" where
  "remarshal_raw fmt raw =
    (case raw of
       None \<Rightarrow> None
     | Some s \<Rightarrow> (case json_parse s of None \<Rightarrow> None | Some j \<Rightarrow> remarshal fmt j))"

definition ConvertToTranspilerInfo :: "(string \<Rightarrow> string option) \<Rightarrow> raw_map \<Rightarrow> TranspilerConfig" where
  "ConvertToTranspilerInfo fmt ti =
    (case all_some (map (\<lambda>(k, raw). map_option (Pair k) (remarshal_raw fmt raw)) ti) of
       None \<Rightarrow> no_TranspilerConfig
     | Some tempMap \<Rightarrow>
         (let kvs = sort_key fst (put_all tempMap []) in
          case jstring_ptr (jfield ''transpiler_lib'' kvs) of
            Ok lib \<Rightarrow>
              \<lparr>tc_TranspilerLib = lib, tc_TranspilerOptions = jraw (jfield ''transpiler_options'' kvs),
               tc_UseDefault = False\<rparr>
          | _ \<Rightarrow> no_TranspilerConfig))"

definition convertToTranspilerInfoFromONTI :: "(string \<Rightarrow> string option) \<Rightarrow> raw_map optnil \<Rightarrow> TranspilerConfig" where
  "convertToTranspilerInfoFromONTI fmt onti =
    (case optnil_Get onti of
       None \<Rightarrow> no_TranspilerConfig
     | Some ti \<Rightarrow> ConvertToTranspilerInfo fmt ti)"

text \<open>The other direction: a configuration marshalled, decoded into a map and each value marshalled.\<close>

definition convertToAPITranspilerInfo :: "(string \<Rightarrow> string option) \<Rightarrow> TranspilerConfig option \<Rightarrow> raw_map" where
  "convertToAPITranspilerInfo fmt tc =
    (case tc of
       None \<Rightarrow> []
     | Some c \<Rightarrow>
         (case Marshal_raw (tc_TranspilerOptions c) of
            Ok options \<Rightarrow>
              (case remarshal_raw fmt (Some options) of
                 None \<Rightarrow> []
               | Some opts \<Rightarrow>
                   [(''transpiler_lib'', Some (json_print
                       (case tc_TranspilerLib c of None \<Rightarrow> JNull | Some lib \<Rightarrow> JStr lib))),
                    (''transpiler_options'', Some (json_print opts))])
          | _ \<Rightarrow> []))"

section \<open>From the API\<close>

definition ConvertToMitigationInfo :: "raw_map optnil \<Rightarrow> string" where
  "ConvertToMitigationInfo mi =
    (case optnil_Get mi of
       None \<Rightarrow> ''{}''
     | Some m \<Rightarrow>
         Marshal_map JStr (put_all (map (\<lambda>(k, raw). (k, case raw of None \<Rightarrow> [] | Some s \<Rightarrow> s)) m) []))"

definition transpiler_of :: "(string \<Rightarrow> string option) \<Rightarrow> raw_map optnil \<Rightarrow> TranspilerConfig \<times> bool" where
  "transpiler_of fmt ti =
    (if useTranspiler ti then
       (if useDefaultTranspiler ti then (DEFAULT_TRANSPILER_CONFIG, True)
        else (convertToTranspilerInfoFromONTI fmt ti, False))
     else (no_TranspilerConfig, False))"

fun job_type_of :: "JobsJobType \<Rightarrow> string" where
  "job_type_of SamplingT = SAMPLING_JOB"
| "job_type_of EstimationT = ESTIMATION_JOB"
| "job_type_of MultiManualT = MULTIPROG_MANUAL_JOB"
| "job_type_of SseT = SSE_JOB"
| "job_type_of (OtherT t) = NORMAL_JOB"

definition ConvertFromCloudJob ::
  "(string \<Rightarrow> string option) \<Rightarrow> ((string \<times> string option) list \<Rightarrow> string res) \<Rightarrow> datetime \<Rightarrow> JobsJobDef \<Rightarrow> JobData res" where
  "ConvertFromCloudJob fmt marshal_operator now j =
    (let jinfo = df_JobInfo j;
         jd = (NewJobData now)
           \<lparr>jd_ID := df_JobID j, jd_Shots := df_Shots j,
            jd_Transpiler := Some (fst (transpiler_of fmt (df_TranspilerInfo j))),
            jd_NeedsUpdateTranspilerInfo := snd (transpiler_of fmt (df_TranspilerInfo j)),
            jd_MitigationInfo := ConvertToMitigationInfo (df_MitigationInfo j),
            jd_Status := convertFromCloudStatus (df_Status j),
            jd_Created := (case optnil_Get (df_SubmittedAt j) of Some gdt \<Rightarrow> gdt | None \<Rightarrow> 0),
            jd_JobType := job_type_of (df_JobType j)\<rparr> in
     res_bind
       (if df_JobType j = MultiManualT then Ok (Marshal_slice JStr (ji_Program jinfo))
        else (case ji_Program jinfo of [] \<Rightarrow> Panic | p # _ \<Rightarrow> Ok p))
       (\<lambda>qasm.
          Ok (jd
            \<lparr>jd_QASM := qasm,
             jd_Info :=
               (case optnil_Get (ji_Operator jinfo) of
                  None \<Rightarrow> []
                | Some items \<Rightarrow> (case marshal_operator items of Ok b \<Rightarrow> b | _ \<Rightarrow> [])),
             jd_Result := Some (NewResult\<lparr>rs_Message :=
               (case optnil_Get (ji_Message jinfo) of Some m \<Rightarrow> m | None \<Rightarrow> ''not set in cloud job'')\<rparr>)\<rparr>)))"

section \<open>To the API\<close>

text \<open>A raw JSON object as a map of raw texts; a text that is not an object is only logged.\<close>

definition raw_members :: "string option \<Rightarrow> raw_map" where
  "raw_members raw =
    (case raw of
       None \<Rightarrow> []
     | Some s \<Rightarrow>
         (case json_parse s of
            Some (JObj kvs) \<Rightarrow> put_all (map (\<lambda>(k, v). (k, Some (json_print v))) kvs) []
          | _ \<Rightarrow> []))"

text \<open>The combined program of a finished multi-programming job, and its original programs.\<close>

definition combined_of :: "JobData \<Rightarrow> string \<times> JobData" where
  "combined_of j =
    (if jd_JobType j = MULTIPROG_MANUAL_JOB \<and> (jd_Status j = SUCCEEDED \<or> jd_Status j = FAILED) then
       (case Unmarshal_map dec_str [] (jd_QASM j) of
          (_, Some _) \<Rightarrow> ([], j)
        | (qasmMap, None) \<Rightarrow>
            (case map_of qasmMap ''combined_qasm'' of None \<Rightarrow> [] | Some q \<Rightarrow> q,
             j\<lparr>jd_QASM := (case map_of qasmMap ''original_qasms'' of None \<Rightarrow> [] | Some q \<Rightarrow> q)\<rparr>))
     else ([], j))"

definition result_of :: "JobData \<Rightarrow> Result \<Rightarrow> JobsJobType \<times> JobsJobResult" where
  "result_of j r =
    (if jd_JobType j \<in> {SAMPLING_JOB, MULTIPROG_MANUAL_JOB, SSE_JOB} then
       (SamplingT,
        \<lparr>jr_Sampling = Val \<lparr>sr_Counts = convertToAPICounts (rs_Counts r),
           sr_DividedCounts =
             (if jd_JobType j = MULTIPROG_MANUAL_JOB
              then Val (convertToAPIDividedCounts (case rs_DividedResult r of None \<Rightarrow> [] | Some d \<Rightarrow> d))
              else Unset)\<rparr>,
         jr_Estimation = Null\<rparr>)
     else if jd_JobType j = ESTIMATION_JOB then
       (EstimationT,
        \<lparr>jr_Sampling = Unset,
         jr_Estimation =
           Val (case rs_Estimation r of None \<Rightarrow> (0, 0) | Some es \<Rightarrow> (es_Exp_value es, es_Stds es))\<rparr>)
     else (SamplingT, \<lparr>jr_Sampling = Unset, jr_Estimation = Unset\<rparr>))"

definition transpile_result_of :: "JobData \<Rightarrow> Result \<Rightarrow> JobsTranspileResult optnil" where
  "transpile_result_of j r =
    (case rs_TranspilerInfo r of
       None \<Rightarrow> Null
     | Some info \<Rightarrow>
         Val \<lparr>jt_TranspiledProgram = Some (jd_TranspiledQASM j), jt_Stats = Some (raw_members (ti_StatsRaw info)),
              jt_VirtualPhysicalMapping = Some (raw_members (ti_VirtualPhysicalMappingRaw info))\<rparr>)"

definition ConvertToCloudJob :: "(string \<Rightarrow> string option) \<Rightarrow> JobData \<Rightarrow> (JobData, JobsJobDef) outcome" where
  "ConvertToCloudJob fmt j =
    bindP (derefP (jd_Result j) j) (\<lambda>r j.
      let (jobType, jjr) = result_of j r;
          (combinedProgram, j') = combined_of j in
      Ret
        \<lparr>df_JobID = jd_ID j', df_Shots = jd_Shots j', df_JobType = jobType,
         df_JobInfo =
           \<lparr>ji_Program = [jd_QASM j'], ji_CombinedProgram = Val combinedProgram, ji_Operator = Unset,
            ji_Result = Val jjr, ji_TranspileResult = transpile_result_of j' r, ji_Message = Val (rs_Message r)\<rparr>,
         df_TranspilerInfo = Val (convertToAPITranspilerInfo fmt (jd_Transpiler j')),
         df_MitigationInfo = Unset, df_Status = convertToAPIStatus (jd_Status j'),
         df_ExecutionTime = (if rs_ExecutionTime r = 0 then Null else Val (rs_ExecutionTime r)),
         df_SubmittedAt = Unset\<rparr> j')"

section \<open>Statuses, types and programs of a job that comes from the API\<close>

lemma convertFromCloudStatus_inverse:
  "convertFromCloudStatus (convertToAPIStatus s) = (if s \<in> {SUBMITTED, READY, RUNNING, SUCCEEDED} then s else FAILED)"
  by (cases s) simp_all

lemma ConvertFromCloudJob_Ok:
  "ConvertFromCloudJob fmt mo now j = Ok jd \<Longrightarrow>
    jd_ID jd = df_JobID j \<and> jd_Shots jd = df_Shots j \<and> jd_Status jd = convertFromCloudStatus (df_Status j) \<and>
    jd_JobType jd = job_type_of (df_JobType j) \<and> jd_MitigationInfo jd = ConvertToMitigationInfo (df_MitigationInfo j) \<and>
    jd_Transpiler jd = Some (fst (transpiler_of fmt (df_TranspilerInfo j))) \<and> jd_Result jd \<noteq> None \<and>
    \<not> jd_UseJobInfoUpdate jd"
  by (auto simp: ConvertFromCloudJob_def Let_def res_simps NewJobData_def)

text \<open>
  A job from the API is converted, or the conversion panics; it panics exactly for a job without a
  program that is not a multi-programming job. The programs of a multi-programming job, whatever their
  number, are encoded so that they can be read back.
\<close>

theorem ConvertFromCloudJob_programs:
  "(case ConvertFromCloudJob fmt mo now j of
      Panic \<Rightarrow> df_JobType j \<noteq> MultiManualT \<and> ji_Program (df_JobInfo j) = []
    | Err er \<Rightarrow> False
    | Ok jd \<Rightarrow>
        (if df_JobType j = MultiManualT
         then Unmarshal_slice dec_str [] (jd_QASM jd) = (ji_Program (df_JobInfo j), None)
         else \<exists>ps. ji_Program (df_JobInfo j) = jd_QASM jd # ps))"
proof -
  have "Unmarshal_slice dec_str [] (Marshal_slice JStr ps) = (ps, None)" for ps
    by (rule Unmarshal_Marshal_slice) simp_all
  then show ?thesis
    by (auto simp: ConvertFromCloudJob_def Let_def split: list.split)
qed

section \<open>Mitigation asked for by the API\<close>

lemma put_all_map_snd: "wf_map m \<Longrightarrow> put_all (map (\<lambda>(k, v). (k, f v)) m) [] = map (\<lambda>(k, v). (k, f v)) m"
  by (rule put_all_Nil) (simp add: comp_def case_prod_beta)

lemma map_of_map_snd: "map_of (map (\<lambda>(k, v). (k, f v)) m) k = map_option f (map_of m k)"
  by (induction m) auto

lemma Marshal_map_valid:
  "(\<And>v. plain_json (enc v)) \<Longrightarrow> json_valid (Marshal_map enc m) \<and> Marshal_map enc m \<noteq> []"
  using json_print_parse [of "JObj (map (\<lambda>(k, v). (k, enc v)) (sort_key fst m))"]
  by (simp add: json_valid_def Marshal_map_def list_all_iff case_prod_beta)

text \<open>
  From the API to the decision to mitigate: a job that the API sends is mitigated exactly when its
  mitigation information has a property \<open>ro_error_mitigation\<close> whose JSON text is, up to surrounding
  blanks, the string \<open>pseudo_inverse\<close> in quotes.
\<close>

theorem cloud_job_mitigation:
  assumes "ConvertFromCloudJob fmt mo now j = Ok jd" and "df_MitigationInfo j = Val m" and "wf_map m"
  shows "mi_NeedToBeMitigated (NewMitigationInfoFromJobData jd) \<longleftrightarrow>
    (\<exists>raw. map_of m ''ro_error_mitigation'' = Some (Some raw) \<and> TrimSpace raw = quoted_pseudo_inverse)"
proof -
  let ?f = "\<lambda>raw :: string option. case raw of None \<Rightarrow> [] | Some s \<Rightarrow> s"
  let ?m = "map (\<lambda>(k, raw). (k, ?f raw)) m"
  have mi: "jd_MitigationInfo jd = Marshal_map JStr ?m"
    using ConvertFromCloudJob_Ok [OF assms(1)] assms(2,3)
    by (simp add: ConvertToMitigationInfo_def put_all_map_snd)
  have wf: "wf_map ?m"
    using assms(3) by (simp add: comp_def case_prod_beta)
  have "Unmarshal_map dec_str [] (Marshal_map JStr ?m) = (sort_key fst ?m, None)"
    using wf by (rule Unmarshal_Marshal_map) simp_all
  then have "mi_NeedToBeMitigated (NewMitigationInfoFromJobData jd) \<longleftrightarrow>
      (\<exists>r. map_of m ''ro_error_mitigation'' = Some r \<and> TrimSpace (?f r) = quoted_pseudo_inverse)"
    using mi Marshal_map_valid [of JStr ?m] wf
    by (auto simp: NewMitigationInfoFromJobData_def ro_property_def Let_def map_of_map_snd
        split: option.split)
  moreover have "TrimSpace [] \<noteq> quoted_pseudo_inverse"
    by (simp add: TrimSpace_def quoted_pseudo_inverse_def)
  ultimately show ?thesis
    by (auto split: option.splits)
qed

definition example_cloud_job :: JobsJobDef where
  "example_cloud_job =
    \<lparr>df_JobID = ''id'', df_Shots = 100, df_JobType = SamplingT,
     df_JobInfo = \<lparr>ji_Program = [''qasm''], ji_CombinedProgram = Unset, ji_Operator = Unset, ji_Result = Unset,
       ji_TranspileResult = Unset, ji_Message = Unset\<rparr>,
     df_TranspilerInfo = Unset, df_MitigationInfo = Val [(''ro_error_mitigation'', Some quoted_pseudo_inverse)],
     df_Status = SubmittedS, df_ExecutionTime = Unset, df_SubmittedAt = Unset\<rparr>"

theorem cloud_job_mitigation_witness:
  "\<exists>jd. ConvertFromCloudJob Some (\<lambda>_. Ok []) 0 example_cloud_job = Ok jd \<and>
    mi_NeedToBeMitigated (NewMitigationInfoFromJobData jd)"
proof -
  obtain jd where jd: "ConvertFromCloudJob Some (\<lambda>_. Ok []) 0 example_cloud_job = Ok jd"
    by (simp add: ConvertFromCloudJob_def example_cloud_job_def Let_def)
  have "TrimSpace quoted_pseudo_inverse = quoted_pseudo_inverse"
    by (simp add: TrimSpace_def quoted_pseudo_inverse_def is_space_def)
  then show ?thesis
    using cloud_job_mitigation [OF jd] jd by (simp add: example_cloud_job_def)
qed

section \<open>What the API gets\<close>

lemma map_of_convertToAPICounts: "wf_map cs \<Longrightarrow> map_of (convertToAPICounts cs) k = map_option u32_str (map_of cs k)"
  by (simp add: convertToAPICounts_def put_all_map_snd map_of_map_snd)

lemma combined_of_cases: "\<exists>c q. combined_of j = (c, j\<lparr>jd_QASM := q\<rparr>)"
proof -
  have e: "\<exists>c q. (x, j) = (c, j\<lparr>jd_QASM := q\<rparr>)" for x :: string
    by (rule exI [of _ x], rule exI [of _ "jd_QASM j"]) simp
  obtain qs er where "Unmarshal_map dec_str [] (jd_QASM j) = (qs, er)"
    by fastforce
  then show ?thesis
    using e by (cases er) (simp_all add: combined_of_def, blast)
qed

lemma ConvertToCloudJob_Ret:
  "ConvertToCloudJob fmt j = Ret def j' \<Longrightarrow> \<exists>r. jd_Result j = Some r \<and> j' = snd (combined_of j) \<and>
    df_JobID def = jd_ID j \<and> df_Status def = convertToAPIStatus (jd_Status j) \<and>
    ji_Result (df_JobInfo def) = Val (snd (result_of j r)) \<and>
    ji_Message (df_JobInfo def) = Val (rs_Message r) \<and>
    ji_CombinedProgram (df_JobInfo def) = Val (fst (combined_of j)) \<and> ji_Program (df_JobInfo def) = [jd_QASM j'] \<and>
    df_TranspilerInfo def = Val (convertToAPITranspilerInfo fmt (jd_Transpiler j)) \<and>
    ji_TranspileResult (df_JobInfo def) = transpile_result_of j r"
  using combined_of_cases [of j]
  by (cases "jd_Result j"; cases "result_of j (the (jd_Result j))")
    (auto simp: ConvertToCloudJob_def transpile_result_of_def split: option.split)

lemma ConvertToCloudJob_total: "jd_Result j = Some r \<Longrightarrow> \<exists>def j'. ConvertToCloudJob fmt j = Ret def j'"
  by (cases "result_of j r"; cases "combined_of j") (simp add: ConvertToCloudJob_def)

text \<open>
  The counts that the API gets for a sampling, SSE or multi-programming job are the measured ones:
  for every outcome the number that was measured, as a decimal number that reads back, and nothing for
  an outcome that was not measured.
\<close>

theorem cloud_job_counts:
  assumes "ConvertToCloudJob fmt j = Ret def j'" and "jd_Result j = Some r" and "wf_map (rs_Counts r)"
    and "jd_JobType j \<in> {SAMPLING_JOB, MULTIPROG_MANUAL_JOB, SSE_JOB}"
  shows "\<exists>jr s. ji_Result (df_JobInfo def) = Val jr \<and> jr_Sampling jr = Val s \<and>
    (\<forall>k. map_option (ParseUint 32) (map_of (sr_Counts s) k) = map_option (\<lambda>n. Ok (unat n)) (map_of (rs_Counts r) k))"
  using ConvertToCloudJob_Ret [OF assms(1)] assms(2-4)
  by (auto simp: result_of_def map_of_convertToAPICounts option.map_comp comp_def)

theorem cloud_job_counts_witness:
  "\<exists>def j' jr s. ConvertToCloudJob Some (example_job\<lparr>jd_JobType := SAMPLING_JOB,
      jd_Result := Some (NewResult\<lparr>rs_Counts := [(''01'', 7)]\<rparr>)\<rparr>) = Ret def j' \<and>
    ji_Result (df_JobInfo def) = Val jr \<and> jr_Sampling jr = Val s \<and>
    map_option (ParseUint 32) (map_of (sr_Counts s) ''01'') = Some (Ok 7)"
proof -
  let ?r = "NewResult\<lparr>rs_Counts := [(''01'', 7)]\<rparr>"
  let ?j = "example_job\<lparr>jd_JobType := SAMPLING_JOB, jd_Result := Some ?r\<rparr>"
  obtain def j' where c: "ConvertToCloudJob Some ?j = Ret def j'"
    using ConvertToCloudJob_total [of ?j ?r Some] by auto
  obtain jr s where "ji_Result (df_JobInfo def) = Val jr \<and> jr_Sampling jr = Val s \<and>
      (\<forall>k. map_option (ParseUint 32) (map_of (sr_Counts s) k) = map_option (\<lambda>n. Ok (unat n)) (map_of (rs_Counts ?r) k))"
    using cloud_job_counts [OF c, of ?r] by auto
  then have "ji_Result (df_JobInfo def) = Val jr \<and> jr_Sampling jr = Val s \<and>
      map_option (ParseUint 32) (map_of (sr_Counts s) ''01'') = Some (Ok 7)"
    by simp
  then show ?thesis
    using c by blast
qed

lemma ManualJob_PostProcess_qasm:
  assumes "ManualJob_PostProcess e m = Ret () m'" and "jd_Status (mj_jobData m') = SUCCEEDED"
  shows "jd_QASM (mj_jobData m') =
      Marshal_map JStr [(''combined_qasm'', mj_combinedQASM m), (''original_qasms'', mj_originalQASMs m)] \<and>
    jd_JobType (mj_jobData m') = jd_JobType (mj_jobData m)"
proof -
  have divide: "jd_QASM jd' = jd_QASM jd \<and> jd_JobType jd' = jd_JobType jd" if "DivideResult jd ls = Ret er jd'" for jd ls er jd'
    using that by (cases "jd_Result jd"; cases "rs_TranspilerInfo (the (jd_Result jd))")
        (auto simp: DivideResult_def Let_def split: if_splits res.splits)
  show ?thesis
    using assms
    by (auto simp: ManualJob_PostProcess_def ManualJob_setQASMJson_def Let_def res_simps SetFailure_Ret
        ManualJob_rollbackQASM_def split: prod.splits option.splits dest!: divide)
qed

text \<open>
  A multi-programming job that its post-processing ended with success is reported with the combined
  program apart from the submitted ones, and after the report the job has the submitted programs again.
\<close>

theorem cloud_job_combined_program:
  assumes "ManualJob_PostProcess e m = Ret () m'" and "jd_Status (mj_jobData m') = SUCCEEDED"
    and "jd_JobType (mj_jobData m) = MULTIPROG_MANUAL_JOB"
    and "ConvertToCloudJob fmt (mj_jobData m') = Ret def jd"
  shows "ji_CombinedProgram (df_JobInfo def) = Val (mj_combinedQASM m) \<and>
    ji_Program (df_JobInfo def) = [mj_originalQASMs m] \<and> jd_QASM jd = mj_originalQASMs m \<and> df_Status def = SucceededS"
proof -
  let ?q = "[(''combined_qasm'', mj_combinedQASM m), (''original_qasms'', mj_originalQASMs m)]"
  have "Unmarshal_map dec_str [] (Marshal_map JStr ?q) = (sort_key fst ?q, None)"
    by (rule Unmarshal_Marshal_map) simp_all
  then have "combined_of (mj_jobData m') =
      (mj_combinedQASM m, (mj_jobData m')\<lparr>jd_QASM := mj_originalQASMs m\<rparr>)"
    using ManualJob_PostProcess_qasm [OF assms(1,2)] assms(2,3) by (simp add: combined_of_def)
  then show ?thesis
    using ConvertToCloudJob_Ret [OF assms(4)] assms(2) by auto
qed


definition example_combined_job :: ManualJob where
  "example_combined_job =
    \<lparr>mj_jobData = (NewJobData 0)\<lparr>jd_JobType := MULTIPROG_MANUAL_JOB,
       jd_Result := Some (NewResult\<lparr>rs_Counts := [(''0'', 1)], rs_TranspilerInfo := Some (empty_TranspilerInfo
         \<lparr>ti_VirtualPhysicalMappingRaw := ToRaw [(0, 0)]\<rparr>)\<rparr>)\<rparr>,
     mj_combinedQubitsList = [1], mj_combinedQASM = ''combined'', mj_originalQASMs = Marshal_slice JStr [''p''],
     mj_postProcessed = False\<rparr>"

theorem cloud_job_combined_program_witness:
  "\<exists>m def jd. ManualJob_PostProcess example_manual_env example_combined_job = Ret () m \<and>
    ConvertToCloudJob Some (mj_jobData m) = Ret def jd \<and> ji_CombinedProgram (df_JobInfo def) = Val ''combined''"
proof -
  have "Unmarshal_slice dec_str [] (Marshal_slice JStr [''p'']) = ([''p''], None)"
    by (rule Unmarshal_Marshal_slice) simp_all
  moreover have "ToMap (ToRaw [(0, 0)]) = Ok [(0, 0)]"
    using ToMap_ToRaw_mset [of "[(0, 0)]"] by auto
  moreover have "swapVirtualPhysical [(''0'', 1)] [(0, 0)] = Ok [(''0'', 1)]"
    "divide_counts [1] [(''0'', 1)] [] = Ok [(0, [(''0'', 1)])]"
    by code_simp+
  ultimately obtain m r where m: "ManualJob_PostProcess example_manual_env example_combined_job = Ret () m"
    "jd_Status (mj_jobData m) = SUCCEEDED" and r: "jd_Result (mj_jobData m) = Some r"
    by (auto simp: ManualJob_PostProcess_def ManualJob_setQASMJson_def example_combined_job_def DivideResult_def
        mj_put_def Let_def NewResult_def)
  obtain def jd where c: "ConvertToCloudJob Some (mj_jobData m) = Ret def jd"
    using ConvertToCloudJob_total [OF r] by blast
  show ?thesis
    using cloud_job_combined_program [OF m _ c] m c by (simp add: example_combined_job_def)
qed

section \<open>Transpiler configurations\<close>

lemma sorted_two [simp]: "sort_key fst [(''transpiler_lib'', a), (''transpiler_options'', b)] = [(''transpiler_lib'', a), (''transpiler_options'', b)]"
  by (simp add: sort_key_def)

text \<open>
  The transpiler configuration that the API gets is read back as the same configuration, provided
  that its options are a JSON text in the normal form of \<open>encoding/json\<close>: the library, the options, but
  not the mark of the default configuration.
\<close>

theorem transpiler_info_roundtrip:
  assumes "tc_TranspilerLib c = Some lib" and "tc_TranspilerOptions c = Some (json_print opts)"
    and "plain_json opts" and "remarshal fmt opts = Some opts"
  shows "ConvertToTranspilerInfo fmt (convertToAPITranspilerInfo fmt (Some c)) = c\<lparr>tc_UseDefault := False\<rparr>"
proof -
  have low: "ToLower ''transpiler_lib'' = ''transpiler_lib''" "ToLower ''transpiler_options'' = ''transpiler_options''"
    by (simp_all add: ToLower_def lower_char_def)
  have "json_parse (json_print (JStr lib)) = Some (JStr lib)" and "json_parse (json_print opts) = Some opts"
    by (rule json_print_parse, simp add: assms(3))+
  then show ?thesis
    using assms(1,2,4)
    by (simp add: convertToAPITranspilerInfo_def Marshal_raw_def remarshal_raw_def ConvertToTranspilerInfo_def
        Let_def jfield_def jraw_def low del: json_print.simps)
qed

theorem transpiler_info_roundtrip_witness:
  "ConvertToTranspilerInfo Some (convertToAPITranspilerInfo Some (Some DEFAULT_TRANSPILER_CONFIG)) =
    DEFAULT_TRANSPILER_CONFIG\<lparr>tc_UseDefault := False\<rparr>"
  by (intro transpiler_info_roundtrip [of _ "''qiskit''" "JObj [(''optimization_level'', JNum ''1'')]"])
    (simp_all add: DEFAULT_TRANSPILER_CONFIG_def scan_number_digit is_digit_def sort_key_def)

end
