(* ===== verification/Service_DB.thy ===== *)
theory Service_DB
  imports Cloud_Job
begin

text \<open>
  \<open>coreapp/db/service.go\<close>: the database behind the provider's API. Nothing is stored by the engine; an
  update of a job becomes calls of the API.

  A call is a value of \<open>db_call\<close> and \<open>sv_call\<close> is the error, if any, of making it; an answer that reports
  a bad request is only logged. \<open>sv_fmt\<close> is the number format of \<open>Cloud_Job\<close>.
\<close>

record JobsUpdateJobInfoRequest =
  up_OverwriteStatus :: JobsJobStatus
  up_ExecutionTime :: "duration optnil"
  up_CombinedProgram :: "string optnil"
  up_TranspileResult :: "JobsTranspileResult optnil"
  up_Result :: "JobsJobResult optnil"
  up_Message :: "string optnil"

datatype db_call =
    PatchJob string JobsJobStatus
  | PatchJobInfo string JobsUpdateJobInfoRequest
  | UpdateJobTranspilerInfo string raw_map

record db_env =
  sv_NewClient :: "string \<Rightarrow> error option"
  sv_call :: "db_call \<Rightarrow> error option"
  sv_fmt :: "string \<Rightarrow> string option"

record ServiceDB =
  sd_endpoint :: string
  sd_apiKey :: string
  sd_client :: bool

definition ServiceDB_Setup :: "db_env \<Rightarrow> Conf \<Rightarrow> ServiceDB \<Rightarrow> ServiceDB \<times> error option" where
  "ServiceDB_Setup e c s =
    (let s = s\<lparr>sd_endpoint := cf_ServiceDBEndpoint c, sd_apiKey := cf_ServiceDBAPIKey c\<rparr> in
     case sv_NewClient e (sd_endpoint s) of
       Some er \<Rightarrow> (s, Some er)
     | None \<Rightarrow> (s\<lparr>sd_client := True\<rparr>, None))"

definition ServiceDB_Insert :: "JobData \<Rightarrow> error option" where
  "ServiceDB_Insert jd = None"

text \<open>The job that \<open>Get\<close> returns with the error is empty (its data pointer is nil) and left out.\<close>

definition ServiceDB_Get :: "string \<Rightarrow> error option" where
  "ServiceDB_Get jobID = Some (''not found '' @ jobID)"

definition ServiceDB_Delete :: "string \<Rightarrow> error option" where
  "ServiceDB_Delete jobID = None"

definition putTranspilerInfo :: "db_env \<Rightarrow> JobsJobDef \<Rightarrow> db_call list \<times> error option" where
  "putTranspilerInfo e cJob =
    (case optnil_Get (df_TranspilerInfo cJob) of
       None \<Rightarrow> ([], None)
     | Some ti \<Rightarrow> (let c = UpdateJobTranspilerInfo (df_JobID cJob) ti in ([c], sv_call e c)))"

text \<open>Without \<open>UseJobInfoUpdate\<close> only the status \<open>RUNNING\<close> is reported.\<close>

definition update_status :: "db_env \<Rightarrow> string \<Rightarrow> JobsJobDef \<Rightarrow> db_call list \<times> error option" where
  "update_status e jid cJob =
    (case df_Status cJob of
       RunningS \<Rightarrow> (let c = PatchJob jid RunningS in ([c], sv_call e c))
     | _ \<Rightarrow> ([], None))"

text \<open>The request of an update with all information.\<close>

definition update_stats :: "JobsJobInfo \<Rightarrow> raw_map option \<times> raw_map option" where
  "update_stats jobInfo =
    (case optnil_Get (ji_TranspileResult jobInfo) of
       Some transpileResult \<Rightarrow> (jt_Stats transpileResult, jt_VirtualPhysicalMapping transpileResult)
     | None \<Rightarrow> (None, None))"

definition update_request :: "JobData \<Rightarrow> bool \<Rightarrow> JobsJobDef \<Rightarrow> JobsUpdateJobInfoRequest" where
  "update_request jd need cJob =
    (let (stats, vpm) = update_stats (df_JobInfo cJob) in
     \<lparr>up_OverwriteStatus = df_Status cJob, up_ExecutionTime = df_ExecutionTime cJob,
      up_CombinedProgram = ji_CombinedProgram (df_JobInfo cJob),
      up_TranspileResult =
        (if need then
           Val \<lparr>jt_TranspiledProgram = Some (jd_TranspiledQASM jd), jt_Stats = stats, jt_VirtualPhysicalMapping = vpm\<rparr>
         else Null),
      up_Result = (case df_Status cJob of FailedS \<Rightarrow> Unset | _ \<Rightarrow> ji_Result (df_JobInfo cJob)),
      up_Message = Val (case ji_Message (df_JobInfo cJob) of Val m \<Rightarrow> m | _ \<Rightarrow> [])\<rparr>)"

definition ServiceDB_Update ::
  "db_env \<Rightarrow> JobData \<Rightarrow> (JobData, db_call list \<times> error option) outcome" where
  "ServiceDB_Update e jd =
    (let jid = jd_ID jd in
     bindP (ConvertToCloudJob (sv_fmt e) jd) (\<lambda>cJob jd.
       if \<not> jd_UseJobInfoUpdate jd then Ret (update_status e jid cJob) jd
       else
         (case JobData_NeedTranspiling jd of
            Ok need \<Rightarrow>
              bindP (derefP (jd_Result jd) jd) (\<lambda>r jd.
              bindP (derefP (rs_TranspilerInfo r) jd) (\<lambda>_ jd.
                let c = PatchJobInfo jid (update_request jd need cJob) in
                case sv_call e c of
                  Some er \<Rightarrow> Ret ([c], Some er) jd
                | None \<Rightarrow>
                    if jd_NeedsUpdateTranspilerInfo jd then
                      (case putTranspilerInfo e cJob of (cs, err) \<Rightarrow> Ret (c # cs, err) jd)
                    else Ret ([c], None) jd))
          | _ \<Rightarrow> Pan jd)))"

text \<open>
  The goroutine of \<open>Setup\<close> on the messages it receives: the calls it makes. A panic, which nothing
  recovers, ends the program.
\<close>

fun ServiceDB_loop :: "db_env \<Rightarrow> JobData list \<Rightarrow> db_call list res" where
  "ServiceDB_loop e [] = Ok []"
| "ServiceDB_loop e (jd # jds) =
    (case ServiceDB_Update e jd of
       Ret (cs, _) _ \<Rightarrow> res_bind (ServiceDB_loop e jds) (\<lambda>ds. Ok (cs @ ds))
     | Pan _ \<Rightarrow> Panic)"

section \<open>What is reported\<close>

lemma convertToAPIStatus_iff [simp]:
  "convertToAPIStatus s = RunningS \<longleftrightarrow> s = RUNNING" "convertToAPIStatus s = SucceededS \<longleftrightarrow> s = SUCCEEDED"
  by (cases s; simp)+

lemma convertToAPIStatus_named:
  "convertToAPIStatus s \<noteq> CancelledS" "convertToAPIStatus s \<noteq> OtherS t"
  by (cases s; simp)+

lemma update_status_calls:
  "update_status e jid cJob =
    (if df_Status cJob = RunningS then ([PatchJob jid RunningS], sv_call e (PatchJob jid RunningS)) else ([], None))"
  by (cases "df_Status cJob") (simp_all add: update_status_def Let_def)

lemma optnil_Get_iff [simp]: "optnil_Get x = Some v \<longleftrightarrow> x = Val v"
  by (cases x) simp_all

lemma ConvertToCloudJob_keeps:
  assumes "ConvertToCloudJob fmt jd = Ret cJob jd'"
  shows "jd' = jd\<lparr>jd_QASM := jd_QASM jd'\<rparr>"
proof -
  obtain c q where "combined_of jd = (c, jd\<lparr>jd_QASM := q\<rparr>)"
    using combined_of_cases by blast
  then show ?thesis
    using ConvertToCloudJob_Ret [OF assms] by auto
qed

lemma ConvertToCloudJob_fields:
  assumes "ConvertToCloudJob fmt jd = Ret cJob jd'"
  shows "jd_UseJobInfoUpdate jd' = jd_UseJobInfoUpdate jd" "jd_ID jd' = jd_ID jd" "jd_Status jd' = jd_Status jd"
    "jd_Transpiler jd' = jd_Transpiler jd" "jd_Result jd' = jd_Result jd"
    "jd_NeedsUpdateTranspilerInfo jd' = jd_NeedsUpdateTranspilerInfo jd" "jd_TranspiledQASM jd' = jd_TranspiledQASM jd"
  by (subst ConvertToCloudJob_keeps [OF assms], simp)+

lemma ServiceDB_Update_info:
  assumes "ConvertToCloudJob (sv_fmt e) jd = Ret cJob jd'" and "jd_UseJobInfoUpdate jd"
    and "jd_Result jd = Some r" and "rs_TranspilerInfo r = Some info" and "jd_Transpiler jd = Some tc"
  shows "ServiceDB_Update e jd =
    (let c = PatchJobInfo (jd_ID jd) (update_request jd' (tc_TranspilerLib tc \<noteq> None) cJob) in
     case sv_call e c of
       Some er \<Rightarrow> Ret ([c], Some er) jd'
     | None \<Rightarrow>
         if jd_NeedsUpdateTranspilerInfo jd then
           (case putTranspilerInfo e cJob of (cs, err) \<Rightarrow> Ret (c # cs, err) jd')
         else Ret ([c], None) jd')"
proof -
  note fields = ConvertToCloudJob_fields [OF assms(1)]
  have "JobData_NeedTranspiling jd' = Ok (tc_TranspilerLib tc \<noteq> None)"
    by (simp add: JobData_NeedTranspiling_def fields assms)
  then show ?thesis
    using assms by (simp add: ServiceDB_Update_def fields Let_def)
qed

lemma ServiceDB_Update_sends_info:
  assumes "jd_UseJobInfoUpdate jd" "jd_Result jd = Some r" "rs_TranspilerInfo r = Some info" "jd_Transpiler jd = Some tc"
  shows "\<exists>cs err jd2 req. ServiceDB_Update e jd = Ret (cs, err) jd2 \<and> PatchJobInfo (jd_ID jd) req \<in> set cs"
proof -
  obtain cJob jd' where "ConvertToCloudJob (sv_fmt e) jd = Ret cJob jd'"
    using ConvertToCloudJob_total [OF assms(2)] by blast
  from ServiceDB_Update_info [OF this assms] show ?thesis
    by (cases "putTranspilerInfo e cJob") (auto simp: Let_def split: option.splits)
qed

text \<open>
  What an update reports to the API. Without the flag \<open>UseJobInfoUpdate\<close> that is at most the status
  \<open>RUNNING\<close> of a running job; in particular a failure is not reported. With the flag it is one call with
  the job's status, which carries the result exactly when the job has not failed, and then, if the call
  worked, the transpiler configuration where the engine chose it.
\<close>

theorem ServiceDB_Update_calls:
  assumes "jd_Result jd = Some r" and "rs_TranspilerInfo r = Some info" and "jd_Transpiler jd = Some tc"
  shows "\<exists>jd' cs err. ServiceDB_Update e jd = Ret (cs, err) jd' \<and>
    (if \<not> jd_UseJobInfoUpdate jd
     then cs = (if jd_Status jd = RUNNING then [PatchJob (jd_ID jd) RunningS] else [])
     else \<exists>rq cs'. cs = PatchJobInfo (jd_ID jd) rq # cs' \<and>
       up_OverwriteStatus rq = convertToAPIStatus (jd_Status jd) \<and> up_Message rq = Val (rs_Message r) \<and>
       (up_Result rq = Unset \<longleftrightarrow> convertToAPIStatus (jd_Status jd) = FailedS) \<and>
       (up_TranspileResult rq = Null \<longleftrightarrow> tc_TranspilerLib tc = None) \<and>
       cs' = (if sv_call e (PatchJobInfo (jd_ID jd) rq) = None \<and> jd_NeedsUpdateTranspilerInfo jd
              then [UpdateJobTranspilerInfo (jd_ID jd) (convertToAPITranspilerInfo (sv_fmt e) (Some tc))] else []))"
proof -
  obtain cJob jd' where c: "ConvertToCloudJob (sv_fmt e) jd = Ret cJob jd'"
    using ConvertToCloudJob_total [OF assms(1)] by blast
  note ret = ConvertToCloudJob_Ret [OF c]
  note fields = ConvertToCloudJob_fields [OF c]
  define need where "need \<longleftrightarrow> tc_TranspilerLib tc \<noteq> None"
  let ?rq = "update_request jd' need cJob"
  have st: "df_Status cJob = convertToAPIStatus (jd_Status jd)" and id: "df_JobID cJob = jd_ID jd"
    using ret by auto
  show ?thesis
  proof (cases "jd_UseJobInfoUpdate jd")
    case False
    then show ?thesis
      using c fields st by (simp add: ServiceDB_Update_def update_status_calls Let_def)
  next
    case True
    have upd: "ServiceDB_Update e jd =
        (case sv_call e (PatchJobInfo (jd_ID jd) ?rq) of
           Some er \<Rightarrow> Ret ([PatchJobInfo (jd_ID jd) ?rq], Some er) jd'
         | None \<Rightarrow>
             if jd_NeedsUpdateTranspilerInfo jd then
               (case putTranspilerInfo e cJob of (cs, err) \<Rightarrow> Ret (PatchJobInfo (jd_ID jd) ?rq # cs, err) jd')
             else Ret ([PatchJobInfo (jd_ID jd) ?rq], None) jd')"
      using ServiceDB_Update_info [OF c True assms] unfolding Let_def need_def .
    have put: "putTranspilerInfo e cJob =
        (let c = UpdateJobTranspilerInfo (jd_ID jd) (convertToAPITranspilerInfo (sv_fmt e) (Some tc)) in ([c], sv_call e c))"
      using ret assms by (auto simp: putTranspilerInfo_def)
    have rq: "up_OverwriteStatus ?rq = convertToAPIStatus (jd_Status jd)" "up_Message ?rq = Val (rs_Message r)"
      "up_Result ?rq = Unset \<longleftrightarrow> convertToAPIStatus (jd_Status jd) = FailedS"
      "up_TranspileResult ?rq = Null \<longleftrightarrow> tc_TranspilerLib tc = None"
      using ret assms(1) st
      by (auto simp: update_request_def Let_def case_prod_beta convertToAPIStatus_named need_def split: JobsJobStatus.splits)
    show ?thesis
    proof (cases "sv_call e (PatchJobInfo (jd_ID jd) ?rq)")
      case None
      then show ?thesis
        using True rq by (auto simp: upd put Let_def fields)
    next
      case (Some er)
      then show ?thesis
        using True rq by (auto simp: upd)
    qed
  qed
qed

theorem ServiceDB_Update_calls_witness:
  "\<exists>jd rq err. ServiceDB_Update \<lparr>sv_NewClient = (\<lambda>_. None), sv_call = (\<lambda>_. None), sv_fmt = Some\<rparr>
      (example_job\<lparr>jd_Status := FAILED, jd_UseJobInfoUpdate := True\<rparr>) = Ret ([PatchJobInfo ''id'' rq], err) jd \<and>
    up_OverwriteStatus rq = FailedS \<and> up_Result rq = Unset"
proof -
  let ?e = "\<lparr>sv_NewClient = (\<lambda>_. None), sv_call = (\<lambda>_. None), sv_fmt = Some\<rparr> :: db_env"
  let ?jd = "example_job\<lparr>jd_Status := FAILED, jd_UseJobInfoUpdate := True\<rparr>"
  obtain r info tc where "jd_Result ?jd = Some r" "rs_TranspilerInfo r = Some info" "jd_Transpiler ?jd = Some tc"
    and f: "jd_ID ?jd = ''id''" "\<not> jd_NeedsUpdateTranspilerInfo ?jd"
    by (simp add: example_job_def NewJobData_def NewResult_def)
  from ServiceDB_Update_calls [OF this(1-3), of ?e] f show ?thesis
    by auto
qed

end
