(* ===== verification/Run_Group.thy ===== *)
theory Run_Group
  imports Go_Proc Core_Setting
begin

text \<open>
  \<open>coreapp/core/run.go\<close>: the run groups. The table \<open>run_group\<close> of the setting file names the periodic
  tasks, internal job servers and API servers to start; each is looked up among the implementations the
  program has, gets its parameters, is set up, and is added to the group of actors that runs until the
  first of them returns.

  An implementation is a state \<open>'s\<close> with the operations of \<open>RunnerImpl\<close>, an argument of the definitions
  here and a locale below; the three kinds of implementation share one state type. The group itself
  (package \<open>oklog/run\<close>) is the list of the actors added. The TOML decoder is an argument: \<open>entries\<close>
  gives the table, \<open>runner\<close> decodes the entry of one runner to its period and parameters.
\<close>

section \<open>Runners\<close>

record ('e, 's) RunnerImpl =
  ri_SetParams :: "tval option \<Rightarrow> 's \<Rightarrow> ('s, error option) outcome"
  ri_Setup :: "'e \<Rightarrow> 's \<Rightarrow> ('s, error option) outcome"

record 's Runner =
  rn_Period :: duration
  rn_Params :: "tval option"
  rn_impl :: 's

record 's ImplMaps =
  im_PeriodicTaskImplMap :: "(string, 's) gomap"
  im_InternalJobServerImplMap :: "(string, 's) gomap"
  im_APIServerImplMap :: "(string, 's) gomap"

record 's RunGroupMaps =
  rg_PeriodicTasks :: "(string, 's Runner) gomap"
  rg_InternalJobServers :: "(string, 's Runner) gomap"
  rg_APIServers :: "(string, 's Runner) gomap"

datatype actor = PeriodicActor string | JobServerActor string | APIActor string

record 's RunContext =
  rc_Group :: "actor list"
  rc_RunGroupMaps :: "'s RunGroupMaps"

definition newRunner :: "'s \<Rightarrow> 's Runner" where
  "newRunner runnerImpl = \<lparr>rn_Period = 0, rn_Params = None, rn_impl = runnerImpl\<rparr>"

definition err_no_impl :: "string \<Rightarrow> error" where
  "err_no_impl runnerName = ''failed to find '' @ runnerName @ '' implementation from RunnerMap''"

fun parseRunnerSettings :: "table \<Rightarrow> (string, 's) gomap \<Rightarrow> (string, 's Runner) gomap \<Rightarrow> (string, 's Runner) gomap res" where
  "parseRunnerSettings [] implMap runnerMap = Ok runnerMap"
| "parseRunnerSettings ((runnerName, _) # settings) implMap runnerMap =
    (case map_of implMap runnerName of
       None \<Rightarrow> Err (err_no_impl runnerName)
     | Some impl \<Rightarrow> parseRunnerSettings settings implMap (AList.update runnerName (newRunner impl) runnerMap))"

definition NewRunGroupMaps :: "'s RunGroupMaps" where
  "NewRunGroupMaps = \<lparr>rg_PeriodicTasks = [], rg_InternalJobServers = [], rg_APIServers = []\<rparr>"

definition NewRunContext :: "'s RunContext" where
  "NewRunContext = \<lparr>rc_Group = [], rc_RunGroupMaps = NewRunGroupMaps\<rparr>"

definition parse_group :: "tval \<Rightarrow> (string, 's) gomap \<Rightarrow> (string, 's Runner) gomap res" where
  "parse_group val implMap =
    (case as_table (Some val) of None \<Rightarrow> Panic | Some t \<Rightarrow> parseRunnerSettings t implMap [])"

fun parseRunGroupSettings :: "table \<Rightarrow> 's ImplMaps \<Rightarrow> 's RunGroupMaps \<Rightarrow> 's RunGroupMaps res" where
  "parseRunGroupSettings [] im rgm = Ok rgm"
| "parseRunGroupSettings ((grp, val) # settings) im rgm =
    (if grp = ''periodic_tasks'' then
       res_bind (parse_group val (im_PeriodicTaskImplMap im)) (\<lambda>ptm.
         parseRunGroupSettings settings im (rgm\<lparr>rg_PeriodicTasks := ptm\<rparr>))
     else if grp = ''internal_job_servers'' then
       res_bind (parse_group val (im_InternalJobServerImplMap im)) (\<lambda>ijs.
         parseRunGroupSettings settings im (rgm\<lparr>rg_InternalJobServers := ijs\<rparr>))
     else if grp = ''api_servers'' then
       res_bind (parse_group val (im_APIServerImplMap im)) (\<lambda>asm.
         parseRunGroupSettings settings im (rgm\<lparr>rg_APIServers := asm\<rparr>))
     else Err (''Unknown run group type. Group:'' @ grp))"

text \<open>
  The second decoding sets the period and the parameters of every runner; it replaces the runners, so
  that their implementations are put back afterwards.
\<close>

fun decode_runners ::
  "(tval \<Rightarrow> (duration \<times> tval option) res) \<Rightarrow> table \<Rightarrow> (string, 's Runner) gomap \<Rightarrow> (string, 's Runner) gomap res" where
  "decode_runners runner settings [] = Ok []"
| "decode_runners runner settings ((name, r) # rs) =
    res_bind (case map_of settings name of None \<Rightarrow> Ok (rn_Period r, rn_Params r) | Some v \<Rightarrow> runner v) (\<lambda>(period, params).
    res_bind (decode_runners runner settings rs) (\<lambda>rs.
      Ok ((name, \<lparr>rn_Period = period, rn_Params = params, rn_impl = rn_impl r\<rparr>) # rs)))"

definition group_table :: "table \<Rightarrow> string \<Rightarrow> table" where
  "group_table entries grp = (case as_table (map_of entries grp) of None \<Rightarrow> [] | Some t \<Rightarrow> t)"

definition decode_maps ::
  "(tval \<Rightarrow> (duration \<times> tval option) res) \<Rightarrow> table \<Rightarrow> 's RunGroupMaps \<Rightarrow> 's RunGroupMaps res" where
  "decode_maps runner entries rgm =
    res_bind (decode_runners runner (group_table entries ''periodic_tasks'') (rg_PeriodicTasks rgm)) (\<lambda>pt.
    res_bind (decode_runners runner (group_table entries ''internal_job_servers'') (rg_InternalJobServers rgm)) (\<lambda>ijs.
    res_bind (decode_runners runner (group_table entries ''api_servers'') (rg_APIServers rgm)) (\<lambda>asm.
      Ok \<lparr>rg_PeriodicTasks = pt, rg_InternalJobServers = ijs, rg_APIServers = asm\<rparr>)))"

text \<open>Setting the parameters, and setting up; both stop at the first error.\<close>

fun each_runner ::
  "('s \<Rightarrow> tval option \<Rightarrow> ('s, error option) outcome) \<Rightarrow> (string, 's Runner) gomap \<Rightarrow> (string, 's Runner) gomap res" where
  "each_runner f [] = Ok []"
| "each_runner f ((name, r) # rs) =
    (case f (rn_impl r) (rn_Params r) of
       Pan _ \<Rightarrow> Panic
     | Ret (Some er) _ \<Rightarrow> Err er
     | Ret None impl \<Rightarrow> res_bind (each_runner f rs) (\<lambda>rs. Ok ((name, r\<lparr>rn_impl := impl\<rparr>) # rs)))"

definition setParametersToImpl ::
  "('e, 's) RunnerImpl \<Rightarrow> (string, 's Runner) gomap \<Rightarrow> (string, 's Runner) gomap res" where
  "setParametersToImpl ops runners = each_runner (\<lambda>impl params. ri_SetParams ops params impl) runners"

definition setupImpl :: "('e, 's) RunnerImpl \<Rightarrow> 'e \<Rightarrow> (string, 's Runner) gomap \<Rightarrow> (string, 's Runner) gomap res" where
  "setupImpl ops e runners = each_runner (\<lambda>impl _. ri_Setup ops e impl) runners"

definition setupImplAndAddToRunContext ::
  "('e, 's) RunnerImpl \<Rightarrow> 'e \<Rightarrow> (string \<Rightarrow> actor) \<Rightarrow> (string, 's Runner) gomap \<Rightarrow>
   ((string, 's Runner) gomap \<times> actor list) res" where
  "setupImplAndAddToRunContext ops e addFunc runners =
    res_bind (setupImpl ops e runners) (\<lambda>rs. Ok (rs, map (\<lambda>(name, _). addFunc name) rs))"

definition NewRunContextWithSettingPath ::
  "('e, 's) RunnerImpl \<Rightarrow> 'e \<Rightarrow> string res \<Rightarrow> (string \<Rightarrow> table res) \<Rightarrow> (tval \<Rightarrow> (duration \<times> tval option) res) \<Rightarrow>
   's ImplMaps \<Rightarrow> 's RunContext res" where
  "NewRunContextWithSettingPath ops e file decode runner im =
    res_bind file (\<lambda>tomlString.
    res_bind (decode tomlString) (\<lambda>entries.
    res_bind (parseRunGroupSettings entries im NewRunGroupMaps) (\<lambda>rgm.
    res_bind (decode_maps runner entries rgm) (\<lambda>rgm.
    res_bind (setParametersToImpl ops (rg_PeriodicTasks rgm)) (\<lambda>pt.
    res_bind (setParametersToImpl ops (rg_InternalJobServers rgm)) (\<lambda>ijs.
    res_bind (setParametersToImpl ops (rg_APIServers rgm)) (\<lambda>asm.
    res_bind (setupImplAndAddToRunContext ops e PeriodicActor pt) (\<lambda>(pt, a1).
    res_bind (setupImplAndAddToRunContext ops e JobServerActor ijs) (\<lambda>(ijs, a2).
    res_bind (setupImplAndAddToRunContext ops e APIActor asm) (\<lambda>(asm, a3).
      Ok \<lparr>rc_Group = a1 @ a2 @ a3,
          rc_RunGroupMaps = \<lparr>rg_PeriodicTasks = pt, rg_InternalJobServers = ijs, rg_APIServers = asm\<rparr>\<rparr>))))))))))"

section \<open>The actor of a periodic task\<close>

text \<open>
  The loop of \<open>AddPeriodicTask\<close> on a sequence of events: ticks, each with what the task meets, and the
  cancellation of the context. \<open>NewTicker\<close> and \<open>Reset\<close> panic for a period that is not positive. The
  value returned says whether the actor has ended.
\<close>

record ('e, 's) PeriodicTaskImpl =
  pt_RequirePeriodUpdate :: "'s \<Rightarrow> bool \<times> duration"
  pt_Task :: "'e \<Rightarrow> 's \<Rightarrow> ('s, unit) outcome"
  pt_Cleanup :: "'s \<Rightarrow> 's"

datatype 'e event = Tick 'e | Cancelled

fun periodic_loop :: "('e, 's) PeriodicTaskImpl \<Rightarrow> 'e event list \<Rightarrow> duration \<Rightarrow> 's \<Rightarrow> ('s, bool) outcome" where
  "periodic_loop t [] lastPeriod s = Ret False s"
| "periodic_loop t (Cancelled # es) lastPeriod s = Ret True (pt_Cleanup t s)"
| "periodic_loop t (Tick e # es) lastPeriod s =
    bindP (pt_Task t e s) (\<lambda>_ s.
      let (ok, newPeriod) = pt_RequirePeriodUpdate t s in
      if ok \<and> newPeriod \<noteq> lastPeriod then
        (if newPeriod \<le> 0 then Pan s else periodic_loop t es newPeriod s)
      else periodic_loop t es lastPeriod s)"

definition AddPeriodicTask :: "('e, 's) PeriodicTaskImpl \<Rightarrow> duration \<Rightarrow> 'e \<Rightarrow> 'e event list \<Rightarrow> 's \<Rightarrow> ('s, bool) outcome" where
  "AddPeriodicTask t period e es s =
    (if period \<le> 0 then Pan s else bindP (pt_Task t e s) (\<lambda>_ s. periodic_loop t es period s))"

text \<open>The default implementation, which the version log uses.\<close>

definition DefaultTaskImpl :: "('e, 's) PeriodicTaskImpl" where
  "DefaultTaskImpl =
    \<lparr>pt_RequirePeriodUpdate = (\<lambda>_. (False, 0)), pt_Task = (\<lambda>_. Ret ()), pt_Cleanup = id\<rparr>"

definition DefaultTaskImpl_SetParams :: "tval option \<Rightarrow> 's \<Rightarrow> ('s, error option) outcome" where
  "DefaultTaskImpl_SetParams p s = Ret None s"

definition DefaultTaskImpl_Setup :: "'e \<Rightarrow> 's \<Rightarrow> ('s, error option) outcome" where
  "DefaultTaskImpl_Setup e s = Ret None s"

section \<open>The actors of servers\<close>

text \<open>
  The functions that \<open>AddInternalJobServer\<close> and \<open>AddAPIServer\<close> add to the group. The value returned is \<open>None\<close>
  while the function has not returned, and otherwise the error with which it returns. \<open>cancelled\<close> says whether
  the function that interrupts the actor has been called; interrupting an API server calls its \<open>Shutdown\<close>.
\<close>

record 's InternalJobServerImpl =
  ij_Start :: "'s \<Rightarrow> ('s, error option) outcome"
  ij_Cleanup :: "'s \<Rightarrow> 's"

definition AddInternalJobServer :: "'s InternalJobServerImpl \<Rightarrow> bool \<Rightarrow> 's \<Rightarrow> ('s, error option option) outcome" where
  "AddInternalJobServer impl cancelled s =
    bindP (ij_Start impl s) (\<lambda>err s.
      case err of
        Some er \<Rightarrow> Ret (Some (Some er)) s
      | None \<Rightarrow> if cancelled then Ret (Some None) (ij_Cleanup impl s) else Ret None s)"

text \<open>\<open>Serve\<close> gets what it meets while it serves; \<open>None\<close> says that it goes on serving.\<close>

record ('e, 's) APIServerImpl =
  as_Serve :: "'e \<Rightarrow> 's \<Rightarrow> ('s, error option option) outcome"
  as_Shutdown :: "'s \<Rightarrow> 's"

definition AddAPIServer :: "('e, 's) APIServerImpl \<Rightarrow> 'e \<Rightarrow> 's \<Rightarrow> ('s, error option option) outcome" where
  "AddAPIServer impl e s = bindP (as_Serve impl e s) (\<lambda>err s. Ret err s)"

definition interrupt_APIServer :: "('e, 's) APIServerImpl \<Rightarrow> 's \<Rightarrow> 's" where
  "interrupt_APIServer impl s = as_Shutdown impl s"

text \<open>The type assertion of \<open>SetImpl\<close> is an argument.\<close>

definition InternalJobServer_SetImpl :: "('i \<Rightarrow> 's option) \<Rightarrow> ('i \<Rightarrow> string) \<Rightarrow> 'i \<Rightarrow> 's Runner \<Rightarrow> 's Runner \<times> error option" where
  "InternalJobServer_SetImpl cast show_impl impl s =
    (case cast impl of
       None \<Rightarrow> (s, Some (''Failed to cast to InternalJobServerImpl. Impl:'' @ show_impl impl))
     | Some ijs \<Rightarrow> (s\<lparr>rn_impl := ijs\<rparr>, None))"

definition NewServer :: "('s \<Rightarrow> tval option) \<Rightarrow> 's \<Rightarrow> 's Runner" where
  "NewServer GetEmptyParams impl = \<lparr>rn_Period = 0, rn_Params = GetEmptyParams impl, rn_impl = impl\<rparr>"

text \<open>An internal job server is cleaned up exactly when it has started and is cancelled.\<close>

lemma job_server_returns:
  "AddInternalJobServer impl cancelled s = Ret r s' \<longleftrightarrow>
    (\<exists>er. ij_Start impl s = Ret (Some er) s' \<and> r = Some (Some er)) \<or>
    (\<exists>t. ij_Start impl s = Ret None t \<and>
       (if cancelled then r = Some None \<and> s' = ij_Cleanup impl t else r = None \<and> s' = t))"
  by (cases "ij_Start impl s") (auto simp: AddInternalJobServer_def split: option.split)

section \<open>A task that keeps to its contract keeps running\<close>

text \<open>
  What the loop relies on: which events make the task panic, and an invariant of the task that the other
  events keep and under which it asks only for positive periods. Then the actor panics exactly when such
  an event happens before the cancellation, and otherwise ends exactly when it is cancelled.
\<close>

locale periodic_task =
  fixes t :: "('e, 's) PeriodicTaskImpl" and ok :: "'e \<Rightarrow> bool" and inv :: "'s \<Rightarrow> bool"
  assumes task_keeps: "inv s \<Longrightarrow> ok e \<Longrightarrow> \<exists>s'. pt_Task t e s = Ret () s' \<and> inv s'"
    and task_panics: "inv s \<Longrightarrow> \<not> ok e \<Longrightarrow> \<exists>s'. pt_Task t e s = Pan s'"
    and period_pos: "inv s \<Longrightarrow> pt_RequirePeriodUpdate t s = (True, d) \<Longrightarrow> 0 < d"
begin

definition fatal :: "'e event list \<Rightarrow> bool" where
  "fatal es \<longleftrightarrow> (\<exists>e. Tick e \<in> set (takeWhile (\<lambda>ev. ev \<noteq> Cancelled) es) \<and> \<not> ok e)"

lemma fatal_simps [simp]:
  "\<not> fatal []" "\<not> fatal (Cancelled # es)" "fatal (Tick e # es) \<longleftrightarrow> \<not> ok e \<or> fatal es"
  by (auto simp: fatal_def)

lemma loop_runs:
  "inv s \<Longrightarrow> if fatal es then \<exists>s'. periodic_loop t es lastPeriod s = Pan s'
    else \<exists>s'. periodic_loop t es lastPeriod s = Ret (Cancelled \<in> set es) s'"
proof (induction es arbitrary: lastPeriod s)
  case (Cons ev es)
  show ?case
  proof (cases ev)
    case (Tick e)
    show ?thesis
    proof (cases "ok e")
      case True
      then obtain s1 where s1: "pt_Task t e s = Ret () s1" "inv s1"
        using Cons.prems task_keeps [of s e] by auto
      obtain b d where r: "pt_RequirePeriodUpdate t s1 = (b, d)"
        by fastforce
      have "b \<longrightarrow> 0 < d"
        using period_pos [OF s1(2)] r by auto
      then show ?thesis
        using Tick True s1 r Cons.IH [OF s1(2)] by auto
    next
      case False
      then show ?thesis
        using Tick task_panics [OF Cons.prems] by fastforce
    qed
  qed auto
qed auto

lemma actor_runs:
  assumes "inv s" and "0 < period"
  shows "if \<not> ok e \<or> fatal es then \<exists>s'. AddPeriodicTask t period e es s = Pan s'
    else \<exists>s'. AddPeriodicTask t period e es s = Ret (Cancelled \<in> set es) s'"
proof (cases "ok e")
  case True
  then obtain s1 where "pt_Task t e s = Ret () s1" "inv s1"
    using task_keeps [OF assms(1)] by blast
  then show ?thesis
    using True loop_runs [of s1 es period] assms(2) by (simp add: AddPeriodicTask_def)
next
  case False
  then show ?thesis
    using task_panics [OF assms(1)] assms(2) by (fastforce simp: AddPeriodicTask_def)
qed

end

interpretation default_task: periodic_task "DefaultTaskImpl :: ('e, 's) PeriodicTaskImpl" "\<lambda>_. True" "\<lambda>_. True"
  by unfold_locales (simp_all add: DefaultTaskImpl_def)

section \<open>What is started\<close>

lemma parseRunnerSettings_keys:
  assumes "parseRunnerSettings settings implMap m = Ok rs"
  shows "fst ` set rs = fst ` set settings \<union> fst ` set m \<and> fst ` set settings \<subseteq> fst ` set implMap"
  using assms
proof (induction settings implMap m rule: parseRunnerSettings.induct)
  case (2 name v settings implMap m)
  then obtain impl where impl: "map_of implMap name = Some impl"
    by (auto split: option.splits)
  with 2 have "fst ` set rs = fst ` set settings \<union> fst ` set (AList.update name (newRunner impl) m) \<and>
      fst ` set settings \<subseteq> fst ` set implMap"
    by simp
  moreover have "name \<in> fst ` set implMap"
    using map_of_SomeD [OF impl] by force
  ultimately show ?case
    by (simp add: gomap)
qed auto

lemma wf_map_parseRunnerSettings: "parseRunnerSettings settings implMap m = Ok rs \<Longrightarrow> wf_map m \<Longrightarrow> wf_map rs"
  by (induction settings implMap m rule: parseRunnerSettings.induct) (auto simp: gomap split: option.splits)

lemma parse_group_keys:
  "parse_group val implMap = Ok rs \<Longrightarrow> as_table (Some val) \<noteq> None \<and> wf_map rs \<and>
    fst ` set rs = fst ` set (the (as_table (Some val))) \<and> fst ` set rs \<subseteq> fst ` set implMap"
  using parseRunnerSettings_keys [of "the (as_table (Some val))" implMap "[]" rs]
    wf_map_parseRunnerSettings [of "the (as_table (Some val))" implMap "[]" rs]
  by (simp add: parse_group_def split: option.splits)

lemma decode_runners_keys: "decode_runners runner settings rs = Ok rs' \<Longrightarrow> map fst rs' = map fst rs"
  by (induction rs arbitrary: rs') (auto simp: res_simps)

lemma each_runner_keys: "each_runner f rs = Ok rs' \<Longrightarrow> map fst rs' = map fst rs"
  by (induction f rs arbitrary: rs' rule: each_runner.induct)
    (auto simp: res_simps split: outcome.splits option.splits)

definition group_ok :: "table \<Rightarrow> string \<Rightarrow> (string, 's) gomap \<Rightarrow> (string, 's Runner) gomap \<Rightarrow> bool" where
  "group_ok entries grp implMap rs \<longleftrightarrow> wf_map rs \<and> fst ` set rs = fst ` set (group_table entries grp) \<and>
    fst ` set rs \<subseteq> fst ` set implMap"

lemma parse_group_ok:
  "parse_group val implMap = Ok rs \<Longrightarrow> map_of entries grp = Some val \<Longrightarrow> group_ok entries grp implMap rs"
  using parse_group_keys [of val implMap rs] by (force simp: group_ok_def group_table_def)

lemma group_ok_absent: "map_of entries grp = None \<Longrightarrow> group_ok entries grp implMap []"
  by (simp add: group_ok_def group_table_def)

lemma group_ok_keys: "group_ok entries grp implMap rs \<Longrightarrow> map fst rs' = map fst rs \<Longrightarrow> group_ok entries grp implMap rs'"
  unfolding group_ok_def by (metis list.set_map)

lemma parseRunGroupSettings_ok:
  assumes "parseRunGroupSettings settings im rgm = Ok rgm'" and "wf_map settings"
  shows "fst ` set settings \<subseteq> {''periodic_tasks'', ''internal_job_servers'', ''api_servers''} \<and>
    (case map_of settings ''periodic_tasks'' of
       None \<Rightarrow> rg_PeriodicTasks rgm' = rg_PeriodicTasks rgm
     | Some v \<Rightarrow> parse_group v (im_PeriodicTaskImplMap im) = Ok (rg_PeriodicTasks rgm')) \<and>
    (case map_of settings ''internal_job_servers'' of
       None \<Rightarrow> rg_InternalJobServers rgm' = rg_InternalJobServers rgm
     | Some v \<Rightarrow> parse_group v (im_InternalJobServerImplMap im) = Ok (rg_InternalJobServers rgm')) \<and>
    (case map_of settings ''api_servers'' of
       None \<Rightarrow> rg_APIServers rgm' = rg_APIServers rgm
     | Some v \<Rightarrow> parse_group v (im_APIServerImplMap im) = Ok (rg_APIServers rgm'))"
  using assms
proof (induction settings im rgm rule: parseRunGroupSettings.induct)
  case (2 grp val settings im rgm)
  have new: "map_of settings grp = None"
    using "2.prems"(2) by (simp add: map_of_eq_None_iff)
  consider "grp = ''periodic_tasks''" | "grp = ''internal_job_servers''" | "grp = ''api_servers''"
    using "2.prems"(1) by (auto split: if_splits)
  then show ?case
  proof cases
    case 1
    with "2.prems" "2.IH"(1) new show ?thesis
      by (auto simp: res_simps split: option.splits)
  next
    case 2
    with "2.prems" "2.IH"(2) new show ?thesis
      by (auto simp: res_simps split: option.splits)
  next
    case 3
    with "2.prems" "2.IH"(3) new show ?thesis
      by (auto simp: res_simps split: option.splits)
  qed
qed simp

lemma parseRunGroupSettings_groups:
  assumes "parseRunGroupSettings entries im NewRunGroupMaps = Ok rgm" and "wf_map entries"
  shows "group_ok entries ''periodic_tasks'' (im_PeriodicTaskImplMap im) (rg_PeriodicTasks rgm)"
    and "group_ok entries ''internal_job_servers'' (im_InternalJobServerImplMap im) (rg_InternalJobServers rgm)"
    and "group_ok entries ''api_servers'' (im_APIServerImplMap im) (rg_APIServers rgm)"
  using parseRunGroupSettings_ok [OF assms]
  by (auto simp: NewRunGroupMaps_def intro: parse_group_ok group_ok_absent split: option.splits)

text \<open>
  A run context is built only when every runner that the setting file names has an implementation
  in the program; then the group has one actor for each of them and no others. With an unknown group
  or runner nothing is started.
\<close>

lemma NewRunContext_configured:
  assumes "NewRunContextWithSettingPath ops e (Ok s) decode runner im = Ok rc" and "decode s = Ok entries" and "wf_map entries"
  shows "distinct (rc_Group rc) \<and>
    (\<forall>n. (PeriodicActor n \<in> set (rc_Group rc)) = (n \<in> fst ` set (group_table entries ''periodic_tasks''))) \<and>
    (\<forall>n. (JobServerActor n \<in> set (rc_Group rc)) = (n \<in> fst ` set (group_table entries ''internal_job_servers''))) \<and>
    (\<forall>n. (APIActor n \<in> set (rc_Group rc)) = (n \<in> fst ` set (group_table entries ''api_servers''))) \<and>
    fst ` set entries \<subseteq> {''periodic_tasks'', ''internal_job_servers'', ''api_servers''} \<and>
    fst ` set (group_table entries ''periodic_tasks'') \<subseteq> fst ` set (im_PeriodicTaskImplMap im) \<and>
    fst ` set (group_table entries ''internal_job_servers'') \<subseteq> fst ` set (im_InternalJobServerImplMap im) \<and>
    fst ` set (group_table entries ''api_servers'') \<subseteq> fst ` set (im_APIServerImplMap im)"
proof -
  from assms(1,2) obtain rgm pt0 ijs0 asm0 pt1 ijs1 asm1 pt ijs asm where
    p: "parseRunGroupSettings entries im NewRunGroupMaps = Ok rgm" and
    d: "decode_runners runner (group_table entries ''periodic_tasks'') (rg_PeriodicTasks rgm) = Ok pt0"
      "decode_runners runner (group_table entries ''internal_job_servers'') (rg_InternalJobServers rgm) = Ok ijs0"
      "decode_runners runner (group_table entries ''api_servers'') (rg_APIServers rgm) = Ok asm0" and
    q: "setParametersToImpl ops pt0 = Ok pt1" "setParametersToImpl ops ijs0 = Ok ijs1" "setParametersToImpl ops asm0 = Ok asm1" and
    u: "setupImpl ops e pt1 = Ok pt" "setupImpl ops e ijs1 = Ok ijs" "setupImpl ops e asm1 = Ok asm" and
    rc: "rc_Group rc = map (\<lambda>(n, _). PeriodicActor n) pt @ map (\<lambda>(n, _). JobServerActor n) ijs @ map (\<lambda>(n, _). APIActor n) asm"
    by (auto simp: NewRunContextWithSettingPath_def setupImplAndAddToRunContext_def decode_maps_def res_simps)
  have keys: "map fst pt = map fst (rg_PeriodicTasks rgm)" "map fst ijs = map fst (rg_InternalJobServers rgm)"
    "map fst asm = map fst (rg_APIServers rgm)"
    using decode_runners_keys [OF d(1)] decode_runners_keys [OF d(2)] decode_runners_keys [OF d(3)] q u
    by (auto simp: setParametersToImpl_def setupImpl_def dest!: each_runner_keys)
  note g = parseRunGroupSettings_groups [OF p assms(3)]
  have ok: "group_ok entries ''periodic_tasks'' (im_PeriodicTaskImplMap im) pt"
    "group_ok entries ''internal_job_servers'' (im_InternalJobServerImplMap im) ijs"
    "group_ok entries ''api_servers'' (im_APIServerImplMap im) asm"
    by (rule group_ok_keys [OF g(1) keys(1)] group_ok_keys [OF g(2) keys(2)] group_ok_keys [OF g(3) keys(3)])+
  have dist: "wf_map m \<Longrightarrow> inj f \<Longrightarrow> distinct (map (\<lambda>(n, _). f n) m)" for f :: "string \<Rightarrow> actor" and m :: "(string, 'a Runner) gomap"
    by (induction m) (force dest: injD)+
  have mem: "f n \<in> set (map (\<lambda>(n, _). f n) m) \<longleftrightarrow> n \<in> fst ` set m" if "inj f" for f :: "string \<Rightarrow> actor" and n and m :: "(string, 'a Runner) gomap"
    using that by (force dest: injD)
  have inj: "inj PeriodicActor" "inj JobServerActor" "inj APIActor"
    by (auto intro: injI)
  have sub: "fst ` set entries \<subseteq> {''periodic_tasks'', ''internal_job_servers'', ''api_servers''}"
    using parseRunGroupSettings_ok [OF p assms(3)] by blast
  have "distinct (rc_Group rc)"
    using dist [OF _ inj(1), of pt] dist [OF _ inj(2), of ijs] dist [OF _ inj(3), of asm] ok
    by (auto simp: rc group_ok_def)
  moreover have "(PeriodicActor n \<in> set (rc_Group rc)) = (n \<in> fst ` set pt)"
    "(JobServerActor n \<in> set (rc_Group rc)) = (n \<in> fst ` set ijs)"
    "(APIActor n \<in> set (rc_Group rc)) = (n \<in> fst ` set asm)" for n
    using mem [OF inj(1), of n pt] mem [OF inj(2), of n ijs] mem [OF inj(3), of n asm] by (auto simp: rc)
  ultimately show ?thesis
    using ok sub unfolding group_ok_def by (metis (no_types))
qed

end
