(* ===== verification/Poller.thy ===== *)
theory Poller
  imports Service_DB Run_Group
begin

text \<open>
  \<open>coreapp/poller/poller.go\<close> and \<open>awspollclient.go\<close>: the periodic task that gets submitted jobs from the
  provider's API and hands them to the scheduler.

  \<open>poll_env\<close> holds what one poll meets: the device information, the answer of the API, the environment
  in which jobs are created. The scheduler is the system of \<open>Scheduler\<close>; handing a job over is
  \<open>HandleJob\<close>. \<open>time.ParseDuration\<close> (which computes with floating-point numbers) is an argument. A Go
  \<open>int\<close> in a parameter never matches a TOML integer, which is an \<open>int64\<close>.
\<close>

section \<open>The poller and its parameters\<close>

datatype state = POLLING | SUB_IDLE | IDLE

fun state_String :: "state \<Rightarrow> string" where
  "state_String POLLING = ''POLLING''"
| "state_String SUB_IDLE = ''SUB_IDLE''"
| "state_String IDLE = ''IDLE''"

record awsPollClient =
  pc_count :: int
  pc_endpoint :: string
  pc_edgeName :: string
  pc_deviceName :: string

record Poller =
  pl_Device :: string
  pl_Edge :: string
  pl_Count :: int
  pl_NormalPeriod :: duration
  pl_IdlePeriod :: duration
  pl_MaxRetry :: int
  pl_Region :: string
  pl_Endpoint :: string
  pl_AccessKey :: string
  pl_SecretKey :: string
  pl_SessionToken :: string
  pl_APIKey :: string
  pl_EnableTestMode :: bool
  pl_pollClient :: "awsPollClient option"
  pl_currentPeriod :: duration
  pl_noJobsCount :: int
  pl_state :: state

definition empty_Poller :: Poller where
  "empty_Poller =
    \<lparr>pl_Device = [], pl_Edge = [], pl_Count = 0, pl_NormalPeriod = 0, pl_IdlePeriod = 0, pl_MaxRetry = 0,
     pl_Region = [], pl_Endpoint = [], pl_AccessKey = [], pl_SecretKey = [], pl_SessionToken = [], pl_APIKey = [],
     pl_EnableTestMode = False, pl_pollClient = None, pl_currentPeriod = 0, pl_noJobsCount = 0, pl_state = POLLING\<rparr>"

text \<open>\<open>reflect.Value.IsZero\<close>: a decoded array or table is never nil.\<close>

fun IsZero :: "tval \<Rightarrow> bool" where
  "IsZero (TString s) = (s = [])"
| "IsZero (TInt n) = (n = 0)"
| "IsZero (TBool b) = (\<not> b)"
| "IsZero (TFloat w) = (w = 0)"
| "IsZero _ = False"

fun as_bool :: "tval option \<Rightarrow> bool option" where
  "as_bool (Some (TBool b)) = Some b"
| "as_bool _ = None"

definition as_int :: "tval option \<Rightarrow> int option" where
  "as_int v = None"

definition setField ::
  "(tval option \<Rightarrow> 'v option) \<Rightarrow> string \<Rightarrow> ('v \<Rightarrow> Poller \<Rightarrow> Poller) \<Rightarrow> table \<Rightarrow> 'v \<Rightarrow> Poller \<Rightarrow> (Poller, unit) outcome" where
  "setField as_T key target pp defaultVal p =
    (case map_of pp key of
       Some v \<Rightarrow>
         if \<not> IsZero v then bindP (derefP (as_T (Some v)) p) (\<lambda>v p. Ret () (target v p))
         else Ret () (target defaultVal p)
     | None \<Rightarrow> Ret () (target defaultVal p))"

text \<open>A duration that cannot be parsed is logged and zero.\<close>

definition setDurationField ::
  "(string \<Rightarrow> duration res) \<Rightarrow> string \<Rightarrow> (duration \<Rightarrow> Poller \<Rightarrow> Poller) \<Rightarrow> table \<Rightarrow> duration \<Rightarrow> Poller \<Rightarrow> (Poller, unit) outcome" where
  "setDurationField ParseDuration key target pp defaultVal p =
    (case map_of pp key of
       Some v \<Rightarrow>
         if \<not> IsZero v then
           bindP (derefP (as_string (Some v)) p) (\<lambda>s p.
             Ret () (target (case ParseDuration s of Ok dur \<Rightarrow> dur | _ \<Rightarrow> 0) p))
         else Ret () (target defaultVal p)
     | None \<Rightarrow> Ret () (target defaultVal p))"

definition DEFAULT_PERIOD :: duration where
  "DEFAULT_PERIOD = 10 * 1000000000"

definition Poller_SetParams ::
  "(string \<Rightarrow> duration res) \<Rightarrow> tval option \<Rightarrow> Poller \<Rightarrow> (Poller, error option) outcome" where
  "Poller_SetParams ParseDuration params p =
    (case params of
       None \<Rightarrow> Ret None p
     | Some v \<Rightarrow>
         (case as_table (Some v) of
            None \<Rightarrow> Ret (Some ''failed to set params for poller'') p
          | Some pp \<Rightarrow>
              bindP (setField as_string ''device'' (\<lambda>v p. p\<lparr>pl_Device := v\<rparr>) pp ''dummy_device'' p) (\<lambda>_ p.
              bindP (setField as_string ''edge'' (\<lambda>v p. p\<lparr>pl_Edge := v\<rparr>) pp ''dummy_edge'' p) (\<lambda>_ p.
              bindP (setField as_int ''count'' (\<lambda>v p. p\<lparr>pl_Count := v\<rparr>) pp 10 p) (\<lambda>_ p.
              bindP (setField as_int ''max_retry'' (\<lambda>v p. p\<lparr>pl_MaxRetry := v\<rparr>) pp 3 p) (\<lambda>_ p.
              bindP (setField as_string ''region'' (\<lambda>v p. p\<lparr>pl_Region := v\<rparr>) pp ''ap-northeast-1'' p) (\<lambda>_ p.
              bindP (setField as_string ''endpoint'' (\<lambda>v p. p\<lparr>pl_Endpoint := v\<rparr>) pp ''localhost:8080'' p) (\<lambda>_ p.
              bindP (setField as_string ''access_key'' (\<lambda>v p. p\<lparr>pl_AccessKey := v\<rparr>) pp ''hogehoge'' p) (\<lambda>_ p.
              bindP (setField as_string ''secret_key'' (\<lambda>v p. p\<lparr>pl_SecretKey := v\<rparr>) pp ''fugafuga'' p) (\<lambda>_ p.
              bindP (setField as_string ''api_key'' (\<lambda>v p. p\<lparr>pl_APIKey := v\<rparr>) pp ''DefaultAPIKey'' p) (\<lambda>_ p.
              bindP (setField as_string ''session_token'' (\<lambda>v p. p\<lparr>pl_SessionToken := v\<rparr>) pp [] p) (\<lambda>_ p.
              bindP (setField as_bool ''enable_test_mode'' (\<lambda>v p. p\<lparr>pl_EnableTestMode := v\<rparr>) pp False p) (\<lambda>_ p.
              bindP (setDurationField ParseDuration ''normal_period'' (\<lambda>v p. p\<lparr>pl_NormalPeriod := v\<rparr>) pp DEFAULT_PERIOD p) (\<lambda>_ p.
              bindP (setDurationField ParseDuration ''idle_period'' (\<lambda>v p. p\<lparr>pl_IdlePeriod := v\<rparr>) pp DEFAULT_PERIOD p) (\<lambda>_ p.
                Ret None p)))))))))))))))"

definition newAWSPollClient :: "(string \<Rightarrow> error option) \<Rightarrow> Poller \<Rightarrow> awsPollClient res" where
  "newAWSPollClient NewClient p =
    (case NewClient (pl_Endpoint p) of
       Some er \<Rightarrow> Err er
     | None \<Rightarrow> Ok \<lparr>pc_count = pl_Count p, pc_endpoint = pl_Endpoint p, pc_edgeName = pl_Edge p, pc_deviceName = pl_Device p\<rparr>)"

definition Poller_Setup :: "(string \<Rightarrow> error option) \<Rightarrow> Poller \<Rightarrow> (Poller, error option) outcome" where
  "Poller_Setup NewClient p =
    (case newAWSPollClient NewClient p of
       Err er \<Rightarrow> Ret (Some er) p
     | Panic \<Rightarrow> Pan p
     | Ok c \<Rightarrow> Ret None (p\<lparr>pl_pollClient := Some c, pl_currentPeriod := pl_NormalPeriod p, pl_noJobsCount := 0,
                         pl_state := POLLING\<rparr>))"

definition RequirePeriodUpdate :: "Poller \<Rightarrow> bool \<times> duration" where
  "RequirePeriodUpdate p = (True, pl_currentPeriod p)"

section \<open>Getting jobs\<close>

datatype GetJobsRes = GetJobsOKApplicationJSON "JobsJobDef list" | OtherRes string

record 'a poll_env =
  po_GetJobs :: "string \<Rightarrow> int \<Rightarrow> JobsJobStatus \<Rightarrow> GetJobsRes res"
  po_DeviceInfo :: DeviceInfo
  po_JobContext :: "error option"
  po_jobs :: "'a sse_env_scheme"
  po_manager :: JobManager
  po_fmt :: "string \<Rightarrow> string option"
  po_marshal_operator :: "(string \<times> string option) list \<Rightarrow> string res"

definition passPollingCondition :: "('q, nat) FIFO \<Rightarrow> ('q, 'j) sched \<Rightarrow> DeviceInfo \<Rightarrow> error option" where
  "passPollingCondition fq s di =
    (if NormalScheduler_IsOverRefillThreshold fq s then
       Some (''queue size is over refill-threshold. current queue size:'' @ nat_str (NormalScheduler_GetCurrentQueueSize fq s))
     else if di_Status di = Available then None
     else Some (''device is not available. current status:'' @ DeviceStatus_String (di_Status di)))"

text \<open>
  \<open>toJobSlice\<close>: the \<open>break\<close> for an unknown job type leaves the \<open>switch\<close> only, and the errors are those of
  inner variables, so that the function itself never returns one.
\<close>

definition set_job_type :: "JobsJobDef \<Rightarrow> JobData \<Rightarrow> JobData" where
  "set_job_type cJob jd =
    (case df_JobType cJob of
       OtherT _ \<Rightarrow> jd
     | _ \<Rightarrow> jd\<lparr>jd_JobType := job_type_of (df_JobType cJob)\<rparr>)"

definition unknown_type :: "JobsJobDef \<Rightarrow> bool" where
  "unknown_type cJob = (case df_JobType cJob of OtherT _ \<Rightarrow> True | _ \<Rightarrow> False)"

definition slice_job :: "'a poll_env \<Rightarrow> JobData \<Rightarrow> Job res" where
  "slice_job e jd =
    (case NewJobFromJobDataWithValidation (po_jobs e) (po_manager e) jd of
       Ok newJob \<Rightarrow> Ok newJob
     | Panic \<Rightarrow> Panic
     | Err er \<Rightarrow>
         (case SetFailureWithErrorToJobData (ev_now (po_jobs e)) er (default_type jd) of
            Ret _ jd \<Rightarrow> Ok (Unknown (UnknownJob_New jd))
          | Pan _ \<Rightarrow> Panic))"

fun toJobSlice_loop :: "'a poll_env \<Rightarrow> JobsJobDef list \<Rightarrow> Job list \<Rightarrow> Job list res" where
  "toJobSlice_loop e [] jobs = Ok jobs"
| "toJobSlice_loop e (cJob # jobDefs) jobs =
    res_bind (ConvertFromCloudJob (po_fmt e) (po_marshal_operator e) (ev_now (po_jobs e)) cJob) (\<lambda>jd.
      case po_JobContext e of
        Some _ \<Rightarrow> Ok []
      | None \<Rightarrow>
          res_bind (slice_job e (set_job_type cJob jd)) (\<lambda>newJob.
            toJobSlice_loop e jobDefs ((if unknown_type cJob then [] else jobs) @ [newJob])))"

definition toJobSlice :: "'a poll_env \<Rightarrow> JobsJobDef list \<Rightarrow> Job list res" where
  "toJobSlice e jobDefs = toJobSlice_loop e jobDefs []"

definition request :: "'a poll_env \<Rightarrow> awsPollClient \<Rightarrow> Job list res" where
  "request e c =
    (case po_GetJobs e (pc_deviceName c) (pc_count c) SubmittedS of
       Err er \<Rightarrow> Err (''failed to get jobs/reason:'' @ er)
     | Panic \<Rightarrow> Panic
     | Ok (GetJobsOKApplicationJSON res) \<Rightarrow> toJobSlice e res
     | Ok (OtherRes ty) \<Rightarrow> Err (''unexpected response type '' @ ty))"

text \<open>The jobs got are handed to the scheduler one after the other.\<close>

definition getJobs :: "('q, nat) FIFO \<Rightarrow> 'a poll_env \<Rightarrow> Poller \<Rightarrow> ('q, Job) sched \<Rightarrow> ('q, Job) sched \<times> nat res" where
  "getJobs fq e p s =
    (case passPollingCondition fq s (po_DeviceInfo e) of
       Some er \<Rightarrow> (s, Err er)
     | None \<Rightarrow>
         (case pl_pollClient p of
            None \<Rightarrow> (s, Panic)
          | Some c \<Rightarrow>
              (case request e c of
                 Ok jobs \<Rightarrow> (fold HandleJob jobs s, Ok (length jobs))
               | Err er \<Rightarrow> (s, Err er)
               | Panic \<Rightarrow> (s, Panic))))"

section \<open>The task\<close>

definition updateState :: "state \<Rightarrow> Poller \<Rightarrow> Poller" where
  "updateState newState p = p\<lparr>pl_state := newState\<rparr>"

text \<open>The task, given what \<open>getJobs\<close> returned.\<close>

definition no_jobs :: "nat res \<Rightarrow> bool" where
  "no_jobs got = (case got of Ok n \<Rightarrow> n = 0 | _ \<Rightarrow> True)"

definition after_getJobs :: "nat res \<Rightarrow> Poller \<Rightarrow> Poller" where
  "after_getJobs got p =
    (if no_jobs got then
       (case pl_state p of
          POLLING \<Rightarrow> updateState SUB_IDLE (p\<lparr>pl_noJobsCount := 1\<rparr>)
        | SUB_IDLE \<Rightarrow>
            (let p = p\<lparr>pl_noJobsCount := pl_noJobsCount p + 1\<rparr> in
             if pl_noJobsCount p < pl_MaxRetry p then p
             else (updateState IDLE (p\<lparr>pl_noJobsCount := 0\<rparr>))\<lparr>pl_currentPeriod := pl_IdlePeriod p\<rparr>)
        | IDLE \<Rightarrow> p)
     else
       (case pl_state p of
          POLLING \<Rightarrow> p
        | SUB_IDLE \<Rightarrow> (updateState POLLING p)\<lparr>pl_noJobsCount := 0\<rparr>
        | IDLE \<Rightarrow> (updateState POLLING (p\<lparr>pl_currentPeriod := pl_NormalPeriod p\<rparr>))\<lparr>pl_noJobsCount := 0\<rparr>))"

definition Poller_Task :: "nat res \<Rightarrow> Poller \<Rightarrow> (Poller, unit) outcome" where
  "Poller_Task got p = (case got of Panic \<Rightarrow> Pan p | _ \<Rightarrow> Ret () (after_getJobs got p))"

definition Poller_poll :: "('q, nat) FIFO \<Rightarrow> 'a poll_env \<Rightarrow> Poller \<Rightarrow> ('q, Job) sched \<Rightarrow> ('q, Job) sched \<times> (Poller, unit) outcome" where
  "Poller_poll fq e p s = (case getJobs fq e p s of (s', got) \<Rightarrow> (s', Poller_Task got p))"

definition poller_task :: "(nat res, Poller) PeriodicTaskImpl" where
  "poller_task = \<lparr>pt_RequirePeriodUpdate = RequirePeriodUpdate, pt_Task = Poller_Task, pt_Cleanup = id\<rparr>"

definition poller_impl :: "(string \<Rightarrow> duration res) \<Rightarrow> (string \<Rightarrow> error option, Poller) RunnerImpl" where
  "poller_impl ParseDuration = \<lparr>ri_SetParams = Poller_SetParams ParseDuration, ri_Setup = Poller_Setup\<rparr>"

section \<open>The states of the poller\<close>

text \<open>The period belongs to the state, and the count of empty polls is bounded.\<close>

definition poller_inv :: "Poller \<Rightarrow> bool" where
  "poller_inv p \<longleftrightarrow>
    pl_currentPeriod p = (if pl_state p = IDLE then pl_IdlePeriod p else pl_NormalPeriod p) \<and>
    (if pl_state p = SUB_IDLE then 1 \<le> pl_noJobsCount p \<and> pl_noJobsCount p < max 2 (pl_MaxRetry p)
     else pl_noJobsCount p = 0)"

lemma after_getJobs_params [simp]:
  "pl_NormalPeriod (after_getJobs got p) = pl_NormalPeriod p" "pl_IdlePeriod (after_getJobs got p) = pl_IdlePeriod p"
  "pl_MaxRetry (after_getJobs got p) = pl_MaxRetry p"
  by (simp_all add: after_getJobs_def updateState_def Let_def split: state.split)

lemma poller_inv_Setup: "Poller_Setup NewClient p = Ret None p' \<Longrightarrow> poller_inv p'"
  by (auto simp: Poller_Setup_def poller_inv_def newAWSPollClient_def split: option.splits)

lemma poller_inv_step: "poller_inv p \<Longrightarrow> poller_inv (after_getJobs got p)"
  by (auto simp: poller_inv_def after_getJobs_def updateState_def Let_def split: state.splits)

lemma poller_inv_fold: "poller_inv p \<Longrightarrow> poller_inv (fold after_getJobs gots p)"
  by (induction gots arbitrary: p) (simp_all add: poller_inv_step)

lemma fold_after_params [simp]:
  "pl_NormalPeriod (fold after_getJobs gots p) = pl_NormalPeriod p" "pl_IdlePeriod (fold after_getJobs gots p) = pl_IdlePeriod p"
  "pl_MaxRetry (fold after_getJobs gots p) = pl_MaxRetry p"
  by (induction gots arbitrary: p) simp_all

interpretation poller: periodic_task poller_task "\<lambda>got. got \<noteq> Panic"
  "\<lambda>p. poller_inv p \<and> 0 < pl_NormalPeriod p \<and> 0 < pl_IdlePeriod p"
proof (unfold_locales, goal_cases)
  case (1 p got)
  then show ?case
    by (cases got) (simp_all add: poller_task_def Poller_Task_def poller_inv_step)
next
  case (2 p got)
  then show ?case
    by (simp add: poller_task_def Poller_Task_def)
next
  case (3 p d)
  then show ?case
    by (auto simp: poller_task_def RequirePeriodUpdate_def poller_inv_def split: if_splits)
qed

text \<open>What a sequence of polls without jobs leads to, from the state after \<open>Setup\<close>.\<close>

lemma idle_stays: "pl_state p = IDLE \<Longrightarrow> list_all no_jobs gots \<Longrightarrow> fold after_getJobs gots p = p"
  by (induction gots) (simp_all add: after_getJobs_def)

lemma sub_idle_counts:
  assumes "pl_state p = SUB_IDLE" and "list_all no_jobs gots" and "poller_inv p"
  shows "(let n = pl_noJobsCount p + int (length gots); p' = fold after_getJobs gots p in
    if n < max 2 (pl_MaxRetry p) then pl_state p' = SUB_IDLE \<and> pl_noJobsCount p' = n
    else pl_state p' = IDLE)"
  using assms
proof (induction gots arbitrary: p)
  case (Cons got gots)
  define p1 where "p1 = after_getJobs got p"
  have inv: "poller_inv p1"
    using Cons.prems(3) by (simp add: p1_def poller_inv_step)
  show ?case
  proof (cases "pl_noJobsCount p + 1 < pl_MaxRetry p")
    case True
    then have p1: "pl_state p1 = SUB_IDLE" "pl_noJobsCount p1 = pl_noJobsCount p + 1" "pl_MaxRetry p1 = pl_MaxRetry p"
      using Cons.prems by (simp_all add: p1_def after_getJobs_def Let_def)
    then show ?thesis
      using Cons.IH [OF p1(1) _ inv] Cons.prems(2) by (simp add: Let_def algebra_simps flip: p1_def)
  next
    case False
    then have "pl_state p1 = IDLE"
      using Cons.prems by (simp add: p1_def after_getJobs_def updateState_def Let_def)
    then show ?thesis
      using idle_stays [of p1 gots] Cons.prems False
      by (auto simp: Let_def poller_inv_def simp flip: p1_def)
  qed
qed (auto simp: poller_inv_def Let_def)

lemma idle_from_polling:
  assumes "pl_state q = POLLING" and "poller_inv q" and "list_all no_jobs idle"
  shows "pl_state (fold after_getJobs idle q) =
    (if idle = [] then POLLING else if int (length idle) < max 2 (pl_MaxRetry q) then SUB_IDLE else IDLE)"
proof (cases idle)
  case (Cons got rest)
  let ?q1 = "after_getJobs got q"
  have q1: "pl_state ?q1 = SUB_IDLE" "pl_noJobsCount ?q1 = 1"
    using assms Cons by (simp_all add: after_getJobs_def updateState_def)
  show ?thesis
    using sub_idle_counts [OF q1(1), of rest] poller_inv_step [OF assms(2), of got] q1 assms(3) Cons
    by (auto simp: Let_def split: if_splits)
qed (simp add: assms)

lemma jobs_to_polling:
  "\<not> no_jobs got \<Longrightarrow> pl_state (after_getJobs got p) = POLLING"
  by (auto simp: after_getJobs_def updateState_def split: state.split)

text \<open>
  C26: After any history of polls since \<open>Setup\<close>, whether or not a poll has got jobs so far, the state
  depends only on the number \<open>n\<close> of polls without jobs since the last poll that got some, or since
  \<open>Setup\<close> if there was none: \<open>POLLING\<close> for \<open>n = 0\<close>, \<open>IDLE\<close> when \<open>n\<close> is at least two and at least
  \<open>max_retry\<close>, and \<open>SUB_IDLE\<close> between. The poller polls with the idle period exactly in the state \<open>IDLE\<close>,
  and with the normal period otherwise.
\<close>

theorem Poller_backoff:
  assumes "Poller_Setup NewClient p0 = Ret None p"
  shows "let q = fold after_getJobs gots p; n = length (takeWhile no_jobs (rev gots)) in
    pl_state q = (if n = 0 then POLLING else if int n < max 2 (pl_MaxRetry p0) then SUB_IDLE else IDLE) \<and>
    pl_currentPeriod q = (if pl_state q = IDLE then pl_IdlePeriod p0 else pl_NormalPeriod p0)"
proof -
  let ?after = "\<lambda>gots. fold after_getJobs gots p"
  have p: "pl_state p = POLLING" "pl_MaxRetry p = pl_MaxRetry p0" "pl_IdlePeriod p = pl_IdlePeriod p0"
    "pl_NormalPeriod p = pl_NormalPeriod p0"
    using assms by (auto simp: Poller_Setup_def newAWSPollClient_def split: option.splits)
  have inv: "poller_inv (?after gots)" for gots
    by (rule poller_inv_fold [OF poller_inv_Setup [OF assms]])
  define idle where "idle = rev (takeWhile no_jobs (rev gots))"
  define before where "before = rev (dropWhile no_jobs (rev gots))"
  have gots: "gots = before @ idle"
    by (simp add: idle_def before_def flip: rev_append)
  have idle: "list_all no_jobs idle"
    by (auto simp: idle_def list_all_iff dest: set_takeWhileD)
  have "pl_state (?after before) = POLLING"
  proof (cases before rule: rev_cases)
    case (snoc bs got)
    then have "dropWhile no_jobs (rev gots) = got # rev bs"
      by (simp add: before_def rev_swap)
    then have "\<not> no_jobs got"
      by (simp add: dropWhile_eq_Cons_conv)
    then show ?thesis
      using snoc by (simp add: jobs_to_polling)
  qed (simp add: p)
  from idle_from_polling [OF this inv idle] have
    "pl_state (?after gots) = (if idle = [] then POLLING else if int (length idle) < max 2 (pl_MaxRetry p) then SUB_IDLE else IDLE)"
    by (simp add: gots)
  moreover have "pl_currentPeriod (?after gots) = (if pl_state (?after gots) = IDLE then pl_IdlePeriod p else pl_NormalPeriod p)"
    using inv [of gots] unfolding poller_inv_def fold_after_params by blast
  ultimately show ?thesis
    by (simp add: Let_def p idle_def)
qed

definition example_poller :: Poller where
  "example_poller = empty_Poller\<lparr>pl_NormalPeriod := 5, pl_IdlePeriod := 50, pl_MaxRetry := 3\<rparr>"

theorem Poller_backoff_witness:
  "\<exists>p. Poller_Setup (\<lambda>_. None) example_poller = Ret None p \<and>
    pl_state (fold after_getJobs [Err ''down'', Ok 0] p) = SUB_IDLE \<and>
    pl_currentPeriod (fold after_getJobs [Err ''down'', Ok 2, Ok 0, Ok 0, Err ''down''] p) = 50"
proof -
  obtain p where p: "Poller_Setup (\<lambda>_. None) example_poller = Ret None p"
    by (simp add: Poller_Setup_def newAWSPollClient_def)
  show ?thesis
    using Poller_backoff [OF p, of "[Err ''down'', Ok 0]"]
      Poller_backoff [OF p, of "[Err ''down'', Ok 2, Ok 0, Ok 0, Err ''down'']"] p
    by (simp add: Let_def no_jobs_def example_poller_def)
qed

text \<open>
  C27: The actor of a poller with positive periods ends in exactly two ways: it panics, which ends the
  engine, exactly when the first poll or a poll before the cancellation panics; otherwise it runs until
  it is cancelled, whatever the polls return.
\<close>

theorem poller_actor_runs:
  assumes "Poller_Setup NewClient p0 = Ret None p" and "0 < pl_NormalPeriod p0" and "0 < pl_IdlePeriod p0"
    and "0 < period"
  shows "if first = Panic \<or> Tick Panic \<in> set (takeWhile (\<lambda>ev. ev \<noteq> Cancelled) events)
    then \<exists>p'. AddPeriodicTask poller_task period first events p = Pan p'
    else \<exists>p'. AddPeriodicTask poller_task period first events p = Ret (Cancelled \<in> set events) p'"
proof -
  have "poller_inv p \<and> 0 < pl_NormalPeriod p \<and> 0 < pl_IdlePeriod p"
    using poller_inv_Setup [OF assms(1)] assms(1-3)
    by (auto simp: Poller_Setup_def newAWSPollClient_def split: option.splits)
  from poller.actor_runs [OF this assms(4), of first events] show ?thesis
    by (simp add: poller.fatal_def)
qed

theorem poller_actor_runs_witness:
  "\<exists>p p' p''. Poller_Setup (\<lambda>_. None) example_poller = Ret None p \<and>
    AddPeriodicTask poller_task 10 (Ok 0) [Tick (Ok 0), Tick (Err ''down''), Cancelled, Tick Panic] p = Ret True p' \<and>
    AddPeriodicTask poller_task 10 (Ok 0) [Tick (Ok 0), Tick Panic, Cancelled] p = Pan p''"
proof -
  obtain p where p: "Poller_Setup (\<lambda>_. None) example_poller = Ret None p"
    by (simp add: Poller_Setup_def newAWSPollClient_def)
  have "\<exists>p'. AddPeriodicTask poller_task 10 (Ok 0) [Tick (Ok 0), Tick (Err ''down''), Cancelled, Tick Panic] p = Ret True p'"
    "\<exists>p'. AddPeriodicTask poller_task 10 (Ok 0) [Tick (Ok 0), Tick Panic, Cancelled] p = Pan p'"
    using poller_actor_runs [OF p, of 10 "Ok 0" "[Tick (Ok 0), Tick (Err ''down''), Cancelled, Tick Panic]"]
      poller_actor_runs [OF p, of 10 "Ok 0" "[Tick (Ok 0), Tick Panic, Cancelled]"]
    by (simp_all add: example_poller_def)
  then show ?thesis
    using p by blast
qed

text \<open>Without parameters the periods are zero and the first change of the period panics.\<close>

lemma no_params_panics:
  "\<exists>p p'. Poller_SetParams pd None empty_Poller = Ret None empty_Poller \<and>
    Poller_Setup (\<lambda>_. None) empty_Poller = Ret None p \<and>
    AddPeriodicTask poller_task 10 (Ok 0) [Tick (Ok 0)] p = Pan p'"
  by (simp add: Poller_SetParams_def Poller_Setup_def newAWSPollClient_def AddPeriodicTask_def poller_task_def
      Poller_Task_def after_getJobs_def no_jobs_def updateState_def RequirePeriodUpdate_def empty_Poller_def)

text \<open>
  The integer parameters of the poller cannot be set from the setting file: a TOML integer is an
  \<open>int64\<close>, so that the type assertion to \<open>int\<close> fails and \<open>SetParams\<close> panics for every \<open>count\<close> or
  \<open>max_retry\<close> that is not zero.
\<close>

theorem SetParams_int_panics:
  assumes "map_of pp ''count'' = Some (TInt n) \<or> map_of pp ''max_retry'' = Some (TInt n)" and "n \<noteq> 0"
  shows "\<exists>p'. Poller_SetParams ParseDuration (Some (TTable pp)) p = Pan p'"
proof -
  have int: "setField as_int k (target :: int \<Rightarrow> Poller \<Rightarrow> Poller) pp d p = Pan p"
    if "map_of pp k = Some (TInt n)" for k target d p
    using that assms(2) by (simp add: setField_def as_int_def)
  have pan: "\<exists>p'. bindP m f = Pan p'" if "\<And>a s. \<exists>p'. f a s = Pan p'"
    for m :: "(Poller, unit) outcome" and f :: "unit \<Rightarrow> Poller \<Rightarrow> (Poller, error option) outcome"
    using that by (cases m) auto
  from assms(1) show ?thesis
  proof
    assume "map_of pp ''count'' = Some (TInt n)"
    then show ?thesis
      unfolding Poller_SetParams_def by simp (rule pan, rule pan, simp add: int)
  next
    assume "map_of pp ''max_retry'' = Some (TInt n)"
    then show ?thesis
      unfolding Poller_SetParams_def by simp (rule pan, rule pan, rule pan, simp add: int)
  qed
qed

theorem SetParams_int_panics_witness:
  "\<exists>p'. Poller_SetParams (\<lambda>_. Ok 1) (Some (TTable [(''device'', TString ''d''), (''count'', TInt 5)])) empty_Poller = Pan p'"
  by (rule SetParams_int_panics [of _ 5]) simp_all

section \<open>Which jobs a poll hands over\<close>

lemma default_type_simps [simp]:
  "jd_ID (default_type jd) = jd_ID jd" "jd_Status (default_type jd) = jd_Status jd" "jd_Result (default_type jd) = jd_Result jd"
  by (simp_all add: default_type_def)

lemma set_job_type_simps [simp]:
  "jd_ID (set_job_type c jd) = jd_ID jd" "jd_Status (set_job_type c jd) = jd_Status jd"
  "jd_Result (set_job_type c jd) = jd_Result jd"
  by (simp_all add: set_job_type_def split: JobsJobType.split)

lemma slice_job_cases:
  assumes "slice_job e jd = Ok j"
  shows "jd_ID (Job_JobData j) = jd_ID jd \<and>
    (NewJobFromJobDataWithValidation (po_jobs e) (po_manager e) jd = Ok j \<and> jd_Status (Job_JobData j) = jd_Status jd \<or>
     (\<exists>er u. NewJobFromJobDataWithValidation (po_jobs e) (po_manager e) jd = Err er \<and> j = Unknown u \<and>
       jd_Status (Job_JobData j) = FAILED))"
  using assms
  by (auto simp: slice_job_def SetFailure_Ret UnknownJob_New_def dest: NewJobFromJobDataWithValidation_ok
      split: res.splits outcome.splits)

text \<open>The definitions from the last one of an unknown type on; all of them if there is none.\<close>

fun last_batch :: "JobsJobDef list \<Rightarrow> JobsJobDef list" where
  "last_batch [] = []"
| "last_batch (c # cs) = (if list_ex unknown_type cs then last_batch cs else c # cs)"

lemma last_batch_all: "\<not> list_ex unknown_type defs \<Longrightarrow> last_batch defs = defs"
  by (cases defs) simp_all

lemma toJobSlice_loop_ids:
  assumes "toJobSlice_loop e defs jobs = Ok js" and "po_JobContext e = None"
  shows "map (\<lambda>j. jd_ID (Job_JobData j)) js =
    (if list_ex unknown_type defs then [] else map (\<lambda>j. jd_ID (Job_JobData j)) jobs) @ map df_JobID (last_batch defs)"
  using assms
proof (induction defs arbitrary: jobs)
  case (Cons c defs)
  then obtain jd j where
    jd: "ConvertFromCloudJob (po_fmt e) (po_marshal_operator e) (ev_now (po_jobs e)) c = Ok jd" and
    j: "slice_job e (set_job_type c jd) = Ok j" and
    loop: "toJobSlice_loop e defs ((if unknown_type c then [] else jobs) @ [j]) = Ok js"
    by (auto simp: res_simps split: option.splits)
  have id: "jd_ID (Job_JobData j) = df_JobID c"
    using slice_job_cases [OF j] ConvertFromCloudJob_Ok [OF jd] by simp
  show ?case
    using Cons.IH [OF loop Cons.prems(2)] id by (cases "list_ex unknown_type defs") (auto simp: last_batch_all)
qed simp

lemma fold_HandleJob:
  "fold HandleJob jobs s = s\<lparr>sy_handlers := sy_handlers s @
    map (\<lambda>j. \<lparr>h_pc = H_Loop, h_job = j, h_wg = 0, h_unexpected = False\<rparr>) jobs\<rparr>"
  by (induction jobs arbitrary: s) (simp_all add: HandleJob_def)

text \<open>
  C25: A poll asks the API for jobs only while the queue is below its refill threshold and the device is
  available. It hands a handler to the scheduler for each job definition it gets, in their order and
  with their IDs, but only from the last definition of an unknown type on: the definitions before that
  one are lost.
\<close>

theorem getJobs_hands_over:
  assumes "getJobs fq e p s = (s', Ok n)" and "po_JobContext e = None"
  shows "\<exists>c defs hs. pl_pollClient p = Some c \<and>
    po_GetJobs e (pc_deviceName c) (pc_count c) SubmittedS = Ok (GetJobsOKApplicationJSON defs) \<and>
    \<not> NormalScheduler_IsOverRefillThreshold fq s \<and> di_Status (po_DeviceInfo e) = Available \<and>
    s' = s\<lparr>sy_handlers := sy_handlers s @ hs\<rparr> \<and> n = length hs \<and>
    map (\<lambda>h. jd_ID (Job_JobData (h_job h))) hs = map df_JobID (last_batch defs)"
proof -
  from assms(1) obtain c jobs where c: "pl_pollClient p = Some c" and r: "request e c = Ok jobs"
    and s': "s' = fold HandleJob jobs s" "n = length jobs"
    and pass: "passPollingCondition fq s (po_DeviceInfo e) = None"
    by (auto simp: getJobs_def split: option.splits res.splits)
  from r obtain defs where defs: "po_GetJobs e (pc_deviceName c) (pc_count c) SubmittedS = Ok (GetJobsOKApplicationJSON defs)"
    and jobs: "toJobSlice_loop e defs [] = Ok jobs"
    by (auto simp: request_def toJobSlice_def split: res.splits GetJobsRes.splits)
  let ?hs = "map (\<lambda>j. \<lparr>h_pc = H_Loop, h_job = j, h_wg = 0, h_unexpected = False\<rparr>) jobs"
  have "map (\<lambda>h. jd_ID (Job_JobData (h_job h))) ?hs = map df_JobID (last_batch defs)"
    using toJobSlice_loop_ids [OF jobs assms(2)] by (simp add: comp_def split: if_splits)
  moreover have "\<not> NormalScheduler_IsOverRefillThreshold fq s" "di_Status (po_DeviceInfo e) = Available"
    using pass by (auto simp: passPollingCondition_def split: if_splits)
  moreover have "s' = s\<lparr>sy_handlers := sy_handlers s @ ?hs\<rparr>" "n = length ?hs"
    using s' by (simp_all add: fold_HandleJob)
  ultimately show ?thesis
    using c defs by blast
qed

definition example_poll :: "unit poll_env" where
  "example_poll =
    \<lparr>po_GetJobs = (\<lambda>_ _ _. Ok (GetJobsOKApplicationJSON [example_cloud_job\<lparr>df_JobID := ''a''\<rparr>,
       example_cloud_job\<lparr>df_JobID := ''b'', df_JobType := OtherT ''x''\<rparr>, example_cloud_job\<lparr>df_JobID := ''c''\<rparr>])),
     po_DeviceInfo = DummyQPU_GetDeviceInfo, po_JobContext = None, po_jobs = example_sse_env,
     po_manager = \<lparr>acceptableJobs = [SamplingK, SSEK, ManualK, EstimationK]\<rparr>, po_fmt = Some,
     po_marshal_operator = (\<lambda>_. Ok [])\<rparr>"

theorem getJobs_hands_over_witness:
  "\<exists>s n. getJobs list_fifo example_poll (empty_Poller\<lparr>pl_pollClient := Some \<lparr>pc_count = 10, pc_endpoint = [], pc_edgeName = [],
      pc_deviceName = []\<rparr>\<rparr>) (NormalScheduler_Setup list_fifo 5 3) = (s, Ok n) \<and>
    map (\<lambda>h. jd_ID (Job_JobData (h_job h))) (sy_handlers s) = [''b'', ''c'']"
proof -
  let ?c = "\<lparr>pc_count = 10, pc_endpoint = [], pc_edgeName = [], pc_deviceName = []\<rparr>"
  let ?p = "empty_Poller\<lparr>pl_pollClient := Some ?c\<rparr>"
  have "snd (getJobs list_fifo example_poll ?p (NormalScheduler_Setup list_fifo 5 3)) = Ok 2"
    by code_simp
  then obtain s n where g: "getJobs list_fifo example_poll ?p (NormalScheduler_Setup list_fifo 5 3) = (s, Ok n)"
    by (metis prod.collapse)
  have "po_JobContext example_poll = None"
    by (simp add: example_poll_def)
  from getJobs_hands_over [OF g this] g show ?thesis
    by (auto simp: example_poll_def unknown_type_def NormalScheduler_Setup_def example_cloud_job_def)
qed

end
