(* ===== verification/Job_Reports.thy ===== *)
theory Job_Reports
  imports Job_Handling Poller
begin

text \<open>
  The engine put together: the poller, the scheduler with its jobs, the transpiler, the gateway QPU and the
  database behind the provider's API. What becomes of a job between the poll that got it and the calls
  that report it.
\<close>

section \<open>The environment of the jobs\<close>

text \<open>
  The transpiler and the QPU that the start-up code provides to the jobs (\<open>provideDIContainer\<close> of
  \<open>cmd/edge/main.go\<close> with \<open>tranqu\<close>, \<open>gateway\<close> and \<open>service\<close>). \<open>g i\<close> is what the gateway answers to the
  job's call number \<open>i\<close>.
\<close>

definition engine_env ::
  "(nat \<Rightarrow> gw_env) \<Rightarrow> GatewayQPU \<Rightarrow> (TranspileRequest \<Rightarrow> TranspileResponse res) \<Rightarrow> sse_env \<Rightarrow> sse_env" where
  "engine_env g q service e =
    e\<lparr>ev_Insert := ServiceDB_Insert,
      ev_MaxShots := di_MaxShots (GatewayQPU_GetDeviceInfo q),
      ev_MaxQubits := di_MaxQubits (GatewayQPU_GetDeviceInfo q),
      ev_IsAcceptableTranspilerLib := IsAcceptableTranspilerLib,
      ev_Transpile := Tranqu_Transpile (di_DeviceInfoSpecJson (GatewayQPU_GetDeviceInfo q)) service,
      ev_Send := (\<lambda>i. GatewayQPU_Send (g i) q)\<rparr>"

text \<open>
  The transpiler client and the gateway QPU keep the contract that the jobs and the scheduler rely
  on: whatever the services answer, they never change the ID of a job.
\<close>

theorem engine_env_ok:
  assumes "deepcopy_ok (ev_deepcopy e)"
  shows "env_ok (engine_env g q service e)"
proof -
  have "keeps jd_ID jd (Tranqu_Transpile dev service jd)" for dev jd
    by (rule keeps_Transpile) simp_all
  then show ?thesis
    using assms GatewayQPU_Send_keeps by (simp add: env_ok_def engine_env_def)
qed

theorem engine_env_ok_witness: "env_ok (engine_env (\<lambda>_. example_gw) example_qpu (\<lambda>_. Ok example_answer) example_sse_env)"
  by (rule engine_env_ok) (use example_env_ok in \<open>simp add: env_ok_def\<close>)

section \<open>Jobs that are not in the status READY\<close>

text \<open>A handler that is about to give up, or has given up, without having sent anything.\<close>

definition rejected :: "('e, 'j) JobOps \<Rightarrow> nat \<Rightarrow> ('q, 'j) sched \<Rightarrow> bool" where
  "rejected ops i s \<longleftrightarrow> i < length (sy_handlers s) \<and> msgs i s = [] \<and>
    (let h = sy_handlers s ! i in
     h_pc h = H_Loop \<and> status_of ops (h_job h) \<noteq> READY \<or> h_pc h = H_Defer \<or> h_pc h = H_Done)"

context scheduler
begin

lemma rejected_step:
  assumes "sched_step fq ops ok s s'" and "own_inv content s" and "rejected ops i s"
  shows "rejected ops i s'"
  using assms(1)
proof (cases rule: sched_step_cases)
  case (arrive j)
  then show ?thesis
    using assms(3) by (simp add: rejected_def HandleJob_def nth_append msgs_def)
next
  case (handle e k)
  then show ?thesis
    using assms(3) handler_step_others [OF handle(3), of i] handler_step_length [OF handle(3)]
    by (cases "k = i") (auto simp: rejected_def step_defs)
next
  case queue
  then show ?thesis
    using assms(3) queue_step_db [OF queue] queue_step_frame [OF queue] by (auto simp: rejected_def msgs_def)
next
  case (execute e)
  have "sy_running s \<noteq> Some (i, pc)" for pc
    using assms(3) running_waits [OF assms(2), of i pc] by (auto simp: rejected_def Let_def)
  then have "sy_handlers s' ! i = sy_handlers s ! i \<and> msgs i s' = msgs i s"
    using executor_step_others [OF execute(2), of i] by blast
  then show ?thesis
    using assms(3) executor_step_pc [OF execute(2)] by (simp add: rejected_def)
qed

lemma rejected_steps:
  assumes "(sched_step fq ops ok)\<^sup>*\<^sup>* s s'" and "own_inv content s" and "rejected ops i s"
  shows "own_inv content s' \<and> rejected ops i s'"
  using assms
proof (induction rule: rtranclp_induct)
  case (step t u)
  then show ?case
    using rejected_step [OF step(2)] own_inv_step [OF step(2)] by blast
qed simp

lemma rejected_arrival:
  assumes "reachable fq ops ok mx th s" and "status_of ops j \<noteq> READY" and "(sched_step fq ops ok)\<^sup>*\<^sup>* (HandleJob j s) s'"
  shows "msgs (length (sy_handlers s)) s' = []"
proof -
  have none: "msgs (length (sy_handlers s)) s = []"
    using sent_ok_reachable [OF assms(1)] by (fastforce simp: msgs_def sent_ok_def filter_empty_conv)
  have "rejected ops (length (sy_handlers s)) (HandleJob j s)"
    using assms(2) none by (simp add: rejected_def HandleJob_def msgs_def)
  moreover have "own_inv content (HandleJob j s)"
    using own_inv_arrive [OF own_inv_reachable [OF assms(1)]] .
  ultimately show ?thesis
    using rejected_steps [OF assms(3)] by (auto simp: rejected_def)
qed

end

lemma play_steps: "play fq ops e ms s = Some t \<Longrightarrow> ok e \<Longrightarrow> (sched_step fq ops ok)\<^sup>*\<^sup>* s t"
  by (induction fq ops e ms s rule: play.induct)
    (auto split: if_splits option.splits
      intro: converse_rtranclp_into_rtranclp sched_step.arrive sched_step.handle sched_step.queue sched_step.execute)

text \<open>
  C8: A job from the API that fails the validation of the job manager is handed to the scheduler as a
  failed job, but its failure is never reported: whatever happens afterwards, nothing is sent to the
  database for it, because its handler gives up on a job that is not \<open>READY\<close>.
\<close>

theorem invalid_job_never_reported:
  assumes "fifo_queue fq content" and "NewJobFromJobDataWithValidation (po_jobs e) (po_manager e) jd = Err er" and "slice_job e jd = Ok j"
    and "reachable fq (job_ops :: (sse_env, Job) JobOps) env_ok mx th s"
    and "(sched_step fq (job_ops :: (sse_env, Job) JobOps) env_ok)\<^sup>*\<^sup>* (HandleJob j s) s'"
  shows "jd_Status (Job_JobData j) = FAILED \<and> length (sy_handlers s) \<notin> fst ` set (sy_db s')"
proof -
  have failed: "jd_Status (Job_JobData j) = FAILED"
    using slice_job_cases [OF assms(3)] assms(2) by auto
  then have "msgs (length (sy_handlers s)) s' = []"
    by (intro scheduler.rejected_arrival [OF job_scheduler [OF assms(1)] assms(4) _ assms(5)]) (simp add: job_ops_sel)
  then show ?thesis
    using failed by (auto simp: msgs_def filter_empty_conv)
qed

definition invalid_job :: JobData where
  "invalid_job = example_job\<lparr>jd_ID := [], jd_JobType := SAMPLING_JOB\<rparr>"

theorem invalid_job_never_reported_witness:
  "\<exists>j t. slice_job example_poll invalid_job = Ok j \<and>
    play list_fifo job_ops example_sse_env [Handle 0, Handle 0] (HandleJob j (NormalScheduler_Setup list_fifo 5 3)) = Some t \<and>
    h_pc (sy_handlers t ! 0) = H_Done \<and> 0 \<notin> fst ` set (sy_db t)"
proof -
  let ?s = "NormalScheduler_Setup list_fifo 5 3 :: (nat list, Job) sched"
  obtain j er where j: "slice_job example_poll invalid_job = Ok j" and
    er: "NewJobFromJobDataWithValidation (po_jobs example_poll) (po_manager example_poll) invalid_job = Err er"
    by (auto simp: slice_job_def example_poll_def NewJobFromJobDataWithValidation_def Let_def default_type_def
        validateJobParam_def param_of_def invalid_job_def example_job_def NewJobData_def SAMPLING_JOB_def
        SetFailureWithErrorToJobData_def set_result_def)
  have st: "jd_Status (Job_JobData j) = FAILED"
    using slice_job_cases [OF j] er by auto
  then have st': "status_of (job_ops :: (sse_env, Job) JobOps) j = FAILED"
    by (simp add: job_ops_sel)
  obtain t where t: "play list_fifo (job_ops :: (sse_env, Job) JobOps) example_sse_env [Handle 0, Handle 0] (HandleJob j ?s) = Some t"
    and pc: "h_pc (sy_handlers t ! 0) = H_Done"
    using st' by (auto simp: HandleJob_def NormalScheduler_Setup_def step_defs job.status_set_flag)
  have "reachable list_fifo (job_ops :: (sse_env, Job) JobOps) env_ok 5 3 ?s"
    by (rule reachable.init)
  from invalid_job_never_reported [OF list_queue.fifo_queue_axioms er j this play_steps [OF t]] t pc j show ?thesis
    using example_env_ok by (auto simp: NormalScheduler_Setup_def)
qed

lemma ServiceDB_Update_unflagged:
  assumes "jd_Result jd = Some r" and "\<not> jd_UseJobInfoUpdate jd" and "jd_Status jd \<noteq> RUNNING"
  shows "\<exists>jd'. ServiceDB_Update e jd = Ret ([], None) jd'"
proof -
  obtain cJob jd' where c: "ConvertToCloudJob (sv_fmt e) jd = Ret cJob jd'"
    using ConvertToCloudJob_total [OF assms(1)] by blast
  then have "df_Status cJob \<noteq> RunningS"
    using ConvertToCloudJob_Ret [OF c] assms(3) convertToAPIStatus_iff(1) [of "jd_Status jd"] by metis
  then show ?thesis
    using c ConvertToCloudJob_fields(1) [OF c] assms(2)
    by (simp add: ServiceDB_Update_def update_status_calls Let_def)
qed

section \<open>Multi-programming jobs without a transpiler\<close>

definition combined_job :: "string \<Rightarrow> i32 list \<Rightarrow> ManualJob \<Rightarrow> ManualJob" where
  "combined_job qasm qubits j =
    j\<lparr>mj_originalQASMs := jd_QASM (mj_jobData j), mj_combinedQubitsList := qubits,
      mj_jobData := (mj_jobData j)\<lparr>jd_QASM := qasm\<rparr>, mj_combinedQASM := qasm\<rparr>"

lemma PreProcess_untranspiled:
  assumes "jd_Transpiler (mj_jobData j) = Some tc" and "tc_TranspilerLib tc = None"
    and "ManualJob_validateJobParam (engine_env g q service e) (param_of (mj_jobData j)) = Ok None"
    and "sendJobdata (engine_env g q service e) (mj_jobData j) = Ok (qasm, qubits)"
  shows "ManualJob_PreProcess (engine_env g q service e) j = Pan (combined_job qasm qubits j)"
proof -
  have "Tranqu_Transpile dev service (jd\<lparr>jd_QASM := qasm\<rparr>) = Pan (jd\<lparr>jd_QASM := qasm\<rparr>)"
    if "jd_Transpiler jd = Some tc" for dev jd
    using that assms(2) by (simp add: Tranqu_Transpile_def)
  moreover have "ev_Transpile (engine_env g q service e) = Tranqu_Transpile (di_DeviceInfoSpecJson (GatewayQPU_GetDeviceInfo q)) service"
    "ev_Insert (engine_env g q service e) = ServiceDB_Insert"
    by (simp_all add: engine_env_def)
  ultimately show ?thesis
    using assms(1,3,4)
    by (simp add: ManualJob_PreProcess_def ManualJob_preProcessImpl_def ServiceDB_Insert_def Let_def mj_put_def
        combined_job_def)
qed

text \<open>
  A multi-programming job that asks for no transpiling passes the validation, but its pre-processing
  calls the transpiler all the same, which dereferences the missing name of the library: it panics once
  the circuits are combined.
\<close>

theorem untranspiled_combined_job_panics:
  assumes "jd_Transpiler (mj_jobData j) = Some tc" and "tc_TranspilerLib tc = None"
    and "ManualJob_validateJobParam (engine_env g q service e) (param_of (mj_jobData j)) = Ok None"
    and "sendJobdata (engine_env g q service e) (mj_jobData j) = Ok (qasm, qubits)"
  shows "\<exists>j'. ManualJob_PreProcess (engine_env g q service e) j = Pan j' \<and> jd_QASM (mj_jobData j') = qasm"
  using PreProcess_untranspiled [OF assms] by (simp add: combined_job_def)

definition combined_env :: sse_env where
  "combined_env = engine_env (\<lambda>_. example_gw)
     (example_qpu\<lparr>gq_currentDeviceInfo := device_info_of \<lparr>gd_DeviceId = ''d'', gd_ProviderId = ''p'', gd_Type = ''QPU'',
        gd_MaxQubits = 4, gd_MaxShots = 1000, gd_DeviceInfo = ''{}'', gd_CalibratedAt = []\<rparr> SERVICE_STATUS_ACTIVE\<rparr>)
     (\<lambda>_. Ok example_answer) example_sse_env"

definition untranspiled_job :: ManualJob where
  "untranspiled_job = ManualJob_New (example_job\<lparr>jd_JobType := MULTIPROG_MANUAL_JOB, jd_Shots := 100, jd_QASM := ''[]''\<rparr>)"

definition untranspiled_end :: "(nat list, Job) sched option" where
  "untranspiled_end = play list_fifo job_ops combined_env
     [Arrive (Manual untranspiled_job), Handle 0, Handle 0, Handle 0, Handle 0, Handle 0] (NormalScheduler_Setup list_fifo 5 3)"

lemma untranspiled_facts:
  "ManualJob_validateJobParam combined_env (param_of (mj_jobData untranspiled_job)) = Ok None"
  "sendJobdata combined_env (mj_jobData untranspiled_job) = Ok (''[]'', [])"
  "jd_Transpiler (mj_jobData untranspiled_job) = Some no_transpiler" "tc_TranspilerLib no_transpiler = None"
  by code_simp+

theorem untranspiled_combined_job_panics_witness:
  "\<exists>j'. ManualJob_PreProcess combined_env untranspiled_job = Pan j' \<and> jd_QASM (mj_jobData j') = ''[]''"
  using untranspiled_combined_job_panics [OF untranspiled_facts(3,4)] untranspiled_facts(1,2)
  unfolding combined_env_def by blast

lemma untranspiled_run:
  "\<exists>s. untranspiled_end = Some s \<and> h_pc (sy_handlers s ! 0) = H_Done \<and>
    jd_Status (Job_JobData (h_job (sy_handlers s ! 0))) = FAILED \<and>
    (\<exists>j. sy_db s = [(0, j)] \<and> \<not> jd_UseJobInfoUpdate (Job_JobData j) \<and> jd_Status (Job_JobData j) = FAILED \<and>
      jd_Result (Job_JobData j) \<noteq> None)"
proof -
  have pan: "ManualJob_PreProcess combined_env untranspiled_job = Pan (combined_job ''[]'' [] untranspiled_job)"
    using PreProcess_untranspiled [OF untranspiled_facts(3,4)] untranspiled_facts(1,2)
    unfolding combined_env_def by blast
  have flag: "untranspiled_job\<lparr>mj_jobData := (mj_jobData untranspiled_job)\<lparr>jd_UseJobInfoUpdate := False\<rparr>\<rparr> = untranspiled_job"
    by (simp add: untranspiled_job_def ManualJob_New_def mj_put_def example_job_def NewJobData_def)
  have dc: "ev_deepcopy combined_env = id"
    by (simp add: combined_env_def engine_env_def example_sse_env_def)
  have st: "jd_Status (mj_jobData untranspiled_job) = READY" "\<not> jd_UseJobInfoUpdate (mj_jobData untranspiled_job)"
    "jd_Result (mj_jobData untranspiled_job) \<noteq> None"
    by (simp_all add: untranspiled_job_def ManualJob_New_def example_job_def NewJobData_def)
  show ?thesis
    using st
    by (simp add: untranspiled_end_def HandleJob_def NormalScheduler_Setup_def step_defs job_ops_def set_flag_def
        flag pan set_status_def send_db_def ManualJob_Clone_def dc combined_job_def JobData_Clone_def mj_put_def)
qed

text \<open>
  Such a job ends as \<open>FAILED\<close> in the engine, but the provider is never told: in the run below its
  handler is done, and the messages that it sent to the database make no call of the API.
\<close>

theorem panicked_job_not_reported:
  "\<exists>s. untranspiled_end = Some s \<and> h_pc (sy_handlers s ! 0) = H_Done \<and>
    jd_Status (Job_JobData (h_job (sy_handlers s ! 0))) = FAILED \<and> length (sy_db s) = 1 \<and>
    ServiceDB_loop e (map (\<lambda>m. Job_JobData (snd m)) (sy_db s)) = Ok []"
proof -
  obtain s j where s: "untranspiled_end = Some s" "h_pc (sy_handlers s ! 0) = H_Done"
    "jd_Status (Job_JobData (h_job (sy_handlers s ! 0))) = FAILED" "sy_db s = [(0, j)]" and
    j: "\<not> jd_UseJobInfoUpdate (Job_JobData j)" "jd_Status (Job_JobData j) = FAILED" "jd_Result (Job_JobData j) \<noteq> None"
    using untranspiled_run by blast
  then have "\<exists>jd'. ServiceDB_Update e (Job_JobData j) = Ret ([], None) jd'"
    using ServiceDB_Update_unflagged [of "Job_JobData j"] by auto
  then show ?thesis
    using s by auto
qed

end
