(* ===== verification/SSE_Router.thy ===== *)
theory SSE_Router
  imports Transpiler Cloud_Job Qpu
begin

text \<open>
  \<open>coreapp/sse/router/sse_gateway_router.go\<close>: the gRPC service by which a user program that runs in a
  container transpiles and executes circuits.

  The components of the dependency-injection container that a request uses are the fields of
  \<open>router_env\<close>; \<open>gateway_router\<close> fills them with the gateway QPU and the transpiler client, the way
  the engine registers them. \<open>re_is_float\<close> tells whether the text of a JSON number lies in the range
  of \<open>float64\<close>. A panic in the handler is not recovered, so \<open>Panic\<close> ends the engine. The counts in an
  answer are printed as an object also when there are none (a nil map would be printed as \<open>null\<close>).
\<close>

section \<open>The request\<close>

record UserReqData =
  ur_ID :: string
  ur_Qasm :: string
  ur_Shots :: "64 word"
  ur_Transpiler :: "TranspilerConfig option"

definition zero_UserReqData :: UserReqData where
  "zero_UserReqData = \<lparr>ur_ID = [], ur_Qasm = [], ur_Shots = 0, ur_Transpiler = None\<rparr>"

text \<open>Each member of the object is stored in turn; \<open>null\<close> leaves a string or a number as it is.\<close>

fun dec_transpiler :: "(string \<times> json) list \<Rightarrow> TranspilerConfig \<Rightarrow> TranspilerConfig res" where
  "dec_transpiler [] c = Ok c"
| "dec_transpiler ((k, j) # kvs) c =
    (if ToLower k = ''transpiler_lib'' then
       res_bind (jstring_ptr (Some j)) (\<lambda>lib. dec_transpiler kvs (c\<lparr>tc_TranspilerLib := lib\<rparr>))
     else if ToLower k = ''transpiler_options'' then
       dec_transpiler kvs (c\<lparr>tc_TranspilerOptions := jraw (Some j)\<rparr>)
     else dec_transpiler kvs c)"

fun dec_string :: "json \<Rightarrow> string \<Rightarrow> string res" where
  "dec_string JNull s = Ok s"
| "dec_string (JStr t) s = Ok t"
| "dec_string _ s = Err err_json_type"

fun dec_uint :: "json \<Rightarrow> 64 word \<Rightarrow> 64 word res" where
  "dec_uint JNull w = Ok w"
| "dec_uint (JNum t) w = (case ParseUint 64 t of Ok n \<Rightarrow> Ok (of_nat n) | _ \<Rightarrow> Err err_json_type)"
| "dec_uint _ w = Err err_json_type"

fun dec_config :: "json \<Rightarrow> TranspilerConfig option \<Rightarrow> TranspilerConfig option res" where
  "dec_config JNull c = Ok None"
| "dec_config (JObj kvs) c =
    res_bind (dec_transpiler kvs (case c of None \<Rightarrow> no_TranspilerConfig | Some c \<Rightarrow> c)) (\<lambda>c. Ok (Some c))"
| "dec_config _ c = Err err_json_type"

fun dec_request :: "(string \<times> json) list \<Rightarrow> UserReqData \<Rightarrow> UserReqData res" where
  "dec_request [] u = Ok u"
| "dec_request ((k, j) # kvs) u =
    (if ToLower k = ''id'' then
       res_bind (dec_string j (ur_ID u)) (\<lambda>s. dec_request kvs (u\<lparr>ur_ID := s\<rparr>))
     else if ToLower k = ''qasm'' then
       res_bind (dec_string j (ur_Qasm u)) (\<lambda>s. dec_request kvs (u\<lparr>ur_Qasm := s\<rparr>))
     else if ToLower k = ''shots'' then
       res_bind (dec_uint j (ur_Shots u)) (\<lambda>w. dec_request kvs (u\<lparr>ur_Shots := w\<rparr>))
     else if ToLower k = ''transpiler_info'' then
       res_bind (dec_config j (ur_Transpiler u)) (\<lambda>c. dec_request kvs (u\<lparr>ur_Transpiler := c\<rparr>))
     else dec_request kvs u)"

text \<open>\<open>json.Unmarshal\<close> into a pointer to a struct that is nil: \<open>null\<close> leaves it nil.\<close>

definition Unmarshal_request :: "string \<Rightarrow> UserReqData option res" where
  "Unmarshal_request body =
    (case json_parse body of
       None \<Rightarrow> Err err_json
     | Some JNull \<Rightarrow> Ok None
     | Some (JObj kvs) \<Rightarrow> res_bind (dec_request kvs zero_UserReqData) (\<lambda>u. Ok (Some u))
     | Some _ \<Rightarrow> Err err_json_type)"

definition toJobData :: "datetime \<Rightarrow> string \<Rightarrow> JobData res" where
  "toJobData now body =
    (if body = [] then Err ''Invalid request. Reason: body is empty''
     else
       res_bind (Unmarshal_request body) (\<lambda>userReq.
       res_bind (deref userReq) (\<lambda>u.
         Ok ((NewJobData now)\<lparr>jd_ID := ur_ID u, jd_QASM := ur_Qasm u, jd_Shots := sint (ur_Shots u),
           jd_Transpiler := ur_Transpiler u\<rparr>))))"

section \<open>The components a request uses\<close>

record router_env =
  re_now :: datetime
  re_JobContext :: "error option"
  re_jobs :: sse_env
  re_manager :: JobManager
  re_GetDeviceInfo :: "DeviceInfo option"
  re_Validate :: "string \<Rightarrow> error option"
  re_Transpile :: "JobData \<Rightarrow> (JobData, error option) outcome"
  re_Send :: "JobData \<Rightarrow> (JobData, error option) outcome"
  re_is_float :: "string \<Rightarrow> bool"

definition toJob :: "router_env \<Rightarrow> string \<Rightarrow> Job res" where
  "toJob e body =
    res_bind (toJobData (re_now e) body) (\<lambda>jd.
      let jd = jd\<lparr>jd_JobType := SSE_JOB\<rparr> in
      case re_JobContext e of
        Some er \<Rightarrow> Err er
      | None \<Rightarrow> NewJobFromJobData (re_jobs e) (re_manager e) jd)"

definition validateShots :: "int \<Rightarrow> DeviceInfo option \<Rightarrow> error option" where
  "validateShots shots deviceInfo =
    (case deviceInfo of
       None \<Rightarrow> Some ''DeviceInfo is nil''
     | Some di \<Rightarrow>
         if shots < 1 then Some (''The number of shots '' @ int_str shots @ '' is less than 1'')
         else if shots > di_MaxShots di then
           Some (''The number of shots '' @ int_str shots @ '' is over the limit '' @ int_str (di_MaxShots di))
         else None)"

text \<open>Decoding into \<open>map[string]interface{}\<close> fails for a number outside \<open>float64\<close>, wherever it occurs.\<close>

fun json_floats :: "(string \<Rightarrow> bool) \<Rightarrow> json \<Rightarrow> bool" where
  "json_floats is_float (JNum t) = is_float t"
| "json_floats is_float (JArr js) = list_all (json_floats is_float) js"
| "json_floats is_float (JObj kvs) = list_all (\<lambda>(k, j). json_floats is_float j) kvs"
| "json_floats is_float _ = True"

definition use_default :: "(string \<times> json) list \<Rightarrow> bool res" where
  "use_default jobDataMap =
    (case map_of (rev jobDataMap) ''transpiler_info'' of
       None \<Rightarrow> Ok False
     | Some JNull \<Rightarrow> Ok True
     | Some (JObj transpiler_info) \<Rightarrow> Ok (transpiler_info = [])
     | Some _ \<Rightarrow> Panic)"

definition router_useDefaultTranspiler :: "(string \<Rightarrow> bool) \<Rightarrow> string \<Rightarrow> bool res" where
  "router_useDefaultTranspiler is_float jobDataJson =
    (if jobDataJson = [] then Ok True
     else
       (case json_parse jobDataJson of
          None \<Rightarrow> Ok True
        | Some JNull \<Rightarrow> Ok False
        | Some (JObj kvs) \<Rightarrow> if json_floats is_float (JObj kvs) then use_default kvs else Ok True
        | Some _ \<Rightarrow> Ok True))"

section \<open>The answer\<close>

record TranspileAndExecResponse =
  rp_Status :: string
  rp_Message :: string
  rp_TranspilerInfo :: string
  rp_TranspiledQasm :: string
  rp_Result :: string

definition Marshal_config :: "TranspilerConfig \<Rightarrow> string res" where
  "Marshal_config c =
    (let lib = (case tc_TranspilerLib c of None \<Rightarrow> JNull | Some l \<Rightarrow> JStr l) in
     case tc_TranspilerOptions c of
       None \<Rightarrow> Ok (json_print (JObj [(''transpiler_lib'', lib), (''transpiler_options'', JNull)]))
     | Some raw \<Rightarrow>
         (case json_parse raw of
            None \<Rightarrow> Err err_json
          | Some j \<Rightarrow> Ok (json_print (JObj [(''transpiler_lib'', lib), (''transpiler_options'', j)]))))"

definition raw_text :: "string option \<Rightarrow> string" where
  "raw_text raw = (case raw of None \<Rightarrow> ''{}'' | Some s \<Rightarrow> if s = [] then ''{}'' else s)"

definition Marshal_router_result :: "Counts \<Rightarrow> string \<Rightarrow> string \<Rightarrow> string \<Rightarrow> string" where
  "Marshal_router_result counts stats vpMap message =
    json_print (JObj
      [(''counts'', JObj (sort_key fst (map (\<lambda>(k, c). (k, enc_u32 c)) counts))),
       (''divided_result'', JNull),
       (''transpiler_info'', JObj [(''stats'', JStr stats), (''virtual_physical_mapping'', JStr vpMap)]),
       (''estimation'', JObj [(''exp_value'', JNum ''0''), (''stds'', JNum ''0'')]),
       (''message'', JStr message),
       (''execution_time'', JNum ''0'')])"

definition fill_result :: "Result \<Rightarrow> TranspileAndExecResponse \<Rightarrow> TranspileAndExecResponse res" where
  "fill_result r res =
    res_bind (deref (rs_TranspilerInfo r)) (\<lambda>info.
      Ok (res\<lparr>rp_Result := Marshal_router_result (rs_Counts r) (raw_text (ti_StatsRaw info))
            (raw_text (ti_VirtualPhysicalMappingRaw info)) (rs_Message r),
          rp_Message := rs_Message r\<rparr>))"

text \<open>The last part of the handler: the job is sent and its outcome is put into the answer.\<close>

definition qpu_section :: "router_env \<Rightarrow> JobData \<Rightarrow> TranspileAndExecResponse \<Rightarrow> TranspileAndExecResponse res" where
  "qpu_section e jd res =
    (let res = res\<lparr>rp_TranspiledQasm := jd_TranspiledQASM jd\<rparr> in
     case re_Send e jd of
       Pan _ \<Rightarrow> Panic
     | Ret (Some er) _ \<Rightarrow> Ok (res\<lparr>rp_Message := ''Failed to execute qpu''\<rparr>)
     | Ret None jd \<Rightarrow>
         if jd_Status jd = FAILED then Ok (res\<lparr>rp_Message := ''Failed to execute qpu''\<rparr>)
         else
           res_bind (case jd_Result jd of None \<Rightarrow> Ok res | Some r \<Rightarrow> fill_result r res) (\<lambda>res.
             Ok (res\<lparr>rp_Status := Status_String (jd_Status jd)\<rparr>)))"

definition transpile_section ::
  "router_env \<Rightarrow> string \<Rightarrow> JobData \<Rightarrow> TranspileAndExecResponse \<Rightarrow> TranspileAndExecResponse res" where
  "transpile_section e JobDataJson jd res =
    res_bind
      (case jd_Transpiler jd of
         None \<Rightarrow> Ok DEFAULT_TRANSPILER_CONFIG
       | Some c \<Rightarrow>
           res_bind (router_useDefaultTranspiler (re_is_float e) JobDataJson) (\<lambda>b.
             Ok (if b then DEFAULT_TRANSPILER_CONFIG else c)))
      (\<lambda>c.
        let jd = jd\<lparr>jd_Transpiler := Some c\<rparr>;
            res = (case Marshal_config c of Ok t \<Rightarrow> res\<lparr>rp_TranspilerInfo := t\<rparr> | _ \<Rightarrow> res) in
        if TranspilerConfig_NeedTranspiling c then
          (case re_Transpile e jd of
             Pan _ \<Rightarrow> Panic
           | Ret (Some er) _ \<Rightarrow> Ok (res\<lparr>rp_Message := ''Failed to transpile: '' @ er\<rparr>)
           | Ret None jd \<Rightarrow>
               if jd_Status jd = FAILED then Ok (res\<lparr>rp_Message := ''Failed to transpile''\<rparr>)
               else qpu_section e jd res)
        else qpu_section e jd res)"

definition TranspileAndExec :: "router_env \<Rightarrow> string \<Rightarrow> TranspileAndExecResponse res" where
  "TranspileAndExec e JobDataJson =
    (let res = \<lparr>rp_Status = Status_String FAILED, rp_Message = [], rp_TranspilerInfo = [],
                rp_TranspiledQasm = [], rp_Result = []\<rparr> in
     if JobDataJson = [] then
       Ok (res\<lparr>rp_Message := ''Invalid request. The request data for transpiling is empty.''\<rparr>)
     else
       (case toJob e JobDataJson of
          Panic \<Rightarrow> Panic
        | Err er \<Rightarrow> Ok (res\<lparr>rp_Message := ''Invalid request data for transpiling.''\<rparr>)
        | Ok j \<Rightarrow>
            (let jd = Job_JobData j in
             case validateShots (jd_Shots jd) (re_GetDeviceInfo e) of
               Some er \<Rightarrow> Ok (res\<lparr>rp_Message := ''Invalid shots: '' @ er\<rparr>)
             | None \<Rightarrow>
                 (case re_Validate e (jd_QASM jd) of
                    Some er \<Rightarrow> Ok (res\<lparr>rp_Message := ''Invalid QASM: '' @ er\<rparr>)
                  | None \<Rightarrow> transpile_section e JobDataJson jd res))))"

text \<open>The engine's own components: the gateway QPU and the transpiler client.\<close>

definition gateway_router ::
  "gw_env \<Rightarrow> GatewayQPU \<Rightarrow> (TranspileRequest \<Rightarrow> TranspileResponse res) \<Rightarrow> sse_env \<Rightarrow> JobManager \<Rightarrow>
   (string \<Rightarrow> bool) \<Rightarrow> router_env" where
  "gateway_router g q service je m is_float =
    \<lparr>re_now = gw_now g, re_JobContext = None, re_jobs = je, re_manager = m,
     re_GetDeviceInfo = Some (GatewayQPU_GetDeviceInfo q), re_Validate = GatewayQPU_Validate,
     re_Transpile = Tranqu_Transpile (di_DeviceInfoSpecJson (GatewayQPU_GetDeviceInfo q)) service,
     re_Send = GatewayQPU_Send g q, re_is_float = is_float\<rparr>"

section \<open>The gRPC server\<close>

record SSEGRPCServer =
  gs_listening :: "string option"

definition JoinHostPort :: "string \<Rightarrow> string \<Rightarrow> string" where
  "JoinHostPort host port =
    (if CHR '':'' \<in> set host then ''['' @ host @ '']:'' @ port else host @ '':'' @ port)"

text \<open>\<open>Listen\<close> is the error of listening on an address. \<open>TearDown\<close> leaves the server running.\<close>

definition SSEGRPCServer_Setup ::
  "(string \<Rightarrow> error option) \<Rightarrow> string \<Rightarrow> int \<Rightarrow> SSEGRPCServer \<Rightarrow> SSEGRPCServer \<times> error option" where
  "SSEGRPCServer_Setup Listen host port m =
    (let url = JoinHostPort host (int_str port) in
     case Listen url of
       Some er \<Rightarrow> (m, Some er)
     | None \<Rightarrow> (m\<lparr>gs_listening := Some url\<rparr>, None))"

definition SSEGRPCServer_TearDown :: "SSEGRPCServer \<Rightarrow> SSEGRPCServer" where
  "SSEGRPCServer_TearDown m = m"

section \<open>Properties\<close>

lemma validateShots_None:
  "validateShots n di = None \<longleftrightarrow> (\<exists>d. di = Some d \<and> 1 \<le> n \<and> n \<le> di_MaxShots d)"
  by (auto simp: validateShots_def split: option.splits)

text \<open>\<open>toJob\<close> gives a job that carries the data of the request.\<close>

lemma toJob_data:
  assumes "toJob e body = Ok j"
  shows "\<exists>u. Unmarshal_request body = Ok (Some u) \<and>
    Job_JobData j = (NewJobData (re_now e))\<lparr>jd_ID := ur_ID u, jd_QASM := ur_Qasm u, jd_Shots := sint (ur_Shots u),
      jd_Transpiler := ur_Transpiler u, jd_JobType := SSE_JOB\<rparr>"
proof -
  have "SSE_JOB \<noteq> []"
    by (simp add: SSE_JOB_def)
  then show ?thesis
    using assms
    by (fastforce simp: toJob_def toJobData_def Let_def res_simps NewJobFromJobData_def default_type_def
        Kind_New_data deref_def split: option.splits if_splits)
qed

text \<open>What the gateway answered when a job was sent without an error and not failed.\<close>

lemma GatewayQPU_Send_success:
  assumes "GatewayQPU_Send g q jd = Ret None jd'" and "jd_Status jd' \<noteq> FAILED"
  shows "\<exists>resp counts message r. gw_CallJob g (jd_ID jd) (of_int (jd_Shots jd))
      (if jd_TranspiledQASM jd = [] then jd_QASM jd else jd_TranspiledQASM jd) = Ok resp \<and>
    cj_Status resp = JOB_STATUS_SUCCESS \<and> cj_Result resp = Some (counts, message) \<and>
    jd_Result jd = Some r \<and> jd_Status jd' = SUCCEEDED \<and>
    jd_Result jd' = Some (r\<lparr>rs_Counts := counts, rs_Message := message, rs_ExecutionTime := gw_Elapsed g\<rparr>)"
proof -
  obtain jd1 where "Agent_CallJob g (gq_agent q) jd = Ret None jd1" "jd' = jd1\<lparr>jd_Ended := gw_now g\<rparr>"
    using assms(1) by (auto simp: GatewayQPU_Send_def res_simps split: if_splits option.splits)
  then show ?thesis
    using assms(2)
    by (auto simp: Agent_CallJob_def Let_def res_simps set_result_def derefP_def
        split: if_splits res.splits JobStatus.splits option.splits)
qed

text \<open>The transpiler client leaves the request in the job as it is.\<close>

lemma Transpile_keeps_request:
  assumes "Tranqu_Transpile device service jd = Ret err jd'"
  shows "jd_ID jd' = jd_ID jd" "jd_Shots jd' = jd_Shots jd" "jd_QASM jd' = jd_QASM jd"
  using keeps_Transpile [of jd_ID jd device service] keeps_Transpile [of jd_Shots jd device service]
    keeps_Transpile [of jd_QASM jd device service] assms
  by (simp_all add: keeps_def)

lemma qpu_section_status:
  assumes "qpu_section (gateway_router g q service je m is_float) jd res = Ok res'"
    and "rp_Status res = ''failed''" and "rp_Status res' \<noteq> ''failed''"
  shows "\<exists>resp counts message stats vpMap.
    gw_CallJob g (jd_ID jd) (of_int (jd_Shots jd))
      (if rp_TranspiledQasm res' = [] then jd_QASM jd else rp_TranspiledQasm res') = Ok resp \<and>
    cj_Status resp = JOB_STATUS_SUCCESS \<and> cj_Result resp = Some (counts, message) \<and>
    rp_Status res' = ''succeeded'' \<and> rp_Message res' = message \<and>
    rp_Result res' = Marshal_router_result counts stats vpMap message"
proof -
  obtain jd' where send: "GatewayQPU_Send g q jd = Ret None jd'" and st: "jd_Status jd' \<noteq> FAILED"
    using assms by (auto simp: qpu_section_def gateway_router_def Let_def split: outcome.splits option.splits if_splits)
  from GatewayQPU_Send_success [OF this] obtain resp counts message r where
    "gw_CallJob g (jd_ID jd) (of_int (jd_Shots jd))
      (if jd_TranspiledQASM jd = [] then jd_QASM jd else jd_TranspiledQASM jd) = Ok resp"
    "cj_Status resp = JOB_STATUS_SUCCESS" "cj_Result resp = Some (counts, message)" "jd_Status jd' = SUCCEEDED"
    "jd_Result jd' = Some (r\<lparr>rs_Counts := counts, rs_Message := message, rs_ExecutionTime := gw_Elapsed g\<rparr>)"
    by blast
  then show ?thesis
    using assms(1) send by (auto simp: qpu_section_def gateway_router_def fill_result_def res_simps) blast+
qed

lemma transpile_section_status:
  assumes "transpile_section (gateway_router g q service je m is_float) body jd res = Ok res'"
    and "rp_Status res = ''failed''" and "rp_Status res' \<noteq> ''failed''"
  shows "\<exists>jd1 res1. qpu_section (gateway_router g q service je m is_float) jd1 res1 = Ok res' \<and>
    rp_Status res1 = ''failed'' \<and> jd_ID jd1 = jd_ID jd \<and> jd_Shots jd1 = jd_Shots jd \<and> jd_QASM jd1 = jd_QASM jd"
proof -
  let ?e = "gateway_router g q service je m is_float"
  obtain c where *: "(let jd = jd\<lparr>jd_Transpiler := Some c\<rparr>;
            res = (case Marshal_config c of Ok t \<Rightarrow> res\<lparr>rp_TranspilerInfo := t\<rparr> | _ \<Rightarrow> res) in
        if TranspilerConfig_NeedTranspiling c then
          (case re_Transpile ?e jd of
             Pan _ \<Rightarrow> Panic
           | Ret (Some er) _ \<Rightarrow> Ok (res\<lparr>rp_Message := ''Failed to transpile: '' @ er\<rparr>)
           | Ret None jd \<Rightarrow>
               if jd_Status jd = FAILED then Ok (res\<lparr>rp_Message := ''Failed to transpile''\<rparr>)
               else qpu_section ?e jd res)
        else qpu_section ?e jd res) = Ok res'"
    using assms(1) unfolding transpile_section_def res_bind_eq_Ok by blast
  define res1 where "res1 = (case Marshal_config c of Ok t \<Rightarrow> res\<lparr>rp_TranspilerInfo := t\<rparr> | _ \<Rightarrow> res)"
  have st: "rp_Status res1 = ''failed''"
    using assms(2) by (simp add: res1_def split: res.split)
  show ?thesis
  proof (cases "TranspilerConfig_NeedTranspiling c")
    case False
    then show ?thesis
      using * st by (auto simp: Let_def simp flip: res1_def intro!: exI [of _ "jd\<lparr>jd_Transpiler := Some c\<rparr>"])
  next
    case True
    then obtain jd1 where "re_Transpile ?e (jd\<lparr>jd_Transpiler := Some c\<rparr>) = Ret None jd1" "qpu_section ?e jd1 res1 = Ok res'"
      using * st assms(3) by (auto simp: Let_def simp flip: res1_def split: outcome.splits option.splits if_splits)
    then show ?thesis
      using st Transpile_keeps_request [where jd' = jd1] by (fastforce simp: gateway_router_def)
  qed
qed

text \<open>
  C28: A request is answered with another status than \<open>failed\<close> only if it could be read, its number of
  shots is between one and the limit of the device, and the gateway executed the job successfully with
  the identifier and the number of shots of the request and with the transpiled program of the answer
  (the program of the request, if there is none). The answer is then \<open>succeeded\<close> and carries the counts
  and the message of the gateway.
\<close>

theorem TranspileAndExec_succeeded:
  assumes "TranspileAndExec (gateway_router g q service je m is_float) body = Ok res"
    and "rp_Status res \<noteq> ''failed''"
  shows "\<exists>u resp counts message stats vpMap. Unmarshal_request body = Ok (Some u) \<and>
    1 \<le> sint (ur_Shots u) \<and> sint (ur_Shots u) \<le> di_MaxShots (gq_currentDeviceInfo q) \<and>
    gw_CallJob g (ur_ID u) (of_int (sint (ur_Shots u)))
      (if rp_TranspiledQasm res = [] then ur_Qasm u else rp_TranspiledQasm res) = Ok resp \<and>
    cj_Status resp = JOB_STATUS_SUCCESS \<and> cj_Result resp = Some (counts, message) \<and>
    rp_Status res = ''succeeded'' \<and> rp_Message res = message \<and>
    rp_Result res = Marshal_router_result counts stats vpMap message"
proof -
  let ?e = "gateway_router g q service je m is_float"
  obtain j res0 where j: "toJob ?e body = Ok j" and shots: "validateShots (jd_Shots (Job_JobData j)) (re_GetDeviceInfo ?e) = None"
    and *: "transpile_section ?e body (Job_JobData j) res0 = Ok res" "rp_Status res0 = ''failed''"
    using assms by (fastforce simp: TranspileAndExec_def Let_def split: if_splits res.splits option.splits)
  from toJob_data [OF j] obtain u where u: "Unmarshal_request body = Ok (Some u)"
    "jd_ID (Job_JobData j) = ur_ID u" "jd_Shots (Job_JobData j) = sint (ur_Shots u)" "jd_QASM (Job_JobData j) = ur_Qasm u"
    by auto
  obtain jd1 res1 where "qpu_section ?e jd1 res1 = Ok res" "rp_Status res1 = ''failed''" "jd_ID jd1 = ur_ID u"
    "jd_Shots jd1 = sint (ur_Shots u)" "jd_QASM jd1 = ur_Qasm u"
    using transpile_section_status [OF * assms(2)] u by auto
  from qpu_section_status [OF this(1,2) assms(2)] this(3-5) shots u show ?thesis
    by (auto simp: validateShots_None gateway_router_def GatewayQPU_GetDeviceInfo_def) blast+
qed

text \<open>What the reading of the request and the transpiler do; none of it panics but for \<open>null\<close>.\<close>

lemma dec_transpiler_no_panic [simp]: "dec_transpiler kvs c \<noteq> Panic"
proof (induction kvs c rule: dec_transpiler.induct)
  case (2 k j kvs c)
  then show ?case
    by (cases j) (simp_all add: res_simps)
qed simp

lemma dec_no_panic [simp]: "dec_string j s \<noteq> Panic" "dec_uint j w \<noteq> Panic" "dec_config j tc \<noteq> Panic"
  by (cases j; simp add: res_simps split: res.split)+

lemma dec_request_no_panic [simp]: "dec_request kvs u \<noteq> Panic"
  by (induction kvs u rule: dec_request.induct) (simp_all add: res_simps)

lemma Unmarshal_request_no_panic [simp]: "Unmarshal_request body \<noteq> Panic"
  by (simp add: Unmarshal_request_def res_simps split: option.split json.split)

lemma Unmarshal_request_None: "Unmarshal_request body = Ok None \<longleftrightarrow> json_parse body = Some JNull"
  by (simp add: Unmarshal_request_def res_simps split: option.split json.split)

lemma dec_request_member:
  "dec_request kvs u = Ok u' \<Longrightarrow> (''transpiler_info'', j) \<in> set kvs \<Longrightarrow> \<exists>c c'. dec_config j c = Ok c'"
proof (induction kvs u rule: dec_request.induct)
  case (2 k i kvs u)
  show ?case
  proof (cases "k = ''transpiler_info'' \<and> i = j")
    case True
    have "ToLower ''transpiler_info'' = ''transpiler_info''"
      by (simp add: ToLower_def lower_char_def)
    then show ?thesis
      using True "2.prems"(1) by (auto simp: res_simps)
  next
    case False
    then have "(''transpiler_info'', j) \<in> set kvs"
      using "2.prems"(2) by auto
    then show ?thesis
      using 2 by (auto simp: res_simps split: if_splits)
  qed
qed simp

lemma useDefaultTranspiler_no_panic:
  assumes "Unmarshal_request body = Ok (Some u)"
  shows "router_useDefaultTranspiler is_float body \<noteq> Panic"
proof -
  obtain kvs where kvs: "json_parse body = Some (JObj kvs)" "dec_request kvs zero_UserReqData = Ok u"
    using assms by (auto simp: Unmarshal_request_def res_simps split: option.splits json.splits)
  have "use_default kvs \<noteq> Panic"
  proof (cases "map_of (rev kvs) ''transpiler_info''")
    case (Some j)
    then have "(''transpiler_info'', j) \<in> set kvs"
      by (auto dest: map_of_SomeD)
    then obtain c c' where "dec_config j c = Ok c'"
      using dec_request_member kvs(2) by blast
    then show ?thesis
      using Some by (cases j) (simp_all add: use_default_def)
  qed (simp add: use_default_def)
  then show ?thesis
    using kvs by (simp add: router_useDefaultTranspiler_def)
qed

lemma useDefaultTranspiler_Ok:
  assumes "Unmarshal_request body = Ok (Some u)"
  shows "\<exists>b. router_useDefaultTranspiler is_float body = Ok b"
proof -
  have "router_useDefaultTranspiler is_float body \<noteq> Err er" for er
    by (simp add: router_useDefaultTranspiler_def use_default_def split: option.split json.split)
  then show ?thesis
    using useDefaultTranspiler_no_panic [OF assms] by (cases "router_useDefaultTranspiler is_float body") auto
qed

abbreviation has_info :: "JobData \<Rightarrow> bool" where
  "has_info jd \<equiv> \<exists>r i. jd_Result jd = Some r \<and> rs_TranspilerInfo r = Some i"

lemma mapping_no_panic [simp]:
  "toVirtualPhysicalMappingFromString t \<noteq> Panic" "toPhysicalVirtualMappingFromString t \<noteq> Panic"
proof -
  have jm: "jmap_loop dec z n kvs m \<noteq> Panic" for dec :: "json \<Rightarrow> int option" and z n kvs m
    by (induction dec z n kvs m rule: jmap_loop.induct) (auto split: json.split)
  have jo: "jobject (Some j) \<noteq> Panic" for j
    by (cases j) simp_all
  have um: "Unmarshal_mapping t \<noteq> Panic"
    by (simp add: Unmarshal_mapping_def res_simps jm jo split: option.split)
  have "pvm_loop m pvm \<noteq> Panic" for m pvm
    by (induction m pvm rule: pvm_loop.induct) (simp_all add: res_simps)
  then show "toVirtualPhysicalMappingFromString t \<noteq> Panic" "toPhysicalVirtualMappingFromString t \<noteq> Panic"
    using um by (simp_all add: toVirtualPhysicalMappingFromString_def toPhysicalVirtualMappingFromString_def res_simps)
qed

lemma store_answer_has_info:
  assumes "has_info jd"
  shows "\<exists>err jd'. store_answer res jd = Ret err jd' \<and> has_info jd'"
  using assms
  by (auto simp: store_answer_def Let_def set_info_ok split: res.split)

lemma Transpile_has_info:
  assumes "has_info jd" and "jd_Transpiler jd = Some c" and "tc_TranspilerLib c = Some lib" and "\<And>rq. service rq \<noteq> Panic"
  shows "\<exists>err jd'. Tranqu_Transpile device service jd = Ret err jd' \<and> has_info jd'"
proof -
  have "Marshal_raw (tc_TranspilerOptions c) \<noteq> Panic"
    by (simp add: Marshal_raw_def split: option.split)
  then show ?thesis
    using assms store_answer_has_info [OF assms(1)]
    by (auto simp: Tranqu_Transpile_def split: res.split)
qed

text \<open>
  The job data that reach the QPU, if the request gets so far; the reply of the gateway to a job, and that
  it lacks the message \<open>Result\<close>, which the protocol leaves optional.
\<close>

definition qpu_job :: "router_env \<Rightarrow> string \<Rightarrow> JobData option" where
  "qpu_job e body =
    (case toJob e body of
       Ok j \<Rightarrow>
         if body = [] \<or> validateShots (jd_Shots (Job_JobData j)) (re_GetDeviceInfo e) \<noteq> None \<or>
            re_Validate e (jd_QASM (Job_JobData j)) \<noteq> None then None
         else
           (let c = (case (jd_Transpiler (Job_JobData j), router_useDefaultTranspiler (re_is_float e) body) of
                       (Some c, Ok False) \<Rightarrow> c | _ \<Rightarrow> DEFAULT_TRANSPILER_CONFIG);
                jd = (Job_JobData j)\<lparr>jd_Transpiler := Some c\<rparr> in
            if TranspilerConfig_NeedTranspiling c then
              (case re_Transpile e jd of
                 Ret None jd \<Rightarrow> if jd_Status jd = FAILED then None else Some jd
               | _ \<Rightarrow> None)
            else Some jd)
     | _ \<Rightarrow> None)"

definition gateway_reply :: "gw_env \<Rightarrow> JobData \<Rightarrow> CallJobResponse res" where
  "gateway_reply g jd = gw_CallJob g (jd_ID jd) (of_int (jd_Shots jd))
     (if jd_TranspiledQASM jd = [] then jd_QASM jd else jd_TranspiledQASM jd)"

definition lacks_result :: "CallJobResponse res \<Rightarrow> bool" where
  "lacks_result r = (case r of Ok resp \<Rightarrow> cj_Result resp = None \<and> (case cj_Status resp of OtherJobStatus _ \<Rightarrow> False | _ \<Rightarrow> True)
     | _ \<Rightarrow> False)"

lemma Send_has_info:
  assumes "has_info jd" and "ga_gatewayClient (gq_agent q)" and "\<And>i s p. gw_CallJob g i s p \<noteq> Panic"
  shows "if gq_connected q \<and> lacks_result (gateway_reply g jd) then \<exists>jd'. GatewayQPU_Send g q jd = Pan jd'
    else \<exists>err jd'. GatewayQPU_Send g q jd = Ret err jd' \<and> has_info jd'"
proof -
  obtain r i where r: "jd_Result jd = Some r" "rs_TranspilerInfo r = Some i"
    using assms(1) by blast
  have "gateway_reply g jd \<noteq> Panic"
    by (simp add: gateway_reply_def assms(3))
  then have "if lacks_result (gateway_reply g jd) then \<exists>jd'. Agent_CallJob g (gq_agent q) jd = Pan jd'
      else \<exists>err jd'. Agent_CallJob g (gq_agent q) jd = Ret err jd' \<and> has_info jd'"
    using r assms(2)
    by (cases "jd_TranspiledQASM jd = []"; cases "gateway_reply g jd")
      (auto simp: Agent_CallJob_def gateway_reply_def lacks_result_def Let_def derefP_def set_result_def
        split: JobStatus.splits option.split)
  then show ?thesis
    using r by (auto simp: GatewayQPU_Send_def SetFailureWithErrorToJobData_def set_result_def split: if_splits option.split)
qed

lemma qpu_section_panics:
  assumes "has_info jd" and "ga_gatewayClient (gq_agent q)" and "\<And>i s p. gw_CallJob g i s p \<noteq> Panic"
    and "re_Send e = GatewayQPU_Send g q"
  shows "qpu_section e jd res = Panic \<longleftrightarrow> gq_connected q \<and> lacks_result (gateway_reply g jd)"
  using Send_has_info [OF assms(1-3)] assms(4)
  by (auto simp: qpu_section_def fill_result_def Let_def split: option.splits if_splits)

lemma gateway_router_sel:
  "re_Send (gateway_router g q service je m is_float) = GatewayQPU_Send g q"
  "re_Transpile (gateway_router g q service je m is_float) =
    Tranqu_Transpile (di_DeviceInfoSpecJson (GatewayQPU_GetDeviceInfo q)) service"
  by (simp_all add: gateway_router_def)

lemma transpile_section_panics:
  assumes "has_info jd" and "ga_gatewayClient (gq_agent q)" and "\<And>i s p. gw_CallJob g i s p \<noteq> Panic"
    and "\<And>rq. service rq \<noteq> Panic" and "Unmarshal_request body = Ok (Some u)"
    and "e = gateway_router g q service je m is_float" and "toJob e body = Ok j" and "Job_JobData j = jd" and "body \<noteq> []"
    and "validateShots (jd_Shots jd) (re_GetDeviceInfo e) = None" and "re_Validate e (jd_QASM jd) = None"
  shows "transpile_section e body jd res = Panic \<longleftrightarrow>
    (\<exists>jd'. qpu_job e body = Some jd' \<and> gq_connected q \<and> lacks_result (gateway_reply g jd'))"
proof -
  obtain b where b: "router_useDefaultTranspiler (re_is_float e) body = Ok b"
    using useDefaultTranspiler_Ok [OF assms(5)] by blast
  define c where "c = (case jd_Transpiler jd of Some c \<Rightarrow> if b then DEFAULT_TRANSPILER_CONFIG else c
    | None \<Rightarrow> DEFAULT_TRANSPILER_CONFIG)"
  let ?jd = "jd\<lparr>jd_Transpiler := Some c\<rparr>"
  define res' where "res' = (case Marshal_config c of Ok t \<Rightarrow> res\<lparr>rp_TranspilerInfo := t\<rparr> | _ \<Rightarrow> res)"
  have config: "(case jd_Transpiler jd of
         None \<Rightarrow> Ok DEFAULT_TRANSPILER_CONFIG
       | Some c \<Rightarrow>
           res_bind (router_useDefaultTranspiler (re_is_float e) body) (\<lambda>b.
             Ok (if b then DEFAULT_TRANSPILER_CONFIG else c))) = Ok c"
    by (simp add: c_def b split: option.split)
  have sect: "transpile_section e body jd res =
      (if TranspilerConfig_NeedTranspiling c then
         (case re_Transpile e ?jd of
            Pan _ \<Rightarrow> Panic
          | Ret (Some er) _ \<Rightarrow> Ok (res'\<lparr>rp_Message := ''Failed to transpile: '' @ er\<rparr>)
          | Ret None jd \<Rightarrow> if jd_Status jd = FAILED then Ok (res'\<lparr>rp_Message := ''Failed to transpile''\<rparr>)
              else qpu_section e jd res')
       else qpu_section e ?jd res')"
    unfolding transpile_section_def config res_bind.simps Let_def res'_def by (rule refl)
  have job: "qpu_job e body =
      (if TranspilerConfig_NeedTranspiling c then
         (case re_Transpile e ?jd of Ret None jd \<Rightarrow> if jd_Status jd = FAILED then None else Some jd | _ \<Rightarrow> None)
       else Some ?jd)"
    using assms(7-11) b by (cases "jd_Transpiler jd"; cases b) (simp_all add: qpu_job_def c_def Let_def)
  have send: "re_Send e = GatewayQPU_Send g q"
    by (simp add: assms(6) gateway_router_sel)
  show ?thesis
  proof (cases "TranspilerConfig_NeedTranspiling c")
    case True
    then obtain lib where "tc_TranspilerLib c = Some lib"
      by (auto simp: TranspilerConfig_NeedTranspiling_def)
    then obtain err jd' where "re_Transpile e ?jd = Ret err jd'" "has_info jd'"
      using Transpile_has_info [of ?jd c lib service "di_DeviceInfoSpecJson (GatewayQPU_GetDeviceInfo q)"] assms(1,4)
      by (auto simp: assms(6) gateway_router_sel)
    then show ?thesis
      using True qpu_section_panics [OF _ assms(2,3) send, of jd'] by (cases err) (simp_all add: sect job)
  next
    case False
    then show ?thesis
      using qpu_section_panics [OF _ assms(2,3) send, of ?jd] assms(1) by (simp add: sect job)
  qed
qed

text \<open>
  C29: If the calls of the transpiler and of the gateway return (with an answer or an error), a request ends
  the engine in exactly two cases. Its text is the JSON value \<open>null\<close>: decoding leaves the pointer to the
  request nil, and \<open>toJobData\<close> follows it. Or the request reaches the connected gateway and the gateway's
  reply, with a known status, carries no \<open>Result\<close>: \<open>CallJob\<close> follows that pointer. Every other request
  is answered.
\<close>

theorem TranspileAndExec_panics:
  assumes "startCore_jobs = Ok m" and "\<And>rq. service rq \<noteq> Panic" and "ga_gatewayClient (gq_agent q)"
    and "\<And>i s p. gw_CallJob g i s p \<noteq> Panic"
  shows "TranspileAndExec (gateway_router g q service je m is_float) body = Panic \<longleftrightarrow>
    json_parse body = Some JNull \<or>
    (\<exists>jd. qpu_job (gateway_router g q service je m is_float) body = Some jd \<and> gq_connected q \<and>
      lacks_result (gateway_reply g jd))"
proof -
  let ?e = "gateway_router g q service je m is_float"
  have null: "toJob ?e body = Panic \<longleftrightarrow> json_parse body = Some JNull" if "body \<noteq> []"
    using that assms(1)
    by (auto simp: toJob_def toJobData_def gateway_router_def res_simps Let_def deref_def
        startCore_jobs_eq NewJobFromJobData_def default_type_def Kind_JobType_simps Unmarshal_request_None
        split: option.splits)
  have empty: "json_parse [] = None"
    by code_simp
  show ?thesis
  proof (cases "toJob ?e body")
    case (Ok j)
    obtain u where u: "Unmarshal_request body = Ok (Some u)" and info: "has_info (Job_JobData j)"
      using toJob_data [OF Ok] by (auto simp: NewJobData_def NewResult_def)
    show ?thesis
      using Ok null empty transpile_section_panics [OF info assms(3,4,2) u refl Ok refl]
      by (cases "body = []") (auto simp: TranspileAndExec_def qpu_job_def Let_def split: option.split)
  qed (use null empty in \<open>cases "body = []"; auto simp: TranspileAndExec_def qpu_job_def\<close>)+
qed

definition example_body :: json where
  "example_body = JObj [(''id'', JStr ''a''), (''qasm'', JStr ''p''), (''shots'', JNum ''5''),
     (''transpiler_info'', JObj [(''transpiler_lib'', JNull)])]"

definition example_router :: router_env where
  "example_router = gateway_router example_gw
     (example_qpu\<lparr>gq_currentDeviceInfo := zero_DeviceInfo\<lparr>di_MaxShots := 1000\<rparr>\<rparr>) (\<lambda>_. Ok example_answer) example_sse_env
     \<lparr>acceptableJobs = [SamplingK, SSEK, ManualK, EstimationK]\<rparr> (\<lambda>_. True)"

lemma example_body_parse: "json_parse (json_print example_body) = Some example_body"
  by (intro json_print_parse) (simp add: example_body_def scan_number_digit is_digit_def)

lemma example_request:
  "Unmarshal_request (json_print example_body) = Ok (Some \<lparr>ur_ID = ''a'', ur_Qasm = ''p'', ur_Shots = 5,
     ur_Transpiler = Some no_TranspilerConfig\<rparr>)"
  by (simp add: Unmarshal_request_def example_body_parse)
    (simp add: example_body_def ToLower_def lower_char_def zero_UserReqData_def no_TranspilerConfig_def
      ParseUint_def parse_uint_loop_digits is_digit_def digit_val_def)

lemma example_exec:
  "TranspileAndExec example_router (json_print example_body) = Ok \<lparr>rp_Status = ''succeeded'', rp_Message = ''ok'',
     rp_TranspilerInfo = json_print (JObj [(''transpiler_lib'', JNull), (''transpiler_options'', JNull)]),
     rp_TranspiledQasm = [], rp_Result = Marshal_router_result [(''00'', 5)] ''{}'' ''{}'' ''ok''\<rparr>"
proof -
  have ne: "json_print example_body \<noteq> []"
    by (simp add: example_body_def)
  let ?jd = "(NewJobData 9)\<lparr>jd_ID := ''a'', jd_QASM := ''p'', jd_Shots := 5, jd_Transpiler := Some no_TranspilerConfig,
     jd_JobType := ''sse''\<rparr>"
  have job: "toJob example_router (json_print example_body) = Ok (SSE (SSEJob_New ?jd))"
    using ne by (simp add: toJob_def toJobData_def example_request example_router_def gateway_router_def
        example_gw_def NewJobFromJobData_def Let_def default_type_def Kind_JobType_simps)
  have def: "router_useDefaultTranspiler (\<lambda>_. True) (json_print example_body) = Ok False"
    using ne by (simp add: router_useDefaultTranspiler_def example_body_parse)
      (simp add: example_body_def use_default_def)
  have "transpile_section example_router (json_print example_body) ?jd res = Ok (res\<lparr>rp_Status := ''succeeded'', rp_Message := ''ok'',
     rp_TranspilerInfo := json_print (JObj [(''transpiler_lib'', JNull), (''transpiler_options'', JNull)]),
     rp_TranspiledQasm := [], rp_Result := Marshal_router_result [(''00'', 5)] ''{}'' ''{}'' ''ok''\<rparr>)" for res
    using def
    by (simp add: transpile_section_def example_router_def gateway_router_def no_TranspilerConfig_def
        TranspilerConfig_NeedTranspiling_def Marshal_config_def qpu_section_def GatewayQPU_Send_def
        Agent_CallJob_def example_gw_def example_qpu_def NewGatewayAgent_def set_result_def NewJobData_def
        NewResult_def fill_result_def empty_TranspilerInfo_def raw_text_def Let_def)
  then show ?thesis
    using ne job by (simp add: TranspileAndExec_def Let_def SSEJob_New_def validateShots_def
        example_router_def gateway_router_def GatewayQPU_GetDeviceInfo_def GatewayQPU_Validate_def NewJobData_def)
qed

definition empty_reply_gw :: gw_env where
  "empty_reply_gw = example_gw\<lparr>gw_CallJob := (\<lambda>_ _ _. Ok \<lparr>cj_Status = JOB_STATUS_SUCCESS, cj_Result = None\<rparr>)\<rparr>"

lemma empty_reply_job:
  "qpu_job (gateway_router empty_reply_gw
      (example_qpu\<lparr>gq_currentDeviceInfo := zero_DeviceInfo\<lparr>di_MaxShots := 1000\<rparr>\<rparr>) (\<lambda>_. Ok example_answer) example_sse_env
      \<lparr>acceptableJobs = [SamplingK, SSEK, ManualK, EstimationK]\<rparr> (\<lambda>_. True)) (json_print example_body) \<noteq> None"
proof -
  have ne: "json_print example_body \<noteq> []"
    by (simp add: example_body_def)
  have def: "router_useDefaultTranspiler (\<lambda>_. True) (json_print example_body) = Ok False"
    using ne by (simp add: router_useDefaultTranspiler_def example_body_parse)
      (simp add: example_body_def use_default_def)
  show ?thesis
    using ne def
    by (simp add: qpu_job_def toJob_def toJobData_def example_request gateway_router_def empty_reply_gw_def
        example_gw_def NewJobFromJobData_def Let_def default_type_def Kind_JobType_simps SSEJob_New_def
        validateShots_def GatewayQPU_GetDeviceInfo_def GatewayQPU_Validate_def NewJobData_def no_TranspilerConfig_def
        TranspilerConfig_NeedTranspiling_def)
qed

theorem TranspileAndExec_panics_witness:
  "TranspileAndExec example_router ''null'' = Panic \<and>
   TranspileAndExec (gateway_router empty_reply_gw
      (example_qpu\<lparr>gq_currentDeviceInfo := zero_DeviceInfo\<lparr>di_MaxShots := 1000\<rparr>\<rparr>) (\<lambda>_. Ok example_answer) example_sse_env
      \<lparr>acceptableJobs = [SamplingK, SSEK, ManualK, EstimationK]\<rparr> (\<lambda>_. True)) (json_print example_body) = Panic"
proof -
  let ?q = "example_qpu\<lparr>gq_currentDeviceInfo := zero_DeviceInfo\<lparr>di_MaxShots := 1000\<rparr>\<rparr>"
  have q: "ga_gatewayClient (gq_agent ?q)" "gq_connected ?q"
    by (simp_all add: example_qpu_def)
  have g: "gw_CallJob example_gw i s p \<noteq> Panic" "gw_CallJob empty_reply_gw i s p \<noteq> Panic"
    "lacks_result (gateway_reply empty_reply_gw jd)" for i s p jd
    by (simp_all add: example_gw_def empty_reply_gw_def gateway_reply_def lacks_result_def)
  have "json_parse ''null'' = Some JNull"
    by code_simp
  then show ?thesis
    using TranspileAndExec_panics [OF startCore_jobs_eq _ q(1) g(1), of "\<lambda>_. Ok example_answer"]
      TranspileAndExec_panics [OF startCore_jobs_eq _ q(1) g(2), of "\<lambda>_. Ok example_answer"] empty_reply_job q(2) g(3)
    unfolding example_router_def by blast
qed

theorem TranspileAndExec_succeeded_witness:
  "\<exists>res u resp. TranspileAndExec example_router (json_print example_body) = Ok res \<and>
    rp_Status res = ''succeeded'' \<and> Unmarshal_request (json_print example_body) = Ok (Some u) \<and>
    gw_CallJob example_gw (ur_ID u) (of_int (sint (ur_Shots u))) ''p'' = Ok resp \<and>
    cj_Status resp = JOB_STATUS_SUCCESS"
proof -
  obtain res where res: "TranspileAndExec example_router (json_print example_body) = Ok res"
    and st: "rp_Status res \<noteq> ''failed''" "rp_TranspiledQasm res = []"
    using example_exec by auto
  from TranspileAndExec_succeeded [OF res [unfolded example_router_def] st(1)] show ?thesis
    using res st(2) example_request by auto
qed

end
