(* ===== verification/Metrics_Log.thy ===== *)
theory Metrics_Log
  imports Run_Group Go_Json
begin

text \<open>
  \<open>coreapp/log/metrics.go\<close> and \<open>log/version.go\<close>: the periodic task that logs the length of the queue,
  and its log file, a new one for every day.

  The files are a map from paths to contents. The operating system is the record \<open>os_env\<close> of one
  operation: the day and the time as texts, and the errors of its calls, if any. A file handle has a
  path and is open or closed; writing to a closed handle is an error, closing it twice too. The lock of
  the logger is held for the whole of \<open>Write\<close> and \<open>Close\<close>, so each is one step.
\<close>

section \<open>File paths\<close>

text \<open>\<open>filepath.Clean\<close> and \<open>filepath.Join\<close> on slash-separated paths.\<close>

fun split_slash :: "string \<Rightarrow> string list" where
  "split_slash [] = [[]]"
| "split_slash (c # s) =
    (if c = CHR ''/'' then [] # split_slash s
     else (case split_slash s of [] \<Rightarrow> [[c]] | x # xs \<Rightarrow> (c # x) # xs))"

fun join_slash :: "string list \<Rightarrow> string" where
  "join_slash [] = []"
| "join_slash [x] = x"
| "join_slash (x # y # xs) = x @ ''/'' @ join_slash (y # xs)"

text \<open>The elements of a path without \<open>.\<close> and with \<open>..\<close> resolved, last element first.\<close>

fun clean_loop :: "bool \<Rightarrow> string list \<Rightarrow> string list \<Rightarrow> string list" where
  "clean_loop rooted [] out = out"
| "clean_loop rooted (x # xs) out =
    (if x = [] \<or> x = ''.'' then clean_loop rooted xs out
     else if x = ''..'' then
       (if out \<noteq> [] \<and> hd out \<noteq> ''..'' then clean_loop rooted xs (tl out)
        else if rooted then clean_loop rooted xs out
        else clean_loop rooted xs (''..'' # out))
     else clean_loop rooted xs (x # out))"

definition Clean :: "string \<Rightarrow> string" where
  "Clean path =
    (if path = [] then ''.''
     else
       (let rooted = (hd path = CHR ''/'');
            body = join_slash (rev (clean_loop rooted (split_slash path) [])) in
        if rooted then ''/'' @ body else if body = [] then ''.'' else body))"

definition Join :: "string \<Rightarrow> string \<Rightarrow> string" where
  "Join dir name =
    (if dir = [] then (if name = [] then [] else Clean name) else Clean (dir @ ''/'' @ name))"

section \<open>The daily log file\<close>

record handle =
  hd_path :: string
  hd_open :: bool

record os_env =
  os_day :: string
  os_time :: string
  os_Open :: "string \<Rightarrow> error option"
  os_Write :: "string \<Rightarrow> error option"

type_synonym files = "string \<Rightarrow> string option"

record dailyLogger =
  dl_fileDir :: string
  dl_currentFileName :: string
  dl_file :: "handle option"

definition newDailyLogger :: "string \<Rightarrow> dailyLogger" where
  "newDailyLogger fileDir = \<lparr>dl_fileDir = fileDir, dl_currentFileName = [], dl_file = None\<rparr>"

definition append_file :: "string \<Rightarrow> string \<Rightarrow> files \<Rightarrow> files" where
  "append_file path p fs = fs(path \<mapsto> (case fs path of None \<Rightarrow> [] | Some c \<Rightarrow> c) @ p)"

definition File_Write :: "os_env \<Rightarrow> string \<Rightarrow> handle \<Rightarrow> files \<Rightarrow> files \<times> error option" where
  "File_Write e p h fs =
    (if \<not> hd_open h then (fs, Some ''file already closed'')
     else
       (case os_Write e (hd_path h) of
          Some er \<Rightarrow> (fs, Some er)
        | None \<Rightarrow> (append_file (hd_path h) p fs, None)))"

definition metrics_file :: "string \<Rightarrow> string" where
  "metrics_file day = ''metrics-'' @ day @ ''.log''"

text \<open>Opening creates the file if there is none. If opening fails, \<open>dl.file\<close> is nil.\<close>

definition dailyLogger_Write ::
  "os_env \<Rightarrow> string \<Rightarrow> dailyLogger \<times> files \<Rightarrow> (dailyLogger \<times> files) \<times> error option" where
  "dailyLogger_Write e p s =
    (let (dl, fs) = s;
         fileName = metrics_file (os_day e);
         filePath = Join (dl_fileDir dl) fileName;
         currentFilePath = Join (dl_fileDir dl) (dl_currentFileName dl);
         opened =
           (if dl_file dl = None \<or> currentFilePath \<noteq> filePath then
              (case os_Open e filePath of
                 Some er \<Rightarrow> Inl (dl\<lparr>dl_file := None\<rparr>, er)
               | None \<Rightarrow>
                   Inr (dl\<lparr>dl_file := Some \<lparr>hd_path = filePath, hd_open = True\<rparr>, dl_currentFileName := fileName\<rparr>,
                        append_file filePath [] fs))
            else Inr (dl, fs)) in
     case opened of
       Inl (dl, er) \<Rightarrow> ((dl, fs), Some er)
     | Inr (dl, fs) \<Rightarrow>
         (case dl_file dl of
            None \<Rightarrow> ((dl, fs), Some ''invalid argument'')
          | Some h \<Rightarrow> (case File_Write e p h fs of (fs, err) \<Rightarrow> ((dl, fs), err))))"

definition dailyLogger_Close :: "dailyLogger \<Rightarrow> dailyLogger \<times> error option" where
  "dailyLogger_Close dl =
    (case dl_file dl of
       None \<Rightarrow> (dl, None)
     | Some h \<Rightarrow>
         if hd_open h then (dl\<lparr>dl_file := Some (h\<lparr>hd_open := False\<rparr>)\<rparr>, None)
         else (dl, Some ''file already closed''))"

section \<open>The task\<close>

text \<open>
  The JSON handler of \<open>slog\<close> writes one line to the logger. \<open>queue_length\<close> stands for the system
  components, which \<open>Setup\<close> stores; before that, the task follows a nil pointer.
\<close>

record MetricsLogTaskImpl =
  ml_FileDir :: string
  ml_dl :: "dailyLogger option"
  ml_sc :: bool
  ml_files :: files

record metrics_env = os_env +
  me_queue_length :: int

definition metrics_line :: "metrics_env \<Rightarrow> string" where
  "metrics_line e =
    json_print (JObj [(''time'', JStr (os_time e)), (''level'', JStr ''INFO''), (''msg'', JStr ''Metrics''),
      (''queue_length'', enc_int (me_queue_length e))]) @ [CHR 0x0A]"

text \<open>\<open>common.IsDirWritable\<close>: what \<open>os.Stat\<close> says, and the errors of making and removing a temporary file.\<close>

datatype stat_result = NotExist | StatError error | IsDirectory | IsFile

record dir_env =
  de_Stat :: "string \<Rightarrow> stat_result"
  de_CreateTemp :: "string \<Rightarrow> error option"
  de_Remove :: "string \<Rightarrow> error option"
  de_components :: bool

definition IsDirWritable :: "dir_env \<Rightarrow> string \<Rightarrow> error option" where
  "IsDirWritable e dirPath =
    (case de_Stat e dirPath of
       NotExist \<Rightarrow> Some (''directory does not exist: '' @ dirPath)
     | StatError er \<Rightarrow> Some er
     | IsFile \<Rightarrow> Some (dirPath @ '' is not a directory'')
     | IsDirectory \<Rightarrow>
         (case de_CreateTemp e dirPath of
            Some _ \<Rightarrow> Some (''write permission denied for directory: '' @ dirPath)
          | None \<Rightarrow>
              (case de_Remove e dirPath of
                 Some er \<Rightarrow> Some (''failed to remove temporary file: '' @ er)
               | None \<Rightarrow> None)))"

definition setupMetricsLogTask :: "dir_env \<Rightarrow> string \<Rightarrow> dailyLogger res" where
  "setupMetricsLogTask e fileDir =
    (case IsDirWritable e fileDir of
       Some er \<Rightarrow> Err (''failed to write to '' @ fileDir @ '': '' @ er)
     | None \<Rightarrow> Ok (newDailyLogger fileDir))"

definition Metrics_Setup ::
  "dir_env \<Rightarrow> MetricsLogTaskImpl \<Rightarrow> (MetricsLogTaskImpl, error option) outcome" where
  "Metrics_Setup e m =
    (case setupMetricsLogTask e (ml_FileDir m) of
       Err er \<Rightarrow> Ret (Some er) m
     | Panic \<Rightarrow> Pan m
     | Ok dl \<Rightarrow> Ret None (m\<lparr>ml_dl := Some dl, ml_sc := de_components e\<rparr>))"

definition Metrics_SetParams :: "tval option \<Rightarrow> MetricsLogTaskImpl \<Rightarrow> (MetricsLogTaskImpl, error option) outcome" where
  "Metrics_SetParams p m =
    (case p of
       None \<Rightarrow> Ret None m
     | Some v \<Rightarrow>
         (case as_table (Some v) of
            None \<Rightarrow> Ret (Some ''failed to set params for metrics log task'') m
          | Some mp \<Rightarrow>
              (case as_string (map_of mp ''file_dir'') of
                 Some fileDir \<Rightarrow> Ret None (m\<lparr>ml_FileDir := fileDir\<rparr>)
               | None \<Rightarrow> Ret None m)))"

text \<open>The error of the logger is dropped by \<open>slog.Info\<close>.\<close>

definition Metrics_Task :: "metrics_env \<Rightarrow> MetricsLogTaskImpl \<Rightarrow> (MetricsLogTaskImpl, unit) outcome" where
  "Metrics_Task e m =
    (if \<not> ml_sc m then Pan m
     else
       (case ml_dl m of
          None \<Rightarrow> Ret () m
        | Some dl \<Rightarrow>
            (case dailyLogger_Write (os_env.truncate e) (metrics_line e) (dl, ml_files m) of
               ((dl, fs), _) \<Rightarrow> Ret () (m\<lparr>ml_dl := Some dl, ml_files := fs\<rparr>))))"

text \<open>\<open>Cleanup\<close> without a logger: \<open>Close\<close> locks the mutex of a nil logger. It runs only after \<open>Setup\<close>.\<close>

definition Metrics_Cleanup :: "MetricsLogTaskImpl \<Rightarrow> MetricsLogTaskImpl" where
  "Metrics_Cleanup m =
    (case ml_dl m of None \<Rightarrow> m | Some dl \<Rightarrow> m\<lparr>ml_dl := Some (fst (dailyLogger_Close dl))\<rparr>)"

definition metrics_task :: "(metrics_env, MetricsLogTaskImpl) PeriodicTaskImpl" where
  "metrics_task =
    \<lparr>pt_RequirePeriodUpdate = pt_RequirePeriodUpdate (DefaultTaskImpl :: (metrics_env, MetricsLogTaskImpl) PeriodicTaskImpl),
     pt_Task = Metrics_Task, pt_Cleanup = Metrics_Cleanup\<rparr>"

definition metrics_impl :: "(dir_env, MetricsLogTaskImpl) RunnerImpl" where
  "metrics_impl = \<lparr>ri_SetParams = Metrics_SetParams, ri_Setup = Metrics_Setup\<rparr>"

interpretation metrics: periodic_task metrics_task "\<lambda>_. True" ml_sc
  by unfold_locales
    (auto simp: metrics_task_def DefaultTaskImpl_def Metrics_Task_def split: option.split prod.split)

section \<open>Every line is in the file of its day\<close>

abbreviation simple_name :: "string \<Rightarrow> bool" where
  "simple_name s \<equiv> s \<noteq> [] \<and> s \<noteq> ''.'' \<and> s \<noteq> ''..'' \<and> CHR ''/'' \<notin> set s"

lemma split_slash_not_Nil [simp]: "split_slash s \<noteq> []"
  by (induction s) (auto split: list.split)

lemma split_slash_append: "split_slash (d @ CHR ''/'' # s) = split_slash d @ split_slash s"
proof (induction d)
  case (Cons c d)
  then show ?case
    by (cases "split_slash d") auto
qed simp

lemma split_slash_simple: "CHR ''/'' \<notin> set s \<Longrightarrow> split_slash s = [s]"
  by (induction s) auto

lemma clean_loop_append: "clean_loop r (xs @ ys) out = clean_loop r ys (clean_loop r xs out)"
  by (induction r xs out rule: clean_loop.induct) auto

lemma clean_loop_simple: "simple_name s \<Longrightarrow> clean_loop r [s] out = s # out"
  by simp

lemma join_slash_snoc: "join_slash (xs @ [s]) = (if xs = [] then s else join_slash xs @ ''/'' @ s)"
  by (induction xs rule: join_slash.induct) auto

lemma Join_simple: "\<exists>pre. \<forall>s. simple_name s \<longrightarrow> Join dir s = pre @ s"
proof (cases "dir = []")
  case True
  have "Join dir s = [] @ s" if "simple_name s" for s
  proof -
    have "hd s \<noteq> CHR ''/''"
      using that by (cases s) auto
    then show ?thesis
      using that True by (simp add: Join_def Clean_def Let_def split_slash_simple)
  qed
  then show ?thesis
    by blast
next
  case False
  define r where "r = (hd dir = CHR ''/'')"
  define xs where "xs = rev (clean_loop r (split_slash dir) [])"
  have "Join dir s = ((if r then ''/'' else []) @ (if xs = [] then [] else join_slash xs @ ''/'')) @ s"
    if "simple_name s" for s
  proof -
    have "join_slash (rev (clean_loop r (split_slash (dir @ ''/'' @ s)) [])) =
        (if xs = [] then s else join_slash xs @ ''/'' @ s)"
      using that by (simp add: split_slash_append split_slash_simple clean_loop_append xs_def join_slash_snoc)
    moreover have "(if xs = [] then s else join_slash xs @ ''/'' @ s) \<noteq> []"
      using that by simp
    ultimately show ?thesis
      using False by (cases r) (simp_all add: Join_def Clean_def Let_def r_def split: if_splits)
  qed
  then show ?thesis
    by blast
qed

lemma Join_inject: "simple_name s \<Longrightarrow> simple_name t \<Longrightarrow> Join dir s = Join dir t \<longleftrightarrow> s = t"
proof -
  obtain pre where "simple_name u \<Longrightarrow> Join dir u = pre @ u" for u
    using Join_simple [of dir] by blast
  then show "simple_name s \<Longrightarrow> simple_name t \<Longrightarrow> ?thesis"
    by simp
qed

lemma metrics_file_simple: "CHR ''/'' \<notin> set d \<Longrightarrow> simple_name (metrics_file d)"
  by (simp add: metrics_file_def)

lemma metrics_file_inject [simp]: "metrics_file d = metrics_file d' \<longleftrightarrow> d = d'"
  by (simp add: metrics_file_def)

definition dl_inv :: "string \<Rightarrow> dailyLogger \<Rightarrow> bool" where
  "dl_inv dir dl \<longleftrightarrow> dl_fileDir dl = dir \<and>
    (case dl_file dl of
       None \<Rightarrow> True
     | Some h \<Rightarrow> hd_open h \<and> hd_path h = Join dir (dl_currentFileName dl) \<and>
         (\<exists>d. CHR ''/'' \<notin> set d \<and> dl_currentFileName dl = metrics_file d))"

definition os_ok :: "os_env \<Rightarrow> bool" where
  "os_ok e \<longleftrightarrow> CHR ''/'' \<notin> set (os_day e) \<and> (\<forall>path. os_Open e path = None \<and> os_Write e path = None)"

lemma append_file_twice [simp]: "append_file path p (append_file path [] fs) = append_file path p fs"
  by (simp add: append_file_def)

lemma Write_daily:
  assumes "dl_inv dir dl" and "os_ok e"
  shows "\<exists>dl'. dailyLogger_Write e p (dl, fs) =
      ((dl', append_file (Join dir (metrics_file (os_day e))) p fs), None) \<and> dl_inv dir dl'"
proof (cases "dl_file dl = None \<or> Join dir (dl_currentFileName dl) \<noteq> Join dir (metrics_file (os_day e))")
  case True
  let ?n = "metrics_file (os_day e)"
  let ?dl = "dl\<lparr>dl_file := Some \<lparr>hd_path = Join dir ?n, hd_open = True\<rparr>, dl_currentFileName := ?n\<rparr>"
  have "dailyLogger_Write e p (dl, fs) = ((?dl, append_file (Join dir ?n) p fs), None)"
    using True assms by (simp add: dailyLogger_Write_def Let_def dl_inv_def os_ok_def File_Write_def)
  moreover have "dl_inv dir ?dl"
    using assms by (auto simp: dl_inv_def os_ok_def)
  ultimately show ?thesis
    by blast
next
  case False
  then obtain h d where h: "dl_file dl = Some h" "hd_open h" "hd_path h = Join dir (dl_currentFileName dl)"
    using assms(1) by (auto simp: dl_inv_def)
  have "dailyLogger_Write e p (dl, fs) = ((dl, append_file (Join dir (metrics_file (os_day e))) p fs), None)"
    using False h assms by (simp add: dailyLogger_Write_def Let_def dl_inv_def os_ok_def File_Write_def)
  then show ?thesis
    using assms(1) by blast
qed

text \<open>A sequence of writes, each at its own time, and what a file holds.\<close>

fun write_all :: "(os_env \<times> string) list \<Rightarrow> dailyLogger \<times> files \<Rightarrow> (dailyLogger \<times> files) \<times> error option list" where
  "write_all [] s = (s, [])"
| "write_all ((e, p) # ws) s =
    (let (s, err) = dailyLogger_Write e p s; (s, errs) = write_all ws s in (s, err # errs))"

definition text_of :: "files \<Rightarrow> string \<Rightarrow> string" where
  "text_of fs path = (case fs path of None \<Rightarrow> [] | Some c \<Rightarrow> c)"

lemma text_of_append_file: "text_of (append_file q p fs) path = text_of fs path @ (if q = path then p else [])"
  by (simp add: text_of_def append_file_def)

lemma write_all_daily:
  assumes "dl_inv dir dl" and "list_all (\<lambda>(e, p). os_ok e) ws" and "CHR ''/'' \<notin> set d"
  shows "\<exists>dl' fs'. write_all ws (dl, fs) = ((dl', fs'), replicate (length ws) None) \<and> dl_inv dir dl' \<and>
    text_of fs' (Join dir (metrics_file d)) =
      text_of fs (Join dir (metrics_file d)) @ concat (map snd (filter (\<lambda>(e, p). os_day e = d) ws))"
  using assms(1,2)
proof (induction ws arbitrary: dl fs)
  case (Cons w ws)
  obtain e p where w: "w = (e, p)"
    by (cases w)
  have e: "os_ok e"
    using Cons.prems(2) w by simp
  let ?fs = "append_file (Join dir (metrics_file (os_day e))) p fs"
  obtain dl1 where dl1: "dailyLogger_Write e p (dl, fs) = ((dl1, ?fs), None)" "dl_inv dir dl1"
    using Write_daily [OF Cons.prems(1) e] by blast
  have "Join dir (metrics_file (os_day e)) = Join dir (metrics_file d) \<longleftrightarrow> os_day e = d"
    using e assms(3) by (simp add: Join_inject metrics_file_simple os_ok_def)
  then show ?case
    using Cons.IH [OF dl1(2), of ?fs] Cons.prems(2) w dl1(1) by (auto simp: text_of_append_file)
qed simp

text \<open>
  As long as the operating system reports no errors, every write of the metrics log succeeds, and the
  file of a day holds, after what it held before, exactly the lines written on that day, in order: no
  line is lost or put into another day's file when the day changes. At any time the logger has one file
  open, which is the file it last wrote to.
\<close>

theorem metrics_daily_files:
  assumes "list_all (\<lambda>(e, p). os_ok e) ws" and "CHR ''/'' \<notin> set d"
  shows "\<exists>dl fs'. write_all ws (newDailyLogger dir, fs) = ((dl, fs'), replicate (length ws) None) \<and>
    dl_inv dir dl \<and>
    text_of fs' (Join dir (metrics_file d)) =
      text_of fs (Join dir (metrics_file d)) @ concat (map snd (filter (\<lambda>(e, p). os_day e = d) ws))"
proof -
  have "dl_inv dir (newDailyLogger dir)"
    by (simp add: newDailyLogger_def dl_inv_def)
  then show ?thesis
    using write_all_daily assms by blast
qed

definition example_os :: "string \<Rightarrow> os_env" where
  "example_os day = \<lparr>os_day = day, os_time = [], os_Open = (\<lambda>_. None), os_Write = (\<lambda>_. None)\<rparr>"

theorem metrics_daily_files_witness:
  "\<exists>s. write_all [(example_os ''2024-01-01'', ''a''), (example_os ''2024-01-02'', ''b''),
      (example_os ''2024-01-02'', ''c'')] (newDailyLogger ''/log/x/../'', \<lambda>_. None) = (s, [None, None, None]) \<and>
    text_of (snd s) ''/log/metrics-2024-01-02.log'' = ''bc''"
proof -
  let ?ws = "[(example_os ''2024-01-01'', ''a''), (example_os ''2024-01-02'', ''b''), (example_os ''2024-01-02'', ''c'')]"
  have "list_all (\<lambda>(e, p). os_ok e) ?ws"
    by (simp add: os_ok_def example_os_def)
  moreover have "Join ''/log/x/../'' (metrics_file ''2024-01-02'') = ''/log/metrics-2024-01-02.log''"
    by code_simp
  ultimately show ?thesis
    using metrics_daily_files [of ?ws "''2024-01-02''" "''/log/x/../''" "\<lambda>_. None"]
    by (auto simp: text_of_def example_os_def)
qed

text \<open>After \<open>Close\<close> a write on the same day is lost: the closed handle is kept.\<close>

lemma write_after_close:
  assumes "dl_inv dir dl" and "dl_file dl = Some h" and "dl_currentFileName dl = metrics_file (os_day e)"
  shows "dailyLogger_Write e p (fst (dailyLogger_Close dl), fs) =
    ((fst (dailyLogger_Close dl), fs), Some ''file already closed'')"
  using assms by (simp add: dl_inv_def dailyLogger_Close_def dailyLogger_Write_def File_Write_def Let_def)

end
