(* ===== verification/Engine.thy ===== *)
theory Engine
  imports Job_Reports SSE_Router Metrics_Log
begin

text \<open>
  The start of the engine: the system components of \<open>coreapp/core/syscomponent.go\<close> and the command
  \<open>poller\<close> of \<open>coreapp/cmd/edge/main.go\<close>.

  The dependency-injection container builds a component at its first use, so that an unknown name is
  an error of \<open>Setup\<close>; its error message is kept without the prefix that the container adds.
  \<open>boot_env\<close> holds what the components meet outside the program during the start. The run group
  itself (package \<open>oklog/run\<close>) is an argument: the error, if any, with which it ends. The command line,
  the logger and the exit status are in \<open>Edge_Main\<close>.
\<close>

section \<open>The components\<close>

record DummyQPU =
  dq_deviceSetting :: DeviceSetting
  dq_EnableDummyQPUTimeInsertion :: bool
  dq_DummyQPUTime :: int

definition DummyQPU_Setup :: "Conf \<Rightarrow> DummyQPU" where
  "DummyQPU_Setup conf =
    \<lparr>dq_deviceSetting = NewDeviceSetting, dq_EnableDummyQPUTimeInsertion = cf_EnableDummyQPUTimeInsertion conf,
     dq_DummyQPUTime = cf_DummyQPUTime conf\<rparr>"

datatype QPUManager = Dummy "DummyQPU option" | Gateway GatewayQPU

datatype DBManager = Memory "Job MemoryDB option" | Service ServiceDB

record DIContainerParameters =
  dp_DBManager :: string
  dp_Transpiler :: string
  dp_QPU :: string

definition provide_QPU :: "DIContainerParameters \<Rightarrow> QPUManager res" where
  "provide_QPU p =
    (if dp_QPU p = ''dummy'' then Ok (Dummy None)
     else if dp_QPU p = ''gateway'' then
       Ok (Gateway \<lparr>gq_agent = NewGatewayAgent, gq_deviceSetting = NewDeviceSetting, gq_connected = False,
         gq_currentDeviceInfo = zero_DeviceInfo\<rparr>)
     else Err (dp_QPU p @ '' is an unknown QPU''))"

definition provide_Transpiler :: "DIContainerParameters \<Rightarrow> Tranqu res" where
  "provide_Transpiler p =
    (if dp_Transpiler p = ''tranqu'' then
       Ok \<lparr>tq_setting = \<lparr>tq_Host = [], tq_Port = []\<rparr>, tq_address = [], tq_connected = False\<rparr>
     else Err (dp_Transpiler p @ '' is an unknown Transpiler''))"

definition provide_DB :: "DIContainerParameters \<Rightarrow> DBManager res" where
  "provide_DB p =
    (if dp_DBManager p = ''memory'' then Ok (Memory None)
     else if dp_DBManager p = ''service'' then Ok (Service \<lparr>sd_endpoint = [], sd_apiKey = [], sd_client = False\<rparr>)
     else Err (dp_DBManager p @ '' is an unknown DB''))"

record 'q boot_env =
  be_FIFO :: "('q, nat) FIFO"
  be_GRPCConnection :: "string \<Rightarrow> error option"
  be_gw :: gw_env
  be_db :: db_env
  be_LoadDeviceSetting :: "string \<Rightarrow> DeviceSetting res"
  be_Listen :: "string \<Rightarrow> error option"
  be_RouterHost :: string
  be_RouterPort :: int

text \<open>The components that are set up so far; \<open>sc_ready\<close> is the global variable \<open>systemComponents\<close>.\<close>

record 'q SystemComponents =
  sc_Transpiler :: "Tranqu option"
  sc_Scheduler :: "('q, Job) sched option"
  sc_DB :: "DBManager option"
  sc_QPU :: "QPUManager option"
  sc_Router :: "SSEGRPCServer option"
  sc_DBChan_open :: bool
  sc_ready :: bool

definition NewSystemComponents :: "'q SystemComponents" where
  "NewSystemComponents =
    \<lparr>sc_Transpiler = None, sc_Scheduler = None, sc_DB = None, sc_QPU = None, sc_Router = None,
     sc_DBChan_open = True, sc_ready = False\<rparr>"

section \<open>Setting up\<close>

text \<open>\<open>Invoke\<close> of one setup function, then the rest if there was no error.\<close>

definition invoke ::
  "('s, error option) outcome \<Rightarrow> ('s \<Rightarrow> ('s, error option) outcome) \<Rightarrow> ('s, error option) outcome" where
  "invoke m rest = bindP m (\<lambda>err s. case err of Some er \<Rightarrow> Ret (Some er) s | None \<Rightarrow> rest s)"

definition lift_res :: "'a res \<Rightarrow> ('a \<Rightarrow> ('s, error option) outcome) \<Rightarrow> 's \<Rightarrow> ('s, error option) outcome" where
  "lift_res r f s = (case r of Ok a \<Rightarrow> f a | Err er \<Rightarrow> Ret (Some er) s | Panic \<Rightarrow> Pan s)"

definition setup_Transpiler ::
  "'q boot_env \<Rightarrow> DIContainerParameters \<Rightarrow> Setting option \<Rightarrow> 'q SystemComponents \<Rightarrow> ('q SystemComponents, error option) outcome" where
  "setup_Transpiler e p g s =
    lift_res (provide_Transpiler p)
      (\<lambda>t. on_part (\<lambda>t s. s\<lparr>sc_Transpiler := Some t\<rparr>) s (Tranqu_Setup g (be_GRPCConnection e) t)) s"

definition setup_Scheduler :: "'q boot_env \<Rightarrow> Conf \<Rightarrow> 'q SystemComponents \<Rightarrow> ('q SystemComponents, error option) outcome" where
  "setup_Scheduler e conf s =
    Ret None (s\<lparr>sc_Scheduler := Some (NormalScheduler_Setup (be_FIFO e) (cf_QueueMaxSize conf) (cf_QueueRefillThreshold conf))\<rparr>)"

definition setup_DB ::
  "'q boot_env \<Rightarrow> DIContainerParameters \<Rightarrow> Conf \<Rightarrow> 'q SystemComponents \<Rightarrow> ('q SystemComponents, error option) outcome" where
  "setup_DB e p conf s =
    lift_res (provide_DB p)
      (\<lambda>d. case d of
         Memory _ \<Rightarrow> Ret None (s\<lparr>sc_DB := Some (Memory (Some MemoryDB_Setup))\<rparr>)
       | Service d \<Rightarrow>
           (case ServiceDB_Setup (be_db e) conf d of
              (d, err) \<Rightarrow> Ret err (s\<lparr>sc_DB := Some (Service d)\<rparr>))) s"

definition setup_QPU ::
  "'q boot_env \<Rightarrow> DIContainerParameters \<Rightarrow> Setting option \<Rightarrow> Conf \<Rightarrow> 'q SystemComponents \<Rightarrow>
   ('q SystemComponents, error option) outcome" where
  "setup_QPU e p g conf s =
    lift_res (provide_QPU p)
      (\<lambda>q. case q of
         Dummy _ \<Rightarrow> Ret None (s\<lparr>sc_QPU := Some (Dummy (Some (DummyQPU_Setup conf)))\<rparr>)
       | Gateway q \<Rightarrow>
           on_part (\<lambda>q s. s\<lparr>sc_QPU := Some (Gateway q)\<rparr>) s
             (GatewayQPU_Setup (be_gw e) g (be_LoadDeviceSetting e (cf_DeviceSettingPath conf)) q)) s"

definition setup_Router :: "'q boot_env \<Rightarrow> 'q SystemComponents \<Rightarrow> ('q SystemComponents, error option) outcome" where
  "setup_Router e s =
    (case SSEGRPCServer_Setup (be_Listen e) (be_RouterHost e) (be_RouterPort e) \<lparr>gs_listening = None\<rparr> of
       (r, err) \<Rightarrow> Ret err (s\<lparr>sc_Router := Some r\<rparr>))"

definition SystemComponents_Setup ::
  "'q boot_env \<Rightarrow> DIContainerParameters \<Rightarrow> Setting option \<Rightarrow> Conf \<Rightarrow> 'q SystemComponents \<Rightarrow>
   ('q SystemComponents, error option) outcome" where
  "SystemComponents_Setup e p g conf s =
    invoke (setup_Transpiler e p g s) (\<lambda>s.
    invoke (setup_Scheduler e conf s) (\<lambda>s.
    invoke (setup_DB e p conf s) (\<lambda>s.
    invoke (setup_QPU e p g conf s) (\<lambda>s.
    invoke (setup_Router e s) (\<lambda>s.
      Ret None (s\<lparr>sc_ready := True\<rparr>))))))"

definition Tranqu_TearDown :: "Tranqu \<Rightarrow> Tranqu" where
  "Tranqu_TearDown t = t\<lparr>tq_connected := False\<rparr>"

definition SystemComponents_TearDown :: "'q SystemComponents \<Rightarrow> 'q SystemComponents" where
  "SystemComponents_TearDown s =
    s\<lparr>sc_Transpiler := map_option Tranqu_TearDown (sc_Transpiler s),
      sc_Router := map_option SSEGRPCServer_TearDown (sc_Router s), sc_DBChan_open := False\<rparr>"

definition SystemComponents_GetDeviceInfo :: "'q SystemComponents \<Rightarrow> DeviceInfo option" where
  "SystemComponents_GetDeviceInfo s =
    (case sc_QPU s of
       None \<Rightarrow> None
     | Some (Dummy _) \<Rightarrow> Some DummyQPU_GetDeviceInfo
     | Some (Gateway q) \<Rightarrow> Some (GatewayQPU_GetDeviceInfo q))"

definition SystemComponents_GetCurrentQueueSize :: "('q, nat) FIFO \<Rightarrow> 'q SystemComponents \<Rightarrow> nat" where
  "SystemComponents_GetCurrentQueueSize fq s =
    (case sc_Scheduler s of None \<Rightarrow> 0 | Some sch \<Rightarrow> NormalScheduler_GetCurrentQueueSize fq sch)"

definition SystemComponents_IsQueueOverRefillThreshold :: "('q, nat) FIFO \<Rightarrow> 'q SystemComponents \<Rightarrow> bool" where
  "SystemComponents_IsQueueOverRefillThreshold fq s =
    (case sc_Scheduler s of None \<Rightarrow> False | Some sch \<Rightarrow> NormalScheduler_IsOverRefillThreshold fq sch)"

section \<open>The tasks of the run group\<close>

datatype TaskImpl = PollerT Poller | VersionT | MetricsT MetricsLogTaskImpl

record task_env =
  te_ParseDuration :: "string \<Rightarrow> duration res"
  te_NewClient :: "string \<Rightarrow> error option"
  te_dir :: dir_env

fun Task_SetParams :: "(string \<Rightarrow> duration res) \<Rightarrow> tval option \<Rightarrow> TaskImpl \<Rightarrow> (TaskImpl, error option) outcome" where
  "Task_SetParams pd v (PollerT t) = wrap PollerT (Poller_SetParams pd v t)"
| "Task_SetParams pd v VersionT = DefaultTaskImpl_SetParams v VersionT"
| "Task_SetParams pd v (MetricsT t) = wrap MetricsT (Metrics_SetParams v t)"

fun Task_Setup :: "task_env \<Rightarrow> TaskImpl \<Rightarrow> (TaskImpl, error option) outcome" where
  "Task_Setup e (PollerT t) = wrap PollerT (Poller_Setup (te_NewClient e) t)"
| "Task_Setup e VersionT = DefaultTaskImpl_Setup e VersionT"
| "Task_Setup e (MetricsT t) = wrap MetricsT (Metrics_Setup (te_dir e) t)"

definition task_ops :: "(string \<Rightarrow> duration res) \<Rightarrow> (task_env, TaskImpl) RunnerImpl" where
  "task_ops pd = \<lparr>ri_SetParams = Task_SetParams pd, ri_Setup = Task_Setup\<rparr>"

definition engine_tasks :: "files \<Rightarrow> TaskImpl ImplMaps" where
  "engine_tasks fs =
    \<lparr>im_PeriodicTaskImplMap =
       [(''poller'', PollerT empty_Poller), (''version_log'', VersionT),
        (''metrics_log'', MetricsT \<lparr>ml_FileDir = [], ml_dl = None, ml_sc = False, ml_files = fs\<rparr>)],
     im_InternalJobServerImplMap = [], im_APIServerImplMap = []\<rparr>"

section \<open>The command\<close>

definition registerSetting_edge :: "Setting option \<Rightarrow> Setting option res" where
  "registerSetting_edge g =
    res_bind (RegisterSetting ''gateway'' TStruct g) (\<lambda>g.
    res_bind (RegisterSetting ''tranqu'' TStruct g) (\<lambda>g.
      RegisterSetting ''estimation'' TStruct g))"

record files_env =
  fe_readFile :: "string \<Rightarrow> string res"
  fe_decode :: "string \<Rightarrow> (table \<times> table) res"
  fe_runner :: "tval \<Rightarrow> (duration \<times> tval option) res"
  fe_files :: files

datatype 'q exec_result =
    Returned "error option" "'q SystemComponents"
  | Exited int "'q SystemComponents"
  | Crashed

text \<open>What has been started when the run group runs.\<close>

record 'q engine =
  en_setting :: "Setting option"
  en_components :: "'q SystemComponents"
  en_RunContext :: "TaskImpl RunContext"
  en_manager :: "JobManager res"
  en_version :: string
  en_info :: NonSecretConf

definition setupSystemComponents ::
  "'q boot_env \<Rightarrow> DIContainerParameters \<Rightarrow> Setting option \<Rightarrow> Conf \<Rightarrow> 'q SystemComponents res" where
  "setupSystemComponents e p g conf =
    (case SystemComponents_Setup e p g conf NewSystemComponents of
       Ret None s \<Rightarrow> Ok s
     | _ \<Rightarrow> Panic)"

text \<open>
  The first half of \<open>Execute\<close>, up to the running of the group; \<open>Inl\<close> is an early end. The error of
  \<open>startCore\<close> is dropped. On every return the components are torn down.
\<close>

definition boot ::
  "'q boot_env \<Rightarrow> task_env \<Rightarrow> files_env \<Rightarrow> DIContainerParameters \<Rightarrow> Conf \<Rightarrow> string \<Rightarrow> 'q exec_result + 'q engine" where
  "boot e t f p conf versionByBuildFlag =
    (case res_bind (registerSetting_edge ResetSetting)
            (ParseSettingFromPath (fe_readFile f) (fe_decode f) (cf_SettingPath conf)) of
       Ok (g, None) \<Rightarrow>
         (case setupSystemComponents e p g conf of
            Ok s \<Rightarrow>
              (if GetComponentSetting ''gateway'' g = None then
                 Inl (Returned (Some ''failed to get setting'') (SystemComponents_TearDown s))
               else
                 (case NewRunContextWithSettingPath (task_ops (te_ParseDuration t)) t (fe_readFile f (cf_SettingPath conf))
                         (\<lambda>s. res_bind (fe_decode f s) (\<lambda>(_, run_group). Ok run_group)) (fe_runner f)
                         (engine_tasks (fe_files f)) of
                    Ok rc \<Rightarrow>
                      Inr \<lparr>en_setting = g, en_components = s, en_RunContext = rc, en_manager = startCore_jobs,
                           en_version = SetVersion conf versionByBuildFlag, en_info = SetInfo conf\<rparr>
                  | Err er \<Rightarrow> Inl (Returned (Some er) (SystemComponents_TearDown s))
                  | Panic \<Rightarrow> Inl Crashed))
          | _ \<Rightarrow> Inl Crashed)
     | Ok (g, Some er) \<Rightarrow> Inl (Returned (Some er) NewSystemComponents)
     | _ \<Rightarrow> Inl Crashed)"

definition Execute ::
  "'q boot_env \<Rightarrow> task_env \<Rightarrow> files_env \<Rightarrow> DIContainerParameters \<Rightarrow> Conf \<Rightarrow> string \<Rightarrow> ('q engine \<Rightarrow> error option) \<Rightarrow> 'q exec_result" where
  "Execute e t f p conf versionByBuildFlag group_run =
    (case boot e t f p conf versionByBuildFlag of
       Inl r \<Rightarrow> r
     | Inr en \<Rightarrow>
         (case group_run en of
            Some er \<Rightarrow> Exited 1 (en_components en)
          | None \<Rightarrow> Returned None (SystemComponents_TearDown (en_components en))))"

section \<open>What runs after the start\<close>

lemma invoke_Ret_None [res_simps]: "invoke m rest = Ret None s' \<longleftrightarrow> (\<exists>s. m = Ret None s \<and> rest s = Ret None s')"
  by (cases m) (auto simp: invoke_def split: option.split)

lemma lift_res_Ret_None [res_simps]: "lift_res r f s = Ret None s' \<longleftrightarrow> (\<exists>a. r = Ok a \<and> f a = Ret None s')"
  by (cases r) (auto simp: lift_res_def)






lemma sc_update_inject [simp]:
  "s\<lparr>sc_DB := d\<rparr> = s\<lparr>sc_DB := d'\<rparr> \<longleftrightarrow> d = d'" "s\<lparr>sc_QPU := q\<rparr> = s\<lparr>sc_QPU := q'\<rparr> \<longleftrightarrow> q = q'"
  "s\<lparr>sc_Transpiler := t\<rparr> = s\<lparr>sc_Transpiler := t'\<rparr> \<longleftrightarrow> t = t'"
  for s :: "'q SystemComponents"
  by (cases s; simp)+






definition example_settings :: table where
  "example_settings = [(''periodic_tasks'', TTable [(''version_log'', TTable [(''period'', TString ''10s'')])])]"

definition example_boot :: "nat list boot_env" where
  "example_boot =
    \<lparr>be_FIFO = list_fifo, be_GRPCConnection = (\<lambda>_. None), be_gw = example_gw,
     be_db = \<lparr>sv_NewClient = (\<lambda>_. None), sv_call = (\<lambda>_. None), sv_fmt = Some\<rparr>,
     be_LoadDeviceSetting = (\<lambda>_. Ok NewDeviceSetting), be_Listen = (\<lambda>_. None),
     be_RouterHost = ''0.0.0.0'', be_RouterPort = 5001\<rparr>"

definition example_tasks :: task_env where
  "example_tasks =
    \<lparr>te_ParseDuration = (\<lambda>_. Ok 10), te_NewClient = (\<lambda>_. None),
     te_dir = \<lparr>de_Stat = (\<lambda>_. IsDirectory), de_CreateTemp = (\<lambda>_. None), de_Remove = (\<lambda>_. None), de_components = True\<rparr>\<rparr>"

definition example_files :: files_env where
  "example_files =
    \<lparr>fe_readFile = (\<lambda>_. Ok ''text''), fe_decode = (\<lambda>_. Ok ([], example_settings)), fe_runner = (\<lambda>_. Ok (10, None)),
     fe_files = (\<lambda>_. None)\<rparr>"

definition example_conf :: Conf where
  "example_conf =
    \<lparr>cf_Version = [], cf_DevMode = False, cf_DisableStdoutLog = False, cf_EnableFileLog = False, cf_LogDir = [],
     cf_LogLevel = [], cf_LogRotationMaxDays = 7, cf_UseDummyDevice = True, cf_DeviceSettingPath = [],
     cf_QueueMaxSize = 10, cf_QueueRefillThreshold = 5, cf_GRPCTranspilerHost = [], cf_GRPCTranspilerPort = [],
     cf_TranspilerPluginPath = [], cf_EnableDummyQPUTimeInsertion = False, cf_DummyQPUTime = 0,
     cf_ServiceDBEndpoint = [], cf_ServiceDBAPIKey = [], cf_DisableStartDevicePolling = True, cf_SettingPath = []\<rparr>"

definition example_params :: DIContainerParameters where
  "example_params = \<lparr>dp_DBManager = ''memory'', dp_Transpiler = ''tranqu'', dp_QPU = ''dummy''\<rparr>"




text \<open>
  The engine does not start with a QPU name other than \<open>dummy\<close> and \<open>gateway\<close>: unless the setting
  file is rejected, the set-up panics. The name \<open>it\<close> is such a name, although the command line offers it.
\<close>

theorem unknown_qpu_crashes:
  assumes "dp_QPU p \<notin> {''dummy'', ''gateway''}"
  shows "Execute e t f p conf v group_run = Crashed \<or>
    (\<exists>er. Execute e t f p conf v group_run = Returned (Some er) NewSystemComponents \<and>
       (case fe_readFile f (cf_SettingPath conf) of Ok toml \<Rightarrow> \<not> is_Ok (fe_decode f toml) | _ \<Rightarrow> True))"
proof -
  have "setup_QPU e p g conf s \<noteq> Ret None s'" for g s s'
    using assms by (auto simp: setup_QPU_def res_simps provide_QPU_def)
  then have crash: "setupSystemComponents e p g conf = Panic" for g
    by (auto simp: setupSystemComponents_def SystemComponents_Setup_def res_simps split: outcome.split option.split)
  show ?thesis
    by (auto simp: Execute_def boot_def crash ParseSettingFromPath_def parseSetting_def registerSetting_edge_def
        ResetSetting_def RegisterSetting_def split: res.splits)
qed

theorem unknown_qpu_crashes_witness:
  "Execute example_boot example_tasks example_files (example_params\<lparr>dp_QPU := ''it''\<rparr>) example_conf [] (\<lambda>_. None) = Crashed"
  using unknown_qpu_crashes [of "example_params\<lparr>dp_QPU := ''it''\<rparr>" example_boot example_tasks example_files example_conf "[]" "\<lambda>_. None"]
  by (simp add: example_files_def)

end
