(* ===== verification/Device_Polling.thy ===== *)
theory Device_Polling
  imports Qpu
begin

text \<open>
  The goroutines of the gateway QPU (\<open>coreapp/qpu/qpu.go\<close>): the loop of \<open>startDevicePolling\<close>, the one of
  \<open>startCleanUpGoroutine\<close> that waits for a signal, and the rest of \<open>Setup\<close>, which runs beside them; and
  the transport of the API client that logs every answer (\<open>coreapp/qpu/gateway.go\<close>).

  The state has what these goroutines share, and an event is one step of one of them, of the timer or of
  the operating system. The channel of a ticker holds one tick; the first round of the loop needs none,
  which is a tick that waits at the start. A round is one step: a signal comes before or after it. What the
  gateway answers depends on whether the connection is open: an environment for an open connection
  and one for a closed one, \<open>g True\<close> and \<open>g False\<close>. A signal that the program has asked for does not end it, so
  that the only end is the one of the run group, whose signal handler is made for \<open>os.Interrupt\<close>
  (\<open>setupRunGroup\<close> of \<open>coreapp/cmd/edge/main.go\<close>), or a panic.
\<close>

section \<open>Signals and polling\<close>

datatype sig = OsInterrupt | SIGTERM

datatype poll_event = TimerFires | PollRound "bool \<Rightarrow> gw_env" | SignalArrives sig | SetupEnds

record polling =
  pl_qpu :: GatewayQPU
  pl_ticker :: bool
  pl_tick :: bool
  pl_waiting :: bool
  pl_conn :: bool
  pl_alive :: bool

text \<open>\<open>time.NewTicker\<close> panics for a period of zero.\<close>

definition startDevicePolling :: "GatewayQPU \<Rightarrow> polling res" where
  "startDevicePolling q =
    (if ds_PollingPeriod (gq_deviceSetting q) = 0 then Panic
     else Ok \<lparr>pl_qpu = q, pl_ticker = True, pl_tick = True, pl_waiting = True, pl_conn = True, pl_alive = True\<rparr>)"

definition Agent_Close :: "polling \<Rightarrow> polling" where
  "Agent_Close p = p\<lparr>pl_conn := False\<rparr>"

definition Agent_GetAddress :: "DefaultGatewayAgent \<Rightarrow> string" where
  "Agent_GetAddress q = ga_gatewayAddress q"

text \<open>The goroutine waits for one signal.\<close>

definition cleanup_goroutine :: "polling \<Rightarrow> polling" where
  "cleanup_goroutine p = (if pl_waiting p then Agent_Close (p\<lparr>pl_waiting := False, pl_ticker := False\<rparr>) else p)"

definition group_signal_handler :: "sig \<Rightarrow> polling \<Rightarrow> polling" where
  "group_signal_handler s p = (if s = OsInterrupt then p\<lparr>pl_alive := False\<rparr> else p)"

text \<open>
  A round that fails calls \<open>Reset\<close>, which closes the connection and makes a new one, if it can.
\<close>

definition poll_round :: "(bool \<Rightarrow> gw_env) \<Rightarrow> polling \<Rightarrow> polling" where
  "poll_round g p =
    (let e = g (pl_conn p) in
     case device_poll e (pl_qpu p) of
       Pan q \<Rightarrow> p\<lparr>pl_alive := False\<rparr>
     | Ret cs q \<Rightarrow>
         p\<lparr>pl_qpu := q, pl_tick := False,
           pl_conn := (if gq_connected q then pl_conn p else gw_NewClient e (ga_gatewayAddress (gq_agent q)) = None)\<rparr>)"

fun polling_step :: "poll_event \<Rightarrow> polling \<Rightarrow> polling" where
  "polling_step TimerFires p = (if pl_ticker p then p\<lparr>pl_tick := True\<rparr> else p)"
| "polling_step (PollRound g) p = (if pl_tick p then poll_round g p else p)"
| "polling_step (SignalArrives s) p = group_signal_handler s (cleanup_goroutine p)"
| "polling_step SetupEnds p = p\<lparr>pl_qpu := (pl_qpu p)\<lparr>gq_currentDeviceInfo := unavailable_info\<rparr>\<rparr>"

fun polling_run :: "poll_event list \<Rightarrow> polling \<Rightarrow> polling" where
  "polling_run [] p = p"
| "polling_run (ev # evs) p = (if pl_alive p then polling_run evs (polling_step ev p) else p)"

text \<open>The number of rounds in which the loop asks the device.\<close>

fun rounds :: "poll_event list \<Rightarrow> polling \<Rightarrow> nat" where
  "rounds [] p = 0"
| "rounds (ev # evs) p =
    (if pl_alive p then (case ev of PollRound e \<Rightarrow> if pl_tick p then 1 else 0 | _ \<Rightarrow> 0) + rounds evs (polling_step ev p) else 0)"

section \<open>What a signal does\<close>



lemma rounds_dead [simp]: "\<not> pl_alive p \<Longrightarrow> rounds evs p = 0"
  by (cases evs) simp_all













text \<open>The initial device information of \<open>Setup\<close> may overwrite what the first round has found.\<close>

lemma setup_overwrites_poll:
  assumes "startDevicePolling q = Ok p" and "device_poll (g True) q = Ret cs q'" and "gq_connected q'"
  shows "let p' = polling_run [PollRound g, SetupEnds] p in
    gq_connected (pl_qpu p') \<and> gq_currentDeviceInfo (pl_qpu p') = unavailable_info"
  using assms by (auto simp: startDevicePolling_def poll_round_def Let_def split: if_splits)

section \<open>The logging transport\<close>

text \<open>A body that has been read to its end is replaced by a copy; a body whose reading failed is left closed.\<close>

datatype http_body = Unread "string res" | Buffered string | ClosedBody

record http_answer =
  ha_StatusCode :: int
  ha_Body :: http_body

fun read_http_body :: "http_body \<Rightarrow> string res" where
  "read_http_body (Unread r) = r"
| "read_http_body (Buffered s) = Ok s"
| "read_http_body ClosedBody = Err ''http: read on closed response body''"

definition loggingRoundTripper_RoundTrip :: "('q \<Rightarrow> http_answer res) \<Rightarrow> 'q \<Rightarrow> http_answer res" where
  "loggingRoundTripper_RoundTrip next req =
    res_bind (next req) (\<lambda>resp.
      case read_http_body (ha_Body resp) of
        Ok bodyBytes \<Rightarrow> Ok (resp\<lparr>ha_Body := Buffered bodyBytes\<rparr>)
      | Err er \<Rightarrow> Ok (resp\<lparr>ha_Body := ClosedBody\<rparr>)
      | Panic \<Rightarrow> Panic)"

text \<open>
  The client sees the answers of the transport below: the same errors, the same status, the same body; where the
  body cannot be read, it gets another error.
\<close>

lemma RoundTrip_transparent:
  assumes "next req = Ok resp" and "read_http_body (ha_Body resp) \<noteq> Panic"
  shows "\<exists>resp'. loggingRoundTripper_RoundTrip next req = Ok resp' \<and> ha_StatusCode resp' = ha_StatusCode resp \<and>
    (\<forall>s. read_http_body (ha_Body resp') = Ok s \<longleftrightarrow> read_http_body (ha_Body resp) = Ok s)"
  using assms by (simp add: loggingRoundTripper_RoundTrip_def split: res.split)

lemma RoundTrip_error: "loggingRoundTripper_RoundTrip next req = Err er \<longleftrightarrow> next req = Err er"
  by (cases "next req") (auto simp: loggingRoundTripper_RoundTrip_def split: res.split)

end
