(* ===== verification/Edge_Main.thy ===== *)
theory Edge_Main
  imports Engine Device_Polling
begin

text \<open>
  The process of the engine: the command line, the logger and the exit status of \<open>coreapp/cmd/edge/main.go\<close>,
  the command line of the packages \<open>coreapp/sse/conf\<close> and \<open>coreapp/multiprog/manual/conf\<close>, and what
  \<open>coreapp/core/job.go\<close> and \<open>coreapp/core/syscomponent.go\<close> offer for the components of a running
  engine.

  The command-line parser (package \<open>go-flags\<close>), the logger (package \<open>zap\<close>) and the rotation of its files
  (package \<open>file-rotatelogs\<close>) are not part of the repository: the parser is an argument, a logger is the
  record of what it is made of, and \<open>rotate.New\<close> is an argument.
\<close>

section \<open>The components of a running engine\<close>

text \<open>
  The global variable \<open>systemComponents\<close> is nil until the set-up has ended. The channels of the components are
  made together with them, so that the second check of \<open>NewJobContext\<close>, for channels that are nil, never fails.
\<close>

definition GetSystemComponents :: "'q SystemComponents \<Rightarrow> 'q SystemComponents option" where
  "GetSystemComponents s = (if sc_ready s then Some s else None)"

definition NewJobContext :: "'q SystemComponents \<Rightarrow> error option" where
  "NewJobContext s =
    (if GetSystemComponents s = None then Some ''system components is not initialized'' else None)"

definition SetFailureWithError :: "('e, 'j) JobOps \<Rightarrow> datetime \<Rightarrow> error \<Rightarrow> 'j \<Rightarrow> ('j, string) outcome" where
  "SetFailureWithError ops now err j =
    on_part (jo_put ops) j (SetFailureWithErrorToJobData now err (jo_JobData ops j))"

text \<open>Closing a closed channel panics.\<close>

definition Channels_Close :: "'q SystemComponents \<Rightarrow> 'q SystemComponents res" where
  "Channels_Close s = (if sc_DBChan_open s then Ok (s\<lparr>sc_DBChan_open := False\<rparr>) else Panic)"

fun DBManager_Get :: "string \<Rightarrow> DBManager \<Rightarrow> Job option \<times> error option" where
  "DBManager_Get i (Memory None) = (None, Some (''not found '' @ i))"
| "DBManager_Get i (Memory (Some d)) = MemoryDB_Get i d"
| "DBManager_Get i (Service d) = (None, ServiceDB_Get i)"

fun DBManager_Delete :: "string \<Rightarrow> DBManager \<Rightarrow> DBManager \<times> error option" where
  "DBManager_Delete i (Memory None) = (Memory None, Some (''failed to find '' @ i))"
| "DBManager_Delete i (Memory (Some d)) = (case MemoryDB_Delete i d of (d, err) \<Rightarrow> (Memory (Some d), err))"
| "DBManager_Delete i (Service d) = (Service d, ServiceDB_Delete i)"

text \<open>
  \<open>GetJob\<close> and \<open>DeleteJob\<close> follow the pointer to the components. A container that cannot make the
  database returns an error, which is treated like one of the database.
\<close>

definition GetJob :: "string \<Rightarrow> 'q SystemComponents \<Rightarrow> Job option res" where
  "GetJob i s =
    (case GetSystemComponents s of
       None \<Rightarrow> Panic
     | Some s \<Rightarrow>
         (case sc_DB s of
            None \<Rightarrow> Ok None
          | Some d \<Rightarrow> (case DBManager_Get i d of (j, None) \<Rightarrow> Ok j | (_, Some er) \<Rightarrow> Ok None)))"

definition DeleteJob :: "string \<Rightarrow> 'q SystemComponents \<Rightarrow> ('q SystemComponents, bool) outcome" where
  "DeleteJob i s =
    (case GetSystemComponents s of
       None \<Rightarrow> Pan s
     | Some s \<Rightarrow>
         (case sc_DB s of
            None \<Rightarrow> Ret False s
          | Some d \<Rightarrow> (case DBManager_Delete i d of (d, err) \<Rightarrow> Ret (err = None) (s\<lparr>sc_DB := Some d\<rparr>))))"

text \<open>\<open>init\<close> of \<open>syscomponent.go\<close> takes the texts of the default configuration as raw JSON values.\<close>

definition DefaultTranspilerConfigJson :: "(string, string) gomap" where
  "DefaultTranspilerConfigJson =
    [(''transpiler_lib'', the (tc_TranspilerLib DEFAULT_TRANSPILER_CONFIG)),
     (''transpiler_options'', the (tc_TranspilerOptions DEFAULT_TRANSPILER_CONFIG))]"

section \<open>The logger\<close>

datatype encoder = ConsoleEncoder | JSONEncoder

datatype level = DebugLevel | InfoLevel | WarnLevel | ErrorLevel

record rotator =
  ro_Pattern :: string
  ro_MaxAge :: duration
  ro_RotationTime :: duration

datatype log_sink = RotatedFiles rotator | Stdout

record Logger =
  lg_cores :: "(encoder \<times> log_sink \<times> level) list"

record log_env =
  le_Stat :: "string \<Rightarrow> nat option"
  le_Rotate :: "rotator \<Rightarrow> error option"

definition hour :: duration where
  "hour = 3600 * 10 ^ 9"

text \<open>The number of days is converted to nanoseconds in 64 bits.\<close>

definition max_age :: "int \<Rightarrow> duration" where
  "max_age rotationMaxDays = sint (of_int rotationMaxDays * 24 * of_int hour :: 64 word)"

definition Join :: "string \<Rightarrow> string \<Rightarrow> string" where
  "Join dir file = dir @ ''/'' @ file"

text \<open>The directory is a clean path, so that \<open>filepath.Join\<close> only adds a separator. \<open>Perm() & (1 << 7)\<close> is the permission of the owner to write.\<close>

definition makeRotator :: "log_env \<Rightarrow> string \<Rightarrow> int \<Rightarrow> rotator res" where
  "makeRotator e dirPath rotationMaxDays =
    (case le_Stat e dirPath of
       None \<Rightarrow> Err (''directory:'' @ dirPath @ '' is not found'')
     | Some perm \<Rightarrow>
         if \<not> bit perm 7 then Err (dirPath @ '' is not a writable directory'')
         else
           (let r = \<lparr>ro_Pattern = Join dirPath ''qiqbedge-%Y-%m-%d.log'', ro_MaxAge = max_age rotationMaxDays,
                     ro_RotationTime = hour\<rparr> in
            case le_Rotate e r of Some er \<Rightarrow> Err er | None \<Rightarrow> Ok r))"

definition level_of :: "string \<Rightarrow> level" where
  "level_of s =
    (if s = ''debug'' then DebugLevel else if s = ''warn'' then WarnLevel else if s = ''error'' then ErrorLevel else InfoLevel)"

definition zapLogger :: "log_env \<Rightarrow> Conf \<Rightarrow> Logger res" where
  "zapLogger e conf =
    (let encoder = (if cf_DevMode conf then ConsoleEncoder else JSONEncoder); level = level_of (cf_LogLevel conf) in
     res_bind
       (if cf_EnableFileLog conf
        then res_bind (makeRotator e (cf_LogDir conf) (cf_LogRotationMaxDays conf)) (\<lambda>r. Ok [(encoder, RotatedFiles r, level)])
        else Ok []) (\<lambda>cores.
       Ok \<lparr>lg_cores = cores @ (if cf_DisableStdoutLog conf then [] else [(encoder, Stdout, level)])\<rparr>))"

definition setZap :: "log_env \<Rightarrow> Conf \<Rightarrow> Logger res" where
  "setZap e conf = (case zapLogger e conf of Ok l \<Rightarrow> Ok l | _ \<Rightarrow> Panic)"

section \<open>The process\<close>

text \<open>
  The parser asks for help, rejects the command line, or fills the options and runs the command. The status of a
  process that ends by a panic is 2.
\<close>

datatype 'a flags_result = ErrHelp | FlagsError error | Parsed 'a

text \<open>The packages \<open>sse/conf\<close> and \<open>multiprog/manual/conf\<close> read their options when they are initialised.\<close>

definition loadParams :: "'a flags_result \<Rightarrow> int \<times> error option" where
  "loadParams r =
    (case r of
       Parsed a \<Rightarrow> (0, None)
     | ErrHelp \<Rightarrow> (0, Some ''failed to load params'')
     | FlagsError er \<Rightarrow> (1, Some ''failed to load params''))"

text \<open>The package \<open>multiprog/manual/conf\<close> has a copy of this function for its own options.\<close>

definition mpgm_loadParams :: "'a flags_result \<Rightarrow> int \<times> error option" where
  "mpgm_loadParams r = loadParams r"

definition init_conf :: "int \<times> error option \<Rightarrow> int option" where
  "init_conf r = (case r of (code, Some er) \<Rightarrow> Some code | (_, None) \<Rightarrow> None)"

definition pollerCmd_Execute ::
  "log_env \<Rightarrow> 'q boot_env \<Rightarrow> task_env \<Rightarrow> files_env \<Rightarrow> DIContainerParameters \<Rightarrow> Conf \<Rightarrow> string \<Rightarrow>
   ('q engine \<Rightarrow> error option) \<Rightarrow> 'q exec_result" where
  "pollerCmd_Execute le e t f p conf versionByBuildFlag group_run =
    (case setZap le conf of
       Ok logger \<Rightarrow> Execute e t f p conf versionByBuildFlag group_run
     | _ \<Rightarrow> Crashed)"

fun exit_status :: "'q exec_result \<Rightarrow> int" where
  "exit_status (Returned None s) = 0"
| "exit_status (Returned (Some er) s) = 1"
| "exit_status (Exited code s) = code"
| "exit_status Crashed = 2"

definition edge_parse ::
  "(DIContainerParameters \<times> Conf) flags_result \<Rightarrow> (DIContainerParameters \<Rightarrow> Conf \<Rightarrow> 'q exec_result) \<Rightarrow> int" where
  "edge_parse r execute =
    (case r of ErrHelp \<Rightarrow> 0 | FlagsError er \<Rightarrow> 1 | Parsed (p, conf) \<Rightarrow> exit_status (execute p conf))"

definition edge_main ::
  "'a flags_result \<Rightarrow> 'b flags_result \<Rightarrow> (DIContainerParameters \<times> Conf) flags_result \<Rightarrow>
   log_env \<Rightarrow> 'q boot_env \<Rightarrow> task_env \<Rightarrow> files_env \<Rightarrow> string \<Rightarrow> ('q engine \<Rightarrow> error option) \<Rightarrow> int" where
  "edge_main mpgm sse edge le e t f versionByBuildFlag group_run =
    (case init_conf (mpgm_loadParams mpgm) of
       Some code \<Rightarrow> code
     | None \<Rightarrow>
         (case init_conf (loadParams sse) of
            Some code \<Rightarrow> code
          | None \<Rightarrow> edge_parse edge (\<lambda>p conf. pollerCmd_Execute le e t f p conf versionByBuildFlag group_run)))"

section \<open>Properties\<close>

text \<open>Log files are kept for the configured number of days, up to 106751 days; a larger number overflows.\<close>

lemma max_age_ok:
  assumes "0 \<le> d" and "d \<le> 106751"
  shows "max_age d = d * 24 * hour"
proof -
  have "(of_int d * 24 * of_int hour :: 64 word) = of_int (d * 24 * hour)"
    by simp
  moreover have "signed_take_bit 63 (d * 24 * hour) = d * 24 * hour"
    using assms by (intro signed_take_bit_int_eq_self) (simp_all add: hour_def)
  ultimately show ?thesis
    by (simp only: max_age_def sint_sbintrunc') simp
qed

lemma max_age_overflow: "max_age 106752 < 0"
  by (simp add: max_age_def hour_def)

text \<open>
  The exit status is 0 exactly when help was asked for or the run group of a started engine ended without an error.
\<close>

theorem exit_zero_iff:
  "edge_main mpgm sse (Parsed (p, conf)) le e t f v group_run = 0 \<longleftrightarrow>
    mpgm = ErrHelp \<or> (\<exists>a. mpgm = Parsed a) \<and>
      (sse = ErrHelp \<or> (\<exists>b. sse = Parsed b) \<and> is_Ok (zapLogger le conf) \<and>
        (\<exists>en. boot e t f p conf v = Inr en \<and> group_run en = None))"
proof -
  have early: "exit_status r \<noteq> 0" if "boot e t f p conf v = Inl r" for r
    using that by (auto simp: boot_def split: res.splits prod.splits option.splits if_splits)
  have "exit_status (Execute e t f p conf v group_run) = 0 \<longleftrightarrow> (\<exists>en. boot e t f p conf v = Inr en \<and> group_run en = None)"
    using early by (auto simp: Execute_def split: sum.split option.split)
  then have "exit_status (pollerCmd_Execute le e t f p conf v group_run) = 0 \<longleftrightarrow>
      is_Ok (zapLogger le conf) \<and> (\<exists>en. boot e t f p conf v = Inr en \<and> group_run en = None)"
    by (cases "zapLogger le conf") (simp_all add: pollerCmd_Execute_def setZap_def)
  then show ?thesis
    by (cases mpgm; cases sse) (simp_all add: edge_main_def init_conf_def mpgm_loadParams_def loadParams_def edge_parse_def)
qed

text \<open>The logger is made unless log files are asked for in a directory that is missing or not writable.\<close>

lemma zapLogger_ok:
  assumes "\<And>r. le_Rotate e r = None"
  shows "is_Ok (zapLogger e conf) \<longleftrightarrow>
    (cf_EnableFileLog conf \<longrightarrow> (\<exists>perm. le_Stat e (cf_LogDir conf) = Some perm \<and> bit perm 7))"
  using assms by (auto simp: zapLogger_def makeRotator_def Let_def split: option.splits)

text \<open>The default configuration that is kept as JSON is not JSON: the name of the library has no quotes.\<close>

lemma default_lib_not_json:
  "map_of DefaultTranspilerConfigJson ''transpiler_lib'' = Some ''qiskit'' \<and> \<not> json_valid ''qiskit''"
  by (simp add: DefaultTranspilerConfigJson_def DEFAULT_TRANSPILER_CONFIG_def) code_simp

text \<open>A job that is deleted is not found any more, and no other job is lost.\<close>

lemma GetJob_after_delete:
  assumes "sc_ready s" and "sc_DB s = Some (Memory (Some d))" and "wf_map (dbMap d)" and "DeleteJob i s = Ret b s'"
  shows "GetJob i s' = Ok None \<and> (j \<noteq> i \<longrightarrow> GetJob j s' = GetJob j s) \<and> (b \<longleftrightarrow> GetJob i s \<noteq> Ok None)"
  using assms
  by (auto simp: DeleteJob_def GetJob_def GetSystemComponents_def MemoryDB_Delete_def MemoryDB_Get_def gomap
      split: option.splits)

end
