(* ===== verification/Job_Json.thy ===== *)
theory Job_Json
  imports Core_Data
begin

text \<open>
  The JSON that \<open>json.Marshal\<close> makes of job data: \<open>convertJson\<close> of \<open>coreapp/sse/sserun.go\<close>, whose
  text the container of an SSE job gets in its environment, and the printers for the log in
  \<open>coreapp/core/data.go\<close>.

  Fields are printed in the order of their declaration under the name of their tag, maps sorted by
  key. \<open>StatsRaw\<close> and \<open>VirtualPhysicalMappingRaw\<close> are declared as types of their own over
  \<open>json.RawMessage\<close>; such a type does not have the methods of \<open>RawMessage\<close>, so that \<open>json.Marshal\<close>
  treats its values as byte slices and prints them in base64 (RFC 4648). The format of a \<open>float32\<close>
  (\<open>None\<close> for a value that is not finite, an error of \<open>json.Marshal\<close>) and that of a \<open>strfmt.DateTime\<close>
  are arguments. A \<open>json.RawMessage\<close> is printed up to the choice of escapes.
\<close>

record json_env =
  je_float32 :: "float32 \<Rightarrow> string option"
  je_DateTime :: "datetime \<Rightarrow> string"

definition json_env_ok :: "json_env \<Rightarrow> bool" where
  "json_env_ok e \<longleftrightarrow> (\<forall>w t. je_float32 e w = Some t \<longrightarrow> scan_number t = Some (t, []))"

section \<open>Base64\<close>

definition b64_char :: "nat \<Rightarrow> char" where
  "b64_char n =
    char_of (if n < 26 then 65 + n else if n < 52 then 71 + n else if n < 62 then n - 4
             else if n = 62 then 43 else 47)"

definition b64_val :: "char \<Rightarrow> nat option" where
  "b64_val c =
    (let n = of_char c :: nat in
     if 65 \<le> n \<and> n \<le> 90 then Some (n - 65)
     else if 97 \<le> n \<and> n \<le> 122 then Some (n - 71)
     else if 48 \<le> n \<and> n \<le> 57 then Some (n + 4)
     else if n = 43 then Some 62
     else if n = 47 then Some 63
     else None)"

abbreviation byte :: "char \<Rightarrow> nat" where
  "byte c \<equiv> of_char c"

fun b64 :: "string \<Rightarrow> string" where
  "b64 [] = []"
| "b64 [a] = [b64_char (byte a div 4), b64_char (byte a mod 4 * 16), CHR ''='', CHR ''='']"
| "b64 [a, b] =
    [b64_char (byte a div 4), b64_char (byte a mod 4 * 16 + byte b div 16), b64_char (byte b mod 16 * 4), CHR ''='']"
| "b64 (a # b # c # s) =
    b64_char (byte a div 4) # b64_char (byte a mod 4 * 16 + byte b div 16) #
    b64_char (byte b mod 16 * 4 + byte c div 64) # b64_char (byte c mod 64) # b64 s"

definition b64_three :: "nat \<Rightarrow> nat \<Rightarrow> nat \<Rightarrow> nat \<Rightarrow> string" where
  "b64_three w x y z = [char_of (w * 4 + x div 16), char_of (x mod 16 * 16 + y div 4), char_of (y mod 4 * 64 + z)]"

fun b64_decode :: "string \<Rightarrow> string option" where
  "b64_decode [] = Some []"
| "b64_decode (p # q # r # t # s) =
    (case (b64_val p, b64_val q) of
       (Some w, Some x) \<Rightarrow>
         (case (b64_val r, b64_val t) of
            (Some y, Some z) \<Rightarrow> map_option (\<lambda>u. b64_three w x y z @ u) (b64_decode s)
          | (Some y, None) \<Rightarrow> if t = CHR ''='' \<and> s = [] then Some (take 2 (b64_three w x y 0)) else None
          | (None, None) \<Rightarrow> if r = CHR ''='' \<and> t = CHR ''='' \<and> s = [] then Some (take 1 (b64_three w x 0 0)) else None
          | _ \<Rightarrow> None)
     | _ \<Rightarrow> None)"
| "b64_decode _ = None"

lemma b64_val_char [simp]: "n < 64 \<Longrightarrow> b64_val (b64_char n) = Some n"
  by (auto simp: b64_val_def b64_char_def Let_def)

lemma byte_less [simp]: "byte c < 256"
  by (cases c) (simp add: of_char_def)

lemma b64_sextets:
  fixes a b c :: nat
  assumes "a < 256" and "b < 256" and "c < 256"
  shows "a div 4 < 64" "a mod 4 * 16 < 64" "a mod 4 * 16 + b div 16 < 64" "b mod 16 * 4 < 64"
    "b mod 16 * 4 + c div 64 < 64" "c mod 64 < 64"
    "a div 4 * 4 + (a mod 4 * 16 + b div 16) div 16 = a" "a div 4 * 4 + a mod 4 = a"
    "(a mod 4 * 16 + b div 16) mod 16 * 16 + (b mod 16 * 4 + c div 64) div 4 = b"
    "(a mod 4 * 16 + b div 16) mod 16 * 16 + b mod 16 = b"
    "(b mod 16 * 4 + c div 64) mod 4 * 64 + c mod 64 = c"
proof -
  have q: "b div 16 < 16" "c div 64 < 4" "a mod 4 < 4" "b mod 16 < 16"
    using assms by simp_all
  then show "a div 4 < 64" "a mod 4 * 16 < 64" "a mod 4 * 16 + b div 16 < 64" "b mod 16 * 4 < 64"
    "b mod 16 * 4 + c div 64 < 64" "c mod 64 < 64"
    using assms by simp_all
  have "(a mod 4 * 16 + b div 16) div 16 = a mod 4" "(a mod 4 * 16 + b div 16) mod 16 = b div 16"
    "(b mod 16 * 4 + c div 64) div 4 = b mod 16" "(b mod 16 * 4 + c div 64) mod 4 = c div 64"
    using q by simp_all
  then show "a div 4 * 4 + (a mod 4 * 16 + b div 16) div 16 = a" "a div 4 * 4 + a mod 4 = a"
    "(a mod 4 * 16 + b div 16) mod 16 * 16 + (b mod 16 * 4 + c div 64) div 4 = b"
    "(a mod 4 * 16 + b div 16) mod 16 * 16 + b mod 16 = b"
    "(b mod 16 * 4 + c div 64) mod 4 * 64 + c mod 64 = c"
    by (simp_all only: div_mult_mod_eq)
qed

lemma b64_val_pad [simp]: "b64_val (CHR ''='') = None"
  by (simp add: b64_val_def)

text \<open>The base64 text determines the bytes.\<close>

lemma b64_decode_b64 [simp]: "b64_decode (b64 s) = Some s"
proof (induction s rule: b64.induct)
  case (2 a)
  show ?case using b64_sextets [of "byte a" 0 0] by (simp add: b64_three_def)
next
  case (3 a b)
  show ?case using b64_sextets [of "byte a" "byte b" 0] by (simp add: b64_three_def)
next
  case (4 a b c s)
  then show ?case using b64_sextets [of "byte a" "byte b" "byte c"] by (simp add: b64_three_def)
qed simp

section \<open>Encoding\<close>

definition enc_bytes :: "string option \<Rightarrow> json" where
  "enc_bytes b = (case b of None \<Rightarrow> JNull | Some s \<Rightarrow> JStr (b64 s))"

definition enc_raw :: "string option \<Rightarrow> json option" where
  "enc_raw r = (case r of None \<Rightarrow> Some JNull | Some s \<Rightarrow> json_parse s)"

definition enc_ptr :: "('a \<Rightarrow> json option) \<Rightarrow> 'a option \<Rightarrow> json option" where
  "enc_ptr enc p = (case p of None \<Rightarrow> Some JNull | Some a \<Rightarrow> enc a)"

definition enc_map :: "('v \<Rightarrow> json) \<Rightarrow> (string, 'v) gomap \<Rightarrow> json" where
  "enc_map enc m = JObj (map (\<lambda>(k, v). (k, enc v)) (sort_key fst m))"

definition enc_mapping :: "(u32, u32) gomap \<Rightarrow> json" where
  "enc_mapping m = enc_map enc_u32 (map (\<lambda>(k, v). (u32_str k, v)) m)"

definition enc_DividedResult :: "DividedResult option \<Rightarrow> json" where
  "enc_DividedResult d =
    (case d of None \<Rightarrow> JNull | Some m \<Rightarrow> enc_map (enc_map enc_u32) (map (\<lambda>(k, c). (u32_str k, c)) m))"

definition enc_TranspilerInfo :: "TranspilerInfo \<Rightarrow> json option" where
  "enc_TranspilerInfo t =
    Some (JObj [(''stats'', enc_bytes (ti_StatsRaw t)),
      (''physical_virtual_mapping'', enc_mapping (ti_PhysicalVirtualMapping t)),
      (''virtual_physical_mapping'', enc_bytes (ti_VirtualPhysicalMappingRaw t))])"

definition enc_Estimation :: "json_env \<Rightarrow> Estimation \<Rightarrow> json option" where
  "enc_Estimation e s =
    (case (je_float32 e (es_Exp_value s), je_float32 e (es_Stds s)) of
       (Some x, Some d) \<Rightarrow> Some (JObj [(''exp_value'', JNum x), (''stds'', JNum d)])
     | _ \<Rightarrow> None)"

definition enc_Result :: "json_env \<Rightarrow> Result \<Rightarrow> json option" where
  "enc_Result e r =
    (case (enc_ptr enc_TranspilerInfo (rs_TranspilerInfo r), enc_ptr (enc_Estimation e) (rs_Estimation r)) of
       (Some ti, Some est) \<Rightarrow>
         Some (JObj [(''counts'', enc_map enc_u32 (rs_Counts r)),
           (''divided_result'', enc_DividedResult (rs_DividedResult r)),
           (''transpiler_info'', ti), (''estimation'', est), (''message'', JStr (rs_Message r)),
           (''execution_time'', enc_int (rs_ExecutionTime r))])
     | _ \<Rightarrow> None)"

definition enc_string_ptr :: "string option \<Rightarrow> json" where
  "enc_string_ptr p = (case p of None \<Rightarrow> JNull | Some s \<Rightarrow> JStr s)"

definition enc_TranspilerConfig :: "TranspilerConfig \<Rightarrow> json option" where
  "enc_TranspilerConfig c =
    map_option (\<lambda>opts. JObj [(''transpiler_lib'', enc_string_ptr (tc_TranspilerLib c)), (''transpiler_options'', opts)])
      (enc_raw (tc_TranspilerOptions c))"

fun Status_int :: "Status \<Rightarrow> int" where
  "Status_int SUBMITTED = 0"
| "Status_int READY = 1"
| "Status_int RUNNING = 2"
| "Status_int SUCCEEDED = 3"
| "Status_int FAILED = 4"
| "Status_int CANCELLED = 5"
| "Status_int (OtherStatus n) = n"

definition enc_JobData :: "json_env \<Rightarrow> JobData \<Rightarrow> json option" where
  "enc_JobData e jd =
    (case (enc_ptr enc_TranspilerConfig (jd_Transpiler jd), enc_ptr (enc_Result e) (jd_Result jd)) of
       (Some tc, Some r) \<Rightarrow>
         Some (JObj [(''ID'', JStr (jd_ID jd)), (''Status'', enc_int (Status_int (jd_Status jd))),
           (''Shots'', enc_int (jd_Shots jd)), (''Transpiler'', tc), (''QASM'', JStr (jd_QASM jd)),
           (''TranspiledQASM'', JStr (jd_TranspiledQASM jd)), (''Result'', r), (''JobType'', JStr (jd_JobType jd)),
           (''Created'', JStr (je_DateTime e (jd_Created jd))), (''Ended'', JStr (je_DateTime e (jd_Ended jd))),
           (''Info'', JStr (jd_Info jd)), (''MitigationInfo'', JStr (jd_MitigationInfo jd)),
           (''UseJobInfoUpdate'', JBool (jd_UseJobInfoUpdate jd)),
           (''NeedsUpdateTranspilerInfo'', JBool (jd_NeedsUpdateTranspilerInfo jd))])
     | _ \<Rightarrow> None)"

section \<open>The functions\<close>

definition convertJson :: "json_env \<Rightarrow> JobData \<Rightarrow> string res" where
  "convertJson e jd =
    (case enc_JobData e jd of None \<Rightarrow> Err ''failed to marshal json'' | Some j \<Rightarrow> Ok (json_print j))"

definition NewStatsRawFromString :: "string \<Rightarrow> string option \<times> error option" where
  "NewStatsRawFromString s = (Some (print_str s), None)"

definition Counts_String :: "Counts \<Rightarrow> string" where
  "Counts_String c = json_print (enc_map enc_u32 c)"

definition PhysicalVirtualMapping_String :: "(u32, u32) gomap \<Rightarrow> string" where
  "PhysicalVirtualMapping_String p = json_print (enc_mapping p)"

definition VirtualPhysicalMappingRaw_String :: "VirtualPhysicalMappingRaw \<Rightarrow> string" where
  "VirtualPhysicalMappingRaw_String v = json_print (enc_bytes v)"

text \<open>\<open>pretty\<close> is the package that adds white space to the text.\<close>

definition Result_ToString :: "json_env \<Rightarrow> (string \<Rightarrow> string) \<Rightarrow> Result \<Rightarrow> string" where
  "Result_ToString e pretty r = (case enc_Result e r of None \<Rightarrow> [] | Some j \<Rightarrow> pretty (json_print j))"

text \<open>The error of the decoder (package \<open>json-iterator\<close>) is only logged; what it has stored is returned.\<close>

definition UnmarshalToTranspilerConfig ::
  "(string \<Rightarrow> TranspilerConfig \<times> error option) \<Rightarrow> string \<Rightarrow> TranspilerConfig" where
  "UnmarshalToTranspilerConfig unmarshal transpilerInfo = fst (unmarshal transpilerInfo)"

section \<open>Properties\<close>

lemma plain_enc_map: "(\<And>v. plain_json (enc v)) \<Longrightarrow> plain_json (enc_map enc m)"
  by (auto simp: enc_map_def list_all_iff)

lemma plain_enc [simp]:
  "plain_json (enc_bytes b)" "plain_json (enc_mapping m)" "plain_json (enc_DividedResult d)"
  "plain_json (enc_map enc_u32 c)" "plain_json (enc_string_ptr p)"
  by (auto simp: enc_bytes_def enc_mapping_def enc_DividedResult_def enc_string_ptr_def
      intro!: plain_enc_map split: option.split)

lemma plain_enc_raw: "enc_raw r = Some j \<Longrightarrow> plain_json j"
  by (auto simp: enc_raw_def json_parse_def simp del: json_value.simps dest: parsed_plain(1)
      split: option.splits if_splits)

lemma plain_enc_ptr: "enc_ptr enc p = Some j \<Longrightarrow> (\<And>a j. enc a = Some j \<Longrightarrow> plain_json j) \<Longrightarrow> plain_json j"
  by (auto simp: enc_ptr_def split: option.splits)

lemma scan_number_int_str [simp]: "scan_number (int_str n) = Some (int_str n, [])"
proof -
  have "scan_number (CHR ''-'' # nat_str m) = Some (CHR ''-'' # nat_str m, [])" for m
  proof -
    have "hd (nat_str m) \<noteq> CHR ''-''"
      using nat_str_digits [of m] nat_str_not_Nil [of m] by (cases "nat_str m") (auto simp: is_digit_def)
    then show ?thesis
      using scan_number_nat_str_end [of m] nat_str_not_Nil [of m]
      by (auto simp: scan_number_def Let_def simp del: scan_number_nat_str_end split: option.splits)
  qed
  then show ?thesis
    by (simp add: int_str_def)
qed

lemma plain_enc_int [simp]: "plain_json (enc_int n)"
  by (simp add: enc_int_def)

lemma plain_enc_TranspilerConfig: "enc_TranspilerConfig c = Some j \<Longrightarrow> plain_json j"
  by (auto simp: enc_TranspilerConfig_def dest: plain_enc_raw)

lemma plain_enc_TranspilerInfo: "enc_TranspilerInfo t = Some j \<Longrightarrow> plain_json j"
  by (auto simp: enc_TranspilerInfo_def)

lemma plain_enc_Estimation: "json_env_ok e \<Longrightarrow> enc_Estimation e s = Some j \<Longrightarrow> plain_json j"
  by (auto simp: enc_Estimation_def json_env_ok_def split: option.splits)

lemma plain_enc_Result: "json_env_ok e \<Longrightarrow> enc_Result e r = Some j \<Longrightarrow> plain_json j"
  by (auto simp: enc_Result_def dest!: plain_enc_ptr intro: plain_enc_TranspilerInfo plain_enc_Estimation
      split: option.splits)

lemma plain_enc_JobData: "json_env_ok e \<Longrightarrow> enc_JobData e jd = Some j \<Longrightarrow> plain_json j"
  by (auto simp: enc_JobData_def dest!: plain_enc_ptr intro: plain_enc_TranspilerConfig plain_enc_Result
      split: option.splits)

text \<open>
  The text that \<open>convertJson\<close> makes is JSON, and a program that reads it finds the job's ID, program,
  type, status and number of shots in it.
\<close>

theorem convertJson_read:
  assumes "json_env_ok e" and "convertJson e jd = Ok s"
  shows "\<exists>fs. json_parse s = Some (JObj fs) \<and>
    map_of fs ''ID'' = Some (JStr (jd_ID jd)) \<and> map_of fs ''QASM'' = Some (JStr (jd_QASM jd)) \<and>
    map_of fs ''JobType'' = Some (JStr (jd_JobType jd)) \<and>
    map_of fs ''Status'' = Some (JNum (int_str (Status_int (jd_Status jd)))) \<and>
    map_of fs ''Shots'' = Some (JNum (int_str (jd_Shots jd)))"
proof -
  obtain j where j: "enc_JobData e jd = Some j" and s: "s = json_print j"
    using assms(2) by (auto simp: convertJson_def split: option.splits)
  moreover have "json_parse s = Some j"
    using json_print_parse [OF plain_enc_JobData [OF assms(1) j]] s by simp
  ultimately show ?thesis
    by (auto simp: enc_JobData_def enc_int_def split: option.splits)
qed

text \<open>
  It fails exactly when the options of the transpiler are not JSON, or when an expectation value or its
  deviation is not a finite number.
\<close>

theorem convertJson_Err_iff:
  "convertJson e jd = Err er \<longleftrightarrow> er = ''failed to marshal json'' \<and>
    ((\<exists>tc s. jd_Transpiler jd = Some tc \<and> tc_TranspilerOptions tc = Some s \<and> \<not> json_valid s) \<or>
     (\<exists>r es. jd_Result jd = Some r \<and> rs_Estimation r = Some es \<and>
        (je_float32 e (es_Exp_value es) = None \<or> je_float32 e (es_Stds es) = None)))"
proof -
  have raw: "enc_raw r = None \<longleftrightarrow> (\<exists>s. r = Some s \<and> \<not> json_valid s)" for r
    by (auto simp: enc_raw_def json_valid_def split: option.splits)
  have ptr: "enc_ptr enc p = None \<longleftrightarrow> (\<exists>a. p = Some a \<and> enc a = None)" for enc :: "'x \<Rightarrow> json option" and p
    by (auto simp: enc_ptr_def split: option.splits)
  have cfg: "enc_TranspilerConfig c = None \<longleftrightarrow> (\<exists>s. tc_TranspilerOptions c = Some s \<and> \<not> json_valid s)" for c
    by (simp add: enc_TranspilerConfig_def raw)
  have est: "enc_Estimation e s = None \<longleftrightarrow> je_float32 e (es_Exp_value s) = None \<or> je_float32 e (es_Stds s) = None" for s
    by (auto simp: enc_Estimation_def split: option.splits)
  have "enc_Result e r = None \<longleftrightarrow> enc_ptr (enc_Estimation e) (rs_Estimation r) = None" for r
    by (auto simp: enc_Result_def enc_TranspilerInfo_def enc_ptr_def split: option.splits)
  then have res: "enc_Result e r = None \<longleftrightarrow> (\<exists>es. rs_Estimation r = Some es \<and>
      (je_float32 e (es_Exp_value es) = None \<or> je_float32 e (es_Stds es) = None))" for r
    by (simp add: enc_ptr_def est split: option.splits)
  have "enc_JobData e jd = None \<longleftrightarrow>
      enc_ptr enc_TranspilerConfig (jd_Transpiler jd) = None \<or> enc_ptr (enc_Result e) (jd_Result jd) = None"
    by (auto simp: enc_JobData_def split: option.splits)
  then show ?thesis
    by (auto simp: convertJson_def enc_ptr_def cfg res split: option.splits)
qed

lemma convertJson_no_panic: "convertJson e jd \<noteq> Panic"
  by (simp add: convertJson_def split: option.split)

text \<open>
  The printers of the counts and of the physical-virtual mapping print JSON that reads as the same map.
  That of the virtual-physical mapping prints a JSON string that holds the base64 text of the mapping, from which
  the mapping can be decoded, but never an object.
\<close>

lemma Counts_String_read: "wf_map c \<Longrightarrow> Unmarshal_map dec_u32 0 (Counts_String c) = (sort_key fst c, None)"
  using Unmarshal_Marshal_map [of c dec_u32 enc_u32 0] by (simp add: Counts_String_def Marshal_map_def enc_map_def)

lemma PhysicalVirtualMapping_String_read:
  "wf_map m \<Longrightarrow> \<exists>r. ToMap (Some (PhysicalVirtualMapping_String m)) = Ok r \<and> wf_map r \<and> map_of r = map_of m"
  using ToMap_ToRaw [of m]
  by (simp add: PhysicalVirtualMapping_String_def ToRaw_def Marshal_map_def enc_map_def enc_mapping_def)

lemma VirtualPhysicalMappingRaw_String_base64:
  "json_parse (VirtualPhysicalMappingRaw_String (Some s)) = Some (JStr (b64 s)) \<and> b64_decode (b64 s) = Some s"
  by (simp add: VirtualPhysicalMappingRaw_String_def enc_bytes_def json_print_parse
      del: json_print.simps)

lemma ToMap_loses_String: "ToMap (Some (VirtualPhysicalMappingRaw_String (ToRaw v))) = Ok []"
  using VirtualPhysicalMappingRaw_String_base64 [of "the (ToRaw v)"]
  by (simp add: ToMap_def ToRaw_def Unmarshal_map_def)

end
