(* ===== verification/SSE_Container.thy ===== *)
theory SSE_Container
  imports SSE_Job Job_Json
begin

text \<open>
  What the engine asks of Docker for an SSE job: the container definition of \<open>coreapp/sse/sserun.go\<close>,
  the volume, the container with its limits, its environment and its mounts, and the commands that are
  executed in it. \<open>SSE_Run\<close> knows these calls by their errors only; here they have their arguments:
  \<open>launch\<close> is a second, more detailed translation of the lines of \<open>RunSSE\<close> up to the end of the user program,
  without the clean-up calls. \<open>RunSSE_launch\<close> checks that the two translations do not contradict each other.

  Docker is an argument that answers every call with an error or with the name or ID that the call
  returns. How an executed command ends, by its output closing or by the time limit, is an argument too.
\<close>

section \<open>Configuration and container definition\<close>

record SSEContainerConf = SSEConf +
  sc_ContainerImage :: string
  sc_ContainerPathIn :: string
  sc_ContainerPathOut :: string
  sc_ContainerMemory :: int
  sc_ContainerCPUSet :: string
  sc_ContainerDiskQuota :: int
  sc_GatewayRouterListenPort :: int
  sc_GatewayRouterLookupHost :: string

record ContainerConfig =
  cc_Image :: string
  cc_Tty :: bool
  cc_Env :: "string list"
  cc_AttachStdout :: bool
  cc_AttachStderr :: bool

record HostConfig =
  hc_ExtraHosts :: "string list"
  hc_Memory :: int
  hc_CpusetCpus :: string
  hc_Binds :: "string list"

record ExecConfig =
  ec_Privileged :: bool
  ec_User :: string
  ec_Cmd :: "string list"

datatype docker_call =
    DVolumeCreate string "(string, string) gomap" string
  | DContainerCreate ContainerConfig HostConfig string
  | DContainerStart string
  | DExecCreate string ExecConfig
  | DExecAttach string
  | DExecInspect string
  | DCopyTo string string "string \<times> nat \<times> string"

datatype exec_end = OutputClosed int | OutputFailed error | TimeLimit

record docker =
  dk_NewClient :: "error option"
  dk_answer :: "docker_call \<Rightarrow> error + string"
  dk_wait :: "string \<Rightarrow> exec_end"

record ContainerDefinition =
  cd_containerName :: string
  cd_config :: "ContainerConfig option"
  cd_client :: bool
  cd_ID :: string
  cd_volume :: string
  cd_gatewayRouterHost :: string

definition empty_ContainerDefinition :: ContainerDefinition where
  "empty_ContainerDefinition =
    \<lparr>cd_containerName = [], cd_config = None, cd_client = False, cd_ID = [], cd_volume = [], cd_gatewayRouterHost = []\<rparr>"

definition ContainerDefinition_Setup ::
  "docker \<Rightarrow> string \<Rightarrow> string list \<Rightarrow> string \<Rightarrow> string \<Rightarrow> ContainerDefinition \<Rightarrow> ContainerDefinition \<times> error option" where
  "ContainerDefinition_Setup d containerName envVars containerImageName gatewayRouterHostName c =
    (let c = c\<lparr>cd_containerName := containerName,
           cd_config := Some \<lparr>cc_Image = containerImageName, cc_Tty = True, cc_Env = envVars,
             cc_AttachStdout = True, cc_AttachStderr = True\<rparr>\<rparr> in
     case dk_NewClient d of
       Some er \<Rightarrow> (c, Some (makeErrMsg ''Failed to init container'' (Some er)))
     | None \<Rightarrow> (c\<lparr>cd_client := True, cd_gatewayRouterHost := gatewayRouterHostName\<rparr>, None))"

definition ContainerDefinition_SetID :: "string \<Rightarrow> ContainerDefinition \<Rightarrow> ContainerDefinition" where
  "ContainerDefinition_SetID value c = c\<lparr>cd_ID := value\<rparr>"

section \<open>The calls\<close>

text \<open>A step makes calls and returns the error, if any; the calls are collected in order.\<close>

definition volume_call :: "int \<Rightarrow> ContainerDefinition \<Rightarrow> docker_call" where
  "volume_call diskQuota c =
    DVolumeCreate ''local'' [(''type'', ''tmpfs''), (''device'', ''tmpfs ''), (''o'', ''size='' @ int_str diskQuota)]
      (''sse-'' @ cd_containerName c)"

definition docker_createVolume ::
  "docker \<Rightarrow> int \<Rightarrow> ContainerDefinition \<Rightarrow> docker_call list \<times> ContainerDefinition \<times> error option" where
  "docker_createVolume d diskQuota c =
    (case dk_answer d (volume_call diskQuota c) of
       Inl er \<Rightarrow> ([volume_call diskQuota c], c, Some (makeErrMsg ''failed to create volume'' (Some er)))
     | Inr createdVolume \<Rightarrow> ([volume_call diskQuota c], c\<lparr>cd_volume := createdVolume\<rparr>, None))"

definition container_call :: "'a SSEContainerConf_scheme \<Rightarrow> ContainerDefinition \<Rightarrow> docker_call" where
  "container_call sseconf c =
    DContainerCreate (the (cd_config c))
      \<lparr>hc_ExtraHosts = [cd_gatewayRouterHost c @ '':host-gateway''], hc_Memory = sc_ContainerMemory sseconf,
       hc_CpusetCpus = sc_ContainerCPUSet sseconf, hc_Binds = [cd_volume c @ '':/sse'']\<rparr>
      (cd_containerName c)"

definition docker_startContainer ::
  "docker \<Rightarrow> 'a SSEContainerConf_scheme \<Rightarrow> ContainerDefinition \<Rightarrow> docker_call list \<times> (error + string)" where
  "docker_startContainer d sseconf c =
    (let msg = ''failed to start container''; create = container_call sseconf c in
     case dk_answer d create of
       Inl er \<Rightarrow> ([create], Inl (makeErrMsg msg (Some er)))
     | Inr containerID \<Rightarrow>
         (case dk_answer d (DContainerStart containerID) of
            Inl er \<Rightarrow> ([create, DContainerStart containerID], Inl (makeErrMsg msg (Some er)))
          | Inr _ \<Rightarrow> ([create, DContainerStart containerID], Inr containerID)))"

definition exec_call :: "ContainerDefinition \<Rightarrow> string \<Rightarrow> bool \<Rightarrow> string \<Rightarrow> docker_call" where
  "exec_call c user privileged cmd =
    DExecCreate (cd_ID c) \<lparr>ec_Privileged = privileged, ec_User = user, ec_Cmd = [''sh'', ''-c'', cmd]\<rparr>"

definition docker_exec ::
  "docker \<Rightarrow> 'a SSEContainerConf_scheme \<Rightarrow> ContainerDefinition \<Rightarrow> string \<Rightarrow> bool \<Rightarrow> string \<Rightarrow>
   docker_call list \<times> error option \<times> string" where
  "docker_exec d sseconf c user privileged cmd =
    (let msg = ''failed to exec command in container''; msgExitCode = ''exit code is not 0'';
         msgTimeout = ''The SSE execution has timed out after '' @ int_str (sc_SSETimeout sseconf) @ '' seconds.'';
         create = exec_call c user privileged cmd in
     case dk_answer d create of
       Inl er \<Rightarrow> ([create], Some (makeErrMsg msg (Some er)), [])
     | Inr i \<Rightarrow>
         (case dk_answer d (DExecAttach i) of
            Inl er \<Rightarrow> ([create, DExecAttach i], Some (makeErrMsg msg (Some er)), [])
          | Inr _ \<Rightarrow>
              (case dk_wait d i of
                 TimeLimit \<Rightarrow> ([create, DExecAttach i], Some (makeErrMsg msgTimeout None), msgTimeout)
               | OutputFailed er \<Rightarrow> ([create, DExecAttach i], Some (makeErrMsg msg (Some er)), [])
               | OutputClosed code \<Rightarrow>
                   (case dk_answer d (DExecInspect i) of
                      Inl er \<Rightarrow> ([create, DExecAttach i, DExecInspect i], Some (makeErrMsg msg (Some er)), [])
                    | Inr _ \<Rightarrow>
                        if code \<noteq> 0
                        then ([create, DExecAttach i, DExecInspect i], Some (makeErrMsg msgExitCode None), msgExitCode)
                        else ([create, DExecAttach i, DExecInspect i], None, [])))))"

text \<open>The user program is sent as an archive of one file, with the permissions \<open>0777\<close>.\<close>

definition docker_copyUserProgram ::
  "docker \<Rightarrow> 'a SSEContainerConf_scheme \<Rightarrow> ContainerDefinition \<Rightarrow> host \<Rightarrow> docker_call list \<times> error option" where
  "docker_copyUserProgram d sseconf c h =
    (case map_of (ho_in h) (sc_UserProgramName sseconf) of
       None \<Rightarrow> ([], Some ''no such file or directory'')
     | Some content \<Rightarrow>
         (let call = DCopyTo (cd_ID c) (sc_ContainerPathIn sseconf) (sc_UserProgramName sseconf, 511, content) in
          case dk_answer d call of
            Inl er \<Rightarrow> ([call], Some (makeErrMsg ''failed to copy user program into container'' (Some er)))
          | Inr _ \<Rightarrow> ([call], None)))"

section \<open>From the job to the end of the user program\<close>

definition env_vars :: "'a SSEContainerConf_scheme \<Rightarrow> string \<Rightarrow> string list" where
  "env_vars sseconf outputJobJson =
    [''JOB_DATA_JSON='' @ outputJobJson, ''IN_PATH='' @ sc_ContainerPathIn sseconf,
     ''OUT_PATH='' @ sc_ContainerPathOut sseconf,
     ''GRPC_SSE_GATEWAY_ROUTER_HOST='' @ sc_GatewayRouterLookupHost sseconf,
     ''GRPC_SSE_GATEWAY_ROUTER_PORT='' @ int_str (sc_GatewayRouterListenPort sseconf)]"

definition init_cmd :: "'a SSEContainerConf_scheme \<Rightarrow> string" where
  "init_cmd sseconf =
    ''sh -c '' @ [dquote] @ ''/root/init.sh '' @ int_str (sc_GatewayRouterListenPort sseconf) @ [dquote]"

definition user_cmd :: "'a SSEContainerConf_scheme \<Rightarrow> string" where
  "user_cmd sseconf =
    ''uv run --project /app python '' @ sc_ContainerPathIn sseconf @ ''/'' @ sc_UserProgramName sseconf @
    '' 1> /proc/1/fd/1 2> /proc/1/fd/2''"

definition launch ::
  "docker \<Rightarrow> 'a SSEContainerConf_scheme \<Rightarrow> json_env \<Rightarrow> JobData \<Rightarrow> host \<Rightarrow>
   docker_call list \<times> (error + error option \<times> string)" where
  "launch d sseconf je jd h =
    (case convertJson je jd of
       Ok outputJobJson \<Rightarrow>
         (case ContainerDefinition_Setup d (jd_ID jd) (env_vars sseconf outputJobJson) (sc_ContainerImage sseconf)
                 (sc_GatewayRouterLookupHost sseconf) empty_ContainerDefinition of
            (c, Some er) \<Rightarrow> ([], Inl er)
          | (c, None) \<Rightarrow>
         (case docker_createVolume d (sc_ContainerDiskQuota sseconf) c of
            (l1, c, Some er) \<Rightarrow> (l1, Inl er)
          | (l1, c, None) \<Rightarrow>
         (case docker_startContainer d sseconf c of
            (l2, Inl er) \<Rightarrow> (l1 @ l2, Inl er)
          | (l2, Inr containerID) \<Rightarrow>
         (let c = ContainerDefinition_SetID containerID c in
          case docker_exec d sseconf c ''root'' True (init_cmd sseconf) of
            (l3, Some er, _) \<Rightarrow> (l1 @ l2 @ l3, Inl er)
          | (l3, None, _) \<Rightarrow>
         (case docker_copyUserProgram d sseconf c h of
            (l4, Some er) \<Rightarrow> (l1 @ l2 @ l3 @ l4, Inl er)
          | (l4, None) \<Rightarrow>
         (case docker_exec d sseconf c ''appuser'' False (user_cmd sseconf) of
            (l5, r) \<Rightarrow> (l1 @ l2 @ l3 @ l4 @ l5, Inr r)))))))
     | Err er \<Rightarrow> ([], Inl er)
     | Panic \<Rightarrow> ([], Inl ''panic''))"

section \<open>The same steps in \<open>RunSSE\<close>\<close>

text \<open>
  The environment of \<open>SSE_Run\<close> in which the errors of the calls are the answers of a given Docker. The
  container definition is the one that \<open>launch\<close> has when it makes the call.
\<close>

definition err_of :: "error + 'a \<Rightarrow> error option" where
  "err_of r = (case r of Inl er \<Rightarrow> Some er | Inr _ \<Rightarrow> None)"

definition job_json :: "json_env \<Rightarrow> JobData \<Rightarrow> string" where
  "job_json je jd = (case convertJson je jd of Ok s \<Rightarrow> s | _ \<Rightarrow> [])"

definition defined_container :: "'a SSEContainerConf_scheme \<Rightarrow> json_env \<Rightarrow> JobData \<Rightarrow> ContainerDefinition" where
  "defined_container sseconf je jd =
    \<lparr>cd_containerName = jd_ID jd,
     cd_config = Some \<lparr>cc_Image = sc_ContainerImage sseconf, cc_Tty = True, cc_Env = env_vars sseconf (job_json je jd),
       cc_AttachStdout = True, cc_AttachStderr = True\<rparr>,
     cd_client = True, cd_ID = [], cd_volume = [], cd_gatewayRouterHost = sc_GatewayRouterLookupHost sseconf\<rparr>"

definition mounted_container :: "docker \<Rightarrow> 'a SSEContainerConf_scheme \<Rightarrow> json_env \<Rightarrow> JobData \<Rightarrow> ContainerDefinition" where
  "mounted_container d sseconf je jd =
    (let c = defined_container sseconf je jd in
     c\<lparr>cd_volume := projr (dk_answer d (volume_call (sc_ContainerDiskQuota sseconf) c))\<rparr>)"

definition started_container :: "docker \<Rightarrow> 'a SSEContainerConf_scheme \<Rightarrow> json_env \<Rightarrow> JobData \<Rightarrow> ContainerDefinition" where
  "started_container d sseconf je jd =
    (let c = mounted_container d sseconf je jd in
     c\<lparr>cd_ID := projr (dk_answer d (container_call sseconf c))\<rparr>)"

definition exec_of :: "docker \<Rightarrow> 'a SSEContainerConf_scheme \<Rightarrow> json_env \<Rightarrow> JobData \<Rightarrow> bool \<Rightarrow> docker_call" where
  "exec_of d sseconf je jd b =
    exec_call (started_container d sseconf je jd) (if b then ''root'' else ''appuser'') b
      (if b then init_cmd sseconf else user_cmd sseconf)"

fun docker_fault ::
  "docker \<Rightarrow> 'a SSEContainerConf_scheme \<Rightarrow> json_env \<Rightarrow> JobData \<Rightarrow> host \<Rightarrow> (call \<Rightarrow> error option) \<Rightarrow> call \<Rightarrow> error option" where
  "docker_fault d sseconf je jd h other MarshalJob = (case convertJson je jd of Ok _ \<Rightarrow> None | Err er \<Rightarrow> Some er | Panic \<Rightarrow> Some ''panic'')"
| "docker_fault d sseconf je jd h other NewClientWithOpts = dk_NewClient d"
| "docker_fault d sseconf je jd h other VolumeCreate =
    err_of (dk_answer d (volume_call (sc_ContainerDiskQuota sseconf) (defined_container sseconf je jd)))"
| "docker_fault d sseconf je jd h other ContainerCreate = err_of (dk_answer d (container_call sseconf (mounted_container d sseconf je jd)))"
| "docker_fault d sseconf je jd h other ContainerStart = err_of (dk_answer d (DContainerStart (cd_ID (started_container d sseconf je jd))))"
| "docker_fault d sseconf je jd h other (ContainerExecCreate b) = err_of (dk_answer d (exec_of d sseconf je jd b))"
| "docker_fault d sseconf je jd h other (ContainerExecAttach b) =
    err_of (dk_answer d (DExecAttach (projr (dk_answer d (exec_of d sseconf je jd b)))))"
| "docker_fault d sseconf je jd h other (ExecOutput b) =
    (case dk_wait d (projr (dk_answer d (exec_of d sseconf je jd b))) of OutputFailed er \<Rightarrow> Some er | _ \<Rightarrow> None)"
| "docker_fault d sseconf je jd h other (ContainerExecInspect b) =
    err_of (dk_answer d (DExecInspect (projr (dk_answer d (exec_of d sseconf je jd b)))))"
| "docker_fault d sseconf je jd h other CopyToContainer =
    err_of (dk_answer d (DCopyTo (cd_ID (started_container d sseconf je jd)) (sc_ContainerPathIn sseconf)
      (sc_UserProgramName sseconf, 511, the (map_of (ho_in h) (sc_UserProgramName sseconf)))))"
| "docker_fault d sseconf je jd h other c = other c"

definition observed ::
  "docker \<Rightarrow> 'a SSEContainerConf_scheme \<Rightarrow> json_env \<Rightarrow> JobData \<Rightarrow> host \<Rightarrow> 'b sse_env_scheme \<Rightarrow> 'b sse_env_scheme" where
  "observed d sseconf je jd h e =
    e\<lparr>ev_SSEConf := SSEConf.truncate sseconf, ev_fault := docker_fault d sseconf je jd h (ev_fault e),
      ev_TimedOut := (\<lambda>b. dk_wait d (projr (dk_answer d (exec_of d sseconf je jd b))) = TimeLimit),
      ev_ExitCode := (\<lambda>b. case dk_wait d (projr (dk_answer d (exec_of d sseconf je jd b))) of OutputClosed n \<Rightarrow> n | _ \<Rightarrow> 0)\<rparr>"

lemma observed_simps [simp]:
  "ev_fault (observed d sseconf je jd h e) = docker_fault d sseconf je jd h (ev_fault e)"
  "ev_TimedOut (observed d sseconf je jd h e) b \<longleftrightarrow> dk_wait d (projr (dk_answer d (exec_of d sseconf je jd b))) = TimeLimit"
  "ev_ExitCode (observed d sseconf je jd h e) b =
    (case dk_wait d (projr (dk_answer d (exec_of d sseconf je jd b))) of OutputClosed n \<Rightarrow> n | _ \<Rightarrow> 0)"
  "sc_SSETimeout (ev_SSEConf (observed d sseconf je jd h e)) = sc_SSETimeout sseconf"
  "sc_UserProgramName (ev_SSEConf (observed d sseconf je jd h e)) = sc_UserProgramName sseconf"
  by (simp_all add: observed_def SSEConf.defs)

lemma err_of_simps [simp]: "err_of (Inl er) = Some er" "err_of (Inr a) = None"
  by (simp_all add: err_of_def)

lemma exec_agrees:
  "execCommandInContainer (observed d sseconf je jd h e) b =
    snd (docker_exec d sseconf (started_container d sseconf je jd) (if b then ''root'' else ''appuser'') b
      (if b then init_cmd sseconf else user_cmd sseconf))"
proof -
  let ?x = "exec_of d sseconf je jd b"
  show ?thesis
    by (cases "dk_answer d ?x"; cases "dk_answer d (DExecAttach (projr (dk_answer d ?x)))";
        cases "dk_wait d (projr (dk_answer d ?x))"; cases "dk_answer d (DExecInspect (projr (dk_answer d ?x)))")
      (simp_all add: execCommandInContainer_def docker_exec_def msg_timeout_def Let_def exec_of_def [symmetric])
qed

lemma copy_agrees:
  "copyUserProgramIntoContainer (observed d sseconf je jd h e) (h\<lparr>ho_volume := v, ho_container := w\<rparr>) =
    snd (docker_copyUserProgram d sseconf (started_container d sseconf je jd) h)"
  by (auto simp: copyUserProgramIntoContainer_def docker_copyUserProgram_def guarded_def Let_def
      split: option.split sum.split)

lemma launch_containers:
  assumes "convertJson je jd = Ok js" and "dk_NewClient d = None"
  shows "ContainerDefinition_Setup d (jd_ID jd) (env_vars sseconf js) (sc_ContainerImage sseconf)
      (sc_GatewayRouterLookupHost sseconf) empty_ContainerDefinition = (defined_container sseconf je jd, None)"
  using assms by (simp add: ContainerDefinition_Setup_def defined_container_def job_json_def empty_ContainerDefinition_def)

lemma createVolume_agrees:
  "docker_createVolume d (sc_ContainerDiskQuota sseconf) (defined_container sseconf je jd) =
    (let c = defined_container sseconf je jd; er = snd (createVolume (observed d sseconf je jd h e) h) in
     ([volume_call (sc_ContainerDiskQuota sseconf) c], if er = None then mounted_container d sseconf je jd else c, er))"
  by (auto simp: docker_createVolume_def createVolume_def mounted_container_def Let_def split: option.split sum.split)

lemma startContainer_agrees:
  "map_sum id (\<lambda>i. ContainerDefinition_SetID i (mounted_container d sseconf je jd))
      (snd (docker_startContainer d sseconf (mounted_container d sseconf je jd))) =
    (case snd (startContainer (observed d sseconf je jd h e) h') of
       Some er \<Rightarrow> Inl er
     | None \<Rightarrow> Inr (started_container d sseconf je jd))"
  by (auto simp: docker_startContainer_def startContainer_def started_container_def ContainerDefinition_SetID_def
      guarded_def Let_def split: option.split sum.split)

text \<open>
  The two translations agree: with \<open>observed\<close>, the environment of \<open>RunSSE\<close> in which the calls fail as Docker
  answers the calls of \<open>launch\<close>, \<open>RunSSE\<close> does what \<open>launch\<close> does. When a step up to the start of the user program fails, it ends with the
  error of that step, and otherwise it goes on with the outcome of the user program.
\<close>

lemma RunSSE_launch:
  "case snd (launch d sseconf je jd h) of
     Inl er \<Rightarrow> snd (RunSSE (observed d sseconf je jd h e) jd h) = Some er
   | Inr (execErr, errMsgToReturn) \<Rightarrow>
       RunSSE (observed d sseconf je jd h e) jd h =
         (let (h', copyErr) = copyResultFromContainer (observed d sseconf je jd h e) (h\<lparr>ho_volume := True, ho_container := True\<rparr>)
          in finishSSE (observed d sseconf je jd h e) (execErr \<noteq> None) (copyErr \<noteq> None) errMsgToReturn jd h')"
proof -
  let ?e = "observed d sseconf je jd h e" and ?c1 = "defined_container sseconf je jd"
  let ?c2 = "mounted_container d sseconf je jd" and ?c3 = "started_container d sseconf je jd"
  let ?v = "volume_call (sc_ContainerDiskQuota sseconf) ?c1"
  consider er where "dk_answer d ?v = Inl er"
    | v er where "dk_answer d ?v = Inr v" "snd (docker_startContainer d sseconf ?c2) = Inl er"
    | v i where "dk_answer d ?v = Inr v" "snd (docker_startContainer d sseconf ?c2) = Inr i"
    by (meson sum.exhaust)
  note split = this
  show ?thesis
  proof (cases "convertJson je jd")
    case (Ok js)
    show ?thesis
    proof (cases "dk_NewClient d")
      case None
      note c1 = launch_containers [OF Ok None, of sseconf]
      show ?thesis
      proof (cases rule: split)
        case (1 er)
        then show ?thesis
          by (simp add: launch_def Ok c1 RunSSE_def None guarded_def call_step_def docker_createVolume_def
              createVolume_def step_def)
      next
        case (2 v er)
        then obtain l where l: "docker_startContainer d sseconf ?c2 = (l, Inl er)"
          by (metis prod.collapse)
        have vol: "createVolume ?e h = (h\<lparr>ho_volume := True\<rparr>, None)"
          using 2(1) by (simp add: createVolume_def)
        have "snd (startContainer ?e (h\<lparr>ho_volume := True\<rparr>)) = Some er"
          using startContainer_agrees [of d sseconf je jd h e "h\<lparr>ho_volume := True\<rparr>"] 2(2) by (auto split: option.splits)
        then show ?thesis
          using l vol
          by (cases "startContainer ?e (h\<lparr>ho_volume := True\<rparr>)")
            (simp add: launch_def Ok c1 RunSSE_def None guarded_def call_step_def createVolume_agrees [of d sseconf je jd h e]
              Let_def step_def)
      next
        case (3 v i)
        then obtain l where l: "docker_startContainer d sseconf ?c2 = (l, Inr i)"
          by (metis prod.collapse)
        have vol: "createVolume ?e h = (h\<lparr>ho_volume := True\<rparr>, None)"
          using 3(1) by (simp add: createVolume_def)
        have st: "startContainer ?e (h\<lparr>ho_volume := True\<rparr>) = (h\<lparr>ho_volume := True, ho_container := True\<rparr>, None)"
          and c3: "ContainerDefinition_SetID i ?c2 = ?c3"
          using startContainer_agrees [of d sseconf je jd h e "h\<lparr>ho_volume := True\<rparr>"] 3(2)
          by (auto simp: startContainer_def Let_def split: option.splits)
        obtain l3 er3 m3 l4 er4 l5 er5 m5 where
          x: "docker_exec d sseconf ?c3 ''root'' True (init_cmd sseconf) = (l3, er3, m3)"
            "docker_copyUserProgram d sseconf ?c3 h = (l4, er4)"
            "docker_exec d sseconf ?c3 ''appuser'' False (user_cmd sseconf) = (l5, er5, m5)"
          by (metis prod.exhaust)
        then have "execCommandInContainer ?e True = (er3, m3)" "execCommandInContainer ?e False = (er5, m5)"
          "copyUserProgramIntoContainer ?e (h\<lparr>ho_volume := True, ho_container := True\<rparr>) = er4"
          by (simp_all add: exec_agrees copy_agrees)
        then show ?thesis
          using l vol st c3 x
          by (cases er3; cases er4)
            (simp_all add: launch_def Ok c1 RunSSE_def None guarded_def call_step_def
              createVolume_agrees [of d sseconf je jd h e] Let_def step_def)
      qed
    qed (simp add: launch_def Ok ContainerDefinition_Setup_def RunSSE_def guarded_def call_step_def errBeforeContainerMake_def)
  next
    case (Err er)
    then have "er = ''failed to marshal json''"
      using convertJson_Err_iff by metis
    with Err show ?thesis
      by (simp add: launch_def RunSSE_def guarded_def call_step_def errBeforeContainerMake_def)
  qed (simp add: convertJson_no_panic)
qed

section \<open>What a job may do\<close>

text \<open>Docker gives a volume the name it is asked for.\<close>

definition names_volumes :: "docker \<Rightarrow> bool" where
  "names_volumes d \<longleftrightarrow> (\<forall>drv opts n v. dk_answer d (DVolumeCreate drv opts n) = Inr v \<longrightarrow> v = n)"

fun confined :: "'a SSEContainerConf_scheme \<Rightarrow> JobData \<Rightarrow> string \<Rightarrow> docker_call \<Rightarrow> bool" where
  "confined sseconf jd js (DVolumeCreate drv opts n) \<longleftrightarrow>
    n = ''sse-'' @ jd_ID jd \<and> map_of opts ''o'' = Some (''size='' @ int_str (sc_ContainerDiskQuota sseconf))"
| "confined sseconf jd js (DContainerCreate cfg hc n) \<longleftrightarrow>
    n = jd_ID jd \<and> cc_Image cfg = sc_ContainerImage sseconf \<and> cc_Env cfg = env_vars sseconf js \<and>
    hc_Memory hc = sc_ContainerMemory sseconf \<and> hc_CpusetCpus hc = sc_ContainerCPUSet sseconf \<and>
    hc_Binds hc = [''sse-'' @ jd_ID jd @ '':/sse'']"
| "confined sseconf jd js (DExecCreate i x) \<longleftrightarrow>
    (if ec_Privileged x then ec_Cmd x = [''sh'', ''-c'', init_cmd sseconf]
     else ec_User x = ''appuser'' \<and> ec_Cmd x = [''sh'', ''-c'', user_cmd sseconf])"
| "confined sseconf jd js _ \<longleftrightarrow> True"

lemma exec_confined:
  "list_all (confined sseconf jd js) (fst (docker_exec d sseconf c ''root'' True (init_cmd sseconf)))"
  "list_all (confined sseconf jd js) (fst (docker_exec d sseconf c ''appuser'' False (user_cmd sseconf)))"
  by (simp_all add: docker_exec_def exec_call_def Let_def split: sum.split exec_end.split)

lemma copy_confined: "list_all (confined sseconf jd js) (fst (docker_copyUserProgram d sseconf c h))"
  by (simp add: docker_copyUserProgram_def Let_def split: option.split sum.split)

lemma start_confined:
  assumes "names_volumes d" and "dk_answer d (volume_call (sc_ContainerDiskQuota sseconf) (defined_container sseconf je jd)) = Inr v"
  shows "list_all (confined sseconf jd (job_json je jd)) (fst (docker_startContainer d sseconf (mounted_container d sseconf je jd)))"
proof -
  have "v = ''sse-'' @ jd_ID jd"
    using assms by (simp add: names_volumes_def volume_call_def defined_container_def)
  then show ?thesis
    using assms(2)
    by (simp add: docker_startContainer_def container_call_def mounted_container_def defined_container_def Let_def
        split: sum.split)
qed

text \<open>
  C35: Whatever Docker answers, the container of a job gets the configured image and the configured limits of
  memory, processors and disk, no mount but the job's own volume, and the job itself in its environment;
  only the initialisation command runs with privileges, and the user program runs as \<open>appuser\<close>.
\<close>

theorem launch_confined:
  assumes "names_volumes d"
  shows "list_all (confined sseconf jd (job_json je jd)) (fst (launch d sseconf je jd h))"
proof (cases "\<exists>js. convertJson je jd = Ok js \<and> dk_NewClient d = None")
  case True
  then obtain js where js: "convertJson je jd = Ok js" and n: "dk_NewClient d = None"
    by blast
  let ?c1 = "defined_container sseconf je jd" and ?c2 = "mounted_container d sseconf je jd"
  have vol: "confined sseconf jd (job_json je jd) (volume_call (sc_ContainerDiskQuota sseconf) ?c1)"
    by (simp add: volume_call_def defined_container_def)
  show ?thesis
  proof (cases "dk_answer d (volume_call (sc_ContainerDiskQuota sseconf) ?c1)")
    case (Inl er)
    then show ?thesis
      using vol by (simp add: launch_def js launch_containers [OF js n] docker_createVolume_def)
  next
    case (Inr v)
    have c2: "?c1\<lparr>cd_volume := v\<rparr> = ?c2"
      by (simp add: mounted_container_def Inr Let_def)
    obtain l2 r where st: "docker_startContainer d sseconf ?c2 = (l2, r)"
      by fastforce
    let ?c3 = "ContainerDefinition_SetID (projr r) ?c2"
    obtain l3 er3 m3 l4 er4 l5 m5 where
      x: "docker_exec d sseconf ?c3 ''root'' True (init_cmd sseconf) = (l3, er3, m3)"
        "docker_copyUserProgram d sseconf ?c3 h = (l4, er4)"
        "docker_exec d sseconf ?c3 ''appuser'' False (user_cmd sseconf) = (l5, m5)"
      by (metis prod.exhaust)
    let ?ok = "list_all (confined sseconf jd (job_json je jd))"
    have "?ok l2" "?ok l3" "?ok l4" "?ok l5"
      using start_confined [OF assms Inr] exec_confined [of sseconf jd "job_json je jd" d ?c3]
        copy_confined [of sseconf jd "job_json je jd" d ?c3 h] by (simp_all add: st x)
    then show ?thesis
      using vol x
      by (cases r; cases er3; cases er4)
        (simp_all add: launch_def js launch_containers [OF js n] docker_createVolume_def Inr c2 st Let_def)
  qed
next
  case False
  then show ?thesis
    by (auto simp: launch_def ContainerDefinition_Setup_def split: res.split option.split)
qed

definition example_docker :: docker where
  "example_docker =
    \<lparr>dk_NewClient = None,
     dk_answer = (\<lambda>c. case c of DVolumeCreate _ _ n \<Rightarrow> Inr n | DContainerCreate _ _ n \<Rightarrow> Inr (''id-'' @ n) | _ \<Rightarrow> Inr ''exec''),
     dk_wait = (\<lambda>_. OutputClosed 0)\<rparr>"

definition example_sse_conf :: SSEContainerConf where
  "example_sse_conf =
    \<lparr>sc_SSEResultFileName = ''result.json'', sc_SSELogFileName = ''ssecontainer.log'', sc_SSETimeout = 300,
     sc_MaxFileSize = 10485760, sc_UserProgramName = ''userprogram.py'', sc_ContainerImage = ''sse/python3.11.6:latest'',
     sc_ContainerPathIn = ''/sse/in'', sc_ContainerPathOut = ''/sse/out'', sc_ContainerMemory = 1073741824,
     sc_ContainerCPUSet = ''0'', sc_ContainerDiskQuota = 314572800, sc_GatewayRouterListenPort = 5001,
     sc_GatewayRouterLookupHost = ''sse.gateway.router''\<rparr>"

definition example_json_env :: json_env where
  "example_json_env = \<lparr>je_float32 = (\<lambda>_. Some ''0''), je_DateTime = (\<lambda>_. ''1970-01-01T00:00:00.000Z'')\<rparr>"

text \<open>The ten calls that start the container of a job and run its program.\<close>

theorem launch_confined_witness:
  "let jd = (NewJobData 0)\<lparr>jd_ID := ''j1''\<rparr>; h = no_host\<lparr>ho_in := [(''userprogram.py'', ''print(1)'')]\<rparr>;
       r = launch example_docker example_sse_conf example_json_env jd h in
   length (fst r) = 10 \<and> snd r = Inr (None, []) \<and> list_all (confined example_sse_conf jd (job_json example_json_env jd)) (fst r)"
proof -
  let ?jd = "(NewJobData 0)\<lparr>jd_ID := ''j1''\<rparr>" and ?h = "no_host\<lparr>ho_in := [(''userprogram.py'', ''print(1)'')]\<rparr>"
  have d: "names_volumes example_docker"
    by (simp add: names_volumes_def example_docker_def)
  obtain js where js: "convertJson example_json_env ?jd = Ok js"
    by (simp add: convertJson_def enc_JobData_def enc_ptr_def enc_Result_def NewJobData_def NewResult_def enc_TranspilerInfo_def)
  have "length (fst (launch example_docker example_sse_conf example_json_env ?jd ?h)) = 10 \<and>
      snd (launch example_docker example_sse_conf example_json_env ?jd ?h) = Inr (None, [])"
    using js
    by (simp add: launch_def ContainerDefinition_Setup_def docker_createVolume_def volume_call_def
        docker_startContainer_def container_call_def docker_exec_def exec_call_def docker_copyUserProgram_def
        example_docker_def example_sse_conf_def Let_def)
  then show ?thesis
    using launch_confined [OF d, of example_sse_conf ?jd example_json_env ?h] by (simp add: Let_def)
qed

end
