(* ===== verification/Circuit.thy ===== *)
theory Circuit
  imports Qpu Common_Util
begin

text \<open>
  \<open>coreapp/qpu/circuit.go\<close> and \<open>ir.go\<close>: the validation of a program against the allow and deny lists of
  the device, and the intermediate representation from which its qubits are counted.

  The parser is generated by ANTLR (\<open>Qasm_Parser\<close>). Of a parsed program the code uses the names of its statements and
  the sequence of callbacks that the tree walker makes while it visits the tree; \<open>Circuit\<close> holds both.
  A callback is a \<open>listener_event\<close> with the texts that the callback reads from its node; \<open>None\<close> is a child that the
  node does not have, and \<open>NilChild\<close> a callback that reads a child that every node of its rule should have.
  \<open>parse\<close> gives the circuit, or the errors reported to the listener and whether the parser was cancelled;
  \<open>Qasm_Circuit\<close> gives it from the parser.

  \<open>tmpStatementIR\<close> is a pointer: a statement that was appended and is still the current one changes with it.
  That happens when a statement is nested in another of the same kind (in the scope of a \<open>durationof\<close>), for the
  inner statement is still the current one when the outer one ends. \<open>ci_tmpAppended\<close> counts how often the
  current statement was appended; these are the last ones of the list.
\<close>

section \<open>Intermediate representation\<close>

record QCbitIdentifier =
  qb_Name :: string
  qb_Index :: int

text \<open>The zero value of an identifier, which a fresh struct has.\<close>

definition zero_QCbit :: QCbitIdentifier where
  "zero_QCbit = \<lparr>qb_Name = [], qb_Index = 0\<rparr>"

datatype StatementIR =
    QuantumDeclarationStatementIR string int
  | ClassicalDeclarationStatementIR string int
  | GateCallStatementIR string "QCbitIdentifier list" string
  | AssignmentStatementIR QCbitIdentifier QCbitIdentifier

fun StatementIR_String :: "StatementIR \<Rightarrow> string" where
  "StatementIR_String (QuantumDeclarationStatementIR _ _) = ''QuantumDecalrationStatementIR''"
| "StatementIR_String (ClassicalDeclarationStatementIR _ _) = ''ClassicalDecalrationStatementIR''"
| "StatementIR_String (GateCallStatementIR _ _ _) = ''GateCallStatementIR''"
| "StatementIR_String (AssignmentStatementIR _ _) = ''AssignmentStatementIR''"

record ProgramIR =
  pi_Version :: string
  pi_Statements :: "StatementIR list"
  pi_QubitCount :: int
  pi_QubitAbsNum :: "(QCbitIdentifier, int) gomap"
  pi_BitCount :: int
  pi_BitAbsNum :: "(QCbitIdentifier, int) gomap"

record CircuitIR =
  ci_ProgramIR :: "ProgramIR option"
  ci_tmpStatementIR :: "StatementIR option"
  ci_tmpAppended :: nat
  ci_tmpDegsinator :: int
  ci_tmpQCbitIdentifiers :: "QCbitIdentifier list"
  ci_tmpMeasureExpressionIR :: QCbitIdentifier
  ci_tmpExpressionList :: string

datatype listener_event =
    EnterProgram | EnterVersion string
  | EnterQuantumDeclaration string | ExitQuantumDeclaration
  | EnterDesignator string
  | EnterClassicalDeclaration string | ExitClassicalDeclaration
  | EnterGateCall "string option" | ExitGateCall
  | EnterGateOperandList | EnterExpressionList | ExitExpressionList string
  | EnterIndexedIdentifier string "string option"
  | EnterAssignment | ExitAssignment
  | EnterMeasureExpression | ExitMeasureExpression
  | NilChild

definition empty_CircuitIR :: CircuitIR where
  "empty_CircuitIR =
    \<lparr>ci_ProgramIR = None, ci_tmpStatementIR = None, ci_tmpAppended = 0, ci_tmpDegsinator = 0, ci_tmpQCbitIdentifiers = [],
     ci_tmpMeasureExpressionIR = zero_QCbit, ci_tmpExpressionList = []\<rparr>"

definition empty_ProgramIR :: ProgramIR where
  "empty_ProgramIR =
    \<lparr>pi_Version = [], pi_Statements = [], pi_QubitCount = 0, pi_QubitAbsNum = [], pi_BitCount = 0, pi_BitAbsNum = []\<rparr>"

text \<open>The loops that number the bits of a register.\<close>

fun number_bits :: "string \<Rightarrow> nat \<Rightarrow> int \<Rightarrow> int \<Rightarrow> (QCbitIdentifier, int) gomap \<Rightarrow> int \<times> (QCbitIdentifier, int) gomap" where
  "number_bits name 0 i c m = (c, m)"
| "number_bits name (Suc n) i c m =
    number_bits name n (i + 1) (c + 1) (AList.update \<lparr>qb_Name = name, qb_Index = i\<rparr> c m)"

definition with_program :: "(ProgramIR \<Rightarrow> ProgramIR) \<Rightarrow> CircuitIR \<Rightarrow> CircuitIR res" where
  "with_program f c =
    (case ci_ProgramIR c of None \<Rightarrow> Panic | Some p \<Rightarrow> Ok (c\<lparr>ci_ProgramIR := Some (f p)\<rparr>))"

text \<open>Appends the current statement, which was appended \<open>n\<close> times before.\<close>

definition add_statement :: "nat \<Rightarrow> StatementIR \<Rightarrow> ProgramIR \<Rightarrow> ProgramIR" where
  "add_statement n st p =
    p\<lparr>pi_Statements := take (length (pi_Statements p) - n) (pi_Statements p) @ replicate (Suc n) st\<rparr>"

definition new_statement :: "StatementIR \<Rightarrow> CircuitIR \<Rightarrow> CircuitIR" where
  "new_statement st c = c\<lparr>ci_tmpStatementIR := Some st, ci_tmpAppended := 0\<rparr>"

definition appended :: "StatementIR \<Rightarrow> CircuitIR \<Rightarrow> CircuitIR" where
  "appended st c = c\<lparr>ci_tmpStatementIR := Some st, ci_tmpAppended := Suc (ci_tmpAppended c)\<rparr>"

definition atoi_or_panic :: "string \<Rightarrow> int res" where
  "atoi_or_panic t = (case Atoi t of Ok n \<Rightarrow> Ok n | _ \<Rightarrow> Panic)"

fun callback :: "listener_event \<Rightarrow> CircuitIR \<Rightarrow> CircuitIR res" where
  "callback EnterProgram c = Ok (c\<lparr>ci_ProgramIR := Some empty_ProgramIR\<rparr>)"
| "callback (EnterVersion v) c = with_program (\<lambda>p. p\<lparr>pi_Version := v\<rparr>) c"
| "callback (EnterQuantumDeclaration name) c =
    Ok (new_statement (QuantumDeclarationStatementIR name 0) c)"
| "callback ExitQuantumDeclaration c =
    (case ci_tmpStatementIR c of
       Some (QuantumDeclarationStatementIR name _) \<Rightarrow>
         (let st = QuantumDeclarationStatementIR name (ci_tmpDegsinator c) in
          with_program (\<lambda>p.
            (case number_bits name (nat (ci_tmpDegsinator c)) 0 (pi_QubitCount p) (pi_QubitAbsNum p) of
               (n, m) \<Rightarrow> add_statement (ci_tmpAppended c) st (p\<lparr>pi_QubitCount := n, pi_QubitAbsNum := m\<rparr>)))
            (appended st c))
     | _ \<Rightarrow> Panic)"
| "callback (EnterDesignator t) c = res_bind (atoi_or_panic t) (\<lambda>des. Ok (c\<lparr>ci_tmpDegsinator := des\<rparr>))"
| "callback (EnterClassicalDeclaration name) c =
    Ok (new_statement (ClassicalDeclarationStatementIR name 0) c)"
| "callback ExitClassicalDeclaration c =
    (case ci_tmpStatementIR c of
       Some (ClassicalDeclarationStatementIR name _) \<Rightarrow>
         (let st = ClassicalDeclarationStatementIR name (ci_tmpDegsinator c) in
          with_program (\<lambda>p.
            (case number_bits name (nat (ci_tmpDegsinator c)) 0 (pi_BitCount p) (pi_BitAbsNum p) of
               (n, m) \<Rightarrow> add_statement (ci_tmpAppended c) st (p\<lparr>pi_BitCount := n, pi_BitAbsNum := m\<rparr>)))
            (appended st c))
     | _ \<Rightarrow> Panic)"
| "callback (EnterGateCall name) c =
    (case name of
       None \<Rightarrow> Panic
     | Some n \<Rightarrow> Ok (new_statement (GateCallStatementIR n [] []) c))"
| "callback ExitGateCall c =
    (case ci_tmpStatementIR c of
       Some (GateCallStatementIR n _ _) \<Rightarrow>
         (let st = GateCallStatementIR n (ci_tmpQCbitIdentifiers c) (ci_tmpExpressionList c) in
          with_program (add_statement (ci_tmpAppended c) st) (appended st c))
     | _ \<Rightarrow> Panic)"
| "callback EnterGateOperandList c = Ok (c\<lparr>ci_tmpQCbitIdentifiers := []\<rparr>)"
| "callback EnterExpressionList c = Ok (c\<lparr>ci_tmpExpressionList := []\<rparr>)"
| "callback (ExitExpressionList t) c = Ok (c\<lparr>ci_tmpExpressionList := t\<rparr>)"
| "callback (EnterIndexedIdentifier name index) c =
    (case index of
       None \<Rightarrow> Panic
     | Some t \<Rightarrow>
         res_bind (atoi_or_panic t) (\<lambda>ind.
           Ok (c\<lparr>ci_tmpQCbitIdentifiers := ci_tmpQCbitIdentifiers c @ [\<lparr>qb_Name = name, qb_Index = ind\<rparr>]\<rparr>)))"
| "callback EnterAssignment c =
    Ok (new_statement (AssignmentStatementIR zero_QCbit zero_QCbit) (c\<lparr>ci_tmpQCbitIdentifiers := []\<rparr>))"
| "callback NilChild c = Panic"
| "callback EnterMeasureExpression c = Ok c"
| "callback ExitMeasureExpression c =
    (if length (ci_tmpQCbitIdentifiers c) \<le> 1 then Panic
     else Ok (c\<lparr>ci_tmpMeasureExpressionIR := ci_tmpQCbitIdentifiers c ! 1\<rparr>))"
| "callback ExitAssignment c =
    (case ci_tmpStatementIR c of
       Some (AssignmentStatementIR _ _) \<Rightarrow>
         (case ci_tmpQCbitIdentifiers c of
            [] \<Rightarrow> Panic
          | q # _ \<Rightarrow>
              (let st = AssignmentStatementIR q (ci_tmpMeasureExpressionIR c) in
               with_program (add_statement (ci_tmpAppended c) st) (appended st c)))
     | _ \<Rightarrow> Panic)"

fun Walk :: "listener_event list \<Rightarrow> CircuitIR \<Rightarrow> CircuitIR res" where
  "Walk [] c = Ok c"
| "Walk (ev # evs) c = res_bind (callback ev c) (Walk evs)"

definition NewCircuitIR :: "listener_event list \<Rightarrow> CircuitIR res" where
  "NewCircuitIR evs = (case Walk evs empty_CircuitIR of Ok c \<Rightarrow> Ok c | _ \<Rightarrow> Err ''failed to generate IR.'')"

section \<open>Circuits\<close>

record Circuit =
  cc_statements :: "string list"
  cc_events :: "listener_event list"

datatype report = SyntaxError int int string | ReportAmbiguity | ReportAttemptingFullContext | ReportContextSensitivity

fun report_msg :: "report \<Rightarrow> string" where
  "report_msg (SyntaxError line column msg) = ''line '' @ int_str line @ '':'' @ int_str column @ '' '' @ msg"
| "report_msg ReportAmbiguity = ''reportAmbiguity''"
| "report_msg ReportAttemptingFullContext = ''reportAttemptingFullContext''"
| "report_msg ReportContextSensitivity = ''reportContextSensitivity''"

fun msgBuffer :: "report list \<Rightarrow> string" where
  "msgBuffer rs = (if rs = [] then [] else report_msg (last rs))"

definition ParseQASM :: "(string \<Rightarrow> (report list \<times> bool) + Circuit) \<Rightarrow> string \<Rightarrow> Circuit res" where
  "ParseQASM parse qasm =
    (if qasm = [] then Err ''no input qasm''
     else
       (case parse qasm of
          Inr circ \<Rightarrow> Ok circ
        | Inl (reports, cancelled) \<Rightarrow>
            Err (if msgBuffer reports \<noteq> [] then msgBuffer reports
                 else if cancelled then ''canceled to parse'' else ''failed to parse'')))"

fun filterList :: "string list \<Rightarrow> string list \<Rightarrow> bool \<Rightarrow> error option" where
  "filterList [] statementList returnIfFiltered = None"
| "filterList (n # statements) statementList returnIfFiltered =
    (if returnIfFiltered then
       (if ContainsStatementName n statementList then Some (''statement:'' @ n @ '' is not supported'')
        else filterList statements statementList returnIfFiltered)
     else
       (if \<not> ContainsStatementName n statementList then Some (''statement:'' @ n @ '' is not supported'')
        else filterList statements statementList returnIfFiltered))"

definition validateStatements :: "Circuit \<Rightarrow> QASMSupport \<Rightarrow> error option" where
  "validateStatements circ qasmSupport =
    (let allow = (if qf_Enabled (qs_AllowList qasmSupport)
                  then filterList (cc_statements circ) (qf_Statements (qs_AllowList qasmSupport)) False else None);
         deny = (if qf_Enabled (qs_DenyList qasmSupport)
                 then filterList (cc_statements circ) (qf_Statements (qs_DenyList qasmSupport)) True else None) in
     case allow of Some er \<Rightarrow> Some er | None \<Rightarrow> deny)"

definition checkResource :: "Circuit \<Rightarrow> int \<Rightarrow> error option res" where
  "checkResource circ qubinNumber =
    (case NewCircuitIR (cc_events circ) of
       Ok circIR \<Rightarrow>
         (case ci_ProgramIR circIR of
            None \<Rightarrow> Panic
          | Some p \<Rightarrow>
              Ok (if pi_QubitCount p > qubinNumber
                  then Some (''Too many quibits in your circuit. We only have '' @ int_str qubinNumber @ '' qubits.'')
                  else None))
     | Err er \<Rightarrow> Ok (Some er)
     | Panic \<Rightarrow> Panic)"

definition circuitValidate ::
  "(string \<Rightarrow> (report list \<times> bool) + Circuit) \<Rightarrow> DeviceInfo \<Rightarrow> string \<Rightarrow> DeviceSetting \<Rightarrow> error option res" where
  "circuitValidate parse di qasm ds =
    (if qasm = [] then Ok (Some ''no input qasm'')
     else
       (case ParseQASM parse qasm of
          Err er \<Rightarrow> Ok (Some er)
        | Panic \<Rightarrow> Panic
        | Ok circ \<Rightarrow>
            (case validateStatements circ (ds_QASMSupport ds) of
               Some er \<Rightarrow> Ok (Some er)
             | None \<Rightarrow>
                 if di_Status di \<noteq> Available
                 then Ok (Some (''device is not available. status:'' @ DeviceStatus_String (di_Status di)))
                 else checkResource circ (di_MaxQubits di))))"

section \<open>The representation of a program\<close>

text \<open>
  Programs of the statements that the listener handles, and the callbacks that the walker makes for them
  by the grammar (\<open>core/parser/qasm3Parser.g4\<close>).
\<close>

datatype qasm_statement =
    QubitDecl string "nat option"
  | BitDecl string "nat option"
  | GateCall string "string option" "(string \<times> nat) list"
  | MeasureInto "string \<times> nat" "string \<times> nat"

abbreviation designator_events :: "nat option \<Rightarrow> listener_event list" where
  "designator_events d \<equiv> (case d of None \<Rightarrow> [] | Some k \<Rightarrow> [EnterDesignator (nat_str k)])"

definition operand_event :: "string \<times> nat \<Rightarrow> listener_event" where
  "operand_event q = EnterIndexedIdentifier (fst q) (Some (nat_str (snd q)))"

fun events_of :: "qasm_statement \<Rightarrow> listener_event list" where
  "events_of (QubitDecl n d) = EnterQuantumDeclaration n # designator_events d @ [ExitQuantumDeclaration]"
| "events_of (BitDecl n d) = EnterClassicalDeclaration n # designator_events d @ [ExitClassicalDeclaration]"
| "events_of (GateCall g e qs) =
    EnterGateCall (Some g) # (case e of None \<Rightarrow> [] | Some t \<Rightarrow> [EnterExpressionList, ExitExpressionList t]) @
    EnterGateOperandList # map operand_event qs @ [ExitGateCall]"
| "events_of (MeasureInto c q) =
    [EnterAssignment, operand_event c, EnterMeasureExpression, operand_event q, ExitMeasureExpression, ExitAssignment]"

text \<open>
  What the listener makes of a statement. A missing designator or parameter list is not reset: \<open>d\<close> and
  \<open>x\<close> are the last ones that were read.
\<close>

definition bit_of :: "string \<times> nat \<Rightarrow> QCbitIdentifier" where
  "bit_of q = \<lparr>qb_Name = fst q, qb_Index = int (snd q)\<rparr>"

abbreviation or_last :: "'a option \<Rightarrow> 'a \<Rightarrow> 'a" where
  "or_last v l \<equiv> (case v of None \<Rightarrow> l | Some a \<Rightarrow> a)"

fun ir_statement :: "nat \<Rightarrow> string \<Rightarrow> qasm_statement \<Rightarrow> StatementIR" where
  "ir_statement d x (QubitDecl n k) = QuantumDeclarationStatementIR n (int (or_last k d))"
| "ir_statement d x (BitDecl n k) = ClassicalDeclarationStatementIR n (int (or_last k d))"
| "ir_statement d x (GateCall g e qs) = GateCallStatementIR g (map bit_of qs) (or_last e x)"
| "ir_statement d x (MeasureInto c q) = AssignmentStatementIR (bit_of c) (bit_of q)"

fun next_designator :: "nat \<Rightarrow> qasm_statement \<Rightarrow> nat" where
  "next_designator d (QubitDecl n k) = or_last k d"
| "next_designator d (BitDecl n k) = or_last k d"
| "next_designator d _ = d"

fun next_exp :: "string \<Rightarrow> qasm_statement \<Rightarrow> string" where
  "next_exp x (GateCall g e qs) = or_last e x"
| "next_exp x _ = x"

fun ir_statements :: "nat \<Rightarrow> string \<Rightarrow> qasm_statement list \<Rightarrow> StatementIR list" where
  "ir_statements d x [] = []"
| "ir_statements d x (st # sts) = ir_statement d x st # ir_statements (next_designator d st) (next_exp x st) sts"

definition qubits_of :: "StatementIR \<Rightarrow> nat" where
  "qubits_of st = (case st of QuantumDeclarationStatementIR _ k \<Rightarrow> nat k | _ \<Rightarrow> 0)"

definition small :: "qasm_statement \<Rightarrow> bool" where
  "small st = (case st of
     QubitDecl _ k \<Rightarrow> or_last k 0 < 2 ^ 63 | BitDecl _ k \<Rightarrow> or_last k 0 < 2 ^ 63
   | GateCall _ _ qs \<Rightarrow> list_all (\<lambda>q. snd q < 2 ^ 63) qs
   | MeasureInto c q \<Rightarrow> snd c < 2 ^ 63 \<and> snd q < 2 ^ 63)"

lemma atoi_nat_str [simp]: "k < 2 ^ 63 \<Longrightarrow> atoi_or_panic (nat_str k) = Ok (int k)"
  by (simp add: atoi_or_panic_def Atoi_digits nat_str_digits)

lemma number_bits_count: "fst (number_bits name n i c m) = c + int n"
  by (induction name n i c m rule: number_bits.induct) simp_all

lemmas statement_defs = add_statement_def new_statement_def appended_def

lemma Walk_append: "Walk (xs @ ys) c = res_bind (Walk xs c) (Walk ys)"
  by (induction xs arbitrary: c) (simp, simp, (metis res.exhaust res_bind.simps)?)

lemma Walk_operands:
  "list_all (\<lambda>q. snd q < 2 ^ 63) qs \<Longrightarrow> Walk (map operand_event qs) c =
    Ok (c\<lparr>ci_tmpQCbitIdentifiers := ci_tmpQCbitIdentifiers c @ map bit_of qs\<rparr>)"
  by (induction qs arbitrary: c) (simp_all add: operand_event_def bit_of_def)

definition ir_state :: "nat \<Rightarrow> string \<Rightarrow> StatementIR list \<Rightarrow> CircuitIR \<Rightarrow> bool" where
  "ir_state d x sts c \<longleftrightarrow> ci_tmpDegsinator c = int d \<and> ci_tmpExpressionList c = x \<and>
    (\<exists>p. ci_ProgramIR c = Some p \<and> pi_Statements p = sts \<and> pi_QubitCount p = int (sum_list (map qubits_of sts)))"

lemma Walk_statement:
  assumes "ir_state d x sts c" and "small st"
  shows "\<exists>c'. Walk (events_of st) c = Ok c' \<and>
    ir_state (next_designator d st) (next_exp x st) (sts @ [ir_statement d x st]) c'"
proof (cases st)
  case (QubitDecl n k)
  then show ?thesis
    using assms
    by (cases k) (auto simp: ir_state_def small_def with_program_def statement_defs qubits_of_def
        number_bits_count case_prod_beta Let_def)
next
  case (BitDecl n k)
  then show ?thesis
    using assms
    by (cases k) (auto simp: ir_state_def small_def with_program_def statement_defs qubits_of_def
        case_prod_beta Let_def)
next
  case (GateCall g e qs)
  then show ?thesis
    using assms
    by (cases e) (auto simp: ir_state_def small_def with_program_def statement_defs qubits_of_def
        Walk_append Walk_operands Let_def)
next
  case (MeasureInto c q)
  then show ?thesis
    using assms
    by (auto simp: ir_state_def small_def with_program_def statement_defs qubits_of_def
        operand_event_def bit_of_def Let_def)
qed

lemma Walk_statements:
  "ir_state d x sts c \<Longrightarrow> list_all small prog \<Longrightarrow>
    \<exists>c' d' x'. Walk (concat (map events_of prog)) c = Ok c' \<and> ir_state d' x' (sts @ ir_statements d x prog) c'"
proof (induction prog arbitrary: d x sts c)
  case (Cons st prog)
  then obtain c1 where "Walk (events_of st) c = Ok c1"
    "ir_state (next_designator d st) (next_exp x st) (sts @ [ir_statement d x st]) c1"
    using Walk_statement [of d x sts c st] by auto
  then show ?case
    using Cons.IH [of "next_designator d st" "next_exp x st" "sts @ [ir_statement d x st]" c1] Cons.prems(2)
    by (simp add: Walk_append)
qed auto

lemma NewCircuitIR_events:
  assumes "list_all small prog"
  shows "\<exists>c p. NewCircuitIR (EnterProgram # concat (map events_of prog)) = Ok c \<and> ci_ProgramIR c = Some p \<and>
    pi_Statements p = ir_statements 0 [] prog \<and>
    pi_QubitCount p = int (sum_list (map qubits_of (ir_statements 0 [] prog)))"
proof -
  have "ir_state 0 [] [] (empty_CircuitIR\<lparr>ci_ProgramIR := Some empty_ProgramIR\<rparr>)"
    by (simp add: ir_state_def empty_CircuitIR_def empty_ProgramIR_def)
  from Walk_statements [OF this assms] show ?thesis
    by (auto simp: NewCircuitIR_def ir_state_def)
qed

text \<open>
  The intermediate representation of a program has its statements in their order, with the gate names
  and the qubits they act on, and its qubit count is the sum of the sizes of the declared registers; a
  program passes the resource check exactly when that sum does not exceed the qubits of the device. A
  declaration without a size, however, gets the size read last before it (none counts as zero), and
  likewise a gate without parameters the parameters of the last gate that had some.
\<close>

theorem checkResource_counts:
  assumes "list_all small prog" and "cc_events circ = EnterProgram # concat (map events_of prog)"
  shows "\<exists>c p. NewCircuitIR (cc_events circ) = Ok c \<and> ci_ProgramIR c = Some p \<and>
    pi_Statements p = ir_statements 0 [] prog \<and>
    (checkResource circ mx = Ok None) = (int (sum_list (map qubits_of (ir_statements 0 [] prog))) \<le> mx)"
  using NewCircuitIR_events [OF assms(1)] by (auto simp: assms(2) checkResource_def split: if_splits)

definition example_program :: "qasm_statement list" where
  "example_program = [QubitDecl ''q'' (Some 2), BitDecl ''c'' (Some 2), GateCall ''rx'' (Some ''0.5'') [(''q'', 0)],
     GateCall ''cx'' None [(''q'', 0), (''q'', 1)], MeasureInto (''c'', 0) (''q'', 0), QubitDecl ''single'' None]"

theorem checkResource_counts_witness:
  "checkResource \<lparr>cc_statements = [], cc_events = EnterProgram # concat (map events_of example_program)\<rparr> 4 = Ok None \<and>
   checkResource \<lparr>cc_statements = [], cc_events = EnterProgram # concat (map events_of example_program)\<rparr> 3 \<noteq> Ok None"
proof -
  let ?c = "\<lparr>cc_statements = [], cc_events = EnterProgram # concat (map events_of example_program)\<rparr>"
  have "list_all small example_program"
    by (simp add: example_program_def small_def)
  moreover have "sum_list (map qubits_of (ir_statements 0 [] example_program)) = 4"
    by (simp add: example_program_def qubits_of_def)
  ultimately show ?thesis
    using checkResource_counts [of example_program ?c 4] checkResource_counts [of example_program ?c 3] by auto
qed

section \<open>Which programs are accepted\<close>

lemma filterList_None:
  "filterList sts names deny = None \<longleftrightarrow> (\<forall>n \<in> set sts. ContainsStatementName n names \<longleftrightarrow> \<not> deny)"
  by (induction sts names deny rule: filterList.induct) auto

lemma validateStatements_None:
  "validateStatements circ qs = None \<longleftrightarrow>
    (\<forall>n \<in> set (cc_statements circ).
       (qf_Enabled (qs_AllowList qs) \<longrightarrow> ContainsStatementName n (qf_Statements (qs_AllowList qs))) \<and>
       (qf_Enabled (qs_DenyList qs) \<longrightarrow> \<not> ContainsStatementName n (qf_Statements (qs_DenyList qs))))"
proof -
  let ?allow = "filterList (cc_statements circ) (qf_Statements (qs_AllowList qs)) False"
  have "validateStatements circ qs = None \<longleftrightarrow>
      (qf_Enabled (qs_AllowList qs) \<longrightarrow> ?allow = None) \<and>
      (qf_Enabled (qs_DenyList qs) \<longrightarrow> filterList (cc_statements circ) (qf_Statements (qs_DenyList qs)) True = None)"
    by (cases ?allow) (simp_all add: validateStatements_def)
  then show ?thesis
    by (auto simp: filterList_None)
qed

text \<open>
  A program is accepted for the device exactly when it is not empty, can be parsed, has only statements
  that an enabled allow list has and none that an enabled deny list has, the device is available, and the
  qubits it declares fit on the device.
\<close>

lemma circuitValidate_iff:
  assumes "parse qasm = Inr circ" and "list_all small prog" and "cc_events circ = EnterProgram # concat (map events_of prog)"
  shows "circuitValidate parse di qasm ds = Ok None \<longleftrightarrow> qasm \<noteq> [] \<and>
    (\<forall>n \<in> set (cc_statements circ).
       (qf_Enabled (qs_AllowList (ds_QASMSupport ds)) \<longrightarrow> ContainsStatementName n (qf_Statements (qs_AllowList (ds_QASMSupport ds)))) \<and>
       (qf_Enabled (qs_DenyList (ds_QASMSupport ds)) \<longrightarrow> \<not> ContainsStatementName n (qf_Statements (qs_DenyList (ds_QASMSupport ds))))) \<and>
    di_Status di = Available \<and> int (sum_list (map qubits_of (ir_statements 0 [] prog))) \<le> di_MaxQubits di"
proof -
  have "(checkResource circ mx = Ok None) = (int (sum_list (map qubits_of (ir_statements 0 [] prog))) \<le> mx)" for mx
    using NewCircuitIR_events [OF assms(2)] by (auto simp: assms(3) checkResource_def split: if_splits)
  then show ?thesis
    using assms(1)
    by (auto simp: circuitValidate_def ParseQASM_def simp flip: validateStatements_None split: option.split)
qed

section \<open>The numbers of the bits\<close>

text \<open>Numbers are in range and no two bits have the same one.\<close>

definition numbering :: "int \<Rightarrow> (QCbitIdentifier, int) gomap \<Rightarrow> bool" where
  "numbering c m \<longleftrightarrow> (\<forall>q v. map_of m q = Some v \<longrightarrow> 0 \<le> v \<and> v < c) \<and>
    (\<forall>q q' v. map_of m q = Some v \<longrightarrow> map_of m q' = Some v \<longrightarrow> q = q')"

lemma numbering_number_bits:
  "number_bits name n i c m = (c', m') \<Longrightarrow> numbering c m \<Longrightarrow> 0 \<le> c \<Longrightarrow> numbering c' m' \<and> 0 \<le> c'"
proof (induction name n i c m rule: number_bits.induct)
  case (2 name n i c m)
  have "numbering (c + 1) (AList.update \<lparr>qb_Name = name, qb_Index = i\<rparr> c m)"
    using 2(3,4) by (fastforce simp: numbering_def gomap split: if_splits)
  then show ?case
    using 2 by simp
qed simp

definition ir_inv :: "CircuitIR \<Rightarrow> bool" where
  "ir_inv c = (case ci_ProgramIR c of
     None \<Rightarrow> True
   | Some p \<Rightarrow> numbering (pi_QubitCount p) (pi_QubitAbsNum p) \<and> 0 \<le> pi_QubitCount p \<and>
       numbering (pi_BitCount p) (pi_BitAbsNum p) \<and> 0 \<le> pi_BitCount p)"

lemma ir_inv_frame: "ci_ProgramIR c' = ci_ProgramIR c \<Longrightarrow> ir_inv c \<Longrightarrow> ir_inv c'"
  by (simp add: ir_inv_def)

lemma ir_inv_callback:
  assumes "ir_inv c" and "callback ev c = Ok c'"
  shows "ir_inv c'"
proof (cases ev)
  case ExitQuantumDeclaration
  then show ?thesis
    using assms
    by (auto simp: ir_inv_def with_program_def statement_defs Let_def dest!: numbering_number_bits
        split: option.splits StatementIR.splits prod.splits)
next
  case ExitClassicalDeclaration
  then show ?thesis
    using assms
    by (auto simp: ir_inv_def with_program_def statement_defs Let_def dest!: numbering_number_bits
        split: option.splits StatementIR.splits prod.splits)
next
  case EnterProgram
  then show ?thesis
    using assms by (auto simp: ir_inv_def empty_ProgramIR_def numbering_def)
qed (use assms in \<open>auto simp: ir_inv_def with_program_def statement_defs Let_def res_simps
      split: option.splits StatementIR.splits list.splits if_splits\<close>)

lemma ir_inv_Walk: "Walk evs c = Ok c' \<Longrightarrow> ir_inv c \<Longrightarrow> ir_inv c'"
  by (induction evs arbitrary: c) (auto simp: res_simps dest: ir_inv_callback)

text \<open>
  C40: Whatever the program, the absolute numbers that the representation gives to its qubits lie below
  the qubit count, and no two qubits have the same number; likewise for the bits.
\<close>

theorem bits_numbered_apart:
  assumes "NewCircuitIR evs = Ok c" and "ci_ProgramIR c = Some p"
  shows "(\<forall>q v. map_of (pi_QubitAbsNum p) q = Some v \<longrightarrow> 0 \<le> v \<and> v < pi_QubitCount p) \<and>
    inj_on (map_of (pi_QubitAbsNum p)) (dom (map_of (pi_QubitAbsNum p))) \<and>
    (\<forall>b v. map_of (pi_BitAbsNum p) b = Some v \<longrightarrow> 0 \<le> v \<and> v < pi_BitCount p) \<and>
    inj_on (map_of (pi_BitAbsNum p)) (dom (map_of (pi_BitAbsNum p)))"
proof -
  have "Walk evs empty_CircuitIR = Ok c"
    using assms(1) by (auto simp: NewCircuitIR_def split: res.splits)
  moreover have "ir_inv empty_CircuitIR"
    by (simp add: ir_inv_def empty_CircuitIR_def)
  ultimately have "ir_inv c"
    by (rule ir_inv_Walk)
  then show ?thesis
    using assms(2) by (auto simp: ir_inv_def numbering_def inj_on_def dom_def)
qed

theorem bits_numbered_apart_witness:
  "\<exists>c p. NewCircuitIR [EnterProgram, EnterQuantumDeclaration ''q'', EnterDesignator ''2'', ExitQuantumDeclaration] = Ok c \<and>
    ci_ProgramIR c = Some p \<and> map_of (pi_QubitAbsNum p) \<lparr>qb_Name = ''q'', qb_Index = 1\<rparr> = Some 1 \<and> 1 < pi_QubitCount p"
proof -
  let ?evs = "[EnterProgram, EnterQuantumDeclaration ''q'', EnterDesignator ''2'', ExitQuantumDeclaration]"
  have "Atoi ''2'' = Ok 2"
    by (simp add: Atoi_digits is_digit_def digit_val_def)
  then obtain c p where c: "NewCircuitIR ?evs = Ok c" "ci_ProgramIR c = Some p"
    and q: "map_of (pi_QubitAbsNum p) \<lparr>qb_Name = ''q'', qb_Index = 1\<rparr> = Some 1"
    by (auto simp: NewCircuitIR_def atoi_or_panic_def with_program_def statement_defs empty_CircuitIR_def
        empty_ProgramIR_def Let_def numeral_2_eq_2)
  show ?thesis
    using bits_numbered_apart [OF c] c q by blast
qed

end
