(* ===== verification/Antlr_Parser.thy ===== *)
theory Antlr_Parser
  imports "HOL-Library.Word"
begin

text \<open>
  The code of a parser that ANTLR generates, and how it runs (\<open>coreapp/core/parser/qasm3_parser.go\<close>).

  A rule function of the parser is a sequence of a few forms of statements; \<open>code\<close> has one constructor for each
  of them, and the definition of a rule in \<open>Qasm_Rules\<close> is the body of its function, statement by statement.
  \<open>exec\<close> runs such a body on the tokens that are left of the input and gives the nodes that were added to the
  parse tree and the tokens that remain.

  ANTLR itself is not part of the repository. Its prediction \<open>AdaptivePredict\<close> is an argument: it is asked with the
  number of the decision, the stack of the active rules with the states they were invoked from, the current
  precedence, and the rest of the input, and answers the alternative, or none when no alternative is viable.
  The parser runs with the strategy that gives up at the first error (\<open>BailErrorStrategy\<close>, set by
  \<open>ParseQASM\<close>): a token that does not match ends the parse.
\<close>

section \<open>Tokens and trees\<close>

record Token =
  GetTokenType :: int
  GetText :: string

abbreviation TokenEOF :: int where "TokenEOF \<equiv> -1"

definition EOF_token :: Token where
  "EOF_token = \<lparr>GetTokenType = TokenEOF, GetText = ''<EOF>''\<rparr>"

definition LT :: "Token list \<Rightarrow> Token" where
  "LT ts = (case ts of [] \<Rightarrow> EOF_token | t # _ \<Rightarrow> t)"

definition LA :: "Token list \<Rightarrow> int" where
  "LA ts = GetTokenType (LT ts)"

text \<open>A node of a rule has the index of the rule, and for a labelled alternative its label.\<close>

datatype ParseTree =
    TerminalNode Token
  | RuleNode nat string "ParseTree list"

section \<open>Code\<close>

text \<open>
  The tests on the next token. \<open>InBits off [t1, t2]\<close> is the test
  \<open>(((_la-off)&-(0x1f+1)) == 0 && ((1<<uint(_la-off))&((1<<(t1-off))|(1<<(t2-off)))) != 0)\<close>.
\<close>

datatype cond = IsTok int | InBits int "int list" | OrElse cond cond

definition bit_at :: "int \<Rightarrow> int \<Rightarrow> int" where
  "bit_at off t = push_bit (nat (t - off)) 1"

primrec holds :: "cond \<Rightarrow> int \<Rightarrow> bool" where
  "holds (IsTok t) la \<longleftrightarrow> la = t"
| "holds (InBits off ls) la \<longleftrightarrow>
    and (la - off) (-32) = 0 \<and> and (bit_at off la) (foldr (\<lambda>t b. or (bit_at off t) b) ls 0) \<noteq> 0"
| "holds (OrElse c d) la \<longleftrightarrow> holds c la \<or> holds d la"

datatype code =
    Match int
  | MatchSet cond
  | Call int nat
  | CallExpression int int
  | IfLA cond "code list"
  | ForLA cond "code list"
  | SwitchLA "(int list \<times> code list) list" bool
  | SwitchPredict nat "code list list"
  | IfPredict nat "code list"
  | ForPredict nat "code list"

record parser_code =
  pc_rule :: "nat \<Rightarrow> code list"
  pc_primary :: "(string \<times> code list) list"
  pc_operators :: "(string \<times> int \<times> code list) list"

section \<open>Execution\<close>

datatype parse_error = InputMismatch | NoViableAlt | FailedPredicate | OutOfFuel

type_synonym frames = "(int \<times> nat) list"
type_synonym predictor = "nat \<Rightarrow> frames \<Rightarrow> int \<Rightarrow> Token list \<Rightarrow> nat option"

definition bind :: "parse_error + 'a \<Rightarrow> ('a \<Rightarrow> parse_error + 'b) \<Rightarrow> parse_error + 'b" where
  "bind m f = (case m of Inl e \<Rightarrow> Inl e | Inr x \<Rightarrow> f x)"

lemma bind_simps [simp]: "bind (Inl e) f = Inl e" "bind (Inr x) f = f x"
  by (simp_all add: bind_def)

lemma bind_Inr: "bind m f = Inr y \<longleftrightarrow> (\<exists>x. m = Inr x \<and> f x = Inr y)"
  by (simp add: bind_def split: sum.split)

fun case_for :: "int \<Rightarrow> (int list \<times> code list) list \<Rightarrow> code list option" where
  "case_for la [] = None"
| "case_for la ((ls, k) # cs) = (if la \<in> set ls then Some k else case_for la cs)"

definition alternative :: "nat \<Rightarrow> 'a list \<Rightarrow> 'a option" where
  "alternative a xs = (if 1 \<le> a \<and> a \<le> length xs then Some (xs ! (a - 1)) else None)"

definition consume :: "Token list \<Rightarrow> ParseTree list \<times> Token list" where
  "consume ts = ([TerminalNode (LT ts)], tl ts)"

text \<open>
  What there is to run: the rest of a rule function, the function \<open>expression\<close>, or its loop, which has a tree
  already. A task gives the nodes that it adds to the current node.
\<close>

datatype task = Body "code list" | Expression | Operators ParseTree

type_synonym result = "parse_error + ParseTree list \<times> Token list"
type_synonym runner = "frames \<Rightarrow> int \<Rightarrow> task \<Rightarrow> Token list \<Rightarrow> result"

text \<open>
  The statements of a rule function; \<open>sub\<close> runs the tasks that a statement starts. A loop is its body
  followed by the loop.
\<close>

fun statement_exec :: "predictor \<Rightarrow> parser_code \<Rightarrow> runner \<Rightarrow> frames \<Rightarrow> int \<Rightarrow> code \<Rightarrow> Token list \<Rightarrow> result" where
  "statement_exec A P sub st p (Match t) ts = (if LA ts = t then Inr (consume ts) else Inl InputMismatch)"
| "statement_exec A P sub st p (MatchSet b) ts = (if holds b (LA ts) then Inr (consume ts) else Inl InputMismatch)"
| "statement_exec A P sub st p (Call s r) ts =
    bind (sub ((s, r) # st) p (Body (pc_rule P r)) ts) (\<lambda>(cs, ts'). Inr ([RuleNode r [] cs], ts'))"
| "statement_exec A P sub st p (CallExpression s q) ts = sub ((s, 35) # st) q Expression ts"
| "statement_exec A P sub st p (IfLA b k) ts = (if holds b (LA ts) then sub st p (Body k) ts else Inr ([], ts))"
| "statement_exec A P sub st p (ForLA b k) ts =
    (if holds b (LA ts) then sub st p (Body (k @ [ForLA b k])) ts else Inr ([], ts))"
| "statement_exec A P sub st p (SwitchLA cs panics) ts =
    (case case_for (LA ts) cs of
       Some k \<Rightarrow> sub st p (Body k) ts
     | None \<Rightarrow> if panics then Inl NoViableAlt else Inr ([], ts))"
| "statement_exec A P sub st p (SwitchPredict d ks) ts =
    (case A d st p ts of
       None \<Rightarrow> Inl NoViableAlt
     | Some a \<Rightarrow> (case alternative a ks of Some k \<Rightarrow> sub st p (Body k) ts | None \<Rightarrow> Inr ([], ts)))"
| "statement_exec A P sub st p (IfPredict d k) ts =
    (case A d st p ts of
       None \<Rightarrow> Inl NoViableAlt
     | Some a \<Rightarrow> if a = 1 then sub st p (Body k) ts else Inr ([], ts))"
| "statement_exec A P sub st p (ForPredict d k) ts =
    (case A d st p ts of
       None \<Rightarrow> Inl NoViableAlt
     | Some a \<Rightarrow>
         if a \<noteq> 2 \<and> a \<noteq> 0 then sub st p (Body ((if a = 1 then k else []) @ [ForPredict d k])) ts
         else Inr ([], ts))"

text \<open>
  The function \<open>expression\<close>, whose rule is left recursive, reads a primary expression; its loop then makes the
  tree that was read so far the first child of the node of the next operator, as long as the operator binds
  at least as tightly as the precedence \<open>p\<close> (\<open>Precpred\<close>).
\<close>

definition Precpred :: "int \<Rightarrow> int \<Rightarrow> bool" where
  "Precpred p q \<longleftrightarrow> q \<ge> p"

fun task_exec :: "predictor \<Rightarrow> parser_code \<Rightarrow> runner \<Rightarrow> runner" where
  "task_exec A P sub st p (Body []) ts = Inr ([], ts)"
| "task_exec A P sub st p (Body (c # k)) ts =
    bind (statement_exec A P sub st p c ts)
      (\<lambda>(cs, ts'). bind (sub st p (Body k) ts') (\<lambda>(ds, ts''). Inr (cs @ ds, ts'')))"
| "task_exec A P sub st p Expression ts =
    (case A 43 st p ts of
       None \<Rightarrow> Inl NoViableAlt
     | Some a \<Rightarrow>
         (case alternative a (pc_primary P) of
            Some (l, k) \<Rightarrow>
              bind (sub st p (Body k) ts) (\<lambda>(cs, ts'). sub st p (Operators (RuleNode 35 l cs)) ts')
          | None \<Rightarrow> sub st p (Operators (RuleNode 35 [] [])) ts))"
| "task_exec A P sub st p (Operators t) ts =
    (case A 45 st p ts of
       None \<Rightarrow> Inl NoViableAlt
     | Some a \<Rightarrow>
         if a \<noteq> 2 \<and> a \<noteq> 0 then
           if a = 1 then
             (case A 44 st p ts of
                None \<Rightarrow> Inl NoViableAlt
              | Some b \<Rightarrow>
                  (case alternative b (pc_operators P) of
                     Some (l, q, k) \<Rightarrow>
                       if Precpred p q then
                         bind (sub st p (Body k) ts)
                           (\<lambda>(cs, ts'). sub st p (Operators (RuleNode 35 l (t # cs))) ts')
                       else Inl FailedPredicate
                   | None \<Rightarrow> sub st p (Operators t) ts))
           else sub st p (Operators t) ts
         else Inr ([t], ts))"

text \<open>The depth of the recursion is bounded by fuel; the theorem on termination says how much is enough.\<close>

primrec exec :: "predictor \<Rightarrow> parser_code \<Rightarrow> nat \<Rightarrow> runner" where
  "exec A P 0 = (\<lambda>st p c ts. Inl OutOfFuel)"
| "exec A P (Suc n) = task_exec A P (exec A P n)"

end
