(* ===== verification/Antlr_Grammar.thy ===== *)
theory Antlr_Grammar
  imports Antlr_Parser
begin

text \<open>
  Grammars, their derivation trees, and why a parser of the form of \<open>Antlr_Parser\<close> builds only such trees.
\<close>

section \<open>Grammars\<close>

text \<open>
  The right-hand sides of a grammar file: a choice of tokens, a rule, and sequences, alternatives, optional
  and repeated parts.
\<close>

datatype ebnf = Tok "int list" | NT nat | Seq "ebnf list" | Alt "ebnf list" | Opt ebnf | Star ebnf

inductive matches :: "ebnf \<Rightarrow> ParseTree list \<Rightarrow> bool" where
  Tok: "GetTokenType t \<in> set ls \<Longrightarrow> matches (Tok ls) [TerminalNode t]"
| NT: "matches (NT r) [RuleNode r l cs]"
| Seq_Nil: "matches (Seq []) []"
| Seq_Cons: "matches e xs \<Longrightarrow> matches (Seq es) ys \<Longrightarrow> matches (Seq (e # es)) (xs @ ys)"
| Alt: "e \<in> set es \<Longrightarrow> matches e xs \<Longrightarrow> matches (Alt es) xs"
| Opt_None: "matches (Opt e) []"
| Opt_Some: "matches e xs \<Longrightarrow> matches (Opt e) xs"
| Star_Nil: "matches (Star e) []"
| Star_Cons: "matches e xs \<Longrightarrow> matches (Star e) ys \<Longrightarrow> matches (Star e) (xs @ ys)"

inductive_cases matches_TokE: "matches (Tok ls) xs"
inductive_cases matches_NTE: "matches (NT r) xs"
inductive_simps matches_Seq_Nil [simp]: "matches (Seq []) xs"
inductive_simps matches_Seq_Cons: "matches (Seq (e # es)) xs"
inductive_simps matches_Alt: "matches (Alt es) xs"
inductive_simps matches_Opt: "matches (Opt e) xs"

lemma matches_Seq_append:
  "matches (Seq (es @ fs)) zs \<longleftrightarrow> (\<exists>xs ys. zs = xs @ ys \<and> matches (Seq es) xs \<and> matches (Seq fs) ys)"
proof (induction es arbitrary: zs)
  case (Cons e es)
  show ?case
    by (simp add: matches_Seq_Cons Cons.IH) (metis append.assoc)
qed simp

lemma matches_Seq_single [simp]: "matches (Seq [e]) xs \<longleftrightarrow> matches e xs"
  by (simp add: matches_Seq_Cons)

lemma matches_Star_unroll:
  "matches (Seq (es @ [Star (Seq es)])) xs \<Longrightarrow> matches (Star (Seq es)) xs"
  by (auto simp: matches_Seq_append intro: Star_Cons)

text \<open>A grammar gives the alternatives of each rule with their labels.\<close>

type_synonym grammar = "nat \<Rightarrow> (string \<times> ebnf) list"

inductive derivation :: "grammar \<Rightarrow> ParseTree \<Rightarrow> bool" for G where
  Terminal: "derivation G (TerminalNode t)"
| Rule: "(l, e) \<in> set (G r) \<Longrightarrow> matches e cs \<Longrightarrow> (\<And>c. c \<in> set cs \<Longrightarrow> derivation G c) \<Longrightarrow> derivation G (RuleNode r l cs)"

fun yield_of :: "ParseTree \<Rightarrow> Token list" where
  "yield_of (TerminalNode t) = (if GetTokenType t = TokenEOF then [] else [t])"
| "yield_of (RuleNode r l cs) = concat (map yield_of cs)"

abbreviation yields :: "ParseTree list \<Rightarrow> Token list" where
  "yields cs \<equiv> concat (map yield_of cs)"

section \<open>The shape of code\<close>

primrec tokens_of :: "cond \<Rightarrow> int list" where
  "tokens_of (IsTok t) = [t]"
| "tokens_of (InBits off ls) = ls"
| "tokens_of (OrElse c d) = tokens_of c @ tokens_of d"

primrec cond_ok :: "cond \<Rightarrow> bool" where
  "cond_ok (IsTok t) \<longleftrightarrow> 0 \<le> t"
| "cond_ok (InBits off ls) \<longleftrightarrow> 0 \<le> off \<and> list_all (\<lambda>t. off \<le> t \<and> t < off + 32) ls"
| "cond_ok (OrElse c d) \<longleftrightarrow> cond_ok c \<and> cond_ok d"

fun regex_of :: "code \<Rightarrow> ebnf" where
  "regex_of (Match t) = Tok [t]"
| "regex_of (MatchSet b) = Tok (tokens_of b)"
| "regex_of (Call s r) = NT r"
| "regex_of (CallExpression s q) = NT 35"
| "regex_of (IfLA b k) = Opt (Seq (map regex_of k))"
| "regex_of (ForLA b k) = Star (Seq (map regex_of k))"
| "regex_of (SwitchLA cs panics) =
    (if panics then Alt (map (\<lambda>(ls, k). Seq (map regex_of k)) cs)
     else Opt (Alt (map (\<lambda>(ls, k). Seq (map regex_of k)) (filter (\<lambda>(ls, k). k \<noteq> []) cs))))"
| "regex_of (SwitchPredict d ks) = Alt (map (\<lambda>k. Seq (map regex_of k)) ks)"
| "regex_of (IfPredict d k) = Opt (Seq (map regex_of k))"
| "regex_of (ForPredict d k) = Star (Seq (map regex_of k))"

fun code_ok :: "(nat \<Rightarrow> nat) \<Rightarrow> code \<Rightarrow> bool" where
  "code_ok alts (Match t) \<longleftrightarrow> True"
| "code_ok alts (MatchSet b) \<longleftrightarrow> cond_ok b"
| "code_ok alts (Call s r) \<longleftrightarrow> r \<noteq> 35"
| "code_ok alts (CallExpression s q) \<longleftrightarrow> True"
| "code_ok alts (IfLA b k) \<longleftrightarrow> list_all (code_ok alts) k"
| "code_ok alts (ForLA b k) \<longleftrightarrow> list_all (code_ok alts) k"
| "code_ok alts (SwitchLA cs panics) \<longleftrightarrow> list_all (\<lambda>(ls, k). list_all (code_ok alts) k) cs"
| "code_ok alts (SwitchPredict d ks) \<longleftrightarrow> length ks = alts d \<and> list_all (list_all (code_ok alts)) ks"
| "code_ok alts (IfPredict d k) \<longleftrightarrow> list_all (code_ok alts) k"
| "code_ok alts (ForPredict d k) \<longleftrightarrow> alts d = 2 \<and> list_all (code_ok alts) k"


section \<open>The tests on the next token\<close>

lemma and_upper: "and x (-32) = 0 \<longleftrightarrow> 0 \<le> x \<and> x < (32 :: int)"
proof -
  have m: "(-32 :: int) = not (mask 5)"
    by (simp add: mask_eq_exp_minus_1 not_int_def)
  have "and x (-32) = 0 \<longleftrightarrow> take_bit 5 x = x"
    unfolding m take_bit_eq_mask by (auto simp: bit_eq_iff bit_and_iff bit_not_iff)
  then show ?thesis
    by (simp add: take_bit_int_eq_self_iff)
qed

lemma bit_or_list: "bit (foldr (\<lambda>t b. or (bit_at off t) b) ls 0) n \<longleftrightarrow> (\<exists>t \<in> set ls. nat (t - off) = n)"
  by (induction ls) (auto simp: bit_or_iff bit_at_def bit_exp_iff)

lemma and_single_bit: "and (2 ^ n) (m :: int) \<noteq> 0 \<longleftrightarrow> bit m n"
proof -
  have "and (2 ^ n) m = (if bit m n then 2 ^ n else 0)"
    by (rule bit_eqI) (auto simp: bit_and_iff bit_exp_iff)
  then show ?thesis
    by simp
qed

lemma holds_tokens: "cond_ok b \<Longrightarrow> holds b la \<longleftrightarrow> la \<in> set (tokens_of b)"
proof (induction b)
  case (InBits off ls)
  have "t = la" if "t \<in> set ls" "0 \<le> la - off" "nat (t - off) = nat (la - off)" for t
    using InBits that by (auto simp: list_all_iff)
  then show ?case
    using InBits by (auto simp: and_upper and_single_bit bit_or_list bit_at_def [of off la] list_all_iff)
qed auto


section \<open>Only derivation trees are built\<close>

definition in_range :: "(nat \<Rightarrow> nat) \<Rightarrow> predictor \<Rightarrow> bool" where
  "in_range alts A \<longleftrightarrow> (\<forall>d st p ts a. A d st p ts = Some a \<longrightarrow> 1 \<le> a \<and> a \<le> alts d)"

definition no_eof :: "Token list \<Rightarrow> bool" where
  "no_eof ts \<longleftrightarrow> (\<forall>t \<in> set ts. GetTokenType t \<noteq> TokenEOF)"

lemma no_eof_Nil [simp]: "no_eof []"
  by (simp add: no_eof_def)

lemma no_eof_append [simp]: "no_eof (xs @ ys) \<longleftrightarrow> no_eof xs \<and> no_eof ys"
  by (auto simp: no_eof_def)

lemma consume_yields:
  "consume ts = (cs, ts') \<Longrightarrow> no_eof ts \<Longrightarrow> ts = yields cs @ ts'"
  by (auto simp: consume_def LT_def EOF_token_def no_eof_def split: list.splits)

lemma in_alternatives:
  "1 \<le> a \<Longrightarrow> a \<le> length xs \<Longrightarrow> \<exists>x. alternative a xs = Some x \<and> x \<in> set xs"
  by (auto simp: alternative_def)

lemma case_for_Some: "case_for la cs = Some k \<Longrightarrow> \<exists>ls. (ls, k) \<in> set cs \<and> la \<in> set ls"
  by (induction la cs rule: case_for.induct) (auto split: if_splits)

text \<open>The nodes of one task, and the input they cover.\<close>

fun task_ok :: "(nat \<Rightarrow> nat) \<Rightarrow> grammar \<Rightarrow> task \<Rightarrow> bool" where
  "task_ok alts G (Body k) \<longleftrightarrow> list_all (code_ok alts) k"
| "task_ok alts G Expression \<longleftrightarrow> True"
| "task_ok alts G (Operators t) \<longleftrightarrow> derivation G t \<and> matches (NT 35) [t]"

fun task_shape :: "task \<Rightarrow> ebnf" where
  "task_shape (Body k) = Seq (map regex_of k)"
| "task_shape _ = NT 35"

fun pending :: "task \<Rightarrow> Token list" where
  "pending (Operators t) = yield_of t"
| "pending _ = []"

definition built :: "grammar \<Rightarrow> ebnf \<Rightarrow> Token list \<Rightarrow> ParseTree list \<Rightarrow> Token list \<Rightarrow> bool" where
  "built G e ts cs ts' \<longleftrightarrow> matches e cs \<and> (\<forall>c \<in> set cs. derivation G c) \<and> ts = yields cs @ ts'"

lemma built_consume:
  assumes "consume ts = (cs, ts')" and "no_eof ts" and "LA ts \<in> set ls"
  shows "built G (Tok ls) ts cs ts'"
proof -
  have cs: "cs = [TerminalNode (LT ts)]"
    using assms(1) by (simp add: consume_def)
  then have "matches (Tok ls) cs \<and> (\<forall>c \<in> set cs. derivation G c)"
    using assms(3) by (simp add: LA_def matches.Tok derivation.Terminal)
  then show ?thesis
    using consume_yields [OF assms(1,2)] by (auto simp: built_def)
qed

locale checked_code =
  fixes P :: parser_code and alts :: "nat \<Rightarrow> nat"
  assumes rule_ok: "list_all (code_ok alts) (pc_rule P r)"
    and primary_ok: "(l, k) \<in> set (pc_primary P) \<Longrightarrow> list_all (code_ok alts) k"
    and operator_ok: "(l, q, k) \<in> set (pc_operators P) \<Longrightarrow> list_all (code_ok alts) k"
    and expression_alts: "alts 43 = length (pc_primary P)" "alts 44 = length (pc_operators P)" "alts 45 = 2"
begin

lemma predicted_primary:
  assumes "in_range alts A" and "A 43 st p ts = Some a"
  obtains l k where "alternative a (pc_primary P) = Some (l, k)" and "(l, k) \<in> set (pc_primary P)"
  using assms in_alternatives [of a "pc_primary P"] expression_alts(1) by (fastforce simp: in_range_def)

lemma predicted_operator:
  assumes "in_range alts A" and "A 44 st p ts = Some a"
  obtains l q k where "alternative a (pc_operators P) = Some (l, q, k)" and "(l, q, k) \<in> set (pc_operators P)"
  using assms in_alternatives [of a "pc_operators P"] expression_alts(2) by (fastforce simp: in_range_def)

lemma predicted_loop: "in_range alts A \<Longrightarrow> A 45 st p ts = Some a \<Longrightarrow> a = 1 \<or> a = 2"
  using expression_alts(3) by (fastforce simp: in_range_def)

end

text \<open>The code of the rules has the shape of the rules.\<close>

locale descent = checked_code P alts for P :: parser_code and alts :: "nat \<Rightarrow> nat" +
  fixes G :: grammar
  assumes rule_shape: "r \<noteq> 35 \<Longrightarrow> matches (Seq (map regex_of (pc_rule P r))) cs \<Longrightarrow> \<exists>e. ([], e) \<in> set (G r) \<and> matches e cs"
    and primary_shape: "(l, k) \<in> set (pc_primary P) \<Longrightarrow> matches (Seq (map regex_of k)) cs \<Longrightarrow>
      \<exists>e. (l, e) \<in> set (G 35) \<and> matches e cs"
    and operator_shape: "(l, q, k) \<in> set (pc_operators P) \<Longrightarrow> matches (Seq (NT 35 # map regex_of k)) cs \<Longrightarrow>
      \<exists>e. (l, e) \<in> set (G 35) \<and> matches e cs"
begin

definition sound :: "runner \<Rightarrow> bool" where
  "sound sub \<longleftrightarrow> (\<forall>st p c ts cs ts'. sub st p c ts = Inr (cs, ts') \<longrightarrow> task_ok alts G c \<longrightarrow> no_eof ts \<longrightarrow> no_eof (pending c) \<longrightarrow>
    built G (task_shape c) (pending c @ ts) cs ts')"

lemma soundD:
  "sound sub \<Longrightarrow> sub st p (Body k) ts = Inr (cs, ts') \<Longrightarrow> list_all (code_ok alts) k \<Longrightarrow> no_eof ts \<Longrightarrow>
    built G (Seq (map regex_of k)) ts cs ts'"
  unfolding sound_def by fastforce

lemma soundD_operators:
  "sound sub \<Longrightarrow> sub st p (Operators (RuleNode 35 l xs)) ts = Inr (cs, ts') \<Longrightarrow> derivation G (RuleNode 35 l xs) \<Longrightarrow>
    no_eof (yields xs @ ts) \<Longrightarrow> built G (NT 35) (yields xs @ ts) cs ts'"
  unfolding sound_def by (fastforce intro: matches.NT)

lemma sound_statement:
  assumes "sound sub" and A: "in_range alts A" and "code_ok alts c" and "no_eof ts"
    and run: "statement_exec A P sub st p c ts = Inr (cs, ts')"
  shows "built G (regex_of c) ts cs ts'"
proof (cases c)
  case (Match t)
  then show ?thesis
    using assms by (auto intro: built_consume split: if_splits)
next
  case (MatchSet b)
  then show ?thesis
    using assms by (auto simp: holds_tokens intro: built_consume split: if_splits)
next
  case (Call s r)
  then obtain ds where ds: "cs = [RuleNode r [] ds]" "sub ((s, r) # st) p (Body (pc_rule P r)) ts = Inr (ds, ts')"
    using run by (auto simp: bind_Inr)
  have "built G (Seq (map regex_of (pc_rule P r))) ts ds ts'"
    using soundD [OF assms(1) ds(2) rule_ok assms(4)] .
  then show ?thesis
    using rule_shape [of r ds] assms(3) Call ds(1) by (auto simp: built_def intro: matches.intros derivation.intros)
next
  case (CallExpression s q)
  then show ?thesis
    using assms unfolding sound_def by fastforce
next
  case (IfLA b k)
  then show ?thesis
    using assms soundD [OF assms(1), of st p k ts cs ts']
    by (auto simp: built_def intro: matches.intros split: if_splits)
next
  case (ForLA b k)
  then show ?thesis
    using assms soundD [OF assms(1), of st p "k @ [ForLA b k]" ts cs ts']
    by (auto simp: built_def intro: matches.intros matches_Star_unroll split: if_splits)
next
  case (SwitchLA bs panics)
  show ?thesis
  proof (cases "case_for (LA ts) bs")
    case None
    then show ?thesis
      using assms SwitchLA by (auto simp: built_def intro: matches.intros split: if_splits)
  next
    case (Some k)
    then obtain ls where ls: "(ls, k) \<in> set bs"
      using case_for_Some by blast
    then have "list_all (code_ok alts) k"
      using assms(3) SwitchLA by (auto simp: list_all_iff)
    then have b: "built G (Seq (map regex_of k)) ts cs ts'"
      using assms(4) run SwitchLA Some soundD [OF assms(1), of st p k ts cs ts'] by simp
    then show ?thesis
      using ls SwitchLA by (cases "k = []") (auto simp: built_def intro!: matches.Alt matches.Opt_None matches.Opt_Some bexI [of _ "(ls, k)"])
  qed
next
  case (SwitchPredict d ks)
  then obtain a where a: "A d st p ts = Some a"
    using run by (auto split: option.splits)
  then obtain k where k: "alternative a ks = Some k" "k \<in> set ks"
    using A assms(3) SwitchPredict in_alternatives [of a ks] by (auto simp: in_range_def)
  then have "built G (Seq (map regex_of k)) ts cs ts'"
    using a assms SwitchPredict soundD [OF assms(1), of st p k ts cs ts'] by (auto simp: list_all_iff)
  then show ?thesis
    using k(2) SwitchPredict by (auto simp: built_def matches_Alt)
next
  case (IfPredict d k)
  then show ?thesis
    using assms soundD [OF assms(1), of st p k ts cs ts']
    by (auto simp: built_def intro: matches.intros split: if_splits option.splits)
next
  case (ForPredict d k)
  then show ?thesis
    using assms soundD [OF assms(1), of st p "k @ [ForPredict d k]" ts cs ts']
    by (fastforce simp: built_def in_range_def intro: matches.intros matches_Star_unroll split: if_splits option.splits)
qed

lemma sound_task:
  assumes "sound sub" and A: "in_range alts A"
  shows "sound (task_exec A P sub)"
  unfolding sound_def
proof (intro allI impI)
  fix st p c ts cs ts'
  assume run: "task_exec A P sub st p c ts = Inr (cs, ts')" and c: "task_ok alts G c" and "no_eof ts" "no_eof (pending c)"
  show "built G (task_shape c) (pending c @ ts) cs ts'"
  proof (cases c)
    case (Body k)
    show ?thesis
    proof (cases k)
      case Nil
      then show ?thesis
        using run Body by (simp add: built_def matches.Seq_Nil)
    next
      case (Cons c' k')
      then obtain xs ts1 ys where *: "statement_exec A P sub st p c' ts = Inr (xs, ts1)"
        "sub st p (Body k') ts1 = Inr (ys, ts')" "cs = xs @ ys"
        using run Body by (auto simp: bind_Inr)
      have 1: "built G (regex_of c') ts xs ts1"
        using sound_statement [OF assms(1) A _ \<open>no_eof ts\<close> *(1)] c Body Cons by simp
      then have "no_eof ts1"
        using \<open>no_eof ts\<close> by (simp add: built_def)
      then have "built G (Seq (map regex_of k')) ts1 ys ts'"
        using soundD [OF assms(1) *(2)] c Body Cons by simp
      then show ?thesis
        using 1 *(3) Body Cons by (auto simp: built_def intro: matches.Seq_Cons)
    qed
  next
    case Expression
    then obtain a where a: "A 43 st p ts = Some a"
      using run by (auto split: option.splits)
    then obtain l k where k: "alternative a (pc_primary P) = Some (l, k)" "(l, k) \<in> set (pc_primary P)"
      using A predicted_primary by blast
    then obtain xs ts1 where *: "sub st p (Body k) ts = Inr (xs, ts1)"
      "sub st p (Operators (RuleNode 35 l xs)) ts1 = Inr (cs, ts')"
      using run Expression a by (auto simp: bind_Inr)
    have 1: "built G (Seq (map regex_of k)) ts xs ts1"
      using soundD [OF assms(1) *(1) primary_ok [OF k(2)] \<open>no_eof ts\<close>] .
    then have "derivation G (RuleNode 35 l xs)"
      using primary_shape [OF k(2), of xs] by (auto simp: built_def intro: derivation.Rule)
    then show ?thesis
      using 1 \<open>no_eof ts\<close> soundD_operators [OF assms(1) *(2)] Expression by (simp add: built_def)
  next
    case (Operators t)
    then obtain l0 xs0 where t: "t = RuleNode 35 l0 xs0"
      using c by (auto elim: matches_NTE)
    obtain a where a: "A 45 st p ts = Some a" "a = 1 \<or> a = 2"
      using run Operators A predicted_loop by (fastforce split: option.splits)
    show ?thesis
    proof (cases "a = 2")
      case True
      then show ?thesis
        using run Operators a c by (auto simp: built_def)
    next
      case False
      then obtain b where b: "A 44 st p ts = Some b"
        using run Operators a by (auto split: option.splits)
      then obtain l q k where k: "alternative b (pc_operators P) = Some (l, q, k)" "(l, q, k) \<in> set (pc_operators P)"
        using A predicted_operator by blast
      then obtain xs ts1 where *: "sub st p (Body k) ts = Inr (xs, ts1)"
        "sub st p (Operators (RuleNode 35 l (t # xs))) ts1 = Inr (cs, ts')"
        using run Operators a b False by (auto simp: bind_Inr split: if_splits)
      have 1: "built G (Seq (map regex_of k)) ts xs ts1"
        using soundD [OF assms(1) *(1) operator_ok [OF k(2)] \<open>no_eof ts\<close>] .
      then have "matches (Seq (NT 35 # map regex_of k)) (t # xs)"
        using c Operators matches.Seq_Cons [of "NT 35" "[t]"] by (simp add: built_def)
      then have "derivation G (RuleNode 35 l (t # xs))"
        using 1 c Operators operator_shape [OF k(2), of "t # xs"]
        by (fastforce simp: built_def intro: derivation.Rule)
      then show ?thesis
        using 1 \<open>no_eof ts\<close> \<open>no_eof (pending c)\<close> soundD_operators [OF assms(1) *(2)] Operators by (simp add: built_def)
    qed
  qed
qed

theorem sound_exec: "in_range alts A \<Longrightarrow> sound (exec A P n)"
  by (induction n) (simp_all add: sound_task, simp add: sound_def)

lemma exec_builds:
  assumes "in_range alts A" and "exec A P n st p (Body (pc_rule P r)) ts = Inr (cs, ts')" and "r \<noteq> 35" and "no_eof ts"
  shows "derivation G (RuleNode r [] cs) \<and> ts = yield_of (RuleNode r [] cs) @ ts'"
  using soundD [OF sound_exec [OF assms(1)] assms(2) rule_ok assms(4)] rule_shape [OF assms(3), of cs]
  by (auto simp: built_def intro: derivation.Rule)

end

end
