(* ===== verification/Qasm_Rules.thy ===== *)
theory Qasm_Rules
  imports Antlr_Parser
begin

text \<open>
  The rule functions of \<open>coreapp/core/parser/qasm3_parser.go\<close>, as code of \<open>Antlr_Parser\<close>, in their order.

  A definition is the body of its function. The calls that enter and leave the rule, \<open>EnterOuterAlt\<close> and
  \<open>Sync\<close> (which does nothing under the strategy in use), and the assignments of labelled children
  (\<open>op\<close>, \<open>body\<close>, \<open>params\<close> and others, which the engine does not read) have no counterpart; \<open>SetState\<close> is kept at the calls
  of rules, where the state becomes the invoking state of the new context.
\<close>

section \<open>Tokens\<close>

abbreviation (input) qasm3ParserEOF :: int where "qasm3ParserEOF \<equiv> TokenEOF"
abbreviation (input) qasm3ParserOPENQASM :: int where "qasm3ParserOPENQASM \<equiv> 1"
abbreviation (input) qasm3ParserINCLUDE :: int where "qasm3ParserINCLUDE \<equiv> 2"
abbreviation (input) qasm3ParserDEFCALGRAMMAR :: int where "qasm3ParserDEFCALGRAMMAR \<equiv> 3"
abbreviation (input) qasm3ParserDEF :: int where "qasm3ParserDEF \<equiv> 4"
abbreviation (input) qasm3ParserCAL :: int where "qasm3ParserCAL \<equiv> 5"
abbreviation (input) qasm3ParserDEFCAL :: int where "qasm3ParserDEFCAL \<equiv> 6"
abbreviation (input) qasm3ParserGATE :: int where "qasm3ParserGATE \<equiv> 7"
abbreviation (input) qasm3ParserEXTERN :: int where "qasm3ParserEXTERN \<equiv> 8"
abbreviation (input) qasm3ParserBOX :: int where "qasm3ParserBOX \<equiv> 9"
abbreviation (input) qasm3ParserLET :: int where "qasm3ParserLET \<equiv> 10"
abbreviation (input) qasm3ParserBREAK :: int where "qasm3ParserBREAK \<equiv> 11"
abbreviation (input) qasm3ParserCONTINUE :: int where "qasm3ParserCONTINUE \<equiv> 12"
abbreviation (input) qasm3ParserIF :: int where "qasm3ParserIF \<equiv> 13"
abbreviation (input) qasm3ParserELSE :: int where "qasm3ParserELSE \<equiv> 14"
abbreviation (input) qasm3ParserEND :: int where "qasm3ParserEND \<equiv> 15"
abbreviation (input) qasm3ParserRETURN :: int where "qasm3ParserRETURN \<equiv> 16"
abbreviation (input) qasm3ParserFOR :: int where "qasm3ParserFOR \<equiv> 17"
abbreviation (input) qasm3ParserWHILE :: int where "qasm3ParserWHILE \<equiv> 18"
abbreviation (input) qasm3ParserIN :: int where "qasm3ParserIN \<equiv> 19"
abbreviation (input) qasm3ParserPRAGMA :: int where "qasm3ParserPRAGMA \<equiv> 20"
abbreviation (input) qasm3ParserAnnotationKeyword :: int where "qasm3ParserAnnotationKeyword \<equiv> 21"
abbreviation (input) qasm3ParserINPUT :: int where "qasm3ParserINPUT \<equiv> 22"
abbreviation (input) qasm3ParserOUTPUT :: int where "qasm3ParserOUTPUT \<equiv> 23"
abbreviation (input) qasm3ParserCONST :: int where "qasm3ParserCONST \<equiv> 24"
abbreviation (input) qasm3ParserMUTABLE :: int where "qasm3ParserMUTABLE \<equiv> 25"
abbreviation (input) qasm3ParserQREG :: int where "qasm3ParserQREG \<equiv> 26"
abbreviation (input) qasm3ParserQUBIT :: int where "qasm3ParserQUBIT \<equiv> 27"
abbreviation (input) qasm3ParserCREG :: int where "qasm3ParserCREG \<equiv> 28"
abbreviation (input) qasm3ParserBOOL :: int where "qasm3ParserBOOL \<equiv> 29"
abbreviation (input) qasm3ParserBIT :: int where "qasm3ParserBIT \<equiv> 30"
abbreviation (input) qasm3ParserINT :: int where "qasm3ParserINT \<equiv> 31"
abbreviation (input) qasm3ParserUINT :: int where "qasm3ParserUINT \<equiv> 32"
abbreviation (input) qasm3ParserFLOAT :: int where "qasm3ParserFLOAT \<equiv> 33"
abbreviation (input) qasm3ParserANGLE :: int where "qasm3ParserANGLE \<equiv> 34"
abbreviation (input) qasm3ParserCOMPLEX :: int where "qasm3ParserCOMPLEX \<equiv> 35"
abbreviation (input) qasm3ParserARRAY :: int where "qasm3ParserARRAY \<equiv> 36"
abbreviation (input) qasm3ParserDURATION :: int where "qasm3ParserDURATION \<equiv> 37"
abbreviation (input) qasm3ParserSTRETCH :: int where "qasm3ParserSTRETCH \<equiv> 38"
abbreviation (input) qasm3ParserGPHASE :: int where "qasm3ParserGPHASE \<equiv> 39"
abbreviation (input) qasm3ParserINV :: int where "qasm3ParserINV \<equiv> 40"
abbreviation (input) qasm3ParserPOW :: int where "qasm3ParserPOW \<equiv> 41"
abbreviation (input) qasm3ParserCTRL :: int where "qasm3ParserCTRL \<equiv> 42"
abbreviation (input) qasm3ParserNEGCTRL :: int where "qasm3ParserNEGCTRL \<equiv> 43"
abbreviation (input) qasm3ParserDIM :: int where "qasm3ParserDIM \<equiv> 44"
abbreviation (input) qasm3ParserDURATIONOF :: int where "qasm3ParserDURATIONOF \<equiv> 45"
abbreviation (input) qasm3ParserDELAY :: int where "qasm3ParserDELAY \<equiv> 46"
abbreviation (input) qasm3ParserRESET :: int where "qasm3ParserRESET \<equiv> 47"
abbreviation (input) qasm3ParserMEASURE :: int where "qasm3ParserMEASURE \<equiv> 48"
abbreviation (input) qasm3ParserBARRIER :: int where "qasm3ParserBARRIER \<equiv> 49"
abbreviation (input) qasm3ParserBooleanLiteral :: int where "qasm3ParserBooleanLiteral \<equiv> 50"
abbreviation (input) qasm3ParserLBRACKET :: int where "qasm3ParserLBRACKET \<equiv> 51"
abbreviation (input) qasm3ParserRBRACKET :: int where "qasm3ParserRBRACKET \<equiv> 52"
abbreviation (input) qasm3ParserLBRACE :: int where "qasm3ParserLBRACE \<equiv> 53"
abbreviation (input) qasm3ParserRBRACE :: int where "qasm3ParserRBRACE \<equiv> 54"
abbreviation (input) qasm3ParserLPAREN :: int where "qasm3ParserLPAREN \<equiv> 55"
abbreviation (input) qasm3ParserRPAREN :: int where "qasm3ParserRPAREN \<equiv> 56"
abbreviation (input) qasm3ParserCOLON :: int where "qasm3ParserCOLON \<equiv> 57"
abbreviation (input) qasm3ParserSEMICOLON :: int where "qasm3ParserSEMICOLON \<equiv> 58"
abbreviation (input) qasm3ParserDOT :: int where "qasm3ParserDOT \<equiv> 59"
abbreviation (input) qasm3ParserCOMMA :: int where "qasm3ParserCOMMA \<equiv> 60"
abbreviation (input) qasm3ParserEQUALS :: int where "qasm3ParserEQUALS \<equiv> 61"
abbreviation (input) qasm3ParserARROW :: int where "qasm3ParserARROW \<equiv> 62"
abbreviation (input) qasm3ParserPLUS :: int where "qasm3ParserPLUS \<equiv> 63"
abbreviation (input) qasm3ParserDOUBLE_PLUS :: int where "qasm3ParserDOUBLE_PLUS \<equiv> 64"
abbreviation (input) qasm3ParserMINUS :: int where "qasm3ParserMINUS \<equiv> 65"
abbreviation (input) qasm3ParserASTERISK :: int where "qasm3ParserASTERISK \<equiv> 66"
abbreviation (input) qasm3ParserDOUBLE_ASTERISK :: int where "qasm3ParserDOUBLE_ASTERISK \<equiv> 67"
abbreviation (input) qasm3ParserSLASH :: int where "qasm3ParserSLASH \<equiv> 68"
abbreviation (input) qasm3ParserPERCENT :: int where "qasm3ParserPERCENT \<equiv> 69"
abbreviation (input) qasm3ParserPIPE :: int where "qasm3ParserPIPE \<equiv> 70"
abbreviation (input) qasm3ParserDOUBLE_PIPE :: int where "qasm3ParserDOUBLE_PIPE \<equiv> 71"
abbreviation (input) qasm3ParserAMPERSAND :: int where "qasm3ParserAMPERSAND \<equiv> 72"
abbreviation (input) qasm3ParserDOUBLE_AMPERSAND :: int where "qasm3ParserDOUBLE_AMPERSAND \<equiv> 73"
abbreviation (input) qasm3ParserCARET :: int where "qasm3ParserCARET \<equiv> 74"
abbreviation (input) qasm3ParserAT :: int where "qasm3ParserAT \<equiv> 75"
abbreviation (input) qasm3ParserTILDE :: int where "qasm3ParserTILDE \<equiv> 76"
abbreviation (input) qasm3ParserEXCLAMATION_POINT :: int where "qasm3ParserEXCLAMATION_POINT \<equiv> 77"
abbreviation (input) qasm3ParserEqualityOperator :: int where "qasm3ParserEqualityOperator \<equiv> 78"
abbreviation (input) qasm3ParserCompoundAssignmentOperator :: int where "qasm3ParserCompoundAssignmentOperator \<equiv> 79"
abbreviation (input) qasm3ParserComparisonOperator :: int where "qasm3ParserComparisonOperator \<equiv> 80"
abbreviation (input) qasm3ParserBitshiftOperator :: int where "qasm3ParserBitshiftOperator \<equiv> 81"
abbreviation (input) qasm3ParserIMAG :: int where "qasm3ParserIMAG \<equiv> 82"
abbreviation (input) qasm3ParserImaginaryLiteral :: int where "qasm3ParserImaginaryLiteral \<equiv> 83"
abbreviation (input) qasm3ParserBinaryIntegerLiteral :: int where "qasm3ParserBinaryIntegerLiteral \<equiv> 84"
abbreviation (input) qasm3ParserOctalIntegerLiteral :: int where "qasm3ParserOctalIntegerLiteral \<equiv> 85"
abbreviation (input) qasm3ParserDecimalIntegerLiteral :: int where "qasm3ParserDecimalIntegerLiteral \<equiv> 86"
abbreviation (input) qasm3ParserHexIntegerLiteral :: int where "qasm3ParserHexIntegerLiteral \<equiv> 87"
abbreviation (input) qasm3ParserIdentifier :: int where "qasm3ParserIdentifier \<equiv> 88"
abbreviation (input) qasm3ParserHardwareQubit :: int where "qasm3ParserHardwareQubit \<equiv> 89"
abbreviation (input) qasm3ParserFloatLiteral :: int where "qasm3ParserFloatLiteral \<equiv> 90"
abbreviation (input) qasm3ParserTimingLiteral :: int where "qasm3ParserTimingLiteral \<equiv> 91"
abbreviation (input) qasm3ParserBitstringLiteral :: int where "qasm3ParserBitstringLiteral \<equiv> 92"
abbreviation (input) qasm3ParserStringLiteral :: int where "qasm3ParserStringLiteral \<equiv> 93"
abbreviation (input) qasm3ParserWhitespace :: int where "qasm3ParserWhitespace \<equiv> 94"
abbreviation (input) qasm3ParserNewline :: int where "qasm3ParserNewline \<equiv> 95"
abbreviation (input) qasm3ParserLineComment :: int where "qasm3ParserLineComment \<equiv> 96"
abbreviation (input) qasm3ParserBlockComment :: int where "qasm3ParserBlockComment \<equiv> 97"
abbreviation (input) qasm3ParserVERSION_IDENTIFER_WHITESPACE :: int where "qasm3ParserVERSION_IDENTIFER_WHITESPACE \<equiv> 98"
abbreviation (input) qasm3ParserVersionSpecifier :: int where "qasm3ParserVersionSpecifier \<equiv> 99"
abbreviation (input) qasm3ParserEAT_INITIAL_SPACE :: int where "qasm3ParserEAT_INITIAL_SPACE \<equiv> 100"
abbreviation (input) qasm3ParserEAT_LINE_END :: int where "qasm3ParserEAT_LINE_END \<equiv> 101"
abbreviation (input) qasm3ParserRemainingLineContent :: int where "qasm3ParserRemainingLineContent \<equiv> 102"
abbreviation (input) qasm3ParserCAL_PRELUDE_WHITESPACE :: int where "qasm3ParserCAL_PRELUDE_WHITESPACE \<equiv> 103"
abbreviation (input) qasm3ParserCAL_PRELUDE_COMMENT :: int where "qasm3ParserCAL_PRELUDE_COMMENT \<equiv> 104"
abbreviation (input) qasm3ParserDEFCAL_PRELUDE_WHITESPACE :: int where "qasm3ParserDEFCAL_PRELUDE_WHITESPACE \<equiv> 105"
abbreviation (input) qasm3ParserDEFCAL_PRELUDE_COMMENT :: int where "qasm3ParserDEFCAL_PRELUDE_COMMENT \<equiv> 106"
abbreviation (input) qasm3ParserCalibrationBlock :: int where "qasm3ParserCalibrationBlock \<equiv> 107"

section \<open>Rules\<close>

abbreviation (input) qasm3ParserRULE_program :: nat where "qasm3ParserRULE_program \<equiv> 0"
abbreviation (input) qasm3ParserRULE_version :: nat where "qasm3ParserRULE_version \<equiv> 1"
abbreviation (input) qasm3ParserRULE_statement :: nat where "qasm3ParserRULE_statement \<equiv> 2"
abbreviation (input) qasm3ParserRULE_annotation :: nat where "qasm3ParserRULE_annotation \<equiv> 3"
abbreviation (input) qasm3ParserRULE_scope :: nat where "qasm3ParserRULE_scope \<equiv> 4"
abbreviation (input) qasm3ParserRULE_pragma :: nat where "qasm3ParserRULE_pragma \<equiv> 5"
abbreviation (input) qasm3ParserRULE_statementOrScope :: nat where "qasm3ParserRULE_statementOrScope \<equiv> 6"
abbreviation (input) qasm3ParserRULE_calibrationGrammarStatement :: nat where "qasm3ParserRULE_calibrationGrammarStatement \<equiv> 7"
abbreviation (input) qasm3ParserRULE_includeStatement :: nat where "qasm3ParserRULE_includeStatement \<equiv> 8"
abbreviation (input) qasm3ParserRULE_breakStatement :: nat where "qasm3ParserRULE_breakStatement \<equiv> 9"
abbreviation (input) qasm3ParserRULE_continueStatement :: nat where "qasm3ParserRULE_continueStatement \<equiv> 10"
abbreviation (input) qasm3ParserRULE_endStatement :: nat where "qasm3ParserRULE_endStatement \<equiv> 11"
abbreviation (input) qasm3ParserRULE_forStatement :: nat where "qasm3ParserRULE_forStatement \<equiv> 12"
abbreviation (input) qasm3ParserRULE_ifStatement :: nat where "qasm3ParserRULE_ifStatement \<equiv> 13"
abbreviation (input) qasm3ParserRULE_returnStatement :: nat where "qasm3ParserRULE_returnStatement \<equiv> 14"
abbreviation (input) qasm3ParserRULE_whileStatement :: nat where "qasm3ParserRULE_whileStatement \<equiv> 15"
abbreviation (input) qasm3ParserRULE_barrierStatement :: nat where "qasm3ParserRULE_barrierStatement \<equiv> 16"
abbreviation (input) qasm3ParserRULE_boxStatement :: nat where "qasm3ParserRULE_boxStatement \<equiv> 17"
abbreviation (input) qasm3ParserRULE_delayStatement :: nat where "qasm3ParserRULE_delayStatement \<equiv> 18"
abbreviation (input) qasm3ParserRULE_gateCallStatement :: nat where "qasm3ParserRULE_gateCallStatement \<equiv> 19"
abbreviation (input) qasm3ParserRULE_measureArrowAssignmentStatement :: nat where "qasm3ParserRULE_measureArrowAssignmentStatement \<equiv> 20"
abbreviation (input) qasm3ParserRULE_resetStatement :: nat where "qasm3ParserRULE_resetStatement \<equiv> 21"
abbreviation (input) qasm3ParserRULE_aliasDeclarationStatement :: nat where "qasm3ParserRULE_aliasDeclarationStatement \<equiv> 22"
abbreviation (input) qasm3ParserRULE_classicalDeclarationStatement :: nat where "qasm3ParserRULE_classicalDeclarationStatement \<equiv> 23"
abbreviation (input) qasm3ParserRULE_constDeclarationStatement :: nat where "qasm3ParserRULE_constDeclarationStatement \<equiv> 24"
abbreviation (input) qasm3ParserRULE_ioDeclarationStatement :: nat where "qasm3ParserRULE_ioDeclarationStatement \<equiv> 25"
abbreviation (input) qasm3ParserRULE_oldStyleDeclarationStatement :: nat where "qasm3ParserRULE_oldStyleDeclarationStatement \<equiv> 26"
abbreviation (input) qasm3ParserRULE_quantumDeclarationStatement :: nat where "qasm3ParserRULE_quantumDeclarationStatement \<equiv> 27"
abbreviation (input) qasm3ParserRULE_defStatement :: nat where "qasm3ParserRULE_defStatement \<equiv> 28"
abbreviation (input) qasm3ParserRULE_externStatement :: nat where "qasm3ParserRULE_externStatement \<equiv> 29"
abbreviation (input) qasm3ParserRULE_gateStatement :: nat where "qasm3ParserRULE_gateStatement \<equiv> 30"
abbreviation (input) qasm3ParserRULE_assignmentStatement :: nat where "qasm3ParserRULE_assignmentStatement \<equiv> 31"
abbreviation (input) qasm3ParserRULE_expressionStatement :: nat where "qasm3ParserRULE_expressionStatement \<equiv> 32"
abbreviation (input) qasm3ParserRULE_calStatement :: nat where "qasm3ParserRULE_calStatement \<equiv> 33"
abbreviation (input) qasm3ParserRULE_defcalStatement :: nat where "qasm3ParserRULE_defcalStatement \<equiv> 34"
abbreviation (input) qasm3ParserRULE_expression :: nat where "qasm3ParserRULE_expression \<equiv> 35"
abbreviation (input) qasm3ParserRULE_aliasExpression :: nat where "qasm3ParserRULE_aliasExpression \<equiv> 36"
abbreviation (input) qasm3ParserRULE_declarationExpression :: nat where "qasm3ParserRULE_declarationExpression \<equiv> 37"
abbreviation (input) qasm3ParserRULE_measureExpression :: nat where "qasm3ParserRULE_measureExpression \<equiv> 38"
abbreviation (input) qasm3ParserRULE_rangeExpression :: nat where "qasm3ParserRULE_rangeExpression \<equiv> 39"
abbreviation (input) qasm3ParserRULE_setExpression :: nat where "qasm3ParserRULE_setExpression \<equiv> 40"
abbreviation (input) qasm3ParserRULE_arrayLiteral :: nat where "qasm3ParserRULE_arrayLiteral \<equiv> 41"
abbreviation (input) qasm3ParserRULE_indexOperator :: nat where "qasm3ParserRULE_indexOperator \<equiv> 42"
abbreviation (input) qasm3ParserRULE_indexedIdentifier :: nat where "qasm3ParserRULE_indexedIdentifier \<equiv> 43"
abbreviation (input) qasm3ParserRULE_returnSignature :: nat where "qasm3ParserRULE_returnSignature \<equiv> 44"
abbreviation (input) qasm3ParserRULE_gateModifier :: nat where "qasm3ParserRULE_gateModifier \<equiv> 45"
abbreviation (input) qasm3ParserRULE_scalarType :: nat where "qasm3ParserRULE_scalarType \<equiv> 46"
abbreviation (input) qasm3ParserRULE_qubitType :: nat where "qasm3ParserRULE_qubitType \<equiv> 47"
abbreviation (input) qasm3ParserRULE_arrayType :: nat where "qasm3ParserRULE_arrayType \<equiv> 48"
abbreviation (input) qasm3ParserRULE_arrayReferenceType :: nat where "qasm3ParserRULE_arrayReferenceType \<equiv> 49"
abbreviation (input) qasm3ParserRULE_designator :: nat where "qasm3ParserRULE_designator \<equiv> 50"
abbreviation (input) qasm3ParserRULE_defcalTarget :: nat where "qasm3ParserRULE_defcalTarget \<equiv> 51"
abbreviation (input) qasm3ParserRULE_defcalArgumentDefinition :: nat where "qasm3ParserRULE_defcalArgumentDefinition \<equiv> 52"
abbreviation (input) qasm3ParserRULE_defcalOperand :: nat where "qasm3ParserRULE_defcalOperand \<equiv> 53"
abbreviation (input) qasm3ParserRULE_gateOperand :: nat where "qasm3ParserRULE_gateOperand \<equiv> 54"
abbreviation (input) qasm3ParserRULE_externArgument :: nat where "qasm3ParserRULE_externArgument \<equiv> 55"
abbreviation (input) qasm3ParserRULE_argumentDefinition :: nat where "qasm3ParserRULE_argumentDefinition \<equiv> 56"
abbreviation (input) qasm3ParserRULE_argumentDefinitionList :: nat where "qasm3ParserRULE_argumentDefinitionList \<equiv> 57"
abbreviation (input) qasm3ParserRULE_defcalArgumentDefinitionList :: nat where "qasm3ParserRULE_defcalArgumentDefinitionList \<equiv> 58"
abbreviation (input) qasm3ParserRULE_defcalOperandList :: nat where "qasm3ParserRULE_defcalOperandList \<equiv> 59"
abbreviation (input) qasm3ParserRULE_expressionList :: nat where "qasm3ParserRULE_expressionList \<equiv> 60"
abbreviation (input) qasm3ParserRULE_identifierList :: nat where "qasm3ParserRULE_identifierList \<equiv> 61"
abbreviation (input) qasm3ParserRULE_gateOperandList :: nat where "qasm3ParserRULE_gateOperandList \<equiv> 62"
abbreviation (input) qasm3ParserRULE_externArgumentList :: nat where "qasm3ParserRULE_externArgumentList \<equiv> 63"

definition ruleNames :: "string list" where
  "ruleNames =
    [''program'', ''version'', ''statement'', ''annotation'', ''scope'', ''pragma'', ''statementOrScope'',
     ''calibrationGrammarStatement'', ''includeStatement'', ''breakStatement'', ''continueStatement'',
     ''endStatement'', ''forStatement'', ''ifStatement'', ''returnStatement'', ''whileStatement'',
     ''barrierStatement'', ''boxStatement'', ''delayStatement'', ''gateCallStatement'',
     ''measureArrowAssignmentStatement'', ''resetStatement'', ''aliasDeclarationStatement'',
     ''classicalDeclarationStatement'', ''constDeclarationStatement'', ''ioDeclarationStatement'',
     ''oldStyleDeclarationStatement'', ''quantumDeclarationStatement'', ''defStatement'', ''externStatement'',
     ''gateStatement'', ''assignmentStatement'', ''expressionStatement'', ''calStatement'', ''defcalStatement'',
     ''expression'', ''aliasExpression'', ''declarationExpression'', ''measureExpression'', ''rangeExpression'',
     ''setExpression'', ''arrayLiteral'', ''indexOperator'', ''indexedIdentifier'', ''returnSignature'',
     ''gateModifier'', ''scalarType'', ''qubitType'', ''arrayType'', ''arrayReferenceType'', ''designator'',
     ''defcalTarget'', ''defcalArgumentDefinition'', ''defcalOperand'', ''gateOperand'', ''externArgument'',
     ''argumentDefinition'', ''argumentDefinitionList'', ''defcalArgumentDefinitionList'', ''defcalOperandList'',
     ''expressionList'', ''identifierList'', ''gateOperandList'', ''externArgumentList'']"

definition symbolicNames :: "string list" where
  "symbolicNames =
    ['''', ''OPENQASM'', ''INCLUDE'', ''DEFCALGRAMMAR'', ''DEF'', ''CAL'', ''DEFCAL'', ''GATE'', ''EXTERN'', ''BOX'',
     ''LET'', ''BREAK'', ''CONTINUE'', ''IF'', ''ELSE'', ''END'', ''RETURN'', ''FOR'', ''WHILE'', ''IN'', ''PRAGMA'',
     ''AnnotationKeyword'', ''INPUT'', ''OUTPUT'', ''CONST'', ''MUTABLE'', ''QREG'', ''QUBIT'', ''CREG'', ''BOOL'',
     ''BIT'', ''INT'', ''UINT'', ''FLOAT'', ''ANGLE'', ''COMPLEX'', ''ARRAY'', ''DURATION'', ''STRETCH'', ''GPHASE'',
     ''INV'', ''POW'', ''CTRL'', ''NEGCTRL'', ''DIM'', ''DURATIONOF'', ''DELAY'', ''RESET'', ''MEASURE'', ''BARRIER'',
     ''BooleanLiteral'', ''LBRACKET'', ''RBRACKET'', ''LBRACE'', ''RBRACE'', ''LPAREN'', ''RPAREN'', ''COLON'',
     ''SEMICOLON'', ''DOT'', ''COMMA'', ''EQUALS'', ''ARROW'', ''PLUS'', ''DOUBLE_PLUS'', ''MINUS'', ''ASTERISK'',
     ''DOUBLE_ASTERISK'', ''SLASH'', ''PERCENT'', ''PIPE'', ''DOUBLE_PIPE'', ''AMPERSAND'', ''DOUBLE_AMPERSAND'',
     ''CARET'', ''AT'', ''TILDE'', ''EXCLAMATION_POINT'', ''EqualityOperator'', ''CompoundAssignmentOperator'',
     ''ComparisonOperator'', ''BitshiftOperator'', ''IMAG'', ''ImaginaryLiteral'', ''BinaryIntegerLiteral'',
     ''OctalIntegerLiteral'', ''DecimalIntegerLiteral'', ''HexIntegerLiteral'', ''Identifier'', ''HardwareQubit'',
     ''FloatLiteral'', ''TimingLiteral'', ''BitstringLiteral'', ''StringLiteral'', ''Whitespace'', ''Newline'',
     ''LineComment'', ''BlockComment'', ''VERSION_IDENTIFER_WHITESPACE'', ''VersionSpecifier'', ''EAT_INITIAL_SPACE'',
     ''EAT_LINE_END'', ''RemainingLineContent'', ''CAL_PRELUDE_WHITESPACE'', ''CAL_PRELUDE_COMMENT'',
     ''DEFCAL_PRELUDE_WHITESPACE'', ''DEFCAL_PRELUDE_COMMENT'', ''CalibrationBlock'']"

text \<open>The constants of the tokens and of the rules, by their names; the tables of names agree with them.\<close>

definition token_table :: "(string \<times> int) list" where
  "token_table =
    [(''OPENQASM'', qasm3ParserOPENQASM), (''INCLUDE'', qasm3ParserINCLUDE), (''DEFCALGRAMMAR'',
     qasm3ParserDEFCALGRAMMAR), (''DEF'', qasm3ParserDEF), (''CAL'', qasm3ParserCAL), (''DEFCAL'', qasm3ParserDEFCAL),
     (''GATE'', qasm3ParserGATE), (''EXTERN'', qasm3ParserEXTERN), (''BOX'', qasm3ParserBOX), (''LET'',
     qasm3ParserLET), (''BREAK'', qasm3ParserBREAK), (''CONTINUE'', qasm3ParserCONTINUE), (''IF'', qasm3ParserIF),
     (''ELSE'', qasm3ParserELSE), (''END'', qasm3ParserEND), (''RETURN'', qasm3ParserRETURN), (''FOR'',
     qasm3ParserFOR), (''WHILE'', qasm3ParserWHILE), (''IN'', qasm3ParserIN), (''PRAGMA'', qasm3ParserPRAGMA),
     (''AnnotationKeyword'', qasm3ParserAnnotationKeyword), (''INPUT'', qasm3ParserINPUT), (''OUTPUT'',
     qasm3ParserOUTPUT), (''CONST'', qasm3ParserCONST), (''MUTABLE'', qasm3ParserMUTABLE), (''QREG'',
     qasm3ParserQREG), (''QUBIT'', qasm3ParserQUBIT), (''CREG'', qasm3ParserCREG), (''BOOL'', qasm3ParserBOOL),
     (''BIT'', qasm3ParserBIT), (''INT'', qasm3ParserINT), (''UINT'', qasm3ParserUINT), (''FLOAT'', qasm3ParserFLOAT),
     (''ANGLE'', qasm3ParserANGLE), (''COMPLEX'', qasm3ParserCOMPLEX), (''ARRAY'', qasm3ParserARRAY), (''DURATION'',
     qasm3ParserDURATION), (''STRETCH'', qasm3ParserSTRETCH), (''GPHASE'', qasm3ParserGPHASE), (''INV'',
     qasm3ParserINV), (''POW'', qasm3ParserPOW), (''CTRL'', qasm3ParserCTRL), (''NEGCTRL'', qasm3ParserNEGCTRL),
     (''DIM'', qasm3ParserDIM), (''DURATIONOF'', qasm3ParserDURATIONOF), (''DELAY'', qasm3ParserDELAY), (''RESET'',
     qasm3ParserRESET), (''MEASURE'', qasm3ParserMEASURE), (''BARRIER'', qasm3ParserBARRIER), (''BooleanLiteral'',
     qasm3ParserBooleanLiteral), (''LBRACKET'', qasm3ParserLBRACKET), (''RBRACKET'', qasm3ParserRBRACKET),
     (''LBRACE'', qasm3ParserLBRACE), (''RBRACE'', qasm3ParserRBRACE), (''LPAREN'', qasm3ParserLPAREN), (''RPAREN'',
     qasm3ParserRPAREN), (''COLON'', qasm3ParserCOLON), (''SEMICOLON'', qasm3ParserSEMICOLON), (''DOT'',
     qasm3ParserDOT), (''COMMA'', qasm3ParserCOMMA), (''EQUALS'', qasm3ParserEQUALS), (''ARROW'', qasm3ParserARROW),
     (''PLUS'', qasm3ParserPLUS), (''DOUBLE_PLUS'', qasm3ParserDOUBLE_PLUS), (''MINUS'', qasm3ParserMINUS),
     (''ASTERISK'', qasm3ParserASTERISK), (''DOUBLE_ASTERISK'', qasm3ParserDOUBLE_ASTERISK), (''SLASH'',
     qasm3ParserSLASH), (''PERCENT'', qasm3ParserPERCENT), (''PIPE'', qasm3ParserPIPE), (''DOUBLE_PIPE'',
     qasm3ParserDOUBLE_PIPE), (''AMPERSAND'', qasm3ParserAMPERSAND), (''DOUBLE_AMPERSAND'',
     qasm3ParserDOUBLE_AMPERSAND), (''CARET'', qasm3ParserCARET), (''AT'', qasm3ParserAT), (''TILDE'',
     qasm3ParserTILDE), (''EXCLAMATION_POINT'', qasm3ParserEXCLAMATION_POINT), (''EqualityOperator'',
     qasm3ParserEqualityOperator), (''CompoundAssignmentOperator'', qasm3ParserCompoundAssignmentOperator),
     (''ComparisonOperator'', qasm3ParserComparisonOperator), (''BitshiftOperator'', qasm3ParserBitshiftOperator),
     (''IMAG'', qasm3ParserIMAG), (''ImaginaryLiteral'', qasm3ParserImaginaryLiteral), (''BinaryIntegerLiteral'',
     qasm3ParserBinaryIntegerLiteral), (''OctalIntegerLiteral'', qasm3ParserOctalIntegerLiteral),
     (''DecimalIntegerLiteral'', qasm3ParserDecimalIntegerLiteral), (''HexIntegerLiteral'',
     qasm3ParserHexIntegerLiteral), (''Identifier'', qasm3ParserIdentifier), (''HardwareQubit'',
     qasm3ParserHardwareQubit), (''FloatLiteral'', qasm3ParserFloatLiteral), (''TimingLiteral'',
     qasm3ParserTimingLiteral), (''BitstringLiteral'', qasm3ParserBitstringLiteral), (''StringLiteral'',
     qasm3ParserStringLiteral), (''Whitespace'', qasm3ParserWhitespace), (''Newline'', qasm3ParserNewline),
     (''LineComment'', qasm3ParserLineComment), (''BlockComment'', qasm3ParserBlockComment),
     (''VERSION_IDENTIFER_WHITESPACE'', qasm3ParserVERSION_IDENTIFER_WHITESPACE), (''VersionSpecifier'',
     qasm3ParserVersionSpecifier), (''EAT_INITIAL_SPACE'', qasm3ParserEAT_INITIAL_SPACE), (''EAT_LINE_END'',
     qasm3ParserEAT_LINE_END), (''RemainingLineContent'', qasm3ParserRemainingLineContent),
     (''CAL_PRELUDE_WHITESPACE'', qasm3ParserCAL_PRELUDE_WHITESPACE), (''CAL_PRELUDE_COMMENT'',
     qasm3ParserCAL_PRELUDE_COMMENT), (''DEFCAL_PRELUDE_WHITESPACE'', qasm3ParserDEFCAL_PRELUDE_WHITESPACE),
     (''DEFCAL_PRELUDE_COMMENT'', qasm3ParserDEFCAL_PRELUDE_COMMENT), (''CalibrationBlock'',
     qasm3ParserCalibrationBlock)]"

definition rule_index_table :: "(string \<times> nat) list" where
  "rule_index_table =
    [(''program'', qasm3ParserRULE_program), (''version'', qasm3ParserRULE_version), (''statement'',
     qasm3ParserRULE_statement), (''annotation'', qasm3ParserRULE_annotation), (''scope'', qasm3ParserRULE_scope),
     (''pragma'', qasm3ParserRULE_pragma), (''statementOrScope'', qasm3ParserRULE_statementOrScope),
     (''calibrationGrammarStatement'', qasm3ParserRULE_calibrationGrammarStatement), (''includeStatement'',
     qasm3ParserRULE_includeStatement), (''breakStatement'', qasm3ParserRULE_breakStatement), (''continueStatement'',
     qasm3ParserRULE_continueStatement), (''endStatement'', qasm3ParserRULE_endStatement), (''forStatement'',
     qasm3ParserRULE_forStatement), (''ifStatement'', qasm3ParserRULE_ifStatement), (''returnStatement'',
     qasm3ParserRULE_returnStatement), (''whileStatement'', qasm3ParserRULE_whileStatement), (''barrierStatement'',
     qasm3ParserRULE_barrierStatement), (''boxStatement'', qasm3ParserRULE_boxStatement), (''delayStatement'',
     qasm3ParserRULE_delayStatement), (''gateCallStatement'', qasm3ParserRULE_gateCallStatement),
     (''measureArrowAssignmentStatement'', qasm3ParserRULE_measureArrowAssignmentStatement), (''resetStatement'',
     qasm3ParserRULE_resetStatement), (''aliasDeclarationStatement'', qasm3ParserRULE_aliasDeclarationStatement),
     (''classicalDeclarationStatement'', qasm3ParserRULE_classicalDeclarationStatement),
     (''constDeclarationStatement'', qasm3ParserRULE_constDeclarationStatement), (''ioDeclarationStatement'',
     qasm3ParserRULE_ioDeclarationStatement), (''oldStyleDeclarationStatement'',
     qasm3ParserRULE_oldStyleDeclarationStatement), (''quantumDeclarationStatement'',
     qasm3ParserRULE_quantumDeclarationStatement), (''defStatement'', qasm3ParserRULE_defStatement),
     (''externStatement'', qasm3ParserRULE_externStatement), (''gateStatement'', qasm3ParserRULE_gateStatement),
     (''assignmentStatement'', qasm3ParserRULE_assignmentStatement), (''expressionStatement'',
     qasm3ParserRULE_expressionStatement), (''calStatement'', qasm3ParserRULE_calStatement), (''defcalStatement'',
     qasm3ParserRULE_defcalStatement), (''expression'', qasm3ParserRULE_expression), (''aliasExpression'',
     qasm3ParserRULE_aliasExpression), (''declarationExpression'', qasm3ParserRULE_declarationExpression),
     (''measureExpression'', qasm3ParserRULE_measureExpression), (''rangeExpression'',
     qasm3ParserRULE_rangeExpression), (''setExpression'', qasm3ParserRULE_setExpression), (''arrayLiteral'',
     qasm3ParserRULE_arrayLiteral), (''indexOperator'', qasm3ParserRULE_indexOperator), (''indexedIdentifier'',
     qasm3ParserRULE_indexedIdentifier), (''returnSignature'', qasm3ParserRULE_returnSignature), (''gateModifier'',
     qasm3ParserRULE_gateModifier), (''scalarType'', qasm3ParserRULE_scalarType), (''qubitType'',
     qasm3ParserRULE_qubitType), (''arrayType'', qasm3ParserRULE_arrayType), (''arrayReferenceType'',
     qasm3ParserRULE_arrayReferenceType), (''designator'', qasm3ParserRULE_designator), (''defcalTarget'',
     qasm3ParserRULE_defcalTarget), (''defcalArgumentDefinition'', qasm3ParserRULE_defcalArgumentDefinition),
     (''defcalOperand'', qasm3ParserRULE_defcalOperand), (''gateOperand'', qasm3ParserRULE_gateOperand),
     (''externArgument'', qasm3ParserRULE_externArgument), (''argumentDefinition'',
     qasm3ParserRULE_argumentDefinition), (''argumentDefinitionList'', qasm3ParserRULE_argumentDefinitionList),
     (''defcalArgumentDefinitionList'', qasm3ParserRULE_defcalArgumentDefinitionList), (''defcalOperandList'',
     qasm3ParserRULE_defcalOperandList), (''expressionList'', qasm3ParserRULE_expressionList), (''identifierList'',
     qasm3ParserRULE_identifierList), (''gateOperandList'', qasm3ParserRULE_gateOperandList), (''externArgumentList'',
     qasm3ParserRULE_externArgumentList)]"

lemma token_names: "list_all (\<lambda>(n, t). symbolicNames ! nat t = n) token_table" "length symbolicNames = 108"
  by code_simp+

lemma rule_index_names: "map fst rule_index_table = ruleNames" "map snd rule_index_table = [0..<64]"
  by code_simp+

section \<open>Rule functions\<close>

definition Program :: "code list" where
  "Program = [
    IfLA (IsTok qasm3ParserOPENQASM) [Call 128 qasm3ParserRULE_version],
    ForLA (OrElse (InBits 0 [qasm3ParserINCLUDE, qasm3ParserDEFCALGRAMMAR, qasm3ParserDEF, qasm3ParserCAL,
     qasm3ParserDEFCAL, qasm3ParserGATE, qasm3ParserEXTERN, qasm3ParserBOX, qasm3ParserLET, qasm3ParserBREAK,
     qasm3ParserCONTINUE, qasm3ParserIF, qasm3ParserEND, qasm3ParserRETURN, qasm3ParserFOR, qasm3ParserWHILE,
     qasm3ParserPRAGMA, qasm3ParserAnnotationKeyword, qasm3ParserINPUT, qasm3ParserOUTPUT, qasm3ParserCONST,
     qasm3ParserQREG, qasm3ParserQUBIT, qasm3ParserCREG, qasm3ParserBOOL, qasm3ParserBIT, qasm3ParserINT]) (OrElse
     (InBits 32 [qasm3ParserUINT, qasm3ParserFLOAT, qasm3ParserANGLE, qasm3ParserCOMPLEX, qasm3ParserARRAY,
     qasm3ParserDURATION, qasm3ParserSTRETCH, qasm3ParserGPHASE, qasm3ParserINV, qasm3ParserPOW, qasm3ParserCTRL,
     qasm3ParserNEGCTRL, qasm3ParserDURATIONOF, qasm3ParserDELAY, qasm3ParserRESET, qasm3ParserMEASURE,
     qasm3ParserBARRIER, qasm3ParserBooleanLiteral, qasm3ParserLPAREN]) (InBits 65 [qasm3ParserMINUS,
     qasm3ParserTILDE, qasm3ParserEXCLAMATION_POINT, qasm3ParserImaginaryLiteral, qasm3ParserBinaryIntegerLiteral,
     qasm3ParserOctalIntegerLiteral, qasm3ParserDecimalIntegerLiteral, qasm3ParserHexIntegerLiteral,
     qasm3ParserIdentifier, qasm3ParserHardwareQubit, qasm3ParserFloatLiteral, qasm3ParserTimingLiteral,
     qasm3ParserBitstringLiteral]))) [Call 131 qasm3ParserRULE_statement],
    Match qasm3ParserEOF]"

definition Version :: "code list" where
  "Version = [
    Match qasm3ParserOPENQASM,
    Match qasm3ParserVersionSpecifier,
    Match qasm3ParserSEMICOLON]"

definition Statement :: "code list" where
  "Statement = [
    SwitchLA [
      ([qasm3ParserPRAGMA], [Call 143 qasm3ParserRULE_pragma]),
      ([qasm3ParserINCLUDE, qasm3ParserDEFCALGRAMMAR, qasm3ParserDEF, qasm3ParserCAL, qasm3ParserDEFCAL,
       qasm3ParserGATE, qasm3ParserEXTERN, qasm3ParserBOX, qasm3ParserLET, qasm3ParserBREAK, qasm3ParserCONTINUE,
       qasm3ParserIF, qasm3ParserEND, qasm3ParserRETURN, qasm3ParserFOR, qasm3ParserWHILE,
       qasm3ParserAnnotationKeyword, qasm3ParserINPUT, qasm3ParserOUTPUT, qasm3ParserCONST, qasm3ParserQREG,
       qasm3ParserQUBIT, qasm3ParserCREG, qasm3ParserBOOL, qasm3ParserBIT, qasm3ParserINT, qasm3ParserUINT,
       qasm3ParserFLOAT, qasm3ParserANGLE, qasm3ParserCOMPLEX, qasm3ParserARRAY, qasm3ParserDURATION,
       qasm3ParserSTRETCH, qasm3ParserGPHASE, qasm3ParserINV, qasm3ParserPOW, qasm3ParserCTRL, qasm3ParserNEGCTRL,
       qasm3ParserDURATIONOF, qasm3ParserDELAY, qasm3ParserRESET, qasm3ParserMEASURE, qasm3ParserBARRIER,
       qasm3ParserBooleanLiteral, qasm3ParserLPAREN, qasm3ParserMINUS, qasm3ParserTILDE, qasm3ParserEXCLAMATION_POINT,
       qasm3ParserImaginaryLiteral, qasm3ParserBinaryIntegerLiteral, qasm3ParserOctalIntegerLiteral,
       qasm3ParserDecimalIntegerLiteral, qasm3ParserHexIntegerLiteral, qasm3ParserIdentifier,
       qasm3ParserHardwareQubit, qasm3ParserFloatLiteral, qasm3ParserTimingLiteral, qasm3ParserBitstringLiteral],
       [
        ForLA (IsTok qasm3ParserAnnotationKeyword) [Call 144 qasm3ParserRULE_annotation],
        SwitchPredict 3 [
          [Call 150 qasm3ParserRULE_aliasDeclarationStatement],
          [Call 151 qasm3ParserRULE_assignmentStatement],
          [Call 152 qasm3ParserRULE_barrierStatement],
          [Call 153 qasm3ParserRULE_boxStatement],
          [Call 154 qasm3ParserRULE_breakStatement],
          [Call 155 qasm3ParserRULE_calStatement],
          [Call 156 qasm3ParserRULE_calibrationGrammarStatement],
          [Call 157 qasm3ParserRULE_classicalDeclarationStatement],
          [Call 158 qasm3ParserRULE_constDeclarationStatement],
          [Call 159 qasm3ParserRULE_continueStatement],
          [Call 160 qasm3ParserRULE_defStatement],
          [Call 161 qasm3ParserRULE_defcalStatement],
          [Call 162 qasm3ParserRULE_delayStatement],
          [Call 163 qasm3ParserRULE_endStatement],
          [Call 164 qasm3ParserRULE_expressionStatement],
          [Call 165 qasm3ParserRULE_externStatement],
          [Call 166 qasm3ParserRULE_forStatement],
          [Call 167 qasm3ParserRULE_gateCallStatement],
          [Call 168 qasm3ParserRULE_gateStatement],
          [Call 169 qasm3ParserRULE_ifStatement],
          [Call 170 qasm3ParserRULE_includeStatement],
          [Call 171 qasm3ParserRULE_ioDeclarationStatement],
          [Call 172 qasm3ParserRULE_measureArrowAssignmentStatement],
          [Call 173 qasm3ParserRULE_oldStyleDeclarationStatement],
          [Call 174 qasm3ParserRULE_quantumDeclarationStatement],
          [Call 175 qasm3ParserRULE_resetStatement],
          [Call 176 qasm3ParserRULE_returnStatement],
          [Call 177 qasm3ParserRULE_whileStatement]]
       ])] True]"

definition Annotation :: "code list" where
  "Annotation = [
    Match qasm3ParserAnnotationKeyword,
    IfLA (IsTok qasm3ParserRemainingLineContent) [Match qasm3ParserRemainingLineContent]]"

definition Scope :: "code list" where
  "Scope = [
    Match qasm3ParserLBRACE,
    ForLA (OrElse (InBits 0 [qasm3ParserINCLUDE, qasm3ParserDEFCALGRAMMAR, qasm3ParserDEF, qasm3ParserCAL,
     qasm3ParserDEFCAL, qasm3ParserGATE, qasm3ParserEXTERN, qasm3ParserBOX, qasm3ParserLET, qasm3ParserBREAK,
     qasm3ParserCONTINUE, qasm3ParserIF, qasm3ParserEND, qasm3ParserRETURN, qasm3ParserFOR, qasm3ParserWHILE,
     qasm3ParserPRAGMA, qasm3ParserAnnotationKeyword, qasm3ParserINPUT, qasm3ParserOUTPUT, qasm3ParserCONST,
     qasm3ParserQREG, qasm3ParserQUBIT, qasm3ParserCREG, qasm3ParserBOOL, qasm3ParserBIT, qasm3ParserINT]) (OrElse
     (InBits 32 [qasm3ParserUINT, qasm3ParserFLOAT, qasm3ParserANGLE, qasm3ParserCOMPLEX, qasm3ParserARRAY,
     qasm3ParserDURATION, qasm3ParserSTRETCH, qasm3ParserGPHASE, qasm3ParserINV, qasm3ParserPOW, qasm3ParserCTRL,
     qasm3ParserNEGCTRL, qasm3ParserDURATIONOF, qasm3ParserDELAY, qasm3ParserRESET, qasm3ParserMEASURE,
     qasm3ParserBARRIER, qasm3ParserBooleanLiteral, qasm3ParserLPAREN]) (InBits 65 [qasm3ParserMINUS,
     qasm3ParserTILDE, qasm3ParserEXCLAMATION_POINT, qasm3ParserImaginaryLiteral, qasm3ParserBinaryIntegerLiteral,
     qasm3ParserOctalIntegerLiteral, qasm3ParserDecimalIntegerLiteral, qasm3ParserHexIntegerLiteral,
     qasm3ParserIdentifier, qasm3ParserHardwareQubit, qasm3ParserFloatLiteral, qasm3ParserTimingLiteral,
     qasm3ParserBitstringLiteral]))) [Call 187 qasm3ParserRULE_statement],
    Match qasm3ParserRBRACE]"

definition Pragma :: "code list" where
  "Pragma = [
    Match qasm3ParserPRAGMA,
    Match qasm3ParserRemainingLineContent]"

definition StatementOrScope :: "code list" where
  "StatementOrScope = [
    SwitchLA [
      ([qasm3ParserINCLUDE, qasm3ParserDEFCALGRAMMAR, qasm3ParserDEF, qasm3ParserCAL, qasm3ParserDEFCAL,
       qasm3ParserGATE, qasm3ParserEXTERN, qasm3ParserBOX, qasm3ParserLET, qasm3ParserBREAK, qasm3ParserCONTINUE,
       qasm3ParserIF, qasm3ParserEND, qasm3ParserRETURN, qasm3ParserFOR, qasm3ParserWHILE, qasm3ParserPRAGMA,
       qasm3ParserAnnotationKeyword, qasm3ParserINPUT, qasm3ParserOUTPUT, qasm3ParserCONST, qasm3ParserQREG,
       qasm3ParserQUBIT, qasm3ParserCREG, qasm3ParserBOOL, qasm3ParserBIT, qasm3ParserINT, qasm3ParserUINT,
       qasm3ParserFLOAT, qasm3ParserANGLE, qasm3ParserCOMPLEX, qasm3ParserARRAY, qasm3ParserDURATION,
       qasm3ParserSTRETCH, qasm3ParserGPHASE, qasm3ParserINV, qasm3ParserPOW, qasm3ParserCTRL, qasm3ParserNEGCTRL,
       qasm3ParserDURATIONOF, qasm3ParserDELAY, qasm3ParserRESET, qasm3ParserMEASURE, qasm3ParserBARRIER,
       qasm3ParserBooleanLiteral, qasm3ParserLPAREN, qasm3ParserMINUS, qasm3ParserTILDE, qasm3ParserEXCLAMATION_POINT,
       qasm3ParserImaginaryLiteral, qasm3ParserBinaryIntegerLiteral, qasm3ParserOctalIntegerLiteral,
       qasm3ParserDecimalIntegerLiteral, qasm3ParserHexIntegerLiteral, qasm3ParserIdentifier,
       qasm3ParserHardwareQubit, qasm3ParserFloatLiteral, qasm3ParserTimingLiteral, qasm3ParserBitstringLiteral], [Call 198 qasm3ParserRULE_statement]),
      ([qasm3ParserLBRACE], [Call 199 qasm3ParserRULE_scope])] True]"

definition CalibrationGrammarStatement :: "code list" where
  "CalibrationGrammarStatement = [
    Match qasm3ParserDEFCALGRAMMAR,
    Match qasm3ParserStringLiteral,
    Match qasm3ParserSEMICOLON]"

definition IncludeStatement :: "code list" where
  "IncludeStatement = [
    Match qasm3ParserINCLUDE,
    Match qasm3ParserStringLiteral,
    Match qasm3ParserSEMICOLON]"

definition BreakStatement :: "code list" where
  "BreakStatement = [
    Match qasm3ParserBREAK,
    Match qasm3ParserSEMICOLON]"

definition ContinueStatement :: "code list" where
  "ContinueStatement = [
    Match qasm3ParserCONTINUE,
    Match qasm3ParserSEMICOLON]"

definition EndStatement :: "code list" where
  "EndStatement = [
    Match qasm3ParserEND,
    Match qasm3ParserSEMICOLON]"

definition ForStatement :: "code list" where
  "ForStatement = [
    Match qasm3ParserFOR,
    Call 220 qasm3ParserRULE_scalarType,
    Match qasm3ParserIdentifier,
    Match qasm3ParserIN,
    SwitchLA [
      ([qasm3ParserLBRACE], [Call 223 qasm3ParserRULE_setExpression]),
      ([qasm3ParserLBRACKET], [Match qasm3ParserLBRACKET, Call 225 qasm3ParserRULE_rangeExpression, Match qasm3ParserRBRACKET]),
      ([qasm3ParserIdentifier], [Match qasm3ParserIdentifier])] True,
    Call 231 qasm3ParserRULE_statementOrScope]"

definition IfStatement :: "code list" where
  "IfStatement = [
    Match qasm3ParserIF,
    Match qasm3ParserLPAREN,
    CallExpression 235 0,
    Match qasm3ParserRPAREN,
    Call 237 qasm3ParserRULE_statementOrScope,
    IfPredict 9 [Match qasm3ParserELSE, Call 239 qasm3ParserRULE_statementOrScope]]"

definition ReturnStatement :: "code list" where
  "ReturnStatement = [
    Match qasm3ParserRETURN,
    SwitchLA [
      ([qasm3ParserBOOL, qasm3ParserBIT, qasm3ParserINT, qasm3ParserUINT, qasm3ParserFLOAT, qasm3ParserANGLE,
       qasm3ParserCOMPLEX, qasm3ParserARRAY, qasm3ParserDURATION, qasm3ParserSTRETCH, qasm3ParserDURATIONOF,
       qasm3ParserBooleanLiteral, qasm3ParserLPAREN, qasm3ParserMINUS, qasm3ParserTILDE, qasm3ParserEXCLAMATION_POINT,
       qasm3ParserImaginaryLiteral, qasm3ParserBinaryIntegerLiteral, qasm3ParserOctalIntegerLiteral,
       qasm3ParserDecimalIntegerLiteral, qasm3ParserHexIntegerLiteral, qasm3ParserIdentifier,
       qasm3ParserHardwareQubit, qasm3ParserFloatLiteral, qasm3ParserTimingLiteral, qasm3ParserBitstringLiteral], [CallExpression 243 0]),
      ([qasm3ParserMEASURE], [Call 244 qasm3ParserRULE_measureExpression]),
      ([qasm3ParserSEMICOLON], [])] False,
    Match qasm3ParserSEMICOLON]"

definition WhileStatement :: "code list" where
  "WhileStatement = [
    Match qasm3ParserWHILE,
    Match qasm3ParserLPAREN,
    CallExpression 251 0,
    Match qasm3ParserRPAREN,
    Call 253 qasm3ParserRULE_statementOrScope]"

definition BarrierStatement :: "code list" where
  "BarrierStatement = [
    Match qasm3ParserBARRIER,
    IfLA (OrElse (IsTok qasm3ParserIdentifier) (IsTok qasm3ParserHardwareQubit)) [Call 256 qasm3ParserRULE_gateOperandList],
    Match qasm3ParserSEMICOLON]"

definition BoxStatement :: "code list" where
  "BoxStatement = [
    Match qasm3ParserBOX,
    IfLA (IsTok qasm3ParserLBRACKET) [Call 262 qasm3ParserRULE_designator],
    Call 265 qasm3ParserRULE_scope]"

definition DelayStatement :: "code list" where
  "DelayStatement = [
    Match qasm3ParserDELAY,
    Call 268 qasm3ParserRULE_designator,
    IfLA (OrElse (IsTok qasm3ParserIdentifier) (IsTok qasm3ParserHardwareQubit)) [Call 269 qasm3ParserRULE_gateOperandList],
    Match qasm3ParserSEMICOLON]"

definition GateCallStatement :: "code list" where
  "GateCallStatement = [
    SwitchPredict 23 [
      [
       ForLA (InBits 40 [qasm3ParserINV, qasm3ParserPOW, qasm3ParserCTRL, qasm3ParserNEGCTRL]) [Call 274 qasm3ParserRULE_gateModifier],
       Match qasm3ParserIdentifier,
       IfLA (IsTok qasm3ParserLPAREN)
         [
          Match qasm3ParserLPAREN,
          IfLA (OrElse (InBits 29 [qasm3ParserBOOL, qasm3ParserBIT, qasm3ParserINT, qasm3ParserUINT, qasm3ParserFLOAT,
           qasm3ParserANGLE, qasm3ParserCOMPLEX, qasm3ParserARRAY, qasm3ParserDURATION, qasm3ParserSTRETCH,
           qasm3ParserDURATIONOF, qasm3ParserBooleanLiteral, qasm3ParserLPAREN]) (InBits 65 [qasm3ParserMINUS,
           qasm3ParserTILDE, qasm3ParserEXCLAMATION_POINT, qasm3ParserImaginaryLiteral,
           qasm3ParserBinaryIntegerLiteral, qasm3ParserOctalIntegerLiteral, qasm3ParserDecimalIntegerLiteral,
           qasm3ParserHexIntegerLiteral, qasm3ParserIdentifier, qasm3ParserHardwareQubit, qasm3ParserFloatLiteral,
           qasm3ParserTimingLiteral, qasm3ParserBitstringLiteral])) [Call 282 qasm3ParserRULE_expressionList],
          Match qasm3ParserRPAREN
         ],
       IfLA (IsTok qasm3ParserLBRACKET) [Call 288 qasm3ParserRULE_designator],
       Call 291 qasm3ParserRULE_gateOperandList,
       Match qasm3ParserSEMICOLON
      ],
      [
       ForLA (InBits 40 [qasm3ParserINV, qasm3ParserPOW, qasm3ParserCTRL, qasm3ParserNEGCTRL]) [Call 294 qasm3ParserRULE_gateModifier],
       Match qasm3ParserGPHASE,
       IfLA (IsTok qasm3ParserLPAREN)
         [
          Match qasm3ParserLPAREN,
          IfLA (OrElse (InBits 29 [qasm3ParserBOOL, qasm3ParserBIT, qasm3ParserINT, qasm3ParserUINT, qasm3ParserFLOAT,
           qasm3ParserANGLE, qasm3ParserCOMPLEX, qasm3ParserARRAY, qasm3ParserDURATION, qasm3ParserSTRETCH,
           qasm3ParserDURATIONOF, qasm3ParserBooleanLiteral, qasm3ParserLPAREN]) (InBits 65 [qasm3ParserMINUS,
           qasm3ParserTILDE, qasm3ParserEXCLAMATION_POINT, qasm3ParserImaginaryLiteral,
           qasm3ParserBinaryIntegerLiteral, qasm3ParserOctalIntegerLiteral, qasm3ParserDecimalIntegerLiteral,
           qasm3ParserHexIntegerLiteral, qasm3ParserIdentifier, qasm3ParserHardwareQubit, qasm3ParserFloatLiteral,
           qasm3ParserTimingLiteral, qasm3ParserBitstringLiteral])) [Call 302 qasm3ParserRULE_expressionList],
          Match qasm3ParserRPAREN
         ],
       IfLA (IsTok qasm3ParserLBRACKET) [Call 308 qasm3ParserRULE_designator],
       IfLA (OrElse (IsTok qasm3ParserIdentifier) (IsTok qasm3ParserHardwareQubit)) [Call 311 qasm3ParserRULE_gateOperandList],
       Match qasm3ParserSEMICOLON
      ]]]"

definition MeasureArrowAssignmentStatement :: "code list" where
  "MeasureArrowAssignmentStatement = [
    Call 317 qasm3ParserRULE_measureExpression,
    IfLA (IsTok qasm3ParserARROW) [Match qasm3ParserARROW, Call 319 qasm3ParserRULE_indexedIdentifier],
    Match qasm3ParserSEMICOLON]"

definition ResetStatement :: "code list" where
  "ResetStatement = [
    Match qasm3ParserRESET,
    Call 325 qasm3ParserRULE_gateOperand,
    Match qasm3ParserSEMICOLON]"

definition AliasDeclarationStatement :: "code list" where
  "AliasDeclarationStatement = [
    Match qasm3ParserLET,
    Match qasm3ParserIdentifier,
    Match qasm3ParserEQUALS,
    Call 331 qasm3ParserRULE_aliasExpression,
    Match qasm3ParserSEMICOLON]"

definition ClassicalDeclarationStatement :: "code list" where
  "ClassicalDeclarationStatement = [
    SwitchLA [
      ([qasm3ParserBOOL, qasm3ParserBIT, qasm3ParserINT, qasm3ParserUINT, qasm3ParserFLOAT, qasm3ParserANGLE,
       qasm3ParserCOMPLEX, qasm3ParserDURATION, qasm3ParserSTRETCH], [Call 334 qasm3ParserRULE_scalarType]),
      ([qasm3ParserARRAY], [Call 335 qasm3ParserRULE_arrayType])] True,
    Match qasm3ParserIdentifier,
    IfLA (IsTok qasm3ParserEQUALS) [Match qasm3ParserEQUALS, Call 340 qasm3ParserRULE_declarationExpression],
    Match qasm3ParserSEMICOLON]"

definition ConstDeclarationStatement :: "code list" where
  "ConstDeclarationStatement = [
    Match qasm3ParserCONST,
    Call 346 qasm3ParserRULE_scalarType,
    Match qasm3ParserIdentifier,
    Match qasm3ParserEQUALS,
    Call 349 qasm3ParserRULE_declarationExpression,
    Match qasm3ParserSEMICOLON]"

definition IoDeclarationStatement :: "code list" where
  "IoDeclarationStatement = [
    MatchSet (OrElse (IsTok qasm3ParserINPUT) (IsTok qasm3ParserOUTPUT)),
    SwitchLA [
      ([qasm3ParserBOOL, qasm3ParserBIT, qasm3ParserINT, qasm3ParserUINT, qasm3ParserFLOAT, qasm3ParserANGLE,
       qasm3ParserCOMPLEX, qasm3ParserDURATION, qasm3ParserSTRETCH], [Call 353 qasm3ParserRULE_scalarType]),
      ([qasm3ParserARRAY], [Call 354 qasm3ParserRULE_arrayType])] True,
    Match qasm3ParserIdentifier,
    Match qasm3ParserSEMICOLON]"

definition OldStyleDeclarationStatement :: "code list" where
  "OldStyleDeclarationStatement = [
    MatchSet (OrElse (IsTok qasm3ParserQREG) (IsTok qasm3ParserCREG)),
    Match qasm3ParserIdentifier,
    IfLA (IsTok qasm3ParserLBRACKET) [Call 362 qasm3ParserRULE_designator],
    Match qasm3ParserSEMICOLON]"

definition QuantumDeclarationStatement :: "code list" where
  "QuantumDeclarationStatement = [
    Call 367 qasm3ParserRULE_qubitType,
    Match qasm3ParserIdentifier,
    Match qasm3ParserSEMICOLON]"

definition DefStatement :: "code list" where
  "DefStatement = [
    Match qasm3ParserDEF,
    Match qasm3ParserIdentifier,
    Match qasm3ParserLPAREN,
    IfLA (InBits 24 [qasm3ParserCONST, qasm3ParserMUTABLE, qasm3ParserQREG, qasm3ParserQUBIT, qasm3ParserCREG,
     qasm3ParserBOOL, qasm3ParserBIT, qasm3ParserINT, qasm3ParserUINT, qasm3ParserFLOAT, qasm3ParserANGLE,
     qasm3ParserCOMPLEX, qasm3ParserDURATION, qasm3ParserSTRETCH]) [Call 374 qasm3ParserRULE_argumentDefinitionList],
    Match qasm3ParserRPAREN,
    IfLA (IsTok qasm3ParserARROW) [Call 378 qasm3ParserRULE_returnSignature],
    Call 381 qasm3ParserRULE_scope]"

definition ExternStatement :: "code list" where
  "ExternStatement = [
    Match qasm3ParserEXTERN,
    Match qasm3ParserIdentifier,
    Match qasm3ParserLPAREN,
    IfLA (InBits 24 [qasm3ParserCONST, qasm3ParserMUTABLE, qasm3ParserCREG, qasm3ParserBOOL, qasm3ParserBIT,
     qasm3ParserINT, qasm3ParserUINT, qasm3ParserFLOAT, qasm3ParserANGLE, qasm3ParserCOMPLEX, qasm3ParserDURATION,
     qasm3ParserSTRETCH]) [Call 386 qasm3ParserRULE_externArgumentList],
    Match qasm3ParserRPAREN,
    IfLA (IsTok qasm3ParserARROW) [Call 390 qasm3ParserRULE_returnSignature],
    Match qasm3ParserSEMICOLON]"

definition GateStatement :: "code list" where
  "GateStatement = [
    Match qasm3ParserGATE,
    Match qasm3ParserIdentifier,
    IfLA (IsTok qasm3ParserLPAREN)
      [
       Match qasm3ParserLPAREN,
       IfLA (IsTok qasm3ParserIdentifier) [Call 398 qasm3ParserRULE_identifierList],
       Match qasm3ParserRPAREN
      ],
    Call 404 qasm3ParserRULE_identifierList,
    Call 405 qasm3ParserRULE_scope]"

definition AssignmentStatement :: "code list" where
  "AssignmentStatement = [
    Call 407 qasm3ParserRULE_indexedIdentifier,
    MatchSet (OrElse (IsTok qasm3ParserEQUALS) (IsTok qasm3ParserCompoundAssignmentOperator)),
    SwitchLA [
      ([qasm3ParserBOOL, qasm3ParserBIT, qasm3ParserINT, qasm3ParserUINT, qasm3ParserFLOAT, qasm3ParserANGLE,
       qasm3ParserCOMPLEX, qasm3ParserARRAY, qasm3ParserDURATION, qasm3ParserSTRETCH, qasm3ParserDURATIONOF,
       qasm3ParserBooleanLiteral, qasm3ParserLPAREN, qasm3ParserMINUS, qasm3ParserTILDE, qasm3ParserEXCLAMATION_POINT,
       qasm3ParserImaginaryLiteral, qasm3ParserBinaryIntegerLiteral, qasm3ParserOctalIntegerLiteral,
       qasm3ParserDecimalIntegerLiteral, qasm3ParserHexIntegerLiteral, qasm3ParserIdentifier,
       qasm3ParserHardwareQubit, qasm3ParserFloatLiteral, qasm3ParserTimingLiteral, qasm3ParserBitstringLiteral], [CallExpression 409 0]),
      ([qasm3ParserMEASURE], [Call 410 qasm3ParserRULE_measureExpression])] True,
    Match qasm3ParserSEMICOLON]"

definition ExpressionStatement :: "code list" where
  "ExpressionStatement = [
    CallExpression 415 0,
    Match qasm3ParserSEMICOLON]"

definition CalStatement :: "code list" where
  "CalStatement = [
    Match qasm3ParserCAL,
    Match qasm3ParserLBRACE,
    IfLA (IsTok qasm3ParserCalibrationBlock) [Match qasm3ParserCalibrationBlock],
    Match qasm3ParserRBRACE]"

definition DefcalStatement :: "code list" where
  "DefcalStatement = [
    Match qasm3ParserDEFCAL,
    Call 426 qasm3ParserRULE_defcalTarget,
    IfLA (IsTok qasm3ParserLPAREN)
      [
       Match qasm3ParserLPAREN,
       IfLA (OrElse (InBits 24 [qasm3ParserCONST, qasm3ParserMUTABLE, qasm3ParserQREG, qasm3ParserQUBIT,
        qasm3ParserCREG, qasm3ParserBOOL, qasm3ParserBIT, qasm3ParserINT, qasm3ParserUINT, qasm3ParserFLOAT,
        qasm3ParserANGLE, qasm3ParserCOMPLEX, qasm3ParserARRAY, qasm3ParserDURATION, qasm3ParserSTRETCH,
        qasm3ParserDURATIONOF, qasm3ParserBooleanLiteral, qasm3ParserLPAREN]) (InBits 65 [qasm3ParserMINUS,
        qasm3ParserTILDE, qasm3ParserEXCLAMATION_POINT, qasm3ParserImaginaryLiteral, qasm3ParserBinaryIntegerLiteral,
        qasm3ParserOctalIntegerLiteral, qasm3ParserDecimalIntegerLiteral, qasm3ParserHexIntegerLiteral,
        qasm3ParserIdentifier, qasm3ParserHardwareQubit, qasm3ParserFloatLiteral, qasm3ParserTimingLiteral,
        qasm3ParserBitstringLiteral])) [Call 428 qasm3ParserRULE_defcalArgumentDefinitionList],
       Match qasm3ParserRPAREN
      ],
    Call 434 qasm3ParserRULE_defcalOperandList,
    IfLA (IsTok qasm3ParserARROW) [Call 435 qasm3ParserRULE_returnSignature],
    Match qasm3ParserLBRACE,
    IfLA (IsTok qasm3ParserCalibrationBlock) [Match qasm3ParserCalibrationBlock],
    Match qasm3ParserRBRACE]"

text \<open>The primary expressions and the operators of \<open>expression\<close>, by the type of their context.\<close>

definition expression_primary :: "(string \<times> code list) list" where
  "expression_primary = [
    (''ParenthesisExpression'', [Match qasm3ParserLPAREN, CallExpression 446 0, Match qasm3ParserRPAREN]),
    (''UnaryExpression'',
      [
       MatchSet (InBits 65 [qasm3ParserMINUS, qasm3ParserTILDE, qasm3ParserEXCLAMATION_POINT]),
       CallExpression 450 15
      ]),
    (''CastExpression'',
      [
       SwitchLA [
         ([qasm3ParserBOOL, qasm3ParserBIT, qasm3ParserINT, qasm3ParserUINT, qasm3ParserFLOAT, qasm3ParserANGLE,
          qasm3ParserCOMPLEX, qasm3ParserDURATION, qasm3ParserSTRETCH], [Call 451 qasm3ParserRULE_scalarType]),
         ([qasm3ParserARRAY], [Call 452 qasm3ParserRULE_arrayType])] True,
       Match qasm3ParserLPAREN,
       CallExpression 456 0,
       Match qasm3ParserRPAREN
      ]),
    (''DurationofExpression'',
      [
       Match qasm3ParserDURATIONOF,
       Match qasm3ParserLPAREN,
       Call 461 qasm3ParserRULE_scope,
       Match qasm3ParserRPAREN
      ]),
    (''CallExpression'',
      [
       Match qasm3ParserIdentifier,
       Match qasm3ParserLPAREN,
       IfLA (OrElse (InBits 29 [qasm3ParserBOOL, qasm3ParserBIT, qasm3ParserINT, qasm3ParserUINT, qasm3ParserFLOAT,
        qasm3ParserANGLE, qasm3ParserCOMPLEX, qasm3ParserARRAY, qasm3ParserDURATION, qasm3ParserSTRETCH,
        qasm3ParserDURATIONOF, qasm3ParserBooleanLiteral, qasm3ParserLPAREN]) (InBits 65 [qasm3ParserMINUS,
        qasm3ParserTILDE, qasm3ParserEXCLAMATION_POINT, qasm3ParserImaginaryLiteral, qasm3ParserBinaryIntegerLiteral,
        qasm3ParserOctalIntegerLiteral, qasm3ParserDecimalIntegerLiteral, qasm3ParserHexIntegerLiteral,
        qasm3ParserIdentifier, qasm3ParserHardwareQubit, qasm3ParserFloatLiteral, qasm3ParserTimingLiteral,
        qasm3ParserBitstringLiteral])) [Call 466 qasm3ParserRULE_expressionList],
       Match qasm3ParserRPAREN
      ]),
    (''LiteralExpression'',
      [
       MatchSet (OrElse (IsTok qasm3ParserBooleanLiteral) (InBits 83 [qasm3ParserImaginaryLiteral,
        qasm3ParserBinaryIntegerLiteral, qasm3ParserOctalIntegerLiteral, qasm3ParserDecimalIntegerLiteral,
        qasm3ParserHexIntegerLiteral, qasm3ParserIdentifier, qasm3ParserHardwareQubit, qasm3ParserFloatLiteral,
        qasm3ParserTimingLiteral, qasm3ParserBitstringLiteral]))
      ])]"

definition expression_operators :: "(string \<times> int \<times> code list) list" where
  "expression_operators = [
    (''PowerExpression'', 16, [Match qasm3ParserDOUBLE_ASTERISK, CallExpression 475 16]),
    (''MultiplicativeExpression'', 14,
      [
       MatchSet (InBits 66 [qasm3ParserASTERISK, qasm3ParserSLASH, qasm3ParserPERCENT]),
       CallExpression 478 15
      ]),
    (''AdditiveExpression'', 13, [MatchSet (OrElse (IsTok qasm3ParserPLUS) (IsTok qasm3ParserMINUS)), CallExpression 481 14]),
    (''BitshiftExpression'', 12, [Match qasm3ParserBitshiftOperator, CallExpression 484 13]),
    (''ComparisonExpression'', 11, [Match qasm3ParserComparisonOperator, CallExpression 487 12]),
    (''EqualityExpression'', 10, [Match qasm3ParserEqualityOperator, CallExpression 490 11]),
    (''BitwiseAndExpression'', 9, [Match qasm3ParserAMPERSAND, CallExpression 493 10]),
    (''BitwiseXorExpression'', 8, [Match qasm3ParserCARET, CallExpression 496 9]),
    (''BitwiseOrExpression'', 7, [Match qasm3ParserPIPE, CallExpression 499 8]),
    (''LogicalAndExpression'', 6, [Match qasm3ParserDOUBLE_AMPERSAND, CallExpression 502 7]),
    (''LogicalOrExpression'', 5, [Match qasm3ParserDOUBLE_PIPE, CallExpression 505 6]),
    (''IndexExpression'', 17, [Call 507 qasm3ParserRULE_indexOperator])]"

definition AliasExpression :: "code list" where
  "AliasExpression = [
    CallExpression 513 0,
    ForLA (IsTok qasm3ParserDOUBLE_PLUS) [Match qasm3ParserDOUBLE_PLUS, CallExpression 515 0]]"

definition DeclarationExpression :: "code list" where
  "DeclarationExpression = [
    SwitchLA [
      ([qasm3ParserLBRACE], [Call 521 qasm3ParserRULE_arrayLiteral]),
      ([qasm3ParserBOOL, qasm3ParserBIT, qasm3ParserINT, qasm3ParserUINT, qasm3ParserFLOAT, qasm3ParserANGLE,
       qasm3ParserCOMPLEX, qasm3ParserARRAY, qasm3ParserDURATION, qasm3ParserSTRETCH, qasm3ParserDURATIONOF,
       qasm3ParserBooleanLiteral, qasm3ParserLPAREN, qasm3ParserMINUS, qasm3ParserTILDE, qasm3ParserEXCLAMATION_POINT,
       qasm3ParserImaginaryLiteral, qasm3ParserBinaryIntegerLiteral, qasm3ParserOctalIntegerLiteral,
       qasm3ParserDecimalIntegerLiteral, qasm3ParserHexIntegerLiteral, qasm3ParserIdentifier,
       qasm3ParserHardwareQubit, qasm3ParserFloatLiteral, qasm3ParserTimingLiteral, qasm3ParserBitstringLiteral], [CallExpression 522 0]),
      ([qasm3ParserMEASURE], [Call 523 qasm3ParserRULE_measureExpression])] True]"

definition MeasureExpression :: "code list" where
  "MeasureExpression = [
    Match qasm3ParserMEASURE,
    Call 527 qasm3ParserRULE_gateOperand]"

definition RangeExpression :: "code list" where
  "RangeExpression = [
    IfLA (OrElse (InBits 29 [qasm3ParserBOOL, qasm3ParserBIT, qasm3ParserINT, qasm3ParserUINT, qasm3ParserFLOAT,
     qasm3ParserANGLE, qasm3ParserCOMPLEX, qasm3ParserARRAY, qasm3ParserDURATION, qasm3ParserSTRETCH,
     qasm3ParserDURATIONOF, qasm3ParserBooleanLiteral, qasm3ParserLPAREN]) (InBits 65 [qasm3ParserMINUS,
     qasm3ParserTILDE, qasm3ParserEXCLAMATION_POINT, qasm3ParserImaginaryLiteral, qasm3ParserBinaryIntegerLiteral,
     qasm3ParserOctalIntegerLiteral, qasm3ParserDecimalIntegerLiteral, qasm3ParserHexIntegerLiteral,
     qasm3ParserIdentifier, qasm3ParserHardwareQubit, qasm3ParserFloatLiteral, qasm3ParserTimingLiteral,
     qasm3ParserBitstringLiteral])) [CallExpression 529 0],
    Match qasm3ParserCOLON,
    IfLA (OrElse (InBits 29 [qasm3ParserBOOL, qasm3ParserBIT, qasm3ParserINT, qasm3ParserUINT, qasm3ParserFLOAT,
     qasm3ParserANGLE, qasm3ParserCOMPLEX, qasm3ParserARRAY, qasm3ParserDURATION, qasm3ParserSTRETCH,
     qasm3ParserDURATIONOF, qasm3ParserBooleanLiteral, qasm3ParserLPAREN]) (InBits 65 [qasm3ParserMINUS,
     qasm3ParserTILDE, qasm3ParserEXCLAMATION_POINT, qasm3ParserImaginaryLiteral, qasm3ParserBinaryIntegerLiteral,
     qasm3ParserOctalIntegerLiteral, qasm3ParserDecimalIntegerLiteral, qasm3ParserHexIntegerLiteral,
     qasm3ParserIdentifier, qasm3ParserHardwareQubit, qasm3ParserFloatLiteral, qasm3ParserTimingLiteral,
     qasm3ParserBitstringLiteral])) [CallExpression 533 0],
    IfLA (IsTok qasm3ParserCOLON) [Match qasm3ParserCOLON, CallExpression 537 0]]"

definition SetExpression :: "code list" where
  "SetExpression = [
    Match qasm3ParserLBRACE,
    CallExpression 541 0,
    ForPredict 51 [Match qasm3ParserCOMMA, CallExpression 543 0],
    IfLA (IsTok qasm3ParserCOMMA) [Match qasm3ParserCOMMA],
    Match qasm3ParserRBRACE]"

definition ArrayLiteral :: "code list" where
  "ArrayLiteral = [
    Match qasm3ParserLBRACE,
    SwitchLA [
      ([qasm3ParserBOOL, qasm3ParserBIT, qasm3ParserINT, qasm3ParserUINT, qasm3ParserFLOAT, qasm3ParserANGLE,
       qasm3ParserCOMPLEX, qasm3ParserARRAY, qasm3ParserDURATION, qasm3ParserSTRETCH, qasm3ParserDURATIONOF,
       qasm3ParserBooleanLiteral, qasm3ParserLPAREN, qasm3ParserMINUS, qasm3ParserTILDE, qasm3ParserEXCLAMATION_POINT,
       qasm3ParserImaginaryLiteral, qasm3ParserBinaryIntegerLiteral, qasm3ParserOctalIntegerLiteral,
       qasm3ParserDecimalIntegerLiteral, qasm3ParserHexIntegerLiteral, qasm3ParserIdentifier,
       qasm3ParserHardwareQubit, qasm3ParserFloatLiteral, qasm3ParserTimingLiteral, qasm3ParserBitstringLiteral], [CallExpression 555 0]),
      ([qasm3ParserLBRACE], [Call 556 qasm3ParserRULE_arrayLiteral])] True,
    ForPredict 55
      [
       Match qasm3ParserCOMMA,
       SwitchLA [
         ([qasm3ParserBOOL, qasm3ParserBIT, qasm3ParserINT, qasm3ParserUINT, qasm3ParserFLOAT, qasm3ParserANGLE,
          qasm3ParserCOMPLEX, qasm3ParserARRAY, qasm3ParserDURATION, qasm3ParserSTRETCH, qasm3ParserDURATIONOF,
          qasm3ParserBooleanLiteral, qasm3ParserLPAREN, qasm3ParserMINUS, qasm3ParserTILDE,
          qasm3ParserEXCLAMATION_POINT, qasm3ParserImaginaryLiteral, qasm3ParserBinaryIntegerLiteral,
          qasm3ParserOctalIntegerLiteral, qasm3ParserDecimalIntegerLiteral, qasm3ParserHexIntegerLiteral,
          qasm3ParserIdentifier, qasm3ParserHardwareQubit, qasm3ParserFloatLiteral, qasm3ParserTimingLiteral,
          qasm3ParserBitstringLiteral], [CallExpression 560 0]),
         ([qasm3ParserLBRACE], [Call 561 qasm3ParserRULE_arrayLiteral])] True
      ],
    IfLA (IsTok qasm3ParserCOMMA) [Match qasm3ParserCOMMA],
    Match qasm3ParserRBRACE]"

definition IndexOperator :: "code list" where
  "IndexOperator = [
    Match qasm3ParserLBRACKET,
    SwitchLA [
      ([qasm3ParserLBRACE], [Call 575 qasm3ParserRULE_setExpression]),
      ([qasm3ParserBOOL, qasm3ParserBIT, qasm3ParserINT, qasm3ParserUINT, qasm3ParserFLOAT, qasm3ParserANGLE,
       qasm3ParserCOMPLEX, qasm3ParserARRAY, qasm3ParserDURATION, qasm3ParserSTRETCH, qasm3ParserDURATIONOF,
       qasm3ParserBooleanLiteral, qasm3ParserLPAREN, qasm3ParserCOLON, qasm3ParserMINUS, qasm3ParserTILDE,
       qasm3ParserEXCLAMATION_POINT, qasm3ParserImaginaryLiteral, qasm3ParserBinaryIntegerLiteral,
       qasm3ParserOctalIntegerLiteral, qasm3ParserDecimalIntegerLiteral, qasm3ParserHexIntegerLiteral,
       qasm3ParserIdentifier, qasm3ParserHardwareQubit, qasm3ParserFloatLiteral, qasm3ParserTimingLiteral,
       qasm3ParserBitstringLiteral],
       [
        SwitchPredict 57 [[CallExpression 576 0], [Call 577 qasm3ParserRULE_rangeExpression]],
        ForPredict 59
          [
           Match qasm3ParserCOMMA,
           SwitchPredict 58 [[CallExpression 581 0], [Call 582 qasm3ParserRULE_rangeExpression]]
          ],
        IfLA (IsTok qasm3ParserCOMMA) [Match qasm3ParserCOMMA]
       ])] True,
    Match qasm3ParserRBRACKET]"

definition IndexedIdentifier :: "code list" where
  "IndexedIdentifier = [
    Match qasm3ParserIdentifier,
    ForLA (IsTok qasm3ParserLBRACKET) [Call 598 qasm3ParserRULE_indexOperator]]"

definition ReturnSignature :: "code list" where
  "ReturnSignature = [
    Match qasm3ParserARROW,
    Call 605 qasm3ParserRULE_scalarType]"

definition GateModifier :: "code list" where
  "GateModifier = [
    SwitchLA [
      ([qasm3ParserINV], [Match qasm3ParserINV]),
      ([qasm3ParserPOW], [Match qasm3ParserPOW, Match qasm3ParserLPAREN, CallExpression 610 0, Match qasm3ParserRPAREN]),
      ([qasm3ParserCTRL, qasm3ParserNEGCTRL],
       [
        MatchSet (OrElse (IsTok qasm3ParserCTRL) (IsTok qasm3ParserNEGCTRL)),
        IfLA (IsTok qasm3ParserLPAREN) [Match qasm3ParserLPAREN, CallExpression 615 0, Match qasm3ParserRPAREN]
       ])] True,
    Match qasm3ParserAT]"

definition ScalarType :: "code list" where
  "ScalarType = [
    SwitchLA [
      ([qasm3ParserBIT], [Match qasm3ParserBIT, IfLA (IsTok qasm3ParserLBRACKET) [Call 625 qasm3ParserRULE_designator]]),
      ([qasm3ParserINT], [Match qasm3ParserINT, IfLA (IsTok qasm3ParserLBRACKET) [Call 629 qasm3ParserRULE_designator]]),
      ([qasm3ParserUINT], [Match qasm3ParserUINT, IfLA (IsTok qasm3ParserLBRACKET) [Call 633 qasm3ParserRULE_designator]]),
      ([qasm3ParserFLOAT], [Match qasm3ParserFLOAT, IfLA (IsTok qasm3ParserLBRACKET) [Call 637 qasm3ParserRULE_designator]]),
      ([qasm3ParserANGLE], [Match qasm3ParserANGLE, IfLA (IsTok qasm3ParserLBRACKET) [Call 641 qasm3ParserRULE_designator]]),
      ([qasm3ParserBOOL], [Match qasm3ParserBOOL]),
      ([qasm3ParserDURATION], [Match qasm3ParserDURATION]),
      ([qasm3ParserSTRETCH], [Match qasm3ParserSTRETCH]),
      ([qasm3ParserCOMPLEX],
       [
        Match qasm3ParserCOMPLEX,
        IfLA (IsTok qasm3ParserLBRACKET) [Match qasm3ParserLBRACKET, Call 649 qasm3ParserRULE_scalarType, Match qasm3ParserRBRACKET]
       ])] True]"

definition QubitType :: "code list" where
  "QubitType = [
    Match qasm3ParserQUBIT,
    IfLA (IsTok qasm3ParserLBRACKET) [Call 657 qasm3ParserRULE_designator]]"

definition ArrayType :: "code list" where
  "ArrayType = [
    Match qasm3ParserARRAY,
    Match qasm3ParserLBRACKET,
    Call 662 qasm3ParserRULE_scalarType,
    Match qasm3ParserCOMMA,
    Call 664 qasm3ParserRULE_expressionList,
    Match qasm3ParserRBRACKET]"

definition ArrayReferenceType :: "code list" where
  "ArrayReferenceType = [
    MatchSet (OrElse (IsTok qasm3ParserCONST) (IsTok qasm3ParserMUTABLE)),
    Match qasm3ParserARRAY,
    Match qasm3ParserLBRACKET,
    Call 670 qasm3ParserRULE_scalarType,
    Match qasm3ParserCOMMA,
    SwitchLA [
      ([qasm3ParserBOOL, qasm3ParserBIT, qasm3ParserINT, qasm3ParserUINT, qasm3ParserFLOAT, qasm3ParserANGLE,
       qasm3ParserCOMPLEX, qasm3ParserARRAY, qasm3ParserDURATION, qasm3ParserSTRETCH, qasm3ParserDURATIONOF,
       qasm3ParserBooleanLiteral, qasm3ParserLPAREN, qasm3ParserMINUS, qasm3ParserTILDE, qasm3ParserEXCLAMATION_POINT,
       qasm3ParserImaginaryLiteral, qasm3ParserBinaryIntegerLiteral, qasm3ParserOctalIntegerLiteral,
       qasm3ParserDecimalIntegerLiteral, qasm3ParserHexIntegerLiteral, qasm3ParserIdentifier,
       qasm3ParserHardwareQubit, qasm3ParserFloatLiteral, qasm3ParserTimingLiteral, qasm3ParserBitstringLiteral], [Call 672 qasm3ParserRULE_expressionList]),
      ([qasm3ParserDIM], [Match qasm3ParserDIM, Match qasm3ParserEQUALS, CallExpression 675 0])] True,
    Match qasm3ParserRBRACKET]"

definition Designator :: "code list" where
  "Designator = [
    Match qasm3ParserLBRACKET,
    CallExpression 681 0,
    Match qasm3ParserRBRACKET]"

definition DefcalTarget :: "code list" where
  "DefcalTarget = [
    MatchSet (OrElse (InBits 46 [qasm3ParserDELAY, qasm3ParserRESET, qasm3ParserMEASURE]) (IsTok
     qasm3ParserIdentifier))]"

definition DefcalArgumentDefinition :: "code list" where
  "DefcalArgumentDefinition = [
    SwitchPredict 74 [[CallExpression 686 0], [Call 687 qasm3ParserRULE_argumentDefinition]]]"

definition DefcalOperand :: "code list" where
  "DefcalOperand = [
    MatchSet (OrElse (IsTok qasm3ParserIdentifier) (IsTok qasm3ParserHardwareQubit))]"

definition GateOperand :: "code list" where
  "GateOperand = [
    SwitchLA [
      ([qasm3ParserIdentifier], [Call 692 qasm3ParserRULE_indexedIdentifier]),
      ([qasm3ParserHardwareQubit], [Match qasm3ParserHardwareQubit])] True]"

definition ExternArgument :: "code list" where
  "ExternArgument = [
    SwitchLA [
      ([qasm3ParserBOOL, qasm3ParserBIT, qasm3ParserINT, qasm3ParserUINT, qasm3ParserFLOAT, qasm3ParserANGLE,
       qasm3ParserCOMPLEX, qasm3ParserDURATION, qasm3ParserSTRETCH], [Call 696 qasm3ParserRULE_scalarType]),
      ([qasm3ParserCONST, qasm3ParserMUTABLE], [Call 697 qasm3ParserRULE_arrayReferenceType]),
      ([qasm3ParserCREG], [Match qasm3ParserCREG, IfLA (IsTok qasm3ParserLBRACKET) [Call 699 qasm3ParserRULE_designator]])] True]"

definition ArgumentDefinition :: "code list" where
  "ArgumentDefinition = [
    SwitchLA [
      ([qasm3ParserBOOL, qasm3ParserBIT, qasm3ParserINT, qasm3ParserUINT, qasm3ParserFLOAT, qasm3ParserANGLE,
       qasm3ParserCOMPLEX, qasm3ParserDURATION, qasm3ParserSTRETCH], [Call 704 qasm3ParserRULE_scalarType, Match qasm3ParserIdentifier]),
      ([qasm3ParserQUBIT], [Call 707 qasm3ParserRULE_qubitType, Match qasm3ParserIdentifier]),
      ([qasm3ParserQREG, qasm3ParserCREG],
       [
        MatchSet (OrElse (IsTok qasm3ParserQREG) (IsTok qasm3ParserCREG)),
        Match qasm3ParserIdentifier,
        IfLA (IsTok qasm3ParserLBRACKET) [Call 712 qasm3ParserRULE_designator]
       ]),
      ([qasm3ParserCONST, qasm3ParserMUTABLE], [Call 715 qasm3ParserRULE_arrayReferenceType, Match qasm3ParserIdentifier])] True]"

definition ArgumentDefinitionList :: "code list" where
  "ArgumentDefinitionList = [
    Call 720 qasm3ParserRULE_argumentDefinition,
    ForPredict 80 [Match qasm3ParserCOMMA, Call 722 qasm3ParserRULE_argumentDefinition],
    IfLA (IsTok qasm3ParserCOMMA) [Match qasm3ParserCOMMA]]"

definition DefcalArgumentDefinitionList :: "code list" where
  "DefcalArgumentDefinitionList = [
    Call 731 qasm3ParserRULE_defcalArgumentDefinition,
    ForPredict 82 [Match qasm3ParserCOMMA, Call 733 qasm3ParserRULE_defcalArgumentDefinition],
    IfLA (IsTok qasm3ParserCOMMA) [Match qasm3ParserCOMMA]]"

definition DefcalOperandList :: "code list" where
  "DefcalOperandList = [
    Call 742 qasm3ParserRULE_defcalOperand,
    ForPredict 84 [Match qasm3ParserCOMMA, Call 744 qasm3ParserRULE_defcalOperand],
    IfLA (IsTok qasm3ParserCOMMA) [Match qasm3ParserCOMMA]]"

definition ExpressionList :: "code list" where
  "ExpressionList = [
    CallExpression 753 0,
    ForPredict 86 [Match qasm3ParserCOMMA, CallExpression 755 0],
    IfLA (IsTok qasm3ParserCOMMA) [Match qasm3ParserCOMMA]]"

definition IdentifierList :: "code list" where
  "IdentifierList = [
    Match qasm3ParserIdentifier,
    ForPredict 88 [Match qasm3ParserCOMMA, Match qasm3ParserIdentifier],
    IfLA (IsTok qasm3ParserCOMMA) [Match qasm3ParserCOMMA]]"

definition GateOperandList :: "code list" where
  "GateOperandList = [
    Call 775 qasm3ParserRULE_gateOperand,
    ForPredict 90 [Match qasm3ParserCOMMA, Call 777 qasm3ParserRULE_gateOperand],
    IfLA (IsTok qasm3ParserCOMMA) [Match qasm3ParserCOMMA]]"

definition ExternArgumentList :: "code list" where
  "ExternArgumentList = [
    Call 786 qasm3ParserRULE_externArgument,
    ForPredict 92 [Match qasm3ParserCOMMA, Call 788 qasm3ParserRULE_externArgument],
    IfLA (IsTok qasm3ParserCOMMA) [Match qasm3ParserCOMMA]]"

section \<open>The parser\<close>

definition rule_table :: "code list list" where
  "rule_table =
    [Program, Version, Statement, Annotation, Scope, Pragma, StatementOrScope, CalibrationGrammarStatement,
     IncludeStatement, BreakStatement, ContinueStatement, EndStatement, ForStatement, IfStatement, ReturnStatement,
     WhileStatement, BarrierStatement, BoxStatement, DelayStatement, GateCallStatement,
     MeasureArrowAssignmentStatement, ResetStatement, AliasDeclarationStatement, ClassicalDeclarationStatement,
     ConstDeclarationStatement, IoDeclarationStatement, OldStyleDeclarationStatement, QuantumDeclarationStatement,
     DefStatement, ExternStatement, GateStatement, AssignmentStatement, ExpressionStatement, CalStatement,
     DefcalStatement, [], AliasExpression, DeclarationExpression, MeasureExpression, RangeExpression, SetExpression,
     ArrayLiteral, IndexOperator, IndexedIdentifier, ReturnSignature, GateModifier, ScalarType, QubitType, ArrayType,
     ArrayReferenceType, Designator, DefcalTarget, DefcalArgumentDefinition, DefcalOperand, GateOperand,
     ExternArgument, ArgumentDefinition, ArgumentDefinitionList, DefcalArgumentDefinitionList, DefcalOperandList,
     ExpressionList, IdentifierList, GateOperandList, ExternArgumentList]"

definition qasm3Parser :: parser_code where
  "qasm3Parser =
    \<lparr>pc_rule = (\<lambda>r. if r < length rule_table then rule_table ! r else []),
     pc_primary = expression_primary, pc_operators = expression_operators\<rparr>"

end
