(* ===== verification/Qasm_Grammar.thy ===== *)
theory Qasm_Grammar
  imports Antlr_Grammar Qasm_Rules
begin

text \<open>
  The grammar of OpenQASM 3 as the repository has it (\<open>coreapp/core/parser/qasm3Parser.g4\<close>), and that the
  rule functions of the generated parser follow it.
\<close>

section \<open>The grammar file\<close>

text \<open>
  The right-hand sides of the rules, in the order of the rule indices. The rule \<open>expression\<close> has labelled
  alternatives; a label names the type of the context of its nodes.
\<close>

definition g4_rules :: "ebnf list" where
  "g4_rules = [
    Seq [Opt (NT qasm3ParserRULE_version), Star (NT qasm3ParserRULE_statement), Tok [qasm3ParserEOF]],
    Seq [Tok [qasm3ParserOPENQASM], Tok [qasm3ParserVersionSpecifier], Tok [qasm3ParserSEMICOLON]],
    Alt [NT qasm3ParserRULE_pragma, Seq [Star (NT qasm3ParserRULE_annotation), Alt [NT
     qasm3ParserRULE_aliasDeclarationStatement, NT qasm3ParserRULE_assignmentStatement, NT
     qasm3ParserRULE_barrierStatement, NT qasm3ParserRULE_boxStatement, NT qasm3ParserRULE_breakStatement, NT
     qasm3ParserRULE_calStatement, NT qasm3ParserRULE_calibrationGrammarStatement, NT
     qasm3ParserRULE_classicalDeclarationStatement, NT qasm3ParserRULE_constDeclarationStatement, NT
     qasm3ParserRULE_continueStatement, NT qasm3ParserRULE_defStatement, NT qasm3ParserRULE_defcalStatement, NT
     qasm3ParserRULE_delayStatement, NT qasm3ParserRULE_endStatement, NT qasm3ParserRULE_expressionStatement, NT
     qasm3ParserRULE_externStatement, NT qasm3ParserRULE_forStatement, NT qasm3ParserRULE_gateCallStatement, NT
     qasm3ParserRULE_gateStatement, NT qasm3ParserRULE_ifStatement, NT qasm3ParserRULE_includeStatement, NT
     qasm3ParserRULE_ioDeclarationStatement, NT qasm3ParserRULE_measureArrowAssignmentStatement, NT
     qasm3ParserRULE_oldStyleDeclarationStatement, NT qasm3ParserRULE_quantumDeclarationStatement, NT
     qasm3ParserRULE_resetStatement, NT qasm3ParserRULE_returnStatement, NT qasm3ParserRULE_whileStatement]]],
    Seq [Tok [qasm3ParserAnnotationKeyword], Opt (Tok [qasm3ParserRemainingLineContent])],
    Seq [Tok [qasm3ParserLBRACE], Star (NT qasm3ParserRULE_statement), Tok [qasm3ParserRBRACE]],
    Seq [Tok [qasm3ParserPRAGMA], Tok [qasm3ParserRemainingLineContent]],
    Alt [NT qasm3ParserRULE_statement, NT qasm3ParserRULE_scope],
    Seq [Tok [qasm3ParserDEFCALGRAMMAR], Tok [qasm3ParserStringLiteral], Tok [qasm3ParserSEMICOLON]],
    Seq [Tok [qasm3ParserINCLUDE], Tok [qasm3ParserStringLiteral], Tok [qasm3ParserSEMICOLON]],
    Seq [Tok [qasm3ParserBREAK], Tok [qasm3ParserSEMICOLON]],
    Seq [Tok [qasm3ParserCONTINUE], Tok [qasm3ParserSEMICOLON]],
    Seq [Tok [qasm3ParserEND], Tok [qasm3ParserSEMICOLON]],
    Seq [Tok [qasm3ParserFOR], NT qasm3ParserRULE_scalarType, Tok [qasm3ParserIdentifier], Tok [qasm3ParserIN], Alt
     [NT qasm3ParserRULE_setExpression, Seq [Tok [qasm3ParserLBRACKET], NT qasm3ParserRULE_rangeExpression, Tok
     [qasm3ParserRBRACKET]], Tok [qasm3ParserIdentifier]], NT qasm3ParserRULE_statementOrScope],
    Seq [Tok [qasm3ParserIF], Tok [qasm3ParserLPAREN], NT qasm3ParserRULE_expression, Tok [qasm3ParserRPAREN], NT
     qasm3ParserRULE_statementOrScope, Opt (Seq [Tok [qasm3ParserELSE], NT qasm3ParserRULE_statementOrScope])],
    Seq [Tok [qasm3ParserRETURN], Opt (Alt [NT qasm3ParserRULE_expression, NT qasm3ParserRULE_measureExpression]), Tok
     [qasm3ParserSEMICOLON]],
    Seq [Tok [qasm3ParserWHILE], Tok [qasm3ParserLPAREN], NT qasm3ParserRULE_expression, Tok [qasm3ParserRPAREN], NT
     qasm3ParserRULE_statementOrScope],
    Seq [Tok [qasm3ParserBARRIER], Opt (NT qasm3ParserRULE_gateOperandList), Tok [qasm3ParserSEMICOLON]],
    Seq [Tok [qasm3ParserBOX], Opt (NT qasm3ParserRULE_designator), NT qasm3ParserRULE_scope],
    Seq [Tok [qasm3ParserDELAY], NT qasm3ParserRULE_designator, Opt (NT qasm3ParserRULE_gateOperandList), Tok
     [qasm3ParserSEMICOLON]],
    Alt [Seq [Star (NT qasm3ParserRULE_gateModifier), Tok [qasm3ParserIdentifier], Opt (Seq [Tok [qasm3ParserLPAREN],
     Opt (NT qasm3ParserRULE_expressionList), Tok [qasm3ParserRPAREN]]), Opt (NT qasm3ParserRULE_designator), NT
     qasm3ParserRULE_gateOperandList, Tok [qasm3ParserSEMICOLON]], Seq [Star (NT qasm3ParserRULE_gateModifier), Tok
     [qasm3ParserGPHASE], Opt (Seq [Tok [qasm3ParserLPAREN], Opt (NT qasm3ParserRULE_expressionList), Tok
     [qasm3ParserRPAREN]]), Opt (NT qasm3ParserRULE_designator), Opt (NT qasm3ParserRULE_gateOperandList), Tok
     [qasm3ParserSEMICOLON]]],
    Seq [NT qasm3ParserRULE_measureExpression, Opt (Seq [Tok [qasm3ParserARROW], NT
     qasm3ParserRULE_indexedIdentifier]), Tok [qasm3ParserSEMICOLON]],
    Seq [Tok [qasm3ParserRESET], NT qasm3ParserRULE_gateOperand, Tok [qasm3ParserSEMICOLON]],
    Seq [Tok [qasm3ParserLET], Tok [qasm3ParserIdentifier], Tok [qasm3ParserEQUALS], NT
     qasm3ParserRULE_aliasExpression, Tok [qasm3ParserSEMICOLON]],
    Seq [Alt [NT qasm3ParserRULE_scalarType, NT qasm3ParserRULE_arrayType], Tok [qasm3ParserIdentifier], Opt (Seq [Tok
     [qasm3ParserEQUALS], NT qasm3ParserRULE_declarationExpression]), Tok [qasm3ParserSEMICOLON]],
    Seq [Tok [qasm3ParserCONST], NT qasm3ParserRULE_scalarType, Tok [qasm3ParserIdentifier], Tok [qasm3ParserEQUALS],
     NT qasm3ParserRULE_declarationExpression, Tok [qasm3ParserSEMICOLON]],
    Seq [Tok [qasm3ParserINPUT, qasm3ParserOUTPUT], Alt [NT qasm3ParserRULE_scalarType, NT qasm3ParserRULE_arrayType],
     Tok [qasm3ParserIdentifier], Tok [qasm3ParserSEMICOLON]],
    Seq [Tok [qasm3ParserCREG, qasm3ParserQREG], Tok [qasm3ParserIdentifier], Opt (NT qasm3ParserRULE_designator), Tok
     [qasm3ParserSEMICOLON]],
    Seq [NT qasm3ParserRULE_qubitType, Tok [qasm3ParserIdentifier], Tok [qasm3ParserSEMICOLON]],
    Seq [Tok [qasm3ParserDEF], Tok [qasm3ParserIdentifier], Tok [qasm3ParserLPAREN], Opt (NT
     qasm3ParserRULE_argumentDefinitionList), Tok [qasm3ParserRPAREN], Opt (NT qasm3ParserRULE_returnSignature), NT
     qasm3ParserRULE_scope],
    Seq [Tok [qasm3ParserEXTERN], Tok [qasm3ParserIdentifier], Tok [qasm3ParserLPAREN], Opt (NT
     qasm3ParserRULE_externArgumentList), Tok [qasm3ParserRPAREN], Opt (NT qasm3ParserRULE_returnSignature), Tok
     [qasm3ParserSEMICOLON]],
    Seq [Tok [qasm3ParserGATE], Tok [qasm3ParserIdentifier], Opt (Seq [Tok [qasm3ParserLPAREN], Opt (NT
     qasm3ParserRULE_identifierList), Tok [qasm3ParserRPAREN]]), NT qasm3ParserRULE_identifierList, NT
     qasm3ParserRULE_scope],
    Seq [NT qasm3ParserRULE_indexedIdentifier, Tok [qasm3ParserEQUALS, qasm3ParserCompoundAssignmentOperator], Alt [NT
     qasm3ParserRULE_expression, NT qasm3ParserRULE_measureExpression], Tok [qasm3ParserSEMICOLON]],
    Seq [NT qasm3ParserRULE_expression, Tok [qasm3ParserSEMICOLON]],
    Seq [Tok [qasm3ParserCAL], Tok [qasm3ParserLBRACE], Opt (Tok [qasm3ParserCalibrationBlock]), Tok
     [qasm3ParserRBRACE]],
    Seq [Tok [qasm3ParserDEFCAL], NT qasm3ParserRULE_defcalTarget, Opt (Seq [Tok [qasm3ParserLPAREN], Opt (NT
     qasm3ParserRULE_defcalArgumentDefinitionList), Tok [qasm3ParserRPAREN]]), NT qasm3ParserRULE_defcalOperandList,
     Opt (NT qasm3ParserRULE_returnSignature), Tok [qasm3ParserLBRACE], Opt (Tok [qasm3ParserCalibrationBlock]), Tok
     [qasm3ParserRBRACE]],
    Alt [],
    Seq [NT qasm3ParserRULE_expression, Star (Seq [Tok [qasm3ParserDOUBLE_PLUS], NT qasm3ParserRULE_expression])],
    Alt [NT qasm3ParserRULE_arrayLiteral, NT qasm3ParserRULE_expression, NT qasm3ParserRULE_measureExpression],
    Seq [Tok [qasm3ParserMEASURE], NT qasm3ParserRULE_gateOperand],
    Seq [Opt (NT qasm3ParserRULE_expression), Tok [qasm3ParserCOLON], Opt (NT qasm3ParserRULE_expression), Opt (Seq
     [Tok [qasm3ParserCOLON], NT qasm3ParserRULE_expression])],
    Seq [Tok [qasm3ParserLBRACE], NT qasm3ParserRULE_expression, Star (Seq [Tok [qasm3ParserCOMMA], NT
     qasm3ParserRULE_expression]), Opt (Tok [qasm3ParserCOMMA]), Tok [qasm3ParserRBRACE]],
    Seq [Tok [qasm3ParserLBRACE], Alt [NT qasm3ParserRULE_expression, NT qasm3ParserRULE_arrayLiteral], Star (Seq [Tok
     [qasm3ParserCOMMA], Alt [NT qasm3ParserRULE_expression, NT qasm3ParserRULE_arrayLiteral]]), Opt (Tok
     [qasm3ParserCOMMA]), Tok [qasm3ParserRBRACE]],
    Seq [Tok [qasm3ParserLBRACKET], Alt [NT qasm3ParserRULE_setExpression, Seq [Alt [NT qasm3ParserRULE_expression, NT
     qasm3ParserRULE_rangeExpression], Star (Seq [Tok [qasm3ParserCOMMA], Alt [NT qasm3ParserRULE_expression, NT
     qasm3ParserRULE_rangeExpression]]), Opt (Tok [qasm3ParserCOMMA])]], Tok [qasm3ParserRBRACKET]],
    Seq [Tok [qasm3ParserIdentifier], Star (NT qasm3ParserRULE_indexOperator)],
    Seq [Tok [qasm3ParserARROW], NT qasm3ParserRULE_scalarType],
    Seq [Alt [Tok [qasm3ParserINV], Seq [Tok [qasm3ParserPOW], Tok [qasm3ParserLPAREN], NT qasm3ParserRULE_expression,
     Tok [qasm3ParserRPAREN]], Seq [Tok [qasm3ParserCTRL, qasm3ParserNEGCTRL], Opt (Seq [Tok [qasm3ParserLPAREN], NT
     qasm3ParserRULE_expression, Tok [qasm3ParserRPAREN]])]], Tok [qasm3ParserAT]],
    Alt [Seq [Tok [qasm3ParserBIT], Opt (NT qasm3ParserRULE_designator)], Seq [Tok [qasm3ParserINT], Opt (NT
     qasm3ParserRULE_designator)], Seq [Tok [qasm3ParserUINT], Opt (NT qasm3ParserRULE_designator)], Seq [Tok
     [qasm3ParserFLOAT], Opt (NT qasm3ParserRULE_designator)], Seq [Tok [qasm3ParserANGLE], Opt (NT
     qasm3ParserRULE_designator)], Tok [qasm3ParserBOOL], Tok [qasm3ParserDURATION], Tok [qasm3ParserSTRETCH], Seq
     [Tok [qasm3ParserCOMPLEX], Opt (Seq [Tok [qasm3ParserLBRACKET], NT qasm3ParserRULE_scalarType, Tok
     [qasm3ParserRBRACKET]])]],
    Seq [Tok [qasm3ParserQUBIT], Opt (NT qasm3ParserRULE_designator)],
    Seq [Tok [qasm3ParserARRAY], Tok [qasm3ParserLBRACKET], NT qasm3ParserRULE_scalarType, Tok [qasm3ParserCOMMA], NT
     qasm3ParserRULE_expressionList, Tok [qasm3ParserRBRACKET]],
    Seq [Tok [qasm3ParserCONST, qasm3ParserMUTABLE], Tok [qasm3ParserARRAY], Tok [qasm3ParserLBRACKET], NT
     qasm3ParserRULE_scalarType, Tok [qasm3ParserCOMMA], Alt [NT qasm3ParserRULE_expressionList, Seq [Tok
     [qasm3ParserDIM], Tok [qasm3ParserEQUALS], NT qasm3ParserRULE_expression]], Tok [qasm3ParserRBRACKET]],
    Seq [Tok [qasm3ParserLBRACKET], NT qasm3ParserRULE_expression, Tok [qasm3ParserRBRACKET]],
    Tok [qasm3ParserMEASURE, qasm3ParserRESET, qasm3ParserDELAY, qasm3ParserIdentifier],
    Alt [NT qasm3ParserRULE_expression, NT qasm3ParserRULE_argumentDefinition],
    Tok [qasm3ParserHardwareQubit, qasm3ParserIdentifier],
    Alt [NT qasm3ParserRULE_indexedIdentifier, Tok [qasm3ParserHardwareQubit]],
    Alt [NT qasm3ParserRULE_scalarType, NT qasm3ParserRULE_arrayReferenceType, Seq [Tok [qasm3ParserCREG], Opt (NT
     qasm3ParserRULE_designator)]],
    Alt [Seq [NT qasm3ParserRULE_scalarType, Tok [qasm3ParserIdentifier]], Seq [NT qasm3ParserRULE_qubitType, Tok
     [qasm3ParserIdentifier]], Seq [Tok [qasm3ParserCREG, qasm3ParserQREG], Tok [qasm3ParserIdentifier], Opt (NT
     qasm3ParserRULE_designator)], Seq [NT qasm3ParserRULE_arrayReferenceType, Tok [qasm3ParserIdentifier]]],
    Seq [NT qasm3ParserRULE_argumentDefinition, Star (Seq [Tok [qasm3ParserCOMMA], NT
     qasm3ParserRULE_argumentDefinition]), Opt (Tok [qasm3ParserCOMMA])],
    Seq [NT qasm3ParserRULE_defcalArgumentDefinition, Star (Seq [Tok [qasm3ParserCOMMA], NT
     qasm3ParserRULE_defcalArgumentDefinition]), Opt (Tok [qasm3ParserCOMMA])],
    Seq [NT qasm3ParserRULE_defcalOperand, Star (Seq [Tok [qasm3ParserCOMMA], NT qasm3ParserRULE_defcalOperand]), Opt
     (Tok [qasm3ParserCOMMA])],
    Seq [NT qasm3ParserRULE_expression, Star (Seq [Tok [qasm3ParserCOMMA], NT qasm3ParserRULE_expression]), Opt (Tok
     [qasm3ParserCOMMA])],
    Seq [Tok [qasm3ParserIdentifier], Star (Seq [Tok [qasm3ParserCOMMA], Tok [qasm3ParserIdentifier]]), Opt (Tok
     [qasm3ParserCOMMA])],
    Seq [NT qasm3ParserRULE_gateOperand, Star (Seq [Tok [qasm3ParserCOMMA], NT qasm3ParserRULE_gateOperand]), Opt (Tok
     [qasm3ParserCOMMA])],
    Seq [NT qasm3ParserRULE_externArgument, Star (Seq [Tok [qasm3ParserCOMMA], NT qasm3ParserRULE_externArgument]),
     Opt (Tok [qasm3ParserCOMMA])]]"

definition g4_expression :: "(string \<times> ebnf) list" where
  "g4_expression = [
    (''ParenthesisExpression'', Seq [Tok [qasm3ParserLPAREN], NT qasm3ParserRULE_expression, Tok [qasm3ParserRPAREN]]),
    (''IndexExpression'', Seq [NT qasm3ParserRULE_expression, NT qasm3ParserRULE_indexOperator]),
    (''PowerExpression'', Seq [NT qasm3ParserRULE_expression, Tok [qasm3ParserDOUBLE_ASTERISK], NT
     qasm3ParserRULE_expression]),
    (''UnaryExpression'', Seq [Tok [qasm3ParserTILDE, qasm3ParserEXCLAMATION_POINT, qasm3ParserMINUS], NT
     qasm3ParserRULE_expression]),
    (''MultiplicativeExpression'', Seq [NT qasm3ParserRULE_expression, Tok [qasm3ParserASTERISK, qasm3ParserSLASH,
     qasm3ParserPERCENT], NT qasm3ParserRULE_expression]),
    (''AdditiveExpression'', Seq [NT qasm3ParserRULE_expression, Tok [qasm3ParserPLUS, qasm3ParserMINUS], NT
     qasm3ParserRULE_expression]),
    (''BitshiftExpression'', Seq [NT qasm3ParserRULE_expression, Tok [qasm3ParserBitshiftOperator], NT
     qasm3ParserRULE_expression]),
    (''ComparisonExpression'', Seq [NT qasm3ParserRULE_expression, Tok [qasm3ParserComparisonOperator], NT
     qasm3ParserRULE_expression]),
    (''EqualityExpression'', Seq [NT qasm3ParserRULE_expression, Tok [qasm3ParserEqualityOperator], NT
     qasm3ParserRULE_expression]),
    (''BitwiseAndExpression'', Seq [NT qasm3ParserRULE_expression, Tok [qasm3ParserAMPERSAND], NT
     qasm3ParserRULE_expression]),
    (''BitwiseXorExpression'', Seq [NT qasm3ParserRULE_expression, Tok [qasm3ParserCARET], NT
     qasm3ParserRULE_expression]),
    (''BitwiseOrExpression'', Seq [NT qasm3ParserRULE_expression, Tok [qasm3ParserPIPE], NT
     qasm3ParserRULE_expression]),
    (''LogicalAndExpression'', Seq [NT qasm3ParserRULE_expression, Tok [qasm3ParserDOUBLE_AMPERSAND], NT
     qasm3ParserRULE_expression]),
    (''LogicalOrExpression'', Seq [NT qasm3ParserRULE_expression, Tok [qasm3ParserDOUBLE_PIPE], NT
     qasm3ParserRULE_expression]),
    (''CastExpression'', Seq [Alt [NT qasm3ParserRULE_scalarType, NT qasm3ParserRULE_arrayType], Tok
     [qasm3ParserLPAREN], NT qasm3ParserRULE_expression, Tok [qasm3ParserRPAREN]]),
    (''DurationofExpression'', Seq [Tok [qasm3ParserDURATIONOF], Tok [qasm3ParserLPAREN], NT qasm3ParserRULE_scope,
     Tok [qasm3ParserRPAREN]]),
    (''CallExpression'', Seq [Tok [qasm3ParserIdentifier], Tok [qasm3ParserLPAREN], Opt (NT
     qasm3ParserRULE_expressionList), Tok [qasm3ParserRPAREN]]),
    (''LiteralExpression'', Tok [qasm3ParserIdentifier, qasm3ParserBinaryIntegerLiteral,
     qasm3ParserOctalIntegerLiteral, qasm3ParserDecimalIntegerLiteral, qasm3ParserHexIntegerLiteral,
     qasm3ParserFloatLiteral, qasm3ParserImaginaryLiteral, qasm3ParserBooleanLiteral, qasm3ParserBitstringLiteral,
     qasm3ParserTimingLiteral, qasm3ParserHardwareQubit])]"

definition qasm3_grammar :: grammar where
  "qasm3_grammar r =
    (if r = qasm3ParserRULE_expression then g4_expression
     else if r < length g4_rules then [([], g4_rules ! r)] else [([], Seq [])])"

section \<open>The code has the shape of the grammar\<close>

fun norm :: "ebnf \<Rightarrow> ebnf" where
  "norm (Tok ls) = Tok (sort ls)"
| "norm (NT r) = NT r"
| "norm (Seq es) = (case map norm es of [e] \<Rightarrow> e | fs \<Rightarrow> Seq fs)"
| "norm (Alt es) = Alt (map norm es)"
| "norm (Opt e) = Opt (norm e)"
| "norm (Star e) = Star (norm e)"

definition fits :: "code list \<Rightarrow> ebnf \<Rightarrow> bool" where
  "fits k e \<longleftrightarrow> norm (Seq (map regex_of k)) = norm e"

definition qasm_alts :: "nat \<Rightarrow> nat" where
  "qasm_alts d = (if d = 3 then 28 else if d = 43 then 6 else if d = 44 then 12 else 2)"

lemma matches_Star_mono:
  "matches (Star e) xs \<Longrightarrow> (\<And>ys. matches e ys \<Longrightarrow> matches f ys) \<Longrightarrow> matches (Star f) xs"
  by (induction "Star e" xs arbitrary: e rule: matches.induct) (auto intro: matches.intros)

lemma matches_Seq_cong:
  "(\<And>e xs. e \<in> set es \<Longrightarrow> matches (f e) xs \<longleftrightarrow> matches e xs) \<Longrightarrow> matches (Seq (map f es)) xs \<longleftrightarrow> matches (Seq es) xs"
  by (induction es arbitrary: xs) (simp_all add: matches_Seq_Cons)

lemma matches_norm: "matches (norm e) xs \<longleftrightarrow> matches e xs"
proof (induction e arbitrary: xs)
  case (Tok ls)
  then show ?case
    by (auto elim!: matches_TokE intro: matches.Tok)
next
  case (Seq es)
  have "matches (norm (Seq es)) xs \<longleftrightarrow> matches (Seq (map norm es)) xs"
    by (auto split: list.split)
  then show ?case
    using Seq matches_Seq_cong [of es norm] by simp
next
  case (Star e)
  then show ?case
    by (auto intro: matches_Star_mono)
qed (auto simp: matches_Alt matches_Opt)

lemma matches_fits: "fits k e \<Longrightarrow> matches (Seq (map regex_of k)) cs \<longleftrightarrow> matches e cs"
  unfolding fits_def by (metis matches_norm)

text \<open>The check of the sixty-four rules.\<close>

lemma rule_tables: "length rule_table = 64" "length g4_rules = 64"
  by (simp_all add: rule_table_def g4_rules_def)

lemma below_64: "list_all f [0..<64] \<Longrightarrow> r < 64 \<Longrightarrow> f r"
  by (simp add: list_all_iff)

lemma rules_fit: "list_all (\<lambda>r. r = 35 \<or> fits (rule_table ! r) (g4_rules ! r)) [0..<64]"
  by code_simp

lemma primaries_fit: "list_all (\<lambda>(l, k). list_ex (\<lambda>(l', e). l' = l \<and> fits k e) g4_expression) expression_primary"
  by code_simp

lemma operators_fit:
  "list_all (\<lambda>(l, q, k). list_ex (\<lambda>(l', e). l' = l \<and> norm (Seq (NT 35 # map regex_of k)) = norm e) g4_expression)
    expression_operators"
  by code_simp

lemma rules_ok: "list_all (list_all (code_ok qasm_alts)) rule_table"
  by code_simp

lemma expressions_ok:
  "list_all (\<lambda>(l, k). list_all (code_ok qasm_alts) k) expression_primary"
  "list_all (\<lambda>(l, q, k). list_all (code_ok qasm_alts) k) expression_operators"
  "qasm_alts 43 = length expression_primary" "qasm_alts 44 = length expression_operators"
  by code_simp+

interpretation qasm: descent qasm3Parser qasm_alts qasm3_grammar
proof
  fix r
  show "list_all (code_ok qasm_alts) (pc_rule qasm3Parser r)"
    using rules_ok by (simp add: qasm3Parser_def list_all_length)
next
  fix l k
  assume "(l, k) \<in> set (pc_primary qasm3Parser)"
  then show "list_all (code_ok qasm_alts) k"
    using expressions_ok(1) by (fastforce simp: qasm3Parser_def list_all_iff)
next
  fix l q k
  assume "(l, q, k) \<in> set (pc_operators qasm3Parser)"
  then show "list_all (code_ok qasm_alts) k"
    using expressions_ok(2) by (fastforce simp: qasm3Parser_def list_all_iff)
next
  show "qasm_alts 43 = length (pc_primary qasm3Parser)" "qasm_alts 44 = length (pc_operators qasm3Parser)" "qasm_alts 45 = 2"
    using expressions_ok(3,4) by (simp_all add: qasm3Parser_def qasm_alts_def)
next
  fix r cs
  assume "r \<noteq> 35" and m: "matches (Seq (map regex_of (pc_rule qasm3Parser r))) cs"
  then show "\<exists>e. ([], e) \<in> set (qasm3_grammar r) \<and> matches e cs"
    using rules_fit by (cases "r < 64") (auto simp: qasm3Parser_def qasm3_grammar_def rule_tables list_all_iff matches_fits)
next
  fix l k cs
  assume "(l, k) \<in> set (pc_primary qasm3Parser)" and m: "matches (Seq (map regex_of k)) cs"
  then obtain e where "(l, e) \<in> set g4_expression" "fits k e"
    using primaries_fit by (fastforce simp: qasm3Parser_def list_all_iff list_ex_iff)
  then show "\<exists>e. (l, e) \<in> set (qasm3_grammar 35) \<and> matches e cs"
    using m by (auto simp: qasm3_grammar_def matches_fits)
next
  fix l q k cs
  assume "(l, q, k) \<in> set (pc_operators qasm3Parser)" and m: "matches (Seq (NT 35 # map regex_of k)) cs"
  then obtain e where "(l, e) \<in> set g4_expression" "norm (Seq (NT 35 # map regex_of k)) = norm e"
    using operators_fit by (fastforce simp: qasm3Parser_def list_all_iff list_ex_iff)
  then show "\<exists>e. (l, e) \<in> set (qasm3_grammar 35) \<and> matches e cs"
    using m matches_norm [of e cs] matches_norm [of "Seq (NT 35 # map regex_of k)" cs] by (auto simp: qasm3_grammar_def)
qed

end
