(* ===== verification/Antlr_Termination.thy ===== *)
theory Antlr_Termination
  imports Antlr_Grammar
begin

text \<open>
  Termination of a parser of the form of \<open>Antlr_Parser\<close>. No rule calls itself before a token was read: the
  rules that can be called before are of a lower rank; and the body of every loop reads a token.
\<close>

section \<open>Fuel\<close>

text \<open>A result other than running out of fuel stays the result with more fuel.\<close>

definition less_fuel :: "parse_error + 'a \<Rightarrow> parse_error + 'a \<Rightarrow> bool" where
  "less_fuel m m' \<longleftrightarrow> m = Inl OutOfFuel \<or> m = m'"

lemma less_fuel_intros:
  "less_fuel m m"
  "less_fuel m m' \<Longrightarrow> (\<And>x. less_fuel (f x) (f' x)) \<Longrightarrow> less_fuel (bind m f) (bind m' f')"
  "(b \<Longrightarrow> less_fuel m m') \<Longrightarrow> (\<not> b \<Longrightarrow> less_fuel n n') \<Longrightarrow> less_fuel (if b then m else n) (if b then m' else n')"
  "less_fuel n n' \<Longrightarrow> (\<And>x. less_fuel (h x) (h' x)) \<Longrightarrow>
    less_fuel (case v of None \<Rightarrow> n | Some x \<Rightarrow> h x) (case v of None \<Rightarrow> n' | Some x \<Rightarrow> h' x)"
  "(\<And>x y. less_fuel (j x y) (j' x y)) \<Longrightarrow> less_fuel (case w of (x, y) \<Rightarrow> j x y) (case w of (x, y) \<Rightarrow> j' x y)"
  by (auto simp: less_fuel_def bind_def split: sum.split option.split prod.split)

definition refines :: "runner \<Rightarrow> runner \<Rightarrow> bool" where
  "refines f g \<longleftrightarrow> (\<forall>st p c ts. less_fuel (f st p c ts) (g st p c ts))"

lemma refinesD: "refines f g \<Longrightarrow> less_fuel (f st p c ts) (g st p c ts)"
  by (simp add: refines_def)

lemma statement_refines: "refines f g \<Longrightarrow> less_fuel (statement_exec A P f st p c ts) (statement_exec A P g st p c ts)"
  by (cases c) (simp_all only: statement_exec.simps, (intro less_fuel_intros refinesD | assumption)+)

lemma task_refines: "refines f g \<Longrightarrow> less_fuel (task_exec A P f st p c ts) (task_exec A P g st p c ts)"
  by (cases "(A, P, f, st, p, c, ts)" rule: task_exec.cases)
    (simp_all only: task_exec.simps prod.inject, (intro less_fuel_intros refinesD statement_refines | simp)+)

lemma exec_Suc: "refines (exec A P n) (exec A P (Suc n))"
proof (induction n)
  case (Suc n)
  then show ?case
    unfolding refines_def exec.simps(2) [of A P "Suc n"] exec.simps(2) [of A P n] by (metis task_refines refines_def exec.simps(2))
qed (simp add: refines_def less_fuel_def)

lemma exec_mono: "n \<le> m \<Longrightarrow> refines (exec A P n) (exec A P m)"
proof (induction m)
  case (Suc m)
  then show ?case
    using exec_Suc [of A P m] by (metis le_Suc_eq less_fuel_def refines_def)
qed (simp add: refines_def less_fuel_def)

section \<open>Progress\<close>

text \<open>
  Whether a statement can succeed without reading a token. \<open>N\<close> says it of the rules. The end of the input
  can be matched again and again.
\<close>

fun nullable :: "(nat \<Rightarrow> bool) \<Rightarrow> code \<Rightarrow> bool" where
  "nullable N (Match t) \<longleftrightarrow> t = TokenEOF"
| "nullable N (MatchSet b) \<longleftrightarrow> holds b TokenEOF"
| "nullable N (Call s r) \<longleftrightarrow> N r"
| "nullable N (CallExpression s q) \<longleftrightarrow> False"
| "nullable N (IfLA b k) \<longleftrightarrow> True"
| "nullable N (ForLA b k) \<longleftrightarrow> True"
| "nullable N (SwitchLA cs panics) \<longleftrightarrow> \<not> panics \<or> list_ex (\<lambda>(ls, k). list_all (nullable N) k) cs"
| "nullable N (SwitchPredict d ks) \<longleftrightarrow> list_ex (list_all (nullable N)) ks"
| "nullable N (IfPredict d k) \<longleftrightarrow> True"
| "nullable N (ForPredict d k) \<longleftrightarrow> True"

definition reads :: "(nat \<Rightarrow> bool) \<Rightarrow> code list \<Rightarrow> bool" where
  "reads N k \<longleftrightarrow> \<not> list_all (nullable N) k"

lemma reads_simps [simp]:
  "\<not> reads N []" "reads N (c # k) \<longleftrightarrow> \<not> nullable N c \<or> reads N k" "reads N (k @ k') \<longleftrightarrow> reads N k \<or> reads N k'"
  by (auto simp: reads_def)

text \<open>The calls before the first token go to rules of a rank below \<open>r\<close>, all others to rules of a rank below \<open>mx\<close>.\<close>

fun ranked :: "(nat \<Rightarrow> bool) \<Rightarrow> (nat \<Rightarrow> nat) \<Rightarrow> nat \<Rightarrow> nat \<Rightarrow> code \<Rightarrow> bool"
  and ranked_body :: "(nat \<Rightarrow> bool) \<Rightarrow> (nat \<Rightarrow> nat) \<Rightarrow> nat \<Rightarrow> nat \<Rightarrow> code list \<Rightarrow> bool" where
  "ranked N rk mx r (Match t) \<longleftrightarrow> True"
| "ranked N rk mx r (MatchSet b) \<longleftrightarrow> True"
| "ranked N rk mx r (Call s q) \<longleftrightarrow> rk q < r"
| "ranked N rk mx r (CallExpression s q) \<longleftrightarrow> rk 35 < r"
| "ranked N rk mx r (IfLA b k) \<longleftrightarrow> ranked_body N rk mx r k"
| "ranked N rk mx r (ForLA b k) \<longleftrightarrow> reads N k \<and> ranked_body N rk mx r k"
| "ranked N rk mx r (SwitchLA cs panics) \<longleftrightarrow> list_all (\<lambda>(ls, k). ranked_body N rk mx r k) cs"
| "ranked N rk mx r (SwitchPredict d ks) \<longleftrightarrow> list_all (ranked_body N rk mx r) ks"
| "ranked N rk mx r (IfPredict d k) \<longleftrightarrow> ranked_body N rk mx r k"
| "ranked N rk mx r (ForPredict d k) \<longleftrightarrow> reads N k \<and> ranked_body N rk mx r k"
| "ranked_body N rk mx r [] \<longleftrightarrow> True"
| "ranked_body N rk mx r (c # k) \<longleftrightarrow> ranked N rk mx r c \<and> ranked_body N rk mx (if nullable N c then r else mx) k"

fun code_size :: "code \<Rightarrow> nat" where
  "code_size (IfLA b k) = 2 + sum_list (map code_size k)"
| "code_size (ForLA b k) = 2 + sum_list (map code_size k)"
| "code_size (SwitchLA cs panics) = 2 + sum_list (map (\<lambda>(ls, k). sum_list (map code_size k)) cs)"
| "code_size (SwitchPredict d ks) = 2 + sum_list (map (\<lambda>k. sum_list (map code_size k)) ks)"
| "code_size (IfPredict d k) = 2 + sum_list (map code_size k)"
| "code_size (ForPredict d k) = 2 + sum_list (map code_size k)"
| "code_size _ = 2"

abbreviation body_size :: "code list \<Rightarrow> nat" where
  "body_size k \<equiv> sum_list (map code_size k)"


section \<open>A task that reads\<close>

fun task_reads :: "(nat \<Rightarrow> bool) \<Rightarrow> task \<Rightarrow> bool" where
  "task_reads N (Body k) \<longleftrightarrow> reads N k"
| "task_reads N Expression \<longleftrightarrow> True"
| "task_reads N (Operators t) \<longleftrightarrow> False"

fun task_checked :: "(nat \<Rightarrow> nat) \<Rightarrow> task \<Rightarrow> bool" where
  "task_checked alts (Body k) \<longleftrightarrow> list_all (code_ok alts) k"
| "task_checked alts _ \<longleftrightarrow> True"

definition shorter :: "bool \<Rightarrow> Token list \<Rightarrow> Token list \<Rightarrow> bool" where
  "shorter strict ts' ts \<longleftrightarrow> length ts' \<le> length ts \<and> (strict \<longrightarrow> length ts' < length ts)"

lemma shorter_trans: "shorter a ts1 ts \<Longrightarrow> shorter b ts2 ts1 \<Longrightarrow> c \<longrightarrow> a \<or> b \<Longrightarrow> shorter c ts2 ts"
  by (auto simp: shorter_def)

lemma shorter_weaken: "shorter a ts' ts \<Longrightarrow> b \<longrightarrow> a \<Longrightarrow> shorter b ts' ts"
  by (auto simp: shorter_def)

lemma shorter_same [simp]: "shorter b ts ts \<longleftrightarrow> \<not> b"
  by (simp add: shorter_def)

lemma shorter_consume: "consume ts = (cs, ts') \<Longrightarrow> LA ts \<noteq> TokenEOF \<or> \<not> b \<Longrightarrow> shorter b ts' ts"
  by (cases ts) (auto simp: consume_def shorter_def LA_def LT_def EOF_token_def)

locale progressing = checked_code P alts for P :: parser_code and alts :: "nat \<Rightarrow> nat" +
  fixes N :: "nat \<Rightarrow> bool"
  assumes rule_reads: "\<not> N r \<Longrightarrow> reads N (pc_rule P r)"
    and primary_reads: "(l, k) \<in> set (pc_primary P) \<Longrightarrow> reads N k"
    and operator_reads: "(l, q, k) \<in> set (pc_operators P) \<Longrightarrow> reads N k"
begin

definition progress :: "runner \<Rightarrow> bool" where
  "progress sub \<longleftrightarrow> (\<forall>st p c ts cs ts'. sub st p c ts = Inr (cs, ts') \<longrightarrow> task_checked alts c \<longrightarrow>
    shorter (task_reads N c) ts' ts)"

lemma progressD:
  "progress sub \<Longrightarrow> sub st p (Body k) ts = Inr (cs, ts') \<Longrightarrow> list_all (code_ok alts) k \<Longrightarrow> shorter (reads N k) ts' ts"
  unfolding progress_def by fastforce

lemma progress_statement:
  assumes sub: "progress sub" and A: "in_range alts A" and "code_ok alts c"
    and run: "statement_exec A P sub st p c ts = Inr (cs, ts')"
  shows "shorter (\<not> nullable N c) ts' ts"
proof (cases c)
  case (Match t)
  then show ?thesis
    using run by (auto intro: shorter_consume split: if_splits)
next
  case (MatchSet b)
  then show ?thesis
    using run by (auto intro!: shorter_consume split: if_splits)
next
  case (Call s r)
  then obtain ds where "sub ((s, r) # st) p (Body (pc_rule P r)) ts = Inr (ds, ts')"
    using run by (auto simp: bind_Inr)
  then show ?thesis
    using Call progressD [OF sub] rule_ok rule_reads [of r] by (fastforce intro: shorter_weaken)
next
  case (CallExpression s q)
  then show ?thesis
    using run sub unfolding progress_def by fastforce
next
  case (IfLA b k)
  then show ?thesis
    using run assms(3) progressD [OF sub, of st p k] by (fastforce intro: shorter_weaken split: if_splits)
next
  case (ForLA b k)
  then show ?thesis
    using run assms(3) progressD [OF sub, of st p "k @ [ForLA b k]"] by (fastforce intro: shorter_weaken split: if_splits)
next
  case (SwitchLA bs panics)
  show ?thesis
  proof (cases "case_for (LA ts) bs")
    case (Some k)
    then obtain ls where "(ls, k) \<in> set bs"
      using case_for_Some by blast
    then have "list_all (code_ok alts) k" "\<not> nullable N c \<longrightarrow> reads N k"
      using assms(3) SwitchLA by (auto simp: list_all_iff list_ex_iff reads_def)
    then show ?thesis
      using run Some SwitchLA progressD [OF sub, of st p k] by (fastforce intro: shorter_weaken)
  qed (use run SwitchLA in \<open>auto split: if_splits\<close>)
next
  case (SwitchPredict d ks)
  then obtain a where a: "A d st p ts = Some a"
    using run by (auto split: option.splits)
  then obtain k where k: "alternative a ks = Some k" "k \<in> set ks"
    using A assms(3) SwitchPredict in_alternatives [of a ks] by (auto simp: in_range_def)
  then have "list_all (code_ok alts) k" "\<not> nullable N c \<longrightarrow> reads N k"
    using assms(3) SwitchPredict by (auto simp: list_all_iff list_ex_iff reads_def)
  then show ?thesis
    using run a k(1) SwitchPredict progressD [OF sub, of st p k] by (fastforce intro: shorter_weaken)
next
  case (IfPredict d k)
  then show ?thesis
    using run assms(3) progressD [OF sub, of st p k] by (fastforce intro: shorter_weaken split: if_splits option.splits)
next
  case (ForPredict d k)
  then show ?thesis
    using run assms(3) progressD [OF sub, of st p "k @ [ForPredict d k]"] progressD [OF sub, of st p "[ForPredict d k]"]
    by (fastforce intro: shorter_weaken split: if_splits option.splits)
qed

lemma progress_task:
  assumes sub: "progress sub" and A: "in_range alts A"
  shows "progress (task_exec A P sub)"
  unfolding progress_def
proof (intro allI impI)
  fix st p c ts cs ts'
  assume run: "task_exec A P sub st p c ts = Inr (cs, ts')" and c: "task_checked alts c"
  have ops: "shorter False ts' ts1" if "sub st p (Operators t) ts1 = Inr (cs, ts')" for t ts1
    using sub that unfolding progress_def by fastforce
  show "shorter (task_reads N c) ts' ts"
  proof (cases c)
    case (Body k)
    show ?thesis
    proof (cases k)
      case (Cons c' k')
      then obtain xs ts1 ys where *: "statement_exec A P sub st p c' ts = Inr (xs, ts1)" "sub st p (Body k') ts1 = Inr (ys, ts')"
        using run Body by (auto simp: bind_Inr)
      then have "shorter (\<not> nullable N c') ts1 ts" "shorter (reads N k') ts' ts1"
        using progress_statement [OF sub A _ *(1)] progressD [OF sub *(2)] c Body Cons by auto
      then show ?thesis
        by (rule shorter_trans) (simp add: Body Cons)
    qed (use run Body in simp)
  next
    case Expression
    then obtain a where a: "A 43 st p ts = Some a"
      using run by (auto split: option.splits)
    obtain l k where k: "alternative a (pc_primary P) = Some (l, k)" "(l, k) \<in> set (pc_primary P)"
      using predicted_primary [OF A a] .
    then obtain xs ts1 where *: "sub st p (Body k) ts = Inr (xs, ts1)" "sub st p (Operators (RuleNode 35 l xs)) ts1 = Inr (cs, ts')"
      using run Expression a by (auto simp: bind_Inr)
    have "shorter True ts1 ts"
      using progressD [OF sub *(1) primary_ok [OF k(2)]] primary_reads [OF k(2)] by simp
    then show ?thesis
      using ops [OF *(2)] by (rule shorter_trans) simp
  next
    case (Operators t)
    obtain a where a: "A 45 st p ts = Some a" "a = 1 \<or> a = 2"
      using run Operators predicted_loop [OF A] by (fastforce split: option.splits)
    show ?thesis
    proof (cases "a = 2")
      case False
      then obtain b where b: "A 44 st p ts = Some b"
        using run Operators a by (auto split: option.splits)
      obtain l q k where k: "alternative b (pc_operators P) = Some (l, q, k)" "(l, q, k) \<in> set (pc_operators P)"
        using predicted_operator [OF A b] .
      then obtain xs ts1 where *: "sub st p (Body k) ts = Inr (xs, ts1)"
        "sub st p (Operators (RuleNode 35 l (t # xs))) ts1 = Inr (cs, ts')"
        using run Operators a b False by (auto simp: bind_Inr split: if_splits)
      show ?thesis
        using progressD [OF sub *(1) operator_ok [OF k(2)]] ops [OF *(2)] by (rule shorter_trans) (simp add: Operators)
    qed (use run Operators a in simp)
  qed
qed

lemma progress_exec: "in_range alts A \<Longrightarrow> progress (exec A P n)"
  by (induction n) (simp_all add: progress_task, simp add: progress_def)

end

section \<open>Enough fuel\<close>

fun head_size :: "(nat \<Rightarrow> bool) \<Rightarrow> code list \<Rightarrow> nat" where
  "head_size N [] = 0"
| "head_size N (c # k) = code_size c + (if nullable N c then head_size N k else 0)"

lemma head_size_le: "head_size N k \<le> body_size k"
  by (induction k) auto

lemma head_size_append: "reads N k \<Longrightarrow> head_size N (k @ k') = head_size N k"
  by (induction k) auto

lemma ranked_body_append_top: "ranked_body N rk mx mx k \<Longrightarrow> ranked_body N rk mx mx k' \<Longrightarrow> ranked_body N rk mx mx (k @ k')"
  by (induction k) auto

lemma ranked_body_append:
  "reads N k \<Longrightarrow> ranked_body N rk mx r k \<Longrightarrow> ranked_body N rk mx mx k' \<Longrightarrow> ranked_body N rk mx r (k @ k')"
  by (induction k arbitrary: r) (auto intro: ranked_body_append_top)

lemma ranked_mono:
  "ranked N rk mx r c \<Longrightarrow> r \<le> r' \<Longrightarrow> r' \<le> mx \<Longrightarrow> ranked N rk mx r' c"
  "ranked_body N rk mx r k \<Longrightarrow> r \<le> r' \<Longrightarrow> r' \<le> mx \<Longrightarrow> ranked_body N rk mx r' k"
proof (induction N rk mx r c and N rk mx r k arbitrary: r' and r' rule: ranked_ranked_body.induct)
  case (12 N rk mx r c k)
  then show ?case
    by (cases "nullable N c") auto
qed (auto simp: list_all_iff)

lemma bind_fuel: "bind m f = Inl OutOfFuel \<longleftrightarrow> m = Inl OutOfFuel \<or> (\<exists>x. m = Inr x \<and> f x = Inl OutOfFuel)"
  by (cases m) auto

locale terminating = progressing P alts N for P :: parser_code and alts :: "nat \<Rightarrow> nat" and N :: "nat \<Rightarrow> bool" +
  fixes rk :: "nat \<Rightarrow> nat" and mx :: nat and B :: nat
  assumes rule_rank: "rk r < mx" "ranked_body N rk mx (rk r) (pc_rule P r)"
    and primary_rank: "(l, k) \<in> set (pc_primary P) \<Longrightarrow> ranked_body N rk mx (rk 35) k"
    and operator_rank: "(l, q, k) \<in> set (pc_operators P) \<Longrightarrow> ranked_body N rk mx mx k"
    and rule_size: "body_size (pc_rule P r) \<le> B"
    and primary_size: "(l, k) \<in> set (pc_primary P) \<Longrightarrow> body_size k \<le> B"
    and operator_size: "(l, q, k) \<in> set (pc_operators P) \<Longrightarrow> body_size k \<le> B"
begin

definition budget :: "nat \<Rightarrow> nat \<Rightarrow> nat" where
  "budget len r = (2 * B + 3) * ((mx + 1) * len + r)"

lemma budget_call: "q < r \<Longrightarrow> budget len q + (2 * B + 3) \<le> budget len r"
proof -
  assume "q < r"
  then have "(2 * B + 3) * ((mx + 1) * len + q + 1) \<le> budget len r"
    unfolding budget_def by (intro mult_le_mono) auto
  then show ?thesis
    by (simp add: budget_def algebra_simps)
qed

lemma budget_read: "len' < len \<Longrightarrow> budget len' mx + (2 * B + 3) \<le> budget len r"
proof -
  assume "len' < len"
  then have "(mx + 1) * (len' + 1) \<le> (mx + 1) * len + r"
    using mult_le_mono2 [of "len' + 1" len "mx + 1"] by linarith
  then have "(2 * B + 3) * ((mx + 1) * (len' + 1)) \<le> budget len r"
    unfolding budget_def by (intro mult_le_mono) auto
  then show ?thesis
    by (simp add: budget_def algebra_simps)
qed

definition narrow :: "code list \<Rightarrow> bool" where
  "narrow k \<longleftrightarrow> body_size k \<le> 2 * B \<and> (\<forall>c \<in> set k. code_size c \<le> B)"

lemma narrowI: "body_size k \<le> B \<Longrightarrow> narrow k"
  unfolding narrow_def using member_le_sum_list [of _ "map code_size k"] by fastforce

fun enough :: "nat \<Rightarrow> task \<Rightarrow> Token list \<Rightarrow> bool" where
  "enough n (Body k) ts \<longleftrightarrow> list_all (code_ok alts) k \<and> narrow k \<and>
    (\<exists>r \<le> mx. ranked_body N rk mx r k \<and> head_size N k + budget (length ts) r < n)"
| "enough n Expression ts \<longleftrightarrow> B + 1 + budget (length ts) (rk 35) < n"
| "enough n (Operators t) ts \<longleftrightarrow> B + 1 + budget (length ts) mx < n"

lemma enough_body:
  "list_all (code_ok alts) k \<Longrightarrow> body_size k \<le> B \<Longrightarrow> ranked_body N rk mx r k \<Longrightarrow> r \<le> mx \<Longrightarrow> B + budget (length ts) r < n \<Longrightarrow>
    enough n (Body k) ts"
  using head_size_le [of N k] narrowI [of k] by (auto intro!: exI [of _ r])

definition total :: "nat \<Rightarrow> runner \<Rightarrow> bool" where
  "total n sub \<longleftrightarrow> (\<forall>st p c ts. enough n c ts \<longrightarrow> sub st p c ts \<noteq> Inl OutOfFuel)"

lemma totalD: "total n sub \<Longrightarrow> enough n c ts \<Longrightarrow> sub st p c ts \<noteq> Inl OutOfFuel"
  by (simp add: total_def)

lemma enough_part:
  "list_all (code_ok alts) k \<Longrightarrow> body_size k + 2 \<le> code_size c \<Longrightarrow> code_size c \<le> B \<Longrightarrow> ranked_body N rk mx r k \<Longrightarrow> r \<le> mx \<Longrightarrow>
    code_size c + budget (length ts) r \<le> n \<Longrightarrow> enough n (Body k) ts"
  using head_size_le [of N k] narrowI [of k] by (auto intro!: exI [of _ r])

lemma enough_loop:
  assumes "list_all (code_ok alts) (k @ [c])" and "code_size c = 2 + body_size k" and "code_size c \<le> B" and "reads N k"
    and "ranked_body N rk mx r k" and "ranked N rk mx mx c" and "r \<le> mx" and "code_size c + budget (length ts) r \<le> n"
  shows "enough n (Body (k @ [c])) ts"
proof -
  have "narrow (k @ [c])"
    using narrowI [of k] assms(2,3) by (auto simp: narrow_def)
  moreover have "head_size N (k @ [c]) + budget (length ts) r < n"
    using head_size_le [of N k] assms by (simp add: head_size_append)
  moreover have "ranked_body N rk mx r (k @ [c])"
    using assms by (intro ranked_body_append) auto
  ultimately show ?thesis
    using assms(1,7) by auto
qed

lemma total_statement:
  assumes sub: "total n sub" and A: "in_range alts A" and "code_ok alts c" and "code_size c \<le> B" and "ranked N rk mx r c"
    and "r \<le> mx" and fuel: "code_size c + budget (length ts) r \<le> n"
  shows "statement_exec A P sub st p c ts \<noteq> Inl OutOfFuel"
proof (cases c)
  case (Call s q)
  have "B + budget (length ts) (rk q) < n"
    using budget_call [of "rk q" r "length ts"] fuel assms(5) Call by simp
  then have "enough n (Body (pc_rule P q)) ts"
    by (intro enough_body [of _ "rk q"] rule_ok rule_size rule_rank) (simp_all add: rule_rank less_imp_le)
  from totalD [OF sub this] show ?thesis
    by (auto simp: Call bind_fuel)
next
  case (CallExpression s q)
  then have "enough n Expression ts"
    using budget_call [of "rk 35" r "length ts"] fuel assms(5) by simp
  then show ?thesis
    using CallExpression totalD [OF sub] by simp
next
  case (IfLA b k)
  then have "enough n (Body k) ts"
    using assms by (intro enough_part [of _ c r]) auto
  then show ?thesis
    using IfLA totalD [OF sub] by simp
next
  case (ForLA b k)
  then have "enough n (Body (k @ [c])) ts"
    using assms ranked_mono(1) [of N rk mx r c mx] by (intro enough_loop [of _ _ r]) auto
  then show ?thesis
    using ForLA totalD [OF sub] by simp
next
  case (SwitchLA bs panics)
  have "enough n (Body k) ts" if "(ls, k) \<in> set bs" for ls k
  proof -
    have "body_size k \<le> sum_list (map (\<lambda>(ls, k). body_size k) bs)"
      using that member_le_sum_list [of "body_size k" "map (\<lambda>(ls, k). body_size k) bs"] by force
    then show ?thesis
      using assms that SwitchLA by (intro enough_part [of _ c r]) (auto simp: list_all_iff)
  qed
  then show ?thesis
    using SwitchLA totalD [OF sub] by (auto split: option.split dest!: case_for_Some)
next
  case (SwitchPredict d ks)
  have "enough n (Body k) ts" if "k \<in> set ks" for k
  proof -
    have "body_size k \<le> sum_list (map (\<lambda>k. body_size k) ks)"
      using that member_le_sum_list [of "body_size k" "map (\<lambda>k. body_size k) ks"] by force
    then show ?thesis
      using assms that SwitchPredict by (intro enough_part [of _ c r]) (auto simp: list_all_iff)
  qed
  then show ?thesis
    using SwitchPredict totalD [OF sub] by (auto simp: alternative_def split: option.split)
next
  case (IfPredict d k)
  then have "enough n (Body k) ts"
    using assms by (intro enough_part [of _ c r]) auto
  then show ?thesis
    using IfPredict totalD [OF sub] by (auto split: option.split)
next
  case (ForPredict d k)
  then have "enough n (Body (k @ [c])) ts"
    using assms ranked_mono(1) [of N rk mx r c mx] by (intro enough_loop [of _ _ r]) auto
  moreover have "a = 1 \<or> a = 2" if "A d st p ts = Some a" for a
    using A that assms(3) ForPredict by (fastforce simp: in_range_def)
  ultimately show ?thesis
    using ForPredict totalD [OF sub] by (auto split: option.split)
qed auto

lemma total_body:
  assumes sub: "total n sub" "progress sub" and A: "in_range alts A" and c: "enough (Suc n) (Body (c # k)) ts"
  shows "task_exec A P sub st p (Body (c # k)) ts \<noteq> Inl OutOfFuel"
proof -
  obtain r where r: "r \<le> mx" "ranked N rk mx r c" "ranked_body N rk mx (if nullable N c then r else mx) k"
    "head_size N (c # k) + budget (length ts) r < Suc n"
    using c by auto
  have c': "code_ok alts c" "list_all (code_ok alts) k" "narrow k" "code_size c \<le> B" "body_size k \<le> 2 * B"
    using c by (auto simp: narrow_def)
  have "statement_exec A P sub st p c ts \<noteq> Inl OutOfFuel"
    using r c' by (intro total_statement [OF sub(1) A]) auto
  moreover have "sub st p (Body k) ts1 \<noteq> Inl OutOfFuel" if run: "statement_exec A P sub st p c ts = Inr (xs, ts1)" for xs ts1
  proof -
    have len: "shorter (\<not> nullable N c) ts1 ts"
      by (rule progress_statement [OF sub(2) A c'(1) run])
    have "enough n (Body k) ts1"
    proof (cases "length ts1 < length ts")
      case True
      have "ranked_body N rk mx mx k"
        using r(1,3) ranked_mono(2) [of N rk mx r k mx] by (simp split: if_splits)
      moreover have "head_size N k + budget (length ts1) mx < n"
        using budget_read [OF True, of r] r(4) head_size_le [of N k] c'(5) by simp
      ultimately show ?thesis
        using c'(2,3) by auto
    next
      case False
      then have "nullable N c" "length ts1 = length ts"
        using len by (auto simp: shorter_def)
      moreover have "2 \<le> code_size c"
        by (cases c) auto
      ultimately show ?thesis
        using r c'(2,3) by (auto intro!: exI [of _ r])
    qed
    then show ?thesis
      by (rule totalD [OF sub(1)])
  qed
  ultimately show ?thesis
    by (auto simp: bind_fuel)
qed

lemma total_expression:
  assumes sub: "total n sub" "progress sub" and A: "in_range alts A" and c: "enough (Suc n) Expression ts"
  shows "task_exec A P sub st p Expression ts \<noteq> Inl OutOfFuel"
proof (cases "A 43 st p ts")
  case (Some a)
  obtain l k where k: "alternative a (pc_primary P) = Some (l, k)" "(l, k) \<in> set (pc_primary P)"
    using predicted_primary [OF A Some] .
  have "enough n (Body k) ts"
    using c by (intro enough_body [OF primary_ok [OF k(2)] primary_size [OF k(2)] primary_rank [OF k(2)]])
      (simp_all add: rule_rank less_imp_le)
  then have "sub st p (Body k) ts \<noteq> Inl OutOfFuel"
    by (rule totalD [OF sub(1)])
  moreover have "sub st p (Operators t) ts1 \<noteq> Inl OutOfFuel" if run: "sub st p (Body k) ts = Inr (xs, ts1)" for xs t ts1
  proof -
    have "length ts1 < length ts"
      using progressD [OF sub(2) run primary_ok [OF k(2)]] primary_reads [OF k(2)] by (simp add: shorter_def)
    then have "enough n (Operators t) ts1"
      using budget_read [of "length ts1" "length ts" "rk 35"] c by simp
    then show ?thesis
      by (rule totalD [OF sub(1)])
  qed
  ultimately show ?thesis
    by (auto simp: Some k(1) bind_fuel)
qed simp

lemma total_operators:
  assumes sub: "total n sub" "progress sub" and A: "in_range alts A" and c: "enough (Suc n) (Operators t) ts"
  shows "task_exec A P sub st p (Operators t) ts \<noteq> Inl OutOfFuel"
proof (cases "A 45 st p ts = Some 1 \<and> A 44 st p ts \<noteq> None")
  case True
  then obtain b where b: "A 44 st p ts = Some b"
    by auto
  obtain l q k where k: "alternative b (pc_operators P) = Some (l, q, k)" "(l, q, k) \<in> set (pc_operators P)"
    using predicted_operator [OF A b] .
  have "enough n (Body k) ts"
    using c by (intro enough_body [OF operator_ok [OF k(2)] operator_size [OF k(2)] operator_rank [OF k(2)]]) simp_all
  then have "sub st p (Body k) ts \<noteq> Inl OutOfFuel"
    by (rule totalD [OF sub(1)])
  moreover have "sub st p (Operators t') ts1 \<noteq> Inl OutOfFuel" if run: "sub st p (Body k) ts = Inr (xs, ts1)" for xs t' ts1
  proof -
    have "length ts1 < length ts"
      using progressD [OF sub(2) run operator_ok [OF k(2)]] operator_reads [OF k(2)] by (simp add: shorter_def)
    then have "enough n (Operators t') ts1"
      using budget_read [of "length ts1" "length ts" mx] c by simp
    then show ?thesis
      by (rule totalD [OF sub(1)])
  qed
  ultimately show ?thesis
    using True by (auto simp: b k(1) bind_fuel)
qed (use predicted_loop [OF A] in \<open>auto split: option.split\<close>)

lemma total_exec:
  assumes "in_range alts A"
  shows "total n (exec A P n)"
proof (induction n)
  case 0
  have "\<not> enough 0 c ts" for c ts
    by (cases c) auto
  then show ?case
    by (simp add: total_def)
next
  case (Suc n)
  have "task_exec A P (exec A P n) st p c ts \<noteq> Inl OutOfFuel" if "enough (Suc n) c ts" for st p c ts
  proof (cases c)
    case (Body k)
    then show ?thesis
      using that total_body [OF Suc progress_exec [OF assms] assms] by (cases k) auto
  qed (use that total_expression [OF Suc progress_exec [OF assms] assms]
      total_operators [OF Suc progress_exec [OF assms] assms] in auto)
  then show ?case
    by (simp add: total_def)
qed

definition fuel_for :: "nat \<Rightarrow> nat" where
  "fuel_for len = 2 * B + budget len mx + 1"

lemma exec_terminates:
  assumes "in_range alts A" and "fuel_for (length ts) \<le> n"
  shows "exec A P n st p (Body (pc_rule P r)) ts \<noteq> Inl OutOfFuel"
proof -
  have "ranked_body N rk mx mx (pc_rule P r)"
    using rule_rank [of r] ranked_mono(2) [of N rk mx "rk r" "pc_rule P r" mx] by simp
  then have "enough n (Body (pc_rule P r)) ts"
    using assms(2) by (intro enough_body [of _ mx] rule_ok rule_size) (simp_all add: fuel_for_def)
  then show ?thesis
    by (rule totalD [OF total_exec [OF assms(1)]])
qed

end

end
