(* ===== verification/Antlr_Binding.thy ===== *)
theory Antlr_Binding
  imports Antlr_Grammar
begin

text \<open>
  How tightly the operators bind in the trees of a left recursive rule: the right operand of an operator has
  no operator of a lower precedence at its top, and for a left associative operator none of the same precedence.
\<close>

section \<open>Binding\<close>

definition operator_prec :: "parser_code \<Rightarrow> string \<Rightarrow> int option" where
  "operator_prec P l = map_of (map (\<lambda>(l, q, k). (l, q)) (pc_operators P)) l"

text \<open>The precedence with which the alternative of a label reads its last expression.\<close>

fun last_call :: "code list \<Rightarrow> int option" where
  "last_call [] = None"
| "last_call [CallExpression s q] = Some q"
| "last_call (c # k) = (if k = [] then None else last_call k)"

definition right_prec :: "parser_code \<Rightarrow> string \<Rightarrow> int option" where
  "right_prec P l =
    (case map_of (pc_primary P @ map (\<lambda>(l, q, k). (l, k)) (pc_operators P)) l of Some k \<Rightarrow> last_call k | None \<Rightarrow> None)"

fun tight :: "parser_code \<Rightarrow> int \<Rightarrow> ParseTree \<Rightarrow> bool" where
  "tight P q (TerminalNode t) \<longleftrightarrow> True"
| "tight P q (RuleNode r l cs) \<longleftrightarrow> (r = 35 \<longrightarrow> (case operator_prec P l of Some k \<Rightarrow> q \<le> k | None \<Rightarrow> True))"

fun well_bound :: "parser_code \<Rightarrow> ParseTree \<Rightarrow> bool" where
  "well_bound P (TerminalNode t) \<longleftrightarrow> True"
| "well_bound P (RuleNode r l cs) \<longleftrightarrow> (\<forall>c \<in> set cs. well_bound P c) \<and>
    (r = 35 \<longrightarrow> (case right_prec P l of Some q \<Rightarrow> cs \<noteq> [] \<and> tight P q (last cs) | None \<Rightarrow> True))"

definition bound_body :: "parser_code \<Rightarrow> code list \<Rightarrow> ParseTree list \<Rightarrow> bool" where
  "bound_body P k cs \<longleftrightarrow> (\<forall>c \<in> set cs. well_bound P c) \<and>
    (case last_call k of Some q \<Rightarrow> cs \<noteq> [] \<and> tight P q (last cs) | None \<Rightarrow> True)"

definition bound_expression :: "parser_code \<Rightarrow> int \<Rightarrow> ParseTree \<Rightarrow> bool" where
  "bound_expression P p t \<longleftrightarrow> well_bound P t \<and> tight P p t"

fun bound_task :: "parser_code \<Rightarrow> int \<Rightarrow> task \<Rightarrow> ParseTree list \<Rightarrow> bool" where
  "bound_task P p (Body k) cs \<longleftrightarrow> bound_body P k cs"
| "bound_task P p Expression cs \<longleftrightarrow> (\<exists>t. cs = [t] \<and> bound_expression P p t)"
| "bound_task P p (Operators t) cs \<longleftrightarrow> (bound_expression P p t \<longrightarrow> (\<exists>t'. cs = [t'] \<and> bound_expression P p t'))"

lemma last_call_Cons: "last_call (c # k) = (if k = [] then (case c of CallExpression s q \<Rightarrow> Some q | _ \<Rightarrow> None) else last_call k)"
  by (cases c; cases k) auto

lemma alternative_in: "alternative a xs = Some x \<Longrightarrow> x \<in> set xs"
  by (auto simp: alternative_def split: if_splits)

text \<open>No label is used twice.\<close>

locale labelled =
  fixes P :: parser_code
  assumes precs_unlabelled [simp]: "operator_prec P [] = None" "right_prec P [] = None"
    and precs_primary: "(l, k) \<in> set (pc_primary P) \<Longrightarrow> operator_prec P l = None \<and> right_prec P l = last_call k"
    and precs_operator: "(l, q, k) \<in> set (pc_operators P) \<Longrightarrow> operator_prec P l = Some q \<and> right_prec P l = last_call k"
begin

definition binds :: "runner \<Rightarrow> bool" where
  "binds sub \<longleftrightarrow> (\<forall>st p c ts cs ts'. sub st p c ts = Inr (cs, ts') \<longrightarrow> bound_task P p c cs)"

lemma bindsD: "binds sub \<Longrightarrow> sub st p (Body k) ts = Inr (cs, ts') \<Longrightarrow> bound_body P k cs"
  unfolding binds_def by (metis bound_task.simps(1))

lemma bindsD_expression: "binds sub \<Longrightarrow> sub st p Expression ts = Inr (cs, ts') \<Longrightarrow> \<exists>t. cs = [t] \<and> bound_expression P p t"
  unfolding binds_def by (metis bound_task.simps(2))

lemma bindsD_operators:
  "binds sub \<Longrightarrow> sub st p (Operators t) ts = Inr (cs, ts') \<Longrightarrow> bound_expression P p t \<Longrightarrow> \<exists>t. cs = [t] \<and> bound_expression P p t"
  unfolding binds_def by (metis bound_task.simps(3))

lemma binds_statement:
  assumes sub: "binds sub" and run: "statement_exec A P sub st p c ts = Inr (cs, ts')"
  shows "bound_body P [c] cs"
proof (cases c)
  case (Call s r)
  then obtain ds where "cs = [RuleNode r [] ds]" "sub ((s, r) # st) p (Body (pc_rule P r)) ts = Inr (ds, ts')"
    using run by (auto simp: bind_Inr)
  then show ?thesis
    using bindsD [OF sub] Call by (auto simp: bound_body_def)
next
  case (CallExpression s q)
  then show ?thesis
    using bindsD_expression [OF sub] run by (fastforce simp: bound_body_def bound_expression_def)
qed (use run bindsD [OF sub] in \<open>auto simp: bound_body_def consume_def split: if_splits option.splits\<close>)

lemma bound_primary: "(l, k) \<in> set (pc_primary P) \<Longrightarrow> bound_body P k cs \<Longrightarrow> bound_expression P p (RuleNode 35 l cs)"
  using precs_primary [of l k] by (auto simp: bound_body_def bound_expression_def)

lemma bound_operator:
  "(l, q, k) \<in> set (pc_operators P) \<Longrightarrow> bound_body P k cs \<Longrightarrow> bound_expression P p' t \<Longrightarrow> p \<le> q \<Longrightarrow>
    bound_expression P p (RuleNode 35 l (t # cs))"
  using precs_operator [of l q k] by (auto simp: bound_body_def bound_expression_def split: option.splits)

lemma bound_body_Cons:
  "bound_body P [c] cs \<Longrightarrow> bound_body P k ds \<Longrightarrow> (k = [] \<longrightarrow> ds = []) \<Longrightarrow> bound_body P (c # k) (cs @ ds)"
  by (auto simp: bound_body_def last_call_Cons split: option.splits)

lemma binds_task:
  assumes sub: "binds sub" and nil: "\<And>st p ts cs ts'. sub st p (Body []) ts = Inr (cs, ts') \<Longrightarrow> cs = []"
  shows "binds (task_exec A P sub)"
  unfolding binds_def
proof (intro allI impI)
  fix st p c ts cs ts'
  assume run: "task_exec A P sub st p c ts = Inr (cs, ts')"
  show "bound_task P p c cs"
  proof (cases c)
    case (Body k)
    show ?thesis
    proof (cases k)
      case (Cons c' k')
      then obtain xs ts1 ys where *: "statement_exec A P sub st p c' ts = Inr (xs, ts1)"
        "sub st p (Body k') ts1 = Inr (ys, ts')" "cs = xs @ ys"
        using run Body by (auto simp: bind_Inr)
      then show ?thesis
        using binds_statement [OF sub *(1)] bindsD [OF sub *(2)] nil Body Cons by (auto intro!: bound_body_Cons)
    qed (use run Body in \<open>simp add: bound_body_def\<close>)
  next
    case Expression
    show ?thesis
    proof (cases "\<exists>a l k. A 43 st p ts = Some a \<and> alternative a (pc_primary P) = Some (l, k)")
      case True
      then obtain a l k xs ts1 where *: "alternative a (pc_primary P) = Some (l, k)" "sub st p (Body k) ts = Inr (xs, ts1)"
        "sub st p (Operators (RuleNode 35 l xs)) ts1 = Inr (cs, ts')"
        using run Expression by (auto simp: bind_Inr)
      then have "(l, k) \<in> set (pc_primary P)"
        using alternative_in by fast
      then show ?thesis
        using bindsD_operators [OF sub *(3) bound_primary [OF _ bindsD [OF sub *(2)]]] Expression by simp
    next
      case False
      then have "sub st p (Operators (RuleNode 35 [] [])) ts = Inr (cs, ts')"
        using run Expression by (auto split: option.splits)
      then show ?thesis
        using bindsD_operators [OF sub] Expression by (simp add: bound_expression_def)
    qed
  next
    case (Operators t)
    have "\<exists>t'. cs = [t'] \<and> bound_expression P p t'" if t: "bound_expression P p t"
    proof (cases "\<exists>b l q k. A 45 st p ts = Some 1 \<and> A 44 st p ts = Some b \<and> alternative b (pc_operators P) = Some (l, q, k)")
      case True
      then obtain b l q k xs ts1 where *: "alternative b (pc_operators P) = Some (l, q, k)" "p \<le> q"
        "sub st p (Body k) ts = Inr (xs, ts1)" "sub st p (Operators (RuleNode 35 l (t # xs))) ts1 = Inr (cs, ts')"
        using run Operators by (auto simp: bind_Inr Precpred_def split: if_splits)
      then have "(l, q, k) \<in> set (pc_operators P)"
        using alternative_in by fast
      then show ?thesis
        using bindsD_operators [OF sub *(4) bound_operator [OF _ bindsD [OF sub *(3)] t *(2)]] by simp
    next
      case False
      then have "sub st p (Operators t) ts = Inr (cs, ts') \<or> cs = [t]"
        using run Operators by (auto split: option.splits if_splits)
      then show ?thesis
        using bindsD_operators [OF sub] t by auto
    qed
    then show ?thesis
      using Operators by simp
  qed
qed

lemma exec_nil: "exec A P n st p (Body []) ts = Inr (cs, ts') \<Longrightarrow> cs = []"
  by (cases n) auto

theorem binds_exec: "binds (exec A P n)"
proof (induction n)
  case (Suc n)
  then show ?case
    using binds_task [OF Suc exec_nil] by simp
qed (simp add: binds_def)

end

end
