(* ===== verification/Qasm_Parser.thy ===== *)
theory Qasm_Parser
  imports Qasm_Grammar Antlr_Termination Antlr_Binding
begin

text \<open>
  The generated parser as a whole: what it accepts, that it ends, and how operators bind.
\<close>

section \<open>The parser\<close>

text \<open>
  \<open>Program()\<close> as \<open>ParseQASM\<close> calls it, on a new parser: no rule is active, the state is \<open>-1\<close> and the precedence
  stack holds \<open>0\<close>. The fuel is linear in the number of tokens; \<open>parse_program_returns\<close> shows that it is enough.
\<close>

definition parse_fuel :: "nat \<Rightarrow> nat" where
  "parse_fuel len = 133 + 135 * (6 * len + 5)"

definition parse_program :: "predictor \<Rightarrow> Token list \<Rightarrow> parse_error + ParseTree \<times> Token list" where
  "parse_program A ts =
    bind (exec A qasm3Parser (parse_fuel (length ts)) [(-1, qasm3ParserRULE_program)] 0
        (Body (pc_rule qasm3Parser qasm3ParserRULE_program)) ts)
      (\<lambda>(cs, ts'). Inr (RuleNode qasm3ParserRULE_program [] cs, ts'))"

text \<open>The predicates by which the prediction asks the parser for the precedence; \<open>None\<close> is a panic.\<close>

definition Expression_Sempred :: "int \<Rightarrow> nat \<Rightarrow> bool option" where
  "Expression_Sempred p predIndex =
    (if predIndex = 0 then Some (Precpred p 16) else if predIndex = 1 then Some (Precpred p 14)
     else if predIndex = 2 then Some (Precpred p 13) else if predIndex = 3 then Some (Precpred p 12)
     else if predIndex = 4 then Some (Precpred p 11) else if predIndex = 5 then Some (Precpred p 10)
     else if predIndex = 6 then Some (Precpred p 9) else if predIndex = 7 then Some (Precpred p 8)
     else if predIndex = 8 then Some (Precpred p 7) else if predIndex = 9 then Some (Precpred p 6)
     else if predIndex = 10 then Some (Precpred p 5) else if predIndex = 11 then Some (Precpred p 17)
     else None)"

definition Sempred :: "int \<Rightarrow> nat \<Rightarrow> nat \<Rightarrow> bool option" where
  "Sempred p ruleIndex predIndex = (if ruleIndex = 35 then Expression_Sempred p predIndex else None)"

section \<open>It ends\<close>

definition qasm_nullable :: "nat \<Rightarrow> bool" where
  "qasm_nullable r \<longleftrightarrow> r = qasm3ParserRULE_program \<or> r = qasm3ParserRULE_expression \<or> 64 \<le> r"

definition rank_table :: "nat list" where
  "rank_table =
    [4, 0, 3, 0, 0, 0, 4, 0, 0, 0, 0, 0, 0, 0, 0, 0, 0, 0, 0, 1, 1, 0, 0, 1, 0, 0, 0, 1, 0, 0, 0, 1, 2, 0, 0, 1, 2, 2, 0,
     2, 0, 0, 0, 0, 0, 0, 0, 0, 0, 0, 0, 0, 2, 0, 1, 1, 1, 2, 3, 1, 2, 0, 2, 2]"

definition qasm_rank :: "nat \<Rightarrow> nat" where
  "qasm_rank r = (if r < length rank_table then rank_table ! r else 0)"

lemma rules_read: "list_all (\<lambda>r. r = 0 \<or> r = 35 \<or> reads qasm_nullable (rule_table ! r)) [0..<64]"
  by code_simp

lemma expressions_read:
  "list_all (\<lambda>(l, k). reads qasm_nullable k) expression_primary"
  "list_all (\<lambda>(l, q, k). reads qasm_nullable k) expression_operators"
  by code_simp+

lemma rules_ranked:
  "list_all (\<lambda>r. qasm_rank r < 5 \<and> ranked_body qasm_nullable qasm_rank 5 (qasm_rank r) (rule_table ! r)) [0..<64]"
  by code_simp

lemma expressions_ranked:
  "list_all (\<lambda>(l, k). ranked_body qasm_nullable qasm_rank 5 (qasm_rank 35) k) expression_primary"
  "list_all (\<lambda>(l, q, k). ranked_body qasm_nullable qasm_rank 5 5 k) expression_operators"
  by code_simp+

lemma rules_small: "list_all (\<lambda>k. body_size k \<le> 66) rule_table"
  by code_simp

lemma expressions_small:
  "list_all (\<lambda>(l, k). body_size k \<le> 66) expression_primary" "list_all (\<lambda>(l, q, k). body_size k \<le> 66) expression_operators"
  by code_simp+


interpretation qasm: terminating qasm3Parser qasm_alts qasm_nullable qasm_rank 5 66
proof
  fix r
  show "reads qasm_nullable (pc_rule qasm3Parser r)" if "\<not> qasm_nullable r"
    using that below_64 [OF rules_read, of r] by (simp add: qasm3Parser_def qasm_nullable_def [of r] rule_tables)
  show "qasm_rank r < 5"
    using below_64 [OF rules_ranked, of r] by (cases "r < 64") (simp_all add: qasm_rank_def rank_table_def)
  show "ranked_body qasm_nullable qasm_rank 5 (qasm_rank r) (pc_rule qasm3Parser r)"
    using below_64 [OF rules_ranked, of r] by (simp add: qasm3Parser_def rule_tables)
  show "body_size (pc_rule qasm3Parser r) \<le> 66"
    using rules_small by (auto simp: qasm3Parser_def list_all_length)
next
  fix l k
  assume "(l, k) \<in> set (pc_primary qasm3Parser)"
  then show "reads qasm_nullable k" "ranked_body qasm_nullable qasm_rank 5 (qasm_rank 35) k" "body_size k \<le> 66"
    using expressions_read(1) expressions_ranked(1) expressions_small(1) by (fastforce simp: qasm3Parser_def list_all_iff)+
next
  fix l q k
  assume "(l, q, k) \<in> set (pc_operators qasm3Parser)"
  then show "reads qasm_nullable k" "ranked_body qasm_nullable qasm_rank 5 5 k" "body_size k \<le> 66"
    using expressions_read(2) expressions_ranked(2) expressions_small(2) by (fastforce simp: qasm3Parser_def list_all_iff)+
qed

lemma parse_fuel_enough: "parse_fuel len = qasm.fuel_for len"
  by (simp add: parse_fuel_def qasm.fuel_for_def qasm.budget_def)

text \<open>
  C16: The parser returns on every input: whatever the alternatives that are predicted, it ends with a tree or
  with one of the errors of the grammar, and never because the recursion is too deep for the fuel of the model,
  which is linear in the number of tokens; with more fuel the result is the same.
\<close>

theorem parse_program_returns:
  assumes "in_range qasm_alts A"
  shows "parse_program A ts \<noteq> Inl OutOfFuel \<and>
    (\<forall>n \<ge> parse_fuel (length ts).
       bind (exec A qasm3Parser n [(-1, 0)] 0 (Body Program) ts) (\<lambda>(cs, ts'). Inr (RuleNode 0 [] cs, ts')) = parse_program A ts)"
proof -
  have p: "pc_rule qasm3Parser 0 = Program"
    by (simp add: qasm3Parser_def rule_table_def)
  let ?exec = "\<lambda>n. exec A qasm3Parser n [(-1, 0)] 0 (Body Program) ts"
  have ok: "?exec (parse_fuel (length ts)) \<noteq> Inl OutOfFuel"
    using qasm.exec_terminates [OF assms, of ts "parse_fuel (length ts)" _ _ 0] by (simp add: parse_fuel_enough p)
  have more: "?exec n = ?exec (parse_fuel (length ts))" if "parse_fuel (length ts) \<le> n" for n
    using refinesD [OF exec_mono [OF that]] ok unfolding less_fuel_def by metis
  show ?thesis
  proof (intro conjI allI impI)
    show "parse_program A ts \<noteq> Inl OutOfFuel"
      using ok by (simp add: parse_program_def p bind_fuel case_prod_beta)
  next
    fix n
    assume "parse_fuel (length ts) \<le> n"
    from more [OF this] show "bind (?exec n) (\<lambda>(cs, ts'). Inr (RuleNode 0 [] cs, ts')) = parse_program A ts"
      by (simp only: parse_program_def p)
  qed
qed

section \<open>What it accepts\<close>

lemma exec_body_append:
  "exec A P n st p (Body (k @ k')) ts = Inr (cs, ts') \<Longrightarrow>
    \<exists>m xs ts1 ys. exec A P n st p (Body k) ts = Inr (xs, ts1) \<and> exec A P m st p (Body k') ts1 = Inr (ys, ts')"
proof (induction k arbitrary: n ts cs)
  case Nil
  then obtain m where "n = Suc m"
    by (cases n) auto
  then have "exec A P n st p (Body []) ts = Inr ([], ts)"
    by simp
  then show ?case
    using Nil by auto
next
  case (Cons c k)
  then obtain m where m: "n = Suc m"
    by (cases n) auto
  then obtain xs ts1 ys where *: "statement_exec A P (exec A P m) st p c ts = Inr (xs, ts1)"
    "exec A P m st p (Body (k @ k')) ts1 = Inr (ys, ts')"
    using Cons.prems by (auto simp: bind_Inr)
  then show ?case
    using Cons.IH [OF *(2)] by (fastforce simp: m bind_Inr)
qed

lemma Program_ends:
  assumes "exec A P n st p (Body Program) ts = Inr (cs, ts')" and "\<And>ts1 xs. exec A P n st p (Body (butlast Program)) ts = Inr (xs, ts1) \<Longrightarrow> no_eof ts1"
  shows "ts' = []"
proof -
  have "Program = butlast Program @ [Match TokenEOF]"
    by (simp add: Program_def)
  then obtain m xs ts1 ys where *: "exec A P n st p (Body (butlast Program)) ts = Inr (xs, ts1)"
    "exec A P m st p (Body [Match TokenEOF]) ts1 = Inr (ys, ts')"
    using exec_body_append assms(1) by metis
  obtain i where "m = Suc i"
    using *(2) by (cases m) auto
  then obtain zs where z: "LA ts1 = TokenEOF" "exec A P i st p (Body []) (tl ts1) = Inr (zs, ts')"
    using *(2) by (auto simp: bind_Inr consume_def split: if_splits)
  then obtain j where "i = Suc j"
    by (cases i) auto
  then show ?thesis
    using z assms(2) [OF *(1)] by (cases ts1) (auto simp: no_eof_def LA_def LT_def)
qed

lemma parse_program_derives:
  assumes "in_range qasm_alts A" and "no_eof ts" and "parse_program A ts = Inr (t, ts')"
  shows "derivation qasm3_grammar t \<and> (\<exists>cs. t = RuleNode qasm3ParserRULE_program [] cs) \<and> yield_of t = ts \<and> ts' = []"
proof -
  let ?exec = "exec A qasm3Parser (parse_fuel (length ts)) [(-1, 0)] 0"
  obtain cs where cs: "t = RuleNode 0 [] cs" "?exec (Body (pc_rule qasm3Parser 0)) ts = Inr (cs, ts')"
    using assms(3) by (auto simp: parse_program_def bind_Inr)
  have d: "derivation qasm3_grammar t" "ts = yield_of t @ ts'"
    using qasm.exec_builds [OF assms(1) cs(2) _ assms(2)] cs(1) by simp_all
  have p: "pc_rule qasm3Parser 0 = Program" "list_all (code_ok qasm_alts) (butlast Program)"
    using qasm.rule_ok [of 0] by (auto simp: qasm3Parser_def rule_table_def list_all_iff dest: in_set_butlastD)
  have "no_eof ts1" if "?exec (Body (butlast Program)) ts = Inr (xs, ts1)" for xs ts1
    using qasm.soundD [OF qasm.sound_exec [OF assms(1)] that p(2) assms(2)] assms(2) by (simp add: built_def)
  then have "ts' = []"
    using Program_ends [of A qasm3Parser] cs(2) p(1) by auto
  then show ?thesis
    using d cs(1) by simp
qed

text \<open>
  C15: A program that the parser accepts is in the language of the grammar file: the tree is a derivation from
  \<open>program\<close> by the rules of \<open>qasm3Parser.g4\<close>, its leaves are the tokens of the input in their order, and
  no token is left over, whatever the alternatives that were predicted.
\<close>

theorem parse_program_sound:
  assumes "in_range qasm_alts A" and "no_eof ts" and "parse_program A ts = Inr (t, ts')"
  shows "derivation qasm3_grammar t \<and> (\<exists>cs. t = RuleNode qasm3ParserRULE_program [] cs) \<and> yield_of t = ts \<and> ts' = []"
  using parse_program_derives [OF assms] .

section \<open>How operators bind\<close>

lemma labels_distinct:
  "operator_prec qasm3Parser [] = None" "right_prec qasm3Parser [] = None"
  "list_all (\<lambda>(l, k). operator_prec qasm3Parser l = None \<and> right_prec qasm3Parser l = last_call k) expression_primary"
  "list_all (\<lambda>(l, q, k). operator_prec qasm3Parser l = Some q \<and> right_prec qasm3Parser l = last_call k) expression_operators"
  by code_simp+

interpretation qasm: labelled qasm3Parser
proof
  show "operator_prec qasm3Parser [] = None" "right_prec qasm3Parser [] = None"
    by (rule labels_distinct)+
next
  fix l k
  assume "(l, k) \<in> set (pc_primary qasm3Parser)"
  then show "operator_prec qasm3Parser l = None \<and> right_prec qasm3Parser l = last_call k"
    using labels_distinct(3) by (fastforce simp: qasm3Parser_def list_all_iff)
next
  fix l q k
  assume "(l, q, k) \<in> set (pc_operators qasm3Parser)"
  then show "operator_prec qasm3Parser l = Some q \<and> right_prec qasm3Parser l = last_call k"
    using labels_distinct(4) by (fastforce simp: qasm3Parser_def list_all_iff)
qed

fun subtrees :: "ParseTree \<Rightarrow> ParseTree list" where
  "subtrees (TerminalNode t) = [TerminalNode t]"
| "subtrees (RuleNode r l cs) = RuleNode r l cs # concat (map subtrees cs)"

lemma well_bound_subtrees: "s \<in> set (subtrees t) \<Longrightarrow> well_bound P t \<Longrightarrow> well_bound P s"
  by (induction t) auto

lemma binary_precs:
  "list_all (\<lambda>(l, q, k). l = ''IndexExpression'' \<or>
    right_prec qasm3Parser l = Some (if l = ''PowerExpression'' then q else q + 1)) expression_operators"
  by code_simp

lemma right_prec_operator:
  assumes "operator_prec qasm3Parser l = Some q" and "l \<noteq> ''IndexExpression''"
  shows "right_prec qasm3Parser l = Some (if l = ''PowerExpression'' then q else q + 1)"
proof -
  obtain k where "(l, q, k) \<in> set expression_operators"
    using map_of_SomeD [OF assms(1) [unfolded operator_prec_def]] by (auto simp: qasm3Parser_def)
  then show ?thesis
    using binary_precs assms(2) by (fastforce simp: list_all_iff)
qed

text \<open>
  C17: In every expression that the parser reads, the right operand of a binary operator has at its top no operator
  that binds less tightly, and none of the same precedence unless the operator is the power: \<open>a - b - c\<close> is
  never read as \<open>a - (b - c)\<close>, and \<open>a * b + c\<close> never as \<open>a * (b + c)\<close>. This holds whatever alternatives are predicted.
\<close>

theorem operands_bind:
  assumes "parse_program A ts = Inr (t, ts')" and "RuleNode qasm3ParserRULE_expression l cs \<in> set (subtrees t)"
    and "operator_prec qasm3Parser l = Some q" and "l \<noteq> ''IndexExpression''"
    and "last cs = RuleNode qasm3ParserRULE_expression l' ds" and "operator_prec qasm3Parser l' = Some q'"
  shows "if l = ''PowerExpression'' then q \<le> q' else q < q'"
proof -
  have "well_bound qasm3Parser t"
    using assms(1) qasm.bindsD [OF qasm.binds_exec]
    by (auto simp: parse_program_def bind_Inr bound_body_def)
  then have "well_bound qasm3Parser (RuleNode 35 l cs)"
    using assms(2) well_bound_subtrees by blast
  then show ?thesis
    using assms(5,6) right_prec_operator [OF assms(3,4)] by (auto split: if_splits)
qed

text \<open>
  The predicates that the prediction evaluates are the tests that the function \<open>expression\<close> makes before it
  reads the operator.
\<close>

lemma Sempred_operators:
  "i < length expression_operators \<Longrightarrow>
    Sempred p qasm3ParserRULE_expression i = Some (Precpred p (fst (snd (expression_operators ! i))))"
  by (simp add: expression_operators_def Sempred_def Expression_Sempred_def nth_Cons' flip: One_nat_def) arith

section \<open>Examples\<close>

text \<open>Predictions from a table, by the decision, the precedence and the number of tokens that are left.\<close>

definition table_predictor :: "((nat \<times> int \<times> nat) \<times> nat) list \<Rightarrow> predictor" where
  "table_predictor tbl d st p ts = map_of tbl (d, p, length ts)"

lemma table_in_range: "list_all (\<lambda>((d, p, n), a). 1 \<le> a \<and> a \<le> alts d) tbl \<Longrightarrow> in_range alts (table_predictor tbl)"
  unfolding in_range_def table_predictor_def by (fastforce simp: list_all_iff dest: map_of_SomeD)

lemma parse_program_eval:
  assumes "exec A qasm3Parser n [(-1, 0)] 0 (Body Program) ts = Inr (cs, ts')" and "n \<le> parse_fuel (length ts)"
  shows "parse_program A ts = Inr (RuleNode 0 [] cs, ts')"
proof -
  have "exec A qasm3Parser (parse_fuel (length ts)) [(-1, 0)] 0 (Body Program) ts = Inr (cs, ts')"
    using refinesD [OF exec_mono [OF assms(2)], of A qasm3Parser "[(-1, 0)]" 0 "Body Program" ts] assms(1)
    by (simp add: less_fuel_def)
  then show ?thesis
    by (simp add: parse_program_def qasm3Parser_def rule_table_def)
qed

abbreviation tok :: "int \<Rightarrow> string \<Rightarrow> Token" where
  "tok ty tx \<equiv> \<lparr>GetTokenType = ty, GetText = tx\<rparr>"

text \<open>\<open>c = a + b * d;\<close>\<close>

definition sum_tokens :: "Token list" where
  "sum_tokens =
    [tok qasm3ParserIdentifier ''c'', tok qasm3ParserEQUALS ''='', tok qasm3ParserIdentifier ''a'', tok
     qasm3ParserPLUS ''+'', tok qasm3ParserIdentifier ''b'', tok qasm3ParserASTERISK ''*'', tok qasm3ParserIdentifier
     ''d'', tok qasm3ParserSEMICOLON '';'']"

definition sum_predictor :: predictor where
  "sum_predictor = table_predictor
    [((3, 0, 8), 2), ((43, 0, 6), 6), ((45, 0, 5), 1), ((44, 0, 5), 3), ((43, 14, 4), 6), ((45, 14, 3), 1), ((44, 14,
     3), 2), ((43, 15, 2), 6), ((45, 15, 1), 2), ((45, 14, 1), 2), ((45, 0, 1), 2)]"

definition sum_tree :: "ParseTree list" where
  "sum_tree =
    [RuleNode qasm3ParserRULE_statement [] [RuleNode qasm3ParserRULE_assignmentStatement [] [RuleNode
     qasm3ParserRULE_indexedIdentifier [] [TerminalNode (tok qasm3ParserIdentifier ''c'')], TerminalNode (tok
     qasm3ParserEQUALS ''=''), RuleNode qasm3ParserRULE_expression ''AdditiveExpression'' [RuleNode
     qasm3ParserRULE_expression ''LiteralExpression'' [TerminalNode (tok qasm3ParserIdentifier ''a'')], TerminalNode
     (tok qasm3ParserPLUS ''+''), RuleNode qasm3ParserRULE_expression ''MultiplicativeExpression'' [RuleNode
     qasm3ParserRULE_expression ''LiteralExpression'' [TerminalNode (tok qasm3ParserIdentifier ''b'')], TerminalNode
     (tok qasm3ParserASTERISK ''*''), RuleNode qasm3ParserRULE_expression ''LiteralExpression'' [TerminalNode (tok
     qasm3ParserIdentifier ''d'')]]], TerminalNode (tok qasm3ParserSEMICOLON '';'')]], TerminalNode EOF_token]"

lemma sum_exec: "exec sum_predictor qasm3Parser 40 [(-1, 0)] 0 (Body Program) sum_tokens = Inr (sum_tree, [])"
  by code_simp

lemma sum_in_range: "in_range qasm_alts sum_predictor"
  unfolding sum_predictor_def by (intro table_in_range) code_simp

lemma sum_parsed: "parse_program sum_predictor sum_tokens = Inr (RuleNode 0 [] sum_tree, [])"
  by (rule parse_program_eval [OF sum_exec]) (simp add: parse_fuel_def)

theorem parse_program_returns_witness:
  "parse_program sum_predictor sum_tokens \<noteq> Inl OutOfFuel \<and> parse_program sum_predictor (tl sum_tokens) \<noteq> Inl OutOfFuel"
  using parse_program_returns [OF sum_in_range, of sum_tokens] parse_program_returns [OF sum_in_range, of "tl sum_tokens"] by simp

theorem parse_program_sound_witness:
  "derivation qasm3_grammar (RuleNode 0 [] sum_tree) \<and> yield_of (RuleNode 0 [] sum_tree) = sum_tokens"
proof -
  have "no_eof sum_tokens"
    by (simp add: no_eof_def sum_tokens_def)
  from parse_program_sound [OF sum_in_range this sum_parsed] show ?thesis
    by blast
qed

definition sum_expression :: "ParseTree list" where
  "sum_expression = (case sum_tree of RuleNode _ _ (RuleNode _ _ (_ # _ # RuleNode _ _ cs # _) # _) # _ \<Rightarrow> cs | _ \<Rightarrow> [])"

lemma sum_expression_facts:
  "RuleNode 35 ''AdditiveExpression'' sum_expression \<in> set (subtrees (RuleNode 0 [] sum_tree))"
  "operator_prec qasm3Parser ''AdditiveExpression'' = Some 13"
  "operator_prec qasm3Parser ''MultiplicativeExpression'' = Some 14"
  "\<exists>ds. last sum_expression = RuleNode 35 ''MultiplicativeExpression'' ds"
  by (simp_all add: sum_expression_def sum_tree_def operator_prec_def qasm3Parser_def expression_operators_def)

theorem operands_bind_witness:
  "\<exists>ds. parse_program sum_predictor sum_tokens = Inr (RuleNode 0 [] sum_tree, []) \<and>
    last sum_expression = RuleNode 35 ''MultiplicativeExpression'' ds \<and>
    (if ''AdditiveExpression'' = ''PowerExpression'' then (13 :: int) \<le> 14 else 13 < (14 :: int))"
proof -
  obtain ds where "last sum_expression = RuleNode 35 ''MultiplicativeExpression'' ds"
    using sum_expression_facts(4) by blast
  with operands_bind [OF sum_parsed sum_expression_facts(1,2) _ this sum_expression_facts(3)] sum_parsed show ?thesis
    by simp
qed

end
