(* ===== verification/Qasm_Contexts.thy ===== *)
theory Qasm_Contexts
  imports Qasm_Grammar
begin

text \<open>
  The contexts of the generated parser (\<open>coreapp/core/parser/qasm3_parser.go\<close>): the functions by which a client
  reads the children of a node.

  The functions of a context come in six forms, over the type of a token or over a rule; \<open>accessor\<close> has one
  constructor for each, and the definition of a context lists its functions in their order. A function for a rule
  goes through the children and tests the type of their context; the functions for tokens call
  \<open>GetToken\<close> and \<open>GetTokens\<close> of ANTLR, which go through the terminal nodes among the children in the same way.
\<close>

section \<open>Reading the children\<close>

datatype accessor = TokenOne int | TokenAll int | TokenNth int | RuleOne nat | RuleAll nat | RuleNth nat

fun is_token :: "int \<Rightarrow> ParseTree \<Rightarrow> bool" where
  "is_token t (TerminalNode k) \<longleftrightarrow> GetTokenType k = t"
| "is_token t (RuleNode r l cs) \<longleftrightarrow> False"

fun is_rule :: "nat \<Rightarrow> ParseTree \<Rightarrow> bool" where
  "is_rule q (TerminalNode k) \<longleftrightarrow> False"
| "is_rule q (RuleNode r l cs) \<longleftrightarrow> r = q"

text \<open>The loop of a function that returns the first child of a rule, and of one that returns the \<open>i\<close>-th.\<close>

fun first_child :: "(ParseTree \<Rightarrow> bool) \<Rightarrow> ParseTree list \<Rightarrow> ParseTree option" where
  "first_child f [] = None"
| "first_child f (c # cs) = (if f c then Some c else first_child f cs)"

fun nth_child :: "(ParseTree \<Rightarrow> bool) \<Rightarrow> nat \<Rightarrow> nat \<Rightarrow> ParseTree list \<Rightarrow> ParseTree option" where
  "nth_child f i j [] = None"
| "nth_child f i j (c # cs) =
    (if f c then (if j = i then Some c else nth_child f i (j + 1) cs) else nth_child f i j cs)"

text \<open>The two loops of a function that returns all of them: one counts, the other fills the slice.\<close>

fun count_children :: "(ParseTree \<Rightarrow> bool) \<Rightarrow> ParseTree list \<Rightarrow> nat" where
  "count_children f [] = 0"
| "count_children f (c # cs) = (if f c then Suc (count_children f cs) else count_children f cs)"

fun fill_children :: "(ParseTree \<Rightarrow> bool) \<Rightarrow> nat \<Rightarrow> ParseTree option list \<Rightarrow> ParseTree list \<Rightarrow> ParseTree option list" where
  "fill_children f i tst [] = tst"
| "fill_children f i tst (c # cs) =
    (if f c then fill_children f (i + 1) (tst[i := Some c]) cs else fill_children f i tst cs)"

definition all_children :: "(ParseTree \<Rightarrow> bool) \<Rightarrow> ParseTree list \<Rightarrow> ParseTree option list" where
  "all_children f cs = fill_children f 0 (replicate (count_children f cs) None) cs"

section \<open>The contexts\<close>


definition ProgramContext :: "accessor list" where
  "ProgramContext =
    [TokenOne qasm3ParserEOF, RuleOne qasm3ParserRULE_version, RuleAll qasm3ParserRULE_statement, RuleNth
     qasm3ParserRULE_statement]"

definition VersionContext :: "accessor list" where
  "VersionContext =
    [TokenOne qasm3ParserOPENQASM, TokenOne qasm3ParserVersionSpecifier, TokenOne qasm3ParserSEMICOLON]"

definition StatementContext :: "accessor list" where
  "StatementContext =
    [RuleOne qasm3ParserRULE_pragma, RuleOne qasm3ParserRULE_aliasDeclarationStatement, RuleOne
     qasm3ParserRULE_assignmentStatement, RuleOne qasm3ParserRULE_barrierStatement, RuleOne
     qasm3ParserRULE_boxStatement, RuleOne qasm3ParserRULE_breakStatement, RuleOne qasm3ParserRULE_calStatement,
     RuleOne qasm3ParserRULE_calibrationGrammarStatement, RuleOne qasm3ParserRULE_classicalDeclarationStatement,
     RuleOne qasm3ParserRULE_constDeclarationStatement, RuleOne qasm3ParserRULE_continueStatement, RuleOne
     qasm3ParserRULE_defStatement, RuleOne qasm3ParserRULE_defcalStatement, RuleOne qasm3ParserRULE_delayStatement,
     RuleOne qasm3ParserRULE_endStatement, RuleOne qasm3ParserRULE_expressionStatement, RuleOne
     qasm3ParserRULE_externStatement, RuleOne qasm3ParserRULE_forStatement, RuleOne qasm3ParserRULE_gateCallStatement,
     RuleOne qasm3ParserRULE_gateStatement, RuleOne qasm3ParserRULE_ifStatement, RuleOne
     qasm3ParserRULE_includeStatement, RuleOne qasm3ParserRULE_ioDeclarationStatement, RuleOne
     qasm3ParserRULE_measureArrowAssignmentStatement, RuleOne qasm3ParserRULE_oldStyleDeclarationStatement, RuleOne
     qasm3ParserRULE_quantumDeclarationStatement, RuleOne qasm3ParserRULE_resetStatement, RuleOne
     qasm3ParserRULE_returnStatement, RuleOne qasm3ParserRULE_whileStatement, RuleAll qasm3ParserRULE_annotation,
     RuleNth qasm3ParserRULE_annotation]"

definition AnnotationContext :: "accessor list" where
  "AnnotationContext =
    [TokenOne qasm3ParserAnnotationKeyword, TokenOne qasm3ParserRemainingLineContent]"

definition ScopeContext :: "accessor list" where
  "ScopeContext =
    [TokenOne qasm3ParserLBRACE, TokenOne qasm3ParserRBRACE, RuleAll qasm3ParserRULE_statement, RuleNth
     qasm3ParserRULE_statement]"

definition PragmaContext :: "accessor list" where
  "PragmaContext =
    [TokenOne qasm3ParserPRAGMA, TokenOne qasm3ParserRemainingLineContent]"

definition StatementOrScopeContext :: "accessor list" where
  "StatementOrScopeContext =
    [RuleOne qasm3ParserRULE_statement, RuleOne qasm3ParserRULE_scope]"

definition CalibrationGrammarStatementContext :: "accessor list" where
  "CalibrationGrammarStatementContext =
    [TokenOne qasm3ParserDEFCALGRAMMAR, TokenOne qasm3ParserStringLiteral, TokenOne qasm3ParserSEMICOLON]"

definition IncludeStatementContext :: "accessor list" where
  "IncludeStatementContext =
    [TokenOne qasm3ParserINCLUDE, TokenOne qasm3ParserStringLiteral, TokenOne qasm3ParserSEMICOLON]"

definition BreakStatementContext :: "accessor list" where
  "BreakStatementContext =
    [TokenOne qasm3ParserBREAK, TokenOne qasm3ParserSEMICOLON]"

definition ContinueStatementContext :: "accessor list" where
  "ContinueStatementContext =
    [TokenOne qasm3ParserCONTINUE, TokenOne qasm3ParserSEMICOLON]"

definition EndStatementContext :: "accessor list" where
  "EndStatementContext =
    [TokenOne qasm3ParserEND, TokenOne qasm3ParserSEMICOLON]"

definition ForStatementContext :: "accessor list" where
  "ForStatementContext =
    [TokenOne qasm3ParserFOR, RuleOne qasm3ParserRULE_scalarType, TokenAll qasm3ParserIdentifier, TokenNth
     qasm3ParserIdentifier, TokenOne qasm3ParserIN, RuleOne qasm3ParserRULE_statementOrScope, RuleOne
     qasm3ParserRULE_setExpression, TokenOne qasm3ParserLBRACKET, RuleOne qasm3ParserRULE_rangeExpression, TokenOne
     qasm3ParserRBRACKET]"

definition IfStatementContext :: "accessor list" where
  "IfStatementContext =
    [TokenOne qasm3ParserIF, TokenOne qasm3ParserLPAREN, RuleOne qasm3ParserRULE_expression, TokenOne
     qasm3ParserRPAREN, RuleAll qasm3ParserRULE_statementOrScope, RuleNth qasm3ParserRULE_statementOrScope, TokenOne
     qasm3ParserELSE]"

definition ReturnStatementContext :: "accessor list" where
  "ReturnStatementContext =
    [TokenOne qasm3ParserRETURN, TokenOne qasm3ParserSEMICOLON, RuleOne qasm3ParserRULE_expression, RuleOne
     qasm3ParserRULE_measureExpression]"

definition WhileStatementContext :: "accessor list" where
  "WhileStatementContext =
    [TokenOne qasm3ParserWHILE, TokenOne qasm3ParserLPAREN, RuleOne qasm3ParserRULE_expression, TokenOne
     qasm3ParserRPAREN, RuleOne qasm3ParserRULE_statementOrScope]"

definition BarrierStatementContext :: "accessor list" where
  "BarrierStatementContext =
    [TokenOne qasm3ParserBARRIER, TokenOne qasm3ParserSEMICOLON, RuleOne qasm3ParserRULE_gateOperandList]"

definition BoxStatementContext :: "accessor list" where
  "BoxStatementContext =
    [TokenOne qasm3ParserBOX, RuleOne qasm3ParserRULE_scope, RuleOne qasm3ParserRULE_designator]"

definition DelayStatementContext :: "accessor list" where
  "DelayStatementContext =
    [TokenOne qasm3ParserDELAY, RuleOne qasm3ParserRULE_designator, TokenOne qasm3ParserSEMICOLON, RuleOne
     qasm3ParserRULE_gateOperandList]"

definition GateCallStatementContext :: "accessor list" where
  "GateCallStatementContext =
    [TokenOne qasm3ParserIdentifier, RuleOne qasm3ParserRULE_gateOperandList, TokenOne qasm3ParserSEMICOLON, RuleAll
     qasm3ParserRULE_gateModifier, RuleNth qasm3ParserRULE_gateModifier, TokenOne qasm3ParserLPAREN, TokenOne
     qasm3ParserRPAREN, RuleOne qasm3ParserRULE_designator, RuleOne qasm3ParserRULE_expressionList, TokenOne
     qasm3ParserGPHASE]"

definition MeasureArrowAssignmentStatementContext :: "accessor list" where
  "MeasureArrowAssignmentStatementContext =
    [RuleOne qasm3ParserRULE_measureExpression, TokenOne qasm3ParserSEMICOLON, TokenOne qasm3ParserARROW, RuleOne
     qasm3ParserRULE_indexedIdentifier]"

definition ResetStatementContext :: "accessor list" where
  "ResetStatementContext =
    [TokenOne qasm3ParserRESET, RuleOne qasm3ParserRULE_gateOperand, TokenOne qasm3ParserSEMICOLON]"

definition AliasDeclarationStatementContext :: "accessor list" where
  "AliasDeclarationStatementContext =
    [TokenOne qasm3ParserLET, TokenOne qasm3ParserIdentifier, TokenOne qasm3ParserEQUALS, RuleOne
     qasm3ParserRULE_aliasExpression, TokenOne qasm3ParserSEMICOLON]"

definition ClassicalDeclarationStatementContext :: "accessor list" where
  "ClassicalDeclarationStatementContext =
    [TokenOne qasm3ParserIdentifier, TokenOne qasm3ParserSEMICOLON, RuleOne qasm3ParserRULE_scalarType, RuleOne
     qasm3ParserRULE_arrayType, TokenOne qasm3ParserEQUALS, RuleOne qasm3ParserRULE_declarationExpression]"

definition ConstDeclarationStatementContext :: "accessor list" where
  "ConstDeclarationStatementContext =
    [TokenOne qasm3ParserCONST, RuleOne qasm3ParserRULE_scalarType, TokenOne qasm3ParserIdentifier, TokenOne
     qasm3ParserEQUALS, RuleOne qasm3ParserRULE_declarationExpression, TokenOne qasm3ParserSEMICOLON]"

definition IoDeclarationStatementContext :: "accessor list" where
  "IoDeclarationStatementContext =
    [TokenOne qasm3ParserIdentifier, TokenOne qasm3ParserSEMICOLON, TokenOne qasm3ParserINPUT, TokenOne
     qasm3ParserOUTPUT, RuleOne qasm3ParserRULE_scalarType, RuleOne qasm3ParserRULE_arrayType]"

definition OldStyleDeclarationStatementContext :: "accessor list" where
  "OldStyleDeclarationStatementContext =
    [TokenOne qasm3ParserIdentifier, TokenOne qasm3ParserSEMICOLON, TokenOne qasm3ParserCREG, TokenOne
     qasm3ParserQREG, RuleOne qasm3ParserRULE_designator]"

definition QuantumDeclarationStatementContext :: "accessor list" where
  "QuantumDeclarationStatementContext =
    [RuleOne qasm3ParserRULE_qubitType, TokenOne qasm3ParserIdentifier, TokenOne qasm3ParserSEMICOLON]"

definition DefStatementContext :: "accessor list" where
  "DefStatementContext =
    [TokenOne qasm3ParserDEF, TokenOne qasm3ParserIdentifier, TokenOne qasm3ParserLPAREN, TokenOne qasm3ParserRPAREN,
     RuleOne qasm3ParserRULE_scope, RuleOne qasm3ParserRULE_argumentDefinitionList, RuleOne
     qasm3ParserRULE_returnSignature]"

definition ExternStatementContext :: "accessor list" where
  "ExternStatementContext =
    [TokenOne qasm3ParserEXTERN, TokenOne qasm3ParserIdentifier, TokenOne qasm3ParserLPAREN, TokenOne
     qasm3ParserRPAREN, TokenOne qasm3ParserSEMICOLON, RuleOne qasm3ParserRULE_externArgumentList, RuleOne
     qasm3ParserRULE_returnSignature]"

definition GateStatementContext :: "accessor list" where
  "GateStatementContext =
    [TokenOne qasm3ParserGATE, TokenOne qasm3ParserIdentifier, RuleOne qasm3ParserRULE_scope, RuleAll
     qasm3ParserRULE_identifierList, RuleNth qasm3ParserRULE_identifierList, TokenOne qasm3ParserLPAREN, TokenOne
     qasm3ParserRPAREN]"

definition AssignmentStatementContext :: "accessor list" where
  "AssignmentStatementContext =
    [RuleOne qasm3ParserRULE_indexedIdentifier, TokenOne qasm3ParserSEMICOLON, TokenOne qasm3ParserEQUALS, TokenOne
     qasm3ParserCompoundAssignmentOperator, RuleOne qasm3ParserRULE_expression, RuleOne
     qasm3ParserRULE_measureExpression]"

definition ExpressionStatementContext :: "accessor list" where
  "ExpressionStatementContext =
    [RuleOne qasm3ParserRULE_expression, TokenOne qasm3ParserSEMICOLON]"

definition CalStatementContext :: "accessor list" where
  "CalStatementContext =
    [TokenOne qasm3ParserCAL, TokenOne qasm3ParserLBRACE, TokenOne qasm3ParserRBRACE, TokenOne
     qasm3ParserCalibrationBlock]"

definition DefcalStatementContext :: "accessor list" where
  "DefcalStatementContext =
    [TokenOne qasm3ParserDEFCAL, RuleOne qasm3ParserRULE_defcalTarget, RuleOne qasm3ParserRULE_defcalOperandList,
     TokenOne qasm3ParserLBRACE, TokenOne qasm3ParserRBRACE, TokenOne qasm3ParserLPAREN, TokenOne qasm3ParserRPAREN,
     RuleOne qasm3ParserRULE_returnSignature, TokenOne qasm3ParserCalibrationBlock, RuleOne
     qasm3ParserRULE_defcalArgumentDefinitionList]"

definition BitwiseXorExpressionContext :: "accessor list" where
  "BitwiseXorExpressionContext =
    [RuleAll qasm3ParserRULE_expression, RuleNth qasm3ParserRULE_expression, TokenOne qasm3ParserCARET]"

definition AdditiveExpressionContext :: "accessor list" where
  "AdditiveExpressionContext =
    [RuleAll qasm3ParserRULE_expression, RuleNth qasm3ParserRULE_expression, TokenOne qasm3ParserPLUS, TokenOne
     qasm3ParserMINUS]"

definition DurationofExpressionContext :: "accessor list" where
  "DurationofExpressionContext =
    [TokenOne qasm3ParserDURATIONOF, TokenOne qasm3ParserLPAREN, RuleOne qasm3ParserRULE_scope, TokenOne
     qasm3ParserRPAREN]"

definition ParenthesisExpressionContext :: "accessor list" where
  "ParenthesisExpressionContext =
    [TokenOne qasm3ParserLPAREN, RuleOne qasm3ParserRULE_expression, TokenOne qasm3ParserRPAREN]"

definition ComparisonExpressionContext :: "accessor list" where
  "ComparisonExpressionContext =
    [RuleAll qasm3ParserRULE_expression, RuleNth qasm3ParserRULE_expression, TokenOne qasm3ParserComparisonOperator]"

definition MultiplicativeExpressionContext :: "accessor list" where
  "MultiplicativeExpressionContext =
    [RuleAll qasm3ParserRULE_expression, RuleNth qasm3ParserRULE_expression, TokenOne qasm3ParserASTERISK, TokenOne
     qasm3ParserSLASH, TokenOne qasm3ParserPERCENT]"

definition LogicalOrExpressionContext :: "accessor list" where
  "LogicalOrExpressionContext =
    [RuleAll qasm3ParserRULE_expression, RuleNth qasm3ParserRULE_expression, TokenOne qasm3ParserDOUBLE_PIPE]"

definition CastExpressionContext :: "accessor list" where
  "CastExpressionContext =
    [TokenOne qasm3ParserLPAREN, RuleOne qasm3ParserRULE_expression, TokenOne qasm3ParserRPAREN, RuleOne
     qasm3ParserRULE_scalarType, RuleOne qasm3ParserRULE_arrayType]"

definition PowerExpressionContext :: "accessor list" where
  "PowerExpressionContext =
    [RuleAll qasm3ParserRULE_expression, RuleNth qasm3ParserRULE_expression, TokenOne qasm3ParserDOUBLE_ASTERISK]"

definition BitwiseOrExpressionContext :: "accessor list" where
  "BitwiseOrExpressionContext =
    [RuleAll qasm3ParserRULE_expression, RuleNth qasm3ParserRULE_expression, TokenOne qasm3ParserPIPE]"

definition CallExpressionContext :: "accessor list" where
  "CallExpressionContext =
    [TokenOne qasm3ParserIdentifier, TokenOne qasm3ParserLPAREN, TokenOne qasm3ParserRPAREN, RuleOne
     qasm3ParserRULE_expressionList]"

definition BitshiftExpressionContext :: "accessor list" where
  "BitshiftExpressionContext =
    [RuleAll qasm3ParserRULE_expression, RuleNth qasm3ParserRULE_expression, TokenOne qasm3ParserBitshiftOperator]"

definition BitwiseAndExpressionContext :: "accessor list" where
  "BitwiseAndExpressionContext =
    [RuleAll qasm3ParserRULE_expression, RuleNth qasm3ParserRULE_expression, TokenOne qasm3ParserAMPERSAND]"

definition EqualityExpressionContext :: "accessor list" where
  "EqualityExpressionContext =
    [RuleAll qasm3ParserRULE_expression, RuleNth qasm3ParserRULE_expression, TokenOne qasm3ParserEqualityOperator]"

definition LogicalAndExpressionContext :: "accessor list" where
  "LogicalAndExpressionContext =
    [RuleAll qasm3ParserRULE_expression, RuleNth qasm3ParserRULE_expression, TokenOne qasm3ParserDOUBLE_AMPERSAND]"

definition IndexExpressionContext :: "accessor list" where
  "IndexExpressionContext =
    [RuleOne qasm3ParserRULE_expression, RuleOne qasm3ParserRULE_indexOperator]"

definition UnaryExpressionContext :: "accessor list" where
  "UnaryExpressionContext =
    [RuleOne qasm3ParserRULE_expression, TokenOne qasm3ParserTILDE, TokenOne qasm3ParserEXCLAMATION_POINT, TokenOne
     qasm3ParserMINUS]"

definition LiteralExpressionContext :: "accessor list" where
  "LiteralExpressionContext =
    [TokenOne qasm3ParserIdentifier, TokenOne qasm3ParserBinaryIntegerLiteral, TokenOne
     qasm3ParserOctalIntegerLiteral, TokenOne qasm3ParserDecimalIntegerLiteral, TokenOne qasm3ParserHexIntegerLiteral,
     TokenOne qasm3ParserFloatLiteral, TokenOne qasm3ParserImaginaryLiteral, TokenOne qasm3ParserBooleanLiteral,
     TokenOne qasm3ParserBitstringLiteral, TokenOne qasm3ParserTimingLiteral, TokenOne qasm3ParserHardwareQubit]"

definition AliasExpressionContext :: "accessor list" where
  "AliasExpressionContext =
    [RuleAll qasm3ParserRULE_expression, RuleNth qasm3ParserRULE_expression, TokenAll qasm3ParserDOUBLE_PLUS, TokenNth
     qasm3ParserDOUBLE_PLUS]"

definition DeclarationExpressionContext :: "accessor list" where
  "DeclarationExpressionContext =
    [RuleOne qasm3ParserRULE_arrayLiteral, RuleOne qasm3ParserRULE_expression, RuleOne
     qasm3ParserRULE_measureExpression]"

definition MeasureExpressionContext :: "accessor list" where
  "MeasureExpressionContext =
    [TokenOne qasm3ParserMEASURE, RuleOne qasm3ParserRULE_gateOperand]"

definition RangeExpressionContext :: "accessor list" where
  "RangeExpressionContext =
    [TokenAll qasm3ParserCOLON, TokenNth qasm3ParserCOLON, RuleAll qasm3ParserRULE_expression, RuleNth
     qasm3ParserRULE_expression]"

definition SetExpressionContext :: "accessor list" where
  "SetExpressionContext =
    [TokenOne qasm3ParserLBRACE, RuleAll qasm3ParserRULE_expression, RuleNth qasm3ParserRULE_expression, TokenOne
     qasm3ParserRBRACE, TokenAll qasm3ParserCOMMA, TokenNth qasm3ParserCOMMA]"

definition ArrayLiteralContext :: "accessor list" where
  "ArrayLiteralContext =
    [TokenOne qasm3ParserLBRACE, TokenOne qasm3ParserRBRACE, RuleAll qasm3ParserRULE_expression, RuleNth
     qasm3ParserRULE_expression, RuleAll qasm3ParserRULE_arrayLiteral, RuleNth qasm3ParserRULE_arrayLiteral, TokenAll
     qasm3ParserCOMMA, TokenNth qasm3ParserCOMMA]"

definition IndexOperatorContext :: "accessor list" where
  "IndexOperatorContext =
    [TokenOne qasm3ParserLBRACKET, TokenOne qasm3ParserRBRACKET, RuleOne qasm3ParserRULE_setExpression, RuleAll
     qasm3ParserRULE_expression, RuleNth qasm3ParserRULE_expression, RuleAll qasm3ParserRULE_rangeExpression, RuleNth
     qasm3ParserRULE_rangeExpression, TokenAll qasm3ParserCOMMA, TokenNth qasm3ParserCOMMA]"

definition IndexedIdentifierContext :: "accessor list" where
  "IndexedIdentifierContext =
    [TokenOne qasm3ParserIdentifier, RuleAll qasm3ParserRULE_indexOperator, RuleNth qasm3ParserRULE_indexOperator]"

definition ReturnSignatureContext :: "accessor list" where
  "ReturnSignatureContext =
    [TokenOne qasm3ParserARROW, RuleOne qasm3ParserRULE_scalarType]"

definition GateModifierContext :: "accessor list" where
  "GateModifierContext =
    [TokenOne qasm3ParserAT, TokenOne qasm3ParserINV, TokenOne qasm3ParserPOW, TokenOne qasm3ParserLPAREN, RuleOne
     qasm3ParserRULE_expression, TokenOne qasm3ParserRPAREN, TokenOne qasm3ParserCTRL, TokenOne qasm3ParserNEGCTRL]"

definition ScalarTypeContext :: "accessor list" where
  "ScalarTypeContext =
    [TokenOne qasm3ParserBIT, RuleOne qasm3ParserRULE_designator, TokenOne qasm3ParserINT, TokenOne qasm3ParserUINT,
     TokenOne qasm3ParserFLOAT, TokenOne qasm3ParserANGLE, TokenOne qasm3ParserBOOL, TokenOne qasm3ParserDURATION,
     TokenOne qasm3ParserSTRETCH, TokenOne qasm3ParserCOMPLEX, TokenOne qasm3ParserLBRACKET, RuleOne
     qasm3ParserRULE_scalarType, TokenOne qasm3ParserRBRACKET]"

definition QubitTypeContext :: "accessor list" where
  "QubitTypeContext =
    [TokenOne qasm3ParserQUBIT, RuleOne qasm3ParserRULE_designator]"

definition ArrayTypeContext :: "accessor list" where
  "ArrayTypeContext =
    [TokenOne qasm3ParserARRAY, TokenOne qasm3ParserLBRACKET, RuleOne qasm3ParserRULE_scalarType, TokenOne
     qasm3ParserCOMMA, RuleOne qasm3ParserRULE_expressionList, TokenOne qasm3ParserRBRACKET]"

definition ArrayReferenceTypeContext :: "accessor list" where
  "ArrayReferenceTypeContext =
    [TokenOne qasm3ParserARRAY, TokenOne qasm3ParserLBRACKET, RuleOne qasm3ParserRULE_scalarType, TokenOne
     qasm3ParserCOMMA, TokenOne qasm3ParserRBRACKET, TokenOne qasm3ParserCONST, TokenOne qasm3ParserMUTABLE, RuleOne
     qasm3ParserRULE_expressionList, TokenOne qasm3ParserDIM, TokenOne qasm3ParserEQUALS, RuleOne
     qasm3ParserRULE_expression]"

definition DesignatorContext :: "accessor list" where
  "DesignatorContext =
    [TokenOne qasm3ParserLBRACKET, RuleOne qasm3ParserRULE_expression, TokenOne qasm3ParserRBRACKET]"

definition DefcalTargetContext :: "accessor list" where
  "DefcalTargetContext =
    [TokenOne qasm3ParserMEASURE, TokenOne qasm3ParserRESET, TokenOne qasm3ParserDELAY, TokenOne
     qasm3ParserIdentifier]"

definition DefcalArgumentDefinitionContext :: "accessor list" where
  "DefcalArgumentDefinitionContext =
    [RuleOne qasm3ParserRULE_expression, RuleOne qasm3ParserRULE_argumentDefinition]"

definition DefcalOperandContext :: "accessor list" where
  "DefcalOperandContext =
    [TokenOne qasm3ParserHardwareQubit, TokenOne qasm3ParserIdentifier]"

definition GateOperandContext :: "accessor list" where
  "GateOperandContext =
    [RuleOne qasm3ParserRULE_indexedIdentifier, TokenOne qasm3ParserHardwareQubit]"

definition ExternArgumentContext :: "accessor list" where
  "ExternArgumentContext =
    [RuleOne qasm3ParserRULE_scalarType, RuleOne qasm3ParserRULE_arrayReferenceType, TokenOne qasm3ParserCREG, RuleOne
     qasm3ParserRULE_designator]"

definition ArgumentDefinitionContext :: "accessor list" where
  "ArgumentDefinitionContext =
    [RuleOne qasm3ParserRULE_scalarType, TokenOne qasm3ParserIdentifier, RuleOne qasm3ParserRULE_qubitType, TokenOne
     qasm3ParserCREG, TokenOne qasm3ParserQREG, RuleOne qasm3ParserRULE_designator, RuleOne
     qasm3ParserRULE_arrayReferenceType]"

definition ArgumentDefinitionListContext :: "accessor list" where
  "ArgumentDefinitionListContext =
    [RuleAll qasm3ParserRULE_argumentDefinition, RuleNth qasm3ParserRULE_argumentDefinition, TokenAll
     qasm3ParserCOMMA, TokenNth qasm3ParserCOMMA]"

definition DefcalArgumentDefinitionListContext :: "accessor list" where
  "DefcalArgumentDefinitionListContext =
    [RuleAll qasm3ParserRULE_defcalArgumentDefinition, RuleNth qasm3ParserRULE_defcalArgumentDefinition, TokenAll
     qasm3ParserCOMMA, TokenNth qasm3ParserCOMMA]"

definition DefcalOperandListContext :: "accessor list" where
  "DefcalOperandListContext =
    [RuleAll qasm3ParserRULE_defcalOperand, RuleNth qasm3ParserRULE_defcalOperand, TokenAll qasm3ParserCOMMA, TokenNth
     qasm3ParserCOMMA]"

definition ExpressionListContext :: "accessor list" where
  "ExpressionListContext =
    [RuleAll qasm3ParserRULE_expression, RuleNth qasm3ParserRULE_expression, TokenAll qasm3ParserCOMMA, TokenNth
     qasm3ParserCOMMA]"

definition IdentifierListContext :: "accessor list" where
  "IdentifierListContext =
    [TokenAll qasm3ParserIdentifier, TokenNth qasm3ParserIdentifier, TokenAll qasm3ParserCOMMA, TokenNth
     qasm3ParserCOMMA]"

definition GateOperandListContext :: "accessor list" where
  "GateOperandListContext =
    [RuleAll qasm3ParserRULE_gateOperand, RuleNth qasm3ParserRULE_gateOperand, TokenAll qasm3ParserCOMMA, TokenNth
     qasm3ParserCOMMA]"

definition ExternArgumentListContext :: "accessor list" where
  "ExternArgumentListContext =
    [RuleAll qasm3ParserRULE_externArgument, RuleNth qasm3ParserRULE_externArgument, TokenAll qasm3ParserCOMMA,
     TokenNth qasm3ParserCOMMA]"

text \<open>By the rule, and for an expression by the label.\<close>

definition context_table :: "accessor list list" where
  "context_table =
    [ProgramContext, VersionContext, StatementContext, AnnotationContext, ScopeContext, PragmaContext,
     StatementOrScopeContext, CalibrationGrammarStatementContext, IncludeStatementContext, BreakStatementContext,
     ContinueStatementContext, EndStatementContext, ForStatementContext, IfStatementContext, ReturnStatementContext,
     WhileStatementContext, BarrierStatementContext, BoxStatementContext, DelayStatementContext,
     GateCallStatementContext, MeasureArrowAssignmentStatementContext, ResetStatementContext,
     AliasDeclarationStatementContext, ClassicalDeclarationStatementContext, ConstDeclarationStatementContext,
     IoDeclarationStatementContext, OldStyleDeclarationStatementContext, QuantumDeclarationStatementContext,
     DefStatementContext, ExternStatementContext, GateStatementContext, AssignmentStatementContext,
     ExpressionStatementContext, CalStatementContext, DefcalStatementContext, [], AliasExpressionContext,
     DeclarationExpressionContext, MeasureExpressionContext, RangeExpressionContext, SetExpressionContext,
     ArrayLiteralContext, IndexOperatorContext, IndexedIdentifierContext, ReturnSignatureContext, GateModifierContext,
     ScalarTypeContext, QubitTypeContext, ArrayTypeContext, ArrayReferenceTypeContext, DesignatorContext,
     DefcalTargetContext, DefcalArgumentDefinitionContext, DefcalOperandContext, GateOperandContext,
     ExternArgumentContext, ArgumentDefinitionContext, ArgumentDefinitionListContext,
     DefcalArgumentDefinitionListContext, DefcalOperandListContext, ExpressionListContext, IdentifierListContext,
     GateOperandListContext, ExternArgumentListContext]"

definition expression_contexts :: "(string \<times> accessor list) list" where
  "expression_contexts =
    [(''BitwiseXorExpression'', BitwiseXorExpressionContext), (''AdditiveExpression'', AdditiveExpressionContext),
     (''DurationofExpression'', DurationofExpressionContext), (''ParenthesisExpression'',
     ParenthesisExpressionContext), (''ComparisonExpression'', ComparisonExpressionContext),
     (''MultiplicativeExpression'', MultiplicativeExpressionContext), (''LogicalOrExpression'',
     LogicalOrExpressionContext), (''CastExpression'', CastExpressionContext), (''PowerExpression'',
     PowerExpressionContext), (''BitwiseOrExpression'', BitwiseOrExpressionContext), (''CallExpression'',
     CallExpressionContext), (''BitshiftExpression'', BitshiftExpressionContext), (''BitwiseAndExpression'',
     BitwiseAndExpressionContext), (''EqualityExpression'', EqualityExpressionContext), (''LogicalAndExpression'',
     LogicalAndExpressionContext), (''IndexExpression'', IndexExpressionContext), (''UnaryExpression'',
     UnaryExpressionContext), (''LiteralExpression'', LiteralExpressionContext)]"

definition context_of :: "nat \<Rightarrow> string \<Rightarrow> accessor list" where
  "context_of r l =
    (if r = qasm3ParserRULE_expression then (case map_of expression_contexts l of Some as \<Rightarrow> as | None \<Rightarrow> [])
     else if r < length context_table then context_table ! r else [])"

section \<open>What the functions return\<close>

lemma count_children_filter: "count_children f cs = length (filter f cs)"
  by (induction cs) auto

lemma fill_children_filter:
  "length tst = i + length (filter f cs) \<Longrightarrow> fill_children f i tst cs = take i tst @ map Some (filter f cs)"
proof (induction f i tst cs rule: fill_children.induct)
  case (2 f i tst c cs)
  then show ?case
    by (auto simp: take_Suc_conv_app_nth)
qed simp

lemma all_children_filter: "all_children f cs = map Some (filter f cs)"
  by (simp add: all_children_def fill_children_filter count_children_filter)

lemma first_child_filter: "first_child f cs = (case filter f cs of [] \<Rightarrow> None | c # _ \<Rightarrow> Some c)"
  by (induction cs) auto

lemma nth_child_filter:
  "j \<le> i \<Longrightarrow> nth_child f i j cs = (if i - j < length (filter f cs) then Some (filter f cs ! (i - j)) else None)"
proof (induction f i j cs rule: nth_child.induct)
  case (2 f i j c cs)
  show ?case
  proof (cases "f c \<and> j \<noteq> i")
    case True
    then have "i - j = Suc (i - (j + 1))"
      using 2(3) by linarith
    then show ?thesis
      using 2 True by simp
  qed (use 2 in auto)
qed simp

section \<open>The functions fit the grammar\<close>

text \<open>How often a child of a kind can occur: never, once, or more often (2).\<close>

fun larger :: "nat \<Rightarrow> nat \<Rightarrow> nat" where
  "larger 0 n = n"
| "larger (Suc m) 0 = Suc m"
| "larger (Suc m) (Suc n) = Suc (larger m n)"

lemma larger_max: "larger m n = max m n"
  by (induction m n rule: larger.induct) auto

fun occurs_tok :: "int \<Rightarrow> ebnf \<Rightarrow> nat" where
  "occurs_tok t (Tok ls) = (if t \<in> set ls then 1 else 0)"
| "occurs_tok t (NT r) = 0"
| "occurs_tok t (Seq es) = sum_list (map (occurs_tok t) es)"
| "occurs_tok t (Alt es) = foldr larger (map (occurs_tok t) es) 0"
| "occurs_tok t (Opt e) = occurs_tok t e"
| "occurs_tok t (Star e) = (if occurs_tok t e = 0 then 0 else 2)"

fun occurs_rule :: "nat \<Rightarrow> ebnf \<Rightarrow> nat" where
  "occurs_rule q (Tok ls) = 0"
| "occurs_rule q (NT r) = (if r = q then 1 else 0)"
| "occurs_rule q (Seq es) = sum_list (map (occurs_rule q) es)"
| "occurs_rule q (Alt es) = foldr larger (map (occurs_rule q) es) 0"
| "occurs_rule q (Opt e) = occurs_rule q e"
| "occurs_rule q (Star e) = (if occurs_rule q e = 0 then 0 else 2)"

fun tokens_in :: "ebnf \<Rightarrow> int list" where
  "tokens_in (Tok ls) = ls"
| "tokens_in (NT r) = []"
| "tokens_in (Seq es) = concat (map tokens_in es)"
| "tokens_in (Alt es) = concat (map tokens_in es)"
| "tokens_in (Opt e) = tokens_in e"
| "tokens_in (Star e) = tokens_in e"

fun rules_in :: "ebnf \<Rightarrow> nat list" where
  "rules_in (Tok ls) = []"
| "rules_in (NT r) = [r]"
| "rules_in (Seq es) = concat (map rules_in es)"
| "rules_in (Alt es) = concat (map rules_in es)"
| "rules_in (Opt e) = rules_in e"
| "rules_in (Star e) = rules_in e"

text \<open>
  A context fits a right-hand side: it has a function for every token and every rule there, and one that returns
  a single child exactly for what can occur once only; for all others one that returns all and one that
  returns the \<open>i\<close>-th.
\<close>

definition context_fits :: "accessor list \<Rightarrow> ebnf \<Rightarrow> bool" where
  "context_fits as e \<longleftrightarrow>
    list_all (\<lambda>t. if occurs_tok t e = 1 then TokenOne t \<in> set as else TokenAll t \<in> set as \<and> TokenNth t \<in> set as) (tokens_in e) \<and>
    list_all (\<lambda>r. if occurs_rule r e = 1 then RuleOne r \<in> set as else RuleAll r \<in> set as \<and> RuleNth r \<in> set as) (rules_in e) \<and>
    list_all (\<lambda>a. case a of
        TokenOne t \<Rightarrow> occurs_tok t e = 1 | TokenAll t \<Rightarrow> occurs_tok t e > 1 | TokenNth t \<Rightarrow> occurs_tok t e > 1
      | RuleOne r \<Rightarrow> occurs_rule r e = 1 | RuleAll r \<Rightarrow> occurs_rule r e > 1 | RuleNth r \<Rightarrow> occurs_rule r e > 1) as"

lemma contexts_fit: "list_all (\<lambda>r. r = 35 \<or> context_fits (context_table ! r) (g4_rules ! r)) [0..<64]"
  by code_simp

lemma expression_contexts_fit:
  "list_all (\<lambda>(l, e). context_fits (context_of 35 l) e) g4_expression"
  by code_simp


lemma foldr_larger: "e \<in> set es \<Longrightarrow> f e \<le> foldr larger (map f es) (0 :: nat)"
  by (induction es) (auto simp: larger_max)

lemma occurs_tok_matches: "matches e cs \<Longrightarrow> occurs_tok t e \<le> 1 \<Longrightarrow> length (filter (is_token t) cs) \<le> occurs_tok t e"
proof (induction rule: matches.induct)
  case (Alt e es xs)
  then show ?case
    using foldr_larger [of e es "occurs_tok t"] by simp
qed (auto split: if_splits)

lemma occurs_rule_matches: "matches e cs \<Longrightarrow> occurs_rule r e \<le> 1 \<Longrightarrow> length (filter (is_rule r) cs) \<le> occurs_rule r e"
proof (induction rule: matches.induct)
  case (Alt e es xs)
  then show ?case
    using foldr_larger [of e es "occurs_rule r"] by simp
qed (auto split: if_splits)

lemma child_in_rhs:
  "matches e cs \<Longrightarrow> c \<in> set cs \<Longrightarrow>
    (case c of TerminalNode k \<Rightarrow> GetTokenType k \<in> set (tokens_in e) | RuleNode r l ds \<Rightarrow> r \<in> set (rules_in e))"
  by (induction rule: matches.induct) (auto split: ParseTree.splits)

lemma single_child: "length (filter f cs) \<le> 1 \<Longrightarrow> c \<in> set cs \<Longrightarrow> f c \<Longrightarrow> first_child f cs = Some c"
proof -
  assume "length (filter f cs) \<le> 1" "c \<in> set cs" "f c"
  then have "c \<in> set (filter f cs)" "length (filter f cs) \<le> 1"
    by simp_all
  then have "filter f cs = [c]"
    by (cases "filter f cs") (auto simp del: set_filter)
  then show ?thesis
    by (simp add: first_child_filter)
qed

lemma context_fits_derivation:
  assumes "derivation qasm3_grammar (RuleNode r l cs)" and "r < 64"
  obtains e where "context_fits (context_of r l) e" and "matches e cs"
proof -
  obtain e where e: "(l, e) \<in> set (qasm3_grammar r)" "matches e cs"
    using assms(1) by (cases rule: derivation.cases) auto
  have "context_fits (context_of r l) e"
  proof (cases "r = 35")
    case True
    then show ?thesis
      using e(1) expression_contexts_fit by (fastforce simp: qasm3_grammar_def list_all_iff)
  next
    case False
    moreover have "length context_table = 64"
      by (simp add: context_table_def)
    ultimately show ?thesis
      using e(1) assms(2) below_64 [OF contexts_fit, of r] by (simp add: qasm3_grammar_def context_of_def rule_tables)
  qed
  with e(2) show ?thesis
    using that by blast
qed

text \<open>
  C18: In every tree of the grammar, each child of a node is returned by a function of the node's context: a child of
  a kind that occurs only once by the function that returns the first child of that kind, any other by the one
  that returns all of them.
\<close>

theorem accessors_reach_children:
  assumes "derivation qasm3_grammar (RuleNode r l cs)" and "r < 64" and "c \<in> set cs"
  shows "case c of
      TerminalNode k \<Rightarrow>
        TokenOne (GetTokenType k) \<in> set (context_of r l) \<and> first_child (is_token (GetTokenType k)) cs = Some c \<or>
        TokenAll (GetTokenType k) \<in> set (context_of r l) \<and> Some c \<in> set (all_children (is_token (GetTokenType k)) cs)
    | RuleNode q _ _ \<Rightarrow>
        RuleOne q \<in> set (context_of r l) \<and> first_child (is_rule q) cs = Some c \<or>
        RuleAll q \<in> set (context_of r l) \<and> Some c \<in> set (all_children (is_rule q) cs)"
proof -
  obtain e where e: "context_fits (context_of r l) e" "matches e cs"
    using context_fits_derivation [OF assms(1,2)] .
  show ?thesis
  proof (cases c)
    case (TerminalNode k)
    let ?t = "GetTokenType k"
    have "?t \<in> set (tokens_in e)"
      using child_in_rhs [OF e(2) assms(3)] TerminalNode by simp
    then have a: "if occurs_tok ?t e = 1 then TokenOne ?t \<in> set (context_of r l) else TokenAll ?t \<in> set (context_of r l)"
      using e(1) by (auto simp: context_fits_def list_all_iff split: if_splits)
    have "first_child (is_token ?t) cs = Some c" if "occurs_tok ?t e = 1"
      using occurs_tok_matches [OF e(2), of ?t] that assms(3) TerminalNode by (intro single_child) auto
    then show ?thesis
      using a assms(3) TerminalNode by (auto simp: all_children_filter split: if_splits)
  next
    case (RuleNode q l' ds)
    have "q \<in> set (rules_in e)"
      using child_in_rhs [OF e(2) assms(3)] RuleNode by simp
    then have a: "if occurs_rule q e = 1 then RuleOne q \<in> set (context_of r l) else RuleAll q \<in> set (context_of r l)"
      using e(1) by (auto simp: context_fits_def list_all_iff split: if_splits)
    have "first_child (is_rule q) cs = Some c" if "occurs_rule q e = 1"
      using occurs_rule_matches [OF e(2), of q] that assms(3) RuleNode by (intro single_child) auto
    then show ?thesis
      using a assms(3) RuleNode by (auto simp: all_children_filter split: if_splits)
  qed
qed

theorem accessors_reach_children_witness:
  "let semi = TerminalNode \<lparr>GetTokenType = qasm3ParserSEMICOLON, GetText = '';''\<rparr>;
       brk = TerminalNode \<lparr>GetTokenType = qasm3ParserBREAK, GetText = ''break''\<rparr> in
   derivation qasm3_grammar (RuleNode qasm3ParserRULE_breakStatement [] [brk, semi]) \<and>
   first_child (is_token qasm3ParserSEMICOLON) [brk, semi] = Some semi"
proof -
  let ?semi = "TerminalNode \<lparr>GetTokenType = qasm3ParserSEMICOLON, GetText = '';''\<rparr>"
  let ?brk = "TerminalNode \<lparr>GetTokenType = qasm3ParserBREAK, GetText = ''break''\<rparr>"
  have "matches (Seq [Tok [11], Tok [58]]) ([?brk] @ [?semi] @ [])"
    by (intro matches.Seq_Cons matches.Tok matches.Seq_Nil) simp_all
  moreover have "([], Seq [Tok [11], Tok [58]]) \<in> set (qasm3_grammar 9)"
    by (simp add: qasm3_grammar_def g4_rules_def)
  ultimately have d: "derivation qasm3_grammar (RuleNode 9 [] [?brk, ?semi])"
    by (intro derivation.Rule) (auto intro: derivation.Terminal)
  moreover have "TokenAll 58 \<notin> set (context_of 9 [])"
    by (simp add: context_of_def context_table_def BreakStatementContext_def)
  ultimately show ?thesis
    using accessors_reach_children [OF d, of ?semi] by simp
qed

end
