(* ===== verification/Qasm_Circuit.thy ===== *)
theory Qasm_Circuit
  imports Circuit Qasm_Parser Qasm_Contexts
begin

text \<open>
  From the text of a program to the validation of the circuit (\<open>coreapp/qpu/circuit.go\<close>, \<open>ir.go\<close>): the tree of the
  generated parser is what the statement filters and the listener of the intermediate representation read.

  The lexer and the runtime of ANTLR are arguments: \<open>tokenize\<close> gives the tokens of the default channel up to the end
  of the input, \<open>A\<close> the predictions, \<open>reports\<close> what the predictions told the error listener, and \<open>describe\<close> the
  message for an error.
\<close>

section \<open>Nodes\<close>

fun tree_text :: "ParseTree \<Rightarrow> string" where
  "tree_text (TerminalNode k) = GetText k"
| "tree_text (RuleNode r l cs) = concat (map tree_text cs)"

text \<open>The text by which \<open>filterList\<close> names a node: the name of the rule, or the text of a token.\<close>

fun node_text :: "ParseTree \<Rightarrow> string" where
  "node_text (TerminalNode k) = GetText k"
| "node_text (RuleNode r l cs) = ruleNames ! r"

fun statement_name :: "ParseTree \<Rightarrow> string" where
  "statement_name (RuleNode r l (c # cs)) = node_text c"
| "statement_name _ = []"

fun children_of :: "ParseTree \<Rightarrow> ParseTree list" where
  "children_of (RuleNode r l cs) = cs"
| "children_of (TerminalNode k) = []"

definition AllStatement :: "ParseTree list \<Rightarrow> ParseTree list" where
  "AllStatement cs = map the (all_children (is_rule qasm3ParserRULE_statement) cs)"

section \<open>The walk over the tree\<close>

text \<open>
  The callback of the listener when a rule is entered and when it is left, with what it reads from the
  children of the node. Rules that the listener does not handle have the empty callbacks of
  \<open>Baseqasm3ParserListener\<close>.
\<close>

definition text_of_token :: "int \<Rightarrow> ParseTree list \<Rightarrow> (string \<Rightarrow> listener_event) \<Rightarrow> listener_event" where
  "text_of_token t cs f = (case first_child (is_token t) cs of Some k \<Rightarrow> f (tree_text k) | None \<Rightarrow> NilChild)"

definition index_text :: "ParseTree list \<Rightarrow> string option" where
  "index_text cs =
    (case nth_child (is_rule qasm3ParserRULE_indexOperator) 0 0 cs of
       None \<Rightarrow> None
     | Some ix \<Rightarrow> map_option tree_text (nth_child (is_rule qasm3ParserRULE_expression) 0 0 (children_of ix)))"

definition enter_event :: "nat \<Rightarrow> ParseTree list \<Rightarrow> listener_event list" where
  "enter_event r cs =
    (if r = qasm3ParserRULE_program then [EnterProgram]
     else if r = qasm3ParserRULE_version then [text_of_token qasm3ParserVersionSpecifier cs EnterVersion]
     else if r = qasm3ParserRULE_quantumDeclarationStatement then
       [text_of_token qasm3ParserIdentifier cs EnterQuantumDeclaration]
     else if r = qasm3ParserRULE_designator then
       [case first_child (is_rule qasm3ParserRULE_expression) cs of
          Some e \<Rightarrow> EnterDesignator (tree_text e) | None \<Rightarrow> NilChild]
     else if r = qasm3ParserRULE_classicalDeclarationStatement then
       [text_of_token qasm3ParserIdentifier cs EnterClassicalDeclaration]
     else if r = qasm3ParserRULE_gateCallStatement then
       [EnterGateCall (map_option tree_text (first_child (is_token qasm3ParserIdentifier) cs))]
     else if r = qasm3ParserRULE_gateOperandList then [EnterGateOperandList]
     else if r = qasm3ParserRULE_expressionList then [EnterExpressionList]
     else if r = qasm3ParserRULE_indexedIdentifier then
       [text_of_token qasm3ParserIdentifier cs (\<lambda>n. EnterIndexedIdentifier n (index_text cs))]
     else if r = qasm3ParserRULE_assignmentStatement then [EnterAssignment]
     else if r = qasm3ParserRULE_measureExpression then [EnterMeasureExpression]
     else [])"

definition exit_event :: "nat \<Rightarrow> ParseTree list \<Rightarrow> listener_event list" where
  "exit_event r cs =
    (if r = qasm3ParserRULE_quantumDeclarationStatement then [ExitQuantumDeclaration]
     else if r = qasm3ParserRULE_classicalDeclarationStatement then [ExitClassicalDeclaration]
     else if r = qasm3ParserRULE_gateCallStatement then [ExitGateCall]
     else if r = qasm3ParserRULE_expressionList then [ExitExpressionList (concat (map tree_text cs))]
     else if r = qasm3ParserRULE_measureExpression then [ExitMeasureExpression]
     else if r = qasm3ParserRULE_assignmentStatement then [ExitAssignment]
     else [])"

fun walk :: "ParseTree \<Rightarrow> listener_event list" where
  "walk (TerminalNode k) = []"
| "walk (RuleNode r l cs) = enter_event r cs @ concat (map walk cs) @ exit_event r cs"

section \<open>Parsing\<close>

definition circuit_of :: "ParseTree \<Rightarrow> Circuit" where
  "circuit_of t =
    \<lparr>cc_statements = map statement_name (AllStatement (children_of t)), cc_events = walk t\<rparr>"

text \<open>
  A token that does not match cancels the parse without a report; the two exceptions that a rule function
  catches are reported first.
\<close>

definition antlr_parse ::
  "(string \<Rightarrow> Token list) \<Rightarrow> predictor \<Rightarrow> (Token list \<Rightarrow> report list) \<Rightarrow> (parse_error \<Rightarrow> Token list \<Rightarrow> report) \<Rightarrow>
    string \<Rightarrow> (report list \<times> bool) + Circuit" where
  "antlr_parse tokenize A reports describe qasm =
    (case parse_program A (tokenize qasm) of
       Inr (t, _) \<Rightarrow> Inr (circuit_of t)
     | Inl InputMismatch \<Rightarrow> Inl (reports (tokenize qasm), True)
     | Inl e \<Rightarrow> Inl (reports (tokenize qasm) @ [describe e (tokenize qasm)], True))"

section \<open>What the filters see\<close>

definition statement_rules :: "nat list" where
  "statement_rules = [22, 31, 16, 17, 9, 33, 7, 23, 24, 10, 28, 34, 18, 11, 32, 29, 12, 19, 30, 13, 8, 25, 20, 26, 27, 21, 14, 15]"

lemma statement_rhs:
  "qasm3_grammar 2 = [([], Alt [NT 5, Seq [Star (NT 3), Alt (map NT statement_rules)]])]"
  by (simp add: qasm3_grammar_def g4_rules_def statement_rules_def)

lemma matches_Star_NT: "matches (Star (NT r)) xs \<Longrightarrow> list_all (is_rule r) xs"
proof (induction "Star (NT r)" xs rule: matches.induct)
  case (Star_Cons xs ys)
  then show ?case
    by (auto elim!: matches_NTE)
qed simp

text \<open>A statement is a pragma, or annotations followed by one node for the statement itself.\<close>

lemma statement_children:
  assumes "derivation qasm3_grammar (RuleNode 2 l cs)"
  obtains (pragma) l' ds where "cs = [RuleNode 5 l' ds]"
  | (statement) as q l' ds where "cs = as @ [RuleNode q l' ds]" "list_all (is_rule 3) as" "q \<in> set statement_rules"
proof -
  have "matches (Alt [NT 5, Seq [Star (NT 3), Alt (map NT statement_rules)]]) cs"
    using assms by (cases rule: derivation.cases) (auto simp: statement_rhs)
  then consider "matches (NT 5) cs" | "matches (Seq [Star (NT 3), Alt (map NT statement_rules)]) cs"
    by (auto simp: matches_Alt)
  then show ?thesis
  proof cases
    case 1
    then show ?thesis
      using pragma by (auto elim: matches_NTE)
  next
    case 2
    then obtain as bs where "cs = as @ bs" "matches (Star (NT 3)) as" "matches (Alt (map NT statement_rules)) bs"
      by (auto simp: matches_Seq_Cons)
    then show ?thesis
      using statement matches_Star_NT [of 3 as] by (auto simp: matches_Alt elim!: matches_NTE)
  qed
qed


lemma AllStatement_filter: "AllStatement cs = filter (is_rule 2) cs"
  by (simp add: AllStatement_def all_children_filter comp_def)

lemma sum_derivation: "derivation qasm3_grammar (RuleNode 0 [] sum_tree)"
proof -
  have "no_eof sum_tokens"
    by (simp add: no_eof_def sum_tokens_def)
  from parse_program_derives [OF sum_in_range this sum_parsed] show ?thesis
    by simp
qed

section \<open>What the listener reads is there\<close>

fun needs_tok :: "int \<Rightarrow> ebnf \<Rightarrow> bool" where
  "needs_tok t (Tok ls) \<longleftrightarrow> ls = [t]"
| "needs_tok t (Seq es) \<longleftrightarrow> list_ex (needs_tok t) es"
| "needs_tok t (Alt es) \<longleftrightarrow> list_all (needs_tok t) es"
| "needs_tok t _ \<longleftrightarrow> False"

fun needs_rule :: "nat \<Rightarrow> ebnf \<Rightarrow> bool" where
  "needs_rule q (NT r) \<longleftrightarrow> r = q"
| "needs_rule q (Seq es) \<longleftrightarrow> list_ex (needs_rule q) es"
| "needs_rule q (Alt es) \<longleftrightarrow> list_all (needs_rule q) es"
| "needs_rule q _ \<longleftrightarrow> False"

lemma needs_tok_matches: "matches e cs \<Longrightarrow> needs_tok t e \<Longrightarrow> first_child (is_token t) cs \<noteq> None"
proof -
  assume "matches e cs" "needs_tok t e"
  then have "\<exists>c \<in> set cs. is_token t c"
    by (induction rule: matches.induct) (auto simp: list_all_iff)
  then show ?thesis
    by (auto simp: first_child_filter filter_empty_conv split: list.split)
qed

lemma needs_rule_matches: "matches e cs \<Longrightarrow> needs_rule q e \<Longrightarrow> first_child (is_rule q) cs \<noteq> None"
proof -
  assume "matches e cs" "needs_rule q e"
  then have "\<exists>c \<in> set cs. is_rule q c"
    by (induction rule: matches.induct) (auto simp: list_all_iff)
  then show ?thesis
    by (auto simp: first_child_filter filter_empty_conv split: list.split)
qed

lemma needed_children:
  "needs_tok 99 (g4_rules ! 1)" "needs_tok 88 (g4_rules ! 27)" "needs_tok 88 (g4_rules ! 23)" "needs_tok 88 (g4_rules ! 43)"
  "needs_rule 35 (g4_rules ! 50)"
  by (simp_all add: g4_rules_def)

lemma enter_event_reads:
  assumes "derivation qasm3_grammar (RuleNode r l cs)"
  shows "NilChild \<notin> set (enter_event r cs)"
proof -
  have m: "matches (g4_rules ! r) cs" if "r < 64" "r \<noteq> 35"
    using assms that by (cases rule: derivation.cases) (auto simp: qasm3_grammar_def rule_tables split: if_splits)
  have tok: "text_of_token t cs f \<noteq> NilChild" if "r < 64" "r \<noteq> 35" "needs_tok t (g4_rules ! r)" "\<And>x. f x \<noteq> NilChild" for t f
    using needs_tok_matches [OF m that(3)] that(1,2,4) by (auto simp: text_of_token_def)
  have des: "first_child (is_rule 35) cs \<noteq> None" if "r = 50"
    using needs_rule_matches [OF m, of 35] that needed_children(5) by simp
  show ?thesis
    using tok [of 99 EnterVersion] tok [of 88 EnterQuantumDeclaration] tok [of 88 EnterClassicalDeclaration]
      tok [of 88 "\<lambda>n. EnterIndexedIdentifier n (index_text cs)"] des needed_children
    by (auto simp: enter_event_def)
qed

text \<open>
  C21: In no tree of the grammar does a callback of the listener read a child that is missing, except for the name of a
  gate call, which \<open>gphase\<close> does not have, and the index of an operand.
\<close>

theorem walk_reads_children: "derivation qasm3_grammar t \<Longrightarrow> NilChild \<notin> set (walk t)"
proof (induction rule: derivation.induct)
  case (Rule l e r cs)
  then have "derivation qasm3_grammar (RuleNode r l cs)"
    by (auto intro: derivation.Rule)
  then show ?case
    using Rule enter_event_reads by (auto simp: exit_event_def)
qed simp

theorem walk_reads_children_witness:
  "NilChild \<notin> set (walk (RuleNode 0 [] sum_tree)) \<and> EnterAssignment \<in> set (walk (RuleNode 0 [] sum_tree))"
proof -
  have "EnterAssignment \<in> set (walk (RuleNode 0 [] sum_tree))"
    by (simp add: sum_tree_def enter_event_def)
  then show ?thesis
    using walk_reads_children [OF sum_derivation] by simp
qed

end
