(* ===== verification/Qasm_Accept.thy ===== *)
theory Qasm_Accept
  imports Qasm_Circuit
begin

text \<open>
  From the text of a program to its acceptance: the trees of the statements that the listener handles, which
  programs are accepted, and what the statement lists of a device do not see.
\<close>

section \<open>Trees of statements\<close>

abbreviation leaf :: "int \<Rightarrow> string \<Rightarrow> ParseTree" where
  "leaf ty tx \<equiv> TerminalNode (tok ty tx)"

definition number_tree :: "nat \<Rightarrow> ParseTree" where
  "number_tree k = RuleNode qasm3ParserRULE_expression ''LiteralExpression'' [leaf qasm3ParserDecimalIntegerLiteral (nat_str k)]"

definition bracketed :: "nat \<Rightarrow> nat \<Rightarrow> ParseTree" where
  "bracketed r k = RuleNode r [] [leaf qasm3ParserLBRACKET ''['', number_tree k, leaf qasm3ParserRBRACKET '']'']"

definition designator_trees :: "nat option \<Rightarrow> ParseTree list" where
  "designator_trees d = (case d of None \<Rightarrow> [] | Some k \<Rightarrow> [bracketed qasm3ParserRULE_designator k])"

definition bit_tree :: "string \<times> nat \<Rightarrow> ParseTree" where
  "bit_tree q = RuleNode qasm3ParserRULE_indexedIdentifier []
    [leaf qasm3ParserIdentifier (fst q), bracketed qasm3ParserRULE_indexOperator (snd q)]"

definition operand_tree :: "string \<times> nat \<Rightarrow> ParseTree" where
  "operand_tree q = RuleNode qasm3ParserRULE_gateOperand [] [bit_tree q]"

fun comma_separated :: "ParseTree list \<Rightarrow> ParseTree list" where
  "comma_separated [] = []"
| "comma_separated [t] = [t]"
| "comma_separated (t # ts) = t # leaf qasm3ParserCOMMA '','' # comma_separated ts"

definition parameter_trees :: "string option \<Rightarrow> ParseTree list" where
  "parameter_trees e =
    (case e of
       None \<Rightarrow> []
     | Some x \<Rightarrow>
         [leaf qasm3ParserLPAREN ''('',
          RuleNode qasm3ParserRULE_expressionList []
            [RuleNode qasm3ParserRULE_expression ''LiteralExpression'' [leaf qasm3ParserFloatLiteral x]],
          leaf qasm3ParserRPAREN '')''])"

abbreviation semicolon :: ParseTree where
  "semicolon \<equiv> leaf qasm3ParserSEMICOLON '';''"

fun statement_tree :: "qasm_statement \<Rightarrow> ParseTree" where
  "statement_tree (QubitDecl n d) =
    RuleNode qasm3ParserRULE_quantumDeclarationStatement []
      [RuleNode qasm3ParserRULE_qubitType [] (leaf qasm3ParserQUBIT ''qubit'' # designator_trees d),
       leaf qasm3ParserIdentifier n, semicolon]"
| "statement_tree (BitDecl n d) =
    RuleNode qasm3ParserRULE_classicalDeclarationStatement []
      [RuleNode qasm3ParserRULE_scalarType [] (leaf qasm3ParserBIT ''bit'' # designator_trees d),
       leaf qasm3ParserIdentifier n, semicolon]"
| "statement_tree (GateCall g e qs) =
    RuleNode qasm3ParserRULE_gateCallStatement []
      (leaf qasm3ParserIdentifier g # parameter_trees e @
       [RuleNode qasm3ParserRULE_gateOperandList [] (comma_separated (map operand_tree qs)), semicolon])"
| "statement_tree (MeasureInto c q) =
    RuleNode qasm3ParserRULE_assignmentStatement []
      [bit_tree c, leaf qasm3ParserEQUALS ''='',
       RuleNode qasm3ParserRULE_measureExpression [] [leaf qasm3ParserMEASURE ''measure'', operand_tree q], semicolon]"

definition program_tree :: "qasm_statement list \<Rightarrow> ParseTree" where
  "program_tree prog =
    RuleNode qasm3ParserRULE_program []
      (map (\<lambda>st. RuleNode qasm3ParserRULE_statement [] [statement_tree st]) prog @ [TerminalNode EOF_token])"

fun kind_of :: "qasm_statement \<Rightarrow> string" where
  "kind_of (QubitDecl n d) = ''quantumDeclarationStatement''"
| "kind_of (BitDecl n d) = ''classicalDeclarationStatement''"
| "kind_of (GateCall g e qs) = ''gateCallStatement''"
| "kind_of (MeasureInto c q) = ''assignmentStatement''"

lemmas event_defs = enter_event_def exit_event_def text_of_token_def index_text_def

lemma walk_number [simp]: "walk (number_tree k) = []" "tree_text (number_tree k) = nat_str k" "is_rule 35 (number_tree k)"
  "\<not> is_token t (number_tree k)"
  by (simp_all add: number_tree_def event_defs)

lemma walk_designator [simp]: "concat (map walk (designator_trees d)) = designator_events d"
  by (cases d) (simp_all add: designator_trees_def bracketed_def event_defs)

lemma walk_bit [simp]: "walk (bit_tree q) = [operand_event q]"
  by (simp add: bit_tree_def bracketed_def event_defs operand_event_def)

lemma walk_operand [simp]: "walk (operand_tree q) = [operand_event q]"
  by (simp add: operand_tree_def event_defs)

lemma walk_comma_separated: "concat (map walk (comma_separated ts)) = concat (map walk ts)"
  by (induction ts rule: comma_separated.induct) auto

lemma walk_parameters:
  "concat (map walk (parameter_trees e)) = (case e of None \<Rightarrow> [] | Some t \<Rightarrow> [EnterExpressionList, ExitExpressionList t])"
  by (cases e) (simp_all add: parameter_trees_def event_defs)

lemma concat_operands: "concat (map (\<lambda>q. [operand_event q]) qs) = map operand_event qs"
  by (induction qs) auto

text \<open>The walk over the tree of a statement makes the callbacks of the statement.\<close>

lemma walk_statement: "walk (statement_tree st) = events_of st"
  by (cases st) (simp_all add: event_defs walk_parameters walk_comma_separated comp_def concat_operands)

lemma circuit_of_program:
  "circuit_of (program_tree prog) =
    \<lparr>cc_statements = map kind_of prog, cc_events = EnterProgram # concat (map events_of prog)\<rparr>"
proof -
  have "statement_name (RuleNode 2 [] [statement_tree st]) = kind_of st" for st
    by (cases st) (simp_all add: ruleNames_def)
  moreover have "walk (RuleNode 2 [] [statement_tree st]) = events_of st" for st
    by (simp add: walk_statement event_defs)
  ultimately show ?thesis
    by (simp add: circuit_of_def program_tree_def AllStatement_filter comp_def event_defs del: walk.simps(2)) (simp add: event_defs comp_def walk_statement)
qed


section \<open>Which programs are accepted\<close>

text \<open>
  C19: A program of declarations, gate calls and measurements, as the parser reads it, is accepted for the device exactly
  when it is not empty, the kinds of its statements are in an enabled allow list and not in an enabled deny
  list, the device is available, and the qubits it declares fit on the device.
\<close>

theorem program_accepted_iff:
  assumes "parse_program A (tokenize qasm) = Inr (program_tree prog, [])" and "list_all small prog"
  shows "circuitValidate (antlr_parse tokenize A reports describe) di qasm ds = Ok None \<longleftrightarrow> qasm \<noteq> [] \<and>
    (\<forall>st \<in> set prog.
       (qf_Enabled (qs_AllowList (ds_QASMSupport ds)) \<longrightarrow>
          ContainsStatementName (kind_of st) (qf_Statements (qs_AllowList (ds_QASMSupport ds)))) \<and>
       (qf_Enabled (qs_DenyList (ds_QASMSupport ds)) \<longrightarrow>
          \<not> ContainsStatementName (kind_of st) (qf_Statements (qs_DenyList (ds_QASMSupport ds))))) \<and>
    di_Status di = Available \<and> int (sum_list (map qubits_of (ir_statements 0 [] prog))) \<le> di_MaxQubits di"
proof -
  have "antlr_parse tokenize A reports describe qasm = Inr (circuit_of (program_tree prog))"
    using assms(1) by (simp add: antlr_parse_def)
  with circuitValidate_iff [of "antlr_parse tokenize A reports describe" qasm "circuit_of (program_tree prog)" prog di ds]
  show ?thesis
    using assms(2) by (simp add: circuit_of_program)
qed

text \<open>\<open>qubit[2] q; cx q[0], q[1];\<close>\<close>

definition bell_tokens :: "Token list" where
  "bell_tokens =
    [tok qasm3ParserQUBIT ''qubit'', tok qasm3ParserLBRACKET ''['', tok qasm3ParserDecimalIntegerLiteral ''2'', tok
     qasm3ParserRBRACKET '']'', tok qasm3ParserIdentifier ''q'', tok qasm3ParserSEMICOLON '';'', tok
     qasm3ParserIdentifier ''cx'', tok qasm3ParserIdentifier ''q'', tok qasm3ParserLBRACKET ''['', tok
     qasm3ParserDecimalIntegerLiteral ''0'', tok qasm3ParserRBRACKET '']'', tok qasm3ParserCOMMA '','', tok
     qasm3ParserIdentifier ''q'', tok qasm3ParserLBRACKET ''['', tok qasm3ParserDecimalIntegerLiteral ''1'', tok
     qasm3ParserRBRACKET '']'', tok qasm3ParserSEMICOLON '';'']"

definition bell_predictor :: predictor where
  "bell_predictor = table_predictor
    [((3, 0, 17), 25), ((43, 0, 15), 6), ((45, 0, 14), 2), ((3, 0, 11), 18), ((23, 0, 11), 1), ((57, 0, 8), 1), ((43,
     0, 8), 6), ((45, 0, 7), 2), ((59, 0, 7), 2), ((90, 0, 6), 1), ((57, 0, 3), 1), ((43, 0, 3), 6), ((45, 0, 2), 2),
     ((59, 0, 2), 2), ((90, 0, 1), 2)]"

definition bell_program :: "qasm_statement list" where
  "bell_program = [QubitDecl ''q'' (Some 2), GateCall ''cx'' None [(''q'', 0), (''q'', 1)]]"

definition bell_tree :: "ParseTree list" where
  "bell_tree = map (\<lambda>st. RuleNode 2 [] [statement_tree st]) bell_program @ [TerminalNode EOF_token]"

lemma bell_exec: "exec bell_predictor qasm3Parser 40 [(-1, 0)] 0 (Body Program) bell_tokens = Inr (bell_tree, [])"
  by code_simp


lemma bell_parsed: "parse_program bell_predictor bell_tokens = Inr (program_tree bell_program, [])"
  using parse_program_eval [OF bell_exec] by (simp add: parse_fuel_def program_tree_def bell_tree_def)

theorem program_accepted_iff_witness:
  "circuitValidate (antlr_parse (\<lambda>_. bell_tokens) bell_predictor (\<lambda>_. []) (\<lambda>_ _. ReportAmbiguity))
     DummyQPU_GetDeviceInfo ''qasm'' NewDeviceSetting = Ok None"
proof -
  have "list_all small bell_program" "int (sum_list (map qubits_of (ir_statements 0 [] bell_program))) = 2"
    by (simp_all add: bell_program_def small_def qubits_of_def)
  then show ?thesis
    using program_accepted_iff [of bell_predictor "\<lambda>_. bell_tokens" "''qasm''" bell_program] bell_parsed
    by (simp add: NewDeviceSetting_def NewQasmSupport_def no_filter_def DummyQPU_GetDeviceInfo_def)
qed

text \<open>
  C14: Whatever program is accepted, its tokens are derived from the grammar, every statement of the program is named
  by the lists as they demand, and the representation that is made of the tree declares no more qubits than
  the device has.
\<close>

theorem accepted_in_language:
  assumes "in_range qasm_alts A" and "no_eof (tokenize qasm)"
    and "circuitValidate (antlr_parse tokenize A reports describe) di qasm ds = Ok None"
  shows "\<exists>cs c p. derivation qasm3_grammar (RuleNode qasm3ParserRULE_program [] cs) \<and>
    yield_of (RuleNode qasm3ParserRULE_program [] cs) = tokenize qasm \<and>
    (\<forall>s \<in> set (AllStatement cs).
       (qf_Enabled (qs_AllowList (ds_QASMSupport ds)) \<longrightarrow>
          ContainsStatementName (statement_name s) (qf_Statements (qs_AllowList (ds_QASMSupport ds)))) \<and>
       (qf_Enabled (qs_DenyList (ds_QASMSupport ds)) \<longrightarrow>
          \<not> ContainsStatementName (statement_name s) (qf_Statements (qs_DenyList (ds_QASMSupport ds))))) \<and>
    NewCircuitIR (walk (RuleNode qasm3ParserRULE_program [] cs)) = Ok c \<and> ci_ProgramIR c = Some p \<and>
    pi_QubitCount p \<le> di_MaxQubits di"
proof -
  obtain circ where circ: "antlr_parse tokenize A reports describe qasm = Inr circ"
    using assms(3) by (cases "antlr_parse tokenize A reports describe qasm") (auto simp: circuitValidate_def ParseQASM_def split: if_splits)
  then obtain t ts' where t: "parse_program A (tokenize qasm) = Inr (t, ts')" "circ = circuit_of t"
    by (auto simp: antlr_parse_def split: sum.splits parse_error.splits)
  then obtain cs where cs: "derivation qasm3_grammar t" "t = RuleNode 0 [] cs" "yield_of t = tokenize qasm"
    using parse_program_derives [OF assms(1,2) t(1)] by blast
  have v: "validateStatements circ (ds_QASMSupport ds) = None" "checkResource circ (di_MaxQubits di) = Ok None"
    using assms(3) circ by (auto simp: circuitValidate_def ParseQASM_def split: if_splits option.splits)
  obtain c p where "NewCircuitIR (walk t) = Ok c" "ci_ProgramIR c = Some p" "pi_QubitCount p \<le> di_MaxQubits di"
    using v(2) t(2) by (auto simp: checkResource_def circuit_of_def split: res.splits option.splits if_splits)
  moreover have "\<forall>s \<in> set (AllStatement cs).
       (qf_Enabled (qs_AllowList (ds_QASMSupport ds)) \<longrightarrow>
          ContainsStatementName (statement_name s) (qf_Statements (qs_AllowList (ds_QASMSupport ds)))) \<and>
       (qf_Enabled (qs_DenyList (ds_QASMSupport ds)) \<longrightarrow>
          \<not> ContainsStatementName (statement_name s) (qf_Statements (qs_DenyList (ds_QASMSupport ds))))"
    using v(1) t(2) cs(2) by (auto simp: validateStatements_None circuit_of_def)
  ultimately show ?thesis
    using cs by blast
qed

section \<open>What the lists do not see\<close>

text \<open>The names that the lists compare, for a program of the grammar.\<close>

lemma visible_statements:
  assumes "derivation qasm3_grammar (RuleNode 0 l0 cs)"
  shows "(\<forall>n \<in> set (map statement_name (AllStatement (children_of (RuleNode 0 l0 cs)))). P n) \<longleftrightarrow>
    (\<forall>l as kind l' ds. RuleNode 2 l (as @ [RuleNode kind l' ds]) \<in> set cs \<longrightarrow>
       P (if as = [] then ruleNames ! kind else ''annotation''))"
proof -
  have name: "statement_name (RuleNode 2 l (as @ [RuleNode kind l' ds])) = (if as = [] then ruleNames ! kind else ''annotation'')"
    if "RuleNode 2 l (as @ [RuleNode kind l' ds]) \<in> set cs" for l as kind l' ds
  proof (cases as)
    case (Cons a as')
    have "derivation qasm3_grammar (RuleNode 2 l (as @ [RuleNode kind l' ds]))"
      using assms that by (cases rule: derivation.cases) auto
    then have "is_rule 3 a"
      by (cases rule: statement_children) (auto simp: Cons)
    then show ?thesis
      by (cases a) (simp_all add: Cons ruleNames_def)
  qed simp
  have shape: "\<exists>l as kind l' ds. x = RuleNode 2 l (as @ [RuleNode kind l' ds])" if "x \<in> set (AllStatement cs)" for x
  proof -
    have "is_rule 2 x" "x \<in> set cs"
      using that by (simp_all add: AllStatement_filter)
    then obtain l xs where x: "x = RuleNode 2 l xs" "x \<in> set cs"
      by (cases x) auto
    have "derivation qasm3_grammar (RuleNode 2 l xs)"
      using assms x by (cases rule: derivation.cases) auto
    then show ?thesis
      by (cases rule: statement_children) (use x in \<open>auto intro: exI [of _ "[]"]\<close>)
  qed
  have "P (statement_name x)"
    if all: "\<forall>l as kind l' ds. RuleNode 2 l (as @ [RuleNode kind l' ds]) \<in> set cs \<longrightarrow>
        P (if as = [] then ruleNames ! kind else ''annotation'')" and x: "x \<in> set (AllStatement cs)" for x
  proof -
    obtain l as kind l' ds where x': "x = RuleNode 2 l (as @ [RuleNode kind l' ds])"
      using shape [OF x] by blast
    have mem: "RuleNode 2 l (as @ [RuleNode kind l' ds]) \<in> set cs"
      using x unfolding x' by (simp add: AllStatement_filter)
    show ?thesis
      unfolding x' name [OF mem] by (rule all [rule_format, OF mem])
  qed
  moreover have "P (if as = [] then ruleNames ! kind else ''annotation'')"
    if "\<forall>n \<in> set (map statement_name (AllStatement cs)). P n" "RuleNode 2 l (as @ [RuleNode kind l' ds]) \<in> set cs"
    for l as kind l' ds
  proof -
    have "RuleNode 2 l (as @ [RuleNode kind l' ds]) \<in> set (AllStatement cs)"
      using that(2) by (simp add: AllStatement_filter)
    then show ?thesis
      using that(1) unfolding name [OF that(2), symmetric] by auto
  qed
  ultimately show ?thesis
    unfolding children_of.simps set_map ball_simps by blast
qed

text \<open>\<open>reset q[0];\<close>, the same with an annotation, and the same in the body of an \<open>if\<close>.\<close>

definition reset_tokens :: "Token list" where
  "reset_tokens =
    [tok qasm3ParserRESET ''reset'', tok qasm3ParserIdentifier ''q'', tok qasm3ParserLBRACKET ''['', tok
     qasm3ParserDecimalIntegerLiteral ''0'', tok qasm3ParserRBRACKET '']'', tok qasm3ParserSEMICOLON '';'']"

definition reset_predictor :: predictor where
  "reset_predictor = table_predictor
    [((3, 0, 6), 26), ((57, 0, 3), 1), ((43, 0, 3), 6), ((45, 0, 2), 2), ((59, 0, 2), 2)]"

definition reset_tree :: "ParseTree list" where
  "reset_tree =
    [RuleNode qasm3ParserRULE_statement [] [RuleNode qasm3ParserRULE_resetStatement [] [TerminalNode (tok
     qasm3ParserRESET ''reset''), RuleNode qasm3ParserRULE_gateOperand [] [RuleNode qasm3ParserRULE_indexedIdentifier
     [] [TerminalNode (tok qasm3ParserIdentifier ''q''), RuleNode qasm3ParserRULE_indexOperator [] [TerminalNode (tok
     qasm3ParserLBRACKET ''[''), RuleNode qasm3ParserRULE_expression ''LiteralExpression'' [TerminalNode (tok
     qasm3ParserDecimalIntegerLiteral ''0'')], TerminalNode (tok qasm3ParserRBRACKET '']'')]]], TerminalNode (tok
     qasm3ParserSEMICOLON '';'')]], TerminalNode EOF_token]"

definition annotated_tokens :: "Token list" where
  "annotated_tokens =
    [tok qasm3ParserAnnotationKeyword ''@a'', tok qasm3ParserRESET ''reset'', tok qasm3ParserIdentifier ''q'', tok
     qasm3ParserLBRACKET ''['', tok qasm3ParserDecimalIntegerLiteral ''0'', tok qasm3ParserRBRACKET '']'', tok
     qasm3ParserSEMICOLON '';'']"

definition annotated_predictor :: predictor where
  "annotated_predictor = table_predictor
    [((3, 0, 6), 26), ((57, 0, 3), 1), ((43, 0, 3), 6), ((45, 0, 2), 2), ((59, 0, 2), 2)]"

definition annotated_tree :: "ParseTree list" where
  "annotated_tree =
    [RuleNode qasm3ParserRULE_statement [] [RuleNode qasm3ParserRULE_annotation [] [TerminalNode (tok
     qasm3ParserAnnotationKeyword ''@a'')], RuleNode qasm3ParserRULE_resetStatement [] [TerminalNode (tok
     qasm3ParserRESET ''reset''), RuleNode qasm3ParserRULE_gateOperand [] [RuleNode qasm3ParserRULE_indexedIdentifier
     [] [TerminalNode (tok qasm3ParserIdentifier ''q''), RuleNode qasm3ParserRULE_indexOperator [] [TerminalNode (tok
     qasm3ParserLBRACKET ''[''), RuleNode qasm3ParserRULE_expression ''LiteralExpression'' [TerminalNode (tok
     qasm3ParserDecimalIntegerLiteral ''0'')], TerminalNode (tok qasm3ParserRBRACKET '']'')]]], TerminalNode (tok
     qasm3ParserSEMICOLON '';'')]], TerminalNode EOF_token]"

definition nested_tokens :: "Token list" where
  "nested_tokens =
    [tok qasm3ParserIF ''if'', tok qasm3ParserLPAREN ''('', tok qasm3ParserBooleanLiteral ''true'', tok
     qasm3ParserRPAREN '')'', tok qasm3ParserLBRACE ''{'', tok qasm3ParserRESET ''reset'', tok qasm3ParserIdentifier
     ''q'', tok qasm3ParserLBRACKET ''['', tok qasm3ParserDecimalIntegerLiteral ''0'', tok qasm3ParserRBRACKET '']'',
     tok qasm3ParserSEMICOLON '';'', tok qasm3ParserRBRACE ''}'']"

definition nested_predictor :: predictor where
  "nested_predictor = table_predictor
    [((3, 0, 12), 20), ((43, 0, 10), 6), ((45, 0, 9), 2), ((3, 0, 7), 26), ((57, 0, 4), 1), ((43, 0, 4), 6), ((45, 0,
     3), 2), ((59, 0, 3), 2), ((9, 0, 0), 2)]"

definition nested_tree :: "ParseTree list" where
  "nested_tree =
    [RuleNode qasm3ParserRULE_statement [] [RuleNode qasm3ParserRULE_ifStatement [] [TerminalNode (tok qasm3ParserIF
     ''if''), TerminalNode (tok qasm3ParserLPAREN ''(''), RuleNode qasm3ParserRULE_expression ''LiteralExpression''
     [TerminalNode (tok qasm3ParserBooleanLiteral ''true'')], TerminalNode (tok qasm3ParserRPAREN '')''), RuleNode
     qasm3ParserRULE_statementOrScope [] [RuleNode qasm3ParserRULE_scope [] [TerminalNode (tok qasm3ParserLBRACE
     ''{''), RuleNode qasm3ParserRULE_statement [] [RuleNode qasm3ParserRULE_resetStatement [] [TerminalNode (tok
     qasm3ParserRESET ''reset''), RuleNode qasm3ParserRULE_gateOperand [] [RuleNode qasm3ParserRULE_indexedIdentifier
     [] [TerminalNode (tok qasm3ParserIdentifier ''q''), RuleNode qasm3ParserRULE_indexOperator [] [TerminalNode (tok
     qasm3ParserLBRACKET ''[''), RuleNode qasm3ParserRULE_expression ''LiteralExpression'' [TerminalNode (tok
     qasm3ParserDecimalIntegerLiteral ''0'')], TerminalNode (tok qasm3ParserRBRACKET '']'')]]], TerminalNode (tok
     qasm3ParserSEMICOLON '';'')]], TerminalNode (tok qasm3ParserRBRACE ''}'')]]]], TerminalNode EOF_token]"

lemma example_execs:
  "exec reset_predictor qasm3Parser 40 [(-1, 0)] 0 (Body Program) reset_tokens = Inr (reset_tree, [])"
  "exec annotated_predictor qasm3Parser 40 [(-1, 0)] 0 (Body Program) annotated_tokens = Inr (annotated_tree, [])"
  "exec nested_predictor qasm3Parser 60 [(-1, 0)] 0 (Body Program) nested_tokens = Inr (nested_tree, [])"
  by code_simp+


lemma example_trees:
  "parse_program reset_predictor reset_tokens = Inr (RuleNode 0 [] reset_tree, [])"
  "parse_program annotated_predictor annotated_tokens = Inr (RuleNode 0 [] annotated_tree, [])"
  "parse_program nested_predictor nested_tokens = Inr (RuleNode 0 [] nested_tree, [])"
  by (rule parse_program_eval [OF example_execs(1)] parse_program_eval [OF example_execs(2)] parse_program_eval [OF example_execs(3)];
      simp add: parse_fuel_def)+

lemma example_circuits:
  "circuit_of (RuleNode 0 [] reset_tree) =
    \<lparr>cc_statements = [''resetStatement''], cc_events = [EnterProgram, EnterIndexedIdentifier ''q'' (Some ''0'')]\<rparr>"
  "circuit_of (RuleNode 0 [] annotated_tree) =
    \<lparr>cc_statements = [''annotation''], cc_events = [EnterProgram, EnterIndexedIdentifier ''q'' (Some ''0'')]\<rparr>"
  "circuit_of (RuleNode 0 [] nested_tree) =
    \<lparr>cc_statements = [''ifStatement''], cc_events = [EnterProgram, EnterIndexedIdentifier ''q'' (Some ''0'')]\<rparr>"
  by (simp_all add: circuit_of_def reset_tree_def annotated_tree_def nested_tree_def AllStatement_filter event_defs ruleNames_def EOF_token_def)

text \<open>
  C20: Whatever program the parser reads and whatever lists a device has: the lists look only at the program's own
  statements, and name each of them by the rule of its first child. A statement without annotations has the name of its
  kind, a statement behind annotations is \<open>annotation\<close> whatever it is, and statements in the bodies of others are not
  looked at. So a denied statement is refused only where it is a statement of the program itself without annotations;
  apart from the lists, a program with a text is accepted by the availability of the device and by its qubits alone.
\<close>

theorem lists_name_first_child:
  assumes "in_range qasm_alts A" and "no_eof (tokenize qasm)"
    and "parse_program A (tokenize qasm) = Inr (RuleNode qasm3ParserRULE_program [] cs, rest)"
  shows "circuitValidate (antlr_parse tokenize A reports describe) di qasm ds = Ok None \<longleftrightarrow>
    qasm \<noteq> [] \<and> di_Status di = Available \<and>
    checkResource (circuit_of (RuleNode qasm3ParserRULE_program [] cs)) (di_MaxQubits di) = Ok None \<and>
    (\<forall>l as kind l' ds'. RuleNode qasm3ParserRULE_statement l (as @ [RuleNode kind l' ds']) \<in> set cs \<longrightarrow>
       (let name = (if as = [] then ruleNames ! kind else ''annotation'') in
        (qf_Enabled (qs_AllowList (ds_QASMSupport ds)) \<longrightarrow>
           ContainsStatementName name (qf_Statements (qs_AllowList (ds_QASMSupport ds)))) \<and>
        (qf_Enabled (qs_DenyList (ds_QASMSupport ds)) \<longrightarrow>
           \<not> ContainsStatementName name (qf_Statements (qs_DenyList (ds_QASMSupport ds))))))"
proof -
  let ?t = "RuleNode qasm3ParserRULE_program [] cs"
  have der: "derivation qasm3_grammar ?t"
    using parse_program_derives [OF assms] by blast
  have lists: "validateStatements (circuit_of ?t) qs = None \<longleftrightarrow>
      (\<forall>l as kind l' ds'. RuleNode qasm3ParserRULE_statement l (as @ [RuleNode kind l' ds']) \<in> set cs \<longrightarrow>
        (let name = (if as = [] then ruleNames ! kind else ''annotation'') in
          (qf_Enabled (qs_AllowList qs) \<longrightarrow> ContainsStatementName name (qf_Statements (qs_AllowList qs))) \<and>
          (qf_Enabled (qs_DenyList qs) \<longrightarrow> \<not> ContainsStatementName name (qf_Statements (qs_DenyList qs)))))" for qs
    unfolding validateStatements_None circuit_of_def Circuit.select_convs visible_statements [OF der] Let_def by (rule refl)
  have "antlr_parse tokenize A reports describe qasm = Inr (circuit_of ?t)"
    using assms(3) by (simp add: antlr_parse_def)
  then have "circuitValidate (antlr_parse tokenize A reports describe) di qasm ds = Ok None \<longleftrightarrow>
      qasm \<noteq> [] \<and> di_Status di = Available \<and> checkResource (circuit_of ?t) (di_MaxQubits di) = Ok None \<and>
      validateStatements (circuit_of ?t) (ds_QASMSupport ds) = None"
    by (auto simp: circuitValidate_def ParseQASM_def split: option.splits if_splits)
  then show ?thesis
    unfolding lists .
qed

definition no_reset :: DeviceSetting where
  "no_reset = NewDeviceSetting\<lparr>ds_QASMSupport :=
    NewQasmSupport\<lparr>qs_DenyList := \<lparr>qf_Enabled = True, qf_Statements = [''resetStatement''], qf_Gates = []\<rparr>\<rparr>\<rparr>"

abbreviation validate_tokens :: "Token list \<Rightarrow> predictor \<Rightarrow> error option res" where
  "validate_tokens ts A \<equiv>
    circuitValidate (antlr_parse (\<lambda>_. ts) A (\<lambda>_. []) (\<lambda>_ _. ReportAmbiguity)) DummyQPU_GetDeviceInfo ''qasm'' no_reset"

lemma reset_events: "NewCircuitIR [EnterProgram, EnterIndexedIdentifier ''q'' (Some ''0'')] =
    Ok (empty_CircuitIR\<lparr>ci_ProgramIR := Some empty_ProgramIR, ci_tmpQCbitIdentifiers := [\<lparr>qb_Name = ''q'', qb_Index = 0\<rparr>]\<rparr>)"
  by (simp add: NewCircuitIR_def atoi_or_panic_def Atoi_digits is_digit_def digit_val_def empty_CircuitIR_def)

lemma reset_names:
  "ContainsStatementName ''resetStatement'' [''resetStatement'']"
  "\<not> ContainsStatementName ''annotation'' [''resetStatement'']" "\<not> ContainsStatementName ''ifStatement'' [''resetStatement'']"
  by code_simp+

lemma example_inputs:
  "in_range qasm_alts reset_predictor" "in_range qasm_alts annotated_predictor" "in_range qasm_alts nested_predictor"
  "no_eof reset_tokens" "no_eof annotated_tokens" "no_eof nested_tokens"
  unfolding reset_predictor_def annotated_predictor_def nested_predictor_def
  by (intro table_in_range, code_simp)+ (simp_all add: no_eof_def reset_tokens_def annotated_tokens_def nested_tokens_def)

lemma example_resources:
  "checkResource (circuit_of (RuleNode 0 [] annotated_tree)) n = Ok None \<longleftrightarrow> 0 \<le> n"
  "checkResource (circuit_of (RuleNode 0 [] nested_tree)) n = Ok None \<longleftrightarrow> 0 \<le> n"
  by (auto simp: example_circuits checkResource_def reset_events empty_CircuitIR_def empty_ProgramIR_def)

text \<open>
  With \<open>resetStatement\<close> denied, \<open>reset q[0];\<close> is refused, but the same statement is accepted behind an annotation
  and in the body of an \<open>if\<close>.
\<close>

theorem lists_name_first_child_witness:
  "validate_tokens reset_tokens reset_predictor \<noteq> Ok None \<and>
   validate_tokens annotated_tokens annotated_predictor = Ok None \<and> validate_tokens nested_tokens nested_predictor = Ok None"
proof -
  have lists: "\<not> qf_Enabled (qs_AllowList (ds_QASMSupport no_reset))" "qf_Enabled (qs_DenyList (ds_QASMSupport no_reset))"
    "qf_Statements (qs_DenyList (ds_QASMSupport no_reset)) = [''resetStatement'']"
    by (simp_all add: no_reset_def NewDeviceSetting_def NewQasmSupport_def no_filter_def)
  have "validate_tokens reset_tokens reset_predictor \<noteq> Ok None"
  proof
    assume "validate_tokens reset_tokens reset_predictor = Ok None"
    note all = this [unfolded lists_name_first_child [OF example_inputs(1), of "\<lambda>_. reset_tokens",
        OF example_inputs(4) example_trees(1)], THEN conjunct2, THEN conjunct2, THEN conjunct2, rule_format, of "[]" "[]"]
    from all [of qasm3ParserRULE_resetStatement "[]"] show False
      using lists reset_names(1) by (simp add: Let_def reset_tree_def ruleNames_def)
  qed
  moreover have "validate_tokens annotated_tokens annotated_predictor = Ok None"
    using lists_name_first_child [OF example_inputs(2), of "\<lambda>_. annotated_tokens", OF example_inputs(5) example_trees(2),
        where ds = no_reset and di = DummyQPU_GetDeviceInfo and qasm = "''qasm''"] lists reset_names(2)
    by (simp add: Let_def example_resources DummyQPU_GetDeviceInfo_def)
      (auto simp: annotated_tree_def Cons_eq_append_conv)
  moreover have "validate_tokens nested_tokens nested_predictor = Ok None"
    using lists_name_first_child [OF example_inputs(3), of "\<lambda>_. nested_tokens", OF example_inputs(6) example_trees(3),
        where ds = no_reset and di = DummyQPU_GetDeviceInfo and qasm = "''qasm''"] lists reset_names(3)
    by (simp add: Let_def example_resources DummyQPU_GetDeviceInfo_def)
      (auto simp: nested_tree_def Cons_eq_append_conv ruleNames_def)
  ultimately show ?thesis
    by blast
qed

theorem accepted_in_language_witness:
  "\<exists>cs c p. derivation qasm3_grammar (RuleNode 0 [] cs) \<and> yield_of (RuleNode 0 [] cs) = bell_tokens \<and>
    NewCircuitIR (walk (RuleNode 0 [] cs)) = Ok c \<and> ci_ProgramIR c = Some p \<and>
    pi_QubitCount p \<le> di_MaxQubits DummyQPU_GetDeviceInfo"
proof -
  let ?parse = "antlr_parse (\<lambda>_. bell_tokens) bell_predictor (\<lambda>_. []) (\<lambda>_ _. ReportAmbiguity)"
  have small: "list_all small bell_program" "int (sum_list (map qubits_of (ir_statements 0 [] bell_program))) = 2"
    by (simp_all add: bell_program_def small_def qubits_of_def)
  have "?parse ''qasm'' = Inr (circuit_of (program_tree bell_program))"
    by (simp add: antlr_parse_def bell_parsed)
  then have "circuitValidate ?parse DummyQPU_GetDeviceInfo ''qasm'' NewDeviceSetting = Ok None"
    using circuitValidate_iff [of ?parse "''qasm''" "circuit_of (program_tree bell_program)" bell_program DummyQPU_GetDeviceInfo NewDeviceSetting] small
    by (simp add: circuit_of_program NewDeviceSetting_def NewQasmSupport_def no_filter_def DummyQPU_GetDeviceInfo_def)
  moreover have "in_range qasm_alts bell_predictor"
    unfolding bell_predictor_def by (intro table_in_range) code_simp
  moreover have "no_eof bell_tokens"
    by (simp add: no_eof_def bell_tokens_def)
  ultimately show ?thesis
    using accepted_in_language [of bell_predictor "\<lambda>_. bell_tokens" "''qasm''" "\<lambda>_. []" "\<lambda>_ _. ReportAmbiguity"
        DummyQPU_GetDeviceInfo NewDeviceSetting] by blast
qed

end
