(* ===== verification/Api_Codec.thy ===== *)
theory Api_Codec
  imports Service_DB
begin

unbundle bit_operations_syntax

text \<open>
  \<open>oas/gen/providerapi/oas_json_gen.go\<close> with \<open>oas_schemas_gen.go\<close> and \<open>oas_defaults_gen.go\<close>: the JSON
  codec of the types that the engine exchanges with the provider's API.

  The code drives the streaming encoder and decoder of the package jx. The model works on the value that
  is written or read: \<open>Encode\<close> gives the value, or \<open>None\<close> when what is written is not one JSON value (an
  empty or malformed raw text), and \<open>Decode\<close> takes the value and the struct that the code decodes into.
  How jx writes and reads numbers and times is an argument (\<open>jx_formats\<close>). A raw text that is read is
  the text of its value in the compact form of \<open>json_print\<close>. A \<open>float64\<close> is its bit pattern. A value whose
  flag \<open>Set\<close> is false is \<open>Unset\<close>; the flag \<open>Null\<close> of such a value, which \<open>setDefaults\<close> sets, is not
  looked at by the engine for the fields concerned. A Go map or slice that is nil is not told apart from
  an empty one, except for the program of a job, which the validation rejects when it is nil.

  Each struct is a table of fields (name, bit in the set of required fields, decoder) for one loop over
  the members of the object, with the masks of the source.
\<close>

section \<open>jx\<close>

record jx_formats =
  jx_writeInt :: "int \<Rightarrow> json"
  jx_readInt :: "json \<Rightarrow> int option"
  jx_writeFloat64 :: "float64 \<Rightarrow> json"
  jx_readFloat64 :: "json \<Rightarrow> float64 option"
  jx_writeDateTime :: "datetime \<Rightarrow> json"
  jx_readDateTime :: "json \<Rightarrow> datetime option"

datatype decode_error = JxError | Wrapped string decode_error | RequiredFields "string list"

type_synonym 'a decoded = "decode_error + 'a"

fun dec_bind :: "'a decoded \<Rightarrow> ('a \<Rightarrow> 'b decoded) \<Rightarrow> 'b decoded" where
  "dec_bind (Inl e) f = Inl e"
| "dec_bind (Inr a) f = f a"

fun dec_wrap :: "string \<Rightarrow> 'a decoded \<Rightarrow> 'a decoded" where
  "dec_wrap m (Inl e) = Inl (Wrapped m e)"
| "dec_wrap m (Inr a) = Inr a"

definition dec_opt :: "'a option \<Rightarrow> 'a decoded" where
  "dec_opt r = (case r of None \<Rightarrow> Inl JxError | Some a \<Rightarrow> Inr a)"

lemma dec_opt_simps [simp]: "dec_opt (Some a) = Inr a" "dec_opt None = Inl JxError"
  by (simp_all add: dec_opt_def)

lemma dec_bind_Inr [res_simps]: "dec_bind m f = Inr b \<longleftrightarrow> (\<exists>a. m = Inr a \<and> f a = Inr b)"
  by (cases m) auto

lemma dec_wrap_Inr [res_simps]: "dec_wrap t m = Inr b \<longleftrightarrow> m = Inr b"
  by (cases m) auto

fun Str_Decode :: "json \<Rightarrow> string decoded" where
  "Str_Decode (JStr s) = Inr s"
| "Str_Decode _ = Inl JxError"

fun Arr_loop :: "(json \<Rightarrow> 'a decoded) \<Rightarrow> json list \<Rightarrow> 'a list \<Rightarrow> 'a list decoded" where
  "Arr_loop dec [] acc = Inr acc"
| "Arr_loop dec (j # js) acc = dec_bind (dec j) (\<lambda>elem. Arr_loop dec js (acc @ [elem]))"

fun Arr_Decode :: "(json \<Rightarrow> 'a decoded) \<Rightarrow> json \<Rightarrow> 'a list decoded" where
  "Arr_Decode dec (JArr js) = Arr_loop dec js []"
| "Arr_Decode dec _ = Inl JxError"

definition Arr_Encode :: "('a \<Rightarrow> json option) \<Rightarrow> 'a list \<Rightarrow> json option" where
  "Arr_Encode enc xs = (if None \<in> set (map enc xs) then None else Some (JArr (map (the \<circ> enc) xs)))"

text \<open>The members that an encoder writes, and the object they make.\<close>

definition Obj_Encode :: "(string \<times> json option) list \<Rightarrow> json option" where
  "Obj_Encode ms = (if None \<in> snd ` set ms then None else Some (JObj (map (\<lambda>(k, j). (k, the j)) ms)))"

section \<open>Optional and nullable values\<close>

text \<open>
  \<open>Opt...\<close>, \<open>OptNil...\<close> and \<open>Nil...\<close>: the generated code has one copy of each method per type. The field
  of an optional value is left out when the value is not set.
\<close>

fun Opt_member :: "string \<Rightarrow> ('a \<Rightarrow> json option) \<Rightarrow> 'a option \<Rightarrow> (string \<times> json option) list" where
  "Opt_member k enc None = []"
| "Opt_member k enc (Some v) = [(k, enc v)]"

definition Opt_Decode :: "(json \<Rightarrow> 'a decoded) \<Rightarrow> json \<Rightarrow> 'a option decoded" where
  "Opt_Decode dec j = dec_bind (dec j) (\<lambda>v. Inr (Some v))"

fun OptNil_member :: "string \<Rightarrow> ('a \<Rightarrow> json option) \<Rightarrow> 'a optnil \<Rightarrow> (string \<times> json option) list" where
  "OptNil_member k enc Unset = []"
| "OptNil_member k enc Null = [(k, Some JNull)]"
| "OptNil_member k enc (Val v) = [(k, enc v)]"

definition OptNil_Decode :: "(json \<Rightarrow> 'a decoded) \<Rightarrow> json \<Rightarrow> 'a optnil decoded" where
  "OptNil_Decode dec j = (if j = JNull then Inr Null else dec_bind (dec j) (\<lambda>v. Inr (Val v)))"

fun Nil_Encode :: "('a \<Rightarrow> json option) \<Rightarrow> 'a option \<Rightarrow> json option" where
  "Nil_Encode enc None = Some JNull"
| "Nil_Encode enc (Some v) = enc v"

definition Nil_Decode :: "(json \<Rightarrow> 'a decoded) \<Rightarrow> json \<Rightarrow> 'a option decoded" where
  "Nil_Decode dec j = (if j = JNull then Inr None else dec_bind (dec j) (\<lambda>v. Inr (Some v)))"

text \<open>\<open>setDefaults\<close> sets the flag \<open>Null\<close> of a field, whatever its other flag says.\<close>

fun set_Null :: "'a optnil \<Rightarrow> 'a optnil" where
  "set_Null Unset = Unset"
| "set_Null _ = Null"

section \<open>Maps of raw values\<close>

definition Raw_Encode :: "string option \<Rightarrow> json option" where
  "Raw_Encode elem = (case elem of None \<Rightarrow> None | Some [] \<Rightarrow> None | Some s \<Rightarrow> json_parse s)"

definition raw_map_fields :: "raw_map \<Rightarrow> (string \<times> json option) list" where
  "raw_map_fields m = map (\<lambda>(k, elem). (k, Raw_Encode elem)) m"

definition raw_map_Encode :: "raw_map \<Rightarrow> json option" where
  "raw_map_Encode m = Obj_Encode (raw_map_fields m)"

fun raw_map_Decode :: "json \<Rightarrow> raw_map \<Rightarrow> raw_map decoded" where
  "raw_map_Decode (JObj ms) m = Inr (put_all (map (\<lambda>(k, v). (k, Some (json_print v))) ms) m)"
| "raw_map_Decode _ m = Inl JxError"

section \<open>Structs\<close>

type_synonym 'a fields = "(string \<times> nat option \<times> (json \<Rightarrow> 'a \<Rightarrow> 'a decoded)) list"

definition set_bit8 :: "nat \<Rightarrow> 8 word list \<Rightarrow> 8 word list" where
  "set_bit8 i requiredBitSet =
    requiredBitSet[i div 8 := requiredBitSet ! (i div 8) OR push_bit (i mod 8) 1]"

definition decode_field :: "string \<Rightarrow> string" where
  "decode_field k = ''decode field '' @ [CHR 0x22] @ k @ [CHR 0x22]"

fun ObjBytes ::
  "'a fields \<Rightarrow> (string \<Rightarrow> json \<Rightarrow> 'a \<Rightarrow> 'a) \<Rightarrow> (string \<times> json) list \<Rightarrow> 'a \<times> 8 word list \<Rightarrow> ('a \<times> 8 word list) decoded" where
  "ObjBytes fs dflt [] st = Inr st"
| "ObjBytes fs dflt ((k, v) # ms) (s, bs) =
    (case map_of fs k of
       None \<Rightarrow> ObjBytes fs dflt ms (dflt k v s, bs)
     | Some (req, dec) \<Rightarrow>
         dec_bind (dec_wrap (decode_field k) (dec v s)) (\<lambda>s'.
           ObjBytes fs dflt ms (s', case req of None \<Rightarrow> bs | Some i \<Rightarrow> set_bit8 i bs)))"

text \<open>The check of the required fields, with \<open>math/bits\<close>.\<close>

definition OnesCount8 :: "8 word \<Rightarrow> nat" where
  "OnesCount8 r = length (filter (bit r) [0..<8])"

definition TrailingZeros8 :: "8 word \<Rightarrow> nat" where
  "TrailingZeros8 r = (case filter (bit r) [0..<8] of [] \<Rightarrow> 8 | b # _ \<Rightarrow> b)"

definition field_name :: "string list \<Rightarrow> nat \<Rightarrow> string" where
  "field_name names fieldIdx = (if fieldIdx < length names then names ! fieldIdx else nat_str fieldIdx)"

fun missed_loop :: "nat \<Rightarrow> string list \<Rightarrow> nat \<Rightarrow> 8 word \<Rightarrow> string list" where
  "missed_loop 0 names i result = []"
| "missed_loop (Suc missed) names i result =
    (let bitIdx = TrailingZeros8 result in
     field_name names (i * 8 + bitIdx) # missed_loop missed names i (result AND NOT (push_bit bitIdx 1)))"

fun required_failures :: "string list \<Rightarrow> nat \<Rightarrow> 8 word list \<Rightarrow> 8 word list \<Rightarrow> string list" where
  "required_failures names i (m # masks) (bs # bss) =
    (let result = (bs AND m) XOR m in
     (if result \<noteq> 0 then missed_loop (OnesCount8 result) names i result else [])
       @ required_failures names (Suc i) masks bss)"
| "required_failures names i _ _ = []"

definition no_default :: "string \<Rightarrow> json \<Rightarrow> 'a \<Rightarrow> 'a" where
  "no_default k v s = s"

definition decode_struct ::
  "string \<Rightarrow> 'a fields \<Rightarrow> (string \<Rightarrow> json \<Rightarrow> 'a \<Rightarrow> 'a) \<Rightarrow> 8 word list \<Rightarrow> json \<Rightarrow> 'a \<Rightarrow> 'a decoded" where
  "decode_struct name fs dflt masks j s =
    dec_bind
      (dec_wrap (''decode '' @ name)
        (case j of JObj ms \<Rightarrow> ObjBytes fs dflt ms (s, replicate (length masks) 0) | _ \<Rightarrow> Inl JxError))
      (\<lambda>(s', bss).
        case required_failures (map fst fs) 0 masks bss of
          [] \<Rightarrow> Inr s'
        | failures \<Rightarrow> Inl (RequiredFields failures))"

text \<open>A field whose decoder does not look at the current value.\<close>

definition store :: "('v \<Rightarrow> 'a \<Rightarrow> 'a) \<Rightarrow> (json \<Rightarrow> 'v decoded) \<Rightarrow> json \<Rightarrow> 'a \<Rightarrow> 'a decoded" where
  "store setf dec j s = dec_bind (dec j) (\<lambda>v. Inr (setf v s))"

section \<open>The check of the required fields\<close>

lemma filter_bit_reset:
  assumes "filter (bit (r :: 8 word)) [0..<8] = b # bs"
  shows "filter (bit (r AND NOT (push_bit b 1))) [0..<8] = bs"
proof -
  have "distinct (b # bs)" using distinct_filter [of "[0..<8]" "bit r"] assms by simp
  moreover have "filter (bit (r AND NOT (push_bit b 1))) [0..<8] = filter (\<lambda>i. i \<noteq> b) (filter (bit r) [0..<8])"
    unfolding filter_filter
    by (rule filter_cong) (auto simp: bit_and_iff bit_not_iff push_bit_of_1 bit_exp_iff)
  ultimately show ?thesis using assms by (auto simp: filter_id_conv)
qed

lemma missed_loop_eq:
  "missed_loop (OnesCount8 r) names i r = map (\<lambda>b. field_name names (i * 8 + b)) (filter (bit r) [0..<8])"
proof -
  have "missed_loop (length xs) names i r = map (\<lambda>b. field_name names (i * 8 + b)) xs"
    if "filter (bit r) [0..<8] = xs" for xs
    using that
  proof (induction xs arbitrary: r)
    case (Cons b xs)
    then show ?case using filter_bit_reset [of r b xs] by (simp add: TrailingZeros8_def Let_def)
  qed simp
  then show ?thesis by (simp add: OnesCount8_def)
qed

text \<open>The fields that a mask asks for and that have not been seen, by their index.\<close>

definition missing :: "8 word list \<Rightarrow> 8 word list \<Rightarrow> nat list" where
  "missing masks bss =
    filter (\<lambda>i. bit (masks ! (i div 8)) (i mod 8) \<and> \<not> bit (bss ! (i div 8)) (i mod 8)) [0..<8 * length masks]"

lemma missing_Cons:
  "missing (m # masks) (b # bss) =
    filter (bit (b AND m XOR m)) [0..<8] @ map (\<lambda>i. i + 8) (missing masks bss)"
proof -
  have s: "[0..<8 * length (m # masks)] = [0..<8] @ map (\<lambda>i. i + 8) [0..<8 * length masks]"
  proof -
    have "8 * length (m # masks) = 8 + 8 * length masks" by simp
    then show ?thesis
      using upt_add_eq_append [of 0 8 "8 * length masks"] map_add_upt [of 8 "8 * length masks"]
      by (metis add.commute le0)
  qed
  have "filter (\<lambda>i. bit ((m # masks) ! (i div 8)) (i mod 8) \<and> \<not> bit ((b # bss) ! (i div 8)) (i mod 8)) [0..<8] =
      filter (bit (b AND m XOR m)) [0..<8]"
    by (rule filter_cong) (auto simp: bit_and_iff bit_xor_iff)
  moreover have "(i + 8) div 8 = Suc (i div 8)" "(i + 8) mod 8 = i mod 8" for i :: nat by simp_all
  ultimately show ?thesis
    unfolding missing_def s by (simp add: filter_map comp_def)
qed

lemma required_failures_missing:
  "length bss = length masks \<Longrightarrow>
    required_failures names n masks bss = map (\<lambda>i. field_name names (n * 8 + i)) (missing masks bss)"
proof (induction masks arbitrary: bss n)
  case (Cons m masks)
  then obtain b bss' where b: "bss = b # bss'" "length bss' = length masks" by (cases bss) auto
  have "(if r \<noteq> 0 then missed_loop (OnesCount8 r) names n r else []) =
      map (\<lambda>i. field_name names (n * 8 + i)) (filter (bit r) [0..<8])" for r
    by (simp add: missed_loop_eq)
  then show ?case
    using Cons.IH [OF b(2), of "Suc n"] by (simp add: b(1) missing_Cons Let_def comp_def algebra_simps)
qed (simp add: missing_def)

lemma set_bit8_length [simp]: "length (set_bit8 i bss) = length bss"
  by (simp add: set_bit8_def)

text \<open>
  A table agrees with its masks when the fields have different names, a field counts under its own
  position and the masks ask for exactly the fields that count.
\<close>

definition required :: "'a fields \<Rightarrow> string list" where
  "required fs = map fst (filter (\<lambda>fd. fst (snd fd) \<noteq> None) fs)"

locale struct_table =
  fixes fs :: "'a fields" and masks :: "8 word list"
  assumes names: "distinct (map fst fs)"
    and own_bit: "list_all (\<lambda>i. fst (snd (fs ! i)) \<in> {None, Some i}) [0..<length fs]"
    and mask_bits: "filter (\<lambda>i. bit (masks ! (i div 8)) (i mod 8)) [0..<8 * length masks] =
      filter (\<lambda>i. fst (snd (fs ! i)) \<noteq> None) [0..<length fs]"
begin

lemma own: "i < length fs \<Longrightarrow> fst (snd (fs ! i)) = Some r \<Longrightarrow> r = i"
  using own_bit unfolding list_all_iff by (drule_tac x = i in bspec) auto

lemma masked:
  "i < 8 * length masks \<and> bit (masks ! (i div 8)) (i mod 8) \<longleftrightarrow> i < length fs \<and> fst (snd (fs ! i)) \<noteq> None"
  using arg_cong [OF mask_bits, of "\<lambda>xs. i \<in> set xs"] by auto

lemma same_name: "i < length fs \<Longrightarrow> j < length fs \<Longrightarrow> fst (fs ! i) = fst (fs ! j) \<longleftrightarrow> i = j"
  using nth_eq_iff_index_eq [OF names, of i j] by simp

lemma field_at: "map_of fs k = Some (Some i, dec) \<Longrightarrow> i < length fs \<and> fst (fs ! i) = k \<and> i < 8 * length masks"
proof -
  assume m: "map_of fs k = Some (Some i, dec)"
  then obtain j where j: "j < length fs" "fs ! j = (k, Some i, dec)"
    using map_of_SomeD [OF m] by (auto simp: in_set_conv_nth)
  then have i: "i = j" using own [of j i] by simp
  then show ?thesis using masked [of i] j by simp
qed

lemma step_bits:
  assumes m: "map_of fs k = Some (req, dec)" and len: "length bss = length masks"
    and i: "i < length fs" "fst (snd (fs ! i)) \<noteq> None"
  shows "bit ((case req of None \<Rightarrow> bss | Some r \<Rightarrow> set_bit8 r bss) ! (i div 8)) (i mod 8) \<longleftrightarrow>
    bit (bss ! (i div 8)) (i mod 8) \<or> fst (fs ! i) = k"
proof -
  obtain j where j: "j < length fs" "fs ! j = (k, req, dec)"
    using map_of_SomeD [OF m] by (auto simp: in_set_conv_nth)
  have k: "fst (fs ! i) = k \<longleftrightarrow> i = j" using same_name [OF i(1) j(1)] j by simp
  show ?thesis
  proof (cases req)
    case None
    then have "i \<noteq> j" using i j by auto
    then show ?thesis using k None by simp
  next
    case (Some r)
    have r: "r = j" "r < 8 * length masks" using own [of j r] j Some field_at [of k r dec] m by simp_all
    then have "r div 8 < length bss" using len by auto
    moreover have "i = r" if "i div 8 = r div 8" "i mod 8 = r mod 8" using that by (metis div_mult_mod_eq)
    ultimately show ?thesis
      using k r Some by (cases "i div 8 = r div 8") (auto simp: set_bit8_def bit_or_iff push_bit_of_1 bit_exp_iff)
  qed
qed

lemma seen_bits:
  assumes "ObjBytes fs dflt ms (s, bss) = Inr (s', bss')" and "length bss = length masks"
  shows "length bss' = length masks \<and>
    (\<forall>i < length fs. fst (snd (fs ! i)) \<noteq> None \<longrightarrow>
      (bit (bss' ! (i div 8)) (i mod 8) \<longleftrightarrow> bit (bss ! (i div 8)) (i mod 8) \<or> fst (fs ! i) \<in> fst ` set ms))"
  using assms
proof (induction ms arbitrary: s bss)
  case (Cons kv ms)
  obtain k v where kv: "kv = (k, v)" by force
  show ?case
  proof (cases "map_of fs k")
    case None
    then have "fst (fs ! i) \<noteq> k" if "i < length fs" for i using that by (auto simp: map_of_eq_None_iff)
    then show ?thesis using Cons None kv by (auto simp: kv)
  next
    case (Some rd)
    obtain req dec where rd: "rd = (req, dec)" by force
    define b1 where "b1 = (case req of None \<Rightarrow> bss | Some i \<Rightarrow> set_bit8 i bss)"
    obtain s1 where loop: "ObjBytes fs dflt ms (s1, b1) = Inr (s', bss')"
      using Cons.prems Some by (auto simp: kv rd b1_def res_simps)
    have len: "length b1 = length masks" using Cons.prems by (simp add: b1_def split: option.split)
    show ?thesis
      using Cons.IH [OF loop len] step_bits [OF Some [unfolded rd] Cons.prems(2)]
      by (auto simp: kv b1_def)
  qed
qed simp

lemma missing_fields:
  assumes "ObjBytes fs dflt ms (s, replicate (length masks) 0) = Inr (s', bss')"
  shows "required_failures (map fst fs) 0 masks bss' = filter (\<lambda>k. k \<notin> fst ` set ms) (required fs)"
proof -
  note seen = seen_bits [OF assms]
  have "missing masks bss' = filter (\<lambda>i. \<not> bit (bss' ! (i div 8)) (i mod 8))
      (filter (\<lambda>i. bit (masks ! (i div 8)) (i mod 8)) [0..<8 * length masks])"
    unfolding missing_def filter_filter by (rule filter_cong) auto
  also have "\<dots> = filter (\<lambda>i. fst (fs ! i) \<notin> fst ` set ms) (filter (\<lambda>i. fst (snd (fs ! i)) \<noteq> None) [0..<length fs])"
    unfolding mask_bits
  proof (rule filter_cong [OF refl])
    fix i assume "i \<in> set (filter (\<lambda>i. fst (snd (fs ! i)) \<noteq> None) [0..<length fs])"
    moreover from this have "i div 8 < length masks" using masked [of i] by auto
    ultimately show "(\<not> bit (bss' ! (i div 8)) (i mod 8)) = (fst (fs ! i) \<notin> fst ` set ms)"
      using seen by auto
  qed
  finally have "map (\<lambda>i. field_name (map fst fs) (0 * 8 + i)) (missing masks bss') =
      map (\<lambda>i. fst (fs ! i)) (filter (\<lambda>i. fst (fs ! i) \<notin> fst ` set ms) (filter (\<lambda>i. fst (snd (fs ! i)) \<noteq> None) [0..<length fs]))"
    by (auto simp: field_name_def intro!: map_cong)
  also have "\<dots> = filter (\<lambda>k. k \<notin> fst ` set ms) (map fst (filter (\<lambda>f. fst (snd f) \<noteq> None) (map ((!) fs) [0..<length fs])))"
    by (simp add: filter_map comp_def)
  also have "\<dots> = filter (\<lambda>k. k \<notin> fst ` set ms) (required fs)"
    by (simp add: map_nth required_def)
  finally show ?thesis using seen by (simp add: required_failures_missing)
qed

lemma decode_spec:
  "decode_struct name fs dflt masks (JObj ms) s =
    dec_bind (dec_wrap (''decode '' @ name) (ObjBytes fs dflt ms (s, replicate (length masks) 0))) (\<lambda>(s', _).
      case filter (\<lambda>k. k \<notin> fst ` set ms) (required fs) of
        [] \<Rightarrow> Inr s'
      | failures \<Rightarrow> Inl (RequiredFields failures))"
  unfolding decode_struct_def
  by (cases "ObjBytes fs dflt ms (s, replicate (length masks) 0)") (auto simp: missing_fields)

end

section \<open>What is written is read back\<close>

definition round_trips :: "('a \<Rightarrow> json option) \<Rightarrow> (json \<Rightarrow> 'a decoded) \<Rightarrow> 'a \<Rightarrow> bool" where
  "round_trips enc dec v \<longleftrightarrow> (case enc v of None \<Rightarrow> False | Some j \<Rightarrow> j \<noteq> JNull \<and> dec j = Inr v)"

lemma round_trips_iff: "round_trips enc dec v \<longleftrightarrow> (\<exists>j. enc v = Some j \<and> j \<noteq> JNull \<and> dec j = Inr v)"
  by (auto simp: round_trips_def split: option.splits)

text \<open>Reading the members that an encoder writes takes the loop over an object from one state to another.\<close>

definition reads ::
  "'a fields \<Rightarrow> (string \<Rightarrow> json \<Rightarrow> 'a \<Rightarrow> 'a) \<Rightarrow> (string \<times> json option) list \<Rightarrow>
    'a \<times> 8 word list \<Rightarrow> 'a \<times> 8 word list \<Rightarrow> bool" where
  "reads fs dflt ms st st' \<longleftrightarrow>
    None \<notin> snd ` set ms \<and> ObjBytes fs dflt (map (\<lambda>(k, j). (k, the j)) ms) st = Inr st'"

lemma ObjBytes_append:
  "ObjBytes fs dflt (xs @ ys) st = dec_bind (ObjBytes fs dflt xs st) (ObjBytes fs dflt ys)"
proof (induction xs arbitrary: st)
  case (Cons kv xs)
  have assoc: "dec_bind (dec_bind m g) h = dec_bind m (\<lambda>a. dec_bind (g a) h)"
    for m :: "'b decoded" and g :: "'b \<Rightarrow> 'c decoded" and h :: "'c \<Rightarrow> 'd decoded"
    by (cases m) simp_all
  obtain k v s bs where "kv = (k, v)" "st = (s, bs)" by (cases kv; cases st) blast
  then show ?case using Cons by (simp add: assoc split: option.split prod.split)
qed simp

lemma reads_Nil: "reads fs dflt [] st st"
  by (simp add: reads_def)

lemma reads_append: "reads fs dflt xs st st' \<Longrightarrow> reads fs dflt ys st' st'' \<Longrightarrow> reads fs dflt (xs @ ys) st st''"
  by (auto simp: reads_def ObjBytes_append)

lemma reads_field:
  assumes "map_of fs k = Some (req, dec)" and "enc v = Some j" and "dec j s = Inr s'"
  shows "reads fs dflt [(k, enc v)] (s, bs) (s', case req of None \<Rightarrow> bs | Some i \<Rightarrow> set_bit8 i bs)"
  using assms by (simp add: reads_def split: option.split)

lemma map_of_here: "map_of ((k, v) # xs) k = Some v"
  by simp

lemma map_of_there: "k' \<noteq> k \<Longrightarrow> map_of xs k = Some v \<Longrightarrow> map_of ((k', v') # xs) k = Some v"
  by simp

lemma struct_round:
  assumes "enc v = Obj_Encode ms" and "\<And>j. dec j = decode_struct name fs dflt masks j s"
    and "reads fs dflt ms (s, replicate (length masks) 0) (s', bs)"
    and "s' = v" and "required_failures (map fst fs) 0 masks bs = []"
  shows "round_trips enc dec v"
  using assms by (auto simp: round_trips_def reads_def Obj_Encode_def decode_struct_def)

text \<open>An encoder and a decoder, and the values that survive the trip.\<close>

locale codec =
  fixes enc :: "'a \<Rightarrow> json option" and dec :: "json \<Rightarrow> 'a decoded" and wf :: "'a \<Rightarrow> bool"
  assumes round: "wf v \<Longrightarrow> round_trips enc dec v"
begin

lemma roundE:
  assumes "wf v"
  obtains j where "enc v = Some j" and "j \<noteq> JNull" and "dec j = Inr v"
  using round [OF assms] by (auto simp: round_trips_iff)

lemma field:
  assumes "wf v" and "map_of fs k = Some (req, store setf dec)"
  shows "reads fs dflt [(k, enc v)] (s, bs) (setf v s, case req of None \<Rightarrow> bs | Some i \<Rightarrow> set_bit8 i bs)"
  using assms by (auto elim!: roundE intro!: reads_field simp: store_def)

lemma into_field:
  assumes "wf v" and "map_of fs k = Some (req, D)" and "\<And>j. D j s = store setf dec j s"
  shows "reads fs dflt [(k, enc v)] (s, bs) (setf v s, case req of None \<Rightarrow> bs | Some i \<Rightarrow> set_bit8 i bs)"
  using assms by (auto elim!: roundE intro!: reads_field simp: store_def)

lemma nil_field:
  assumes "pred_option wf v" and "map_of fs k = Some (req, store setf (Nil_Decode dec))"
  shows "reads fs dflt [(k, Nil_Encode enc v)] (s, bs) (setf v s, case req of None \<Rightarrow> bs | Some i \<Rightarrow> set_bit8 i bs)"
  using assms by (cases v) (auto elim!: roundE intro!: reads_field simp: store_def Nil_Decode_def)

lemma opt_field:
  assumes "pred_option wf v" and "map_of fs k = Some (None, store setf (Opt_Decode dec))" and "setf None s = s"
  shows "reads fs dflt (Opt_member k enc v) (s, bs) (setf v s, bs)"
proof (cases v)
  case (Some a)
  then obtain j where "enc a = Some j" "dec j = Inr a" using assms(1) by (auto elim: roundE)
  then show ?thesis
    using reads_field [of fs k None "store setf (Opt_Decode dec)" enc a j s "setf v s" dflt bs] assms Some
    by (simp add: store_def Opt_Decode_def)
qed (simp add: reads_Nil assms)

lemma optnil_field:
  assumes "pred_optnil wf v" and "map_of fs k = Some (None, store setf (OptNil_Decode dec))" and "setf Unset s = s"
  shows "reads fs dflt (OptNil_member k enc v) (s, bs) (setf v s, bs)"
proof (cases v)
  case Null
  then show ?thesis
    using reads_field [of fs k None "store setf (OptNil_Decode dec)" "\<lambda>_. Some JNull" v JNull s "setf v s" dflt bs] assms
    by (simp add: store_def OptNil_Decode_def)
next
  case (Val a)
  then obtain j where "enc a = Some j" "j \<noteq> JNull" "dec j = Inr a" using assms(1) by (auto elim: roundE)
  then show ?thesis
    using reads_field [of fs k None "store setf (OptNil_Decode dec)" enc a j s "setf v s" dflt bs] assms Val
    by (simp add: store_def OptNil_Decode_def)
qed (simp add: reads_Nil assms)

lemma array: "list_all wf xs \<Longrightarrow> round_trips (Arr_Encode enc) (Arr_Decode dec) xs"
proof -
  assume wf: "list_all wf xs"
  then have some: "None \<notin> set (map enc xs)" by (induction xs) (auto elim: roundE)
  have "Arr_loop dec (map (the \<circ> enc) xs) acc = Inr (acc @ xs)" for acc
    using wf by (induction xs arbitrary: acc) (auto elim: roundE)
  then show ?thesis using some by (simp add: round_trips_def Arr_Encode_def)
qed

end

end
