(* ===== verification/Api_Json.thy ===== *)
theory Api_Json
  imports Api_Codec
begin

text \<open>
  The codecs of \<open>oas_json_gen.go\<close> for the types of the API, each an encoder, a table of fields and a
  decoder, with the types of \<open>oas_schemas_gen.go\<close>. Numbers are \<open>float64\<close> here, as in the code; the records
  of \<open>Cloud_Job\<close> keep what the engine works with. What the encoder of a type writes, its decoder reads
  back (locale \<open>codec\<close>).
\<close>

section \<open>Types\<close>

record WireEstimationResult =
  we_ExpValue :: float64
  we_Stds :: float64

record WireSamplingResult =
  ws_Counts :: raw_map
  ws_DividedCounts :: "raw_map optnil"

record WireJobResult =
  wr_Sampling :: "WireSamplingResult optnil"
  wr_Estimation :: "WireEstimationResult optnil"
  wr_AdditionalProps :: raw_map

record WireOperatorItem =
  wo_Pauli :: string
  wo_Coeff :: "float64 option"

record WireJobInfo =
  wi_Program :: "string list option"
  wi_CombinedProgram :: "string optnil"
  wi_Operator :: "WireOperatorItem list optnil"
  wi_Result :: "WireJobResult optnil"
  wi_TranspileResult :: "JobsTranspileResult optnil"
  wi_Message :: "string optnil"

record WireJobDef =
  wd_JobID :: string
  wd_Name :: "string optnil"
  wd_Description :: "string option"
  wd_DeviceID :: string
  wd_Shots :: int
  wd_JobType :: JobsJobType
  wd_JobInfo :: WireJobInfo
  wd_TranspilerInfo :: "raw_map optnil"
  wd_SimulatorInfo :: "raw_map optnil"
  wd_MitigationInfo :: "raw_map optnil"
  wd_Status :: JobsJobStatus
  wd_ExecutionTime :: "float64 optnil"
  wd_SubmittedAt :: "datetime optnil"
  wd_ReadyAt :: "datetime optnil"
  wd_RunningAt :: "datetime optnil"
  wd_EndedAt :: "datetime optnil"

record WireUpdateJobInfo =
  wu_CombinedProgram :: "string optnil"
  wu_TranspileResult :: "JobsTranspileResult optnil"
  wu_Result :: "WireJobResult optnil"
  wu_Message :: "string optnil"

record WireUpdateJobInfoRequest =
  wq_OverwriteStatus :: "JobsJobStatus option"
  wq_ExecutionTime :: "float64 optnil"
  wq_JobInfo :: "WireUpdateJobInfo option"

record WireDeviceInfoUpdate =
  wv_DeviceInfo :: "string option"
  wv_CalibratedAt :: "datetime optnil"

text \<open>The zero values of these types.\<close>

definition zero_EstimationResult :: WireEstimationResult where
  "zero_EstimationResult = \<lparr>we_ExpValue = 0, we_Stds = 0\<rparr>"

definition zero_SamplingResult :: WireSamplingResult where
  "zero_SamplingResult = \<lparr>ws_Counts = [], ws_DividedCounts = Unset\<rparr>"

definition zero_JobResult :: WireJobResult where
  "zero_JobResult = \<lparr>wr_Sampling = Unset, wr_Estimation = Unset, wr_AdditionalProps = []\<rparr>"

definition zero_OperatorItem :: WireOperatorItem where
  "zero_OperatorItem = \<lparr>wo_Pauli = [], wo_Coeff = None\<rparr>"

definition zero_TranspileResult :: JobsTranspileResult where
  "zero_TranspileResult =
    \<lparr>jt_TranspiledProgram = Some [], jt_Stats = Some [], jt_VirtualPhysicalMapping = Some []\<rparr>"

definition zero_JobInfo :: WireJobInfo where
  "zero_JobInfo =
    \<lparr>wi_Program = None, wi_CombinedProgram = Unset, wi_Operator = Unset, wi_Result = Unset,
     wi_TranspileResult = Unset, wi_Message = Unset\<rparr>"

definition zero_JobDef :: WireJobDef where
  "zero_JobDef =
    \<lparr>wd_JobID = [], wd_Name = Unset, wd_Description = None, wd_DeviceID = [], wd_Shots = 0,
     wd_JobType = OtherT [], wd_JobInfo = zero_JobInfo, wd_TranspilerInfo = Unset, wd_SimulatorInfo = Unset,
     wd_MitigationInfo = Unset, wd_Status = OtherS [], wd_ExecutionTime = Unset, wd_SubmittedAt = Unset,
     wd_ReadyAt = Unset, wd_RunningAt = Unset, wd_EndedAt = Unset\<rparr>"

definition zero_UpdateJobInfo :: WireUpdateJobInfo where
  "zero_UpdateJobInfo =
    \<lparr>wu_CombinedProgram = Unset, wu_TranspileResult = Unset, wu_Result = Unset, wu_Message = Unset\<rparr>"

definition zero_UpdateJobInfoRequest :: WireUpdateJobInfoRequest where
  "zero_UpdateJobInfoRequest = \<lparr>wq_OverwriteStatus = None, wq_ExecutionTime = Unset, wq_JobInfo = None\<rparr>"

lemmas zeros = zero_EstimationResult_def zero_SamplingResult_def zero_JobResult_def zero_OperatorItem_def
  zero_TranspileResult_def zero_JobInfo_def zero_JobDef_def zero_UpdateJobInfo_def
  zero_UpdateJobInfoRequest_def

section \<open>Enumerations\<close>

fun JobsJobStatus_string :: "JobsJobStatus \<Rightarrow> string" where
  "JobsJobStatus_string SubmittedS = ''submitted''"
| "JobsJobStatus_string ReadyS = ''ready''"
| "JobsJobStatus_string RunningS = ''running''"
| "JobsJobStatus_string SucceededS = ''succeeded''"
| "JobsJobStatus_string FailedS = ''failed''"
| "JobsJobStatus_string CancelledS = ''cancelled''"
| "JobsJobStatus_string (OtherS s) = s"

definition JobsJobStatus_of :: "string \<Rightarrow> JobsJobStatus" where
  "JobsJobStatus_of v =
    (if v = ''submitted'' then SubmittedS
     else if v = ''ready'' then ReadyS
     else if v = ''running'' then RunningS
     else if v = ''succeeded'' then SucceededS
     else if v = ''failed'' then FailedS
     else if v = ''cancelled'' then CancelledS
     else OtherS v)"

definition JobsJobStatus_Encode :: "JobsJobStatus \<Rightarrow> json option" where
  "JobsJobStatus_Encode s = Some (JStr (JobsJobStatus_string s))"

definition JobsJobStatus_Decode :: "json \<Rightarrow> JobsJobStatus decoded" where
  "JobsJobStatus_Decode j = dec_bind (Str_Decode j) (\<lambda>v. Inr (JobsJobStatus_of v))"

fun JobsJobType_string :: "JobsJobType \<Rightarrow> string" where
  "JobsJobType_string SamplingT = ''sampling''"
| "JobsJobType_string EstimationT = ''estimation''"
| "JobsJobType_string MultiManualT = ''multi_manual''"
| "JobsJobType_string SseT = ''sse''"
| "JobsJobType_string (OtherT s) = s"

definition JobsJobType_of :: "string \<Rightarrow> JobsJobType" where
  "JobsJobType_of v =
    (if v = ''sampling'' then SamplingT
     else if v = ''estimation'' then EstimationT
     else if v = ''multi_manual'' then MultiManualT
     else if v = ''sse'' then SseT
     else OtherT v)"

definition JobsJobType_Encode :: "JobsJobType \<Rightarrow> json option" where
  "JobsJobType_Encode s = Some (JStr (JobsJobType_string s))"

definition JobsJobType_Decode :: "json \<Rightarrow> JobsJobType decoded" where
  "JobsJobType_Decode j = dec_bind (Str_Decode j) (\<lambda>v. Inr (JobsJobType_of v))"

section \<open>Values\<close>

definition Str_Encode :: "string \<Rightarrow> json option" where
  "Str_Encode s = Some (JStr s)"

definition Float64_Encode :: "jx_formats \<Rightarrow> float64 \<Rightarrow> json option" where
  "Float64_Encode f x = Some (jx_writeFloat64 f x)"

definition Float64_Decode :: "jx_formats \<Rightarrow> json \<Rightarrow> float64 decoded" where
  "Float64_Decode f j = dec_opt (jx_readFloat64 f j)"

definition Int_Encode :: "jx_formats \<Rightarrow> int \<Rightarrow> json option" where
  "Int_Encode f n = Some (jx_writeInt f n)"

definition Int_Decode :: "jx_formats \<Rightarrow> json \<Rightarrow> int decoded" where
  "Int_Decode f j = dec_opt (jx_readInt f j)"

definition DateTime_Encode :: "jx_formats \<Rightarrow> datetime \<Rightarrow> json option" where
  "DateTime_Encode f t = Some (jx_writeDateTime f t)"

definition DateTime_Decode :: "jx_formats \<Rightarrow> json \<Rightarrow> datetime decoded" where
  "DateTime_Decode f j = dec_opt (jx_readDateTime f j)"

definition new_raw_map :: "json \<Rightarrow> raw_map decoded" where
  "new_raw_map j = raw_map_Decode j []"

section \<open>Results of jobs\<close>

definition JobsEstimationResult_Encode :: "jx_formats \<Rightarrow> WireEstimationResult \<Rightarrow> json option" where
  "JobsEstimationResult_Encode f s =
    Obj_Encode ([(''exp_value'', Float64_Encode f (we_ExpValue s))] @ [(''stds'', Float64_Encode f (we_Stds s))])"

definition JobsEstimationResult_fields :: "jx_formats \<Rightarrow> WireEstimationResult fields" where
  "JobsEstimationResult_fields f =
    [(''exp_value'', Some 0, store (\<lambda>v s. s\<lparr>we_ExpValue := v\<rparr>) (Float64_Decode f)),
     (''stds'', Some 1, store (\<lambda>v s. s\<lparr>we_Stds := v\<rparr>) (Float64_Decode f))]"

definition JobsEstimationResult_Decode :: "jx_formats \<Rightarrow> json \<Rightarrow> WireEstimationResult \<Rightarrow> WireEstimationResult decoded" where
  "JobsEstimationResult_Decode f =
    decode_struct ''JobsEstimationResult'' (JobsEstimationResult_fields f) no_default [0b00000011]"

definition JobsSamplingResult_Encode :: "WireSamplingResult \<Rightarrow> json option" where
  "JobsSamplingResult_Encode s =
    Obj_Encode ([(''counts'', raw_map_Encode (ws_Counts s))] @
      OptNil_member ''divided_counts'' raw_map_Encode (ws_DividedCounts s))"

definition JobsSamplingResult_fields :: "WireSamplingResult fields" where
  "JobsSamplingResult_fields =
    [(''counts'', Some 0, \<lambda>j s. store (\<lambda>v s. s\<lparr>ws_Counts := v\<rparr>) (\<lambda>j. raw_map_Decode j (ws_Counts s)) j s),
     (''divided_counts'', None, store (\<lambda>v s. s\<lparr>ws_DividedCounts := v\<rparr>) (OptNil_Decode new_raw_map))]"

definition JobsSamplingResult_Decode :: "json \<Rightarrow> WireSamplingResult \<Rightarrow> WireSamplingResult decoded" where
  "JobsSamplingResult_Decode =
    decode_struct ''JobsSamplingResult'' JobsSamplingResult_fields no_default [0b00000001]"

definition JobsJobResult_Encode :: "jx_formats \<Rightarrow> WireJobResult \<Rightarrow> json option" where
  "JobsJobResult_Encode f s =
    Obj_Encode (OptNil_member ''sampling'' JobsSamplingResult_Encode (wr_Sampling s) @
      OptNil_member ''estimation'' (JobsEstimationResult_Encode f) (wr_Estimation s) @
      raw_map_fields (wr_AdditionalProps s))"

definition JobsJobResult_fields :: "jx_formats \<Rightarrow> WireJobResult fields" where
  "JobsJobResult_fields f =
    [(''sampling'', None, store (\<lambda>v s. s\<lparr>wr_Sampling := v\<rparr>)
        (OptNil_Decode (\<lambda>j. JobsSamplingResult_Decode j zero_SamplingResult))),
     (''estimation'', None, store (\<lambda>v s. s\<lparr>wr_Estimation := v\<rparr>)
        (OptNil_Decode (\<lambda>j. JobsEstimationResult_Decode f j zero_EstimationResult)))]"

definition JobsJobResult_default :: "string \<Rightarrow> json \<Rightarrow> WireJobResult \<Rightarrow> WireJobResult" where
  "JobsJobResult_default k v s =
    s\<lparr>wr_AdditionalProps := AList.update k (Some (json_print v)) (wr_AdditionalProps s)\<rparr>"

definition JobsJobResult_Decode :: "jx_formats \<Rightarrow> json \<Rightarrow> WireJobResult \<Rightarrow> WireJobResult decoded" where
  "JobsJobResult_Decode f j s =
    decode_struct ''JobsJobResult'' (JobsJobResult_fields f) JobsJobResult_default [] j (s\<lparr>wr_AdditionalProps := []\<rparr>)"

definition JobsTranspileResult_Encode :: "JobsTranspileResult \<Rightarrow> json option" where
  "JobsTranspileResult_Encode s =
    Obj_Encode ([(''transpiled_program'', Nil_Encode Str_Encode (jt_TranspiledProgram s))] @
      [(''stats'', Nil_Encode raw_map_Encode (jt_Stats s))] @
      [(''virtual_physical_mapping'', Nil_Encode raw_map_Encode (jt_VirtualPhysicalMapping s))])"

definition JobsTranspileResult_fields :: "JobsTranspileResult fields" where
  "JobsTranspileResult_fields =
    [(''transpiled_program'', Some 0, store (\<lambda>v s. s\<lparr>jt_TranspiledProgram := v\<rparr>) (Nil_Decode Str_Decode)),
     (''stats'', Some 1, store (\<lambda>v s. s\<lparr>jt_Stats := v\<rparr>) (Nil_Decode new_raw_map)),
     (''virtual_physical_mapping'', Some 2,
        store (\<lambda>v s. s\<lparr>jt_VirtualPhysicalMapping := v\<rparr>) (Nil_Decode new_raw_map))]"

definition JobsTranspileResult_Decode :: "json \<Rightarrow> JobsTranspileResult \<Rightarrow> JobsTranspileResult decoded" where
  "JobsTranspileResult_Decode =
    decode_struct ''JobsTranspileResult'' JobsTranspileResult_fields no_default [0b00000111]"

section \<open>Jobs\<close>

definition JobsOperatorItem_Encode :: "jx_formats \<Rightarrow> WireOperatorItem \<Rightarrow> json option" where
  "JobsOperatorItem_Encode f s =
    Obj_Encode ([(''pauli'', Str_Encode (wo_Pauli s))] @ Opt_member ''coeff'' (Float64_Encode f) (wo_Coeff s))"

definition JobsOperatorItem_fields :: "jx_formats \<Rightarrow> WireOperatorItem fields" where
  "JobsOperatorItem_fields f =
    [(''pauli'', Some 0, store (\<lambda>v s. s\<lparr>wo_Pauli := v\<rparr>) Str_Decode),
     (''coeff'', None, store (\<lambda>v s. s\<lparr>wo_Coeff := v\<rparr>) (Opt_Decode (Float64_Decode f)))]"

definition JobsOperatorItem_Decode :: "jx_formats \<Rightarrow> json \<Rightarrow> WireOperatorItem \<Rightarrow> WireOperatorItem decoded" where
  "JobsOperatorItem_Decode f =
    decode_struct ''JobsOperatorItem'' (JobsOperatorItem_fields f) no_default [0b00000001]"

definition JobsJobInfo_Encode :: "jx_formats \<Rightarrow> WireJobInfo \<Rightarrow> json option" where
  "JobsJobInfo_Encode f s =
    Obj_Encode ([(''program'', Arr_Encode Str_Encode (case wi_Program s of None \<Rightarrow> [] | Some p \<Rightarrow> p))] @
      OptNil_member ''combined_program'' Str_Encode (wi_CombinedProgram s) @
      OptNil_member ''operator'' (Arr_Encode (JobsOperatorItem_Encode f)) (wi_Operator s) @
      OptNil_member ''result'' (JobsJobResult_Encode f) (wi_Result s) @
      OptNil_member ''transpile_result'' JobsTranspileResult_Encode (wi_TranspileResult s) @
      OptNil_member ''message'' Str_Encode (wi_Message s))"

definition JobsJobInfo_fields :: "jx_formats \<Rightarrow> WireJobInfo fields" where
  "JobsJobInfo_fields f =
    [(''program'', Some 0, store (\<lambda>v s. s\<lparr>wi_Program := Some v\<rparr>) (Arr_Decode Str_Decode)),
     (''combined_program'', None, store (\<lambda>v s. s\<lparr>wi_CombinedProgram := v\<rparr>) (OptNil_Decode Str_Decode)),
     (''operator'', None, store (\<lambda>v s. s\<lparr>wi_Operator := v\<rparr>)
        (OptNil_Decode (Arr_Decode (\<lambda>j. JobsOperatorItem_Decode f j zero_OperatorItem)))),
     (''result'', None, store (\<lambda>v s. s\<lparr>wi_Result := v\<rparr>)
        (OptNil_Decode (\<lambda>j. JobsJobResult_Decode f j zero_JobResult))),
     (''transpile_result'', None, store (\<lambda>v s. s\<lparr>wi_TranspileResult := v\<rparr>)
        (OptNil_Decode (\<lambda>j. JobsTranspileResult_Decode j zero_TranspileResult))),
     (''message'', None, store (\<lambda>v s. s\<lparr>wi_Message := v\<rparr>) (OptNil_Decode Str_Decode))]"

definition JobsJobInfo_setDefaults :: "WireJobInfo \<Rightarrow> WireJobInfo" where
  "JobsJobInfo_setDefaults s =
    s\<lparr>wi_CombinedProgram := set_Null (wi_CombinedProgram s), wi_Message := set_Null (wi_Message s)\<rparr>"

definition JobsJobInfo_Decode :: "jx_formats \<Rightarrow> json \<Rightarrow> WireJobInfo \<Rightarrow> WireJobInfo decoded" where
  "JobsJobInfo_Decode f j s =
    decode_struct ''JobsJobInfo'' (JobsJobInfo_fields f) no_default [0b00000001] j (JobsJobInfo_setDefaults s)"

definition JobsJobDef_Encode :: "jx_formats \<Rightarrow> WireJobDef \<Rightarrow> json option" where
  "JobsJobDef_Encode f s =
    Obj_Encode ([(''job_id'', Str_Encode (wd_JobID s))] @
      OptNil_member ''name'' Str_Encode (wd_Name s) @
      Opt_member ''description'' Str_Encode (wd_Description s) @
      [(''device_id'', Str_Encode (wd_DeviceID s))] @
      [(''shots'', Int_Encode f (wd_Shots s))] @
      [(''job_type'', JobsJobType_Encode (wd_JobType s))] @
      [(''job_info'', JobsJobInfo_Encode f (wd_JobInfo s))] @
      OptNil_member ''transpiler_info'' raw_map_Encode (wd_TranspilerInfo s) @
      OptNil_member ''simulator_info'' raw_map_Encode (wd_SimulatorInfo s) @
      OptNil_member ''mitigation_info'' raw_map_Encode (wd_MitigationInfo s) @
      [(''status'', JobsJobStatus_Encode (wd_Status s))] @
      OptNil_member ''execution_time'' (Float64_Encode f) (wd_ExecutionTime s) @
      OptNil_member ''submitted_at'' (DateTime_Encode f) (wd_SubmittedAt s) @
      OptNil_member ''ready_at'' (DateTime_Encode f) (wd_ReadyAt s) @
      OptNil_member ''running_at'' (DateTime_Encode f) (wd_RunningAt s) @
      OptNil_member ''ended_at'' (DateTime_Encode f) (wd_EndedAt s))"

definition JobsJobDef_fields :: "jx_formats \<Rightarrow> WireJobDef fields" where
  "JobsJobDef_fields f =
    [(''job_id'', Some 0, store (\<lambda>v s. s\<lparr>wd_JobID := v\<rparr>) Str_Decode),
     (''name'', None, store (\<lambda>v s. s\<lparr>wd_Name := v\<rparr>) (OptNil_Decode Str_Decode)),
     (''description'', None, store (\<lambda>v s. s\<lparr>wd_Description := v\<rparr>) (Opt_Decode Str_Decode)),
     (''device_id'', Some 3, store (\<lambda>v s. s\<lparr>wd_DeviceID := v\<rparr>) Str_Decode),
     (''shots'', Some 4, store (\<lambda>v s. s\<lparr>wd_Shots := v\<rparr>) (Int_Decode f)),
     (''job_type'', Some 5, store (\<lambda>v s. s\<lparr>wd_JobType := v\<rparr>) JobsJobType_Decode),
     (''job_info'', Some 6,
        \<lambda>j s. store (\<lambda>v s. s\<lparr>wd_JobInfo := v\<rparr>) (\<lambda>j. JobsJobInfo_Decode f j (wd_JobInfo s)) j s),
     (''transpiler_info'', None, store (\<lambda>v s. s\<lparr>wd_TranspilerInfo := v\<rparr>) (OptNil_Decode new_raw_map)),
     (''simulator_info'', None, store (\<lambda>v s. s\<lparr>wd_SimulatorInfo := v\<rparr>) (OptNil_Decode new_raw_map)),
     (''mitigation_info'', None, store (\<lambda>v s. s\<lparr>wd_MitigationInfo := v\<rparr>) (OptNil_Decode new_raw_map)),
     (''status'', Some 10, store (\<lambda>v s. s\<lparr>wd_Status := v\<rparr>) JobsJobStatus_Decode),
     (''execution_time'', None, store (\<lambda>v s. s\<lparr>wd_ExecutionTime := v\<rparr>) (OptNil_Decode (Float64_Decode f))),
     (''submitted_at'', None, store (\<lambda>v s. s\<lparr>wd_SubmittedAt := v\<rparr>) (OptNil_Decode (DateTime_Decode f))),
     (''ready_at'', None, store (\<lambda>v s. s\<lparr>wd_ReadyAt := v\<rparr>) (OptNil_Decode (DateTime_Decode f))),
     (''running_at'', None, store (\<lambda>v s. s\<lparr>wd_RunningAt := v\<rparr>) (OptNil_Decode (DateTime_Decode f))),
     (''ended_at'', None, store (\<lambda>v s. s\<lparr>wd_EndedAt := v\<rparr>) (OptNil_Decode (DateTime_Decode f)))]"

definition JobsJobDef_setDefaults :: "WireJobDef \<Rightarrow> WireJobDef" where
  "JobsJobDef_setDefaults s =
    s\<lparr>wd_ExecutionTime := set_Null (wd_ExecutionTime s), wd_SubmittedAt := set_Null (wd_SubmittedAt s),
      wd_ReadyAt := set_Null (wd_ReadyAt s), wd_RunningAt := set_Null (wd_RunningAt s),
      wd_EndedAt := set_Null (wd_EndedAt s)\<rparr>"

definition JobsJobDef_Decode :: "jx_formats \<Rightarrow> json \<Rightarrow> WireJobDef \<Rightarrow> WireJobDef decoded" where
  "JobsJobDef_Decode f j s =
    decode_struct ''JobsJobDef'' (JobsJobDef_fields f) no_default [0b01111001, 0b00000100] j
      (JobsJobDef_setDefaults s)"

definition GetJobsOK_Encode :: "jx_formats \<Rightarrow> WireJobDef list \<Rightarrow> json option" where
  "GetJobsOK_Encode f = Arr_Encode (JobsJobDef_Encode f)"

definition GetJobsOK_Decode :: "jx_formats \<Rightarrow> json \<Rightarrow> WireJobDef list decoded" where
  "GetJobsOK_Decode f j = dec_wrap ''alias'' (Arr_Decode (\<lambda>j. JobsJobDef_Decode f j zero_JobDef) j)"

section \<open>Updates\<close>

definition JobsUpdateJobInfo_Encode :: "jx_formats \<Rightarrow> WireUpdateJobInfo \<Rightarrow> json option" where
  "JobsUpdateJobInfo_Encode f s =
    Obj_Encode (OptNil_member ''combined_program'' Str_Encode (wu_CombinedProgram s) @
      OptNil_member ''transpile_result'' JobsTranspileResult_Encode (wu_TranspileResult s) @
      OptNil_member ''result'' (JobsJobResult_Encode f) (wu_Result s) @
      OptNil_member ''message'' Str_Encode (wu_Message s))"

definition JobsUpdateJobInfo_fields :: "jx_formats \<Rightarrow> WireUpdateJobInfo fields" where
  "JobsUpdateJobInfo_fields f =
    [(''combined_program'', None, store (\<lambda>v s. s\<lparr>wu_CombinedProgram := v\<rparr>) (OptNil_Decode Str_Decode)),
     (''transpile_result'', None, store (\<lambda>v s. s\<lparr>wu_TranspileResult := v\<rparr>)
        (OptNil_Decode (\<lambda>j. JobsTranspileResult_Decode j zero_TranspileResult))),
     (''result'', None, store (\<lambda>v s. s\<lparr>wu_Result := v\<rparr>)
        (OptNil_Decode (\<lambda>j. JobsJobResult_Decode f j zero_JobResult))),
     (''message'', None, store (\<lambda>v s. s\<lparr>wu_Message := v\<rparr>) (OptNil_Decode Str_Decode))]"

definition JobsUpdateJobInfo_Decode :: "jx_formats \<Rightarrow> json \<Rightarrow> WireUpdateJobInfo \<Rightarrow> WireUpdateJobInfo decoded" where
  "JobsUpdateJobInfo_Decode f =
    decode_struct ''JobsUpdateJobInfo'' (JobsUpdateJobInfo_fields f) no_default []"

definition JobsUpdateJobInfoRequest_Encode :: "jx_formats \<Rightarrow> WireUpdateJobInfoRequest \<Rightarrow> json option" where
  "JobsUpdateJobInfoRequest_Encode f s =
    Obj_Encode (Opt_member ''overwrite_status'' JobsJobStatus_Encode (wq_OverwriteStatus s) @
      OptNil_member ''execution_time'' (Float64_Encode f) (wq_ExecutionTime s) @
      Opt_member ''job_info'' (JobsUpdateJobInfo_Encode f) (wq_JobInfo s))"

definition JobsUpdateJobInfoRequest_fields :: "jx_formats \<Rightarrow> WireUpdateJobInfoRequest fields" where
  "JobsUpdateJobInfoRequest_fields f =
    [(''overwrite_status'', None, store (\<lambda>v s. s\<lparr>wq_OverwriteStatus := v\<rparr>) (Opt_Decode JobsJobStatus_Decode)),
     (''execution_time'', None, store (\<lambda>v s. s\<lparr>wq_ExecutionTime := v\<rparr>) (OptNil_Decode (Float64_Decode f))),
     (''job_info'', None, store (\<lambda>v s. s\<lparr>wq_JobInfo := v\<rparr>)
        (Opt_Decode (\<lambda>j. JobsUpdateJobInfo_Decode f j zero_UpdateJobInfo)))]"

definition JobsUpdateJobInfoRequest_Decode ::
  "jx_formats \<Rightarrow> json \<Rightarrow> WireUpdateJobInfoRequest \<Rightarrow> WireUpdateJobInfoRequest decoded" where
  "JobsUpdateJobInfoRequest_Decode f =
    decode_struct ''JobsUpdateJobInfoRequest'' (JobsUpdateJobInfoRequest_fields f) no_default []"

text \<open>The status of a device or a job in a request is a string type with named constants.\<close>

definition DevicesDeviceStatusUpdate_Encode :: "string \<Rightarrow> json option" where
  "DevicesDeviceStatusUpdate_Encode status = Obj_Encode [(''status'', Str_Encode status)]"

definition DevicesDeviceStatusUpdate_Decode :: "json \<Rightarrow> string \<Rightarrow> string decoded" where
  "DevicesDeviceStatusUpdate_Decode =
    decode_struct ''DevicesDeviceStatusUpdate'' [(''status'', Some 0, store (\<lambda>v s. v) Str_Decode)] no_default
      [0b00000001]"

definition JobsJobStatusUpdate_Encode :: "string \<Rightarrow> json option" where
  "JobsJobStatusUpdate_Encode status = Obj_Encode [(''status'', Str_Encode status)]"

definition JobsJobStatusUpdate_Decode :: "json \<Rightarrow> string \<Rightarrow> string decoded" where
  "JobsJobStatusUpdate_Decode =
    decode_struct ''JobsJobStatusUpdate'' [(''status'', Some 0, store (\<lambda>v s. v) Str_Decode)] no_default
      [0b00000001]"

definition DevicesDeviceInfoUpdate_Encode :: "jx_formats \<Rightarrow> WireDeviceInfoUpdate \<Rightarrow> json option" where
  "DevicesDeviceInfoUpdate_Encode f s =
    Obj_Encode ([(''device_info'', Nil_Encode Str_Encode (wv_DeviceInfo s))] @
      OptNil_member ''calibrated_at'' (DateTime_Encode f) (wv_CalibratedAt s))"

definition DevicesDeviceInfoUpdate_Decode :: "jx_formats \<Rightarrow> json \<Rightarrow> WireDeviceInfoUpdate \<Rightarrow> WireDeviceInfoUpdate decoded" where
  "DevicesDeviceInfoUpdate_Decode f =
    decode_struct ''DevicesDeviceInfoUpdate''
      [(''device_info'', Some 0, store (\<lambda>v s. s\<lparr>wv_DeviceInfo := v\<rparr>) (Nil_Decode Str_Decode)),
       (''calibrated_at'', None, store (\<lambda>v s. s\<lparr>wv_CalibratedAt := v\<rparr>) (OptNil_Decode (DateTime_Decode f)))]
      no_default [0b00000001]"

definition DevicesUpdateDeviceRequest_Encode :: "jx_formats \<Rightarrow> int optnil \<Rightarrow> json option" where
  "DevicesUpdateDeviceRequest_Encode f nQubits = Obj_Encode (OptNil_member ''n_qubits'' (Int_Encode f) nQubits)"

definition DevicesUpdateDeviceRequest_Decode :: "jx_formats \<Rightarrow> json \<Rightarrow> int optnil \<Rightarrow> int optnil decoded" where
  "DevicesUpdateDeviceRequest_Decode f =
    decode_struct ''DevicesUpdateDeviceRequest''
      [(''n_qubits'', None, store (\<lambda>v s. v) (OptNil_Decode (Int_Decode f)))] no_default []"

section \<open>Messages\<close>

text \<open>The answers to updates and the errors of the API are structs with one required message.\<close>

definition message_fields :: "string fields" where
  "message_fields = [(''message'', Some 0, store (\<lambda>v s. v) Str_Decode)]"

definition DevicesDeviceDataUpdateResponse_Decode :: "json \<Rightarrow> string decoded" where
  "DevicesDeviceDataUpdateResponse_Decode j =
    decode_struct ''DevicesDeviceDataUpdateResponse'' message_fields no_default [0b00000001] j
      ''Device's data updated''"

definition DevicesUpdateDeviceResponse_Decode :: "json \<Rightarrow> string decoded" where
  "DevicesUpdateDeviceResponse_Decode j =
    decode_struct ''DevicesUpdateDeviceResponse'' message_fields no_default [0b00000001] j
      ''Device is successfully updated.''"

definition ErrorBadRequest_Decode :: "json \<Rightarrow> string decoded" where
  "ErrorBadRequest_Decode j = decode_struct ''ErrorBadRequest'' message_fields no_default [0b00000001] j []"

definition ErrorConflictError_Decode :: "json \<Rightarrow> string decoded" where
  "ErrorConflictError_Decode j = decode_struct ''ErrorConflictError'' message_fields no_default [0b00000001] j []"

definition ErrorInternalServerError_Decode :: "json \<Rightarrow> string decoded" where
  "ErrorInternalServerError_Decode j =
    decode_struct ''ErrorInternalServerError'' message_fields no_default [0b00000001] j []"

definition ErrorNotFoundError_Decode :: "json \<Rightarrow> string decoded" where
  "ErrorNotFoundError_Decode j = decode_struct ''ErrorNotFoundError'' message_fields no_default [0b00000001] j []"

definition JobsJobStatusUpdateResponse_Decode :: "json \<Rightarrow> string decoded" where
  "JobsJobStatusUpdateResponse_Decode j =
    decode_struct ''JobsJobStatusUpdateResponse'' message_fields no_default [0b00000001] j []"

definition JobsUpdateJobInfoResponse_Decode :: "json \<Rightarrow> string decoded" where
  "JobsUpdateJobInfoResponse_Decode j =
    decode_struct ''JobsUpdateJobInfoResponse'' message_fields no_default [0b00000001] j []"

definition JobsUpdateJobTranspilerInfoResponse_Decode :: "json \<Rightarrow> string decoded" where
  "JobsUpdateJobTranspilerInfoResponse_Decode j =
    decode_struct ''JobsUpdateJobTranspilerInfoResponse'' message_fields no_default [0b00000001] j []"

definition JobsUploadSselogResponse_Decode :: "json \<Rightarrow> string decoded" where
  "JobsUploadSselogResponse_Decode j =
    decode_struct ''JobsUploadSselogResponse'' message_fields no_default [0b00000001] j []"

section \<open>Values\<close>

definition float64_ok :: "jx_formats \<Rightarrow> float64 \<Rightarrow> bool" where
  "float64_ok f x \<longleftrightarrow> jx_writeFloat64 f x \<noteq> JNull \<and> jx_readFloat64 f (jx_writeFloat64 f x) = Some x"

definition int_ok :: "jx_formats \<Rightarrow> int \<Rightarrow> bool" where
  "int_ok f n \<longleftrightarrow> jx_writeInt f n \<noteq> JNull \<and> jx_readInt f (jx_writeInt f n) = Some n"

definition datetime_ok :: "jx_formats \<Rightarrow> datetime \<Rightarrow> bool" where
  "datetime_ok f t \<longleftrightarrow> jx_writeDateTime f t \<noteq> JNull \<and> jx_readDateTime f (jx_writeDateTime f t) = Some t"

definition raw_ok :: "string option \<Rightarrow> bool" where
  "raw_ok elem = (case Raw_Encode elem of None \<Rightarrow> False | Some j \<Rightarrow> elem = Some (json_print j))"

definition raw_map_ok :: "raw_map \<Rightarrow> bool" where
  "raw_map_ok m \<longleftrightarrow> distinct (map fst m) \<and> list_all (\<lambda>(k, elem). raw_ok elem) m"

fun status_ok :: "JobsJobStatus \<Rightarrow> bool" where
  "status_ok (OtherS s) \<longleftrightarrow> JobsJobStatus_of s = OtherS s"
| "status_ok _ \<longleftrightarrow> True"

fun type_ok :: "JobsJobType \<Rightarrow> bool" where
  "type_ok (OtherT s) \<longleftrightarrow> JobsJobType_of s = OtherT s"
| "type_ok _ \<longleftrightarrow> True"

interpretation str: codec Str_Encode Str_Decode "\<lambda>_. True"
  by unfold_locales (simp add: round_trips_def Str_Encode_def)

interpretation strs: codec "Arr_Encode Str_Encode" "Arr_Decode Str_Decode" "\<lambda>_. True"
  by unfold_locales (rule str.array, simp add: list_all_iff)

interpretation float: codec "Float64_Encode f" "Float64_Decode f" "float64_ok f" for f
  by unfold_locales (simp add: round_trips_def Float64_Encode_def Float64_Decode_def float64_ok_def)

interpretation integer: codec "Int_Encode f" "Int_Decode f" "int_ok f" for f
  by unfold_locales (simp add: round_trips_def Int_Encode_def Int_Decode_def int_ok_def)

interpretation datetime: codec "DateTime_Encode f" "DateTime_Decode f" "datetime_ok f" for f
  by unfold_locales (simp add: round_trips_def DateTime_Encode_def DateTime_Decode_def datetime_ok_def)

interpretation job_status: codec JobsJobStatus_Encode JobsJobStatus_Decode status_ok
proof unfold_locales
  show "status_ok v \<Longrightarrow> round_trips JobsJobStatus_Encode JobsJobStatus_Decode v" for v
    by (cases v) (simp_all add: round_trips_def JobsJobStatus_Encode_def JobsJobStatus_Decode_def JobsJobStatus_of_def)
qed

interpretation job_type: codec JobsJobType_Encode JobsJobType_Decode type_ok
proof unfold_locales
  show "type_ok v \<Longrightarrow> round_trips JobsJobType_Encode JobsJobType_Decode v" for v
    by (cases v) (simp_all add: round_trips_def JobsJobType_Encode_def JobsJobType_Decode_def JobsJobType_of_def)
qed

lemma raw_fields_ok:
  assumes "raw_map_ok m"
  shows "None \<notin> snd ` set (raw_map_fields m)"
    and "map (\<lambda>(k, v). (k, Some (json_print v))) (map (\<lambda>(k, j). (k, the j)) (raw_map_fields m)) = m"
  using assms by (induction m) (auto simp: raw_map_ok_def raw_ok_def raw_map_fields_def split: option.splits)

interpretation raw: codec raw_map_Encode new_raw_map raw_map_ok
proof unfold_locales
  show "raw_map_ok v \<Longrightarrow> round_trips raw_map_Encode new_raw_map v" for v
    using raw_fields_ok [of v]
    by (simp add: round_trips_def raw_map_Encode_def Obj_Encode_def new_raw_map_def raw_map_ok_def)
qed


section \<open>Structs\<close>

lemma pred_option_True [simp]: "pred_option (\<lambda>_. True) v"
  by (cases v) simp_all

lemma pred_optnil_True [simp]: "pred_optnil (\<lambda>_. True) v"
  by (cases v) simp_all

lemmas value_fields =
  str.field str.nil_field str.opt_field str.optnil_field strs.field float.field float.opt_field
  float.optnil_field integer.field integer.optnil_field datetime.optnil_field raw.field raw.nil_field
  raw.optnil_field job_status.field job_status.opt_field job_type.field

lemmas reads_rules = reads_append map_of_here map_of_there value_fields

lemmas struct_eval = zeros set_bit8_def JobsJobInfo_setDefaults_def JobsJobDef_setDefaults_def

definition estimation_ok :: "jx_formats \<Rightarrow> WireEstimationResult \<Rightarrow> bool" where
  "estimation_ok f v \<longleftrightarrow> float64_ok f (we_ExpValue v) \<and> float64_ok f (we_Stds v)"

lemma JobsEstimationResult_round:
  "estimation_ok f v \<Longrightarrow>
    round_trips (JobsEstimationResult_Encode f) (\<lambda>j. JobsEstimationResult_Decode f j zero_EstimationResult) v"
  by (rule struct_round, rule JobsEstimationResult_Encode_def,
      unfold JobsEstimationResult_Decode_def JobsEstimationResult_fields_def, rule refl,
      (rule reads_rules | (simp add: estimation_ok_def struct_eval; fail))+)

interpretation estimation: codec "JobsEstimationResult_Encode f"
  "\<lambda>j. JobsEstimationResult_Decode f j zero_EstimationResult" "estimation_ok f" for f
  by unfold_locales (rule JobsEstimationResult_round)

definition sampling_ok :: "WireSamplingResult \<Rightarrow> bool" where
  "sampling_ok v \<longleftrightarrow> raw_map_ok (ws_Counts v) \<and> pred_optnil raw_map_ok (ws_DividedCounts v)"

lemma JobsSamplingResult_counts:
  "raw_map_ok m \<Longrightarrow>
    reads JobsSamplingResult_fields no_default [(''counts'', raw_map_Encode m)] (zero_SamplingResult, [0])
      (zero_SamplingResult\<lparr>ws_Counts := m\<rparr>, set_bit8 0 [0])"
  using raw.into_field [where setf = "\<lambda>v s. s\<lparr>ws_Counts := v\<rparr>" and s = zero_SamplingResult and req = "Some 0"]
  by (simp add: JobsSamplingResult_fields_def zeros store_def new_raw_map_def)

lemma JobsSamplingResult_round:
  "sampling_ok v \<Longrightarrow>
    round_trips JobsSamplingResult_Encode (\<lambda>j. JobsSamplingResult_Decode j zero_SamplingResult) v"
  by (rule struct_round, rule JobsSamplingResult_Encode_def, unfold JobsSamplingResult_Decode_def, rule refl,
      rule reads_append, simp, rule JobsSamplingResult_counts, simp add: sampling_ok_def,
      unfold JobsSamplingResult_fields_def,
      (rule reads_rules | (simp add: sampling_ok_def struct_eval; fail))+)

interpretation sampling: codec JobsSamplingResult_Encode
  "\<lambda>j. JobsSamplingResult_Decode j zero_SamplingResult" sampling_ok
  by unfold_locales (rule JobsSamplingResult_round)

definition transpile_ok :: "JobsTranspileResult \<Rightarrow> bool" where
  "transpile_ok v \<longleftrightarrow> pred_option raw_map_ok (jt_Stats v) \<and> pred_option raw_map_ok (jt_VirtualPhysicalMapping v)"

lemma JobsTranspileResult_round:
  "transpile_ok v \<Longrightarrow>
    round_trips JobsTranspileResult_Encode (\<lambda>j. JobsTranspileResult_Decode j zero_TranspileResult) v"
  by (rule struct_round, rule JobsTranspileResult_Encode_def,
      unfold JobsTranspileResult_Decode_def JobsTranspileResult_fields_def, rule refl,
      (rule reads_rules | (simp add: transpile_ok_def struct_eval; fail))+)

interpretation transpiled: codec JobsTranspileResult_Encode
  "\<lambda>j. JobsTranspileResult_Decode j zero_TranspileResult" transpile_ok
  by unfold_locales (rule JobsTranspileResult_round)

definition operator_ok :: "jx_formats \<Rightarrow> WireOperatorItem \<Rightarrow> bool" where
  "operator_ok f v \<longleftrightarrow> pred_option (float64_ok f) (wo_Coeff v)"

lemma JobsOperatorItem_round:
  "operator_ok f v \<Longrightarrow>
    round_trips (JobsOperatorItem_Encode f) (\<lambda>j. JobsOperatorItem_Decode f j zero_OperatorItem) v"
  by (rule struct_round, rule JobsOperatorItem_Encode_def,
      unfold JobsOperatorItem_Decode_def JobsOperatorItem_fields_def, rule refl,
      (rule reads_rules | (simp add: operator_ok_def struct_eval; fail))+)

interpretation operators: codec "JobsOperatorItem_Encode f"
  "\<lambda>j. JobsOperatorItem_Decode f j zero_OperatorItem" "operator_ok f" for f
  by unfold_locales (rule JobsOperatorItem_round)

interpretation operator_list: codec "Arr_Encode (JobsOperatorItem_Encode f)"
  "Arr_Decode (\<lambda>j. JobsOperatorItem_Decode f j zero_OperatorItem)" "list_all (operator_ok f)" for f
  by unfold_locales (rule operators.array)

definition job_result_ok :: "jx_formats \<Rightarrow> WireJobResult \<Rightarrow> bool" where
  "job_result_ok f v \<longleftrightarrow>
    pred_optnil sampling_ok (wr_Sampling v) \<and> pred_optnil (estimation_ok f) (wr_Estimation v) \<and>
    raw_map_ok (wr_AdditionalProps v) \<and> set (map fst (wr_AdditionalProps v)) \<inter> {''sampling'', ''estimation''} = {}"

lemma JobsJobResult_additional:
  assumes "raw_map_ok m" and "set (map fst m) \<inter> {''sampling'', ''estimation''} = {}" and "wr_AdditionalProps s = []"
  shows "reads (JobsJobResult_fields f) JobsJobResult_default (raw_map_fields m) (s, bs) (s\<lparr>wr_AdditionalProps := m\<rparr>, bs)"
proof -
  have loop: "ObjBytes (JobsJobResult_fields f) JobsJobResult_default kvs (s, bs) =
      Inr (s\<lparr>wr_AdditionalProps := put_all (map (\<lambda>(k, v). (k, Some (json_print v))) kvs) (wr_AdditionalProps s)\<rparr>, bs)"
    if "set (map fst kvs) \<inter> {''sampling'', ''estimation''} = {}" for kvs s
    using that
    by (induction kvs arbitrary: s) (auto simp: JobsJobResult_fields_def JobsJobResult_default_def)
  have "set (map fst (map (\<lambda>(k, j). (k, the j)) (raw_map_fields m))) = set (map fst m)"
    by (auto simp: raw_map_fields_def image_image case_prod_beta)
  then show ?thesis
    using assms loop [of "map (\<lambda>(k, j). (k, the j)) (raw_map_fields m)" s] raw_fields_ok [OF assms(1)]
    by (simp add: reads_def raw_map_ok_def)
qed

lemmas result_fields = sampling.optnil_field estimation.optnil_field transpiled.optnil_field
  operator_list.optnil_field

lemma JobsJobResult_round:
  "job_result_ok f v \<Longrightarrow> round_trips (JobsJobResult_Encode f) (\<lambda>j. JobsJobResult_Decode f j zero_JobResult) v"
  by (rule struct_round, rule JobsJobResult_Encode_def, unfold JobsJobResult_Decode_def, rule refl,
      rule reads_append, unfold JobsJobResult_fields_def,
      (rule reads_rules result_fields JobsJobResult_additional [unfolded JobsJobResult_fields_def]
        | (simp add: job_result_ok_def struct_eval; fail))+)

interpretation job_result: codec "JobsJobResult_Encode f" "\<lambda>j. JobsJobResult_Decode f j zero_JobResult"
  "job_result_ok f" for f
  by unfold_locales (rule JobsJobResult_round)

definition job_info_ok :: "jx_formats \<Rightarrow> WireJobInfo \<Rightarrow> bool" where
  "job_info_ok f v \<longleftrightarrow>
    wi_Program v \<noteq> None \<and> pred_optnil (list_all (operator_ok f)) (wi_Operator v) \<and>
    pred_optnil (job_result_ok f) (wi_Result v) \<and> pred_optnil transpile_ok (wi_TranspileResult v)"

lemma JobsJobInfo_round:
  "job_info_ok f v \<Longrightarrow> round_trips (JobsJobInfo_Encode f) (\<lambda>j. JobsJobInfo_Decode f j zero_JobInfo) v"
  by (rule struct_round, rule JobsJobInfo_Encode_def,
      unfold JobsJobInfo_Decode_def JobsJobInfo_fields_def, rule refl,
      (rule reads_rules result_fields job_result.optnil_field
        | (simp add: job_info_ok_def struct_eval; fail) | (clarsimp simp: job_info_ok_def struct_eval; fail))+)

interpretation job_info: codec "JobsJobInfo_Encode f" "\<lambda>j. JobsJobInfo_Decode f j zero_JobInfo" "job_info_ok f" for f
  by unfold_locales (rule JobsJobInfo_round)

definition job_def_ok :: "jx_formats \<Rightarrow> WireJobDef \<Rightarrow> bool" where
  "job_def_ok f v \<longleftrightarrow>
    int_ok f (wd_Shots v) \<and> type_ok (wd_JobType v) \<and> job_info_ok f (wd_JobInfo v) \<and>
    pred_optnil raw_map_ok (wd_TranspilerInfo v) \<and> pred_optnil raw_map_ok (wd_SimulatorInfo v) \<and>
    pred_optnil raw_map_ok (wd_MitigationInfo v) \<and> status_ok (wd_Status v) \<and>
    pred_optnil (float64_ok f) (wd_ExecutionTime v) \<and> pred_optnil (datetime_ok f) (wd_SubmittedAt v) \<and>
    pred_optnil (datetime_ok f) (wd_ReadyAt v) \<and> pred_optnil (datetime_ok f) (wd_RunningAt v) \<and>
    pred_optnil (datetime_ok f) (wd_EndedAt v)"

lemma JobsJobDef_job_info:
  assumes "job_info_ok f v" and "wd_JobInfo s = zero_JobInfo"
  shows "reads (JobsJobDef_fields f) no_default [(''job_info'', JobsJobInfo_Encode f v)] (s, bs)
    (s\<lparr>wd_JobInfo := v\<rparr>, set_bit8 6 bs)"
  using job_info.into_field [where setf = "\<lambda>v s. s\<lparr>wd_JobInfo := v\<rparr>" and s = s and req = "Some 6", OF assms(1)] assms(2)
  by (simp add: JobsJobDef_fields_def)

lemma JobsJobDef_round:
  "job_def_ok f v \<Longrightarrow> round_trips (JobsJobDef_Encode f) (\<lambda>j. JobsJobDef_Decode f j zero_JobDef) v"
  by (rule struct_round, rule JobsJobDef_Encode_def,
      unfold JobsJobDef_Decode_def JobsJobDef_fields_def, rule refl,
      (rule reads_rules JobsJobDef_job_info [unfolded JobsJobDef_fields_def]
        | (simp add: job_def_ok_def struct_eval; fail))+)

interpretation job_def: codec "JobsJobDef_Encode f" "\<lambda>j. JobsJobDef_Decode f j zero_JobDef" "job_def_ok f" for f
  by unfold_locales (rule JobsJobDef_round)

interpretation job_defs: codec "GetJobsOK_Encode f" "GetJobsOK_Decode f" "list_all (job_def_ok f)" for f
proof unfold_locales
  show "list_all (job_def_ok f) v \<Longrightarrow> round_trips (GetJobsOK_Encode f) (GetJobsOK_Decode f) v" for v
    using job_def.array [of f v]
    by (auto simp: round_trips_iff GetJobsOK_Encode_def GetJobsOK_Decode_def)
qed

definition update_info_ok :: "jx_formats \<Rightarrow> WireUpdateJobInfo \<Rightarrow> bool" where
  "update_info_ok f v \<longleftrightarrow>
    pred_optnil transpile_ok (wu_TranspileResult v) \<and> pred_optnil (job_result_ok f) (wu_Result v)"

lemma JobsUpdateJobInfo_round:
  "update_info_ok f v \<Longrightarrow>
    round_trips (JobsUpdateJobInfo_Encode f) (\<lambda>j. JobsUpdateJobInfo_Decode f j zero_UpdateJobInfo) v"
  by (rule struct_round, rule JobsUpdateJobInfo_Encode_def,
      unfold JobsUpdateJobInfo_Decode_def JobsUpdateJobInfo_fields_def, rule refl,
      (rule reads_rules result_fields job_result.optnil_field | (simp add: update_info_ok_def struct_eval; fail))+)

interpretation update_info: codec "JobsUpdateJobInfo_Encode f"
  "\<lambda>j. JobsUpdateJobInfo_Decode f j zero_UpdateJobInfo" "update_info_ok f" for f
  by unfold_locales (rule JobsUpdateJobInfo_round)

definition update_request_ok :: "jx_formats \<Rightarrow> WireUpdateJobInfoRequest \<Rightarrow> bool" where
  "update_request_ok f v \<longleftrightarrow>
    pred_option status_ok (wq_OverwriteStatus v) \<and> pred_optnil (float64_ok f) (wq_ExecutionTime v) \<and>
    pred_option (update_info_ok f) (wq_JobInfo v)"

lemma JobsUpdateJobInfoRequest_round:
  "update_request_ok f v \<Longrightarrow>
    round_trips (JobsUpdateJobInfoRequest_Encode f)
      (\<lambda>j. JobsUpdateJobInfoRequest_Decode f j zero_UpdateJobInfoRequest) v"
  by (rule struct_round, rule JobsUpdateJobInfoRequest_Encode_def,
      unfold JobsUpdateJobInfoRequest_Decode_def JobsUpdateJobInfoRequest_fields_def, rule refl,
      (rule reads_rules update_info.opt_field | (simp add: update_request_ok_def struct_eval; fail))+)

interpretation update_request: codec "JobsUpdateJobInfoRequest_Encode f"
  "\<lambda>j. JobsUpdateJobInfoRequest_Decode f j zero_UpdateJobInfoRequest" "update_request_ok f" for f
  by unfold_locales (rule JobsUpdateJobInfoRequest_round)

section \<open>The tables and the masks\<close>

interpretation est_table: struct_table "JobsEstimationResult_fields f" "[0b00000011]" for f
  by unfold_locales (simp_all add: JobsEstimationResult_fields_def upt_rec)

interpretation sampling_table: struct_table JobsSamplingResult_fields "[0b00000001]"
  by unfold_locales (simp_all add: JobsSamplingResult_fields_def upt_rec)

interpretation transpile_table: struct_table JobsTranspileResult_fields "[0b00000111]"
  by unfold_locales (simp_all add: JobsTranspileResult_fields_def upt_rec)

interpretation operator_table: struct_table "JobsOperatorItem_fields f" "[0b00000001]" for f
  by unfold_locales (simp_all add: JobsOperatorItem_fields_def upt_rec)

interpretation info_table: struct_table "JobsJobInfo_fields f" "[0b00000001]" for f
  by unfold_locales (simp_all add: JobsJobInfo_fields_def upt_rec)

interpretation message_table: struct_table message_fields "[0b00000001]"
  by unfold_locales (simp_all add: message_fields_def upt_rec)

interpretation def_table: struct_table "JobsJobDef_fields f" "[0b01111001, 0b00000100]" for f
  by unfold_locales (simp_all add: JobsJobDef_fields_def upt_rec)

end
