(* ===== verification/Api_Client.thy ===== *)
theory Api_Client
  imports Api_Json
begin

text \<open>
  The client of the provider's API: the validators of \<open>oas_validators_gen.go\<close>, the requests and the answers
  of \<open>oas_client_gen.go\<close>, \<open>oas_request_encoders_gen.go\<close>, \<open>oas_response_decoders_gen.go\<close> and
  \<open>oas_security_gen.go\<close>. Tracing and metrics are left out.

  Arguments (\<open>api_env\<close>) are jx with its reader of a whole body, the checks of numbers of the package
  \<open>validate\<close>, the encoding of a path parameter, the source of the API key and the HTTP exchange. A response
  carries the media type of its header, or the error of parsing it. The body of a request has the
  content type \<open>application/json\<close> (and is \<open>None\<close> when it is not a JSON value) or \<open>multipart/form-data\<close> with one file.
\<close>

section \<open>Validation\<close>

datatype invalid = NilValue | InvalidValue string | InvalidInt | InvalidFloat | InvalidFields "(string \<times> invalid) list"

text \<open>The errors of the fields are collected in order.\<close>

fun failure_list :: "(string \<times> invalid option) list \<Rightarrow> (string \<times> invalid) list" where
  "failure_list [] = []"
| "failure_list ((n, None) # checks) = failure_list checks"
| "failure_list ((n, Some er) # checks) = (n, er) # failure_list checks"

definition failures :: "(string \<times> invalid option) list \<Rightarrow> invalid option" where
  "failures checks = (case failure_list checks of [] \<Rightarrow> None | fs \<Rightarrow> Some (InvalidFields fs))"

lemma failure_list_Nil: "failure_list checks = [] \<longleftrightarrow> list_all (\<lambda>(n, er). er = None) checks"
  by (induction checks rule: failure_list.induct) simp_all

lemma failures_None [simp]: "failures checks = None \<longleftrightarrow> list_all (\<lambda>(n, er). er = None) checks"
  by (simp add: failures_def failure_list_Nil [symmetric] split: list.split)

definition element_name :: "nat \<Rightarrow> string" where
  "element_name i = ''['' @ nat_str i @ '']''"

definition element_failures :: "('a \<Rightarrow> invalid option) \<Rightarrow> 'a list \<Rightarrow> invalid option" where
  "element_failures val xs = failures (map (\<lambda>(i, x). (element_name i, val x)) (enumerate 0 xs))"

lemma element_failures_None [simp]: "element_failures val xs = None \<longleftrightarrow> list_all (\<lambda>x. val x = None) xs"
proof -
  have "list_all (\<lambda>(i, x). val x = None) (enumerate n xs) \<longleftrightarrow> list_all (\<lambda>x. val x = None) xs" for n
    by (induction xs arbitrary: n) auto
  then show ?thesis by (simp add: element_failures_def list_all_iff case_prod_beta)
qed

definition check :: "bool \<Rightarrow> invalid \<Rightarrow> invalid option" where
  "check ok e = (if ok then None else Some e)"

lemma check_None [simp]: "check ok e = None \<longleftrightarrow> ok"
  by (simp add: check_def)

definition if_set :: "('a \<Rightarrow> invalid option) \<Rightarrow> 'a option \<Rightarrow> invalid option" where
  "if_set val v = (case v of None \<Rightarrow> None | Some x \<Rightarrow> val x)"

lemma if_set_None [simp]: "if_set val v = None \<longleftrightarrow> pred_option (\<lambda>x. val x = None) v"
  by (simp add: if_set_def split: option.split)

datatype body = JsonBody "json option" | MultipartBody string string

record http_request =
  rq_Method :: string
  rq_Path :: "string list"
  rq_Query :: "(string \<times> string) list"
  rq_ApiKey :: string
  rq_Body :: "body option"

record http_response =
  rp_StatusCode :: int
  rp_MediaType :: "string option"
  rp_Body :: "string option"

datatype 'a security = Key 'a | SkipSecurity | SecurityFails

record api_env =
  ae_jx :: jx_formats
  ae_parse :: "string \<Rightarrow> json option"
  ae_Int :: "int \<Rightarrow> int \<Rightarrow> int \<Rightarrow> bool"
  ae_Float :: "float64 \<Rightarrow> bool"
  ae_path :: "string \<Rightarrow> string option"
  ae_ApiKeyAuth :: "string \<Rightarrow> string security"
  ae_Do :: "http_request \<Rightarrow> http_response option"

definition Float_Validate :: "api_env \<Rightarrow> float64 \<Rightarrow> invalid option" where
  "Float_Validate e x = check (ae_Float e x) InvalidFloat"

fun JobsJobStatus_Validate :: "JobsJobStatus \<Rightarrow> invalid option" where
  "JobsJobStatus_Validate (OtherS s) = Some (InvalidValue s)"
| "JobsJobStatus_Validate _ = None"

fun JobsJobType_Validate :: "JobsJobType \<Rightarrow> invalid option" where
  "JobsJobType_Validate (OtherT s) = Some (InvalidValue s)"
| "JobsJobType_Validate _ = None"

definition DevicesDeviceStatusUpdateStatus_Validate :: "string \<Rightarrow> invalid option" where
  "DevicesDeviceStatusUpdateStatus_Validate s = check (s \<in> {''available'', ''unavailable''}) (InvalidValue s)"

definition DevicesDeviceStatusUpdate_Validate :: "string \<Rightarrow> invalid option" where
  "DevicesDeviceStatusUpdate_Validate status = failures [(''status'', DevicesDeviceStatusUpdateStatus_Validate status)]"

definition JobsJobStatusUpdateStatus_Validate :: "string \<Rightarrow> invalid option" where
  "JobsJobStatusUpdateStatus_Validate s = check (s = ''running'') (InvalidValue s)"

definition JobsJobStatusUpdate_Validate :: "string \<Rightarrow> invalid option" where
  "JobsJobStatusUpdate_Validate status = failures [(''status'', JobsJobStatusUpdateStatus_Validate status)]"

definition JobsEstimationResult_Validate :: "api_env \<Rightarrow> WireEstimationResult \<Rightarrow> invalid option" where
  "JobsEstimationResult_Validate e s =
    failures [(''exp_value'', Float_Validate e (we_ExpValue s)), (''stds'', Float_Validate e (we_Stds s))]"

definition JobsJobResult_Validate :: "api_env \<Rightarrow> WireJobResult \<Rightarrow> invalid option" where
  "JobsJobResult_Validate e s =
    failures [(''estimation'', if_set (JobsEstimationResult_Validate e) (optnil_Get (wr_Estimation s)))]"

definition JobsOperatorItem_Validate :: "api_env \<Rightarrow> WireOperatorItem \<Rightarrow> invalid option" where
  "JobsOperatorItem_Validate e s = failures [(''coeff'', if_set (Float_Validate e) (wo_Coeff s))]"

definition JobsJobInfo_Validate :: "api_env \<Rightarrow> WireJobInfo \<Rightarrow> invalid option" where
  "JobsJobInfo_Validate e s =
    failures
      [(''program'', check (wi_Program s \<noteq> None) NilValue),
       (''operator'', if_set (element_failures (JobsOperatorItem_Validate e)) (optnil_Get (wi_Operator s))),
       (''result'', if_set (JobsJobResult_Validate e) (optnil_Get (wi_Result s)))]"

definition JobsJobDef_Validate :: "api_env \<Rightarrow> WireJobDef \<Rightarrow> invalid option" where
  "JobsJobDef_Validate e s =
    failures
      [(''shots'', check (ae_Int e 1 10000000 (wd_Shots s)) InvalidInt),
       (''job_type'', JobsJobType_Validate (wd_JobType s)),
       (''job_info'', JobsJobInfo_Validate e (wd_JobInfo s)),
       (''status'', JobsJobStatus_Validate (wd_Status s)),
       (''execution_time'', if_set (Float_Validate e) (optnil_Get (wd_ExecutionTime s)))]"

definition GetJobsOK_Validate :: "api_env \<Rightarrow> WireJobDef list \<Rightarrow> invalid option" where
  "GetJobsOK_Validate e s = element_failures (JobsJobDef_Validate e) s"

definition JobsUpdateJobInfo_Validate :: "api_env \<Rightarrow> WireUpdateJobInfo \<Rightarrow> invalid option" where
  "JobsUpdateJobInfo_Validate e s =
    failures [(''result'', if_set (JobsJobResult_Validate e) (optnil_Get (wu_Result s)))]"

definition JobsUpdateJobInfoRequest_Validate :: "api_env \<Rightarrow> WireUpdateJobInfoRequest \<Rightarrow> invalid option" where
  "JobsUpdateJobInfoRequest_Validate e s =
    failures
      [(''overwrite_status'', if_set JobsJobStatus_Validate (wq_OverwriteStatus s)),
       (''execution_time'', if_set (Float_Validate e) (optnil_Get (wq_ExecutionTime s))),
       (''job_info'', if_set (JobsUpdateJobInfo_Validate e) (wq_JobInfo s))]"

section \<open>Responses\<close>

datatype api_error =
    EncodePath | SecurityError | SecurityNotSatisfied | DoRequest | ParseMediaType | ReadBody
  | DecodeBody "decode_error option" | ValidateResponse invalid | InvalidContentType string
  | UnexpectedStatusCode int

datatype 'a api_res =
    ResOK 'a | ResBadRequest string | ResNotFound string | ResConflict string | ResInternalServerError string

fun api_bind :: "api_error + 'a \<Rightarrow> ('a \<Rightarrow> api_error + 'b) \<Rightarrow> api_error + 'b" where
  "api_bind (Inl e) k = Inl e"
| "api_bind (Inr a) k = k a"

lemma api_bind_Inr [res_simps]: "api_bind m k = Inr b \<longleftrightarrow> (\<exists>a. m = Inr a \<and> k a = Inr b)"
  by (cases m) auto

definition media_type :: "http_response \<Rightarrow> string \<Rightarrow> api_error + unit" where
  "media_type resp expected =
    (case rp_MediaType resp of
       None \<Rightarrow> Inl ParseMediaType
     | Some ct \<Rightarrow> (if ct = expected then Inr () else Inl (InvalidContentType ct)))"

definition read_body :: "http_response \<Rightarrow> api_error + string" where
  "read_body resp = (case rp_Body resp of None \<Rightarrow> Inl ReadBody | Some buf \<Rightarrow> Inr buf)"

text \<open>A JSON body: the value has to decode and nothing may follow it.\<close>

definition json_body :: "api_env \<Rightarrow> (json \<Rightarrow> 'a decoded) \<Rightarrow> http_response \<Rightarrow> api_error + 'a" where
  "json_body e dec resp =
    api_bind (media_type resp ''application/json'') (\<lambda>_.
      api_bind (read_body resp) (\<lambda>buf.
        case ae_parse e buf of
          None \<Rightarrow> Inl (DecodeBody None)
        | Some j \<Rightarrow> (case dec j of Inl er \<Rightarrow> Inl (DecodeBody (Some er)) | Inr a \<Rightarrow> Inr a)))"

definition validated :: "('a \<Rightarrow> invalid option) \<Rightarrow> 'a \<Rightarrow> api_error + 'a" where
  "validated val a = (case val a of None \<Rightarrow> Inr a | Some er \<Rightarrow> Inl (ValidateResponse er))"

definition as_res :: "('a \<Rightarrow> 'b api_res) \<Rightarrow> api_error + 'a \<Rightarrow> api_error + 'b api_res" where
  "as_res c m = api_bind m (\<lambda>a. Inr (c a))"

definition bad_request :: "api_env \<Rightarrow> http_response \<Rightarrow> api_error + 'a api_res" where
  "bad_request e resp = as_res ResBadRequest (json_body e ErrorBadRequest_Decode resp)"

definition not_found :: "api_env \<Rightarrow> http_response \<Rightarrow> api_error + 'a api_res" where
  "not_found e resp = as_res ResNotFound (json_body e ErrorNotFoundError_Decode resp)"

definition conflict :: "api_env \<Rightarrow> http_response \<Rightarrow> api_error + 'a api_res" where
  "conflict e resp = as_res ResConflict (json_body e ErrorConflictError_Decode resp)"

definition internal_error :: "api_env \<Rightarrow> http_response \<Rightarrow> api_error + 'a api_res" where
  "internal_error e resp = as_res ResInternalServerError (json_body e ErrorInternalServerError_Decode resp)"

definition decodeGetJobResponse :: "api_env \<Rightarrow> http_response \<Rightarrow> api_error + WireJobDef api_res" where
  "decodeGetJobResponse e resp =
    (if rp_StatusCode resp = 200 then
       api_bind (json_body e (\<lambda>j. JobsJobDef_Decode (ae_jx e) j zero_JobDef) resp)
         (\<lambda>response. as_res ResOK (validated (JobsJobDef_Validate e) response))
     else if rp_StatusCode resp = 400 then bad_request e resp
     else if rp_StatusCode resp = 404 then not_found e resp
     else Inl (UnexpectedStatusCode (rp_StatusCode resp)))"

definition decodeGetJobsResponse :: "api_env \<Rightarrow> http_response \<Rightarrow> api_error + WireJobDef list api_res" where
  "decodeGetJobsResponse e resp =
    (if rp_StatusCode resp = 200 then
       api_bind (json_body e (GetJobsOK_Decode (ae_jx e)) resp)
         (\<lambda>response. as_res ResOK (validated (GetJobsOK_Validate e) response))
     else if rp_StatusCode resp = 400 then bad_request e resp
     else if rp_StatusCode resp = 500 then internal_error e resp
     else Inl (UnexpectedStatusCode (rp_StatusCode resp)))"

definition decodeGetSsesrcResponse :: "api_env \<Rightarrow> http_response \<Rightarrow> api_error + string api_res" where
  "decodeGetSsesrcResponse e resp =
    (if rp_StatusCode resp = 200 then
       api_bind (media_type resp ''text/plain'') (\<lambda>_. as_res ResOK (read_body resp))
     else if rp_StatusCode resp = 400 then bad_request e resp
     else if rp_StatusCode resp = 404 then not_found e resp
     else if rp_StatusCode resp = 500 then internal_error e resp
     else Inl (UnexpectedStatusCode (rp_StatusCode resp)))"

definition decodePatchDeviceResponse :: "api_env \<Rightarrow> http_response \<Rightarrow> api_error + string api_res" where
  "decodePatchDeviceResponse e resp =
    (if rp_StatusCode resp = 200 then as_res ResOK (json_body e DevicesUpdateDeviceResponse_Decode resp)
     else if rp_StatusCode resp = 400 then bad_request e resp
     else if rp_StatusCode resp = 404 then not_found e resp
     else if rp_StatusCode resp = 500 then internal_error e resp
     else Inl (UnexpectedStatusCode (rp_StatusCode resp)))"

definition decodePatchDeviceInfoResponse :: "api_env \<Rightarrow> http_response \<Rightarrow> api_error + string api_res" where
  "decodePatchDeviceInfoResponse e resp =
    (if rp_StatusCode resp = 200 then as_res ResOK (json_body e DevicesDeviceDataUpdateResponse_Decode resp)
     else if rp_StatusCode resp = 400 then bad_request e resp
     else if rp_StatusCode resp = 404 then not_found e resp
     else if rp_StatusCode resp = 500 then internal_error e resp
     else Inl (UnexpectedStatusCode (rp_StatusCode resp)))"

definition decodePatchDeviceStatusResponse :: "api_env \<Rightarrow> http_response \<Rightarrow> api_error + string api_res" where
  "decodePatchDeviceStatusResponse e resp =
    (if rp_StatusCode resp = 200 then as_res ResOK (json_body e DevicesDeviceDataUpdateResponse_Decode resp)
     else if rp_StatusCode resp = 400 then bad_request e resp
     else if rp_StatusCode resp = 404 then not_found e resp
     else if rp_StatusCode resp = 500 then internal_error e resp
     else Inl (UnexpectedStatusCode (rp_StatusCode resp)))"

definition decodePatchJobResponse :: "api_env \<Rightarrow> http_response \<Rightarrow> api_error + string api_res" where
  "decodePatchJobResponse e resp =
    (if rp_StatusCode resp = 200 then as_res ResOK (json_body e JobsJobStatusUpdateResponse_Decode resp)
     else if rp_StatusCode resp = 404 then not_found e resp
     else if rp_StatusCode resp = 409 then conflict e resp
     else Inl (UnexpectedStatusCode (rp_StatusCode resp)))"

definition decodePatchJobInfoResponse :: "api_env \<Rightarrow> http_response \<Rightarrow> api_error + string api_res" where
  "decodePatchJobInfoResponse e resp =
    (if rp_StatusCode resp = 200 then as_res ResOK (json_body e JobsUpdateJobInfoResponse_Decode resp)
     else if rp_StatusCode resp = 400 then bad_request e resp
     else if rp_StatusCode resp = 404 then not_found e resp
     else Inl (UnexpectedStatusCode (rp_StatusCode resp)))"

definition decodePatchSselogResponse :: "api_env \<Rightarrow> http_response \<Rightarrow> api_error + string api_res" where
  "decodePatchSselogResponse e resp =
    (if rp_StatusCode resp = 200 then as_res ResOK (json_body e JobsUploadSselogResponse_Decode resp)
     else if rp_StatusCode resp = 400 then bad_request e resp
     else if rp_StatusCode resp = 500 then internal_error e resp
     else Inl (UnexpectedStatusCode (rp_StatusCode resp)))"

definition decodeUpdateJobTranspilerInfoResponse :: "api_env \<Rightarrow> http_response \<Rightarrow> api_error + string api_res" where
  "decodeUpdateJobTranspilerInfoResponse e resp =
    (if rp_StatusCode resp = 200 then as_res ResOK (json_body e JobsUpdateJobTranspilerInfoResponse_Decode resp)
     else if rp_StatusCode resp = 400 then bad_request e resp
     else if rp_StatusCode resp = 404 then not_found e resp
     else Inl (UnexpectedStatusCode (rp_StatusCode resp)))"

section \<open>Requests\<close>

text \<open>A body is left out when the request is not set.\<close>

definition json_request :: "('a \<Rightarrow> json option) \<Rightarrow> 'a option \<Rightarrow> body option" where
  "json_request enc req = map_option (\<lambda>v. JsonBody (enc v)) req"

definition encodePatchDeviceRequest :: "api_env \<Rightarrow> int optnil option \<Rightarrow> body option" where
  "encodePatchDeviceRequest e = json_request (DevicesUpdateDeviceRequest_Encode (ae_jx e))"

definition encodePatchDeviceInfoRequest :: "api_env \<Rightarrow> WireDeviceInfoUpdate option \<Rightarrow> body option" where
  "encodePatchDeviceInfoRequest e = json_request (DevicesDeviceInfoUpdate_Encode (ae_jx e))"

definition encodePatchDeviceStatusRequest :: "string option \<Rightarrow> body option" where
  "encodePatchDeviceStatusRequest = json_request DevicesDeviceStatusUpdate_Encode"

definition encodePatchJobRequest :: "string option \<Rightarrow> body option" where
  "encodePatchJobRequest = json_request JobsJobStatusUpdate_Encode"

definition encodePatchJobInfoRequest :: "api_env \<Rightarrow> WireUpdateJobInfoRequest option \<Rightarrow> body option" where
  "encodePatchJobInfoRequest e = json_request (JobsUpdateJobInfoRequest_Encode (ae_jx e))"

definition encodePatchSselogRequest :: "string option \<Rightarrow> body option" where
  "encodePatchSselogRequest req = map_option (MultipartBody ''file'') req"

definition encodeUpdateJobTranspilerInfoRequest :: "raw_map option \<Rightarrow> body option" where
  "encodeUpdateJobTranspilerInfoRequest = json_request raw_map_Encode"

text \<open>
  \<open>securityApiKeyAuth\<close> and the requirement of the operations: the one source of the key has to be
  satisfied.
\<close>

definition securityApiKeyAuth :: "api_env \<Rightarrow> string \<Rightarrow> http_request \<Rightarrow> api_error + http_request" where
  "securityApiKeyAuth e operation r =
    (case ae_ApiKeyAuth e operation of
       Key k \<Rightarrow>
         (let satisfied = (0 :: 8 word) OR push_bit 0 1 in
          if satisfied AND 0b00000001 = 0b00000001 then Inr (r\<lparr>rq_ApiKey := k\<rparr>) else Inl SecurityNotSatisfied)
     | SkipSecurity \<Rightarrow>
         (let satisfied = (0 :: 8 word) in
          if satisfied AND 0b00000001 = 0b00000001 then Inr r else Inl SecurityNotSatisfied)
     | SecurityFails \<Rightarrow> Inl SecurityError)"

definition new_request :: "string \<Rightarrow> string list \<Rightarrow> (string \<times> string) list \<Rightarrow> body option \<Rightarrow> http_request" where
  "new_request method pathParts query body =
    \<lparr>rq_Method = method, rq_Path = pathParts, rq_Query = query, rq_ApiKey = [], rq_Body = body\<rparr>"

definition send :: "api_env \<Rightarrow> string \<Rightarrow> http_request \<Rightarrow> (http_response \<Rightarrow> api_error + 'a) \<Rightarrow> api_error + 'a" where
  "send e operation r decode =
    api_bind (securityApiKeyAuth e operation r) (\<lambda>r.
      case ae_Do e r of None \<Rightarrow> Inl DoRequest | Some resp \<Rightarrow> decode resp)"

definition encode_path :: "api_env \<Rightarrow> string \<Rightarrow> api_error + string" where
  "encode_path e p = (case ae_path e p of None \<Rightarrow> Inl EncodePath | Some s \<Rightarrow> Inr s)"

definition sendGetJob :: "api_env \<Rightarrow> string \<Rightarrow> api_error + WireJobDef api_res" where
  "sendGetJob e jobID =
    api_bind (encode_path e jobID) (\<lambda>p.
      send e ''GetJob'' (new_request ''GET'' [''/jobs/'', p] [] None) (decodeGetJobResponse e))"

definition sendGetJobs ::
  "api_env \<Rightarrow> string \<Rightarrow> JobsJobStatus option \<Rightarrow> int option \<Rightarrow> string option \<Rightarrow> api_error + WireJobDef list api_res" where
  "sendGetJobs e deviceID status maxResults timestamp =
    (let q = [(''device_id'', deviceID)] @
           (case status of None \<Rightarrow> [] | Some s \<Rightarrow> [(''status'', JobsJobStatus_string s)]) @
           (case maxResults of None \<Rightarrow> [] | Some n \<Rightarrow> [(''max_results'', int_str n)]) @
           (case timestamp of None \<Rightarrow> [] | Some t \<Rightarrow> [(''timestamp'', t)]) in
     send e ''GetJobs'' (new_request ''GET'' [''/jobs''] q None) (decodeGetJobsResponse e))"

definition sendGetSsesrc :: "api_env \<Rightarrow> string \<Rightarrow> api_error + string api_res" where
  "sendGetSsesrc e jobID =
    api_bind (encode_path e jobID) (\<lambda>p.
      send e ''GetSsesrc'' (new_request ''GET'' [''/jobs/'', p, ''/ssesrc''] [] None) (decodeGetSsesrcResponse e))"

definition sendPatchDevice :: "api_env \<Rightarrow> int optnil option \<Rightarrow> string \<Rightarrow> api_error + string api_res" where
  "sendPatchDevice e req deviceID =
    api_bind (encode_path e deviceID) (\<lambda>p.
      send e ''PatchDevice'' (new_request ''PATCH'' [''/devices/'', p] [] (encodePatchDeviceRequest e req))
        (decodePatchDeviceResponse e))"

definition sendPatchDeviceInfo :: "api_env \<Rightarrow> WireDeviceInfoUpdate option \<Rightarrow> string \<Rightarrow> api_error + string api_res" where
  "sendPatchDeviceInfo e req deviceID =
    api_bind (encode_path e deviceID) (\<lambda>p.
      send e ''PatchDeviceInfo''
        (new_request ''PATCH'' [''/devices/'', p, ''/device_info''] [] (encodePatchDeviceInfoRequest e req))
        (decodePatchDeviceInfoResponse e))"

definition sendPatchDeviceStatus :: "api_env \<Rightarrow> string option \<Rightarrow> string \<Rightarrow> api_error + string api_res" where
  "sendPatchDeviceStatus e req deviceID =
    api_bind (encode_path e deviceID) (\<lambda>p.
      send e ''PatchDeviceStatus''
        (new_request ''PATCH'' [''/devices/'', p, ''/status''] [] (encodePatchDeviceStatusRequest req))
        (decodePatchDeviceStatusResponse e))"

definition sendPatchJob :: "api_env \<Rightarrow> string option \<Rightarrow> string \<Rightarrow> api_error + string api_res" where
  "sendPatchJob e req jobID =
    api_bind (encode_path e jobID) (\<lambda>p.
      send e ''PatchJob'' (new_request ''PATCH'' [''/jobs/'', p, ''/status''] [] (encodePatchJobRequest req))
        (decodePatchJobResponse e))"

definition sendPatchJobInfo :: "api_env \<Rightarrow> WireUpdateJobInfoRequest option \<Rightarrow> string \<Rightarrow> api_error + string api_res" where
  "sendPatchJobInfo e req jobID =
    api_bind (encode_path e jobID) (\<lambda>p.
      send e ''PatchJobInfo''
        (new_request ''PATCH'' [''/jobs/'', p, ''/job_info''] [] (encodePatchJobInfoRequest e req))
        (decodePatchJobInfoResponse e))"

definition sendPatchSselog :: "api_env \<Rightarrow> string option \<Rightarrow> string \<Rightarrow> api_error + string api_res" where
  "sendPatchSselog e req jobID =
    api_bind (encode_path e jobID) (\<lambda>p.
      send e ''PatchSselog'' (new_request ''PATCH'' [''/jobs/'', p, ''/sselog''] [] (encodePatchSselogRequest req))
        (decodePatchSselogResponse e))"

definition sendUpdateJobTranspilerInfo :: "api_env \<Rightarrow> raw_map option \<Rightarrow> string \<Rightarrow> api_error + string api_res" where
  "sendUpdateJobTranspilerInfo e req jobID =
    api_bind (encode_path e jobID) (\<lambda>p.
      send e ''UpdateJobTranspilerInfo''
        (new_request ''PUT'' [''/jobs/'', p, ''/transpiler_info''] [] (encodeUpdateJobTranspilerInfoRequest req))
        (decodeUpdateJobTranspilerInfoResponse e))"

section \<open>What a client accepts\<close>

text \<open>The package \<open>validate\<close>: a number is within its limits, a float is finite.\<close>

definition int_limits :: "api_env \<Rightarrow> bool" where
  "int_limits e \<longleftrightarrow> (\<forall>lo hi n. ae_Int e lo hi n \<longleftrightarrow> lo \<le> n \<and> n \<le> hi)"

definition valid_result :: "api_env \<Rightarrow> WireJobResult \<Rightarrow> bool" where
  "valid_result e r \<longleftrightarrow> (\<forall>x. wr_Estimation r = Val x \<longrightarrow> ae_Float e (we_ExpValue x) \<and> ae_Float e (we_Stds x))"

definition valid_info :: "api_env \<Rightarrow> WireJobInfo \<Rightarrow> bool" where
  "valid_info e s \<longleftrightarrow>
    wi_Program s \<noteq> None \<and>
    (\<forall>items. wi_Operator s = Val items \<longrightarrow> list_all (\<lambda>x. pred_option (ae_Float e) (wo_Coeff x)) items) \<and>
    (\<forall>r. wi_Result s = Val r \<longrightarrow> valid_result e r)"

definition valid_job :: "api_env \<Rightarrow> WireJobDef \<Rightarrow> bool" where
  "valid_job e s \<longleftrightarrow>
    1 \<le> wd_Shots s \<and> wd_Shots s \<le> 10000000 \<and>
    wd_JobType s \<in> {SamplingT, EstimationT, MultiManualT, SseT} \<and>
    wd_Status s \<in> {SubmittedS, ReadyS, RunningS, SucceededS, FailedS, CancelledS} \<and>
    (\<forall>x. wd_ExecutionTime s = Val x \<longrightarrow> ae_Float e x) \<and> valid_info e (wd_JobInfo s)"

lemma pred_optnil_Get: "pred_option P (optnil_Get v) \<longleftrightarrow> (\<forall>x. v = Val x \<longrightarrow> P x)"
  by (cases v) simp_all

lemma enum_Validate:
  "JobsJobStatus_Validate s = None \<longleftrightarrow> s \<in> {SubmittedS, ReadyS, RunningS, SucceededS, FailedS, CancelledS}"
  "JobsJobType_Validate t = None \<longleftrightarrow> t \<in> {SamplingT, EstimationT, MultiManualT, SseT}"
  by (cases s; simp) (cases t; simp)

lemma JobsJobDef_Validate_None: "int_limits e \<Longrightarrow> JobsJobDef_Validate e s = None \<longleftrightarrow> valid_job e s"
  by (auto simp: JobsJobDef_Validate_def JobsJobInfo_Validate_def JobsOperatorItem_Validate_def
      JobsJobResult_Validate_def JobsEstimationResult_Validate_def Float_Validate_def pred_optnil_Get
      enum_Validate int_limits_def valid_job_def valid_info_def valid_result_def)

lemma decodeGetJobsResponse_OK:
  assumes "decodeGetJobsResponse e resp = Inr (ResOK defs)"
  shows "rp_StatusCode resp = 200 \<and> rp_MediaType resp = Some ''application/json'' \<and>
    (\<exists>buf j. rp_Body resp = Some buf \<and> ae_parse e buf = Some j \<and> GetJobsOK_Decode (ae_jx e) j = Inr defs) \<and>
    GetJobsOK_Validate e defs = None"
  using assms
  by (auto simp: decodeGetJobsResponse_def as_res_def res_simps json_body_def media_type_def read_body_def
      validated_def bad_request_def internal_error_def split: if_splits option.splits sum.splits)

end
