(* ===== verification/Go_Url.thy ===== *)
theory Go_Url
  imports Go_Prelude
begin

text \<open>
  The part of Go's standard library that the API's paths go through (\<open>net/url\<close>): escaping and unescaping of paths,
  and how a server gets the two fields \<open>Path\<close> and \<open>RawPath\<close> of a URL from the path of a request. A string is a
  sequence of bytes.
\<close>

section \<open>Escaping\<close>

definition byte_between :: "char \<Rightarrow> char \<Rightarrow> char \<Rightarrow> bool" where
  "byte_between a c b \<longleftrightarrow> (of_char a :: nat) \<le> of_char c \<and> (of_char c :: nat) \<le> of_char b"

definition unreserved :: "char \<Rightarrow> bool" where
  "unreserved c \<longleftrightarrow> byte_between CHR ''a'' c CHR ''z'' \<or> byte_between CHR ''A'' c CHR ''Z'' \<or>
    byte_between CHR ''0'' c CHR ''9'' \<or> c \<in> set ''-_.~''"

datatype encoding = EncodePath | EncodePathSegment

definition shouldEscape :: "encoding \<Rightarrow> char \<Rightarrow> bool" where
  "shouldEscape mode c =
    (if unreserved c then False
     else if c \<in> set ''$&+,/:;=?@'' then
       (case mode of EncodePath \<Rightarrow> c = CHR ''?'' | EncodePathSegment \<Rightarrow> c \<in> set ''/;,?'')
     else True)"

definition upperhex :: "nat \<Rightarrow> char" where
  "upperhex n = ''0123456789ABCDEF'' ! n"

definition unhex :: "char \<Rightarrow> nat option" where
  "unhex c =
    (if byte_between CHR ''0'' c CHR ''9'' then Some (of_char c - 48)
     else if byte_between CHR ''a'' c CHR ''f'' then Some (of_char c - 87)
     else if byte_between CHR ''A'' c CHR ''F'' then Some (of_char c - 55)
     else None)"

definition escape_char :: "encoding \<Rightarrow> char \<Rightarrow> string" where
  "escape_char mode c =
    (if shouldEscape mode c then [CHR ''%'', upperhex (of_char c div 16), upperhex (of_char c mod 16)] else [c])"

definition escape :: "encoding \<Rightarrow> string \<Rightarrow> string" where
  "escape mode s = concat (map (escape_char mode) s)"

definition PathEscape :: "string \<Rightarrow> string" where
  "PathEscape s = escape EncodePathSegment s"

definition hex_char :: "char \<Rightarrow> char \<Rightarrow> char option" where
  "hex_char h l = (case (unhex h, unhex l) of (Some a, Some b) \<Rightarrow> Some (char_of (16 * a + b)) | _ \<Rightarrow> None)"

fun PathUnescape :: "string \<Rightarrow> string option" where
  "PathUnescape [] = Some []"
| "PathUnescape (c # s) =
    (if c = CHR ''%'' then
       (case s of
          h # l # r \<Rightarrow> (case hex_char h l of None \<Rightarrow> None | Some d \<Rightarrow> map_option ((#) d) (PathUnescape r))
        | _ \<Rightarrow> None)
     else map_option ((#) c) (PathUnescape s))"

text \<open>
  \<open>URL.setPath\<close>: \<open>Path\<close> is the unescaped text; \<open>RawPath\<close> is the text itself, unless it is the default
  escaping of \<open>Path\<close>, and then it is empty.
\<close>

definition setPath :: "string \<Rightarrow> (string \<times> string) option" where
  "setPath p =
    map_option (\<lambda>path. (path, if escape EncodePath path = p then [] else p)) (PathUnescape p)"

section \<open>Laws\<close>

lemma unhex_upperhex: "n < 16 \<Longrightarrow> unhex (upperhex n) = Some n"
proof -
  have "list_all (\<lambda>n. unhex (upperhex n) = Some n) [0..<16]"
    by code_simp
  then show "n < 16 \<Longrightarrow> ?thesis"
    by (simp add: list_all_iff)
qed

lemma hex_char_upperhex: "hex_char (upperhex (of_char c div 16)) (upperhex (of_char c mod 16)) = Some c"
proof -
  have "(of_char c :: nat) < 256"
    by simp
  then have "(of_char c :: nat) div 16 < 16"
    by linarith
  then show ?thesis
    by (simp add: hex_char_def unhex_upperhex)
qed

lemma unreserved_simps [simp]: "\<not> unreserved CHR ''%''" "\<not> unreserved CHR ''/''" "shouldEscape mode CHR ''%''"
  by (cases mode; code_simp)+

lemma PathUnescape_plain: "CHR ''%'' \<notin> set s \<Longrightarrow> PathUnescape s = Some s"
  by (induction s) auto

lemma PathUnescape_append:
  "PathUnescape s = Some x \<Longrightarrow> PathUnescape (s @ t) = map_option ((@) x) (PathUnescape t)"
proof (induction s arbitrary: x rule: PathUnescape.induct)
  case 1
  then show ?case
    by (cases "PathUnescape t") auto
next
  case (2 c s)
  then show ?case
    by (cases "PathUnescape t") (fastforce split: if_splits list.splits option.splits)+
qed

lemma PathUnescape_escape [simp]: "PathUnescape (escape mode s) = Some s"
proof (induction s)
  case (Cons c s)
  have "PathUnescape (escape_char mode c) = Some [c]"
    using unreserved_simps(3) [of mode] by (auto simp: escape_char_def hex_char_upperhex)
  then show ?case
    using Cons PathUnescape_append [of "escape_char mode c" "[c]"] by (simp add: escape_def)
qed (simp add: escape_def)

definition plain_path :: "string \<Rightarrow> bool" where
  "plain_path s \<longleftrightarrow> list_all (\<lambda>c. unreserved c \<or> c = CHR ''/'') s"

lemma plain_path_append [simp]: "plain_path (s @ t) \<longleftrightarrow> plain_path s \<and> plain_path t"
  by (simp add: plain_path_def)

lemma plain_path_percent: "plain_path s \<Longrightarrow> CHR ''%'' \<notin> set s"
  by (auto simp: plain_path_def list_all_iff)

lemma escape_plain: "plain_path s \<Longrightarrow> escape EncodePath s = s"
proof (induction s)
  case (Cons c s)
  have "\<not> shouldEscape EncodePath CHR ''/''"
    by code_simp
  then have "\<not> shouldEscape EncodePath c"
    using Cons.prems by (auto simp: plain_path_def shouldEscape_def)
  then show ?case
    using Cons by (simp add: escape_def escape_char_def plain_path_def)
qed (simp add: escape_def)

lemma upperhex_slash: "n < 16 \<Longrightarrow> upperhex n \<noteq> CHR ''/''"
proof -
  have "list_all (\<lambda>n. upperhex n \<noteq> CHR ''/'') [0..<16]"
    by code_simp
  then show "n < 16 \<Longrightarrow> ?thesis"
    by (simp add: list_all_iff)
qed

lemma count_slashes: "count_list (escape EncodePath s) CHR ''/'' = count_list s CHR ''/''"
proof (induction s)
  case (Cons c s)
  have "(of_char c :: nat) < 256"
    by simp
  then have "(of_char c :: nat) div 16 < 16"
    by linarith
  moreover have "\<not> shouldEscape EncodePath CHR ''/''"
    by code_simp
  ultimately have "count_list (escape_char EncodePath c) CHR ''/'' = (if c = CHR ''/'' then 1 else 0)"
    using upperhex_slash [of "of_char c div 16"] upperhex_slash [of "of_char c mod 16"] by (auto simp: escape_char_def)
  then show ?case
    using Cons by (simp add: escape_def)
qed (simp add: escape_def)

lemma PathEscape_slash: "CHR ''/'' \<notin> set (PathEscape s)"
proof -
  have "CHR ''/'' \<notin> set (escape_char EncodePathSegment c)" for c
  proof -
    have "(of_char c :: nat) < 256"
      by simp
    then have "(of_char c :: nat) div 16 < 16"
      by linarith
    moreover have "shouldEscape EncodePathSegment CHR ''/''"
      by code_simp
    ultimately show ?thesis
      using upperhex_slash [of "of_char c div 16"] upperhex_slash [of "of_char c mod 16"] by (auto simp: escape_char_def)
  qed
  then show ?thesis
    by (simp add: PathEscape_def escape_def)
qed

text \<open>A path that needs no escaping arrives as it is.\<close>

lemma setPath_plain: "plain_path s \<Longrightarrow> setPath s = Some (s, [])"
  by (simp add: setPath_def PathUnescape_plain plain_path_percent escape_plain)

text \<open>
  A path with one escaped segment: \<open>Path\<close> has the value in its place. Where \<open>RawPath\<close> is empty, the value has
  no slash: default escaping would have left it in the text.
\<close>

lemma setPath_segment:
  assumes "plain_path a" and "plain_path c" and "CHR ''/'' \<notin> set q" and "PathUnescape q = Some x"
  shows "\<exists>raw. setPath (a @ q @ c) = Some (a @ x @ c, raw) \<and> (raw = [] \<and> CHR ''/'' \<notin> set x \<or> raw = a @ q @ c \<and> raw \<noteq> [])"
proof -
  have un: "PathUnescape (a @ q @ c) = Some (a @ x @ c)"
    using PathUnescape_append [OF PathUnescape_plain [OF plain_path_percent [OF assms(1)]]]
      PathUnescape_append [OF assms(4)] PathUnescape_plain [OF plain_path_percent [OF assms(2)]] by simp
  have "CHR ''/'' \<notin> set x" if esc: "escape EncodePath (a @ x @ c) = a @ q @ c"
  proof -
    have "count_list (a @ x @ c) CHR ''/'' = count_list (a @ q @ c) CHR ''/''"
      using count_slashes [of "a @ x @ c"] esc by simp
    then show ?thesis
      using assms(3) by (simp add: count_list_0_iff)
  qed
  then show ?thesis
    using un by (auto simp: setPath_def escape_def)
qed

end
