(* ===== verification/Api_Router.thy ===== *)
theory Api_Router
  imports Go_Json Go_Url
begin

text \<open>
  The router of the API (\<open>oas_router_gen.go\<close>): \<open>ServeHTTP\<close> finds the operation of a request in a tree of
  path prefixes, and \<open>FindPath\<close> walks a second copy of that tree. Both are shown to look the segments of
  the path up in one table of routes. The unescaping of paths is the one of the standard library
  (\<open>Go_Url\<close>); the normalisation of escaped paths by ogen's package \<open>uri\<close> is an argument.
\<close>

section \<open>Nodes of the tree\<close>

text \<open>
  A node of the tree: the first character of the rest of the path selects a case, and the prefix of that
  case has to match as a whole.
\<close>

fun switch :: "'a \<Rightarrow> (string \<times> (string \<Rightarrow> 'a)) list \<Rightarrow> string \<Rightarrow> 'a" where
  "switch nf [] elem = nf"
| "switch nf ((p, k) # cs) elem =
    (if elem \<noteq> [] \<and> hd elem = hd p then (case strip_prefix p elem of None \<Rightarrow> nf | Some elem' \<Rightarrow> k elem')
     else switch nf cs elem)"

text \<open>A parameter of the path: the text up to the next slash.\<close>

definition match_until_slash :: "string \<Rightarrow> string \<times> string" where
  "match_until_slash elem = (takeWhile (\<lambda>c. c \<noteq> CHR ''/'') elem, dropWhile (\<lambda>c. c \<noteq> CHR ''/'') elem)"

section \<open>Serving a request\<close>

datatype routed = Handle string "string list" | NotAllowed string | NotFound

definition serve_method :: "string \<Rightarrow> string \<Rightarrow> string \<Rightarrow> string list \<Rightarrow> routed" where
  "serve_method allowed operation m args = (if m = allowed then Handle operation args else NotAllowed allowed)"

definition serve_leaf :: "string \<Rightarrow> string \<Rightarrow> string \<Rightarrow> string list \<Rightarrow> string \<Rightarrow> routed" where
  "serve_leaf allowed operation m args elem = (if elem = [] then serve_method allowed operation m args else NotFound)"

definition serve_device :: "string \<Rightarrow> string list \<Rightarrow> string \<Rightarrow> routed" where
  "serve_device m args = switch NotFound
     [(''device_info'', serve_leaf ''PATCH'' ''PatchDeviceInfo'' m args),
      (''status'', serve_leaf ''PATCH'' ''PatchDeviceStatus'' m args)]"

definition serve_devices :: "string \<Rightarrow> string \<Rightarrow> routed" where
  "serve_devices m elem =
    (let (arg, elem) = match_until_slash elem in
     if elem = [] then serve_method ''PATCH'' ''PatchDevice'' m [arg]
     else switch NotFound [(''/'', serve_device m [arg])] elem)"

definition serve_sse :: "string \<Rightarrow> string list \<Rightarrow> string \<Rightarrow> routed" where
  "serve_sse m args = switch NotFound
     [(''log'', serve_leaf ''PATCH'' ''PatchSselog'' m args),
      (''src'', serve_leaf ''GET'' ''GetSsesrc'' m args)]"

definition serve_job_s :: "string \<Rightarrow> string list \<Rightarrow> string \<Rightarrow> routed" where
  "serve_job_s m args = switch NotFound
     [(''se'', serve_sse m args),
      (''tatus'', serve_leaf ''PATCH'' ''PatchJob'' m args)]"

definition serve_job :: "string \<Rightarrow> string list \<Rightarrow> string \<Rightarrow> routed" where
  "serve_job m args = switch NotFound
     [(''job_info'', serve_leaf ''PATCH'' ''PatchJobInfo'' m args),
      (''s'', serve_job_s m args),
      (''transpiler_info'', serve_leaf ''PUT'' ''UpdateJobTranspilerInfo'' m args)]"

definition serve_job_id :: "string \<Rightarrow> string \<Rightarrow> routed" where
  "serve_job_id m elem =
    (let (arg, elem) = match_until_slash elem in
     if elem = [] then serve_method ''GET'' ''GetJob'' m [arg]
     else switch NotFound [(''/'', serve_job m [arg])] elem)"

definition serve_jobs :: "string \<Rightarrow> string \<Rightarrow> routed" where
  "serve_jobs m elem =
    (if elem = [] then serve_method ''GET'' ''GetJobs'' m [] else switch NotFound [(''/'', serve_job_id m)] elem)"

definition serve_paths :: "string \<Rightarrow> string \<Rightarrow> routed" where
  "serve_paths m = switch NotFound [(''devices/'', serve_devices m), (''jobs'', serve_jobs m)]"

definition serve_root :: "string \<Rightarrow> string \<Rightarrow> routed" where
  "serve_root m = switch NotFound [(''/'', serve_paths m)]"

section \<open>Finding a route\<close>

record Route =
  ro_name :: string
  ro_summary :: string
  ro_operationID :: string
  ro_pathPattern :: string
  ro_args :: "string list"

definition find_method :: "string \<Rightarrow> Route \<Rightarrow> string \<Rightarrow> Route option" where
  "find_method allowed r m = (if m = allowed then Some r else None)"

definition find_leaf :: "string \<Rightarrow> Route \<Rightarrow> string \<Rightarrow> string \<Rightarrow> Route option" where
  "find_leaf allowed r m elem = (if elem = [] then find_method allowed r m else None)"

definition find_device :: "string \<Rightarrow> string list \<Rightarrow> string \<Rightarrow> Route option" where
  "find_device m args = switch None
     [(''device_info'', find_leaf ''PATCH''
        \<lparr>ro_name = ''PatchDeviceInfo'', ro_summary = ''Update device_info(calibration data) of selected device'',
         ro_operationID = ''patchDeviceInfo'', ro_pathPattern = ''/devices/{device_id}/device_info'', ro_args = args\<rparr> m),
      (''status'', find_leaf ''PATCH''
        \<lparr>ro_name = ''PatchDeviceStatus'', ro_summary = ''Update status of selected device'',
         ro_operationID = ''patchDeviceStatus'', ro_pathPattern = ''/devices/{device_id}/status'', ro_args = args\<rparr> m)]"

definition find_devices :: "string \<Rightarrow> string \<Rightarrow> Route option" where
  "find_devices m elem =
    (let (arg, elem) = match_until_slash elem in
     if elem = [] then find_method ''PATCH''
        \<lparr>ro_name = ''PatchDevice'', ro_summary = ''Update a part of selected device's properties.'',
         ro_operationID = ''patchDevice'', ro_pathPattern = ''/devices/{device_id}'', ro_args = [arg]\<rparr> m
     else switch None [(''/'', find_device m [arg])] elem)"

definition find_sse :: "string \<Rightarrow> string list \<Rightarrow> string \<Rightarrow> Route option" where
  "find_sse m args = switch None
     [(''log'', find_leaf ''PATCH''
        \<lparr>ro_name = ''PatchSselog'', ro_summary = ''Upload SSE log file'', ro_operationID = ''patch_sselog'',
         ro_pathPattern = ''/jobs/{job_id}/sselog'', ro_args = args\<rparr> m),
      (''src'', find_leaf ''GET''
        \<lparr>ro_name = ''GetSsesrc'', ro_summary = ''Get SSE program source file'', ro_operationID = ''get_ssesrc'',
         ro_pathPattern = ''/jobs/{job_id}/ssesrc'', ro_args = args\<rparr> m)]"

definition find_job_s :: "string \<Rightarrow> string list \<Rightarrow> string \<Rightarrow> Route option" where
  "find_job_s m args = switch None
     [(''se'', find_sse m args),
      (''tatus'', find_leaf ''PATCH''
        \<lparr>ro_name = ''PatchJob'', ro_summary = ''Modify selected quantum job (update status).'',
         ro_operationID = ''patch_job'', ro_pathPattern = ''/jobs/{job_id}/status'', ro_args = args\<rparr> m)]"

definition find_job :: "string \<Rightarrow> string list \<Rightarrow> string \<Rightarrow> Route option" where
  "find_job m args = switch None
     [(''job_info'', find_leaf ''PATCH''
        \<lparr>ro_name = ''PatchJobInfo'', ro_summary = ''Update selected quantum job's job_info by placing job results'',
         ro_operationID = ''patch_job_info'', ro_pathPattern = ''/jobs/{job_id}/job_info'', ro_args = args\<rparr> m),
      (''s'', find_job_s m args),
      (''transpiler_info'', find_leaf ''PUT''
        \<lparr>ro_name = ''UpdateJobTranspilerInfo'', ro_summary = ''Overwrite selected quantum job's traspiler_info'',
         ro_operationID = ''update_job_transpiler_info'', ro_pathPattern = ''/jobs/{job_id}/transpiler_info'',
         ro_args = args\<rparr> m)]"

definition find_job_id :: "string \<Rightarrow> string \<Rightarrow> Route option" where
  "find_job_id m elem =
    (let (arg, elem) = match_until_slash elem in
     if elem = [] then find_method ''GET''
        \<lparr>ro_name = ''GetJob'', ro_summary = ''Get a job by ID'', ro_operationID = ''get_job'',
         ro_pathPattern = ''/jobs/{job_id}'', ro_args = [arg]\<rparr> m
     else switch None [(''/'', find_job m [arg])] elem)"

definition find_jobs :: "string \<Rightarrow> string \<Rightarrow> Route option" where
  "find_jobs m elem =
    (if elem = [] then find_method ''GET''
        \<lparr>ro_name = ''GetJobs'', ro_summary = ''Search jobs for a device'', ro_operationID = ''get_jobs'',
         ro_pathPattern = ''/jobs'', ro_args = []\<rparr> m
     else switch None [(''/'', find_job_id m)] elem)"

definition find_paths :: "string \<Rightarrow> string \<Rightarrow> Route option" where
  "find_paths m = switch None [(''devices/'', find_devices m), (''jobs'', find_jobs m)]"

definition find_root :: "string \<Rightarrow> string \<Rightarrow> Route option" where
  "find_root m = switch None [(''/'', find_paths m)]"

section \<open>The path of a request\<close>

record url_env =
  ue_Normalize :: "string \<Rightarrow> string option"

record server_url =
  su_Path :: string
  su_RawPath :: string

definition cutPrefix :: "string \<Rightarrow> string \<Rightarrow> string option" where
  "cutPrefix prefix path = (if prefix = [] then Some path else strip_prefix prefix path)"

definition request_path :: "url_env \<Rightarrow> server_url \<Rightarrow> string \<times> bool" where
  "request_path ue u =
    (if su_RawPath u \<noteq> [] then
       (case ue_Normalize ue (su_RawPath u) of
          Some normalized \<Rightarrow> (normalized, CHR ''%'' \<in> set normalized)
        | None \<Rightarrow> (su_Path u, False))
     else (su_Path u, False))"

definition route :: "url_env \<Rightarrow> string \<Rightarrow> string \<Rightarrow> server_url \<Rightarrow> routed \<times> bool" where
  "route ue prefix m u =
    (let (elem, elemIsEscaped) = request_path ue u in
     case cutPrefix prefix elem of
       None \<Rightarrow> (NotFound, elemIsEscaped)
     | Some elem \<Rightarrow> if elem = [] then (NotFound, elemIsEscaped) else (serve_root m elem, elemIsEscaped))"

definition unescape_arg :: "string \<Rightarrow> string" where
  "unescape_arg arg = (case PathUnescape arg of Some s \<Rightarrow> s | None \<Rightarrow> arg)"

definition FindPath :: "url_env \<Rightarrow> string \<Rightarrow> string \<Rightarrow> server_url \<Rightarrow> Route option" where
  "FindPath ue prefix m u =
    (let elem = (if su_RawPath u \<noteq> [] then
                   (case ue_Normalize ue (su_RawPath u) of Some normalized \<Rightarrow> normalized | None \<Rightarrow> su_Path u)
                 else su_Path u);
         deferred = (if su_RawPath u \<noteq> [] then ro_args_update (map unescape_arg) else id) in
     case cutPrefix prefix elem of None \<Rightarrow> None | Some elem \<Rightarrow> map_option deferred (find_root m elem))"

definition FindRoute :: "url_env \<Rightarrow> string \<Rightarrow> string \<Rightarrow> string \<Rightarrow> Route option" where
  "FindRoute ue prefix m path = FindPath ue prefix m \<lparr>su_Path = path, su_RawPath = []\<rparr>"

section \<open>The table of routes\<close>

fun segments :: "string \<Rightarrow> string list" where
  "segments [] = [[]]"
| "segments (c # cs) = (if c = CHR ''/'' then [] # segments cs else (c # hd (segments cs)) # List.tl (segments cs))"

datatype part = Lit string | Param

fun match_parts :: "part list \<Rightarrow> string list \<Rightarrow> string list option" where
  "match_parts [] [] = Some []"
| "match_parts (Lit p # ps) (s # ss) = (if s = p then match_parts ps ss else None)"
| "match_parts (Param # ps) (s # ss) = map_option ((#) s) (match_parts ps ss)"
| "match_parts _ _ = None"

definition routes :: "(part list \<times> string \<times> string) list" where
  "routes =
    [([Lit [], Lit ''devices'', Param], ''PATCH'', ''PatchDevice''),
     ([Lit [], Lit ''devices'', Param, Lit ''device_info''], ''PATCH'', ''PatchDeviceInfo''),
     ([Lit [], Lit ''devices'', Param, Lit ''status''], ''PATCH'', ''PatchDeviceStatus''),
     ([Lit [], Lit ''jobs''], ''GET'', ''GetJobs''),
     ([Lit [], Lit ''jobs'', Param], ''GET'', ''GetJob''),
     ([Lit [], Lit ''jobs'', Param, Lit ''job_info''], ''PATCH'', ''PatchJobInfo''),
     ([Lit [], Lit ''jobs'', Param, Lit ''sselog''], ''PATCH'', ''PatchSselog''),
     ([Lit [], Lit ''jobs'', Param, Lit ''ssesrc''], ''GET'', ''GetSsesrc''),
     ([Lit [], Lit ''jobs'', Param, Lit ''status''], ''PATCH'', ''PatchJob''),
     ([Lit [], Lit ''jobs'', Param, Lit ''transpiler_info''], ''PUT'', ''UpdateJobTranspilerInfo'')]"

fun lookup_route :: "(part list \<times> string \<times> string) list \<Rightarrow> string list \<Rightarrow> (string \<times> string \<times> string list) option" where
  "lookup_route [] ss = None"
| "lookup_route ((ps, allowed, operation) # rs) ss =
    (case match_parts ps ss of Some args \<Rightarrow> Some (allowed, operation, args) | None \<Rightarrow> lookup_route rs ss)"

lemma segments_not_Nil [simp]: "segments s \<noteq> []"
  by (induction s) auto

lemma segments_plain [simp]: "CHR ''/'' \<notin> set s \<Longrightarrow> segments s = [s]"
  by (induction s) auto

lemma segments_slash [simp]: "CHR ''/'' \<notin> set s \<Longrightarrow> segments (s @ CHR ''/'' # t) = s # segments t"
  by (induction s) auto

lemma segments_single: "CHR ''/'' \<notin> set p \<Longrightarrow> segments s = [p] \<longleftrightarrow> s = p"
proof
  show "s = p" if "segments s = [p]"
    using that
  proof (induction s arbitrary: p)
    case (Cons c cs)
    then show ?case by (cases "segments cs") (auto split: if_splits)
  qed simp
qed simp

lemma match_parts_Nil_segments [simp]: "match_parts [] (segments s) = None"
  by (cases "segments s") auto

lemma match_parts_last [simp]: "CHR ''/'' \<notin> set p \<Longrightarrow> match_parts [Lit p] (segments s) = (if s = p then Some [] else None)"
  using segments_single [of p s] by (cases "segments s") (auto simp: neq_Nil_conv elim: match_parts.elims)

lemma slash_cases:
  obtains "CHR ''/'' \<notin> set s" | a t where "s = a @ CHR ''/'' # t" "CHR ''/'' \<notin> set a"
  by (meson split_list_first)

lemma match_until_slash_plain [simp]: "CHR ''/'' \<notin> set s \<Longrightarrow> match_until_slash s = (s, [])"
  by (auto simp: match_until_slash_def takeWhile_eq_all_conv dropWhile_eq_Nil_conv)

lemma match_until_slash_slash [simp]: "CHR ''/'' \<notin> set a \<Longrightarrow> match_until_slash (a @ CHR ''/'' # t) = (a, CHR ''/'' # t)"
  by (auto simp: match_until_slash_def takeWhile_append dropWhile_append)

lemma strip_prefix_Some: "strip_prefix p s = Some r \<longleftrightarrow> s = p @ r"
  by (auto simp: strip_prefix_def) (metis append_take_drop_id)

lemma strip_prefix_append [simp]: "strip_prefix p (p @ r) = Some r"
  by (simp add: strip_prefix_Some)

text \<open>The last part of a path is one of the names of the node.\<close>

lemma switch_slash [simp]: "switch nf [(''/'', k)] (CHR ''/'' # t) = k t"
  by (simp add: strip_prefix_def)

lemma strip_prefix_last:
  "(case strip_prefix p s of None \<Rightarrow> nf | Some r \<Rightarrow> (if r = q then x else f r)) =
    (if s = p @ q then x else (case strip_prefix p s of None \<Rightarrow> nf | Some r \<Rightarrow> f r))"
  by (auto simp: strip_prefix_Some split: option.split)

lemma strip_prefix_same [simp]: "(case strip_prefix p s of None \<Rightarrow> nf | Some r \<Rightarrow> nf) = nf"
  by (simp split: option.split)

lemma serve_leaf_fun: "serve_leaf a operation m args = (\<lambda>s. if s = [] then serve_method a operation m args else NotFound)"
  by (simp add: serve_leaf_def fun_eq_iff)

lemma serve_device_spec:
  "serve_device m args s =
    (if s = ''device_info'' then serve_method ''PATCH'' ''PatchDeviceInfo'' m args
     else if s = ''status'' then serve_method ''PATCH'' ''PatchDeviceStatus'' m args else NotFound)"
  by (simp add: serve_device_def serve_leaf_fun strip_prefix_last)

lemma serve_sse_spec:
  "serve_sse m args =
    (\<lambda>s. if s = ''log'' then serve_method ''PATCH'' ''PatchSselog'' m args
     else if s = ''src'' then serve_method ''GET'' ''GetSsesrc'' m args else NotFound)"
  by (simp add: serve_sse_def serve_leaf_fun strip_prefix_last fun_eq_iff)

lemma serve_job_s_spec:
  "serve_job_s m args =
    (\<lambda>s. if s = ''selog'' then serve_method ''PATCH'' ''PatchSselog'' m args
     else if s = ''sesrc'' then serve_method ''GET'' ''GetSsesrc'' m args
     else if s = ''tatus'' then serve_method ''PATCH'' ''PatchJob'' m args else NotFound)"
  by (simp add: serve_job_s_def serve_sse_spec serve_leaf_fun strip_prefix_last fun_eq_iff)

lemma serve_job_spec:
  "serve_job m args s =
    (if s = ''job_info'' then serve_method ''PATCH'' ''PatchJobInfo'' m args
     else if s = ''sselog'' then serve_method ''PATCH'' ''PatchSselog'' m args
     else if s = ''ssesrc'' then serve_method ''GET'' ''GetSsesrc'' m args
     else if s = ''status'' then serve_method ''PATCH'' ''PatchJob'' m args
     else if s = ''transpiler_info'' then serve_method ''PUT'' ''UpdateJobTranspilerInfo'' m args else NotFound)"
  by (simp add: serve_job_def serve_job_s_spec serve_leaf_fun strip_prefix_last)

abbreviation served :: "string \<Rightarrow> (string \<times> string \<times> string list) option \<Rightarrow> routed" where
  "served m r \<equiv> (case r of None \<Rightarrow> NotFound | Some (allowed, operation, args) \<Rightarrow> serve_method allowed operation m args)"

lemma serve_devices_spec: "serve_devices m s = served m (lookup_route routes ([] # ''devices'' # segments s))"
  by (cases s rule: slash_cases)
    (auto simp: serve_devices_def serve_device_spec routes_def simp del: switch.simps)

lemma serve_job_id_spec: "serve_job_id m s = served m (lookup_route routes ([] # ''jobs'' # segments s))"
  by (cases s rule: slash_cases)
    (auto simp: serve_job_id_def serve_job_spec routes_def simp del: switch.simps)

lemma segment_eq:
  assumes "CHR ''/'' \<notin> set s" and "CHR ''/'' \<notin> set p"
  shows "s @ CHR ''/'' # t = p @ CHR ''/'' # r \<longleftrightarrow> s = p \<and> t = r"
  using assms
proof (induction p arbitrary: s)
  case (Cons c p)
  then show ?case by (cases s) auto
qed (auto simp: append_eq_Cons_conv)

lemma strip_prefix_segment:
  assumes "CHR ''/'' \<notin> set s" and "CHR ''/'' \<notin> set p"
  shows "strip_prefix (p @ ''/'') (s @ CHR ''/'' # t) = (if s = p then Some t else None)"
proof (cases "s = p")
  case True
  then show ?thesis using strip_prefix_append [of "p @ ''/''" t] by simp
next
  case False
  then have "strip_prefix (p @ ''/'') (s @ CHR ''/'' # t) \<noteq> Some r" for r
    using segment_eq [OF assms] by (simp add: strip_prefix_Some)
  then show ?thesis using False by (cases "strip_prefix (p @ ''/'') (s @ CHR ''/'' # t)") auto
qed

lemma strip_prefix_plain:
  "CHR ''/'' \<notin> set s \<Longrightarrow> strip_prefix ''devices/'' s = None"
  by (cases "strip_prefix ''devices/'' s") (auto simp: strip_prefix_Some)

lemma serve_jobs_plain:
  assumes "CHR ''/'' \<notin> set s"
  shows "case_option NotFound (serve_jobs m) (strip_prefix ''jobs'' s) =
    (if s = ''jobs'' then serve_method ''GET'' ''GetJobs'' m [] else NotFound)"
proof (cases "strip_prefix ''jobs'' s")
  case (Some r)
  then have "s = ''jobs'' @ r" by (simp add: strip_prefix_Some)
  then show ?thesis using assms Some by (cases r) (auto simp: serve_jobs_def)
qed (auto simp: strip_prefix_def)

lemma serve_jobs_segment:
  assumes "CHR ''/'' \<notin> set s"
  shows "case_option NotFound (serve_jobs m) (strip_prefix ''jobs'' (s @ CHR ''/'' # t)) =
    (if s = ''jobs'' then serve_job_id m t else NotFound)"
proof (cases "s = ''jobs''")
  case True
  then have "strip_prefix ''jobs'' (s @ CHR ''/'' # t) = Some (CHR ''/'' # t)" by (simp add: strip_prefix_def)
  then show ?thesis using True by (simp add: serve_jobs_def del: switch.simps)
next
  case False
  have "serve_jobs m r = NotFound" if "s @ CHR ''/'' # t = ''jobs'' @ r" for r
  proof (cases r)
    case Nil
    then have "CHR ''/'' \<in> set ''jobs''" using that by (metis append_Nil2 in_set_conv_decomp)
    then show ?thesis by simp
  next
    case (Cons c cs)
    then have "c \<noteq> CHR ''/''" using that False segment_eq [OF assms, of "''jobs''" t cs] by auto
    then show ?thesis using Cons by (simp add: serve_jobs_def)
  qed
  then show ?thesis using False by (auto simp: strip_prefix_Some split: option.split simp del: append.simps)
qed

lemma serve_paths_plain:
  "CHR ''/'' \<notin> set s \<Longrightarrow> serve_paths m s = (if s = ''jobs'' then serve_method ''GET'' ''GetJobs'' m [] else NotFound)"
  by (simp add: serve_paths_def strip_prefix_plain serve_jobs_plain)

lemma serve_paths_segment:
  "CHR ''/'' \<notin> set s \<Longrightarrow> serve_paths m (s @ CHR ''/'' # t) =
    (if s = ''devices'' then serve_devices m t else if s = ''jobs'' then serve_job_id m t else NotFound)"
  using strip_prefix_segment [of s "''devices''" t] serve_jobs_segment [of s m t]
  by (cases s) (auto simp: serve_paths_def)

lemma lookup_root: "s \<noteq> [] \<Longrightarrow> lookup_route routes (s # ss) = None"
  "lookup_route routes ([] # s # ss) = None" if "s \<noteq> ''devices''" "s \<noteq> ''jobs''"
  using that by (simp_all add: routes_def)

lemma serve_root_spec: "serve_root m elem = served m (lookup_route routes (segments elem))"
proof (cases elem)
  case (Cons c cs)
  show ?thesis
  proof (cases "c = CHR ''/''")
    case True
    have "serve_paths m cs = served m (lookup_route routes ([] # segments cs))"
    proof (cases cs rule: slash_cases)
      case 1
      then show ?thesis
        by (simp add: serve_paths_plain) (simp add: routes_def)
    next
      case (2 a t)
      then show ?thesis
        by (simp add: serve_paths_segment serve_devices_spec serve_job_id_spec lookup_root)
    qed
    then show ?thesis by (simp add: Cons True serve_root_def del: switch.simps)
  next
    case False
    then show ?thesis by (simp add: Cons serve_root_def routes_def)
  qed
qed (simp add: serve_root_def routes_def)

section \<open>Both trees agree\<close>

fun handled :: "routed \<Rightarrow> (string \<times> string list) option" where
  "handled (Handle operation args) = Some (operation, args)"
| "handled _ = None"

definition route_key :: "Route option \<Rightarrow> (string \<times> string list) option" where
  "route_key = map_option (\<lambda>r. (ro_name r, ro_args r))"

lemma handled_serve: "handled (serve_method a operation m args) = (if m = a then Some (operation, args) else None)"
  by (simp add: serve_method_def)

lemma route_key_find: "route_key (find_method a r m) = (if m = a then Some (ro_name r, ro_args r) else None)"
  by (simp add: route_key_def find_method_def)

lemma route_key_None [simp]: "route_key None = None"
  by (simp add: route_key_def)

lemma agree_option:
  "(\<And>x. route_key (f x) = handled (g x)) \<Longrightarrow>
    route_key (case_option None f v) = handled (case_option NotFound g v)"
  by (cases v) simp_all

lemma agree_leaf:
  "ro_name r = operation \<Longrightarrow> ro_args r = args \<Longrightarrow> route_key (find_leaf a r m s) = handled (serve_leaf a operation m args s)"
  by (simp add: find_leaf_def serve_leaf_def handled_serve route_key_find)

lemma find_device_agrees: "route_key (find_device m args s) = handled (serve_device m args s)"
  by (simp add: find_device_def serve_device_def agree_option agree_leaf)

lemma find_sse_agrees: "route_key (find_sse m args s) = handled (serve_sse m args s)"
  by (simp add: find_sse_def serve_sse_def agree_option agree_leaf)

lemma find_job_s_agrees: "route_key (find_job_s m args s) = handled (serve_job_s m args s)"
  by (simp add: find_job_s_def serve_job_s_def agree_option agree_leaf find_sse_agrees)

lemma find_job_agrees: "route_key (find_job m args s) = handled (serve_job m args s)"
  by (simp add: find_job_def serve_job_def agree_option agree_leaf find_job_s_agrees)

lemma find_job_id_agrees: "route_key (find_job_id m s) = handled (serve_job_id m s)"
  by (simp add: find_job_id_def serve_job_id_def agree_option find_job_agrees handled_serve route_key_find split: prod.split)

lemma find_jobs_agrees: "route_key (find_jobs m s) = handled (serve_jobs m s)"
  by (simp add: find_jobs_def serve_jobs_def agree_option find_job_id_agrees handled_serve route_key_find)

lemma find_devices_agrees: "route_key (find_devices m s) = handled (serve_devices m s)"
  by (simp add: find_devices_def serve_devices_def agree_option find_device_agrees handled_serve route_key_find split: prod.split)

lemma find_root_agrees: "route_key (find_root m s) = handled (serve_root m s)"
  by (simp add: find_root_def serve_root_def find_paths_def serve_paths_def agree_option find_devices_agrees find_jobs_agrees)

lemma segments_chars: "a \<in> set (segments s) \<Longrightarrow> set a \<subseteq> set s"
proof (induction s arbitrary: a)
  case (Cons c cs)
  obtain h hs where cs: "segments cs = h # hs" by (cases "segments cs") auto
  then have "set h \<subseteq> set cs" "\<And>x. x \<in> set hs \<Longrightarrow> set x \<subseteq> set cs" using Cons.IH by auto
  then show ?case using Cons.prems cs by (auto split: if_splits)
qed simp

lemma match_parts_args: "match_parts ps ss = Some args \<Longrightarrow> set args \<subseteq> set ss"
  by (induction ps ss arbitrary: args rule: match_parts.induct) (auto split: if_splits)

lemma lookup_route_args: "lookup_route rs ss = Some (a, operation, args) \<Longrightarrow> set args \<subseteq> set ss"
  by (induction rs ss rule: lookup_route.induct) (auto split: option.splits dest: match_parts_args)

lemma handled_args: "handled (serve_root m s) = Some (operation, args) \<Longrightarrow> arg \<in> set args \<Longrightarrow> set arg \<subseteq> set s"
proof -
  assume "handled (serve_root m s) = Some (operation, args)" and arg: "arg \<in> set args"
  then obtain a where "lookup_route routes (segments s) = Some (a, operation, args)"
    by (auto simp: serve_root_spec handled_serve split: option.splits if_splits)
  then show ?thesis using arg lookup_route_args segments_chars by blast
qed

lemma unescape_plain_args:
  assumes "handled (serve_root m elem) = Some (operation, args)" and "CHR ''%'' \<notin> set elem"
  shows "map unescape_arg args = args"
proof (rule map_idI)
  fix arg
  assume "arg \<in> set args"
  then have "CHR ''%'' \<notin> set arg" using handled_args [OF assms(1)] assms(2) by blast
  then show "unescape_arg arg = arg" by (simp add: unescape_arg_def PathUnescape_plain)
qed

text \<open>
  C13: The generated router, a tree of path prefixes that is walked character by character, is the table of
  the API's operations: the path, without the prefix of the server and cut at its slashes, is looked up
  among the ten routes; a route that is found is served when the method is the one it allows, and is
  otherwise answered with that method; every other path is not found.
\<close>

theorem route_is_table_lookup:
  "route ue prefix m u =
    (let (path, escaped) = request_path ue u in
     (case cutPrefix prefix path of
        None \<Rightarrow> NotFound
      | Some elem \<Rightarrow>
          (case lookup_route routes (segments elem) of
             None \<Rightarrow> NotFound
           | Some (allowed, operation, args) \<Rightarrow> if m = allowed then Handle operation args else NotAllowed allowed),
      escaped))"
  by (auto simp: route_def serve_root_spec serve_method_def routes_def split: prod.split option.split)

text \<open>
  The two copies of the tree agree: \<open>FindPath\<close> finds a route exactly when \<open>ServeHTTP\<close> calls a handler,
  it names the same operation, and its arguments are the ones of the handler after the decoding that the
  handler itself does. What this needs is that the raw path, if there is one, can be normalised: otherwise
  \<open>FindPath\<close> decodes the arguments of a path that was decoded before.
\<close>

theorem FindPath_agrees_ServeHTTP:
  assumes "su_RawPath u = [] \<or> ue_Normalize ue (su_RawPath u) \<noteq> None"
  shows "route_key (FindPath ue prefix m u) =
    map_option (\<lambda>(operation, args). (operation, if snd (route ue prefix m u) then map unescape_arg args else args))
      (handled (fst (route ue prefix m u)))"
proof -
  obtain path escaped where p: "request_path ue u = (path, escaped)" by fastforce
  show ?thesis
  proof (cases "cutPrefix prefix path")
    case None
    then show ?thesis using assms p
      by (auto simp: FindPath_def route_def request_path_def Let_def split: if_splits option.splits)
  next
    case (Some elem)
    then have "CHR ''%'' \<notin> set elem" if "CHR ''%'' \<notin> set path"
      using that by (auto simp: cutPrefix_def strip_prefix_def split: if_splits dest: in_set_dropD)
    then have "(if su_RawPath u \<noteq> [] then map unescape_arg args else args) =
        (if escaped then map unescape_arg args else args)"
      if "handled (serve_root m elem) = Some (operation, args)" for operation args
      using that p assms unescape_plain_args [OF that]
      by (auto simp: request_path_def split: if_splits option.splits)
    moreover have "FindPath ue prefix m u =
        map_option (if su_RawPath u \<noteq> [] then ro_args_update (map unescape_arg) else id) (find_root m elem)"
      using Some p by (auto simp: FindPath_def request_path_def Let_def split: if_splits option.splits)
    moreover have "fst (route ue prefix m u) = serve_root m elem" "snd (route ue prefix m u) = escaped"
      using Some p by (auto simp: route_def serve_root_def)
    ultimately show ?thesis
      using find_root_agrees [of m elem]
      by (cases "handled (serve_root m elem)"; cases "find_root m elem") (auto simp: route_key_def split: if_splits)
  qed
qed

definition plain_urls :: url_env where
  "plain_urls = \<lparr>ue_Normalize = Some\<rparr>"

theorem FindPath_agrees_ServeHTTP_witness:
  "route_key (FindPath plain_urls ''/v1'' ''GET'' \<lparr>su_Path = ''/v1/jobs/7'', su_RawPath = ''/v1/jobs/7''\<rparr>) =
    Some (''GetJob'', [''7''])"
proof -
  let ?u = "\<lparr>su_Path = ''/v1/jobs/7'', su_RawPath = ''/v1/jobs/7''\<rparr>"
  have "fst (route plain_urls ''/v1'' ''GET'' ?u) = Handle ''GetJob'' [''7'']"
    by (simp add: route_def request_path_def cutPrefix_def strip_prefix_def plain_urls_def serve_root_def
        serve_paths_def serve_jobs_def serve_job_id_def match_until_slash_def serve_method_def)
  moreover have "snd (route plain_urls ''/v1'' ''GET'' ?u) = False"
    by (simp add: route_def request_path_def cutPrefix_def strip_prefix_def plain_urls_def)
  ultimately show ?thesis
    by (subst FindPath_agrees_ServeHTTP) (simp_all add: plain_urls_def)
qed

end
