(* ===== verification/Api_Server.thy ===== *)
theory Api_Server
  imports Api_Client Api_Router
begin

text \<open>
  The generated server of the API: \<open>oas_parameters_gen.go\<close>, \<open>oas_request_decoders_gen.go\<close>,
  \<open>oas_response_encoders_gen.go\<close>, the server half of \<open>oas_security_gen.go\<close>, \<open>oas_handlers_gen.go\<close> and
  \<open>ServeHTTP\<close> of \<open>oas_router_gen.go\<close>. Tracing, metrics and the closing of multipart files are left out, and
  writing an answer to the connection does not fail.

  The record \<open>server\<close> has the operations that the handler of a provider implements, the check of the API
  key, the configuration, and what the packages \<open>mime\<close>, \<open>net/http\<close>, \<open>uri\<close> and \<open>conv\<close> do. A middleware is
  what it makes of the operations. A decoder gets the packages jx and \<open>validate\<close> of the server's process as
  an \<open>api_env\<close>. The query of a request has, per parameter, the value that its decoder finds.
\<close>

record server_request =
  hq_Method :: string
  hq_URL :: server_url
  hq_Query :: "(string \<times> string option) list"
  hq_ApiKey :: string
  hq_ContentType :: "string option"
  hq_ContentLength :: int
  hq_Body :: "string option"

datatype reply_body = JsonReply "json option" | TextReply string

record server_response =
  hs_StatusCode :: int
  hs_ContentType :: string
  hs_Body :: reply_body

datatype param_error = UnescapePath | BadValue | FieldRequired | InvalidParam invalid

datatype request_error =
    ParseMedia | ReadRequest | DecodeRequest "decode_error option" | ValidateRequest invalid
  | RequestContentType string | ParseMultipartForm | DecodeFile param_error

datatype server_error =
    KeyError | KeyNotSatisfied | DecodeParamError string param_error | DecodeRequestError request_error
  | HandlerError string | UnexpectedResponse

record GetJobsParams =
  gp_DeviceID :: string
  gp_Status :: "JobsJobStatus option"
  gp_MaxResults :: "int option"
  gp_Timestamp :: "string option"

record Handler =
  hn_GetJob :: "string \<Rightarrow> string + WireJobDef api_res"
  hn_GetJobs :: "GetJobsParams \<Rightarrow> string + WireJobDef list api_res"
  hn_GetSsesrc :: "string \<Rightarrow> string + string api_res"
  hn_PatchDevice :: "int optnil option \<Rightarrow> string \<Rightarrow> string + string api_res"
  hn_PatchDeviceInfo :: "WireDeviceInfoUpdate option \<Rightarrow> string \<Rightarrow> string + string api_res"
  hn_PatchDeviceStatus :: "string option \<Rightarrow> string \<Rightarrow> string + string api_res"
  hn_PatchJob :: "string option \<Rightarrow> string \<Rightarrow> string + string api_res"
  hn_PatchJobInfo :: "WireUpdateJobInfoRequest option \<Rightarrow> string \<Rightarrow> string + string api_res"
  hn_PatchSselog :: "string option \<Rightarrow> string \<Rightarrow> string + string api_res"
  hn_UpdateJobTranspilerInfo :: "raw_map option \<Rightarrow> string \<Rightarrow> string + string api_res"

record server =
  se_Handler :: Handler
  se_Middleware :: "(Handler \<Rightarrow> Handler) option"
  se_HandleApiKeyAuth :: "string \<Rightarrow> string \<Rightarrow> unit security"
  se_ErrorHandler :: "server_error \<Rightarrow> server_response"
  se_NotFound :: "server_request \<Rightarrow> server_response"
  se_MethodNotAllowed :: "server_request \<Rightarrow> string \<Rightarrow> server_response"
  se_Prefix :: string
  se_urls :: url_env
  se_PathValue :: "string \<Rightarrow> string option"
  se_ToInt :: "string \<Rightarrow> int option"
  se_ParseMediaType :: "string \<Rightarrow> string option"
  se_MultipartForm :: "server_request \<Rightarrow> (string \<times> string option list) list option"

text \<open>The operations that are called: those of the handler, or what the middleware makes of them.\<close>

definition operations :: "server \<Rightarrow> Handler" where
  "operations sv = (case se_Middleware sv of None \<Rightarrow> se_Handler sv | Some m \<Rightarrow> m (se_Handler sv))"

fun or_else :: "'e + 'a \<Rightarrow> ('a \<Rightarrow> 'e + 'b) \<Rightarrow> 'e + 'b" where
  "or_else (Inl er) k = Inl er"
| "or_else (Inr a) k = k a"

lemma or_else_Inr [res_simps]: "or_else m k = Inr b \<longleftrightarrow> (\<exists>a. m = Inr a \<and> k a = Inr b)"
  by (cases m) auto

section \<open>Security\<close>

definition server_securityApiKeyAuth :: "server \<Rightarrow> string \<Rightarrow> server_request \<Rightarrow> server_error + bool" where
  "server_securityApiKeyAuth sv operation r =
    (if hq_ApiKey r = [] then Inr False
     else (case se_HandleApiKeyAuth sv operation (hq_ApiKey r) of
             SkipSecurity \<Rightarrow> Inr False
           | SecurityFails \<Rightarrow> Inl KeyError
           | Key _ \<Rightarrow> Inr True))"

fun masks_satisfied :: "8 word list \<Rightarrow> 8 word list \<Rightarrow> bool" where
  "masks_satisfied satisfied [] = True"
| "masks_satisfied [] (req # reqs) = False"
| "masks_satisfied (b # satisfied) (req # reqs) = (b AND req = req \<and> masks_satisfied satisfied reqs)"

definition secured :: "server \<Rightarrow> string \<Rightarrow> server_request \<Rightarrow> server_error + unit" where
  "secured sv operation r =
    or_else (server_securityApiKeyAuth sv operation r) (\<lambda>ok.
      let satisfied = [if ok then (0 :: 8 word) OR push_bit 0 1 else 0] in
      if list_ex (masks_satisfied satisfied) [[0b00000001]] then Inr () else Inl KeyNotSatisfied)"

section \<open>Parameters\<close>

text \<open>The one parameter of a path, which the router cut out.\<close>

definition path_param :: "server \<Rightarrow> string \<Rightarrow> string \<Rightarrow> bool \<Rightarrow> server_error + string" where
  "path_param sv name arg argsEscaped =
    (case (if argsEscaped then PathUnescape arg else Some arg) of
       None \<Rightarrow> Inl (DecodeParamError name UnescapePath)
     | Some param \<Rightarrow>
         if 0 < length param then
           (case se_PathValue sv param of None \<Rightarrow> Inl (DecodeParamError name BadValue) | Some c \<Rightarrow> Inr c)
         else Inl (DecodeParamError name FieldRequired))"

definition decodeGetJobParams :: "server \<Rightarrow> string list \<Rightarrow> bool \<Rightarrow> server_error + string" where
  "decodeGetJobParams sv args argsEscaped = path_param sv ''job_id'' (args ! 0) argsEscaped"

definition query_param ::
  "server_request \<Rightarrow> string \<Rightarrow> (string \<Rightarrow> param_error + 'a) \<Rightarrow> server_error + 'a option" where
  "query_param r name conv =
    (case map_of (hq_Query r) name of
       None \<Rightarrow> Inr None
     | Some None \<Rightarrow> Inl (DecodeParamError name BadValue)
     | Some (Some val) \<Rightarrow>
         (case conv val of Inl er \<Rightarrow> Inl (DecodeParamError name er) | Inr a \<Rightarrow> Inr (Some a)))"

definition decodeGetJobsParams :: "server \<Rightarrow> server_request \<Rightarrow> server_error + GetJobsParams" where
  "decodeGetJobsParams sv r =
    or_else (query_param r ''device_id'' Inr) (\<lambda>deviceID.
    or_else (case deviceID of None \<Rightarrow> Inl (DecodeParamError ''device_id'' FieldRequired) | Some d \<Rightarrow> Inr d) (\<lambda>deviceID.
    or_else (query_param r ''status'' (\<lambda>c.
        case JobsJobStatus_Validate (JobsJobStatus_of c) of
          None \<Rightarrow> Inr (JobsJobStatus_of c) | Some er \<Rightarrow> Inl (InvalidParam er))) (\<lambda>status.
    or_else (query_param r ''max_results'' (\<lambda>c. case se_ToInt sv c of None \<Rightarrow> Inl BadValue | Some n \<Rightarrow> Inr n)) (\<lambda>maxResults.
    or_else (query_param r ''timestamp'' Inr) (\<lambda>timestamp.
      Inr \<lparr>gp_DeviceID = deviceID, gp_Status = status, gp_MaxResults = maxResults, gp_Timestamp = timestamp\<rparr>)))))"

definition decodeGetSsesrcParams :: "server \<Rightarrow> string list \<Rightarrow> bool \<Rightarrow> server_error + string" where
  "decodeGetSsesrcParams sv args argsEscaped = path_param sv ''job_id'' (args ! 0) argsEscaped"

definition decodePatchDeviceParams :: "server \<Rightarrow> string list \<Rightarrow> bool \<Rightarrow> server_error + string" where
  "decodePatchDeviceParams sv args argsEscaped = path_param sv ''device_id'' (args ! 0) argsEscaped"

definition decodePatchDeviceInfoParams :: "server \<Rightarrow> string list \<Rightarrow> bool \<Rightarrow> server_error + string" where
  "decodePatchDeviceInfoParams sv args argsEscaped = path_param sv ''device_id'' (args ! 0) argsEscaped"

definition decodePatchDeviceStatusParams :: "server \<Rightarrow> string list \<Rightarrow> bool \<Rightarrow> server_error + string" where
  "decodePatchDeviceStatusParams sv args argsEscaped = path_param sv ''device_id'' (args ! 0) argsEscaped"

definition decodePatchJobParams :: "server \<Rightarrow> string list \<Rightarrow> bool \<Rightarrow> server_error + string" where
  "decodePatchJobParams sv args argsEscaped = path_param sv ''job_id'' (args ! 0) argsEscaped"

definition decodePatchJobInfoParams :: "server \<Rightarrow> string list \<Rightarrow> bool \<Rightarrow> server_error + string" where
  "decodePatchJobInfoParams sv args argsEscaped = path_param sv ''job_id'' (args ! 0) argsEscaped"

definition decodePatchSselogParams :: "server \<Rightarrow> string list \<Rightarrow> bool \<Rightarrow> server_error + string" where
  "decodePatchSselogParams sv args argsEscaped = path_param sv ''job_id'' (args ! 0) argsEscaped"

definition decodeUpdateJobTranspilerInfoParams :: "server \<Rightarrow> string list \<Rightarrow> bool \<Rightarrow> server_error + string" where
  "decodeUpdateJobTranspilerInfoParams sv args argsEscaped = path_param sv ''job_id'' (args ! 0) argsEscaped"

lemmas path_params = decodeGetJobParams_def decodeGetSsesrcParams_def decodePatchDeviceParams_def
  decodePatchDeviceInfoParams_def decodePatchDeviceStatusParams_def decodePatchJobParams_def
  decodePatchJobInfoParams_def decodePatchSselogParams_def decodeUpdateJobTranspilerInfoParams_def

section \<open>Requests\<close>

text \<open>
  The body of a request. No content type and no content, or an empty body of the expected type, is a
  request that is not set.
\<close>

definition request_body ::
  "server \<Rightarrow> string \<Rightarrow> (server_request \<Rightarrow> request_error + 'a option) \<Rightarrow> server_request \<Rightarrow> request_error + 'a option" where
  "request_body sv expected body r =
    (if hq_ContentType r = None \<and> hq_ContentLength r = 0 then Inr None
     else (case se_ParseMediaType sv (case hq_ContentType r of None \<Rightarrow> [] | Some c \<Rightarrow> c) of
             None \<Rightarrow> Inl ParseMedia
           | Some ct \<Rightarrow>
               if ct = expected then (if hq_ContentLength r = 0 then Inr None else body r)
               else Inl (RequestContentType ct)))"

definition json_content :: "api_env \<Rightarrow> (json \<Rightarrow> 'a decoded) \<Rightarrow> server_request \<Rightarrow> request_error + 'a option" where
  "json_content p dec r =
    (case hq_Body r of
       None \<Rightarrow> Inl ReadRequest
     | Some buf \<Rightarrow>
         if buf = [] then Inr None
         else (case ae_parse p buf of
                 None \<Rightarrow> Inl (DecodeRequest None)
               | Some j \<Rightarrow> (case dec j of Inl er \<Rightarrow> Inl (DecodeRequest (Some er)) | Inr a \<Rightarrow> Inr (Some a))))"

definition validated_request :: "('a \<Rightarrow> invalid option) \<Rightarrow> request_error + 'a option \<Rightarrow> request_error + 'a option" where
  "validated_request val m =
    or_else m (\<lambda>req. case if_set val req of None \<Rightarrow> Inr req | Some er \<Rightarrow> Inl (ValidateRequest er))"

definition decodePatchDeviceRequest :: "api_env \<Rightarrow> server \<Rightarrow> server_request \<Rightarrow> request_error + int optnil option" where
  "decodePatchDeviceRequest p sv =
    request_body sv ''application/json'' (json_content p (\<lambda>j. DevicesUpdateDeviceRequest_Decode (ae_jx p) j Unset))"

definition decodePatchDeviceInfoRequest :: "api_env \<Rightarrow> server \<Rightarrow> server_request \<Rightarrow> request_error + WireDeviceInfoUpdate option" where
  "decodePatchDeviceInfoRequest p sv =
    request_body sv ''application/json'' (json_content p (\<lambda>j.
      DevicesDeviceInfoUpdate_Decode (ae_jx p) j \<lparr>wv_DeviceInfo = Some [], wv_CalibratedAt = Unset\<rparr>))"

definition decodePatchDeviceStatusRequest :: "api_env \<Rightarrow> server \<Rightarrow> server_request \<Rightarrow> request_error + string option" where
  "decodePatchDeviceStatusRequest p sv =
    request_body sv ''application/json'' (\<lambda>r.
      validated_request DevicesDeviceStatusUpdate_Validate
        (json_content p (\<lambda>j. DevicesDeviceStatusUpdate_Decode j []) r))"

definition decodePatchJobRequest :: "api_env \<Rightarrow> server \<Rightarrow> server_request \<Rightarrow> request_error + string option" where
  "decodePatchJobRequest p sv =
    request_body sv ''application/json'' (\<lambda>r.
      validated_request JobsJobStatusUpdate_Validate (json_content p (\<lambda>j. JobsJobStatusUpdate_Decode j []) r))"

definition decodePatchJobInfoRequest :: "api_env \<Rightarrow> server \<Rightarrow> server_request \<Rightarrow> request_error + WireUpdateJobInfoRequest option" where
  "decodePatchJobInfoRequest p sv =
    request_body sv ''application/json'' (\<lambda>r.
      validated_request (JobsUpdateJobInfoRequest_Validate p)
        (json_content p (\<lambda>j. JobsUpdateJobInfoRequest_Decode (ae_jx p) j zero_UpdateJobInfoRequest) r))"

text \<open>A multipart request: the first file of the field \<open>file\<close>, if it can be opened.\<close>

definition multipart_file :: "server \<Rightarrow> server_request \<Rightarrow> request_error + string option" where
  "multipart_file sv r =
    (case se_MultipartForm sv r of
       None \<Rightarrow> Inl ParseMultipartForm
     | Some files \<Rightarrow>
         (case map_of files ''file'' of
            None \<Rightarrow> Inl (DecodeFile FieldRequired)
          | Some [] \<Rightarrow> Inl (DecodeFile FieldRequired)
          | Some (None # _) \<Rightarrow> Inl (DecodeFile BadValue)
          | Some (Some content # _) \<Rightarrow> Inr (Some content)))"

definition decodePatchSselogRequest :: "server \<Rightarrow> server_request \<Rightarrow> request_error + string option" where
  "decodePatchSselogRequest sv = request_body sv ''multipart/form-data'' (multipart_file sv)"

definition decodeUpdateJobTranspilerInfoRequest :: "api_env \<Rightarrow> server \<Rightarrow> server_request \<Rightarrow> request_error + raw_map option" where
  "decodeUpdateJobTranspilerInfoRequest p sv =
    request_body sv ''application/json'' (json_content p new_raw_map)"

section \<open>Responses\<close>

definition json_reply :: "int \<Rightarrow> json option \<Rightarrow> server_error + server_response" where
  "json_reply code j =
    Inr \<lparr>hs_StatusCode = code, hs_ContentType = ''application/json; charset=utf-8'', hs_Body = JsonReply j\<rparr>"

definition DevicesDeviceDataUpdateResponse_Encode :: "string \<Rightarrow> json option" where
  "DevicesDeviceDataUpdateResponse_Encode message = Obj_Encode [(''message'', Str_Encode message)]"

definition DevicesUpdateDeviceResponse_Encode :: "string \<Rightarrow> json option" where
  "DevicesUpdateDeviceResponse_Encode message = Obj_Encode [(''message'', Str_Encode message)]"

definition ErrorBadRequest_Encode :: "string \<Rightarrow> json option" where
  "ErrorBadRequest_Encode message = Obj_Encode [(''message'', Str_Encode message)]"

definition ErrorConflictError_Encode :: "string \<Rightarrow> json option" where
  "ErrorConflictError_Encode message = Obj_Encode [(''message'', Str_Encode message)]"

definition ErrorInternalServerError_Encode :: "string \<Rightarrow> json option" where
  "ErrorInternalServerError_Encode message = Obj_Encode [(''message'', Str_Encode message)]"

definition ErrorNotFoundError_Encode :: "string \<Rightarrow> json option" where
  "ErrorNotFoundError_Encode message = Obj_Encode [(''message'', Str_Encode message)]"

definition JobsJobStatusUpdateResponse_Encode :: "string \<Rightarrow> json option" where
  "JobsJobStatusUpdateResponse_Encode message = Obj_Encode [(''message'', Str_Encode message)]"

definition JobsUpdateJobInfoResponse_Encode :: "string \<Rightarrow> json option" where
  "JobsUpdateJobInfoResponse_Encode message = Obj_Encode [(''message'', Str_Encode message)]"

definition JobsUpdateJobTranspilerInfoResponse_Encode :: "string \<Rightarrow> json option" where
  "JobsUpdateJobTranspilerInfoResponse_Encode message = Obj_Encode [(''message'', Str_Encode message)]"

definition JobsUploadSselogResponse_Encode :: "string \<Rightarrow> json option" where
  "JobsUploadSselogResponse_Encode message = Obj_Encode [(''message'', Str_Encode message)]"

lemmas message_Encodes = DevicesDeviceDataUpdateResponse_Encode_def DevicesUpdateDeviceResponse_Encode_def ErrorBadRequest_Encode_def ErrorConflictError_Encode_def ErrorInternalServerError_Encode_def ErrorNotFoundError_Encode_def JobsJobStatusUpdateResponse_Encode_def JobsUpdateJobInfoResponse_Encode_def JobsUpdateJobTranspilerInfoResponse_Encode_def JobsUploadSselogResponse_Encode_def

fun encodeGetJobResponse :: "jx_formats \<Rightarrow> WireJobDef api_res \<Rightarrow> server_error + server_response" where
  "encodeGetJobResponse f (ResOK response) = json_reply 200 (JobsJobDef_Encode f response)"
| "encodeGetJobResponse f (ResBadRequest m) = json_reply 400 (ErrorBadRequest_Encode m)"
| "encodeGetJobResponse f (ResNotFound m) = json_reply 404 (ErrorNotFoundError_Encode m)"
| "encodeGetJobResponse f _ = Inl UnexpectedResponse"

fun encodeGetJobsResponse :: "jx_formats \<Rightarrow> WireJobDef list api_res \<Rightarrow> server_error + server_response" where
  "encodeGetJobsResponse f (ResOK response) = json_reply 200 (GetJobsOK_Encode f response)"
| "encodeGetJobsResponse f (ResBadRequest m) = json_reply 400 (ErrorBadRequest_Encode m)"
| "encodeGetJobsResponse f (ResInternalServerError m) = json_reply 500 (ErrorInternalServerError_Encode m)"
| "encodeGetJobsResponse f _ = Inl UnexpectedResponse"

fun encodeGetSsesrcResponse :: "string api_res \<Rightarrow> server_error + server_response" where
  "encodeGetSsesrcResponse (ResOK response) =
    Inr \<lparr>hs_StatusCode = 200, hs_ContentType = ''text/plain; charset=utf-8'', hs_Body = TextReply response\<rparr>"
| "encodeGetSsesrcResponse (ResBadRequest m) = json_reply 400 (ErrorBadRequest_Encode m)"
| "encodeGetSsesrcResponse (ResNotFound m) = json_reply 404 (ErrorNotFoundError_Encode m)"
| "encodeGetSsesrcResponse (ResInternalServerError m) = json_reply 500 (ErrorInternalServerError_Encode m)"
| "encodeGetSsesrcResponse _ = Inl UnexpectedResponse"

fun encodePatchDeviceResponse :: "string api_res \<Rightarrow> server_error + server_response" where
  "encodePatchDeviceResponse (ResOK m) = json_reply 200 (DevicesUpdateDeviceResponse_Encode m)"
| "encodePatchDeviceResponse (ResBadRequest m) = json_reply 400 (ErrorBadRequest_Encode m)"
| "encodePatchDeviceResponse (ResNotFound m) = json_reply 404 (ErrorNotFoundError_Encode m)"
| "encodePatchDeviceResponse (ResInternalServerError m) = json_reply 500 (ErrorInternalServerError_Encode m)"
| "encodePatchDeviceResponse _ = Inl UnexpectedResponse"

fun encodePatchDeviceInfoResponse :: "string api_res \<Rightarrow> server_error + server_response" where
  "encodePatchDeviceInfoResponse (ResOK m) = json_reply 200 (DevicesDeviceDataUpdateResponse_Encode m)"
| "encodePatchDeviceInfoResponse (ResBadRequest m) = json_reply 400 (ErrorBadRequest_Encode m)"
| "encodePatchDeviceInfoResponse (ResNotFound m) = json_reply 404 (ErrorNotFoundError_Encode m)"
| "encodePatchDeviceInfoResponse (ResInternalServerError m) = json_reply 500 (ErrorInternalServerError_Encode m)"
| "encodePatchDeviceInfoResponse _ = Inl UnexpectedResponse"

fun encodePatchDeviceStatusResponse :: "string api_res \<Rightarrow> server_error + server_response" where
  "encodePatchDeviceStatusResponse (ResOK m) = json_reply 200 (DevicesDeviceDataUpdateResponse_Encode m)"
| "encodePatchDeviceStatusResponse (ResBadRequest m) = json_reply 400 (ErrorBadRequest_Encode m)"
| "encodePatchDeviceStatusResponse (ResNotFound m) = json_reply 404 (ErrorNotFoundError_Encode m)"
| "encodePatchDeviceStatusResponse (ResInternalServerError m) = json_reply 500 (ErrorInternalServerError_Encode m)"
| "encodePatchDeviceStatusResponse _ = Inl UnexpectedResponse"

fun encodePatchJobResponse :: "string api_res \<Rightarrow> server_error + server_response" where
  "encodePatchJobResponse (ResOK m) = json_reply 200 (JobsJobStatusUpdateResponse_Encode m)"
| "encodePatchJobResponse (ResNotFound m) = json_reply 404 (ErrorNotFoundError_Encode m)"
| "encodePatchJobResponse (ResConflict m) = json_reply 409 (ErrorConflictError_Encode m)"
| "encodePatchJobResponse _ = Inl UnexpectedResponse"

fun encodePatchJobInfoResponse :: "string api_res \<Rightarrow> server_error + server_response" where
  "encodePatchJobInfoResponse (ResOK m) = json_reply 200 (JobsUpdateJobInfoResponse_Encode m)"
| "encodePatchJobInfoResponse (ResBadRequest m) = json_reply 400 (ErrorBadRequest_Encode m)"
| "encodePatchJobInfoResponse (ResNotFound m) = json_reply 404 (ErrorNotFoundError_Encode m)"
| "encodePatchJobInfoResponse _ = Inl UnexpectedResponse"

fun encodePatchSselogResponse :: "string api_res \<Rightarrow> server_error + server_response" where
  "encodePatchSselogResponse (ResOK m) = json_reply 200 (JobsUploadSselogResponse_Encode m)"
| "encodePatchSselogResponse (ResBadRequest m) = json_reply 400 (ErrorBadRequest_Encode m)"
| "encodePatchSselogResponse (ResInternalServerError m) = json_reply 500 (ErrorInternalServerError_Encode m)"
| "encodePatchSselogResponse _ = Inl UnexpectedResponse"

fun encodeUpdateJobTranspilerInfoResponse :: "string api_res \<Rightarrow> server_error + server_response" where
  "encodeUpdateJobTranspilerInfoResponse (ResOK m) = json_reply 200 (JobsUpdateJobTranspilerInfoResponse_Encode m)"
| "encodeUpdateJobTranspilerInfoResponse (ResBadRequest m) = json_reply 400 (ErrorBadRequest_Encode m)"
| "encodeUpdateJobTranspilerInfoResponse (ResNotFound m) = json_reply 404 (ErrorNotFoundError_Encode m)"
| "encodeUpdateJobTranspilerInfoResponse _ = Inl UnexpectedResponse"

section \<open>Handlers\<close>

definition called :: "string + 'a \<Rightarrow> server_error + 'a" where
  "called m = (case m of Inl er \<Rightarrow> Inl (HandlerError er) | Inr response \<Rightarrow> Inr response)"

definition decoded_request :: "request_error + 'a \<Rightarrow> server_error + 'a" where
  "decoded_request m = (case m of Inl er \<Rightarrow> Inl (DecodeRequestError er) | Inr request \<Rightarrow> Inr request)"

definition answer :: "server \<Rightarrow> server_error + server_response \<Rightarrow> server_response" where
  "answer sv m = (case m of Inl er \<Rightarrow> se_ErrorHandler sv er | Inr response \<Rightarrow> response)"

definition handleGetJobRequest :: "api_env \<Rightarrow> server \<Rightarrow> string list \<Rightarrow> bool \<Rightarrow> server_request \<Rightarrow> server_response" where
  "handleGetJobRequest p sv args argsEscaped r = answer sv
    (or_else (secured sv ''GetJob'' r) (\<lambda>_.
     or_else (decodeGetJobParams sv args argsEscaped) (\<lambda>jobID.
     or_else (called (hn_GetJob (operations sv) jobID)) (encodeGetJobResponse (ae_jx p)))))"

definition handleGetJobsRequest :: "api_env \<Rightarrow> server \<Rightarrow> server_request \<Rightarrow> server_response" where
  "handleGetJobsRequest p sv r = answer sv
    (or_else (secured sv ''GetJobs'' r) (\<lambda>_.
     or_else (decodeGetJobsParams sv r) (\<lambda>params.
     or_else (called (hn_GetJobs (operations sv) params)) (encodeGetJobsResponse (ae_jx p)))))"

definition handleGetSsesrcRequest :: "server \<Rightarrow> string list \<Rightarrow> bool \<Rightarrow> server_request \<Rightarrow> server_response" where
  "handleGetSsesrcRequest sv args argsEscaped r = answer sv
    (or_else (secured sv ''GetSsesrc'' r) (\<lambda>_.
     or_else (decodeGetSsesrcParams sv args argsEscaped) (\<lambda>jobID.
     or_else (called (hn_GetSsesrc (operations sv) jobID)) encodeGetSsesrcResponse)))"

definition handlePatchDeviceRequest :: "api_env \<Rightarrow> server \<Rightarrow> string list \<Rightarrow> bool \<Rightarrow> server_request \<Rightarrow> server_response" where
  "handlePatchDeviceRequest p sv args argsEscaped r = answer sv
    (or_else (secured sv ''PatchDevice'' r) (\<lambda>_.
     or_else (decodePatchDeviceParams sv args argsEscaped) (\<lambda>deviceID.
     or_else (decoded_request (decodePatchDeviceRequest p sv r)) (\<lambda>request.
     or_else (called (hn_PatchDevice (operations sv) request deviceID)) encodePatchDeviceResponse))))"

definition handlePatchDeviceInfoRequest :: "api_env \<Rightarrow> server \<Rightarrow> string list \<Rightarrow> bool \<Rightarrow> server_request \<Rightarrow> server_response" where
  "handlePatchDeviceInfoRequest p sv args argsEscaped r = answer sv
    (or_else (secured sv ''PatchDeviceInfo'' r) (\<lambda>_.
     or_else (decodePatchDeviceInfoParams sv args argsEscaped) (\<lambda>deviceID.
     or_else (decoded_request (decodePatchDeviceInfoRequest p sv r)) (\<lambda>request.
     or_else (called (hn_PatchDeviceInfo (operations sv) request deviceID)) encodePatchDeviceInfoResponse))))"

definition handlePatchDeviceStatusRequest :: "api_env \<Rightarrow> server \<Rightarrow> string list \<Rightarrow> bool \<Rightarrow> server_request \<Rightarrow> server_response" where
  "handlePatchDeviceStatusRequest p sv args argsEscaped r = answer sv
    (or_else (secured sv ''PatchDeviceStatus'' r) (\<lambda>_.
     or_else (decodePatchDeviceStatusParams sv args argsEscaped) (\<lambda>deviceID.
     or_else (decoded_request (decodePatchDeviceStatusRequest p sv r)) (\<lambda>request.
     or_else (called (hn_PatchDeviceStatus (operations sv) request deviceID)) encodePatchDeviceStatusResponse))))"

definition handlePatchJobRequest :: "api_env \<Rightarrow> server \<Rightarrow> string list \<Rightarrow> bool \<Rightarrow> server_request \<Rightarrow> server_response" where
  "handlePatchJobRequest p sv args argsEscaped r = answer sv
    (or_else (secured sv ''PatchJob'' r) (\<lambda>_.
     or_else (decodePatchJobParams sv args argsEscaped) (\<lambda>jobID.
     or_else (decoded_request (decodePatchJobRequest p sv r)) (\<lambda>request.
     or_else (called (hn_PatchJob (operations sv) request jobID)) encodePatchJobResponse))))"

definition handlePatchJobInfoRequest :: "api_env \<Rightarrow> server \<Rightarrow> string list \<Rightarrow> bool \<Rightarrow> server_request \<Rightarrow> server_response" where
  "handlePatchJobInfoRequest p sv args argsEscaped r = answer sv
    (or_else (secured sv ''PatchJobInfo'' r) (\<lambda>_.
     or_else (decodePatchJobInfoParams sv args argsEscaped) (\<lambda>jobID.
     or_else (decoded_request (decodePatchJobInfoRequest p sv r)) (\<lambda>request.
     or_else (called (hn_PatchJobInfo (operations sv) request jobID)) encodePatchJobInfoResponse))))"

definition handlePatchSselogRequest :: "server \<Rightarrow> string list \<Rightarrow> bool \<Rightarrow> server_request \<Rightarrow> server_response" where
  "handlePatchSselogRequest sv args argsEscaped r = answer sv
    (or_else (secured sv ''PatchSselog'' r) (\<lambda>_.
     or_else (decodePatchSselogParams sv args argsEscaped) (\<lambda>jobID.
     or_else (decoded_request (decodePatchSselogRequest sv r)) (\<lambda>request.
     or_else (called (hn_PatchSselog (operations sv) request jobID)) encodePatchSselogResponse))))"

definition handleUpdateJobTranspilerInfoRequest :: "api_env \<Rightarrow> server \<Rightarrow> string list \<Rightarrow> bool \<Rightarrow> server_request \<Rightarrow> server_response" where
  "handleUpdateJobTranspilerInfoRequest p sv args argsEscaped r = answer sv
    (or_else (secured sv ''UpdateJobTranspilerInfo'' r) (\<lambda>_.
     or_else (decodeUpdateJobTranspilerInfoParams sv args argsEscaped) (\<lambda>jobID.
     or_else (decoded_request (decodeUpdateJobTranspilerInfoRequest p sv r)) (\<lambda>request.
     or_else (called (hn_UpdateJobTranspilerInfo (operations sv) request jobID)) encodeUpdateJobTranspilerInfoResponse))))"

definition dispatch :: "api_env \<Rightarrow> server \<Rightarrow> string \<Rightarrow> string list \<Rightarrow> bool \<Rightarrow> server_request \<Rightarrow> server_response" where
  "dispatch p sv operation args escaped r =
    (if operation = ''PatchDevice'' then handlePatchDeviceRequest p sv args escaped r
     else if operation = ''PatchDeviceInfo'' then handlePatchDeviceInfoRequest p sv args escaped r
     else if operation = ''PatchDeviceStatus'' then handlePatchDeviceStatusRequest p sv args escaped r
     else if operation = ''GetJobs'' then handleGetJobsRequest p sv r
     else if operation = ''GetJob'' then handleGetJobRequest p sv args escaped r
     else if operation = ''PatchJobInfo'' then handlePatchJobInfoRequest p sv args escaped r
     else if operation = ''PatchSselog'' then handlePatchSselogRequest sv args escaped r
     else if operation = ''GetSsesrc'' then handleGetSsesrcRequest sv args escaped r
     else if operation = ''PatchJob'' then handlePatchJobRequest p sv args escaped r
     else handleUpdateJobTranspilerInfoRequest p sv args escaped r)"

definition ServeHTTP :: "api_env \<Rightarrow> server \<Rightarrow> server_request \<Rightarrow> server_response" where
  "ServeHTTP p sv r =
    (case route (se_urls sv) (se_Prefix sv) (hq_Method r) (hq_URL r) of
       (Handle operation args, elemIsEscaped) \<Rightarrow> dispatch p sv operation args elemIsEscaped r
     | (NotAllowed allowed, _) \<Rightarrow> se_MethodNotAllowed sv r allowed
     | (NotFound, _) \<Rightarrow> se_NotFound sv r)"

end
