(* ===== verification/Api_Flow.thy ===== *)
theory Api_Flow
  imports Api_Client Poller
begin

text \<open>
  The engine over the wire: the calls of the poller (\<open>poller/awspollclient.go\<close>), of the service database
  (\<open>db/service.go\<close>) and of the gateway agent (\<open>qpu/gateway.go\<close>) through the client of the API.

  The conversions of Go between its floating-point types and from a duration to seconds, and the texts of
  errors, are arguments (\<open>wire_conv\<close>).
\<close>

record wire_conv =
  wc_float64 :: "float32 \<Rightarrow> float64"
  wc_seconds :: "duration \<Rightarrow> float64"
  wc_error :: "api_error \<Rightarrow> string"

section \<open>Reports\<close>

definition wire_sampling :: "JobsSamplingResult \<Rightarrow> WireSamplingResult" where
  "wire_sampling r =
    \<lparr>ws_Counts = map (\<lambda>(k, v). (k, Some v)) (sr_Counts r),
     ws_DividedCounts = map_optnil (map (\<lambda>(k, v). (k, Some v))) (sr_DividedCounts r)\<rparr>"

definition wire_result :: "wire_conv \<Rightarrow> JobsJobResult \<Rightarrow> WireJobResult" where
  "wire_result cv r =
    \<lparr>wr_Sampling = map_optnil wire_sampling (jr_Sampling r),
     wr_Estimation = map_optnil (\<lambda>(v, s). \<lparr>we_ExpValue = wc_float64 cv v, we_Stds = wc_float64 cv s\<rparr>) (jr_Estimation r),
     wr_AdditionalProps = []\<rparr>"

definition wire_request :: "wire_conv \<Rightarrow> JobsUpdateJobInfoRequest \<Rightarrow> WireUpdateJobInfoRequest" where
  "wire_request cv req =
    \<lparr>wq_OverwriteStatus = Some (up_OverwriteStatus req),
     wq_ExecutionTime = map_optnil (wc_seconds cv) (up_ExecutionTime req),
     wq_JobInfo = Some
       \<lparr>wu_CombinedProgram = up_CombinedProgram req, wu_TranspileResult = up_TranspileResult req,
        wu_Result = map_optnil (wire_result cv) (up_Result req), wu_Message = up_Message req\<rparr>\<rparr>"

definition no_error :: "wire_conv \<Rightarrow> api_error + 'a api_res \<Rightarrow> error option" where
  "no_error cv res = (case res of Inl er \<Rightarrow> Some (wc_error cv er) | Inr _ \<Rightarrow> None)"

fun service_call :: "api_env \<Rightarrow> wire_conv \<Rightarrow> db_call \<Rightarrow> error option" where
  "service_call e cv (PatchJob jid st) = no_error cv (sendPatchJob e (Some (JobsJobStatus_string st)) jid)"
| "service_call e cv (PatchJobInfo jid req) = no_error cv (sendPatchJobInfo e (Some (wire_request cv req)) jid)"
| "service_call e cv (UpdateJobTranspilerInfo jid ti) = no_error cv (sendUpdateJobTranspilerInfo e (Some ti) jid)"

fun device_call :: "api_env \<Rightarrow> wire_conv \<Rightarrow> (string \<Rightarrow> datetime) \<Rightarrow> string \<Rightarrow> api_call \<Rightarrow> error option" where
  "device_call e cv rfc3339 dev (PatchDeviceStatus st) = no_error cv (sendPatchDeviceStatus e (Some st) dev)"
| "device_call e cv rfc3339 dev (PatchDeviceInfo spec t) =
    no_error cv (sendPatchDeviceInfo e (Some \<lparr>wv_DeviceInfo = Some spec, wv_CalibratedAt = Val (rfc3339 t)\<rparr>) dev)"
| "device_call e cv rfc3339 dev (PatchDevice n) = no_error cv (sendPatchDevice e (Some (Val n)) dev)"

section \<open>Files of an SSE job\<close>

text \<open>
  The client of \<open>coreapp/sse/apiclient/apiclient.go\<close>: unlike the updates above, it takes every answer but
  the expected one for an error. Reading the body of the answer is part of the exchange. The name, the size and
  the content type that the part of the log carries besides its content are left out.
\<close>

fun other_type :: "'a api_res \<Rightarrow> string" where
  "other_type (ResOK _) = []"
| "other_type (ResBadRequest _) = ''*providerapi.ErrorBadRequest''"
| "other_type (ResNotFound _) = ''*providerapi.ErrorNotFoundError''"
| "other_type (ResConflict _) = ''*providerapi.ErrorConflictError''"
| "other_type (ResInternalServerError _) = ''*providerapi.ErrorInternalServerError''"

definition expect_ok :: "wire_conv \<Rightarrow> string \<Rightarrow> api_error + 'a api_res \<Rightarrow> 'a res" where
  "expect_ok cv msg r =
    (case r of
       Inl er \<Rightarrow> Err (msg @ wc_error cv er)
     | Inr (ResOK a) \<Rightarrow> Ok a
     | Inr res \<Rightarrow> Err (''unexpected response type '' @ other_type res))"

definition SseApiClient_PatchSselog :: "api_env \<Rightarrow> wire_conv \<Rightarrow> string \<Rightarrow> string \<Rightarrow> string res" where
  "SseApiClient_PatchSselog e cv jobId body =
    expect_ok cv ''failed to upload the log file of SSE: '' (sendPatchSselog e (Some body) jobId)"

definition api_GetSsesrc :: "api_env \<Rightarrow> wire_conv \<Rightarrow> string \<Rightarrow> string res" where
  "api_GetSsesrc e cv jobId = expect_ok cv ''failed to get the source file of SSE: '' (sendGetSsesrc e jobId)"

lemma expect_ok_Ok: "expect_ok cv msg r = Ok a \<longleftrightarrow> r = Inr (ResOK a)"
  by (auto simp: expect_ok_def split: sum.splits api_res.splits)

section \<open>Jobs\<close>

text \<open>
  A job as the converter sees it. The results and the execution time of a job that is fetched are not
  looked at. An operator keeps the text of its coefficient.
\<close>

definition operator_of :: "jx_formats \<Rightarrow> WireOperatorItem \<Rightarrow> string \<times> string option" where
  "operator_of f i = (wo_Pauli i, map_option (\<lambda>c. json_print (jx_writeFloat64 f c)) (wo_Coeff i))"

definition job_info_of :: "jx_formats \<Rightarrow> WireJobInfo \<Rightarrow> JobsJobInfo" where
  "job_info_of f i =
    \<lparr>ji_Program = (case wi_Program i of None \<Rightarrow> [] | Some p \<Rightarrow> p), ji_CombinedProgram = wi_CombinedProgram i,
     ji_Operator = map_optnil (map (operator_of f)) (wi_Operator i), ji_Result = Unset,
     ji_TranspileResult = wi_TranspileResult i, ji_Message = wi_Message i\<rparr>"

definition job_def_of :: "jx_formats \<Rightarrow> WireJobDef \<Rightarrow> JobsJobDef" where
  "job_def_of f d =
    \<lparr>df_JobID = wd_JobID d, df_Shots = wd_Shots d, df_JobType = wd_JobType d,
     df_JobInfo = job_info_of f (wd_JobInfo d), df_TranspilerInfo = wd_TranspilerInfo d,
     df_MitigationInfo = wd_MitigationInfo d, df_Status = wd_Status d, df_ExecutionTime = Unset,
     df_SubmittedAt = wd_SubmittedAt d\<rparr>"

definition api_GetJobs :: "api_env \<Rightarrow> wire_conv \<Rightarrow> string \<Rightarrow> int \<Rightarrow> JobsJobStatus \<Rightarrow> GetJobsRes res" where
  "api_GetJobs e cv deviceID maxResults status =
    (case sendGetJobs e deviceID (Some status) (Some maxResults) None of
       Inl er \<Rightarrow> Err (wc_error cv er)
     | Inr (ResOK defs) \<Rightarrow> Ok (GetJobsOKApplicationJSON (map (job_def_of (ae_jx e)) defs))
     | Inr (ResBadRequest _) \<Rightarrow> Ok (OtherRes ''*providerapi.ErrorBadRequest'')
     | Inr (ResNotFound _) \<Rightarrow> Ok (OtherRes ''*providerapi.ErrorNotFoundError'')
     | Inr (ResConflict _) \<Rightarrow> Ok (OtherRes ''*providerapi.ErrorConflictError'')
     | Inr (ResInternalServerError _) \<Rightarrow> Ok (OtherRes ''*providerapi.ErrorInternalServerError''))"

text \<open>The operators of a job are marshalled item by item by the generated encoder.\<close>

definition marshal_operator_items :: "(string \<times> string option) list \<Rightarrow> string res" where
  "marshal_operator_items items =
    Ok (json_print (JArr (map (\<lambda>(pauli, coeff). JObj ((''pauli'', JStr pauli) #
      (case coeff of None \<Rightarrow> [] | Some c \<Rightarrow> [(''coeff'', JNum c)]))) items)))"

definition api_poll :: "api_env \<Rightarrow> wire_conv \<Rightarrow> 'a poll_env \<Rightarrow> 'a poll_env" where
  "api_poll e cv p = p\<lparr>po_GetJobs := api_GetJobs e cv, po_marshal_operator := marshal_operator_items\<rparr>"

section \<open>Requests and answers\<close>

text \<open>The exchange of one operation: the request with the key of the client, and the answer of the service.\<close>

lemma send_Key:
  "ae_ApiKeyAuth e operation = Key k \<Longrightarrow>
    send e operation r decode = (case ae_Do e (r\<lparr>rq_ApiKey := k\<rparr>) of None \<Rightarrow> Inl DoRequest | Some resp \<Rightarrow> decode resp)"
  by (simp add: send_def securityApiKeyAuth_def)

lemma send_Inr:
  "send e operation r decode = Inr a \<Longrightarrow>
    \<exists>k resp. ae_ApiKeyAuth e operation = Key k \<and> ae_Do e (r\<lparr>rq_ApiKey := k\<rparr>) = Some resp \<and> decode resp = Inr a"
  by (auto simp: send_def securityApiKeyAuth_def res_simps split: security.splits option.splits if_splits)

text \<open>
  C23: the jobs that the client hands to the poller are typed: every job of an accepted answer has one of
  the four job types and one of the six statuses, between 1 and 10000000 shots, a list of programs, and
  only finite numbers.
\<close>

theorem fetched_jobs_valid:
  assumes "int_limits e" and "sendGetJobs e dev status maxResults timestamp = Inr (ResOK defs)" and "d \<in> set defs"
  shows "valid_job e d"
  using assms send_Inr [of e "''GetJobs''" _ "decodeGetJobsResponse e" "ResOK defs"]
  by (fastforce simp: sendGetJobs_def Let_def GetJobsOK_Validate_def list_all_iff JobsJobDef_Validate_None
      dest!: decodeGetJobsResponse_OK)

section \<open>Reports can be read back\<close>

lemma raw_ok_print: "plain_json j \<Longrightarrow> raw_ok (Some (json_print j))"
  using json_print_hd [of j] json_print_parse [of j] by (auto simp: raw_ok_def Raw_Encode_def split: list.split)

lemma json_parse_plain: "json_parse s = Some j \<Longrightarrow> plain_json j"
  by (auto simp: json_parse_def simp del: json_value.simps dest: parsed_plain(1) split: option.splits if_splits)

lemma raw_map_ok_put_all: "list_all (\<lambda>(k, elem). raw_ok elem) kvs \<Longrightarrow> raw_map_ok (put_all kvs [])"
  using wf_map_put_all [of "[]" kvs] by (simp add: raw_map_ok_def list_all_put_all)

lemma raw_members_ok: "raw_map_ok (raw_members raw)"
proof -
  have "raw_map_ok (put_all (map (\<lambda>(k, v). (k, Some (json_print v))) kvs) [])" if "json_parse s = Some (JObj kvs)" for s kvs
    using json_parse_plain [OF that]
    by (intro raw_map_ok_put_all) (auto simp: list_all_iff intro: raw_ok_print)
  moreover have "raw_map_ok []" by (simp add: raw_map_ok_def)
  ultimately show ?thesis by (auto simp: raw_members_def split: option.split json.split)
qed

lemma put_all_map_Some:
  "map (\<lambda>(k, v). (k, Some v)) (put_all kvs m) = put_all (map (\<lambda>(k, v). (k, Some v)) kvs) (map (\<lambda>(k, v). (k, Some v)) m)"
proof (induction kvs arbitrary: m)
  case (Cons kv kvs)
  have "map (\<lambda>(k, v). (k, Some v)) (AList.update k v m) = AList.update k (Some v) (map (\<lambda>(k, v). (k, Some v)) m)" for k v
    by (induction m) auto
  then show ?case using Cons by (cases kv) simp
qed simp

lemma counts_ok: "raw_map_ok (map (\<lambda>(k, v). (k, Some v)) (convertToAPICounts cs))"
proof -
  have "raw_ok (Some (u32_str v))" for v using raw_ok_print [of "JNum (u32_str v)"] by (simp add: u32_str_def)
  then show ?thesis
    unfolding convertToAPICounts_def put_all_map_Some list.map(1) by (intro raw_map_ok_put_all) (auto simp: list_all_iff)
qed

lemma convertToAPICounts_digits: "list_all (\<lambda>(k, v). scan_number v = Some (v, [])) (convertToAPICounts cs)"
  unfolding convertToAPICounts_def by (intro list_all_put_all) (auto simp: list_all_iff u32_str_def)

lemma divided_counts_ok: "raw_map_ok (map (\<lambda>(k, v). (k, Some v)) (convertToAPIDividedCounts d))"
proof -
  have "raw_ok (Some (json_print (JObj (map (\<lambda>(k, c). (k, JNum c)) (convertToAPICounts v)))))" for v
    using convertToAPICounts_digits [of v] by (intro raw_ok_print) (auto simp: list_all_iff)
  then show ?thesis
    unfolding convertToAPIDividedCounts_def put_all_map_Some list.map(1) by (intro raw_map_ok_put_all) (auto simp: list_all_iff)
qed

text \<open>The numbers of a report that jx has to write as \<open>float64\<close>.\<close>

definition report_floats_ok :: "jx_formats \<Rightarrow> wire_conv \<Rightarrow> JobsUpdateJobInfoRequest \<Rightarrow> bool" where
  "report_floats_ok f cv req \<longleftrightarrow>
    pred_optnil (\<lambda>t. float64_ok f (wc_seconds cv t)) (up_ExecutionTime req) \<and>
    pred_optnil (\<lambda>r. pred_optnil (\<lambda>(v, s). float64_ok f (wc_float64 cv v) \<and> float64_ok f (wc_float64 cv s)) (jr_Estimation r))
      (up_Result req)"

lemma wire_result_ok:
  assumes "pred_optnil (\<lambda>(v, s). float64_ok f (wc_float64 cv v) \<and> float64_ok f (wc_float64 cv s)) (jr_Estimation (snd (result_of j r)))"
  shows "job_result_ok f (wire_result cv (snd (result_of j r)))"
  using assms
  by (auto simp: result_of_def job_result_ok_def wire_result_def wire_sampling_def sampling_ok_def estimation_ok_def
      counts_ok divided_counts_ok raw_map_ok_def [of "[]"])

lemma transpile_result_ok: "pred_optnil transpile_ok (transpile_result_of j r)"
  by (simp add: transpile_result_of_def transpile_ok_def raw_members_ok split: option.split)

lemma pred_optnil_map: "pred_optnil P (map_optnil g v) \<longleftrightarrow> pred_optnil (P \<circ> g) v"
  by (cases v) simp_all

lemma update_request_wire_ok:
  assumes c: "ConvertToCloudJob fmt jd = Ret cJob jd'" and fl: "report_floats_ok f cv (update_request jd' need cJob)"
  shows "update_request_ok f (wire_request cv (update_request jd' need cJob))"
proof -
  let ?rq = "update_request jd' need cJob"
  obtain r where st: "df_Status cJob = convertToAPIStatus (jd_Status jd)"
      and res: "ji_Result (df_JobInfo cJob) = Val (snd (result_of jd r))"
      and tr: "ji_TranspileResult (df_JobInfo cJob) = transpile_result_of jd r"
    using ConvertToCloudJob_Ret [OF c] by blast
  have "status_ok (up_OverwriteStatus ?rq)"
    using st by (cases "jd_Status jd") (auto simp: update_request_def Let_def case_prod_beta)
  moreover have "pred_optnil transpile_ok (up_TranspileResult ?rq)"
    using transpile_result_ok [of jd r] tr
    by (cases "transpile_result_of jd r")
      (auto simp: update_request_def update_stats_def Let_def transpile_ok_def)
  moreover have "pred_optnil (\<lambda>r. job_result_ok f (wire_result cv r)) (up_Result ?rq)"
    using fl res wire_result_ok [of f cv jd r]
    by (auto simp: update_request_def report_floats_ok_def Let_def case_prod_beta split: JobsJobStatus.splits)
  ultimately show ?thesis
    using fl
    by (simp add: update_request_ok_def wire_request_def update_info_ok_def report_floats_ok_def pred_optnil_map comp_def)
qed

lemma ServiceDB_Update_call_cases:
  assumes "ServiceDB_Update e jd = Ret (cs, err) jd2" and "c \<in> set cs"
  shows "c = PatchJob (jd_ID jd) RunningS \<or>
    (\<exists>cJob jd'. ConvertToCloudJob (sv_fmt e) jd = Ret cJob jd' \<and>
      ((\<exists>need. c = PatchJobInfo (jd_ID jd) (update_request jd' need cJob)) \<or>
       (\<exists>ti. df_TranspilerInfo cJob = Val ti \<and> c = UpdateJobTranspilerInfo (df_JobID cJob) ti)))"
proof (cases "ConvertToCloudJob (sv_fmt e) jd")
  case (Ret cJob jd')
  then show ?thesis
    using assms
    by (auto simp: ServiceDB_Update_def Let_def update_status_calls putTranspilerInfo_def res_simps
        split: if_splits res.splits option.splits prod.splits)
qed (use assms in \<open>simp add: ServiceDB_Update_def\<close>)


text \<open>
  C9: Every report of the engine can be read back: for each update of a job that the service database sends
  with all its information, the body of the request is a JSON value, and decoding it gives the request
  again, with the counts, the divided counts and the data of the transpiler. What the numbers need is that
  jx reads back the floating-point numbers it writes.
\<close>

theorem report_round_trip:
  assumes "ServiceDB_Update e jd = Ret (cs, err) jd2" and "PatchJobInfo jid req \<in> set cs"
    and "report_floats_ok (ae_jx env) cv req"
  shows "\<exists>j. encodePatchJobInfoRequest env (Some (wire_request cv req)) = Some (JsonBody (Some j)) \<and>
    JobsUpdateJobInfoRequest_Decode (ae_jx env) j zero_UpdateJobInfoRequest = Inr (wire_request cv req)"
proof -
  obtain cJob jd' need where "ConvertToCloudJob (sv_fmt e) jd = Ret cJob jd'" "req = update_request jd' need cJob"
    using ServiceDB_Update_call_cases [OF assms(1,2)] by auto
  then have "update_request_ok (ae_jx env) (wire_request cv req)"
    using update_request_wire_ok assms(3) by blast
  then show ?thesis
    by (auto elim!: update_request.roundE simp: encodePatchJobInfoRequest_def json_request_def)
qed

section \<open>Answers with jobs\<close>

abbreviation json_answer :: "int \<Rightarrow> string \<Rightarrow> http_response" where
  "json_answer code buf \<equiv> \<lparr>rp_StatusCode = code, rp_MediaType = Some ''application/json'', rp_Body = Some buf\<rparr>"

lemma decode_encoded_jobs:
  assumes "list_all (job_def_ok (ae_jx e)) defs" and "GetJobsOK_Encode (ae_jx e) defs = Some j"
    and "ae_parse e buf = Some j"
  shows "decodeGetJobsResponse e (json_answer 200 buf) =
    (case GetJobsOK_Validate e defs of None \<Rightarrow> Inr (ResOK defs) | Some er \<Rightarrow> Inl (ValidateResponse er))"
  using job_defs.round [OF assms(1)] assms(2,3)
  by (auto simp: round_trips_iff decodeGetJobsResponse_def json_body_def media_type_def read_body_def as_res_def
      validated_def split: option.split)

lemma encoded_jobs: "list_all (job_def_ok f) defs \<Longrightarrow> \<exists>j. GetJobsOK_Encode f defs = Some j"
  using job_defs.round [of f defs] by (auto simp: round_trips_iff)

lemma GetJobsOK_Validate_None: "int_limits e \<Longrightarrow> GetJobsOK_Validate e defs = None \<longleftrightarrow> list_all (valid_job e) defs"
  by (simp add: GetJobsOK_Validate_def JobsJobDef_Validate_None)

text \<open>
  An answer with jobs is accepted as a whole or not at all: when the provider answers with the encoding
  of a list of jobs, the client returns exactly that list if the validation accepts every job, and otherwise
  only the error of the validation.
\<close>

theorem jobs_all_or_none:
  assumes "list_all (job_def_ok (ae_jx e)) defs" and "GetJobsOK_Encode (ae_jx e) defs = Some j"
    and "ae_parse e buf = Some j" and "int_limits e"
  shows "decodeGetJobsResponse e (json_answer 200 buf) =
    (if list_all (valid_job e) defs then Inr (ResOK defs)
     else Inl (ValidateResponse (the (GetJobsOK_Validate e defs))))"
  using decode_encoded_jobs [OF assms(1-3)] GetJobsOK_Validate_None [OF assms(4), of defs]
  by (cases "GetJobsOK_Validate e defs") auto

text \<open>
  C22: One job that the validation does not accept, such as one of a new job type, keeps the engine from
  getting any job: as long as the provider lists it among the submitted jobs, every poll fails and no job
  is handed over. The case of an unknown job type in \<open>toJobSlice\<close> is never reached.
\<close>

theorem invalid_job_blocks_poll:
  assumes "int_limits e" and "list_all (job_def_ok (ae_jx e)) defs" and "GetJobsOK_Encode (ae_jx e) defs = Some j"
    and "ae_parse e buf = Some j" and "ae_ApiKeyAuth e ''GetJobs'' = Key k"
    and "\<And>r. rq_Path r = [''/jobs''] \<Longrightarrow> ae_Do e r = Some (json_answer 200 buf)"
    and "d \<in> set defs" and "\<not> valid_job e d"
  shows "\<exists>er. request (api_poll e cv p) c = Err er"
proof -
  have "GetJobsOK_Validate e defs \<noteq> None"
    using assms(1,7,8) by (auto simp: GetJobsOK_Validate_None list_all_iff simp del: not_None_eq)
  moreover note decode_encoded_jobs [OF assms(2-4)]
  ultimately show ?thesis
    using assms(5,6)
    by (auto simp: request_def api_poll_def api_GetJobs_def sendGetJobs_def Let_def send_Key new_request_def)
qed

section \<open>Rejected updates\<close>

lemma message_Decode:
  "decode_struct name message_fields no_default [0b00000001] (JObj [(''message'', JStr m)]) s = Inr m"
  unfolding message_table.decode_spec
  by (simp add: message_fields_def store_def required_def)

lemma error_answers:
  assumes "ae_parse e buf = Some (JObj [(''message'', JStr m)])"
  shows "bad_request e (json_answer code buf) = Inr (ResBadRequest m)"
    "not_found e (json_answer code buf) = Inr (ResNotFound m)"
    "conflict e (json_answer code buf) = Inr (ResConflict m)"
    "internal_error e (json_answer code buf) = Inr (ResInternalServerError m)"
  using assms message_Decode
  by (simp_all add: bad_request_def not_found_def conflict_def internal_error_def as_res_def json_body_def
      media_type_def read_body_def ErrorBadRequest_Decode_def ErrorNotFoundError_Decode_def
      ErrorConflictError_Decode_def ErrorInternalServerError_Decode_def)

text \<open>
  C24: A provider that rejects an update in one of the ways the API names is not noticed: a client returns
  such an answer as a value and not as an error, and neither the service database nor the gateway agent
  looks at the value. So a job whose report is answered with \<open>400\<close> or \<open>404\<close>, a status answered with \<open>404\<close>
  or \<open>409\<close> and an update of the device answered with \<open>400\<close>, \<open>404\<close> or \<open>500\<close> count as delivered.
\<close>

theorem rejected_update_counts_as_delivered:
  assumes "\<And>operation. ae_ApiKeyAuth e operation = Key k" and "\<And>r. ae_Do e r = Some (json_answer code buf)"
    and "ae_parse e buf = Some (JObj [(''message'', JStr m)])" and "\<And>s. ae_path e s \<noteq> None"
  shows "(code \<in> {400, 404} \<longrightarrow> service_call e cv (PatchJobInfo jid req) = None) \<and>
    (code \<in> {404, 409} \<longrightarrow> service_call e cv (PatchJob jid st) = None) \<and>
    (code \<in> {400, 404, 500} \<longrightarrow> device_call e cv rfc3339 dev c = None)"
proof -
  have "\<exists>p. ae_path e s = Some p" for s using assms(4) [of s] by blast
  then obtain enc where enc: "\<And>s. ae_path e s = Some (enc s)" by metis
  show ?thesis
    by (cases c)
      (auto simp: no_error_def sendPatchJobInfo_def sendPatchJob_def sendPatchDevice_def sendPatchDeviceInfo_def
        sendPatchDeviceStatus_def encode_path_def enc send_Key [OF assms(1)] assms(2) error_answers [OF assms(3)]
        decodePatchJobInfoResponse_def decodePatchJobResponse_def decodePatchDeviceResponse_def
        decodePatchDeviceInfoResponse_def decodePatchDeviceStatusResponse_def)
qed

section \<open>Required fields\<close>

text \<open>
  The check of the required fields of a job, with its two bytes of flags and its masks, does what it is
  for: when all members of an object decode, the job is accepted exactly if the object has the members
  \<open>job_id\<close>, \<open>device_id\<close>, \<open>shots\<close>, \<open>job_type\<close>, \<open>job_info\<close> and \<open>status\<close>, and otherwise the error
  names the missing ones in this order.
\<close>

theorem JobsJobDef_required_fields:
  "JobsJobDef_Decode f (JObj ms) s =
    dec_bind (dec_wrap ''decode JobsJobDef''
        (ObjBytes (JobsJobDef_fields f) no_default ms (JobsJobDef_setDefaults s, [0, 0]))) (\<lambda>(s', _).
      case filter (\<lambda>k. k \<notin> fst ` set ms) [''job_id'', ''device_id'', ''shots'', ''job_type'', ''job_info'', ''status''] of
        [] \<Rightarrow> Inr s'
      | missed \<Rightarrow> Inl (RequiredFields missed))"
proof -
  have "required (JobsJobDef_fields f) = [''job_id'', ''device_id'', ''shots'', ''job_type'', ''job_info'', ''status'']"
    by (simp add: required_def JobsJobDef_fields_def)
  then show ?thesis
    unfolding JobsJobDef_Decode_def def_table.decode_spec by (simp add: numeral_2_eq_2)
qed

section \<open>Operators\<close>

definition coefficient_ok :: "jx_formats \<Rightarrow> (string \<Rightarrow> string option) \<Rightarrow> float64 \<Rightarrow> bool" where
  "coefficient_ok f fmt c =
    (case jx_writeFloat64 f c of JNum t \<Rightarrow> scan_number t = Some (t, []) \<and> fmt t \<noteq> None | _ \<Rightarrow> False)"

text \<open>
  The operators of an estimation job arrive as the provider sent them: the converter marshals them into
  the information of the job, and what the job reads from there are the same Pauli strings with the same
  coefficients, in the same order, with the coefficient 0 where there is none.
\<close>

theorem operators_arrive:
  assumes "ConvertFromCloudJob fmt marshal_operator_items now (job_def_of f d) = Ok jd"
    and "wi_Operator (wd_JobInfo d) = Val items"
    and "list_all (\<lambda>i. pred_option (coefficient_ok f fmt) (wo_Coeff i)) items"
  shows "Unmarshal_slice (dec_operator fmt) ([], ''0'') (jd_Info jd) =
    (map (\<lambda>i. (wo_Pauli i, case wo_Coeff i of None \<Rightarrow> ''0'' | Some c \<Rightarrow> json_print (jx_writeFloat64 f c))) items, None)"
proof -
  define enc where "enc = (\<lambda>(pauli, coeff). JObj ((''pauli'', JStr pauli) #
      (case coeff of None \<Rightarrow> [] | Some c \<Rightarrow> [(''coeff'', JNum c)])))"
  have low: "ToLower ''pauli'' = ''pauli''" "ToLower ''coeff'' = ''coeff''" by code_simp+
  define val where "val = (\<lambda>i :: WireOperatorItem. (wo_Pauli i, case wo_Coeff i of None \<Rightarrow> ''0'' | Some c \<Rightarrow> json_print (jx_writeFloat64 f c)))"
  have item: "plain_json (enc (operator_of f i)) \<and> dec_operator fmt (enc (operator_of f i)) = Some (val i)"
    if "i \<in> set items" for i
  proof (cases "wo_Coeff i")
    case None
    then show ?thesis by (simp add: enc_def val_def operator_of_def low)
  next
    case (Some c)
    then have "coefficient_ok f fmt c" using assms(3) that unfolding list_all_iff by (drule_tac bspec) auto
    then obtain t where "jx_writeFloat64 f c = JNum t" "scan_number t = Some (t, [])" "fmt t \<noteq> None"
      by (auto simp: coefficient_ok_def split: json.splits)
    then show ?thesis using Some by (simp add: enc_def val_def operator_of_def low)
  qed
  have "jd_Info jd = json_print (JArr (map (enc \<circ> operator_of f) items))"
    using assms(1,2)
    by (auto simp: ConvertFromCloudJob_def job_def_of_def job_info_of_def marshal_operator_items_def enc_def Let_def
        res_simps comp_def)
  moreover have "json_parse (json_print (JArr (map (enc \<circ> operator_of f) items))) = Some (JArr (map (enc \<circ> operator_of f) items))"
    using item by (intro json_print_parse) (simp add: list_all_iff)
  moreover have "map (unmarshal_elem (dec_operator fmt) ([], ''0'')) (map (enc \<circ> operator_of f) items) = map val items"
    using item by simp
  moreover have "list_all (elem_fits (dec_operator fmt)) (map (enc \<circ> operator_of f) items)"
    using item by (simp add: list_all_iff elem_fits_def)
  ultimately show ?thesis by (simp add: Unmarshal_slice_def val_def)
qed

section \<open>Examples\<close>

definition example_formats :: jx_formats where
  "example_formats =
    \<lparr>jx_writeInt = (\<lambda>n. JNum (nat_str (nat n))),
     jx_readInt = (\<lambda>j. case j of JNum t \<Rightarrow> Some (int (dec_val 0 t)) | _ \<Rightarrow> None),
     jx_writeFloat64 = (\<lambda>x. JNum (nat_str (unat x))),
     jx_readFloat64 = (\<lambda>j. case j of JNum t \<Rightarrow> Some (of_nat (dec_val 0 t)) | _ \<Rightarrow> None),
     jx_writeDateTime = (\<lambda>t. JNum (nat_str (nat t))),
     jx_readDateTime = (\<lambda>j. case j of JNum t \<Rightarrow> Some (int (dec_val 0 t)) | _ \<Rightarrow> None)\<rparr>"

definition example_conv :: wire_conv where
  "example_conv = \<lparr>wc_float64 = ucast, wc_seconds = of_int, wc_error = (\<lambda>_. ''error'')\<rparr>"

definition example_wire_job :: WireJobDef where
  "example_wire_job = zero_JobDef\<lparr>wd_JobID := ''id'', wd_Shots := 100, wd_JobType := SamplingT,
     wd_JobInfo := zero_JobInfo\<lparr>wi_Program := Some [''p'']\<rparr>, wd_Status := SubmittedS\<rparr>"

definition new_type_job :: WireJobDef where
  "new_type_job = example_wire_job\<lparr>wd_JobID := ''new'', wd_JobType := OtherT ''annealing''\<rparr>"

definition example_api :: "json option \<Rightarrow> int \<Rightarrow> api_env" where
  "example_api answer code =
    \<lparr>ae_jx = example_formats, ae_parse = (\<lambda>_. answer), ae_Int = (\<lambda>lo hi n. lo \<le> n \<and> n \<le> hi), ae_Float = (\<lambda>_. True),
     ae_path = Some, ae_ApiKeyAuth = (\<lambda>_. Key ''key''), ae_Do = (\<lambda>_. Some (json_answer code []))\<rparr>"

lemma example_api_simps [simp]:
  "ae_jx (example_api a c) = example_formats" "ae_parse (example_api a c) buf = a"
  "ae_ApiKeyAuth (example_api a c) op = Key ''key''" "ae_Do (example_api a c) r = Some (json_answer c [])"
  "ae_path (example_api a c) s = Some s"
  by (simp_all add: example_api_def)

lemma example_floats [simp]: "float64_ok example_formats x"
  by (simp add: float64_ok_def example_formats_def)

lemma example_job_ok: "job_def_ok example_formats example_wire_job" "job_def_ok example_formats new_type_job"
  by (simp_all add: example_wire_job_def new_type_job_def job_def_ok_def job_info_ok_def zeros int_ok_def
      example_formats_def JobsJobType_of_def)

lemma example_valid: "int_limits (example_api a c)" "valid_job (example_api a c) example_wire_job"
    "\<not> valid_job (example_api a c) new_type_job"
  by (simp_all add: example_api_def int_limits_def valid_job_def valid_info_def example_wire_job_def new_type_job_def zeros)

theorem jobs_all_or_none_witness:
  "\<exists>j. decodeGetJobsResponse (example_api (Some j) 200) (json_answer 200 ''x'') = Inr (ResOK [example_wire_job])"
proof -
  have ok: "list_all (job_def_ok (ae_jx (example_api a c))) [example_wire_job]" for a c
    using example_job_ok by simp
  obtain j where "GetJobsOK_Encode example_formats [example_wire_job] = Some j"
    using encoded_jobs [of example_formats "[example_wire_job]"] example_job_ok by auto
  then have "decodeGetJobsResponse (example_api (Some j) 200) (json_answer 200 ''x'') =
    (if list_all (valid_job (example_api (Some j) 200)) [example_wire_job] then Inr (ResOK [example_wire_job])
     else Inl (ValidateResponse (the (GetJobsOK_Validate (example_api (Some j) 200) [example_wire_job]))))"
    by (intro jobs_all_or_none [of _ _ j] ok example_valid) simp_all
  then show ?thesis using example_valid by auto
qed

theorem fetched_jobs_valid_witness:
  "\<exists>j. sendGetJobs (example_api (Some j) 200) ''dev'' None None None = Inr (ResOK [example_wire_job]) \<and>
    valid_job (example_api (Some j) 200) example_wire_job"
proof -
  have ok: "list_all (job_def_ok (ae_jx (example_api a c))) [example_wire_job]" for a c
    using example_job_ok by simp
  obtain j where j: "GetJobsOK_Encode example_formats [example_wire_job] = Some j"
    using encoded_jobs [of example_formats "[example_wire_job]"] example_job_ok by auto
  let ?e = "example_api (Some j) 200"
  have "decodeGetJobsResponse ?e (json_answer 200 []) = Inr (ResOK [example_wire_job])"
    using decode_encoded_jobs [of ?e "[example_wire_job]" j "[]"] ok j example_valid [of "Some j" 200]
      GetJobsOK_Validate_None [of ?e "[example_wire_job]"]
    by simp
  then have "sendGetJobs ?e ''dev'' None None None = Inr (ResOK [example_wire_job])"
    by (simp add: sendGetJobs_def send_Key)
  with fetched_jobs_valid [OF example_valid(1) this, of example_wire_job] show ?thesis by auto
qed

theorem invalid_job_blocks_poll_witness:
  "\<exists>j er. request (api_poll (example_api (Some j) 200) example_conv example_poll)
      \<lparr>pc_count = 10, pc_endpoint = [], pc_edgeName = [], pc_deviceName = []\<rparr> = Err er"
proof -
  have ok: "list_all (job_def_ok (ae_jx (example_api a c))) [example_wire_job, new_type_job]" for a c
    using example_job_ok by simp
  obtain j where j: "GetJobsOK_Encode example_formats [example_wire_job, new_type_job] = Some j"
    using encoded_jobs [of example_formats "[example_wire_job, new_type_job]"] example_job_ok by auto
  let ?e = "example_api (Some j) 200"
  have "\<exists>er. request (api_poll ?e example_conv example_poll)
      \<lparr>pc_count = 10, pc_endpoint = [], pc_edgeName = [], pc_deviceName = []\<rparr> = Err er"
    by (rule invalid_job_blocks_poll [OF example_valid(1) ok, of _ _ j "[]" "''key''" new_type_job])
      (use j example_valid in simp_all)
  then show ?thesis by blast
qed

theorem report_round_trip_witness:
  "\<exists>cs err jd jid req j. ServiceDB_Update \<lparr>sv_NewClient = (\<lambda>_. None), sv_call = (\<lambda>_. None), sv_fmt = Some\<rparr>
      (example_job\<lparr>jd_Status := SUCCEEDED, jd_UseJobInfoUpdate := True, jd_JobType := SAMPLING_JOB\<rparr>) = Ret (cs, err) jd \<and>
    PatchJobInfo jid req \<in> set cs \<and>
    JobsUpdateJobInfoRequest_Decode example_formats j zero_UpdateJobInfoRequest = Inr (wire_request example_conv req)"
proof -
  let ?e = "\<lparr>sv_NewClient = (\<lambda>_. None), sv_call = (\<lambda>_. None), sv_fmt = Some\<rparr> :: db_env"
  let ?jd = "example_job\<lparr>jd_Status := SUCCEEDED, jd_UseJobInfoUpdate := True, jd_JobType := SAMPLING_JOB\<rparr>"
  obtain cs err jd req where u: "ServiceDB_Update ?e ?jd = Ret (cs, err) jd" "PatchJobInfo (jd_ID ?jd) req \<in> set cs"
  proof -
    obtain r info tc where "jd_UseJobInfoUpdate ?jd" "jd_Result ?jd = Some r" "rs_TranspilerInfo r = Some info"
        "jd_Transpiler ?jd = Some tc"
      by (simp add: example_job_def NewJobData_def NewResult_def)
    from ServiceDB_Update_sends_info [OF this, of ?e] that show ?thesis by blast
  qed
  have "report_floats_ok (ae_jx (example_api None 200)) example_conv req"
    by (cases "up_ExecutionTime req"; cases "up_Result req")
      (auto simp: report_floats_ok_def optnil.pred_set)
  from report_round_trip [OF u this] u show ?thesis by fastforce
qed

theorem rejected_update_counts_as_delivered_witness:
  "device_call (example_api (Some (JObj [(''message'', JStr ''no'')])) 500) example_conv (\<lambda>_. 0) ''dev''
      (PatchDeviceStatus ''available'') = None"
  using rejected_update_counts_as_delivered [of "example_api (Some (JObj [(''message'', JStr ''no'')])) 500" "''key''" 500
      "[]" "''no''" example_conv] by (simp del: device_call.simps)

theorem operators_arrive_witness:
  "\<exists>jd. ConvertFromCloudJob Some marshal_operator_items 0 (job_def_of example_formats
      (example_wire_job\<lparr>wd_JobInfo := (wd_JobInfo example_wire_job)\<lparr>wi_Operator :=
        Val [\<lparr>wo_Pauli = ''X 0'', wo_Coeff = Some 2\<rparr>, \<lparr>wo_Pauli = ''Z 1'', wo_Coeff = None\<rparr>]\<rparr>\<rparr>)) = Ok jd \<and>
    fst (Unmarshal_slice (dec_operator Some) ([], ''0'') (jd_Info jd)) = [(''X 0'', ''2''), (''Z 1'', ''0'')]"
proof -
  let ?items = "[\<lparr>wo_Pauli = ''X 0'', wo_Coeff = Some 2\<rparr>, \<lparr>wo_Pauli = ''Z 1'', wo_Coeff = None\<rparr>]"
  let ?d = "example_wire_job\<lparr>wd_JobInfo := (wd_JobInfo example_wire_job)\<lparr>wi_Operator := Val ?items\<rparr>\<rparr>"
  obtain jd where jd: "ConvertFromCloudJob Some marshal_operator_items 0 (job_def_of example_formats ?d) = Ok jd"
    by (simp add: ConvertFromCloudJob_def job_def_of_def job_info_of_def example_wire_job_def zeros Let_def)
  have "list_all (\<lambda>i. pred_option (coefficient_ok example_formats Some) (wo_Coeff i)) ?items"
    by (simp add: coefficient_ok_def example_formats_def)
  moreover have "nat_str 2 = ''2''" by code_simp
  ultimately show ?thesis
    using operators_arrive [OF jd, of ?items] jd by (simp add: example_formats_def)
qed

end
