(* ===== verification/Api_Exchange.thy ===== *)
theory Api_Exchange
  imports Api_Server Api_Flow
begin

text \<open>
  The client and the server of the API connected: what the generated client sends, the generated server
  reads, and what a handler returns, the caller gets. The contract of the two halves of an operation is the
  locale \<open>api_operation\<close>, interpreted for every operation with a path parameter.

  The connection (\<open>wire\<close>) makes the URL that the server sees from the parts of a path, writes a JSON value
  as text, parses the content type of an answer and builds a multipart body. \<open>p\<close> has the packages of the
  server's process. The server parses the path of a request with \<open>net/url\<close> (\<open>Go_Url\<close>); the escaping of a path
  parameter by the client and the normalisation of escaped paths in the router are ogen's package \<open>uri\<close>,
  an argument with named laws.
\<close>

record wire =
  tw_url :: "string list \<Rightarrow> server_url"
  tw_write :: "json option \<Rightarrow> string"
  tw_media :: "string \<Rightarrow> string option"
  tw_multipart :: "string \<Rightarrow> string \<Rightarrow> string \<times> string"

definition body_text :: "wire \<Rightarrow> body option \<Rightarrow> (string \<times> string) option" where
  "body_text w b =
    (case b of
       None \<Rightarrow> None
     | Some (JsonBody j) \<Rightarrow> Some (''application/json'', tw_write w j)
     | Some (MultipartBody field content) \<Rightarrow> Some (tw_multipart w field content))"

definition delivered :: "wire \<Rightarrow> http_request \<Rightarrow> server_request" where
  "delivered w r =
    \<lparr>hq_Method = rq_Method r, hq_URL = tw_url w (rq_Path r),
     hq_Query = map (\<lambda>(k, v). (k, Some v)) (rq_Query r), hq_ApiKey = rq_ApiKey r,
     hq_ContentType = map_option fst (body_text w (rq_Body r)),
     hq_ContentLength = (case body_text w (rq_Body r) of None \<Rightarrow> 0 | Some (ct, buf) \<Rightarrow> int (length buf)),
     hq_Body = Some (case body_text w (rq_Body r) of None \<Rightarrow> [] | Some (ct, buf) \<Rightarrow> buf)\<rparr>"

definition received :: "wire \<Rightarrow> server_response \<Rightarrow> http_response" where
  "received w resp =
    \<lparr>rp_StatusCode = hs_StatusCode resp, rp_MediaType = tw_media w (hs_ContentType resp),
     rp_Body = Some (case hs_Body resp of JsonReply j \<Rightarrow> tw_write w j | TextReply s \<Rightarrow> s)\<rparr>"

definition connected :: "api_env \<Rightarrow> api_env \<Rightarrow> server \<Rightarrow> wire \<Rightarrow> bool" where
  "connected e p sv w \<longleftrightarrow> (\<forall>r. ae_Do e r = Some (received w (ServeHTTP p sv (delivered w r))))"

section \<open>What the packages promise\<close>

text \<open>
  A JSON value is read back from its text. The path that the client has sent, after the prefix of the server, is
  parsed by the server's \<open>net/url\<close>; for the path of the request at hand. A path parameter is one segment,
  escaped so that unescaping gives the value back. \<open>NormalizeEscapedPath\<close> leaves text without escapes alone and
  rewrites escapes in place without changing what they stand for; an escaped slash stays escaped. The key of
  the client is accepted.
\<close>

definition carries :: "api_env \<Rightarrow> wire \<Rightarrow> json \<Rightarrow> bool" where
  "carries e w j \<longleftrightarrow> tw_write w (Some j) \<noteq> [] \<and> ae_parse e (tw_write w (Some j)) = Some j"

definition media_arrive :: "server \<Rightarrow> bool" where
  "media_arrive sv \<longleftrightarrow> se_ParseMediaType sv ''application/json'' = Some ''application/json''"

definition normalizes :: "url_env \<Rightarrow> bool" where
  "normalizes ue \<longleftrightarrow> (\<forall>a q c x. plain_path a \<longrightarrow> plain_path c \<longrightarrow> CHR ''/'' \<notin> set q \<longrightarrow> PathUnescape q = Some x \<longrightarrow>
    (\<exists>q'. ue_Normalize ue (a @ q @ c) = Some (a @ q' @ c) \<and> CHR ''/'' \<notin> set q' \<and> PathUnescape q' = Some x))"

definition server_urls :: "server \<Rightarrow> bool" where
  "server_urls sv \<longleftrightarrow> plain_path (se_Prefix sv) \<and> normalizes (se_urls sv)"

definition url_arrives :: "server \<Rightarrow> wire \<Rightarrow> string list \<Rightarrow> bool" where
  "url_arrives sv w parts \<longleftrightarrow>
    setPath (se_Prefix sv @ concat parts) = Some (su_Path (tw_url w parts), su_RawPath (tw_url w parts))"

definition id_arrives :: "api_env \<Rightarrow> server \<Rightarrow> wire \<Rightarrow> (string \<Rightarrow> string list) \<Rightarrow> string \<Rightarrow> bool" where
  "id_arrives e sv w parts x \<longleftrightarrow>
    x \<noteq> [] \<and> se_PathValue sv x = Some x \<and>
    (\<exists>q. ae_path e x = Some q \<and> CHR ''/'' \<notin> set q \<and> PathUnescape q = Some x \<and> url_arrives sv w (parts q))"

definition key_accepted :: "api_env \<Rightarrow> server \<Rightarrow> string \<Rightarrow> bool" where
  "key_accepted e sv operation \<longleftrightarrow>
    (\<exists>k. ae_ApiKeyAuth e operation = Key k \<and> k \<noteq> [] \<and> se_HandleApiKeyAuth sv operation k = Key ())"

section \<open>Requests arrive\<close>

lemma cutPrefix_append [simp]: "cutPrefix prefix (prefix @ path) = Some path"
  by (simp add: cutPrefix_def)

lemma secured_Key:
  "hq_ApiKey r \<noteq> [] \<Longrightarrow> se_HandleApiKeyAuth sv operation (hq_ApiKey r) = Key () \<Longrightarrow> secured sv operation r = Inr ()"
  by (simp add: secured_def server_securityApiKeyAuth_def)

lemma ServeHTTP_found:
  assumes "fst (request_path (se_urls sv) (tw_url w (rq_Path r))) = se_Prefix sv @ path"
    and "lookup_route routes (segments path) = Some (rq_Method r, operation, args)"
  shows "ServeHTTP p sv (delivered w r) =
    dispatch p sv operation args (snd (request_path (se_urls sv) (tw_url w (rq_Path r)))) (delivered w r)"
proof -
  obtain escaped where esc: "request_path (se_urls sv) (tw_url w (rq_Path r)) = (se_Prefix sv @ path, escaped)"
    using assms(1) by (metis prod.collapse)
  have "lookup_route routes (segments []) = None" by (simp add: routes_def)
  then have "path \<noteq> []" using assms(2) by auto
  then have "route (se_urls sv) (se_Prefix sv) (rq_Method r) (tw_url w (rq_Path r)) = (Handle operation args, escaped)"
    using assms(2) esc by (simp add: route_def serve_root_spec serve_method_def)
  then show ?thesis by (simp add: ServeHTTP_def delivered_def esc)
qed

lemma plain_path_arrives:
  assumes "server_urls sv" and "url_arrives sv w parts" and "plain_path (concat parts)"
  shows "request_path (se_urls sv) (tw_url w parts) = (se_Prefix sv @ concat parts, False)"
  using assms setPath_plain [of "se_Prefix sv @ concat parts"]
  by (auto simp: server_urls_def url_arrives_def request_path_def)

text \<open>
  The router sees the path with one segment for the parameter: escaped, or already unescaped by \<open>net/url\<close>.
\<close>

lemma segment_arrives:
  assumes "server_urls sv" and "url_arrives sv w (before # q # after)" and "plain_path before" and "plain_path (concat after)"
    and "CHR ''/'' \<notin> set q" and "PathUnescape q = Some x"
  obtains q' where "fst (request_path (se_urls sv) (tw_url w (before # q # after))) = se_Prefix sv @ before @ q' @ concat after"
    and "CHR ''/'' \<notin> set q'"
    and "(if snd (request_path (se_urls sv) (tw_url w (before # q # after))) then PathUnescape q' else Some q') = Some x"
proof -
  let ?a = "se_Prefix sv @ before" and ?c = "concat after" and ?u = "tw_url w (before # q # after)"
  have a: "plain_path ?a" using assms(1,3) by (simp add: server_urls_def)
  consider "su_RawPath ?u = []" "CHR ''/'' \<notin> set x" "su_Path ?u = ?a @ x @ ?c"
    | "su_RawPath ?u = ?a @ q @ ?c" "su_RawPath ?u \<noteq> []"
    using setPath_segment [OF a assms(4-6)] assms(2) by (cases "su_RawPath ?u = []") (auto simp: url_arrives_def)
  then show ?thesis
  proof cases
    case 1
    then show ?thesis using that [of x] by (simp add: request_path_def)
  next
    case 2
    obtain q' where q': "ue_Normalize (se_urls sv) (?a @ q @ ?c) = Some (?a @ q' @ ?c)" "CHR ''/'' \<notin> set q'" "PathUnescape q' = Some x"
      using assms(1) a assms(4-6) unfolding server_urls_def normalizes_def by blast
    then have "request_path (se_urls sv) ?u = (?a @ q' @ ?c, CHR ''%'' \<in> set q')"
      using 2 plain_path_percent [OF a] plain_path_percent [OF assms(4)] by (simp add: request_path_def)
    then show ?thesis using that [of q'] q' PathUnescape_plain [of q'] by auto
  qed
qed

lemma request_absent: "request_body sv expected body (delivered w (r\<lparr>rq_Body := None\<rparr>)) = Inr None"
  by (simp add: request_body_def delivered_def body_text_def)

lemma json_request_arrives:
  assumes "media_arrive sv" and "round_trips enc dec v" and "\<And>j. enc v = Some j \<Longrightarrow> carries p w j"
    and "\<And>r. body r = json_content p dec r \<or> (\<exists>val. val v = None \<and> body r = validated_request val (json_content p dec r))"
  shows "request_body sv ''application/json'' body (delivered w (r\<lparr>rq_Body := Some (JsonBody (enc v))\<rparr>)) = Inr (Some v)"
proof -
  obtain j where j: "enc v = Some j" "dec j = Inr v" using assms(2) by (auto simp: round_trips_iff)
  let ?r = "delivered w (r\<lparr>rq_Body := Some (JsonBody (enc v))\<rparr>)"
  have "json_content p dec ?r = Inr (Some v)"
    using assms(3) j by (simp add: json_content_def delivered_def body_text_def carries_def)
  then have "body ?r = Inr (Some v)"
    using assms(4) [of ?r] by (auto simp: validated_request_def if_set_def)
  then show ?thesis
    using assms(1,3) j by (simp add: request_body_def delivered_def body_text_def media_arrive_def carries_def)
qed

section \<open>Operations\<close>

locale api_operation =
  fixes operation m name before :: string and after :: "string list"
    and enc_body :: "api_env \<Rightarrow> 'q \<Rightarrow> body option" and dec_body :: "api_env \<Rightarrow> server \<Rightarrow> server_request \<Rightarrow> request_error + 'q"
    and handler :: "Handler \<Rightarrow> 'q \<Rightarrow> string \<Rightarrow> string + 'a api_res"
    and enc_res :: "api_env \<Rightarrow> 'a api_res \<Rightarrow> server_error + server_response"
    and dec_res :: "api_env \<Rightarrow> http_response \<Rightarrow> api_error + 'a api_res"
    and ok_req :: "api_env \<Rightarrow> api_env \<Rightarrow> server \<Rightarrow> wire \<Rightarrow> 'q \<Rightarrow> bool"
    and ok_res :: "api_env \<Rightarrow> api_env \<Rightarrow> wire \<Rightarrow> 'a api_res \<Rightarrow> bool"
  assumes routed: "CHR ''/'' \<notin> set q \<Longrightarrow>
      lookup_route routes (segments (concat (before # q # after))) = Some (m, operation, [q])"
    and plain: "plain_path before" "plain_path (concat after)"
    and handles: "dispatch p sv operation args escaped r = answer sv
      (or_else (secured sv operation r) (\<lambda>_.
       or_else (path_param sv name (args ! 0) escaped) (\<lambda>x.
       or_else (decoded_request (dec_body p sv r)) (\<lambda>req.
       or_else (called (handler (operations sv) req x)) (enc_res p)))))"
    and request_round: "media_arrive sv \<Longrightarrow> ok_req e p sv w req \<Longrightarrow>
      dec_body p sv (delivered w (hr\<lparr>rq_Body := enc_body e req\<rparr>)) = Inr req"
    and response_round: "ok_res e p w res \<Longrightarrow> enc_res p res = Inr resp \<Longrightarrow>
      dec_res e (received w resp) = Inr res"
begin

lemma reaches_handler:
  assumes "connected e p sv w" and "server_urls sv" and "media_arrive sv" and "id_arrives e sv w (\<lambda>q. before # q # after) x"
    and "key_accepted e sv operation" and "ok_req e p sv w req"
  shows "api_bind (encode_path e x) (\<lambda>q. send e operation (new_request m (before # q # after) [] (enc_body e req)) (dec_res e)) =
    dec_res e (received w (answer sv (or_else (called (handler (operations sv) req x)) (enc_res p))))"
proof -
  obtain k where k: "ae_ApiKeyAuth e operation = Key k" "k \<noteq> []" "se_HandleApiKeyAuth sv operation k = Key ()"
    using assms(5) by (auto simp: key_accepted_def)
  obtain q where q: "ae_path e x = Some q" "CHR ''/'' \<notin> set q" "PathUnescape q = Some x"
      "url_arrives sv w (before # q # after)"
    using assms(4) by (auto simp: id_arrives_def)
  have x: "x \<noteq> []" "se_PathValue sv x = Some x" using assms(4) by (auto simp: id_arrives_def)
  let ?r = "(new_request m (before # q # after) [] (enc_body e req))\<lparr>rq_ApiKey := k\<rparr>"
  let ?esc = "snd (request_path (se_urls sv) (tw_url w (before # q # after)))"
  obtain q' where q': "fst (request_path (se_urls sv) (tw_url w (before # q # after))) = se_Prefix sv @ concat (before # q' # after)"
      "CHR ''/'' \<notin> set q'" "(if ?esc then PathUnescape q' else Some q') = Some x"
    using segment_arrives [OF assms(2) q(4) plain q(2,3)] by auto
  have "ServeHTTP p sv (delivered w ?r) = dispatch p sv operation [q'] ?esc (delivered w ?r)"
    using ServeHTTP_found [of sv w ?r "concat (before # q' # after)" operation "[q']" p] q'(1) routed [OF q'(2)]
    by (simp add: new_request_def)
  moreover have "secured sv operation (delivered w ?r) = Inr ()"
    using k by (intro secured_Key) (simp_all add: delivered_def)
  moreover have "path_param sv name q' ?esc = Inr x"
    using q'(3) x by (simp add: path_param_def)
  moreover have "dec_body p sv (delivered w ?r) = Inr req"
    using request_round [OF assms(3,6), of ?r] by (simp add: new_request_def)
  ultimately have "ServeHTTP p sv (delivered w ?r) =
      answer sv (or_else (called (handler (operations sv) req x)) (enc_res p))"
    by (simp add: handles decoded_request_def)
  then show ?thesis
    using assms(1) q(1) k(1) by (simp add: encode_path_def send_Key connected_def)
qed

lemma returns_answer:
  assumes "connected e p sv w" and "server_urls sv" and "media_arrive sv" and "id_arrives e sv w (\<lambda>q. before # q # after) x"
    and "key_accepted e sv operation" and "ok_req e p sv w req"
    and "handler (operations sv) req x = Inr res" and "enc_res p res = Inr resp" and "ok_res e p w res"
  shows "api_bind (encode_path e x) (\<lambda>q. send e operation (new_request m (before # q # after) [] (enc_body e req)) (dec_res e)) = Inr res"
  unfolding reaches_handler [OF assms(1-6)]
  using response_round [OF assms(9,8)] assms(7,8) by (simp add: called_def answer_def)

end

section \<open>The operations of the API\<close>

definition sent_json ::
  "(jx_formats \<Rightarrow> 'q \<Rightarrow> json option) \<Rightarrow> (jx_formats \<Rightarrow> 'q \<Rightarrow> bool) \<Rightarrow> (api_env \<Rightarrow> 'q \<Rightarrow> invalid option) \<Rightarrow>
    api_env \<Rightarrow> api_env \<Rightarrow> server \<Rightarrow> wire \<Rightarrow> 'q option \<Rightarrow> bool" where
  "sent_json enc good val e p sv w req \<longleftrightarrow>
    ae_jx p = ae_jx e \<and>
    pred_option (\<lambda>v. good (ae_jx e) v \<and> val p v = None \<and> (\<forall>j. enc (ae_jx e) v = Some j \<longrightarrow> carries p w j)) req"

definition json_arrives :: "api_env \<Rightarrow> wire \<Rightarrow> bool" where
  "json_arrives e w \<longleftrightarrow>
    tw_media w ''application/json; charset=utf-8'' = Some ''application/json'' \<and>
    (\<forall>m. carries e w (JObj [(''message'', JStr m)]))"

lemma message_reply:
  assumes "json_arrives e w" and "json_reply code (Obj_Encode [(''message'', Str_Encode m)]) = Inr resp"
  shows "\<exists>buf. received w resp = json_answer code buf \<and> ae_parse e buf = Some (JObj [(''message'', JStr m)])"
  using assms
  by (auto simp: json_reply_def received_def json_arrives_def carries_def Obj_Encode_def Str_Encode_def)

lemma ok_answers:
  assumes "ae_parse e buf = Some (JObj [(''message'', JStr m)])"
  shows "as_res c (json_body e DevicesDeviceDataUpdateResponse_Decode (json_answer code buf)) = Inr (c m)"
    "as_res c (json_body e DevicesUpdateDeviceResponse_Decode (json_answer code buf)) = Inr (c m)"
    "as_res c (json_body e JobsJobStatusUpdateResponse_Decode (json_answer code buf)) = Inr (c m)"
    "as_res c (json_body e JobsUpdateJobInfoResponse_Decode (json_answer code buf)) = Inr (c m)"
    "as_res c (json_body e JobsUpdateJobTranspilerInfoResponse_Decode (json_answer code buf)) = Inr (c m)"
    "as_res c (json_body e JobsUploadSselogResponse_Decode (json_answer code buf)) = Inr (c m)"
  using assms message_Decode
  by (simp_all add: as_res_def json_body_def media_type_def read_body_def DevicesDeviceDataUpdateResponse_Decode_def
      DevicesUpdateDeviceResponse_Decode_def JobsJobStatusUpdateResponse_Decode_def JobsUpdateJobInfoResponse_Decode_def
      JobsUpdateJobTranspilerInfoResponse_Decode_def JobsUploadSselogResponse_Decode_def)

lemma sent_request_arrives:
  assumes "media_arrive sv" and "sent_json enc good val e p sv w req"
    and "\<And>f v. good f v \<Longrightarrow> round_trips (enc f) (dec f) v"
    and "\<And>r. body r = json_content p (dec (ae_jx p)) r \<or> body r = validated_request (val p) (json_content p (dec (ae_jx p)) r)"
  shows "request_body sv ''application/json'' body (delivered w (hr\<lparr>rq_Body := json_request (enc (ae_jx e)) req\<rparr>)) = Inr req"
proof (cases req)
  case None
  then show ?thesis by (simp add: json_request_def request_absent)
next
  case (Some v)
  then have "round_trips (enc (ae_jx e)) (dec (ae_jx e)) v" "val p v = None" "ae_jx p = ae_jx e"
      "\<And>j. enc (ae_jx e) v = Some j \<Longrightarrow> carries p w j"
    using assms(2,3) by (auto simp: sent_json_def)
  then show ?thesis
    using json_request_arrives [OF assms(1), of "enc (ae_jx e)" "dec (ae_jx e)" v p w body hr] assms(4) Some
    by (force simp: json_request_def)
qed

subsection \<open>Small requests\<close>

lemma DevicesDeviceStatusUpdate_round:
  "round_trips DevicesDeviceStatusUpdate_Encode (\<lambda>j. DevicesDeviceStatusUpdate_Decode j []) v"
  by (rule struct_round, rule DevicesDeviceStatusUpdate_Encode_def, unfold DevicesDeviceStatusUpdate_Decode_def, rule refl,
      (rule reads_rules | (simp add: struct_eval; fail))+)

lemma JobsJobStatusUpdate_round: "round_trips JobsJobStatusUpdate_Encode (\<lambda>j. JobsJobStatusUpdate_Decode j []) v"
  by (rule struct_round, rule JobsJobStatusUpdate_Encode_def, unfold JobsJobStatusUpdate_Decode_def, rule refl,
      (rule reads_rules | (simp add: struct_eval; fail))+)

lemma DevicesDeviceInfoUpdate_round:
  "pred_optnil (datetime_ok f) (wv_CalibratedAt v) \<Longrightarrow>
    round_trips (DevicesDeviceInfoUpdate_Encode f)
      (\<lambda>j. DevicesDeviceInfoUpdate_Decode f j \<lparr>wv_DeviceInfo = Some [], wv_CalibratedAt = Unset\<rparr>) v"
  by (rule struct_round, rule DevicesDeviceInfoUpdate_Encode_def, unfold DevicesDeviceInfoUpdate_Decode_def, rule refl,
      (rule reads_rules | (simp add: struct_eval; fail))+)

lemma DevicesUpdateDeviceRequest_round:
  "pred_optnil (int_ok f) v \<Longrightarrow>
    round_trips (DevicesUpdateDeviceRequest_Encode f) (\<lambda>j. DevicesUpdateDeviceRequest_Decode f j Unset) v"
  by (rule struct_round, rule DevicesUpdateDeviceRequest_Encode_def, unfold DevicesUpdateDeviceRequest_Decode_def, rule refl,
      (rule reads_rules | (simp add: struct_eval; fail))+)

subsection \<open>The four laws for each operation\<close>

lemma segments_roots:
  "segments (CHR ''/'' # CHR ''j'' # CHR ''o'' # CHR ''b'' # CHR ''s'' # CHR ''/'' # t) = [] # ''jobs'' # segments t"
  "segments (CHR ''/'' # CHR ''d'' # CHR ''e'' # CHR ''v'' # CHR ''i'' # CHR ''c'' # CHR ''e'' # CHR ''s'' # CHR ''/'' # t) =
    [] # ''devices'' # segments t"
  using segments_slash [of "[]"] segments_slash [of "''jobs''" t] segments_slash [of "''devices''" t]
  by (simp_all del: segments.simps segments_slash)

lemma operation_routes:
  assumes "CHR ''/'' \<notin> set q"
  shows
    "lookup_route routes (segments (concat [''/devices/'', q])) = Some (''PATCH'', ''PatchDevice'', [q])"
    "lookup_route routes (segments (concat [''/devices/'', q, ''/device_info''])) = Some (''PATCH'', ''PatchDeviceInfo'', [q])"
    "lookup_route routes (segments (concat [''/devices/'', q, ''/status''])) = Some (''PATCH'', ''PatchDeviceStatus'', [q])"
    "lookup_route routes (segments (concat [''/jobs/'', q, ''/status''])) = Some (''PATCH'', ''PatchJob'', [q])"
    "lookup_route routes (segments (concat [''/jobs/'', q, ''/job_info''])) = Some (''PATCH'', ''PatchJobInfo'', [q])"
    "lookup_route routes (segments (concat [''/jobs/'', q, ''/sselog''])) = Some (''PATCH'', ''PatchSselog'', [q])"
    "lookup_route routes (segments (concat [''/jobs/'', q, ''/transpiler_info''])) = Some (''PUT'', ''UpdateJobTranspilerInfo'', [q])"
    "lookup_route routes (segments (concat [''/jobs/'', q])) = Some (''GET'', ''GetJob'', [q])"
    "lookup_route routes (segments (concat [''/jobs/'', q, ''/ssesrc''])) = Some (''GET'', ''GetSsesrc'', [q])"
  using assms by (simp_all add: routes_def segments_roots del: segments.simps)

lemma operation_plain:
  "plain_path ''/devices/''" "plain_path ''/jobs/''" "plain_path (concat [])" "plain_path (concat [''/device_info''])"
  "plain_path (concat [''/status''])" "plain_path (concat [''/job_info''])" "plain_path (concat [''/sselog''])"
  "plain_path (concat [''/transpiler_info''])" "plain_path (concat [''/ssesrc''])" "plain_path (concat [''/jobs''])"
  by code_simp+

lemma operation_handlers:
  "dispatch p sv ''PatchDevice'' args escaped r = answer sv
    (or_else (secured sv ''PatchDevice'' r) (\<lambda>_. or_else (path_param sv ''device_id'' (args ! 0) escaped) (\<lambda>x.
     or_else (decoded_request (decodePatchDeviceRequest p sv r)) (\<lambda>req.
     or_else (called (hn_PatchDevice (operations sv) req x)) encodePatchDeviceResponse))))"
  "dispatch p sv ''PatchDeviceInfo'' args escaped r = answer sv
    (or_else (secured sv ''PatchDeviceInfo'' r) (\<lambda>_. or_else (path_param sv ''device_id'' (args ! 0) escaped) (\<lambda>x.
     or_else (decoded_request (decodePatchDeviceInfoRequest p sv r)) (\<lambda>req.
     or_else (called (hn_PatchDeviceInfo (operations sv) req x)) encodePatchDeviceInfoResponse))))"
  "dispatch p sv ''PatchDeviceStatus'' args escaped r = answer sv
    (or_else (secured sv ''PatchDeviceStatus'' r) (\<lambda>_. or_else (path_param sv ''device_id'' (args ! 0) escaped) (\<lambda>x.
     or_else (decoded_request (decodePatchDeviceStatusRequest p sv r)) (\<lambda>req.
     or_else (called (hn_PatchDeviceStatus (operations sv) req x)) encodePatchDeviceStatusResponse))))"
  "dispatch p sv ''PatchJob'' args escaped r = answer sv
    (or_else (secured sv ''PatchJob'' r) (\<lambda>_. or_else (path_param sv ''job_id'' (args ! 0) escaped) (\<lambda>x.
     or_else (decoded_request (decodePatchJobRequest p sv r)) (\<lambda>req.
     or_else (called (hn_PatchJob (operations sv) req x)) encodePatchJobResponse))))"
  "dispatch p sv ''PatchJobInfo'' args escaped r = answer sv
    (or_else (secured sv ''PatchJobInfo'' r) (\<lambda>_. or_else (path_param sv ''job_id'' (args ! 0) escaped) (\<lambda>x.
     or_else (decoded_request (decodePatchJobInfoRequest p sv r)) (\<lambda>req.
     or_else (called (hn_PatchJobInfo (operations sv) req x)) encodePatchJobInfoResponse))))"
  "dispatch p sv ''PatchSselog'' args escaped r = answer sv
    (or_else (secured sv ''PatchSselog'' r) (\<lambda>_. or_else (path_param sv ''job_id'' (args ! 0) escaped) (\<lambda>x.
     or_else (decoded_request (decodePatchSselogRequest sv r)) (\<lambda>req.
     or_else (called (hn_PatchSselog (operations sv) req x)) encodePatchSselogResponse))))"
  "dispatch p sv ''UpdateJobTranspilerInfo'' args escaped r = answer sv
    (or_else (secured sv ''UpdateJobTranspilerInfo'' r) (\<lambda>_. or_else (path_param sv ''job_id'' (args ! 0) escaped) (\<lambda>x.
     or_else (decoded_request (decodeUpdateJobTranspilerInfoRequest p sv r)) (\<lambda>req.
     or_else (called (hn_UpdateJobTranspilerInfo (operations sv) req x)) encodeUpdateJobTranspilerInfoResponse))))"
  "dispatch p sv ''GetJob'' args escaped r = answer sv
    (or_else (secured sv ''GetJob'' r) (\<lambda>_. or_else (path_param sv ''job_id'' (args ! 0) escaped) (\<lambda>x.
     or_else (called (hn_GetJob (operations sv) x)) (encodeGetJobResponse (ae_jx p)))))"
  "dispatch p sv ''GetSsesrc'' args escaped r = answer sv
    (or_else (secured sv ''GetSsesrc'' r) (\<lambda>_. or_else (path_param sv ''job_id'' (args ! 0) escaped) (\<lambda>x.
     or_else (called (hn_GetSsesrc (operations sv) x)) encodeGetSsesrcResponse)))"
  by (simp_all add: dispatch_def path_params handlePatchDeviceRequest_def handlePatchDeviceInfoRequest_def
      handlePatchDeviceStatusRequest_def handlePatchJobRequest_def handlePatchJobInfoRequest_def
      handlePatchSselogRequest_def handleUpdateJobTranspilerInfoRequest_def handleGetJobRequest_def
      handleGetSsesrcRequest_def)

lemma update_responses:
  assumes "json_arrives e w"
  shows
    "encodePatchDeviceResponse res = Inr resp \<Longrightarrow> decodePatchDeviceResponse e (received w resp) = Inr res"
    "encodePatchDeviceInfoResponse res = Inr resp \<Longrightarrow> decodePatchDeviceInfoResponse e (received w resp) = Inr res"
    "encodePatchDeviceStatusResponse res = Inr resp \<Longrightarrow> decodePatchDeviceStatusResponse e (received w resp) = Inr res"
    "encodePatchJobResponse res = Inr resp \<Longrightarrow> decodePatchJobResponse e (received w resp) = Inr res"
    "encodePatchJobInfoResponse res = Inr resp \<Longrightarrow> decodePatchJobInfoResponse e (received w resp) = Inr res"
    "encodePatchSselogResponse res = Inr resp \<Longrightarrow> decodePatchSselogResponse e (received w resp) = Inr res"
    "encodeUpdateJobTranspilerInfoResponse res = Inr resp \<Longrightarrow> decodeUpdateJobTranspilerInfoResponse e (received w resp) = Inr res"
  by (cases res; auto simp: message_Encodes error_answers ok_answers decodePatchDeviceResponse_def
        decodePatchDeviceInfoResponse_def decodePatchDeviceStatusResponse_def decodePatchJobResponse_def
        decodePatchJobInfoResponse_def decodePatchSselogResponse_def decodeUpdateJobTranspilerInfoResponse_def
        dest!: message_reply [OF assms])+

definition multipart_arrives :: "server \<Rightarrow> wire \<Rightarrow> string \<Rightarrow> bool" where
  "multipart_arrives sv w content \<longleftrightarrow>
    (let (ct, buf) = tw_multipart w ''file'' content in
     buf \<noteq> [] \<and> se_ParseMediaType sv ct = Some ''multipart/form-data'' \<and>
     (\<forall>r. hq_ContentType r = Some ct \<longrightarrow> hq_Body r = Some buf \<longrightarrow> se_MultipartForm sv r = Some [(''file'', [Some content])]))"

abbreviation "sent_device \<equiv> sent_json DevicesUpdateDeviceRequest_Encode (\<lambda>f. pred_optnil (int_ok f)) (\<lambda>_ _. None)"

abbreviation "sent_device_info \<equiv>
  sent_json DevicesDeviceInfoUpdate_Encode (\<lambda>f v. pred_optnil (datetime_ok f) (wv_CalibratedAt v)) (\<lambda>_ _. None)"

abbreviation "sent_device_status \<equiv>
  sent_json (\<lambda>_. DevicesDeviceStatusUpdate_Encode) (\<lambda>_ _. True) (\<lambda>_. DevicesDeviceStatusUpdate_Validate)"

abbreviation "sent_status \<equiv> sent_json (\<lambda>_. JobsJobStatusUpdate_Encode) (\<lambda>_ _. True) (\<lambda>_. JobsJobStatusUpdate_Validate)"

abbreviation "sent_report \<equiv> sent_json JobsUpdateJobInfoRequest_Encode update_request_ok JobsUpdateJobInfoRequest_Validate"

abbreviation "sent_transpiler_info \<equiv> sent_json (\<lambda>_. raw_map_Encode) (\<lambda>_. raw_map_ok) (\<lambda>_ _. None)"

lemma PatchDevice_request:
  "media_arrive sv \<Longrightarrow> sent_device e p sv w req \<Longrightarrow>
    decodePatchDeviceRequest p sv (delivered w (r\<lparr>rq_Body := encodePatchDeviceRequest e req\<rparr>)) = Inr req"
  unfolding decodePatchDeviceRequest_def encodePatchDeviceRequest_def
  by (rule sent_request_arrives [where dec = "\<lambda>f j. DevicesUpdateDeviceRequest_Decode f j Unset"], assumption, assumption) (auto intro: DevicesUpdateDeviceRequest_round)

lemma PatchDeviceInfo_request:
  "media_arrive sv \<Longrightarrow> sent_device_info e p sv w req \<Longrightarrow>
    decodePatchDeviceInfoRequest p sv (delivered w (r\<lparr>rq_Body := encodePatchDeviceInfoRequest e req\<rparr>)) = Inr req"
  unfolding decodePatchDeviceInfoRequest_def encodePatchDeviceInfoRequest_def
  by (rule sent_request_arrives, assumption, assumption) (rule DevicesDeviceInfoUpdate_round, auto)

lemma PatchDeviceStatus_request:
  "media_arrive sv \<Longrightarrow> sent_device_status e p sv w req \<Longrightarrow>
    decodePatchDeviceStatusRequest p sv (delivered w (r\<lparr>rq_Body := encodePatchDeviceStatusRequest req\<rparr>)) = Inr req"
  unfolding decodePatchDeviceStatusRequest_def encodePatchDeviceStatusRequest_def
  by (rule sent_request_arrives, assumption, assumption) (rule DevicesDeviceStatusUpdate_round, auto)

lemma PatchJob_request:
  "media_arrive sv \<Longrightarrow> sent_status e p sv w req \<Longrightarrow>
    decodePatchJobRequest p sv (delivered w (r\<lparr>rq_Body := encodePatchJobRequest req\<rparr>)) = Inr req"
  unfolding decodePatchJobRequest_def encodePatchJobRequest_def
  by (rule sent_request_arrives, assumption, assumption) (rule JobsJobStatusUpdate_round, auto)

lemma PatchJobInfo_request:
  "media_arrive sv \<Longrightarrow> sent_report e p sv w req \<Longrightarrow>
    decodePatchJobInfoRequest p sv (delivered w (r\<lparr>rq_Body := encodePatchJobInfoRequest e req\<rparr>)) = Inr req"
  unfolding decodePatchJobInfoRequest_def encodePatchJobInfoRequest_def
  by (rule sent_request_arrives, assumption, assumption) (rule update_request.round, auto)

lemma UpdateJobTranspilerInfo_request:
  "media_arrive sv \<Longrightarrow> sent_transpiler_info e p sv w req \<Longrightarrow>
    decodeUpdateJobTranspilerInfoRequest p sv (delivered w (r\<lparr>rq_Body := encodeUpdateJobTranspilerInfoRequest req\<rparr>)) = Inr req"
  unfolding decodeUpdateJobTranspilerInfoRequest_def encodeUpdateJobTranspilerInfoRequest_def
  by (rule sent_request_arrives, assumption, assumption) (rule raw.round, auto)

lemma PatchSselog_request:
  "pred_option (multipart_arrives sv w) req \<Longrightarrow>
    decodePatchSselogRequest sv (delivered w (r\<lparr>rq_Body := encodePatchSselogRequest req\<rparr>)) = Inr req"
  by (cases req)
    (auto simp: decodePatchSselogRequest_def encodePatchSselogRequest_def request_absent request_body_def multipart_file_def
      delivered_def body_text_def multipart_arrives_def split: prod.splits)

definition job_answered :: "api_env \<Rightarrow> api_env \<Rightarrow> wire \<Rightarrow> WireJobDef api_res \<Rightarrow> bool" where
  "job_answered e p w res \<longleftrightarrow>
    ae_jx p = ae_jx e \<and> json_arrives e w \<and>
    (\<forall>d. res = ResOK d \<longrightarrow>
      job_def_ok (ae_jx e) d \<and> JobsJobDef_Validate e d = None \<and> (\<forall>j. JobsJobDef_Encode (ae_jx e) d = Some j \<longrightarrow> carries e w j))"

lemma job_response:
  assumes "job_answered e p w res" and "encodeGetJobResponse (ae_jx p) res = Inr resp"
  shows "decodeGetJobResponse e (received w resp) = Inr res"
proof (cases res)
  case (ResOK d)
  obtain j where "JobsJobDef_Encode (ae_jx e) d = Some j" "JobsJobDef_Decode (ae_jx e) j zero_JobDef = Inr d"
    using assms(1) ResOK by (auto simp: job_answered_def elim: job_def.roundE)
  then show ?thesis
    using assms ResOK
    by (auto simp: job_answered_def json_reply_def received_def json_arrives_def carries_def decodeGetJobResponse_def
        json_body_def media_type_def read_body_def as_res_def validated_def)
qed (use assms in \<open>auto simp: job_answered_def message_Encodes error_answers decodeGetJobResponse_def dest!: message_reply\<close>)

definition source_answered :: "api_env \<Rightarrow> wire \<Rightarrow> bool" where
  "source_answered e w \<longleftrightarrow> json_arrives e w \<and> tw_media w ''text/plain; charset=utf-8'' = Some ''text/plain''"

lemma source_response:
  assumes "source_answered e w" and "encodeGetSsesrcResponse res = Inr resp"
  shows "decodeGetSsesrcResponse e (received w resp) = Inr res"
  using assms
  by (cases res)
    (auto simp: source_answered_def message_Encodes error_answers decodeGetSsesrcResponse_def received_def media_type_def
      read_body_def as_res_def dest!: message_reply)

lemmas operation_laws = operation_routes operation_plain operation_handlers update_responses PatchDevice_request PatchDeviceInfo_request
  PatchDeviceStatus_request PatchJob_request PatchJobInfo_request PatchSselog_request UpdateJobTranspilerInfo_request
  job_response source_response

interpretation patch_device: api_operation "''PatchDevice''" "''PATCH''" "''device_id''" "''/devices/''" "[]"
  encodePatchDeviceRequest decodePatchDeviceRequest hn_PatchDevice "\<lambda>p. encodePatchDeviceResponse" decodePatchDeviceResponse
  sent_device "\<lambda>e p w res. json_arrives e w"
  by unfold_locales (simp_all add: operation_laws del: concat.simps segments.simps)

interpretation patch_device_info: api_operation "''PatchDeviceInfo''" "''PATCH''" "''device_id''" "''/devices/''" "[''/device_info'']"
  encodePatchDeviceInfoRequest decodePatchDeviceInfoRequest hn_PatchDeviceInfo "\<lambda>p. encodePatchDeviceInfoResponse" decodePatchDeviceInfoResponse
  sent_device_info "\<lambda>e p w res. json_arrives e w"
  by unfold_locales (simp_all add: operation_laws del: concat.simps segments.simps)

interpretation patch_device_status: api_operation "''PatchDeviceStatus''" "''PATCH''" "''device_id''" "''/devices/''" "[''/status'']"
  "\<lambda>e. encodePatchDeviceStatusRequest" decodePatchDeviceStatusRequest hn_PatchDeviceStatus "\<lambda>p. encodePatchDeviceStatusResponse" decodePatchDeviceStatusResponse
  sent_device_status "\<lambda>e p w res. json_arrives e w"
  by unfold_locales (simp_all add: operation_laws del: concat.simps segments.simps)

interpretation patch_job: api_operation "''PatchJob''" "''PATCH''" "''job_id''" "''/jobs/''" "[''/status'']"
  "\<lambda>e. encodePatchJobRequest" decodePatchJobRequest hn_PatchJob "\<lambda>p. encodePatchJobResponse" decodePatchJobResponse
  sent_status "\<lambda>e p w res. json_arrives e w"
  by unfold_locales (simp_all add: operation_laws del: concat.simps segments.simps)

interpretation patch_job_info: api_operation "''PatchJobInfo''" "''PATCH''" "''job_id''" "''/jobs/''" "[''/job_info'']"
  encodePatchJobInfoRequest decodePatchJobInfoRequest hn_PatchJobInfo "\<lambda>p. encodePatchJobInfoResponse" decodePatchJobInfoResponse
  sent_report "\<lambda>e p w res. json_arrives e w"
  by unfold_locales (simp_all add: operation_laws del: concat.simps segments.simps)

interpretation patch_sselog: api_operation "''PatchSselog''" "''PATCH''" "''job_id''" "''/jobs/''" "[''/sselog'']"
  "\<lambda>e. encodePatchSselogRequest" "\<lambda>p. decodePatchSselogRequest" hn_PatchSselog "\<lambda>p. encodePatchSselogResponse" decodePatchSselogResponse
  "\<lambda>e p sv w. pred_option (multipart_arrives sv w)" "\<lambda>e p w res. json_arrives e w"
  by unfold_locales (simp_all add: operation_laws del: concat.simps segments.simps)

interpretation update_transpiler_info: api_operation "''UpdateJobTranspilerInfo''" "''PUT''" "''job_id''" "''/jobs/''" "[''/transpiler_info'']"
  "\<lambda>e. encodeUpdateJobTranspilerInfoRequest" decodeUpdateJobTranspilerInfoRequest hn_UpdateJobTranspilerInfo "\<lambda>p. encodeUpdateJobTranspilerInfoResponse" decodeUpdateJobTranspilerInfoResponse
  sent_transpiler_info "\<lambda>e p w res. json_arrives e w"
  by unfold_locales (simp_all add: operation_laws del: concat.simps segments.simps)

interpretation get_job: api_operation "''GetJob''" "''GET''" "''job_id''" "''/jobs/''" "[]"
  "\<lambda>e _. None" "\<lambda>p sv r. Inr ()" "\<lambda>h _. hn_GetJob h" "\<lambda>p. encodeGetJobResponse (ae_jx p)" decodeGetJobResponse
  "\<lambda>e p sv w _. True" job_answered
  by unfold_locales (simp_all add: operation_laws decoded_request_def del: concat.simps segments.simps)

interpretation get_ssesrc: api_operation "''GetSsesrc''" "''GET''" "''job_id''" "''/jobs/''" "[''/ssesrc'']"
  "\<lambda>e _. None" "\<lambda>p sv r. Inr ()" "\<lambda>h _. hn_GetSsesrc h" "\<lambda>p. encodeGetSsesrcResponse" decodeGetSsesrcResponse
  "\<lambda>e p sv w _. True" "\<lambda>e p w res. source_answered e w"
  by unfold_locales (simp_all add: operation_laws decoded_request_def del: concat.simps segments.simps)

section \<open>The engine and a provider\<close>

text \<open>A client and a server that understand each other, for calls of an operation about an identifier.\<close>

definition linked :: "api_env \<Rightarrow> api_env \<Rightarrow> server \<Rightarrow> wire \<Rightarrow> string \<Rightarrow> bool" where
  "linked e p sv w operation \<longleftrightarrow>
    connected e p sv w \<and> server_urls sv \<and> media_arrive sv \<and> key_accepted e sv operation \<and> json_arrives e w \<and>
    ae_jx p = ae_jx e"

lemma report_Validate:
  assumes c: "ConvertToCloudJob fmt jd = Ret cJob jd'" and fl: "report_floats_ok f cv (update_request jd' need cJob)"
    and fin: "\<And>x. float64_ok f x \<Longrightarrow> ae_Float p x"
  shows "JobsUpdateJobInfoRequest_Validate p (wire_request cv (update_request jd' need cJob)) = None"
proof -
  let ?rq = "update_request jd' need cJob"
  have "df_Status cJob = convertToAPIStatus (jd_Status jd)" using ConvertToCloudJob_Ret [OF c] by blast
  then have "JobsJobStatus_Validate (up_OverwriteStatus ?rq) = None"
    by (cases "jd_Status jd") (auto simp: update_request_def Let_def case_prod_beta)
  moreover have "pred_optnil (\<lambda>x. ae_Float p (wc_seconds cv x)) (up_ExecutionTime ?rq)"
    using fl fin by (auto simp: report_floats_ok_def optnil.pred_set)
  moreover have "JobsJobResult_Validate p (wire_result cv r) = None"
    if "pred_optnil (\<lambda>(v, s). float64_ok f (wc_float64 cv v) \<and> float64_ok f (wc_float64 cv s)) (jr_Estimation r)" for r
    using that fin
    by (cases "jr_Estimation r")
      (auto simp: JobsJobResult_Validate_def JobsEstimationResult_Validate_def Float_Validate_def wire_result_def)
  then have "JobsUpdateJobInfo_Validate p (the (wq_JobInfo (wire_request cv ?rq))) = None"
    using fl by (cases "up_Result ?rq") (auto simp: JobsUpdateJobInfo_Validate_def wire_request_def report_floats_ok_def)
  ultimately show ?thesis
    by (cases "up_ExecutionTime ?rq")
      (auto simp: JobsUpdateJobInfoRequest_Validate_def wire_request_def Float_Validate_def)
qed

text \<open>
  C10: Every report of the engine reaches the provider: an update of a job that the service database sends with
  all its information goes through the client, the wire, the router and the decoders of the server, and the
  handler of the provider is called with exactly this job and this request; the caller gets the answer of
  the handler. The ID of the job may be any text that the client escapes into one segment of the path, with
  slashes, spaces or percent signs in it. What this needs of the packages is that they read back what they
  write, that the server parses the path that was sent, that a finite number is valid, and that the key of
  the engine is accepted.
\<close>

theorem report_reaches_provider:
  assumes "ServiceDB_Update db jd = Ret (cs, err) jd2" and "PatchJobInfo jid req \<in> set cs"
    and "linked e p sv w ''PatchJobInfo''" and "id_arrives e sv w (\<lambda>q. [''/jobs/'', q, ''/job_info'']) jid"
    and "report_floats_ok (ae_jx e) cv req" and "\<And>x. float64_ok (ae_jx e) x \<Longrightarrow> ae_Float p x"
    and "\<And>j. JobsUpdateJobInfoRequest_Encode (ae_jx e) (wire_request cv req) = Some j \<Longrightarrow> carries p w j"
    and "hn_PatchJobInfo (operations sv) (Some (wire_request cv req)) jid = Inr res"
    and "encodePatchJobInfoResponse res = Inr resp"
  shows "sendPatchJobInfo e (Some (wire_request cv req)) jid = Inr res"
proof -
  obtain cJob jd' need where c: "ConvertToCloudJob (sv_fmt db) jd = Ret cJob jd'" "req = update_request jd' need cJob"
    using ServiceDB_Update_call_cases [OF assms(1,2)] by auto
  then have "update_request_ok (ae_jx e) (wire_request cv req)"
    using update_request_wire_ok assms(5) by blast
  moreover have "JobsUpdateJobInfoRequest_Validate p (wire_request cv req) = None"
    using report_Validate [OF c(1), of "ae_jx e" cv need p] assms(5,6) c(2) by simp
  ultimately have "sent_report e p sv w (Some (wire_request cv req))"
    using assms(3,7) by (auto simp: sent_json_def linked_def)
  with assms(3) show ?thesis
    unfolding sendPatchJobInfo_def
    by (intro patch_job_info.returns_answer [OF _ _ _ assms(4) _ _ assms(8,9)]) (simp_all add: linked_def)
qed

lemma JobsJobStatus_of_string: "JobsJobStatus_Validate s = None \<Longrightarrow> JobsJobStatus_of (JobsJobStatus_string s) = s"
  by (cases s) (simp_all add: JobsJobStatus_of_def)

lemma search_arrives:
  assumes "pred_option (\<lambda>s. JobsJobStatus_Validate s = None) status"
    and "pred_option (\<lambda>n. se_ToInt sv (int_str n) = Some n) maxResults"
    and "hq_Query r = map (\<lambda>(k, v). (k, Some v)) ([(''device_id'', dev)] @
           (case status of None \<Rightarrow> [] | Some s \<Rightarrow> [(''status'', JobsJobStatus_string s)]) @
           (case maxResults of None \<Rightarrow> [] | Some n \<Rightarrow> [(''max_results'', int_str n)]) @
           (case timestamp of None \<Rightarrow> [] | Some t \<Rightarrow> [(''timestamp'', t)]))"
  shows "decodeGetJobsParams sv r =
    Inr \<lparr>gp_DeviceID = dev, gp_Status = status, gp_MaxResults = maxResults, gp_Timestamp = timestamp\<rparr>"
  using assms
  by (cases status; cases maxResults; cases timestamp)
    (simp_all add: decodeGetJobsParams_def query_param_def JobsJobStatus_of_string)

text \<open>
  C11: A poll gets the jobs of the provider: the search of the client, with its device, status, number and time,
  is what the handler of the provider is asked, and the jobs that it returns are the jobs that the client
  hands to the poller, in the same order and with the same content, if all of them are valid.
\<close>

theorem poll_gets_jobs:
  assumes "linked e p sv w ''GetJobs''" and "int_limits e" and "url_arrives sv w [''/jobs'']"
    and "pred_option (\<lambda>s. JobsJobStatus_Validate s = None) status"
    and "pred_option (\<lambda>n. se_ToInt sv (int_str n) = Some n) maxResults"
    and "hn_GetJobs (operations sv)
        \<lparr>gp_DeviceID = dev, gp_Status = status, gp_MaxResults = maxResults, gp_Timestamp = timestamp\<rparr> = Inr (ResOK defs)"
    and "list_all (job_def_ok (ae_jx e)) defs" and "list_all (valid_job e) defs"
    and "\<And>j. GetJobsOK_Encode (ae_jx e) defs = Some j \<Longrightarrow> carries e w j"
  shows "sendGetJobs e dev status maxResults timestamp = Inr (ResOK defs)"
proof -
  obtain k where k: "ae_ApiKeyAuth e ''GetJobs'' = Key k" "k \<noteq> []" "se_HandleApiKeyAuth sv ''GetJobs'' k = Key ()"
    using assms(1) by (auto simp: linked_def key_accepted_def)
  define q where "q = [(''device_id'', dev)] @
           (case status of None \<Rightarrow> [] | Some s \<Rightarrow> [(''status'', JobsJobStatus_string s)]) @
           (case maxResults of None \<Rightarrow> [] | Some n \<Rightarrow> [(''max_results'', int_str n)]) @
           (case timestamp of None \<Rightarrow> [] | Some t \<Rightarrow> [(''timestamp'', t)])"
  let ?r = "(new_request ''GET'' [''/jobs''] q None)\<lparr>rq_ApiKey := k\<rparr>"
  obtain j where j: "GetJobsOK_Encode (ae_jx e) defs = Some j" using encoded_jobs [OF assms(7)] by blast
  have "lookup_route routes (segments (concat [''/jobs''])) = Some (''GET'', ''GetJobs'', [])" by (simp add: routes_def)
  moreover have "fst (request_path (se_urls sv) (tw_url w [''/jobs''])) = se_Prefix sv @ concat [''/jobs'']"
    using plain_path_arrives [OF _ assms(3) operation_plain(10)] assms(1) by (simp add: linked_def del: concat.simps)
  ultimately have "ServeHTTP p sv (delivered w ?r) = handleGetJobsRequest p sv (delivered w ?r)"
    using ServeHTTP_found [of sv w ?r "concat [''/jobs'']" "''GetJobs''" "[]" p]
    by (simp add: linked_def new_request_def dispatch_def del: concat.simps)
  also have "\<dots> = answer sv (json_reply 200 (Some j))"
  proof -
    have "secured sv ''GetJobs'' (delivered w ?r) = Inr ()" using k by (intro secured_Key) (simp_all add: delivered_def)
    moreover have "decodeGetJobsParams sv (delivered w ?r) =
        Inr \<lparr>gp_DeviceID = dev, gp_Status = status, gp_MaxResults = maxResults, gp_Timestamp = timestamp\<rparr>"
      using assms(4,5) by (intro search_arrives) (simp_all add: delivered_def new_request_def q_def)
    ultimately show ?thesis
      using assms(1,6) j by (simp add: handleGetJobsRequest_def called_def linked_def)
  qed
  finally have "ae_Do e ?r = Some (json_answer 200 (tw_write w (Some j)))"
    using assms(1) by (simp add: linked_def connected_def json_reply_def answer_def received_def json_arrives_def)
  moreover have "ae_parse e (tw_write w (Some j)) = Some j" using assms(9) j by (simp add: carries_def)
  then have "decodeGetJobsResponse e (json_answer 200 (tw_write w (Some j))) = Inr (ResOK defs)"
    using decode_encoded_jobs [OF assms(7) j] GetJobsOK_Validate_None [OF assms(2), of defs] assms(8) by simp
  ultimately show ?thesis using k(1) unfolding sendGetJobs_def Let_def q_def [symmetric] by (simp add: send_Key)
qed

text \<open>
  C12: Without a key that is accepted, nothing reaches the provider: whatever the path, the method and the
  body of a request are, if its key is missing or refused for every operation, the answer does not depend on
  the handler or the middleware, so neither has been called.
\<close>

theorem no_key_no_handler:
  assumes "\<And>operation. hq_ApiKey r = [] \<or> se_HandleApiKeyAuth sv operation (hq_ApiKey r) \<noteq> Key ()"
  shows "ServeHTTP p sv r = ServeHTTP p (sv\<lparr>se_Handler := h, se_Middleware := mw\<rparr>) r"
proof -
  let ?sv = "sv\<lparr>se_Handler := h, se_Middleware := mw\<rparr>"
  have "\<exists>er. secured sv operation r = Inl er \<and> secured ?sv operation r = Inl er" for operation
    using assms [of operation]
    by (auto simp: secured_def server_securityApiKeyAuth_def split: security.split)
  then obtain er where er: "\<And>operation. secured sv operation r = Inl (er operation)"
      "\<And>operation. secured ?sv operation r = Inl (er operation)" by metis
  have "dispatch p sv operation args escaped r = dispatch p ?sv operation args escaped r" for operation args escaped
    by (simp add: dispatch_def handlePatchDeviceRequest_def handlePatchDeviceInfoRequest_def
      handlePatchDeviceStatusRequest_def handlePatchJobRequest_def handlePatchJobInfoRequest_def
      handlePatchSselogRequest_def handleUpdateJobTranspilerInfoRequest_def handleGetJobRequest_def
      handleGetSsesrcRequest_def handleGetJobsRequest_def er answer_def)
  then show ?thesis by (simp add: ServeHTTP_def split: prod.split routed.split)
qed

section \<open>Examples\<close>

text \<open>
  The packages for the examples: \<open>net/url\<close> and \<open>PathEscape\<close> of the standard library, and a normalisation that
  unescapes what need not be escaped and writes the digits of the other escapes in upper case.
\<close>

fun NormalizeEscapedPath :: "string \<Rightarrow> string option" where
  "NormalizeEscapedPath [] = Some []"
| "NormalizeEscapedPath (c # s) =
    (if c = CHR ''%'' then
       (case s of
          h # l # r \<Rightarrow>
            (case hex_char h l of
               None \<Rightarrow> None
             | Some d \<Rightarrow>
                 map_option ((@) (if unreserved d then [d]
                   else [CHR ''%'', upperhex (of_char d div 16), upperhex (of_char d mod 16)])) (NormalizeEscapedPath r))
        | _ \<Rightarrow> None)
     else map_option ((#) c) (NormalizeEscapedPath s))"

lemma NormalizeEscapedPath_plain:
  "CHR ''%'' \<notin> set a \<Longrightarrow> NormalizeEscapedPath (a @ s) = map_option ((@) a) (NormalizeEscapedPath s)"
  by (induction a; cases "NormalizeEscapedPath s") auto

lemma NormalizeEscapedPath_segment:
  "PathUnescape q = Some x \<Longrightarrow> CHR ''/'' \<notin> set q \<Longrightarrow>
    \<exists>q'. (\<forall>c. NormalizeEscapedPath (q @ c) = map_option ((@) q') (NormalizeEscapedPath c)) \<and>
      CHR ''/'' \<notin> set q' \<and> PathUnescape q' = Some x"
proof (induction q arbitrary: x rule: PathUnescape.induct)
  case 1
  then show ?case by (intro exI [of _ "[]"]) (simp add: option.map_ident id_def [symmetric] option.map_id append_Nil [abs_def])
next
  case (2 c s)
  show ?case
  proof (cases "c = CHR ''%''")
    case True
    then obtain h l r d y where s: "s = h # l # r" "hex_char h l = Some d" "PathUnescape r = Some y" "x = d # y"
      using 2(3) by (auto split: list.splits option.splits)
    obtain q' where q': "\<And>c. NormalizeEscapedPath (r @ c) = map_option ((@) q') (NormalizeEscapedPath c)"
        "CHR ''/'' \<notin> set q'" "PathUnescape q' = Some y"
      using 2(1) [OF True s(1) refl s(2,3)] 2(4) s(1) by auto
    have "(of_char d :: nat) < 256" by simp
    then have d: "(of_char d :: nat) div 16 < 16" by linarith
    have "d \<noteq> CHR ''%'' \<and> d \<noteq> CHR ''/''" if "unreserved d" using that by auto
    then show ?thesis
      using True s q' hex_char_upperhex [of d] upperhex_slash [OF d] upperhex_slash [of "of_char d mod 16"]
      by (intro exI [of _ "(if unreserved d then [d] else [CHR ''%'', upperhex (of_char d div 16), upperhex (of_char d mod 16)]) @ q'"])
        (auto simp: option.map_comp comp_def)
  next
    case False
    then obtain y where y: "PathUnescape s = Some y" "x = c # y" using 2(3) by auto
    obtain q' where q': "\<And>c. NormalizeEscapedPath (s @ c) = map_option ((@) q') (NormalizeEscapedPath c)"
        "CHR ''/'' \<notin> set q'" "PathUnescape q' = Some y"
      using 2(2) [OF False y(1)] 2(4) by auto
    then show ?thesis
      using False y(2) 2(4) by (intro exI [of _ "c # q'"]) (auto simp: option.map_comp comp_def)
  qed
qed

lemma example_normalizes: "normalizes \<lparr>ue_Normalize = NormalizeEscapedPath\<rparr>"
  unfolding normalizes_def
proof (intro allI impI)
  fix a q c x :: string
  assume h: "plain_path a" "plain_path c" "CHR ''/'' \<notin> set q" "PathUnescape q = Some x"
  obtain q' where q': "\<And>c. NormalizeEscapedPath (q @ c) = map_option ((@) q') (NormalizeEscapedPath c)"
      "CHR ''/'' \<notin> set q'" "PathUnescape q' = Some x"
    using NormalizeEscapedPath_segment [OF h(4,3)] by blast
  have "NormalizeEscapedPath c = Some c"
    using NormalizeEscapedPath_plain [OF plain_path_percent [OF h(2)], of "[]"] by simp
  then have "NormalizeEscapedPath (a @ q @ c) = Some (a @ q' @ c)"
    using NormalizeEscapedPath_plain [OF plain_path_percent [OF h(1)], of "q @ c"] q'(1) by simp
  then show "\<exists>q'. ue_Normalize \<lparr>ue_Normalize = NormalizeEscapedPath\<rparr> (a @ q @ c) = Some (a @ q' @ c) \<and>
      CHR ''/'' \<notin> set q' \<and> PathUnescape q' = Some x"
    using q'(2,3) by auto
qed

definition loop_wire :: wire where
  "loop_wire =
    \<lparr>tw_url = (\<lambda>parts. case setPath (''/v1'' @ concat parts) of
       Some (path, raw) \<Rightarrow> \<lparr>su_Path = path, su_RawPath = raw\<rparr> | None \<Rightarrow> \<lparr>su_Path = [], su_RawPath = []\<rparr>),
     tw_write = (\<lambda>j. case j of None \<Rightarrow> ''?'' | Some j \<Rightarrow> json_print j),
     tw_media = (\<lambda>ct. Some (takeWhile (\<lambda>c. c \<noteq> CHR '';'') ct)),
     tw_multipart = (\<lambda>field content. (''multipart/form-data'', content))\<rparr>"

definition example_handler :: "WireJobDef list \<Rightarrow> Handler" where
  "example_handler defs =
    \<lparr>hn_GetJob = (\<lambda>_. Inr (ResNotFound ''no job'')), hn_GetJobs = (\<lambda>params. Inr (ResOK defs)),
     hn_GetSsesrc = (\<lambda>_. Inr (ResNotFound ''no job'')), hn_PatchDevice = (\<lambda>_ _. Inr (ResOK ''ok'')),
     hn_PatchDeviceInfo = (\<lambda>_ _. Inr (ResOK ''ok'')), hn_PatchDeviceStatus = (\<lambda>_ _. Inr (ResOK ''ok'')),
     hn_PatchJob = (\<lambda>_ _. Inr (ResConflict ''no'')), hn_PatchJobInfo = (\<lambda>req jobID. Inr (ResOK jobID)),
     hn_PatchSselog = (\<lambda>_ _. Inl ''no disk''), hn_UpdateJobTranspilerInfo = (\<lambda>_ _. Inr (ResOK ''ok''))\<rparr>"

definition example_server :: "WireJobDef list \<Rightarrow> server" where
  "example_server defs =
    \<lparr>se_Handler = example_handler defs, se_Middleware = None,
     se_HandleApiKeyAuth = (\<lambda>operation k. if k = ''key'' then Key () else SecurityFails),
     se_ErrorHandler = (\<lambda>_. \<lparr>hs_StatusCode = 500, hs_ContentType = ''text/plain'', hs_Body = TextReply []\<rparr>),
     se_NotFound = (\<lambda>_. \<lparr>hs_StatusCode = 404, hs_ContentType = ''text/plain'', hs_Body = TextReply []\<rparr>),
     se_MethodNotAllowed = (\<lambda>_ _. \<lparr>hs_StatusCode = 405, hs_ContentType = ''text/plain'', hs_Body = TextReply []\<rparr>),
     se_Prefix = ''/v1'', se_urls = \<lparr>ue_Normalize = NormalizeEscapedPath\<rparr>, se_PathValue = Some, se_ToInt = (\<lambda>s. Some (int (dec_val 0 s))),
     se_ParseMediaType = Some, se_MultipartForm = (\<lambda>_. None)\<rparr>"

definition loop_api :: "api_env \<Rightarrow> server \<Rightarrow> api_env" where
  "loop_api p sv = (example_api None 200)\<lparr>ae_parse := json_parse, ae_path := (\<lambda>x. Some (PathEscape x)),
     ae_Do := (\<lambda>r. Some (received loop_wire (ServeHTTP p sv (delivered loop_wire r))))\<rparr>"

lemma plain_v1: "plain_path ''/v1''"
  by code_simp

lemma loop_linked:
  "ae_jx p = example_formats \<Longrightarrow> linked (loop_api p (example_server defs)) p (example_server defs) loop_wire operation"
proof -
  have "json_parse (json_print (JObj [(''message'', JStr m)])) = Some (JObj [(''message'', JStr m)])" for m
    by (rule json_print_parse) simp
  then show "ae_jx p = example_formats \<Longrightarrow> ?thesis"
    using example_normalizes plain_v1
    by (simp add: linked_def connected_def server_urls_def media_arrive_def key_accepted_def json_arrives_def carries_def
      loop_api_def example_server_def loop_wire_def request_path_def example_api_def)
qed

lemma loop_url:
  "PathUnescape (concat parts) \<noteq> None \<Longrightarrow> url_arrives (example_server defs) loop_wire parts"
  using PathUnescape_append [of "''/v1''" "''/v1''" "concat parts"]
  by (auto simp: url_arrives_def example_server_def loop_wire_def setPath_def)

lemma loop_id:
  assumes "x \<noteq> []"
  shows "id_arrives (loop_api p (example_server defs)) (example_server defs) loop_wire (\<lambda>q. [''/jobs/'', q, ''/job_info'']) x"
proof -
  have "PathUnescape (''/jobs/'' @ PathEscape x @ ''/job_info'') = Some (''/jobs/'' @ x @ ''/job_info'')"
    using PathUnescape_append [of "''/jobs/''" "''/jobs/''" "PathEscape x @ ''/job_info''"]
      PathUnescape_append [of "PathEscape x" x "''/job_info''"] by (simp add: PathEscape_def)
  then have "url_arrives (example_server defs) loop_wire [''/jobs/'', PathEscape x, ''/job_info'']"
    by (intro loop_url) simp
  then show ?thesis
    using assms PathEscape_slash [of x] by (simp add: id_arrives_def loop_api_def example_server_def PathEscape_def)
qed

theorem no_key_no_handler_witness:
  "ServeHTTP (example_api None 200) (example_server [])
      \<lparr>hq_Method = ''GET'', hq_URL = \<lparr>su_Path = ''/jobs'', su_RawPath = []\<rparr>, hq_Query = [(''device_id'', Some ''d'')],
       hq_ApiKey = ''guess'', hq_ContentType = None, hq_ContentLength = 0, hq_Body = Some []\<rparr> =
    ServeHTTP (example_api None 200) (example_server [example_wire_job])
      \<lparr>hq_Method = ''GET'', hq_URL = \<lparr>su_Path = ''/jobs'', su_RawPath = []\<rparr>, hq_Query = [(''device_id'', Some ''d'')],
       hq_ApiKey = ''guess'', hq_ContentType = None, hq_ContentLength = 0, hq_Body = Some []\<rparr>"
proof -
  have "(example_server [])\<lparr>se_Handler := example_handler [example_wire_job], se_Middleware := None\<rparr> = example_server [example_wire_job]"
    by (simp add: example_server_def)
  then show ?thesis
    by (subst no_key_no_handler [where h = "example_handler [example_wire_job]" and mw = None]) (simp_all add: example_server_def)
qed

theorem report_reaches_provider_witness:
  "\<exists>cs err jd jid req p. ServiceDB_Update \<lparr>sv_NewClient = (\<lambda>_. None), sv_call = (\<lambda>_. None), sv_fmt = Some\<rparr>
      (example_job\<lparr>jd_ID := ''a/b c'', jd_Status := SUCCEEDED, jd_UseJobInfoUpdate := True, jd_JobType := SAMPLING_JOB\<rparr>) = Ret (cs, err) jd \<and>
    PatchJobInfo jid req \<in> set cs \<and>
    sendPatchJobInfo (loop_api p (example_server [])) (Some (wire_request example_conv req)) jid = Inr (ResOK ''a/b c'')"
proof -
  let ?db = "\<lparr>sv_NewClient = (\<lambda>_. None), sv_call = (\<lambda>_. None), sv_fmt = Some\<rparr> :: db_env"
  let ?jd = "example_job\<lparr>jd_ID := ''a/b c'', jd_Status := SUCCEEDED, jd_UseJobInfoUpdate := True, jd_JobType := SAMPLING_JOB\<rparr>"
  obtain r info tc where "jd_UseJobInfoUpdate ?jd" "jd_Result ?jd = Some r" "rs_TranspilerInfo r = Some info"
      "jd_Transpiler ?jd = Some tc"
    by (simp add: example_job_def NewJobData_def NewResult_def)
  then obtain cs err jd req where u: "ServiceDB_Update ?db ?jd = Ret (cs, err) jd" "PatchJobInfo (jd_ID ?jd) req \<in> set cs"
    using ServiceDB_Update_sends_info [of ?jd _ _ _ ?db] by blast
  have jid: "jd_ID ?jd = ''a/b c''" by (simp add: example_job_def NewJobData_def)
  define p where "p = example_api (JobsUpdateJobInfoRequest_Encode example_formats (wire_request example_conv req)) 200"
  have "report_floats_ok example_formats example_conv req"
    by (cases "up_ExecutionTime req"; cases "up_Result req") (auto simp: report_floats_ok_def optnil.pred_set)
  then have "sendPatchJobInfo (loop_api p (example_server [])) (Some (wire_request example_conv req)) ''a/b c'' = Inr (ResOK ''a/b c'')"
    by (intro report_reaches_provider [OF u [unfolded jid], of _ p "example_server []" loop_wire] loop_linked loop_id)
      (auto simp: p_def loop_api_def carries_def loop_wire_def example_server_def operations_def example_handler_def
        json_reply_def example_api_def JobsUpdateJobInfoRequest_Encode_def Obj_Encode_def split: if_splits)
  then show ?thesis using u jid by auto
qed

lemma example_jobs_json:
  assumes "GetJobsOK_Encode example_formats [example_wire_job] = Some j"
  shows "plain_json j"
  using assms
  by (auto simp: GetJobsOK_Encode_def Arr_Encode_def JobsJobDef_Encode_def JobsJobInfo_Encode_def example_wire_job_def zeros
      Obj_Encode_def Str_Encode_def Int_Encode_def example_formats_def JobsJobType_Encode_def
      JobsJobStatus_Encode_def split: if_splits)

theorem poll_gets_jobs_witness:
  "sendGetJobs (loop_api (example_api None 200) (example_server [example_wire_job])) ''dev'' (Some SubmittedS) (Some 10) None =
    Inr (ResOK [example_wire_job])"
proof -
  let ?sv = "example_server [example_wire_job]" and ?p = "example_api None 200"
  let ?e = "loop_api ?p ?sv"
  have "int_limits ?e" "valid_job ?e example_wire_job"
    by (simp_all add: loop_api_def example_api_def int_limits_def valid_job_def valid_info_def example_wire_job_def zeros)
  moreover have "carries ?e loop_wire j" if "GetJobsOK_Encode example_formats [example_wire_job] = Some j" for j
    using json_print_parse [OF example_jobs_json [OF that]] json_print_hd [of j] example_jobs_json [OF that]
    by (auto simp: carries_def loop_wire_def loop_api_def)
  moreover have "se_ToInt ?sv (int_str 10) = Some 10" by (simp add: example_server_def int_str_def)
  moreover have "url_arrives ?sv loop_wire [''/jobs'']" by (rule loop_url) simp
  ultimately show ?thesis
    using example_job_ok
    by (intro poll_gets_jobs [of _ ?p ?sv loop_wire] loop_linked)
      (simp_all add: loop_api_def example_server_def operations_def example_handler_def)
qed

end
