(* ===== verification/Device_Topology.thy ===== *)
theory Device_Topology
  imports Mitigation Qpu
begin

text \<open>
  \<open>deviceTopology\<close> of \<open>mitig/mitig.go\<close> with the calibration data of \<open>core/syscomponent.go\<close>: what the
  mitigator is told of the device. A \<open>float64\<close> is its bit pattern; reading one from a JSON number and
  rounding it to a \<open>float32\<close> are arguments.
\<close>

record MeasError =
  me_ProbMeas1Prep0 :: float64
  me_ProbMeas0Prep1 :: float64
  me_ReadoutAssignmentError :: float64

record Qubit =
  qb_ID :: int
  qb_PhysicalID :: int
  qb_Position :: "float64 \<times> float64"
  qb_Fidelity :: float64
  qb_MeasError :: MeasError
  qb_QubitLife :: "float64 \<times> float64"
  qb_GateDur :: "float64 \<times> float64 \<times> float64"

record DeviceInfoSpec =
  ds_DeviceID :: string
  ds_Qubits :: "Qubit list"

record TopologyQubit =
  tq_Id :: i32
  tq_GateError :: float32
  tq_T1 :: float32
  tq_T2 :: float32
  tq_P0M1 :: float32
  tq_P1M0 :: float32

record DeviceTopology =
  dt_Name :: string
  dt_Qubits :: "TopologyQubit list"

section \<open>Reading the calibration data\<close>

fun jfloat :: "(string \<Rightarrow> float64 option) \<Rightarrow> json option \<Rightarrow> float64 res" where
  "jfloat fl None = Ok 0"
| "jfloat fl (Some JNull) = Ok 0"
| "jfloat fl (Some (JNum t)) = (case fl t of Some x \<Rightarrow> Ok x | None \<Rightarrow> Err err_json_type)"
| "jfloat fl (Some _) = Err err_json_type"

definition dec_pair :: "(string \<Rightarrow> float64 option) \<Rightarrow> string \<Rightarrow> string \<Rightarrow> json option \<Rightarrow> (float64 \<times> float64) res" where
  "dec_pair fl a b j =
    res_bind (jobject j) (\<lambda>kvs.
    res_bind (jfloat fl (jfield a kvs)) (\<lambda>x.
    res_bind (jfloat fl (jfield b kvs)) (\<lambda>y. Ok (x, y))))"

definition dec_MeasError :: "(string \<Rightarrow> float64 option) \<Rightarrow> json option \<Rightarrow> MeasError res" where
  "dec_MeasError fl j =
    res_bind (jobject j) (\<lambda>kvs.
    res_bind (jfloat fl (jfield ''prob_meas1_prep0'' kvs)) (\<lambda>p10.
    res_bind (jfloat fl (jfield ''prob_meas0_prep1'' kvs)) (\<lambda>p01.
    res_bind (jfloat fl (jfield ''readout_assignment_error'' kvs)) (\<lambda>ra.
      Ok \<lparr>me_ProbMeas1Prep0 = p10, me_ProbMeas0Prep1 = p01, me_ReadoutAssignmentError = ra\<rparr>))))"

definition dec_GateDur :: "(string \<Rightarrow> float64 option) \<Rightarrow> json option \<Rightarrow> (float64 \<times> float64 \<times> float64) res" where
  "dec_GateDur fl j =
    res_bind (jobject j) (\<lambda>kvs.
    res_bind (jfloat fl (jfield ''rz'' kvs)) (\<lambda>rz.
    res_bind (jfloat fl (jfield ''sx'' kvs)) (\<lambda>sx.
    res_bind (jfloat fl (jfield ''x'' kvs)) (\<lambda>x. Ok (rz, sx, x)))))"

definition dec_Qubit :: "(string \<Rightarrow> float64 option) \<Rightarrow> json \<Rightarrow> Qubit res" where
  "dec_Qubit fl j =
    res_bind (jobject (Some j)) (\<lambda>kvs.
    res_bind (jint (jfield ''id'' kvs)) (\<lambda>i.
    res_bind (jint (jfield ''physical_id'' kvs)) (\<lambda>p.
    res_bind (dec_pair fl ''x'' ''y'' (jfield ''position'' kvs)) (\<lambda>pos.
    res_bind (jfloat fl (jfield ''fidelity'' kvs)) (\<lambda>fid.
    res_bind (dec_MeasError fl (jfield ''meas_error'' kvs)) (\<lambda>me.
    res_bind (dec_pair fl ''t1'' ''t2'' (jfield ''qubit_lifetime'' kvs)) (\<lambda>life.
    res_bind (dec_GateDur fl (jfield ''gate_duration'' kvs)) (\<lambda>dur.
      Ok \<lparr>qb_ID = i, qb_PhysicalID = p, qb_Position = pos, qb_Fidelity = fid, qb_MeasError = me,
          qb_QubitLife = life, qb_GateDur = dur\<rparr>))))))))"

fun dec_Qubits :: "(string \<Rightarrow> float64 option) \<Rightarrow> json list \<Rightarrow> Qubit list res" where
  "dec_Qubits fl [] = Ok []"
| "dec_Qubits fl (j # js) = res_bind (dec_Qubit fl j) (\<lambda>q. res_bind (dec_Qubits fl js) (\<lambda>qs. Ok (q # qs)))"

fun dec_Qubit_array :: "(string \<Rightarrow> float64 option) \<Rightarrow> json option \<Rightarrow> Qubit list res" where
  "dec_Qubit_array fl None = Ok []"
| "dec_Qubit_array fl (Some JNull) = Ok []"
| "dec_Qubit_array fl (Some (JArr js)) = dec_Qubits fl js"
| "dec_Qubit_array fl (Some _) = Err err_json_type"

definition Unmarshal_DeviceInfoSpec :: "(string \<Rightarrow> float64 option) \<Rightarrow> string \<Rightarrow> DeviceInfoSpec res" where
  "Unmarshal_DeviceInfoSpec fl s =
    (case json_parse s of
       None \<Rightarrow> Err err_json
     | Some j \<Rightarrow>
         res_bind (jobject (Some j)) (\<lambda>kvs.
         res_bind (jstring (jfield ''device_id'' kvs)) (\<lambda>name.
         res_bind (dec_Qubit_array fl (jfield ''qubits'' kvs)) (\<lambda>qs.
           Ok \<lparr>ds_DeviceID = name, ds_Qubits = qs\<rparr>))))"

section \<open>The topology\<close>

definition topology_qubit :: "(float64 \<Rightarrow> float32) \<Rightarrow> Qubit \<Rightarrow> TopologyQubit" where
  "topology_qubit f32 q =
    \<lparr>tq_Id = word_of_int (qb_ID q), tq_GateError = f32 (qb_Fidelity q),
     tq_T1 = f32 (fst (qb_QubitLife q)), tq_T2 = f32 (snd (qb_QubitLife q)),
     tq_P0M1 = f32 (me_ProbMeas1Prep0 (qb_MeasError q)), tq_P1M0 = f32 (me_ProbMeas0Prep1 (qb_MeasError q))\<rparr>"

definition deviceTopology ::
  "(string \<Rightarrow> float64 option) \<Rightarrow> (float64 \<Rightarrow> float32) \<Rightarrow> DeviceInfo \<Rightarrow> DeviceTopology res" where
  "deviceTopology fl f32 di =
    res_bind (Unmarshal_DeviceInfoSpec fl (di_DeviceInfoSpecJson di)) (\<lambda>dis.
      Ok \<lparr>dt_Name = ds_DeviceID dis, dt_Qubits = map (topology_qubit f32) (ds_Qubits dis)\<rparr>)"

text \<open>The mitigator is asked with this topology.\<close>

definition with_topology ::
  "(string \<Rightarrow> float64 option) \<Rightarrow> (float64 \<Rightarrow> float32) \<Rightarrow> DeviceInfo \<Rightarrow> mitig_env \<Rightarrow> mitig_env" where
  "with_topology fl f32 di e =
    e\<lparr>mv_deviceTopology := (case deviceTopology fl f32 di of Err er \<Rightarrow> Some er | _ \<Rightarrow> None)\<rparr>"

lemma deviceTopology_no_panic: "deviceTopology fl f32 di \<noteq> Panic"
proof -
  have f: "jfloat fl j \<noteq> Panic" for j by (cases "(fl, j)" rule: jfloat.cases) (auto split: option.split)
  have i: "jint j \<noteq> Panic" for j by (cases j rule: jint.cases) (auto split: res.split)
  have ob: "jobject j \<noteq> Panic" for j by (cases j rule: jobject.cases) auto
  have s: "jstring j \<noteq> Panic" for j by (cases j rule: jstring.cases) auto
  have "dec_Qubit fl j \<noteq> Panic" for j
    using f i ob by (simp add: dec_Qubit_def dec_pair_def dec_MeasError_def dec_GateDur_def res_simps)
  then have "dec_Qubits fl js \<noteq> Panic" for js by (induction js) (auto simp: res_simps)
  then have "dec_Qubit_array fl j \<noteq> Panic" for j by (cases "(fl, j)" rule: dec_Qubit_array.cases) auto
  then show ?thesis
    using ob s by (auto simp: deviceTopology_def Unmarshal_DeviceInfoSpec_def res_simps split: option.splits)
qed

text \<open>
  The gate error of a qubit is its fidelity, not the complement of it: a perfect qubit is announced with
  the gate error of a useless one.
\<close>

lemma topology_gate_error:
  assumes "deviceTopology fl f32 di = Ok dt"
  shows "\<exists>dis. Unmarshal_DeviceInfoSpec fl (di_DeviceInfoSpecJson di) = Ok dis \<and>
    map tq_GateError (dt_Qubits dt) = map (f32 \<circ> qb_Fidelity) (ds_Qubits dis)"
  using assms by (auto simp: deviceTopology_def topology_qubit_def res_simps comp_def)

end
