(* ===== verification/Spec2Isabelle.thy ===== *)
theory Spec2Isabelle
  imports Edge_Main SSE_Container Qasm_Accept Api_Exchange Device_Topology
begin

text \<open>
  A verification development for the OQTOPUS engine, the program under \<open>src/coreapp\<close> that takes quantum
  jobs from a provider's cloud, runs them on a device and reports their results.

  \<^bold>\<open>The program.\<close> The command \<open>poller\<close> (\<open>cmd/edge/main.go\<close>) reads the settings, sets up the system
  components (\<open>core/syscomponent.go\<close>: transpiler, scheduler, database, QPU and the router for user
  programs), registers the job types and starts a run group (\<open>core/run.go\<close>) of periodic tasks. The poller
  (\<open>poller\<close>) asks the provider's API for jobs, through the generated client (\<open>oas/gen/providerapi\<close>) and
  the converter (\<open>oas/converter.go\<close>), and hands them to the scheduler (\<open>scheduler\<close>). The scheduler runs
  one goroutine per job, a queue goroutine and an executor; a job (\<open>sampling\<close>, \<open>estimation\<close>,
  \<open>multiprog/manual\<close>, \<open>sse\<close>, behind the interface of \<open>core/job.go\<close>) is pre-processed, queued, processed and
  post-processed, calling the transpiler (\<open>transpiler\<close>), the QPU (\<open>qpu\<close>), the error mitigator (\<open>mitig\<close>)
  and other services. Every change of a job goes over the DB channel to a database, in memory
  (\<open>core/db.go\<close>) or behind the API (\<open>db/service.go\<close>). User programs of SSE jobs run in containers and call
  back into the engine through a gRPC router (\<open>sse/router\<close>).

  \<^bold>\<open>The model.\<close> Go functions are HOL functions with the names of the source. A pointer is an option, and
  following a nil pointer, a failing type assertion or a nil map store is \<open>Panic\<close> (type \<open>res\<close>) or \<open>Pan\<close>
  (type \<open>outcome\<close>, which also carries the state reached). A Go map is an association list in the order of
  iteration. \<open>uint32\<close> and \<open>int32\<close> are 32-bit words, the platform's \<open>int\<close> is \<open>int\<close>. What lies outside the
  program (gRPC and HTTP services, Docker, the operating system, the TOML decoder, the runtime of ANTLR,
  floating-point formatting) is an argument of the definitions that use it, most of them a record of
  answers; what a theorem needs of it is a hypothesis of the theorem, and its witness shows a concrete
  instance.

  \<^item> \<open>Go_Prelude\<close>, \<open>Go_Strings\<close>, \<open>Go_Json\<close>, \<open>Go_Url\<close>, \<open>Go_Proc\<close>: results and panics, Go maps, numbers and
    texts, JSON (\<open>json_print_parse\<close>: what is printed is parsed back), the paths of \<open>net/url\<close> with their
    escapes, procedures with a state. The JSON parser has fuel twice the length of the text, which that
    lemma shows to be enough.
  \<^item> \<open>Core_Data\<close>, \<open>Core_DB\<close>, \<open>Core_Setting\<close>, \<open>Common_Util\<close>: \<open>core/data.go\<close>, \<open>core/db.go\<close> (locale
    \<open>job_store\<close>), settings, helpers. \<open>Job_Json\<close>: the JSON of job data, which the container of an SSE job
    gets, and the printers for the log.
  \<^item> \<open>Core_Job\<close>, \<open>Sampling_Job\<close>, \<open>Manual_Job\<close> with \<open>Result_Divider\<close>, \<open>Estimation_Job\<close>, \<open>SSE_Run\<close>,
    \<open>SSE_Job\<close> and \<open>SSE_Container\<close>, \<open>Mitigation\<close>: the jobs. \<open>Core_Job\<close> has the interface as a record of operations and its
    contract as the locale \<open>job_contract\<close>, which every job type interprets; \<open>Jobs\<close> puts them together
    and models the job manager. Shown are, per type, how a job ends on every path, the division of a
    combined result into marginal counts, and that no container, volume or directory is left behind. \<open>SSE_Container\<close> has the calls of
    Docker up to the user program with their arguments, shows what the program of a user may do, and checks
    that this second translation of the lines agrees with \<open>RunSSE\<close>.
  \<^item> \<open>Queue\<close>, \<open>Scheduler\<close>, \<open>Job_Handling\<close>: the queue, the goroutines as an interleaving step relation, and
    the theorems about every reachable state: a job that is done is saved with its final data, a job is in
    one place at a time, no deadlock, a bound on the number of steps, order and bound of the queue. The
    wrapped FIFO package is a record of operations with the contract \<open>fifo_queue\<close>; \<open>job_queue\<close> gives what the
    scheduler needs of it, and \<open>scheduler\<close> joins it with \<open>job_contract\<close>. All theorems hold for every queue
    with the contract; a queue that is a list serves for examples only. The DB channel is neither closed
    nor full for ever: sending to it always succeeds.
  \<^item> \<open>Transpiler\<close>, \<open>Qpu\<close>, \<open>Device_Polling\<close>, \<open>Device_Topology\<close>, \<open>Circuit\<close>: the clients of the transpiler and
    the gateway, device polling with its timer and signals (what a gateway answers depends on whether the
    connection is open), the calibration data that the mitigator gets, the intermediate representation of a
    circuit and the check of a program.
  \<^item> \<open>Antlr_Parser\<close>, \<open>Antlr_Grammar\<close>, \<open>Antlr_Termination\<close>, \<open>Antlr_Binding\<close>: the code of a parser that ANTLR
    generates, and the interpreter of its statements. Locales state when such code follows a grammar
    (\<open>checked_code\<close>, \<open>descent\<close>), reads tokens (\<open>progressing\<close>), ends (\<open>terminating\<close>) and binds operators
    (\<open>labelled\<close>); each is interpreted for the parser of OpenQASM 3 by a check of its rules in the kernel.
    The interpreter has fuel for its recursion depth, linear in the number of tokens, which
    \<open>parse_program_returns\<close> shows to be enough.
  \<^item> \<open>Qasm_Rules\<close>, \<open>Qasm_Grammar\<close>, \<open>Qasm_Contexts\<close>, \<open>Qasm_Parser\<close>: the rule functions of
    \<open>core/parser/qasm3_parser.go\<close>, the grammar file \<open>qasm3Parser.g4\<close>, and the functions by which a context gives
    its children. The parser accepts only what the grammar derives, on every input it returns, and the
    right operand of an operator binds more tightly; every child of a node can be read.
  \<^item> \<open>Qasm_Circuit\<close>, \<open>Qasm_Accept\<close>: from the tree to \<open>Circuit\<close>: the names that the statement filters see, the
    callbacks that the tree walker makes, and which programs are accepted for a device; what the lists of a
    device see of a program, for every program that the parser reads.
  \<^item> \<open>Cloud_Job\<close>, \<open>Service_DB\<close>: the conversion from and to the API's job definitions, the reports.
  \<^item> \<open>Api_Codec\<close>, \<open>Api_Json\<close>, \<open>Api_Client\<close>, \<open>Api_Flow\<close>: the generated client of the API. \<open>Api_Codec\<close> has
    the loop over the members of an object with its bits for required fields (locale \<open>struct_table\<close>) and
    the contract of an encoder and a decoder (locale \<open>codec\<close>), which \<open>Api_Json\<close> interprets for every
    type; \<open>Api_Client\<close> has validation, requests and answers; \<open>Api_Flow\<close> puts poller, service database
    and gateway agent on top of it: reports and jobs survive the wire, accepted jobs are well-typed, and
    what an answer that is not accepted does to the engine.
  \<^item> \<open>Api_Router\<close>, \<open>Api_Server\<close>, \<open>Api_Exchange\<close>: the generated server of the API, which a provider
    implements. The router, a tree of path prefixes, is shown to be a lookup in the table of operations;
    \<open>Api_Exchange\<close> connects client and server: the server parses the path that was sent with \<open>net/url\<close>, and
    the named laws \<open>normalizes\<close> and \<open>id_arrives\<close> say what ogen's package \<open>uri\<close> does with an escaped segment. The contract of the two halves of an operation is the
    locale \<open>api_operation\<close>, interpreted for every operation: a call of the client arrives at the
    handler, and the answer of the handler at the caller. So reports and polls of the engine reach the
    provider, and nothing does without an accepted key.
  \<^item> \<open>Run_Group\<close>, \<open>Poller\<close>, \<open>Metrics_Log\<close>: run groups (locale \<open>periodic_task\<close>, interpreted for each
    task: how the actor of a task ends), the poller with its back-off, the daily metrics log.
  \<^item> \<open>SSE_Router\<close>, \<open>Job_Reports\<close>, \<open>Engine\<close>, \<open>Edge_Main\<close>: the router for user programs, the way of a job
    from the poll to its report, the start of the engine, its logger and its exit status.

  \<^bold>\<open>Not modelled.\<close> The QASM lexer and the prediction of alternatives, which are tables that ANTLR
  interprets (both are arguments of the parser), tracing and metrics of the API's client and server,
  protobuf code, the mocks of the tests, the packages that parse the command line, write the log and run
  the actors of the run group (all are arguments), the lengths of time-outs and periods (a tick is an
  event), and floating-point arithmetic.
\<close>

end
